(* ===== verification/Go_Strings.thy ===== *)
theory Go_Strings
  imports Akt_Prelude "HOL-Library.Char_ord" "HOL-Library.List_Lexorder"
begin

text \<open>
  The part of Go's standard library on strings that the source uses, on byte strings:
  \<open>strings.Split\<close>, \<open>Join\<close>, \<open>Cut\<close>, \<open>CutPrefix\<close>, \<open>HasPrefix\<close>, \<open>Contains\<close>, \<open>TrimSpace\<close>,
  \<open>ToLower\<close> (on ASCII letters), \<open>strconv.FormatUint\<close> and \<open>strconv.ParseUint\<close>, with the
  facts the components rely on: split and join are inverse, parsing inverts formatting.
\<close>

section \<open>Split, join, cut\<close>

text \<open>\<open>strings.Split (s, sep)\<close> for a one-byte separator: never the empty list.\<close>

fun split_on :: "char \<Rightarrow> string \<Rightarrow> string list" where
  "split_on c [] = [[]]"
| "split_on c (x # xs) =
     (if x = c then [] # split_on c xs
      else (case split_on c xs of [] \<Rightarrow> [[x]] | y # ys \<Rightarrow> (x # y) # ys))"

fun join_with :: "string \<Rightarrow> string list \<Rightarrow> string" where
  "join_with sep [] = []"
| "join_with sep [x] = x"
| "join_with sep (x # y # ys) = x @ sep @ join_with sep (y # ys)"

lemma split_on_not_Nil [simp]: "split_on c s \<noteq> []"
  by (induction s) (auto split: list.splits)

lemma split_on_no_sep: "c \<notin> set s \<Longrightarrow> split_on c s = [s]"
  by (induction s) auto

lemma split_on_append:
  "c \<notin> set s \<Longrightarrow> split_on c (s @ c # t) = s # split_on c t"
  by (induction s) auto

lemma join_split [simp]: "join_with [c] (split_on c s) = s"
proof (induction s)
  case Nil
  then show ?case by simp
next
  case (Cons x xs)
  obtain y ys where ys: "split_on c xs = y # ys"
    by (meson list.exhaust split_on_not_Nil)
  with Cons show ?case by (cases ys) auto
qed

lemma split_join:
  "xs \<noteq> [] \<Longrightarrow> (\<forall>s \<in> set xs. c \<notin> set s) \<Longrightarrow> split_on c (join_with [c] xs) = xs"
proof (induction "[c]" xs rule: join_with.induct)
  case (2 x)
  then show ?case by (simp add: split_on_no_sep)
next
  case (3 x y ys)
  then show ?case by (simp add: split_on_append)
qed simp

lemma split_on_parts: "s \<in> set (split_on c t) \<Longrightarrow> c \<notin> set s"
proof (induction t arbitrary: s)
  case Nil
  then show ?case by simp
next
  case (Cons x xs)
  then show ?case by (fastforce split: if_splits list.splits)
qed

text \<open>\<open>strings.Cut (s, sep)\<close>, one-byte separator: the parts around the first occurrence.\<close>

fun cut_at :: "char \<Rightarrow> string \<Rightarrow> (string \<times> string) option" where
  "cut_at c [] = None"
| "cut_at c (x # xs) =
     (if x = c then Some ([], xs)
      else map_option (\<lambda>(a, b). (x # a, b)) (cut_at c xs))"

lemma cut_at_None_iff: "cut_at c s = None \<longleftrightarrow> c \<notin> set s"
  by (induction s) auto

lemma cut_at_Some_iff: "cut_at c s = Some (a, b) \<longleftrightarrow> s = a @ c # b \<and> c \<notin> set a"
proof (induction s arbitrary: a)
  case Nil
  then show ?case by simp
next
  case (Cons x xs)
  then show ?case by (cases a) auto
qed

text \<open>\<open>strings.HasPrefix\<close>, \<open>CutPrefix\<close>, \<open>HasSuffix\<close> and \<open>Contains\<close>.\<close>

fun cut_prefix :: "string \<Rightarrow> string \<Rightarrow> string option" where
  "cut_prefix [] s = Some s"
| "cut_prefix (p # ps) [] = None"
| "cut_prefix (p # ps) (x # xs) = (if p = x then cut_prefix ps xs else None)"

definition has_prefix :: "string \<Rightarrow> string \<Rightarrow> bool" where
  "has_prefix s p \<longleftrightarrow> cut_prefix p s \<noteq> None"

fun contains :: "string \<Rightarrow> string \<Rightarrow> bool" where
  "contains [] p = (p = [])"
| "contains (x # xs) p = (has_prefix (x # xs) p \<or> contains xs p)"

lemma cut_prefix_Some_iff: "cut_prefix p s = Some t \<longleftrightarrow> s = p @ t"
  by (induction p s rule: cut_prefix.induct) auto

lemma has_prefix_iff: "has_prefix s p \<longleftrightarrow> (\<exists>t. s = p @ t)"
  by (auto simp: has_prefix_def cut_prefix_Some_iff)

lemma contains_iff: "contains s p \<longleftrightarrow> (\<exists>a b. s = a @ p @ b)"
proof (induction s)
  case Nil
  then show ?case by auto
next
  case (Cons x xs)
  show ?case (is "_ \<longleftrightarrow> ?R")
  proof
    assume "contains (x # xs) p"
    then show ?R
      using Cons by (metis append_Cons append_Nil contains.simps(2) has_prefix_iff)
  next
    assume ?R
    then obtain a b where ab: "x # xs = a @ p @ b" by blast
    show "contains (x # xs) p"
    proof (cases a)
      case Nil
      with ab have "has_prefix (x # xs) p" unfolding has_prefix_iff by auto
      then show ?thesis by simp
    next
      case (Cons y ys)
      with ab Cons.IH show ?thesis by auto
    qed
  qed
qed

section \<open>TrimSpace\<close>

text \<open>The UTF-8 encodings of the code points that \<open>unicode.IsSpace\<close> accepts.\<close>

definition ascii_space :: "char \<Rightarrow> bool" where
  "ascii_space c \<longleftrightarrow> c \<in> set [CHR 0x09, CHR 0x0A, CHR 0x0B, CHR 0x0C, CHR 0x0D, CHR 0x20]"

definition utf8_spaces :: "string list" where
  "utf8_spaces =
     [[CHR 0xC2, CHR 0x85], [CHR 0xC2, CHR 0xA0], [CHR 0xE1, CHR 0x9A, CHR 0x80],
      [CHR 0xE2, CHR 0x80, CHR 0x80], [CHR 0xE2, CHR 0x80, CHR 0x81], [CHR 0xE2, CHR 0x80, CHR 0x82],
      [CHR 0xE2, CHR 0x80, CHR 0x83], [CHR 0xE2, CHR 0x80, CHR 0x84], [CHR 0xE2, CHR 0x80, CHR 0x85],
      [CHR 0xE2, CHR 0x80, CHR 0x86], [CHR 0xE2, CHR 0x80, CHR 0x87], [CHR 0xE2, CHR 0x80, CHR 0x88],
      [CHR 0xE2, CHR 0x80, CHR 0x89], [CHR 0xE2, CHR 0x80, CHR 0x8A], [CHR 0xE2, CHR 0x80, CHR 0xA8],
      [CHR 0xE2, CHR 0x80, CHR 0xA9], [CHR 0xE2, CHR 0x80, CHR 0xAF], [CHR 0xE2, CHR 0x81, CHR 0x9F],
      [CHR 0xE3, CHR 0x80, CHR 0x80]]"

text \<open>
  Trimming on one side: drop ASCII spaces one by one, and a multi-byte space as a whole.
  The right side is the left side of the reversed string with reversed encodings.
\<close>

definition drop_space :: "string list \<Rightarrow> string \<Rightarrow> string option" where
  "drop_space ws s =
     (case s of [] \<Rightarrow> None
      | c # cs \<Rightarrow>
          if ascii_space c then Some cs
          else if of_char c < (128::nat) then None
          else (case List.find (\<lambda>w. has_prefix s w) ws of
                  None \<Rightarrow> None | Some w \<Rightarrow> Some (drop (length w) s)))"

fun trim_fuel :: "nat \<Rightarrow> string list \<Rightarrow> string \<Rightarrow> string" where
  "trim_fuel 0 ws s = s"
| "trim_fuel (Suc n) ws s =
     (case drop_space ws s of None \<Rightarrow> s | Some t \<Rightarrow> trim_fuel n ws t)"

definition trim_space :: "string \<Rightarrow> string" where
  "trim_space s =
     (let l = trim_fuel (length s) utf8_spaces s
      in rev (trim_fuel (length l) (map rev utf8_spaces) (rev l)))"

lemma drop_space_shorter:
  assumes "drop_space ws s = Some t" and "[] \<notin> set ws"
  shows "length t < length s"
proof (cases s)
  case Nil
  with assms show ?thesis by (simp add: drop_space_def)
next
  case (Cons c cs)
  have "length (drop (length w) s) < length s" if "List.find (\<lambda>w. has_prefix s w) ws = Some w" for w
  proof -
    from that have "w \<in> set ws" by (auto simp: find_Some_iff)
    with assms(2) have "w \<noteq> []" by auto
    with Cons show ?thesis by simp
  qed
  with Cons assms show ?thesis
    by (auto simp: drop_space_def split: if_splits option.splits)
qed

lemma utf8_spaces_nonempty: "[] \<notin> set utf8_spaces" "[] \<notin> set (map rev utf8_spaces)"
  by (simp_all add: utf8_spaces_def)

text \<open>The fuel is enough: what is left starts with no space.\<close>

lemma trim_fuel_done:
  "[] \<notin> set ws \<Longrightarrow> length s \<le> n \<Longrightarrow> drop_space ws (trim_fuel n ws s) = None"
proof (induction n arbitrary: s)
  case 0
  then show ?case by (simp add: drop_space_def)
next
  case (Suc n)
  then show ?case
    by (cases "drop_space ws s") (auto dest: drop_space_shorter)
qed

lemma trim_fuel_no_space: "drop_space ws s = None \<Longrightarrow> trim_fuel n ws s = s"
  by (cases n) simp_all

text \<open>A string that starts and ends with a printable ASCII character is unchanged.\<close>

definition printable :: "char \<Rightarrow> bool" where
  "printable c \<longleftrightarrow> 0x20 < (of_char c :: nat) \<and> (of_char c :: nat) < 0x7F"

lemma printable_not_space: "printable c \<Longrightarrow> \<not> ascii_space c"
  by (auto simp: printable_def ascii_space_def)

lemma drop_space_printable: "printable c \<Longrightarrow> drop_space ws (c # s) = None"
  by (auto simp: drop_space_def printable_not_space) (simp add: printable_def)

lemma trim_space_printable:
  assumes "s = [] \<or> printable (hd s) \<and> printable (last s)"
  shows "trim_space s = s"
proof (cases s)
  case Nil
  then show ?thesis by (simp add: trim_space_def)
next
  case (Cons c cs)
  with assms have "drop_space utf8_spaces s = None"
    by (simp add: drop_space_printable)
  moreover from Cons have "rev s = last s # rev (butlast s)"
    by (metis append_butlast_last_id list.distinct(1) rev_eq_Cons_iff rev_rev_ident)
  with assms Cons have "drop_space (map rev utf8_spaces) (rev s) = None"
    by (simp add: drop_space_printable)
  ultimately show ?thesis
    by (simp add: trim_space_def trim_fuel_no_space)
qed

section \<open>ASCII case\<close>

definition lower_char :: "char \<Rightarrow> char" where
  "lower_char c =
     (let n = of_char c :: nat in if 65 \<le> n \<and> n \<le> 90 then char_of (n + 32) else c)"

definition to_lower :: "string \<Rightarrow> string" where
  "to_lower s = map lower_char s"

section \<open>Decimal numbers\<close>

definition digit_char :: "nat \<Rightarrow> char" where
  "digit_char d = char_of (48 + d)"

definition digit_val :: "char \<Rightarrow> nat option" where
  "digit_val c = (let n = of_char c :: nat in if 48 \<le> n \<and> n \<le> 57 then Some (n - 48) else None)"

text \<open>\<open>strconv.FormatUint (n, 10)\<close>.\<close>

fun format_nat :: "nat \<Rightarrow> string" where
  "format_nat n = (if n < 10 then [digit_char n] else format_nat (n div 10) @ [digit_char (n mod 10)])"

declare format_nat.simps [simp del]

definition format_uint :: "'a::len word \<Rightarrow> string" where
  "format_uint w = format_nat (unat w)"

datatype num_err = ErrSyntax | ErrRange

text \<open>
  \<open>strconv.ParseUint (s, 10, bits)\<close>: digits from the left, a character that is no digit is
  a syntax error, and the first digit that pushes the value beyond the range is a range
  error whatever follows it.
\<close>

fun parse_digits :: "nat \<Rightarrow> nat \<Rightarrow> string \<Rightarrow> num_err + nat" where
  "parse_digits mx acc [] = Inr acc"
| "parse_digits mx acc (c # cs) =
     (case digit_val c of
        None \<Rightarrow> Inl ErrSyntax
      | Some d \<Rightarrow>
          (if mx < acc * 10 + d then Inl ErrRange else parse_digits mx (acc * 10 + d) cs))"

definition parse_uint :: "nat \<Rightarrow> string \<Rightarrow> num_err + nat" where
  "parse_uint bits s = (if s = [] then Inl ErrSyntax else parse_digits (2 ^ bits - 1) 0 s)"

lemma digit_val_digit_char [simp]: "d < 10 \<Longrightarrow> digit_val (digit_char d) = Some d"
  by (simp add: digit_val_def digit_char_def)

lemma digit_val_bound: "digit_val c = Some d \<Longrightarrow> d < 10"
  by (auto simp: digit_val_def Let_def split: if_splits)

lemma format_nat_not_Nil [simp]: "format_nat n \<noteq> []"
  by (subst format_nat.simps) simp

lemma format_nat_digits: "c \<in> set (format_nat n) \<Longrightarrow> digit_val c \<noteq> None"
proof (induction n rule: format_nat.induct)
  case (1 n)
  then show ?case
    by (cases "n < 10") (auto simp: format_nat.simps [of n])
qed

lemma format_nat_no_char: "digit_val c = None \<Longrightarrow> c \<notin> set (format_nat n)"
  using format_nat_digits by blast

lemma parse_digits_mono:
  "parse_digits mx acc s = Inr n \<Longrightarrow> acc \<le> n"
proof (induction mx acc s rule: parse_digits.induct)
  case (2 mx acc c cs)
  then show ?case by (fastforce split: option.splits if_splits)
qed simp

lemma parse_digits_bound:
  "acc \<le> mx \<Longrightarrow> parse_digits mx acc s = Inr n \<Longrightarrow> n \<le> mx"
  by (induction mx acc s rule: parse_digits.induct) (auto split: option.splits if_splits)

lemma parse_digits_append:
  "parse_digits mx acc (s @ t) = rbind (parse_digits mx acc s) (\<lambda>a. parse_digits mx a t)"
  by (induction mx acc s rule: parse_digits.induct) (auto split: option.splits)

lemma parse_digits_format: "n \<le> mx \<Longrightarrow> parse_digits mx 0 (format_nat n) = Inr n"
proof (induction n rule: format_nat.induct)
  case (1 n)
  show ?case
  proof (cases "n < 10")
    case True
    with "1.prems" show ?thesis by (simp add: format_nat.simps [of n])
  next
    case False
    with "1" have "parse_digits mx 0 (format_nat (n div 10)) = Inr (n div 10)" by simp
    moreover have "n div 10 * 10 + n mod 10 = n" by (rule div_mult_mod_eq)
    ultimately show ?thesis
      using False "1.prems" by (simp add: format_nat.simps [of n] parse_digits_append)
  qed
qed

lemma parse_format_nat: "n < 2 ^ bits \<Longrightarrow> parse_uint bits (format_nat n) = Inr n"
  by (simp add: parse_uint_def parse_digits_format)

lemma parse_uint_bound: "parse_uint bits s = Inr n \<Longrightarrow> n < 2 ^ bits"
proof -
  assume "parse_uint bits s = Inr n"
  then have "n \<le> 2 ^ bits - 1"
    by (auto simp: parse_uint_def split: if_splits intro: parse_digits_bound)
  moreover have "(0::nat) < 2 ^ bits" by simp
  ultimately show ?thesis by linarith
qed

lemma format_nat_inj: "format_nat m = format_nat n \<Longrightarrow> m = n"
proof -
  assume eq: "format_nat m = format_nat n"
  have "parse_digits (max m n) 0 (format_nat m) = Inr m"
    by (rule parse_digits_format) simp
  moreover have "parse_digits (max m n) 0 (format_nat n) = Inr n"
    by (rule parse_digits_format) simp
  ultimately show ?thesis
    unfolding eq by (metis sum.inject(2))
qed

lemma format_uint_inj: "format_uint (v :: 'a::len word) = format_uint w \<Longrightarrow> v = w"
  unfolding format_uint_def by (drule format_nat_inj) (rule unsigned_word_eqI)

lemma parse_format_uint:
  "LENGTH('a) \<le> bits \<Longrightarrow> parse_uint bits (format_uint (w :: 'a::len word)) = Inr (unat w)"
proof -
  assume "LENGTH('a) \<le> bits"
  then have "(2::nat) ^ LENGTH('a) \<le> 2 ^ bits" by (intro power_increasing) simp_all
  then have "unat w < 2 ^ bits" using unsigned_less [of w] by (rule order_less_le_trans [rotated])
  then show ?thesis by (simp add: format_uint_def parse_format_nat)
qed

lemma format_uint_no_colon [simp]: "CHR '':'' \<notin> set (format_uint w)"
  by (auto simp: format_uint_def format_nat_no_char digit_val_def)

lemma format_uint_no_slash [simp]: "CHR ''/'' \<notin> set (format_uint w)"
  by (auto simp: format_uint_def format_nat_no_char digit_val_def)

lemma format_uint_not_Nil [simp]: "format_uint w \<noteq> []"
  by (simp add: format_uint_def)

end
