(* ===== verification/Store_Types.thy ===== *)
theory Store_Types
  imports Go_Strings
begin

text \<open>
  The local deployment store's data model (\<open>src/internal/store/store.go\<close>): the records of
  deployments, leases and bids, their identities, the sync state, the filters and the
  statistics, the bucket keys, and the owner lookup by deployment sequence.  Field names
  carry a prefix, since Isabelle's record selectors are global.  A Go map that the code
  compares with nil is an \<open>option\<close> of a map (nil is \<open>None\<close>).
\<close>

type_synonym bytes = string

section \<open>Records\<close>

datatype ExportFormat = FormatYAML | FormatJSON | FormatOther int

record DeploymentRecord =
  dOwner :: string
  dDSeq :: u64
  dState :: string
  dVersion :: bytes
  dSDLHash :: string
  dSDLPath :: string
  dDeposit :: string
  dEscrowBalance :: string
  dTransferred :: string
  dCreatedAt :: int
  dUpdatedAt :: int
  dClosedAt :: int
  dCreatedHeight :: int
  dLabels :: "(string \<rightharpoonup> string) option"
  dNotes :: string
  dTags :: "string list"
  dRecordVersion :: u64

record LeaseID =
  liOwner :: string
  liDSeq :: u64
  liGSeq :: u32
  liOSeq :: u32
  liProvider :: string

record LeaseEndpoint =
  epService :: string
  epExternalPort :: u32
  epURI :: string

record LeaseRecord =
  lID :: LeaseID
  lState :: string
  lPrice :: string
  lProviderURI :: string
  lEndpoints :: "LeaseEndpoint list"
  lCreatedAt :: int
  lClosedAt :: int
  lRecordVersion :: u64

record BidID =
  biOwner :: string
  biDSeq :: u64
  biGSeq :: u32
  biOSeq :: u32
  biProvider :: string

record BidRecord =
  bID :: BidID
  bState :: string
  bPrice :: string
  bProviderAttributes :: "(string \<rightharpoonup> string) option"
  bProviderAudited :: bool
  bCreatedAt :: int
  bRecordVersion :: u64

record SyncState =
  sLastBlockHeight :: int
  sLastSyncTime :: int
  sTrackedAccounts :: "string list"
  sSchemaVersion :: u64

record DeploymentFilter =
  dfOwner :: string
  dfState :: string
  dfTags :: "string list"
  dfLabel :: string

record LeaseFilter =
  lfOwner :: string
  lfDSeq :: u64
  lfProvider :: string
  lfState :: string

record BidFilter =
  bfOwner :: string
  bfDSeq :: u64
  bfProvider :: string
  bfState :: string

record StoreStats =
  stDeployments :: int
  stActiveDeployments :: int
  stClosedDeployments :: int
  stLeases :: int
  stActiveLeases :: int
  stClosedLeases :: int
  stInsufficientFundsLeases :: int
  stBids :: int
  stOpenBids :: int
  stMatchedBids :: int
  stClosedBids :: int
  stLostBids :: int

text \<open>Go's zero values of the structs, the start of every composite literal and decode.\<close>

definition zero_deployment :: DeploymentRecord where
  "zero_deployment = \<lparr>dOwner = [], dDSeq = 0, dState = [], dVersion = [], dSDLHash = [],
     dSDLPath = [], dDeposit = [], dEscrowBalance = [], dTransferred = [], dCreatedAt = 0,
     dUpdatedAt = 0, dClosedAt = 0, dCreatedHeight = 0, dLabels = None, dNotes = [],
     dTags = [], dRecordVersion = 0\<rparr>"

definition zero_lease :: LeaseRecord where
  "zero_lease = \<lparr>lID = \<lparr>liOwner = [], liDSeq = 0, liGSeq = 0, liOSeq = 0, liProvider = []\<rparr>,
     lState = [], lPrice = [], lProviderURI = [], lEndpoints = [], lCreatedAt = 0,
     lClosedAt = 0, lRecordVersion = 0\<rparr>"

definition zero_bid :: BidRecord where
  "zero_bid = \<lparr>bID = \<lparr>biOwner = [], biDSeq = 0, biGSeq = 0, biOSeq = 0, biProvider = []\<rparr>,
     bState = [], bPrice = [], bProviderAttributes = None, bProviderAudited = False,
     bCreatedAt = 0, bRecordVersion = 0\<rparr>"

definition zero_sync :: SyncState where
  "zero_sync = \<lparr>sLastBlockHeight = 0, sLastSyncTime = 0, sTrackedAccounts = [], sSchemaVersion = 0\<rparr>"

definition zero_stats :: StoreStats where
  "zero_stats = \<lparr>stDeployments = 0, stActiveDeployments = 0, stClosedDeployments = 0,
     stLeases = 0, stActiveLeases = 0, stClosedLeases = 0, stInsufficientFundsLeases = 0,
     stBids = 0, stOpenBids = 0, stMatchedBids = 0, stClosedBids = 0, stLostBids = 0\<rparr>"

section \<open>Keys\<close>

definition DeploymentKey :: "string \<Rightarrow> u64 \<Rightarrow> string" where
  "DeploymentKey owner dseq = owner @ '':'' @ format_uint dseq"

definition LeaseKey :: "LeaseID \<Rightarrow> string" where
  "LeaseKey i = join_with '':''
     [liOwner i, format_uint (liDSeq i), format_uint (liGSeq i), format_uint (liOSeq i), liProvider i]"

definition BidKey :: "BidID \<Rightarrow> string" where
  "BidKey i = join_with '':''
     [biOwner i, format_uint (biDSeq i), format_uint (biGSeq i), format_uint (biOSeq i), biProvider i]"

abbreviation dKey :: "DeploymentRecord \<Rightarrow> string" where
  "dKey d \<equiv> DeploymentKey (dOwner d) (dDSeq d)"

abbreviation lKey :: "LeaseRecord \<Rightarrow> string" where
  "lKey l \<equiv> LeaseKey (lID l)"

abbreviation bKey :: "BidRecord \<Rightarrow> string" where
  "bKey b \<equiv> BidKey (bID b)"

section \<open>The owner of a deployment sequence\<close>

datatype 'e owner_err = ListFailed 'e | MultipleOwners u64 "string list"

text \<open>
  \<open>UniqueDeploymentOwner (s, dseq)\<close>; \<open>listing\<close> is what \<open>s.ListDeployments\<close> returns for the
  empty filter (pointers, so an element may be nil), \<open>None\<close> the nil store.
\<close>

definition UniqueDeploymentOwner ::
  "('e + DeploymentRecord option list) option \<Rightarrow> u64 \<Rightarrow> 'e owner_err + string" where
  "UniqueDeploymentOwner listing dseq =
     (case listing of
        None \<Rightarrow> Inr []
      | Some l \<Rightarrow>
          if dseq = 0 then Inr []
          else rbind (map_err ListFailed l) (\<lambda>records.
            let owners = sort (remdups (List.map_filter (\<lambda>r. case r of
                    None \<Rightarrow> None
                  | Some d \<Rightarrow> if dDSeq d \<noteq> dseq \<or> dOwner d = [] then None else Some (dOwner d))
                  records))
            in case owners of
                 [] \<Rightarrow> Inr []
               | [x] \<Rightarrow> Inr x
               | _ \<Rightarrow> Inl (MultipleOwners dseq owners)))"

section \<open>Key injectivity\<close>

lemma first_sep_inj:
  "a @ (c::char) # x = b @ c # y \<Longrightarrow> c \<notin> set a \<Longrightarrow> c \<notin> set b \<Longrightarrow> a = b \<and> x = y"
proof -
  assume eq: "a @ c # x = b @ c # y" and "c \<notin> set a" and "c \<notin> set b"
  then have "cut_at c (a @ c # x) = Some (a, x)" and "cut_at c (a @ c # x) = Some (b, y)"
    by (simp_all only: cut_at_Some_iff simp_thms)
  then show ?thesis by simp
qed

lemma last_sep_inj:
  assumes "a @ (c::char) # x = b @ c # y" and "c \<notin> set x" and "c \<notin> set y"
  shows "a = b \<and> x = y"
proof -
  from assms(1) have "rev (a @ c # x) = rev (b @ c # y)" by (rule arg_cong)
  then have eq: "rev x @ c # rev a = rev y @ c # rev b" by (simp only: rev_append rev.simps append.assoc append.simps)
  from first_sep_inj [OF eq] assms(2,3) have "rev x = rev y" and "rev a = rev b"
    by simp_all
  then show ?thesis by (simp only: rev_is_rev_conv)
qed

lemma DeploymentKey_inj [simp]:
  "DeploymentKey o1 d1 = DeploymentKey o2 d2 \<longleftrightarrow> o1 = o2 \<and> d1 = d2"
proof
  assume "DeploymentKey o1 d1 = DeploymentKey o2 d2"
  then have "o1 @ CHR '':'' # format_uint d1 = o2 @ CHR '':'' # format_uint d2"
    by (simp add: DeploymentKey_def)
  from last_sep_inj [OF this] show "o1 = o2 \<and> d1 = d2"
    by (simp add: format_uint_inj)
qed simp

lemma LeaseKey_inj:
  assumes "LeaseKey i = LeaseKey j" and "CHR '':'' \<notin> set (liOwner i)" and "CHR '':'' \<notin> set (liOwner j)"
  shows "i = j"
proof -
  from assms(1) have eq: "liOwner i @ CHR '':'' # format_uint (liDSeq i) @ CHR '':'' # format_uint (liGSeq i)
        @ CHR '':'' # format_uint (liOSeq i) @ CHR '':'' # liProvider i
      = liOwner j @ CHR '':'' # format_uint (liDSeq j) @ CHR '':'' # format_uint (liGSeq j)
        @ CHR '':'' # format_uint (liOSeq j) @ CHR '':'' # liProvider j"
    by (simp add: LeaseKey_def)
  from first_sep_inj [OF eq assms(2,3)] have 1: "liOwner i = liOwner j"
    and eq1: "format_uint (liDSeq i) @ CHR '':'' # format_uint (liGSeq i)
        @ CHR '':'' # format_uint (liOSeq i) @ CHR '':'' # liProvider i
      = format_uint (liDSeq j) @ CHR '':'' # format_uint (liGSeq j)
        @ CHR '':'' # format_uint (liOSeq j) @ CHR '':'' # liProvider j" by blast+
  from first_sep_inj [OF eq1] have 2: "liDSeq i = liDSeq j"
    and eq2: "format_uint (liGSeq i) @ CHR '':'' # format_uint (liOSeq i) @ CHR '':'' # liProvider i
      = format_uint (liGSeq j) @ CHR '':'' # format_uint (liOSeq j) @ CHR '':'' # liProvider j"
    by (auto intro: format_uint_inj)
  from first_sep_inj [OF eq2] have 3: "liGSeq i = liGSeq j"
    and eq3: "format_uint (liOSeq i) @ CHR '':'' # liProvider i = format_uint (liOSeq j) @ CHR '':'' # liProvider j"
    by (auto intro: format_uint_inj)
  from first_sep_inj [OF eq3] have 4: "liOSeq i = liOSeq j" "liProvider i = liProvider j"
    by (auto intro: format_uint_inj)
  from 1 2 3 4 show ?thesis by (simp add: LeaseID.equality)
qed

text \<open>A bid key is the lease key of the same five components, so the fact transfers.\<close>

definition bid_as_lease :: "BidID \<Rightarrow> LeaseID" where
  "bid_as_lease i = \<lparr>liOwner = biOwner i, liDSeq = biDSeq i, liGSeq = biGSeq i,
     liOSeq = biOSeq i, liProvider = biProvider i\<rparr>"

lemma BidKey_as_lease: "BidKey i = LeaseKey (bid_as_lease i)"
  by (simp add: BidKey_def LeaseKey_def bid_as_lease_def)

lemma bid_as_lease_inj: "bid_as_lease i = bid_as_lease j \<Longrightarrow> i = j"
  by (simp add: bid_as_lease_def BidID.equality)

lemma BidKey_inj:
  assumes "BidKey i = BidKey j" and "CHR '':'' \<notin> set (biOwner i)" and "CHR '':'' \<notin> set (biOwner j)"
  shows "i = j"
proof -
  have "bid_as_lease i = bid_as_lease j"
    using assms by (intro LeaseKey_inj) (simp_all add: BidKey_as_lease bid_as_lease_def)
  then show ?thesis by (rule bid_as_lease_inj)
qed

lemma keys_not_Nil [simp]: "DeploymentKey ow d \<noteq> []" "LeaseKey i \<noteq> []" "BidKey j \<noteq> []"
  by (simp_all add: DeploymentKey_def LeaseKey_def BidKey_def)

end
