(* ===== verification/Bolt_Store.thy ===== *)
theory Bolt_Store
  imports Store_Types
begin

text \<open>
  The bbolt-backed store (\<open>src/internal/store/bbolt/store.go\<close>, \<open>migrate.go\<close>, \<open>open.go\<close>).

  The key-value database \<open>go.etcd.io/bbolt\<close> is not part of the repository: its buckets and
  its read-write transaction are parameters, the fields \<open>bkt_\<dots>\<close> and \<open>db_update\<close> of the
  record \<open>ext\<close>.  So are the JSON encodings and the big-endian integers, on an abstract type
  of stored byte sequences, which the code only passes on (the source passes \<open>marshal\<close> as
  an argument too).  The locale \<open>store_env\<close> of the theory \<open>Store_Env\<close> states their
  documented behaviour.  A database is a partial function from bucket names to buckets;
  reading (\<open>db.View\<close>) is applying a function to it.  Calling a method of a missing bucket
  is a nil dereference in Go: the model returns \<open>NilBucket\<close>.
\<close>

section \<open>Buckets, errors, external operations\<close>

datatype bucket = Deployments | Leases | Bids | Sync | Meta

type_synonym 'b db = "bucket \<rightharpoonup> 'b"

datatype store_err =
    NilBucket bucket
  | NilDeployment | NilLease | NilBid | NilSyncState
  | DecodeRevision | RevisionExhausted u64
  | VersionDeployment store_err | VersionLease store_err | VersionBid store_err
  | MarshalDeployment | MarshalLease | MarshalBid | MarshalSyncState
  | UnmarshalDeployment | UnmarshalLease | UnmarshalBid | UnmarshalSyncState
  | UnmarshalLeaseKey bytes
  | BucketPut | BucketDelete
  | OwnerAndDseqRequired
  | StoreDeployment store_err | StoreLease bytes store_err
  | SetSchemaVersion | UpdateSchemaVersion u64
  | MigrationFailed u64 string store_err
  | CreateStoreDirectory | OpenDatabase | MigrateStore store_err
  | CommitFailed
  | ClearDataBuckets store_err | DeleteBucketFailed bucket | RecreateBucketFailed bucket store_err | BucketExists
  | ImportDeployment string u64 store_err | ImportLease bytes store_err | ImportBid bytes store_err
  | ImportSyncState store_err | DryRunRollback | NilDereference
  | CtxErr
  | OtherErr string

definition keySyncState :: bytes where
  "keySyncState = ''state''"

definition keySchemaVersion :: bytes where
  "keySchemaVersion = ''schema_version''"

definition currentSchemaVersion :: u64 where
  "currentSchemaVersion = 1"

record ('b, 'v) ext =
  bkt_new :: 'b
  bkt_get :: "'b \<Rightarrow> bytes \<Rightarrow> 'v option"
  bkt_put :: "'b \<Rightarrow> bytes \<Rightarrow> 'v \<Rightarrow> 'b option"
  bkt_delete :: "'b \<Rightarrow> bytes \<Rightarrow> 'b option"
  bkt_entries :: "'b \<Rightarrow> (bytes \<times> 'v) list"
  db_update :: "('b db \<Rightarrow> store_err + 'b db) \<Rightarrow> 'b db \<Rightarrow> store_err option \<times> 'b db"
  val_len :: "'v \<Rightarrow> nat"
  be64_put :: "u64 \<Rightarrow> 'v"
  be64_get :: "'v \<Rightarrow> u64"
  dep_marshal :: "DeploymentRecord \<Rightarrow> 'v option"
  dep_unmarshal :: "DeploymentRecord \<Rightarrow> 'v \<Rightarrow> DeploymentRecord option"
  lease_marshal :: "LeaseRecord \<Rightarrow> 'v option"
  lease_unmarshal :: "LeaseRecord \<Rightarrow> 'v \<Rightarrow> LeaseRecord option"
  bid_marshal :: "BidRecord \<Rightarrow> 'v option"
  bid_unmarshal :: "BidRecord \<Rightarrow> 'v \<Rightarrow> BidRecord option"
  sync_marshal :: "SyncState \<Rightarrow> 'v option"
  sync_unmarshal :: "SyncState \<Rightarrow> 'v \<Rightarrow> SyncState option"
  ver_unmarshal :: "'v \<Rightarrow> u64 option"

definition tx_bucket :: "'b db \<Rightarrow> bucket \<Rightarrow> store_err + 'b" where
  "tx_bucket tx n = of_opt (NilBucket n) (tx n)"

definition put_bytes ::
  "('b, 'v) ext \<Rightarrow> 'b db \<Rightarrow> bucket \<Rightarrow> bytes \<Rightarrow> 'v \<Rightarrow> store_err \<Rightarrow> store_err + 'b db" where
  "put_bytes E tx n k v err =
     rbind (tx_bucket tx n) (\<lambda>b. of_opt err (map_option (\<lambda>b'. tx(n \<mapsto> b')) (bkt_put E b k v)))"

section \<open>Opening\<close>

text \<open>
  \<open>Open\<close> after \<open>bolt.Open\<close> has returned the database; \<open>open_ok\<close> of \<open>OpenContext\<close> says whether
  it does, \<open>mkdir_ok\<close> whether the directory could be made.
\<close>

definition create_bucket :: "('b, 'v) ext \<Rightarrow> bucket \<Rightarrow> 'b db \<Rightarrow> 'b db" where
  "create_bucket E n tx = (case tx n of None \<Rightarrow> tx(n \<mapsto> bkt_new E) | Some b \<Rightarrow> tx)"

definition Open :: "('b, 'v) ext \<Rightarrow> 'b db \<Rightarrow> store_err option \<times> 'b db" where
  "Open E = db_update E (\<lambda>tx.
     let tx1 = fold (create_bucket E) [Deployments, Leases, Bids, Sync, Meta] tx
     in rbind (tx_bucket tx1 Meta) (\<lambda>meta.
          case bkt_get E meta keySchemaVersion of
            Some _ \<Rightarrow> Inr tx1
          | None \<Rightarrow> put_bytes E tx1 Meta keySchemaVersion (be64_put E currentSchemaVersion) SetSchemaVersion))"

section \<open>Record versions and writes\<close>

definition nextRecordVersion :: "('b, 'v) ext \<Rightarrow> 'v option \<Rightarrow> u64 \<Rightarrow> store_err + u64" where
  "nextRecordVersion E existing incoming =
     (case existing of
        None \<Rightarrow> Inr (if incoming = 0 then 1 else incoming)
      | Some data \<Rightarrow>
          if val_len E data = 0 then Inr (if incoming = 0 then 1 else incoming)
          else rbind (of_opt DecodeRevision (ver_unmarshal E data)) (\<lambda>stored.
            if stored < incoming then Inr incoming
            else if stored = - 1 then Inl (RevisionExhausted stored)
            else Inr (stored + 1)))"

definition putDeploymentTxWithMarshal ::
  "('b, 'v) ext \<Rightarrow> 'b db \<Rightarrow> DeploymentRecord option \<Rightarrow> (DeploymentRecord \<Rightarrow> 'v option)
    \<Rightarrow> store_err + 'b db" where
  "putDeploymentTxWithMarshal E tx d marshal =
     (case d of
        None \<Rightarrow> Inl NilDeployment
      | Some d \<Rightarrow>
          rbind (tx_bucket tx Deployments) (\<lambda>b.
            let key = DeploymentKey (dOwner d) (dDSeq d) in
            rbind (map_err VersionDeployment
                (nextRecordVersion E (bkt_get E b key) (dRecordVersion d))) (\<lambda>version.
            rbind (of_opt MarshalDeployment (marshal (d\<lparr>dRecordVersion := version\<rparr>))) (\<lambda>data.
            put_bytes E tx Deployments key data BucketPut))))"

definition putDeploymentTx :: "('b, 'v) ext \<Rightarrow> 'b db \<Rightarrow> DeploymentRecord option \<Rightarrow> store_err + 'b db" where
  "putDeploymentTx E tx d = putDeploymentTxWithMarshal E tx d (dep_marshal E)"

definition PutDeployment ::
  "('b, 'v) ext \<Rightarrow> 'b db \<Rightarrow> DeploymentRecord option \<Rightarrow> store_err option \<times> 'b db" where
  "PutDeployment E db d = db_update E (\<lambda>tx. putDeploymentTx E tx d) db"

definition GetDeployment ::
  "('b, 'v) ext \<Rightarrow> 'b db \<Rightarrow> string \<Rightarrow> u64 \<Rightarrow> store_err + DeploymentRecord option" where
  "GetDeployment E db owner dseq =
     rbind (tx_bucket db Deployments) (\<lambda>b.
       case bkt_get E b (DeploymentKey owner dseq) of
         None \<Rightarrow> Inr None
       | Some data \<Rightarrow>
           rbind (of_opt UnmarshalDeployment (dep_unmarshal E zero_deployment data)) (\<lambda>r. Inr (Some r)))"

definition DeleteDeployment :: "('b, 'v) ext \<Rightarrow> 'b db \<Rightarrow> string \<Rightarrow> u64 \<Rightarrow> store_err option \<times> 'b db" where
  "DeleteDeployment E db owner dseq = db_update E (\<lambda>tx.
     rbind (tx_bucket tx Deployments) (\<lambda>b.
       of_opt BucketDelete (map_option (\<lambda>b'. tx(Deployments \<mapsto> b'))
         (bkt_delete E b (DeploymentKey owner dseq))))) db"

definition putLeaseTxWithMarshal ::
  "('b, 'v) ext \<Rightarrow> 'b db \<Rightarrow> LeaseRecord option \<Rightarrow> (LeaseRecord \<Rightarrow> 'v option)
    \<Rightarrow> store_err + 'b db" where
  "putLeaseTxWithMarshal E tx l marshal =
     (case l of
        None \<Rightarrow> Inl NilLease
      | Some l \<Rightarrow>
          rbind (tx_bucket tx Leases) (\<lambda>b.
            let key = LeaseKey (lID l) in
            rbind (map_err VersionLease
                (nextRecordVersion E (bkt_get E b key) (lRecordVersion l))) (\<lambda>version.
            rbind (of_opt MarshalLease (marshal (l\<lparr>lRecordVersion := version\<rparr>))) (\<lambda>data.
            put_bytes E tx Leases key data BucketPut))))"

definition putLeaseTx :: "('b, 'v) ext \<Rightarrow> 'b db \<Rightarrow> LeaseRecord option \<Rightarrow> store_err + 'b db" where
  "putLeaseTx E tx l = putLeaseTxWithMarshal E tx l (lease_marshal E)"

definition PutLease :: "('b, 'v) ext \<Rightarrow> 'b db \<Rightarrow> LeaseRecord option \<Rightarrow> store_err option \<times> 'b db" where
  "PutLease E db l = db_update E (\<lambda>tx. putLeaseTx E tx l) db"

definition GetLease :: "('b, 'v) ext \<Rightarrow> 'b db \<Rightarrow> LeaseID \<Rightarrow> store_err + LeaseRecord option" where
  "GetLease E db i =
     rbind (tx_bucket db Leases) (\<lambda>b.
       case bkt_get E b (LeaseKey i) of
         None \<Rightarrow> Inr None
       | Some data \<Rightarrow>
           rbind (of_opt UnmarshalLease (lease_unmarshal E zero_lease data)) (\<lambda>r. Inr (Some r)))"

definition DeleteLease :: "('b, 'v) ext \<Rightarrow> 'b db \<Rightarrow> LeaseID \<Rightarrow> store_err option \<times> 'b db" where
  "DeleteLease E db i = db_update E (\<lambda>tx.
     rbind (tx_bucket tx Leases) (\<lambda>b.
       of_opt BucketDelete (map_option (\<lambda>b'. tx(Leases \<mapsto> b')) (bkt_delete E b (LeaseKey i))))) db"

definition putBidTxWithMarshal ::
  "('b, 'v) ext \<Rightarrow> 'b db \<Rightarrow> BidRecord option \<Rightarrow> (BidRecord \<Rightarrow> 'v option) \<Rightarrow> store_err + 'b db" where
  "putBidTxWithMarshal E tx d marshal =
     (case d of
        None \<Rightarrow> Inl NilBid
      | Some d \<Rightarrow>
          rbind (tx_bucket tx Bids) (\<lambda>b.
            let key = BidKey (bID d) in
            rbind (map_err VersionBid
                (nextRecordVersion E (bkt_get E b key) (bRecordVersion d))) (\<lambda>version.
            rbind (of_opt MarshalBid (marshal (d\<lparr>bRecordVersion := version\<rparr>))) (\<lambda>data.
            put_bytes E tx Bids key data BucketPut))))"

definition putBidTx :: "('b, 'v) ext \<Rightarrow> 'b db \<Rightarrow> BidRecord option \<Rightarrow> store_err + 'b db" where
  "putBidTx E tx d = putBidTxWithMarshal E tx d (bid_marshal E)"

definition PutBid :: "('b, 'v) ext \<Rightarrow> 'b db \<Rightarrow> BidRecord option \<Rightarrow> store_err option \<times> 'b db" where
  "PutBid E db d = db_update E (\<lambda>tx. putBidTx E tx d) db"

definition GetBid :: "('b, 'v) ext \<Rightarrow> 'b db \<Rightarrow> BidID \<Rightarrow> store_err + BidRecord option" where
  "GetBid E db i =
     rbind (tx_bucket db Bids) (\<lambda>b.
       case bkt_get E b (BidKey i) of
         None \<Rightarrow> Inr None
       | Some data \<Rightarrow>
           rbind (of_opt UnmarshalBid (bid_unmarshal E zero_bid data)) (\<lambda>r. Inr (Some r)))"

section \<open>Sync state and schema version\<close>

definition GetSyncState :: "('b, 'v) ext \<Rightarrow> 'b db \<Rightarrow> store_err + SyncState option" where
  "GetSyncState E db =
     rbind (tx_bucket db Sync) (\<lambda>b.
       case bkt_get E b keySyncState of
         None \<Rightarrow> Inr None
       | Some data \<Rightarrow>
           rbind (of_opt UnmarshalSyncState (sync_unmarshal E zero_sync data)) (\<lambda>r. Inr (Some r)))"

definition putSyncStateTxWithMarshal ::
  "('b, 'v) ext \<Rightarrow> 'b db \<Rightarrow> SyncState option \<Rightarrow> (SyncState \<Rightarrow> 'v option) \<Rightarrow> store_err + 'b db" where
  "putSyncStateTxWithMarshal E tx st marshal =
     (case st of
        None \<Rightarrow> Inl NilSyncState
      | Some st \<Rightarrow>
          rbind (of_opt MarshalSyncState (marshal st)) (\<lambda>data.
            put_bytes E tx Sync keySyncState data BucketPut))"

definition putSyncStateTx :: "('b, 'v) ext \<Rightarrow> 'b db \<Rightarrow> SyncState option \<Rightarrow> store_err + 'b db" where
  "putSyncStateTx E tx st = putSyncStateTxWithMarshal E tx st (sync_marshal E)"

definition PutSyncState :: "('b, 'v) ext \<Rightarrow> 'b db \<Rightarrow> SyncState option \<Rightarrow> store_err option \<times> 'b db" where
  "PutSyncState E db st = db_update E (\<lambda>tx. putSyncStateTx E tx st) db"

definition schemaVersionFromTx :: "('b, 'v) ext \<Rightarrow> 'b \<Rightarrow> u64" where
  "schemaVersionFromTx E meta =
     (case bkt_get E meta keySchemaVersion of
        None \<Rightarrow> 0
      | Some data \<Rightarrow> if val_len E data < 8 then 0 else be64_get E data)"

definition SchemaVersion :: "('b, 'v) ext \<Rightarrow> 'b db \<Rightarrow> u64" where
  "SchemaVersion E db =
     (case db Meta of
        None \<Rightarrow> 0
      | Some meta \<Rightarrow>
          (case bkt_get E meta keySchemaVersion of
             None \<Rightarrow> 0
           | Some data \<Rightarrow> if val_len E data < 8 then 0 else be64_get E data))"

section \<open>Filters and listings\<close>

definition matchDeployment :: "DeploymentRecord \<Rightarrow> DeploymentFilter \<Rightarrow> bool" where
  "matchDeployment d f \<longleftrightarrow>
     (if dfOwner f \<noteq> [] \<and> dOwner d \<noteq> dfOwner f then False
      else if dfState f \<noteq> [] \<and> dState d \<noteq> dfState f then False
      else if \<not> list_all (\<lambda>tag. list_ex (\<lambda>dt. dt = tag) (dTags d)) (dfTags f) then False
      else if dfLabel f \<noteq> [] then
        (case cut_at CHR ''='' (dfLabel f) of
           None \<Rightarrow> True
         | Some (k, v) \<Rightarrow>
             (case dLabels d of
                None \<Rightarrow> False
              | Some labels \<Rightarrow> (case labels k of None \<Rightarrow> [] | Some x \<Rightarrow> x) = v))
      else True)"

definition matchLease :: "LeaseRecord \<Rightarrow> LeaseFilter \<Rightarrow> bool" where
  "matchLease l f \<longleftrightarrow>
     (if lfOwner f \<noteq> [] \<and> liOwner (lID l) \<noteq> lfOwner f then False
      else if lfDSeq f \<noteq> 0 \<and> liDSeq (lID l) \<noteq> lfDSeq f then False
      else if lfProvider f \<noteq> [] \<and> liProvider (lID l) \<noteq> lfProvider f then False
      else if lfState f \<noteq> [] \<and> lState l \<noteq> lfState f then False
      else True)"

definition matchBid :: "BidRecord \<Rightarrow> BidFilter \<Rightarrow> bool" where
  "matchBid b f \<longleftrightarrow>
     (if bfOwner f \<noteq> [] \<and> biOwner (bID b) \<noteq> bfOwner f then False
      else if bfDSeq f \<noteq> 0 \<and> biDSeq (bID b) \<noteq> bfDSeq f then False
      else if bfProvider f \<noteq> [] \<and> biProvider (bID b) \<noteq> bfProvider f then False
      else if bfState f \<noteq> [] \<and> bState b \<noteq> bfState f then False
      else True)"

text \<open>The scan all three listings share: rows that do not decode are skipped.\<close>

definition scan_rows :: "('v \<Rightarrow> 'r option) \<Rightarrow> (bytes \<times> 'v) list \<Rightarrow> 'r list" where
  "scan_rows unmarshal rows = List.map_filter (\<lambda>(k, v). unmarshal v) rows"

definition ListDeployments ::
  "('b, 'v) ext \<Rightarrow> 'b db \<Rightarrow> DeploymentFilter \<Rightarrow> store_err + DeploymentRecord list" where
  "ListDeployments E db f =
     rbind (tx_bucket db Deployments) (\<lambda>b.
       Inr (filter (\<lambda>d. matchDeployment d f)
         (scan_rows (dep_unmarshal E zero_deployment) (bkt_entries E b))))"

definition ListLeases :: "('b, 'v) ext \<Rightarrow> 'b db \<Rightarrow> LeaseFilter \<Rightarrow> store_err + LeaseRecord list" where
  "ListLeases E db f =
     rbind (tx_bucket db Leases) (\<lambda>b.
       Inr (filter (\<lambda>l. matchLease l f)
         (scan_rows (lease_unmarshal E zero_lease) (bkt_entries E b))))"

definition ListBids :: "('b, 'v) ext \<Rightarrow> 'b db \<Rightarrow> BidFilter \<Rightarrow> store_err + BidRecord list" where
  "ListBids E db f =
     rbind (tx_bucket db Bids) (\<lambda>b.
       Inr (filter (\<lambda>d. matchBid d f)
         (scan_rows (bid_unmarshal E zero_bid) (bkt_entries E b))))"

section \<open>Statistics\<close>

definition count_deployment :: "DeploymentRecord \<Rightarrow> StoreStats \<Rightarrow> StoreStats" where
  "count_deployment d st =
     (let st = st\<lparr>stDeployments := stDeployments st + 1\<rparr> in
      if dState d = ''active'' then st\<lparr>stActiveDeployments := stActiveDeployments st + 1\<rparr>
      else if dState d = ''closed'' then st\<lparr>stClosedDeployments := stClosedDeployments st + 1\<rparr>
      else st)"

definition count_lease :: "LeaseRecord \<Rightarrow> StoreStats \<Rightarrow> StoreStats" where
  "count_lease l st =
     (let st = st\<lparr>stLeases := stLeases st + 1\<rparr> in
      if lState l = ''active'' then st\<lparr>stActiveLeases := stActiveLeases st + 1\<rparr>
      else if lState l = ''closed'' then st\<lparr>stClosedLeases := stClosedLeases st + 1\<rparr>
      else if lState l = ''insufficient_funds'' then
        st\<lparr>stInsufficientFundsLeases := stInsufficientFundsLeases st + 1\<rparr>
      else st)"

definition count_bid :: "BidRecord \<Rightarrow> StoreStats \<Rightarrow> StoreStats" where
  "count_bid b st =
     (let st = st\<lparr>stBids := stBids st + 1\<rparr> in
      if bState b = ''open'' then st\<lparr>stOpenBids := stOpenBids st + 1\<rparr>
      else if bState b = ''matched'' then st\<lparr>stMatchedBids := stMatchedBids st + 1\<rparr>
      else if bState b = ''closed'' then st\<lparr>stClosedBids := stClosedBids st + 1\<rparr>
      else if bState b = ''lost'' then st\<lparr>stLostBids := stLostBids st + 1\<rparr>
      else st)"

definition Stats :: "('b, 'v) ext \<Rightarrow> 'b db \<Rightarrow> store_err + StoreStats" where
  "Stats E db =
     rbind (tx_bucket db Deployments) (\<lambda>deps.
     rbind (tx_bucket db Leases) (\<lambda>leases.
     rbind (tx_bucket db Bids) (\<lambda>bids.
       Inr (fold count_bid (scan_rows (bid_unmarshal E zero_bid) (bkt_entries E bids))
           (fold count_lease (scan_rows (lease_unmarshal E zero_lease) (bkt_entries E leases))
           (fold count_deployment (scan_rows (dep_unmarshal E zero_deployment) (bkt_entries E deps))
             zero_stats))))))"

section \<open>Closing a deployment with its leases\<close>

definition close_deployment :: "int \<Rightarrow> DeploymentRecord \<Rightarrow> DeploymentRecord" where
  "close_deployment closedAt r =
     (let r1 = (if dState r \<noteq> ''closed'' \<or> dClosedAt r = 0 then r\<lparr>dClosedAt := closedAt\<rparr> else r)
      in r1\<lparr>dState := ''closed'', dUpdatedAt := closedAt\<rparr>)"

definition close_lease :: "int \<Rightarrow> LeaseRecord \<Rightarrow> LeaseRecord" where
  "close_lease closedAt l =
     (let l1 = (if lState l \<noteq> ''closed'' \<or> lClosedAt l = 0 then l\<lparr>lClosedAt := closedAt\<rparr> else l)
      in l1\<lparr>lState := ''closed''\<rparr>)"

definition lease_updates ::
  "('b, 'v) ext \<Rightarrow> string \<Rightarrow> u64 \<Rightarrow> int \<Rightarrow> (bytes \<times> 'v) list \<Rightarrow> store_err + LeaseRecord list" where
  "lease_updates E owner dseq closedAt rows =
     foldM (\<lambda>updates (k, v).
       rbind (of_opt (UnmarshalLeaseKey k) (lease_unmarshal E zero_lease v)) (\<lambda>lease.
         if liOwner (lID lease) \<noteq> owner \<or> liDSeq (lID lease) \<noteq> dseq then Inr updates
         else Inr (updates @ [close_lease closedAt lease]))) [] rows"

definition markClosedTx ::
  "('b, 'v) ext \<Rightarrow> string \<Rightarrow> u64 \<Rightarrow> int \<Rightarrow> 'b db \<Rightarrow> store_err + 'b db" where
  "markClosedTx E owner dseq closedAt tx =
     rbind (tx_bucket tx Deployments) (\<lambda>deployments.
       let record = zero_deployment\<lparr>dOwner := owner, dDSeq := dseq, dCreatedAt := closedAt\<rparr> in
       rbind (case bkt_get E deployments (DeploymentKey owner dseq) of
                None \<Rightarrow> Inr record
              | Some data \<Rightarrow> of_opt UnmarshalDeployment (dep_unmarshal E record data)) (\<lambda>record.
       rbind (map_err StoreDeployment
           (putDeploymentTx E tx (Some (close_deployment closedAt record)))) (\<lambda>tx.
       rbind (tx_bucket tx Leases) (\<lambda>leases.
       rbind (lease_updates E owner dseq closedAt (bkt_entries E leases)) (\<lambda>updates.
         foldM (\<lambda>tx u. map_err (StoreLease (LeaseKey (lID u))) (putLeaseTx E tx (Some u))) tx updates)))))"

definition MarkDeploymentClosed ::
  "('b, 'v) ext \<Rightarrow> 'b db \<Rightarrow> string \<Rightarrow> u64 \<Rightarrow> int \<Rightarrow> store_err option \<times> 'b db" where
  "MarkDeploymentClosed E db owner dseq closedAt =
     (if owner = [] \<or> dseq = 0 then (Some OwnerAndDseqRequired, db)
      else db_update E (markClosedTx E owner dseq closedAt) db)"

section \<open>Schema migrations\<close>

record 'b Migration =
  mVersion :: u64
  mDescription :: string
  mFn :: "'b db \<Rightarrow> store_err + 'b db"

text \<open>\<open>RegisterMigration\<close>: \<open>None\<close> is the panic on a duplicate version.\<close>

definition RegisterMigration :: "'b Migration list \<Rightarrow> 'b Migration \<Rightarrow> 'b Migration list option" where
  "RegisterMigration migrations m =
     (if list_ex (\<lambda>e. mVersion e = mVersion m) migrations then None
      else Some (sort_key mVersion (migrations @ [m])))"

definition latestVersion :: "'b Migration list \<Rightarrow> u64" where
  "latestVersion migrations =
     fold (\<lambda>m highest. if highest < mVersion m then mVersion m else highest) migrations currentSchemaVersion"

definition migrate_one ::
  "('b, 'v) ext \<Rightarrow> u64 \<Rightarrow> 'b db \<Rightarrow> 'b Migration \<Rightarrow> store_err + 'b db" where
  "migrate_one E current tx m =
     (if mVersion m \<le> current then Inr tx
      else rbind (map_err (MigrationFailed (mVersion m) (mDescription m)) (mFn m tx)) (\<lambda>tx'.
        put_bytes E tx' Meta keySchemaVersion (be64_put E (mVersion m)) (UpdateSchemaVersion (mVersion m))))"

definition migrate ::
  "('b, 'v) ext \<Rightarrow> 'b Migration list \<Rightarrow> 'b db \<Rightarrow> store_err option \<times> 'b db" where
  "migrate E migrations = db_update E (\<lambda>tx.
     rbind (tx_bucket tx Meta) (\<lambda>meta.
       foldM (migrate_one E (schemaVersionFromTx E meta)) tx migrations))"

definition OpenContext ::
  "('b, 'v) ext \<Rightarrow> bool \<Rightarrow> bool \<Rightarrow> 'b Migration list \<Rightarrow> 'b db \<Rightarrow> store_err option \<times> 'b db" where
  "OpenContext E mkdir_ok open_ok migrations db =
     (if \<not> mkdir_ok then (Some CreateStoreDirectory, db)
      else if \<not> open_ok then (Some OpenDatabase, db)
      else (case Open E db of
              (Some e, db1) \<Rightarrow> (Some e, db1)
            | (None, db1) \<Rightarrow>
                (case migrate E migrations db1 of
                   (Some e, db2) \<Rightarrow> (Some (MigrateStore e), db2)
                 | (None, db2) \<Rightarrow> (None, db2))))"

end
