(* ===== verification/Store_Laws.thy ===== *)
theory Store_Laws
  imports Bolt_Store
begin

text \<open>
  The interface of one table of versioned records: \<open>record_table\<close> fixes a put and the
  view of the table as a map, with the laws that tie them, and proves once what every
  client of a table needs (lookups after a write or a batch of writes, monotone revisions,
  exact restores).  The theory \<open>Store_Env\<close> shows the store's three tables to be instances.
\<close>

section \<open>The revision of a record\<close>

text \<open>The specification of \<open>nextRecordVersion\<close>, on the stored revision instead of bytes.\<close>

definition next_version :: "u64 option \<Rightarrow> u64 \<Rightarrow> u64 option" where
  "next_version stored incoming =
     (case stored of
        None \<Rightarrow> Some (if incoming = 0 then 1 else incoming)
      | Some s \<Rightarrow> if s < incoming then Some incoming else if s = - 1 then None else Some (s + 1))"

lemma word_less_add_one: "w \<noteq> - 1 \<Longrightarrow> w < w + 1" for w :: "'a::len word"
proof -
  assume w: "w \<noteq> - 1"
  have "unat (w + 1) = Suc (unat w)"
    using w by (metis Suc_eq_plus1_left add.commute add_eq_0_iff2 unatSuc)
  then show ?thesis by (simp add: word_less_nat_alt)
qed

lemma next_version_greater: "next_version (Some s) incoming = Some v \<Longrightarrow> s < v"
  by (auto simp: next_version_def word_less_add_one split: if_splits)

lemma next_version_ge: "next_version s incoming = Some v \<Longrightarrow> incoming \<le> v"
  by (auto simp: next_version_def linorder_not_less split: option.splits if_splits
      intro: order_trans [OF _ less_imp_le [OF word_less_add_one]])

lemma next_version_nonzero: "next_version s incoming = Some v \<Longrightarrow> v \<noteq> 0"
proof (cases s)
  case (Some x)
  assume "next_version s incoming = Some v"
  with Some have "x < v" by (simp add: next_version_greater)
  then show ?thesis by auto
qed (auto simp: next_version_def split: if_splits)

lemma next_version_None_iff: "next_version s incoming = None \<longleftrightarrow> s = Some (- 1)"
  by (auto simp: next_version_def split: option.splits if_splits)

section \<open>The interface of a table of versioned records\<close>

locale record_table =
  fixes put :: "'s \<Rightarrow> 'r \<Rightarrow> 'e + 's"
    and view :: "'s \<Rightarrow> bytes \<rightharpoonup> 'r"
    and key :: "'r \<Rightarrow> bytes"
    and ver :: "'r \<Rightarrow> u64"
    and set_ver :: "u64 \<Rightarrow> 'r \<Rightarrow> 'r"
    and ok :: "'s \<Rightarrow> bool"
    and exact :: "'r \<Rightarrow> bool"
  assumes ver_set [simp]: "ver (set_ver v r) = v"
    and key_set [simp]: "key (set_ver v r) = key r"
    and set_ver_ver [simp]: "set_ver (ver r) r = r"
    and put_ok: "ok s \<Longrightarrow> exact r \<Longrightarrow> put s r = Inr s' \<Longrightarrow> ok s'"
    and put_view: "ok s \<Longrightarrow> exact r \<Longrightarrow> put s r = Inr s' \<Longrightarrow>
      \<exists>v. next_version (map_option ver (view s (key r))) (ver r) = Some v \<and>
          view s' = (view s)(key r \<mapsto> set_ver v r)"
begin

lemma put_lookup:
  assumes "ok s" "exact r" "put s r = Inr s'"
  obtains v where "view s' (key r) = Some (set_ver v r)" and "v \<noteq> 0"
proof -
  from put_view [OF assms] obtain v where
    "next_version (map_option ver (view s (key r))) (ver r) = Some v"
    "view s' = (view s)(key r \<mapsto> set_ver v r)" by blast
  then show ?thesis using that by (simp add: next_version_nonzero)
qed

lemma put_other:
  assumes "ok s" "exact r" "put s r = Inr s'" "k \<noteq> key r"
  shows "view s' k = view s k"
  using put_view [OF assms(1-3)] assms(4) by auto

text \<open>A write never lowers a stored revision, and raises the one it writes.\<close>

lemma put_revision:
  assumes "ok s" "exact r" "put s r = Inr s'" "view s k = Some r0"
  shows "\<exists>r1. view s' k = Some r1 \<and> ver r0 \<le> ver r1 \<and> (k = key r \<longrightarrow> ver r0 < ver r1)"
proof -
  from put_view [OF assms(1-3)] obtain v where
    v: "next_version (map_option ver (view s (key r))) (ver r) = Some v"
      "view s' = (view s)(key r \<mapsto> set_ver v r)" by blast
  show ?thesis
  proof (cases "k = key r")
    case True
    with v assms(4) have "ver r0 < v" by (auto dest: next_version_greater)
    with True v show ?thesis by (auto intro: less_imp_le)
  next
    case False
    with v assms(4) show ?thesis by auto
  qed
qed

lemma puts_ok:
  assumes "ok s" "foldM put s rs = Inr s'" "\<forall>r \<in> set rs. exact r"
  shows "ok s'"
  using assms(2,1) by (rule foldM_invariant) (use assms(3) in \<open>auto intro: put_ok\<close>)

lemma puts_revision:
  assumes "ok s" "foldM put s rs = Inr s'" "\<forall>r \<in> set rs. exact r" "view s k = Some r0"
  shows "\<exists>r1. view s' k = Some r1 \<and> ver r0 \<le> ver r1"
  using assms
proof (induction rs arbitrary: s r0)
  case Nil
  then show ?case by simp
next
  case (Cons r rs)
  then obtain s1 where s1: "put s r = Inr s1" "foldM put s1 rs = Inr s'"
    by (auto simp: rbind_Inr_iff)
  from Cons.prems s1 obtain r1 where r1: "view s1 k = Some r1" "ver r0 \<le> ver r1"
    using put_revision [of s r s1 k r0] by auto
  from Cons.prems s1 have "ok s1" by (auto intro: put_ok)
  from Cons.IH [OF this s1(2) _ r1(1)] Cons.prems r1(2) show ?case by auto
qed

text \<open>Keys outside a batch of writes keep their record.\<close>

lemma puts_other:
  assumes "ok s" "foldM put s rs = Inr s'" "\<forall>r \<in> set rs. exact r" "k \<notin> key ` set rs"
  shows "view s' k = view s k"
  using assms
proof (induction rs arbitrary: s)
  case Nil
  then show ?case by simp
next
  case (Cons r rs)
  then obtain s1 where s1: "put s r = Inr s1" "foldM put s1 rs = Inr s'"
    by (auto simp: rbind_Inr_iff)
  from Cons.prems s1 have "ok s1" by (auto intro: put_ok)
  from Cons.IH [OF this s1(2)] Cons.prems s1 show ?case
    by (auto simp: put_other)
qed

text \<open>
  A batch of distinct keys: each is found with its own content, and, where the key was free
  and the record carries a revision, unchanged.
\<close>

lemma puts_lookup:
  assumes "ok s" "foldM put s rs = Inr s'" "\<forall>r \<in> set rs. exact r" "distinct (map key rs)" "r \<in> set rs"
  shows "\<exists>v. view s' (key r) = Some (set_ver v r) \<and>
    next_version (map_option ver (view s (key r))) (ver r) = Some v"
  using assms
proof (induction rs arbitrary: s)
  case Nil
  then show ?case by simp
next
  case (Cons x rs)
  then obtain s1 where s1: "put s x = Inr s1" "foldM put s1 rs = Inr s'"
    by (auto simp: rbind_Inr_iff)
  from Cons.prems s1 have ok1: "ok s1" by (auto intro: put_ok)
  show ?case
  proof (cases "r = x")
    case True
    from put_view [OF Cons.prems(1) _ s1(1)] Cons.prems(3) obtain v where
      v: "next_version (map_option ver (view s (key x))) (ver x) = Some v"
        "view s1 = (view s)(key x \<mapsto> set_ver v x)" by auto
    have "view s' (key x) = view s1 (key x)"
      using Cons.prems by (intro puts_other [OF ok1 s1(2)]) auto
    with v True show ?thesis by auto
  next
    case False
    with Cons.prems(5) have r: "r \<in> set rs" by simp
    with Cons.prems(4) have rx: "key r \<noteq> key x" by (metis distinct.simps(2) image_eqI list.map(2) list.set_map)
    from Cons.IH [OF ok1 s1(2) _ _ r] Cons.prems obtain v where
      "view s' (key r) = Some (set_ver v r)"
      "next_version (map_option ver (view s1 (key r))) (ver r) = Some v" by auto
    moreover have "view s1 (key r) = view s (key r)"
      using Cons.prems rx by (intro put_other [OF Cons.prems(1) _ s1(1)]) auto
    ultimately show ?thesis by simp
  qed
qed

text \<open>Restoring a batch of distinct, revisioned records over free keys is exact.\<close>

lemma puts_restore:
  assumes "ok s" "foldM put s rs = Inr s'" "\<forall>r \<in> set rs. exact r" "distinct (map key rs)"
    and "\<forall>r \<in> set rs. ver r \<noteq> 0" "view s = Map.empty"
  shows "view s' k = find_by key k rs"
proof (cases "k \<in> key ` set rs")
  case True
  then obtain r where r: "r \<in> set rs" "k = key r" by auto
  from puts_lookup [OF assms(1-4) r(1)] assms(5,6) r have "view s' k = Some r"
    by (auto simp: next_version_def)
  with r assms(4) show ?thesis by (simp add: find_by_distinct)
next
  case False
  with assms have "view s' k = None" by (simp add: puts_other)
  moreover from False have "find_by key k rs = None" by (simp only: find_by_None_iff not_False_eq_True)
  ultimately show ?thesis by simp
qed

end

end
