(* ===== verification/Store_Env.thy ===== *)
theory Store_Env
  imports Store_Laws
begin

text \<open>
  The store on top of its environment.  \<open>store_env\<close> states the documented behaviour of the
  external operations of \<open>ext\<close> (bbolt buckets and transactions, encoding/json on the
  records, encoding/binary); the predicates \<open>dx\<close>, \<open>lx\<close>, \<open>bx\<close>, \<open>sx\<close> say which records JSON
  represents exactly (those whose strings are valid UTF-8).  Decoding gives the encoded record
  back when it starts from a fresh record, as it does wherever the source decodes: decoding
  into a record that has a map already would keep the entries of that map.  Inside it the three tables are
  shown to be record tables, by sublocale declarations on \<open>putDeploymentTx\<close>, \<open>putLeaseTx\<close>
  and \<open>putBidTx\<close>, and every write is shown to keep the store's well-formedness \<open>store_ok\<close>.
  \<open>ref_ext\<close> of the theory \<open>Store_Spec\<close> is a reference environment.
\<close>

section \<open>Well-formed stores and their view as maps\<close>

text \<open>
  The records that the source decodes into: the zero records, and the deployment with an
  identity and a creation time that \<open>MarkDeploymentClosed\<close> starts from.  They have no maps
  and no slices.
\<close>

definition fresh_deployment :: "DeploymentRecord \<Rightarrow> bool" where
  "fresh_deployment d \<longleftrightarrow> d = zero_deployment\<lparr>dOwner := dOwner d, dDSeq := dDSeq d, dCreatedAt := dCreatedAt d\<rparr>"

definition fresh_lease :: "LeaseRecord \<Rightarrow> bool" where
  "fresh_lease l \<longleftrightarrow> l = zero_lease"

definition fresh_bid :: "BidRecord \<Rightarrow> bool" where
  "fresh_bid b \<longleftrightarrow> b = zero_bid"

lemma fresh_records [simp]:
  "fresh_deployment zero_deployment" "fresh_lease zero_lease" "fresh_bid zero_bid"
  "fresh_deployment (zero_deployment\<lparr>dOwner := w, dDSeq := q, dCreatedAt := t\<rparr>)"
  by (simp_all add: fresh_deployment_def fresh_lease_def fresh_bid_def zero_deployment_def)

definition table_view :: "('b, 'v) ext \<Rightarrow> bucket \<Rightarrow> ('v \<Rightarrow> 'r option) \<Rightarrow> 'b db \<Rightarrow> bytes \<rightharpoonup> 'r" where
  "table_view E n unmarshal tx k =
     (case tx n of None \<Rightarrow> None | Some b \<Rightarrow> Option.bind (bkt_get E b k) unmarshal)"

definition dep_view :: "('b, 'v) ext \<Rightarrow> 'b db \<Rightarrow> bytes \<rightharpoonup> DeploymentRecord" where
  "dep_view E = table_view E Deployments (dep_unmarshal E zero_deployment)"

definition lease_view :: "('b, 'v) ext \<Rightarrow> 'b db \<Rightarrow> bytes \<rightharpoonup> LeaseRecord" where
  "lease_view E = table_view E Leases (lease_unmarshal E zero_lease)"

definition bid_view :: "('b, 'v) ext \<Rightarrow> 'b db \<Rightarrow> bytes \<rightharpoonup> BidRecord" where
  "bid_view E = table_view E Bids (bid_unmarshal E zero_bid)"

definition table_ok ::
  "('b, 'v) ext \<Rightarrow> bucket \<Rightarrow> ('r \<Rightarrow> bool) \<Rightarrow> ('r \<Rightarrow> 'v \<Rightarrow> 'r option) \<Rightarrow> ('r \<Rightarrow> bytes) \<Rightarrow> ('r \<Rightarrow> u64) \<Rightarrow> ('r \<Rightarrow> bool) \<Rightarrow> 'b db \<Rightarrow> bool" where
  "table_ok E n fresh unmarshal key ver exact tx \<longleftrightarrow>
     (\<exists>b. tx n = Some b \<and>
       (\<forall>k v. bkt_get E b k = Some v \<longrightarrow>
          val_len E v \<noteq> 0 \<and>
          (\<exists>r. (\<forall>r0. fresh r0 \<longrightarrow> unmarshal r0 v = Some r) \<and> key r = k \<and> ver_unmarshal E v = Some (ver r) \<and> ver r \<noteq> 0 \<and> exact r)))"

definition dep_ok :: "('b, 'v) ext \<Rightarrow> (DeploymentRecord \<Rightarrow> bool) \<Rightarrow> 'b db \<Rightarrow> bool" where
  "dep_ok E = table_ok E Deployments fresh_deployment (dep_unmarshal E) dKey dRecordVersion"

definition lease_ok :: "('b, 'v) ext \<Rightarrow> (LeaseRecord \<Rightarrow> bool) \<Rightarrow> 'b db \<Rightarrow> bool" where
  "lease_ok E = table_ok E Leases fresh_lease (lease_unmarshal E) lKey lRecordVersion"

definition bid_ok :: "('b, 'v) ext \<Rightarrow> (BidRecord \<Rightarrow> bool) \<Rightarrow> 'b db \<Rightarrow> bool" where
  "bid_ok E = table_ok E Bids fresh_bid (bid_unmarshal E) bKey bRecordVersion"

definition sync_ok :: "('b, 'v) ext \<Rightarrow> (SyncState \<Rightarrow> bool) \<Rightarrow> 'b db \<Rightarrow> bool" where
  "sync_ok E sx tx \<longleftrightarrow>
     (\<exists>b. tx Sync = Some b \<and>
       (\<forall>v. bkt_get E b keySyncState = Some v \<longrightarrow>
          (\<exists>st. sync_unmarshal E zero_sync v = Some st \<and> sx st)))"

definition meta_ok :: "('b, 'v) ext \<Rightarrow> 'b db \<Rightarrow> bool" where
  "meta_ok E tx \<longleftrightarrow>
     (\<exists>b v. tx Meta = Some b \<and> bkt_get E b keySchemaVersion = Some v \<and> val_len E v = 8)"

definition store_ok ::
  "('b, 'v) ext \<Rightarrow> (DeploymentRecord \<Rightarrow> bool) \<Rightarrow> (LeaseRecord \<Rightarrow> bool) \<Rightarrow> (BidRecord \<Rightarrow> bool)
    \<Rightarrow> (SyncState \<Rightarrow> bool) \<Rightarrow> 'b db \<Rightarrow> bool" where
  "store_ok E dx lx bx sx tx \<longleftrightarrow>
     dep_ok E dx tx \<and> lease_ok E lx tx \<and> bid_ok E bx tx \<and> sync_ok E sx tx \<and> meta_ok E tx"

lemmas view_defs = dep_view_def lease_view_def bid_view_def
lemmas ok_defs = dep_ok_def lease_ok_def bid_ok_def

text \<open>Both depend on the table's own bucket only.\<close>

lemma view_frame:
  "tx' Deployments = tx Deployments \<Longrightarrow> dep_view E tx' = dep_view E tx"
  "tx' Leases = tx Leases \<Longrightarrow> lease_view E tx' = lease_view E tx"
  "tx' Bids = tx Bids \<Longrightarrow> bid_view E tx' = bid_view E tx"
  by (simp_all add: view_defs table_view_def fun_eq_iff)

lemma ok_frame:
  "tx' Deployments = tx Deployments \<Longrightarrow> dep_ok E dx tx' = dep_ok E dx tx"
  "tx' Leases = tx Leases \<Longrightarrow> lease_ok E lx tx' = lease_ok E lx tx"
  "tx' Bids = tx Bids \<Longrightarrow> bid_ok E bx tx' = bid_ok E bx tx"
  "tx' Sync = tx Sync \<Longrightarrow> sync_ok E sx tx' = sync_ok E sx tx"
  "tx' Meta = tx Meta \<Longrightarrow> meta_ok E tx' = meta_ok E tx"
  by (simp_all add: ok_defs table_ok_def sync_ok_def meta_ok_def)

lemma ok_upd [simp]:
  "n \<noteq> Deployments \<Longrightarrow> dep_ok E dx (tx(n := b)) = dep_ok E dx tx"
  "n \<noteq> Leases \<Longrightarrow> lease_ok E lx (tx(n := b)) = lease_ok E lx tx"
  "n \<noteq> Bids \<Longrightarrow> bid_ok E bx (tx(n := b)) = bid_ok E bx tx"
  "n \<noteq> Sync \<Longrightarrow> sync_ok E sx (tx(n := b)) = sync_ok E sx tx"
  "n \<noteq> Meta \<Longrightarrow> meta_ok E (tx(n := b)) = meta_ok E tx"
  by (simp_all add: ok_frame [of "tx(n := b)" tx])

lemma view_upd [simp]:
  "n \<noteq> Deployments \<Longrightarrow> dep_view E (tx(n := b)) = dep_view E tx"
  "n \<noteq> Leases \<Longrightarrow> lease_view E (tx(n := b)) = lease_view E tx"
  "n \<noteq> Bids \<Longrightarrow> bid_view E (tx(n := b)) = bid_view E tx"
  by (simp_all add: view_frame [of "tx(n := b)" tx])

lemma table_ok_getE:
  assumes "table_ok E n fresh unmarshal key ver exact tx" and "tx n = Some b" and "bkt_get E b k = Some v"
  obtains r where "\<forall>r0. fresh r0 \<longrightarrow> unmarshal r0 v = Some r" and "key r = k" and "ver_unmarshal E v = Some (ver r)"
    and "exact r" and "val_len E v \<noteq> 0" and "ver r \<noteq> 0"
  using assms unfolding table_ok_def by auto

lemma table_ok_bucketE:
  assumes "table_ok E n fresh unmarshal key ver exact tx"
  obtains b where "tx n = Some b"
  using assms unfolding table_ok_def by blast

lemma table_view_ok:
  assumes "table_ok E n fresh unmarshal key ver exact tx" and "table_view E n (unmarshal r0) tx k = Some r" and "fresh r0"
  shows "key r = k \<and> exact r \<and> ver r \<noteq> 0"
proof -
  from assms(1) obtain b where b: "tx n = Some b" by (rule table_ok_bucketE)
  from assms(2) b(1) obtain v where v: "bkt_get E b k = Some v" "unmarshal r0 v = Some r"
    by (auto simp: table_view_def bind_eq_Some_conv)
  from table_ok_getE [OF assms(1) b v(1)] v(2) assms(3) show ?thesis by (metis option.inject)
qed

lemma dep_view_ok: "dep_ok E dx tx \<Longrightarrow> dep_view E tx k = Some r \<Longrightarrow> dKey r = k \<and> dx r \<and> dRecordVersion r \<noteq> 0"
  unfolding ok_defs view_defs by (rule table_view_ok, assumption, assumption, simp)

lemma lease_view_ok: "lease_ok E lx tx \<Longrightarrow> lease_view E tx k = Some r \<Longrightarrow> lKey r = k \<and> lx r \<and> lRecordVersion r \<noteq> 0"
  unfolding ok_defs view_defs by (rule table_view_ok, assumption, assumption, simp)

lemma bid_view_ok: "bid_ok E bx tx \<Longrightarrow> bid_view E tx k = Some r \<Longrightarrow> bKey r = k \<and> bx r \<and> bRecordVersion r \<noteq> 0"
  unfolding ok_defs view_defs by (rule table_view_ok, assumption, assumption, simp)

section \<open>The shape of a record write\<close>

text \<open>The three record writes of the source are one function of the table's accessors.\<close>

definition put_record ::
  "('b, 'v) ext \<Rightarrow> bucket \<Rightarrow> ('r \<Rightarrow> bytes) \<Rightarrow> ('r \<Rightarrow> u64) \<Rightarrow> (u64 \<Rightarrow> 'r \<Rightarrow> 'r) \<Rightarrow> ('r \<Rightarrow> 'v option)
    \<Rightarrow> (store_err \<Rightarrow> store_err) \<Rightarrow> store_err \<Rightarrow> 'b db \<Rightarrow> 'r \<Rightarrow> store_err + 'b db" where
  "put_record E n key ver set_ver marshal verr merr tx r =
     rbind (tx_bucket tx n) (\<lambda>b.
     rbind (map_err verr (nextRecordVersion E (bkt_get E b (key r)) (ver r))) (\<lambda>v.
     rbind (of_opt merr (marshal (set_ver v r))) (\<lambda>data.
     put_bytes E tx n (key r) data BucketPut)))"

definition dep_set_ver :: "u64 \<Rightarrow> DeploymentRecord \<Rightarrow> DeploymentRecord" where
  "dep_set_ver v d = d\<lparr>dRecordVersion := v\<rparr>"

definition lease_set_ver :: "u64 \<Rightarrow> LeaseRecord \<Rightarrow> LeaseRecord" where
  "lease_set_ver v l = l\<lparr>lRecordVersion := v\<rparr>"

definition bid_set_ver :: "u64 \<Rightarrow> BidRecord \<Rightarrow> BidRecord" where
  "bid_set_ver v b = b\<lparr>bRecordVersion := v\<rparr>"

lemma set_ver_simps [simp]:
  "dRecordVersion (dep_set_ver v d) = v" "dOwner (dep_set_ver v d) = dOwner d"
  "dDSeq (dep_set_ver v d) = dDSeq d" "dep_set_ver (dRecordVersion d) d = d"
  "lRecordVersion (lease_set_ver v l) = v" "lID (lease_set_ver v l) = lID l"
  "lease_set_ver (lRecordVersion l) l = l"
  "bRecordVersion (bid_set_ver v b) = v" "bID (bid_set_ver v b) = bID b"
  "bid_set_ver (bRecordVersion b) b = b"
  by (simp_all add: dep_set_ver_def lease_set_ver_def bid_set_ver_def)

lemma putDeploymentTx_Some:
  "putDeploymentTx E tx (Some d) =
     put_record E Deployments dKey dRecordVersion dep_set_ver (dep_marshal E) VersionDeployment MarshalDeployment tx d"
  by (simp add: putDeploymentTx_def putDeploymentTxWithMarshal_def put_record_def Let_def dep_set_ver_def)

lemma putLeaseTx_Some:
  "putLeaseTx E tx (Some l) =
     put_record E Leases lKey lRecordVersion lease_set_ver (lease_marshal E) VersionLease MarshalLease tx l"
  by (simp add: putLeaseTx_def putLeaseTxWithMarshal_def put_record_def Let_def lease_set_ver_def)

lemma putBidTx_Some:
  "putBidTx E tx (Some b) =
     put_record E Bids bKey bRecordVersion bid_set_ver (bid_marshal E) VersionBid MarshalBid tx b"
  by (simp add: putBidTx_def putBidTxWithMarshal_def put_record_def Let_def bid_set_ver_def)

lemma put_bytes_Inr:
  "put_bytes E tx n k v err = Inr tx' \<longleftrightarrow>
     (\<exists>b b'. tx n = Some b \<and> bkt_put E b k v = Some b' \<and> tx' = tx(n \<mapsto> b'))"
  by (auto simp: put_bytes_def tx_bucket_def rbind_Inr_iff)

lemma put_record_frame:
  "put_record E n key ver set_ver marshal verr merr tx r = Inr tx' \<Longrightarrow> m \<noteq> n \<Longrightarrow> tx' m = tx m"
  by (auto simp: put_record_def rbind_Inr_iff put_bytes_Inr)

section \<open>The environment\<close>

locale store_env =
  fixes E :: "('b, 'v) ext"
    and dx :: "DeploymentRecord \<Rightarrow> bool"
    and lx :: "LeaseRecord \<Rightarrow> bool"
    and bx :: "BidRecord \<Rightarrow> bool"
    and sx :: "SyncState \<Rightarrow> bool"
  assumes new_get: "bkt_get E (bkt_new E) k = None"
    and put_get: "bkt_put E b k v = Some b' \<Longrightarrow> bkt_get E b' = (bkt_get E b)(k \<mapsto> v)"
    and put_fits: "k \<noteq> [] \<Longrightarrow> length k \<le> 32768 \<Longrightarrow> val_len E v \<le> 2 ^ 31 - 2 \<Longrightarrow> bkt_put E b k v \<noteq> None"
    and delete_get: "bkt_delete E b k = Some b' \<Longrightarrow> bkt_get E b' = (bkt_get E b)(k := None)"
    and delete_total: "bkt_delete E b k \<noteq> None"
    and entries_get: "map_of (bkt_entries E b) = bkt_get E b"
    and entries_sorted: "sorted_wrt (<) (map fst (bkt_entries E b))"
    and update_error: "f db = Inl e \<Longrightarrow> db_update E f db = (Some e, db)"
    and update_commit: "f db = Inr db' \<Longrightarrow>
      db_update E f db = (None, db') \<or> db_update E f db = (Some CommitFailed, db)"
    and be64_len: "val_len E (be64_put E w) = 8"
    and be64_get: "be64_get E (be64_put E w) = w"
    and dep_json: "dx d \<Longrightarrow> dep_marshal E d = Some v \<Longrightarrow>
      (\<forall>d0. fresh_deployment d0 \<longrightarrow> dep_unmarshal E d0 v = Some d) \<and> val_len E v \<noteq> 0 \<and> ver_unmarshal E v = Some (dRecordVersion d)"
    and lease_json: "lx l \<Longrightarrow> lease_marshal E l = Some v \<Longrightarrow>
      (\<forall>l0. fresh_lease l0 \<longrightarrow> lease_unmarshal E l0 v = Some l) \<and> val_len E v \<noteq> 0 \<and> ver_unmarshal E v = Some (lRecordVersion l)"
    and bid_json: "bx bd \<Longrightarrow> bid_marshal E bd = Some v \<Longrightarrow>
      (\<forall>bd0. fresh_bid bd0 \<longrightarrow> bid_unmarshal E bd0 v = Some bd) \<and> val_len E v \<noteq> 0 \<and> ver_unmarshal E v = Some (bRecordVersion bd)"
    and sync_json: "sx st \<Longrightarrow> sync_marshal E st = Some v \<Longrightarrow> sync_unmarshal E zero_sync v = Some st"
    and dx_ver: "dx (dep_set_ver w d) = dx d"
    and lx_ver: "lx (lease_set_ver w l) = lx l"
    and bx_ver: "bx (bid_set_ver w bd) = bx bd"
    and dx_close: "dx d \<Longrightarrow> dx (close_deployment t d)"
    and lx_close: "lx l \<Longrightarrow> lx (close_lease t l)"
begin

lemma entries_distinct: "distinct (map fst (bkt_entries E b))"
  using entries_sorted strict_sorted_iff by blast

lemma entries_mem: "(k, v) \<in> set (bkt_entries E b) \<longleftrightarrow> bkt_get E b k = Some v"
  using entries_distinct [of b] entries_get [of b] by (metis map_of_eq_Some_iff)

text \<open>\<open>nextRecordVersion\<close> implements its specification on a well-formed table.\<close>

lemma nextRecordVersion_spec:
  assumes ok: "table_ok E n fresh unmarshal key ver exact tx" and b: "tx n = Some b" and r0: "fresh r0"
  shows "nextRecordVersion E (bkt_get E b k) incoming =
    of_opt (RevisionExhausted (- 1))
      (next_version (map_option ver (table_view E n (unmarshal r0) tx k)) incoming)"
proof (cases "bkt_get E b k")
  case None
  with b show ?thesis
    by (simp add: nextRecordVersion_def next_version_def table_view_def)
next
  case (Some v)
  from ok b Some obtain r where "val_len E v \<noteq> 0" "unmarshal r0 v = Some r" "ver_unmarshal E v = Some (ver r)"
    by (rule table_ok_getE) (simp add: r0)
  with Some b show ?thesis
    by (simp add: nextRecordVersion_def next_version_def table_view_def)
qed

lemma table_ok_put:
  assumes ok: "table_ok E n fresh unmarshal key ver exact tx" and b: "tx n = Some b"
    and put: "bkt_put E b (key r) v = Some b'"
    and v: "val_len E v \<noteq> 0" "\<forall>r0. fresh r0 \<longrightarrow> unmarshal r0 v = Some r" "ver_unmarshal E v = Some (ver r)" "exact r" "ver r \<noteq> 0"
  shows "table_ok E n fresh unmarshal key ver exact (tx(n \<mapsto> b'))"
  using ok b v put_get [OF put] unfolding table_ok_def by auto

lemma put_record_table:
  assumes law: "\<And>r v. exact r \<Longrightarrow> marshal r = Some v \<Longrightarrow>
      (\<forall>r0. fresh r0 \<longrightarrow> unmarshal r0 v = Some r) \<and> val_len E v \<noteq> 0 \<and> ver_unmarshal E v = Some (ver r)"
    and acc: "\<And>r v. key (set_ver v r) = key r" "\<And>r v. exact (set_ver v r) = exact r" "\<And>r v. ver (set_ver v r) = v"
    and ok: "table_ok E n fresh unmarshal key ver exact tx" and r: "exact r"
    and put: "put_record E n key ver set_ver marshal verr merr tx r = Inr tx'" and r0: "fresh r0"
  shows "table_ok E n fresh unmarshal key ver exact tx' \<and>
    (\<exists>v. next_version (map_option ver (table_view E n (unmarshal r0) tx (key r))) (ver r) = Some v \<and>
      table_view E n (unmarshal r0) tx' = (table_view E n (unmarshal r0) tx)(key r \<mapsto> set_ver v r))"
proof -
  from put obtain b v data b' where
    b: "tx n = Some b" and v: "nextRecordVersion E (bkt_get E b (key r)) (ver r) = Inr v"
    and data: "marshal (set_ver v r) = Some data"
    and b': "bkt_put E b (key r) data = Some b'" "tx' = tx(n \<mapsto> b')"
    by (auto simp: put_record_def tx_bucket_def rbind_Inr_iff put_bytes_Inr)
  from law [OF _ data] r acc have d: "\<forall>r0. fresh r0 \<longrightarrow> unmarshal r0 data = Some (set_ver v r)"
    "val_len E data \<noteq> 0" "ver_unmarshal E data = Some (ver (set_ver v r))" by auto
  have nxt: "next_version (map_option ver (table_view E n (unmarshal r0) tx (key r))) (ver r) = Some v"
    using v nextRecordVersion_spec [OF ok b r0, of "key r" "ver r"] by simp
  then have "v \<noteq> 0" by (rule next_version_nonzero)
  then have "table_ok E n fresh unmarshal key ver exact (tx(n \<mapsto> b'))"
    using b'(1) d acc r by (intro table_ok_put [OF ok b, of "set_ver v r" data]) auto
  moreover have "table_view E n (unmarshal r0) (tx(n \<mapsto> b')) = (table_view E n (unmarshal r0) tx)(key r \<mapsto> set_ver v r)"
    using b d r0 put_get [OF b'(1)] by (auto simp: table_view_def fun_eq_iff)
  ultimately show ?thesis using b' nxt by blast
qed

text \<open>The only reasons for a record write to fail on a well-formed table.\<close>

lemma put_record_error:
  assumes ok: "table_ok E n fresh unmarshal key ver exact tx"
    and err: "put_record E n key ver set_ver marshal verr merr tx r = Inl e" and r0: "fresh r0"
  shows "(\<exists>r1. table_view E n (unmarshal r0) tx (key r) = Some r1 \<and> ver r1 = - 1 \<and> e = verr (RevisionExhausted (- 1)))
    \<or> e = merr \<or> e = BucketPut"
proof -
  from ok obtain b where b: "tx n = Some b" unfolding table_ok_def by blast
  note spec = nextRecordVersion_spec [OF ok b r0, of "key r" "ver r"]
  show ?thesis
  proof (cases "next_version (map_option ver (table_view E n (unmarshal r0) tx (key r))) (ver r)")
    case None
    then have "map_option ver (table_view E n (unmarshal r0) tx (key r)) = Some (- 1)"
      by (simp add: next_version_None_iff)
    with err b spec None show ?thesis
      by (auto simp: put_record_def tx_bucket_def rbind_Inl_iff)
  next
    case (Some v)
    with err b spec show ?thesis
      by (auto simp: put_record_def tx_bucket_def rbind_Inl_iff put_bytes_def)
  qed
qed

end

sublocale store_env \<subseteq> dep: record_table
  "\<lambda>tx d. putDeploymentTx E tx (Some d)" "dep_view E" dKey dRecordVersion dep_set_ver "dep_ok E dx" dx
proof
  fix s r s'
  assume a: "dep_ok E dx s" "dx r" "putDeploymentTx E s (Some r) = Inr s'"
  have "dep_ok E dx s' \<and>
    (\<exists>v. next_version (map_option dRecordVersion (dep_view E s (dKey r))) (dRecordVersion r) = Some v \<and>
      dep_view E s' = (dep_view E s)(dKey r \<mapsto> dep_set_ver v r))"
    using a dx_ver dep_json unfolding ok_defs view_defs putDeploymentTx_Some
    by (intro put_record_table [where marshal = "dep_marshal E" and verr = VersionDeployment and merr = MarshalDeployment]) auto
  then show "dep_ok E dx s'" and "\<exists>v. next_version (map_option dRecordVersion (dep_view E s (dKey r))) (dRecordVersion r) = Some v \<and>
      dep_view E s' = (dep_view E s)(dKey r \<mapsto> dep_set_ver v r)" by blast+
qed simp_all

sublocale store_env \<subseteq> lease: record_table
  "\<lambda>tx l. putLeaseTx E tx (Some l)" "lease_view E" lKey lRecordVersion lease_set_ver "lease_ok E lx" lx
proof
  fix s r s'
  assume a: "lease_ok E lx s" "lx r" "putLeaseTx E s (Some r) = Inr s'"
  have "lease_ok E lx s' \<and>
    (\<exists>v. next_version (map_option lRecordVersion (lease_view E s (lKey r))) (lRecordVersion r) = Some v \<and>
      lease_view E s' = (lease_view E s)(lKey r \<mapsto> lease_set_ver v r))"
    using a lx_ver lease_json unfolding ok_defs view_defs putLeaseTx_Some
    by (intro put_record_table [where marshal = "lease_marshal E" and verr = VersionLease and merr = MarshalLease]) auto
  then show "lease_ok E lx s'" and "\<exists>v. next_version (map_option lRecordVersion (lease_view E s (lKey r))) (lRecordVersion r) = Some v \<and>
      lease_view E s' = (lease_view E s)(lKey r \<mapsto> lease_set_ver v r)" by blast+
qed simp_all

sublocale store_env \<subseteq> bid: record_table
  "\<lambda>tx b. putBidTx E tx (Some b)" "bid_view E" bKey bRecordVersion bid_set_ver "bid_ok E bx" bx
proof
  fix s r s'
  assume a: "bid_ok E bx s" "bx r" "putBidTx E s (Some r) = Inr s'"
  have "bid_ok E bx s' \<and>
    (\<exists>v. next_version (map_option bRecordVersion (bid_view E s (bKey r))) (bRecordVersion r) = Some v \<and>
      bid_view E s' = (bid_view E s)(bKey r \<mapsto> bid_set_ver v r))"
    using a bx_ver bid_json unfolding ok_defs view_defs putBidTx_Some
    by (intro put_record_table [where marshal = "bid_marshal E" and verr = VersionBid and merr = MarshalBid]) auto
  then show "bid_ok E bx s'" and "\<exists>v. next_version (map_option bRecordVersion (bid_view E s (bKey r))) (bRecordVersion r) = Some v \<and>
      bid_view E s' = (bid_view E s)(bKey r \<mapsto> bid_set_ver v r)" by blast+
qed simp_all

end
