(* ===== verification/Store_Props.thy ===== *)
theory Store_Props
  imports Store_Env "HOL-Library.Multiset"
begin

text \<open>
  Correctness of the store's operations: reading after writing, listing and statistics
  against the view of the store as maps, the atomic close of a deployment with its leases,
  schema migrations, and the invariant of every state the public operations reach.
\<close>

section \<open>Rows and the view\<close>

lemma scan_rows_simps [simp]:
  "scan_rows u [] = []"
  "scan_rows u ((k, v) # rows) = (case u v of None \<Rightarrow> scan_rows u rows | Some r \<Rightarrow> r # scan_rows u rows)"
  by (simp_all add: scan_rows_def List.map_filter_def split: option.splits)

lemma scan_rows_keys:
  "(\<forall>(k, v) \<in> set rows. \<exists>r. u v = Some r \<and> key r = k) \<Longrightarrow> map key (scan_rows u rows) = map fst rows"
  by (induction rows) (auto split: option.splits)

lemma scan_rows_find:
  "(\<forall>(k, v) \<in> set rows. \<exists>r. u v = Some r \<and> key r = k) \<Longrightarrow>
    find_by key k (scan_rows u rows) = Option.bind (map_of rows k) u"
  by (induction rows) (auto split: option.splits)

lemma close_deployment_simps [simp]:
  "dOwner (close_deployment t d) = dOwner d" "dDSeq (close_deployment t d) = dDSeq d"
  "dState (close_deployment t d) = ''closed''" "dUpdatedAt (close_deployment t d) = t"
  "dRecordVersion (close_deployment t d) = dRecordVersion d"
  by (simp_all add: close_deployment_def Let_def)

lemma close_lease_simps [simp]:
  "lID (close_lease t l) = lID l" "lState (close_lease t l) = ''closed''"
  "lRecordVersion (close_lease t l) = lRecordVersion l"
  by (simp_all add: close_lease_def Let_def)

lemma lease_updates_acc:
  assumes "\<forall>(k, v) \<in> set rows. lease_unmarshal E zero_lease v \<noteq> None"
  shows "foldM (\<lambda>updates (k, v).
       rbind (of_opt (UnmarshalLeaseKey k) (lease_unmarshal E zero_lease v)) (\<lambda>lease.
         if liOwner (lID lease) \<noteq> owner \<or> liDSeq (lID lease) \<noteq> dseq then Inr updates
         else Inr (updates @ [close_lease t lease]))) acc rows
     = Inr (acc @ map (close_lease t)
         (filter (\<lambda>l. liOwner (lID l) = owner \<and> liDSeq (lID l) = dseq)
           (scan_rows (lease_unmarshal E zero_lease) rows)))"
  using assms
proof (induction rows arbitrary: acc)
  case Nil
  then show ?case by simp
next
  case (Cons kv rows)
  obtain k v where kv: "kv = (k, v)" by force
  with Cons.prems obtain l where l: "lease_unmarshal E zero_lease v = Some l" by auto
  from Cons kv l show ?case by simp
qed

lemma lease_updates_eq:
  assumes "\<forall>(k, v) \<in> set rows. lease_unmarshal E zero_lease v \<noteq> None"
  shows "lease_updates E owner dseq t rows =
     Inr (map (close_lease t) (filter (\<lambda>l. liOwner (lID l) = owner \<and> liDSeq (lID l) = dseq)
           (scan_rows (lease_unmarshal E zero_lease) rows)))"
  unfolding lease_updates_def using lease_updates_acc [OF assms, of owner dseq t "[]"] by simp

section \<open>Lemmas over the environment\<close>

context store_env
begin

lemma update_cases:
  "db_update E f db = (r, db') \<Longrightarrow> (r = None \<and> f db = Inr db') \<or> (r \<noteq> None \<and> db' = db)"
proof (cases "f db")
  case (Inl e)
  assume "db_update E f db = (r, db')"
  with update_error [of f db e] Inl show ?thesis by simp
next
  case (Inr x)
  assume "db_update E f db = (r, db')"
  with update_commit [of f db x] Inr show ?thesis by auto
qed

lemma update_keeps:
  assumes "P db" and "\<And>tx'. f db = Inr tx' \<Longrightarrow> P tx'"
  shows "P (snd (db_update E f db))"
  using update_cases [of f db "fst (db_update E f db)" "snd (db_update E f db)"] assms by auto

lemma table_rows:
  assumes "table_ok E n fresh unmarshal key ver exact tx" and "tx n = Some b" and "fresh r0"
  shows "\<forall>(k, v) \<in> set (bkt_entries E b). \<exists>r. unmarshal r0 v = Some r \<and> key r = k"
proof clarify
  fix k v
  assume "(k, v) \<in> set (bkt_entries E b)"
  then have "bkt_get E b k = Some v" by (simp only: entries_mem)
  from table_ok_getE [OF assms(1,2) this] assms(3) show "\<exists>r. unmarshal r0 v = Some r \<and> key r = k" by metis
qed

lemma table_scan_keys:
  assumes "table_ok E n fresh unmarshal key ver exact tx" and "tx n = Some b" and "fresh r0"
  shows "map key (scan_rows (unmarshal r0) (bkt_entries E b)) = map fst (bkt_entries E b)"
  using table_rows [OF assms] by (rule scan_rows_keys)

lemma table_scan_find:
  assumes "table_ok E n fresh unmarshal key ver exact tx" and "tx n = Some b" and "fresh r0"
  shows "find_by key k (scan_rows (unmarshal r0) (bkt_entries E b)) = table_view E n (unmarshal r0) tx k"
  using scan_rows_find [OF table_rows [OF assms], of k] assms(2)
  by (simp add: table_view_def entries_get)

lemma table_scan_distinct:
  assumes "table_ok E n fresh unmarshal key ver exact tx" and "tx n = Some b" and "fresh r0"
  shows "distinct (map key (scan_rows (unmarshal r0) (bkt_entries E b)))"
  using table_scan_keys [OF assms] entries_distinct by simp

lemma table_scan_mem:
  assumes "table_ok E n fresh unmarshal key ver exact tx" and "tx n = Some b" and "fresh r0"
  shows "r \<in> set (scan_rows (unmarshal r0) (bkt_entries E b)) \<longleftrightarrow> table_view E n (unmarshal r0) tx (key r) = Some r"
proof -
  have "r \<in> set rs \<longleftrightarrow> find_by key (key r) rs = Some r" if "distinct (map key rs)" for rs
    using that find_by_distinct [of key rs r] find_by_SomeD [of key "key r" rs r] by blast
  from this [OF table_scan_distinct [OF assms]] show ?thesis
    unfolding table_scan_find [OF assms] .
qed

lemma put_frames:
  "putDeploymentTx E tx (Some d) = Inr tx' \<Longrightarrow> m \<noteq> Deployments \<Longrightarrow> tx' m = tx m"
  "putLeaseTx E tx (Some l) = Inr tx' \<Longrightarrow> m \<noteq> Leases \<Longrightarrow> tx' m = tx m"
  "putBidTx E tx (Some bd) = Inr tx' \<Longrightarrow> m \<noteq> Bids \<Longrightarrow> tx' m = tx m"
  by (auto simp: putDeploymentTx_Some putLeaseTx_Some putBidTx_Some dest: put_record_frame)

lemma putSync_frame: "putSyncStateTx E tx st = Inr tx' \<Longrightarrow> m \<noteq> Sync \<Longrightarrow> tx' m = tx m"
  by (auto simp: putSyncStateTx_def putSyncStateTxWithMarshal_def rbind_Inr_iff put_bytes_Inr split: option.splits)

text \<open>The reads are the views.\<close>

lemma GetDeployment_view:
  assumes "dep_ok E dx db"
  shows "GetDeployment E db owner dseq = Inr (dep_view E db (DeploymentKey owner dseq))"
proof -
  from assms [unfolded ok_defs] obtain b where b: "db Deployments = Some b" by (rule table_ok_bucketE)
  show ?thesis
  proof (cases "bkt_get E b (DeploymentKey owner dseq)")
    case (Some v)
    from assms [unfolded ok_defs] b Some obtain r where "dep_unmarshal E zero_deployment v = Some r"
      by (rule table_ok_getE) simp
    with b Some show ?thesis by (simp add: GetDeployment_def tx_bucket_def view_defs table_view_def)
  qed (use b in \<open>simp add: GetDeployment_def tx_bucket_def view_defs table_view_def\<close>)
qed

lemma GetLease_view:
  assumes "lease_ok E lx db"
  shows "GetLease E db i = Inr (lease_view E db (LeaseKey i))"
proof -
  from assms [unfolded ok_defs] obtain b where b: "db Leases = Some b" by (rule table_ok_bucketE)
  show ?thesis
  proof (cases "bkt_get E b (LeaseKey i)")
    case (Some v)
    from assms [unfolded ok_defs] b Some obtain r where "lease_unmarshal E zero_lease v = Some r"
      by (rule table_ok_getE) simp
    with b Some show ?thesis by (simp add: GetLease_def tx_bucket_def view_defs table_view_def)
  qed (use b in \<open>simp add: GetLease_def tx_bucket_def view_defs table_view_def\<close>)
qed

lemma GetBid_view:
  assumes "bid_ok E bx db"
  shows "GetBid E db i = Inr (bid_view E db (BidKey i))"
proof -
  from assms [unfolded ok_defs] obtain b where b: "db Bids = Some b" by (rule table_ok_bucketE)
  show ?thesis
  proof (cases "bkt_get E b (BidKey i)")
    case (Some v)
    from assms [unfolded ok_defs] b Some obtain r where "bid_unmarshal E zero_bid v = Some r"
      by (rule table_ok_getE) simp
    with b Some show ?thesis by (simp add: GetBid_def tx_bucket_def view_defs table_view_def)
  qed (use b in \<open>simp add: GetBid_def tx_bucket_def view_defs table_view_def\<close>)
qed

text \<open>Every write keeps the store well-formed.\<close>

lemma putDeploymentTx_store_ok:
  assumes "store_ok E dx lx bx sx tx" "dx d" "putDeploymentTx E tx (Some d) = Inr tx'"
  shows "store_ok E dx lx bx sx tx'"
  using assms dep.put_ok [of tx d tx'] put_frames(1) [OF assms(3)]
  by (simp add: store_ok_def ok_frame(2-5) [of tx' tx])

lemma putLeaseTx_store_ok:
  assumes "store_ok E dx lx bx sx tx" "lx l" "putLeaseTx E tx (Some l) = Inr tx'"
  shows "store_ok E dx lx bx sx tx'"
  using assms lease.put_ok [of tx l tx'] put_frames(2) [OF assms(3)]
  by (simp add: store_ok_def ok_frame(1,3-5) [of tx' tx])

lemma putBidTx_store_ok:
  assumes "store_ok E dx lx bx sx tx" "bx bd" "putBidTx E tx (Some bd) = Inr tx'"
  shows "store_ok E dx lx bx sx tx'"
  using assms bid.put_ok [of tx bd tx'] put_frames(3) [OF assms(3)]
  by (simp add: store_ok_def ok_frame(1,2,4,5) [of tx' tx])

lemma putSyncStateTx_store_ok:
  assumes "store_ok E dx lx bx sx tx" "sx st" "putSyncStateTx E tx (Some st) = Inr tx'"
  shows "store_ok E dx lx bx sx tx'"
proof -
  from assms(3) obtain b v b' where b: "tx Sync = Some b" "sync_marshal E st = Some v"
    "bkt_put E b keySyncState v = Some b'" "tx' = tx(Sync \<mapsto> b')"
    by (auto simp: putSyncStateTx_def putSyncStateTxWithMarshal_def rbind_Inr_iff put_bytes_Inr)
  have "sync_ok E sx tx'"
    using b put_get [OF b(3)] sync_json [OF assms(2) b(2)] assms(2) by (auto simp: sync_ok_def)
  then show ?thesis
    using assms(1) b(4) by (simp add: store_ok_def)
qed

lemma table_ok_delete:
  assumes "table_ok E n fresh unmarshal key ver exact tx" "tx n = Some b" "bkt_delete E b k = Some b'"
  shows "table_ok E n fresh unmarshal key ver exact (tx(n \<mapsto> b'))"
  using assms(1,2) delete_get [OF assms(3)] unfolding table_ok_def by (auto split: if_splits)

lemma DeleteDeployment_store_ok:
  assumes "store_ok E dx lx bx sx db"
  shows "store_ok E dx lx bx sx (snd (DeleteDeployment E db owner dseq))"
  unfolding DeleteDeployment_def
proof (rule update_keeps [where P = "store_ok E dx lx bx sx", OF assms])
  fix tx'
  assume "rbind (tx_bucket db Deployments) (\<lambda>b. of_opt BucketDelete (map_option (\<lambda>b'. db(Deployments \<mapsto> b'))
    (bkt_delete E b (DeploymentKey owner dseq)))) = Inr tx'"
  then obtain b b' where b: "db Deployments = Some b"
      "bkt_delete E b (DeploymentKey owner dseq) = Some b'" "tx' = db(Deployments \<mapsto> b')"
    by (auto simp: tx_bucket_def rbind_Inr_iff)
  with assms have "dep_ok E dx tx'"
    unfolding store_ok_def ok_defs by (simp add: table_ok_delete [where n = Deployments])
  with assms b show "store_ok E dx lx bx sx tx'" by (simp add: store_ok_def)
qed

lemma DeleteLease_store_ok:
  assumes "store_ok E dx lx bx sx db"
  shows "store_ok E dx lx bx sx (snd (DeleteLease E db i))"
  unfolding DeleteLease_def
proof (rule update_keeps [where P = "store_ok E dx lx bx sx", OF assms])
  fix tx'
  assume "rbind (tx_bucket db Leases) (\<lambda>b. of_opt BucketDelete (map_option (\<lambda>b'. db(Leases \<mapsto> b'))
    (bkt_delete E b (LeaseKey i)))) = Inr tx'"
  then obtain b b' where b: "db Leases = Some b" "bkt_delete E b (LeaseKey i) = Some b'" "tx' = db(Leases \<mapsto> b')"
    by (auto simp: tx_bucket_def rbind_Inr_iff)
  with assms have "lease_ok E lx tx'"
    unfolding store_ok_def ok_defs by (simp add: table_ok_delete [where n = Leases])
  with assms b show "store_ok E dx lx bx sx tx'" by (simp add: store_ok_def)
qed

text \<open>The batch of lease writes that closes a deployment's leases.\<close>

abbreviation put_leases :: "'b db \<Rightarrow> LeaseRecord list \<Rightarrow> store_err + 'b db" where
  "put_leases tx ls \<equiv> foldM (\<lambda>tx u. map_err (StoreLease (LeaseKey (lID u))) (putLeaseTx E tx (Some u))) tx ls"

lemma put_leases_plain:
  "put_leases tx ls = Inr tx' \<longleftrightarrow> foldM (\<lambda>tx u. putLeaseTx E tx (Some u)) tx ls = Inr tx'"
  by (induction ls arbitrary: tx) (auto simp: rbind_Inr_iff)

lemma put_leases_frame:
  assumes "put_leases tx ls = Inr tx'" and "m \<noteq> Leases"
  shows "tx' m = tx m"
  using assms(1) by (rule foldM_invariant [where P = "\<lambda>s. s m = tx m"]) (use assms(2) in \<open>auto dest: put_frames(2)\<close>)

text \<open>What one successful close writes.\<close>

lemma markClosedTx_split:
  assumes ok: "store_ok E dx lx bx sx tx" and run: "markClosedTx E owner dseq t tx = Inr tx'"
    and new: "dx (zero_deployment\<lparr>dOwner := owner, dDSeq := dseq, dCreatedAt := t\<rparr>)"
  obtains r tx1 b ls where
    "r = (case dep_view E tx (DeploymentKey owner dseq) of
            None \<Rightarrow> zero_deployment\<lparr>dOwner := owner, dDSeq := dseq, dCreatedAt := t\<rparr> | Some r \<Rightarrow> r)"
    "dx r" "dKey r = DeploymentKey owner dseq"
    "putDeploymentTx E tx (Some (close_deployment t r)) = Inr tx1" "tx Leases = Some b"
    "ls = filter (\<lambda>l. liOwner (lID l) = owner \<and> liDSeq (lID l) = dseq)
            (scan_rows (lease_unmarshal E zero_lease) (bkt_entries E b))"
    "put_leases tx1 (map (close_lease t) ls) = Inr tx'"
proof -
  let ?new = "zero_deployment\<lparr>dOwner := owner, dDSeq := dseq, dCreatedAt := t\<rparr>"
  let ?k = "DeploymentKey owner dseq"
  let ?r = "case dep_view E tx ?k of None \<Rightarrow> ?new | Some r \<Rightarrow> r"
  from run obtain d r tx1 b ls where d: "tx Deployments = Some d"
    and r: "(case bkt_get E d ?k of None \<Rightarrow> Inr ?new
              | Some data \<Rightarrow> of_opt UnmarshalDeployment (dep_unmarshal E ?new data)) = Inr r"
    and put: "putDeploymentTx E tx (Some (close_deployment t r)) = Inr tx1"
    and b: "tx1 Leases = Some b" and upd: "lease_updates E owner dseq t (bkt_entries E b) = Inr ls"
    and puts: "put_leases tx1 ls = Inr tx'"
    by (auto simp: markClosedTx_def tx_bucket_def rbind_Inr_iff Let_def)
  have dok: "dep_ok E dx tx" and lok: "lease_ok E lx tx" using ok by (simp_all add: store_ok_def)
  have rr: "r = ?r"
  proof (cases "bkt_get E d ?k")
    case (Some v)
    from dok [unfolded ok_defs] d Some obtain r1 where "\<forall>r0. fresh_deployment r0 \<longrightarrow> dep_unmarshal E r0 v = Some r1"
      by (rule table_ok_getE)
    with Some r d show ?thesis by (simp add: view_defs table_view_def)
  qed (use r d in \<open>simp add: view_defs table_view_def\<close>)
  have dxr: "dx ?r \<and> dKey ?r = ?k"
  proof (cases "dep_view E tx ?k")
    case None
    with new show ?thesis by simp
  next
    case (Some x)
    from dep_view_ok [OF dok Some] have "dKey x = ?k \<and> dx x" by simp
    with Some show ?thesis by (simp only: option.case simp_thms)
  qed
  have b': "tx Leases = Some b" using b put_frames(1) [OF put, of Leases] by simp
  have "\<forall>(k, v) \<in> set (bkt_entries E b). lease_unmarshal E zero_lease v \<noteq> None"
    using table_rows [OF lok [unfolded ok_defs] b', of zero_lease] by fastforce
  from lease_updates_eq [OF this] upd have ls: "ls = map (close_lease t)
     (filter (\<lambda>l. liOwner (lID l) = owner \<and> liDSeq (lID l) = dseq)
       (scan_rows (lease_unmarshal E zero_lease) (bkt_entries E b)))" by simp
  show ?thesis using that [OF refl _ _ _ b' refl] dxr put [unfolded rr] puts [unfolded ls] by blast
qed

lemma scan_view:
  "dep_ok E dx tx \<Longrightarrow> tx Deployments = Some b \<Longrightarrow>
     d \<in> set (scan_rows (dep_unmarshal E zero_deployment) (bkt_entries E b)) \<longleftrightarrow> dep_view E tx (dKey d) = Some d"
  "lease_ok E lx tx \<Longrightarrow> tx Leases = Some b \<Longrightarrow>
     l \<in> set (scan_rows (lease_unmarshal E zero_lease) (bkt_entries E b)) \<longleftrightarrow> lease_view E tx (lKey l) = Some l"
  "bid_ok E bx tx \<Longrightarrow> tx Bids = Some b \<Longrightarrow>
     bd \<in> set (scan_rows (bid_unmarshal E zero_bid) (bkt_entries E b)) \<longleftrightarrow> bid_view E tx (bKey bd) = Some bd"
  unfolding ok_defs view_defs by (rule table_scan_mem, assumption, assumption, simp)+

lemma markClosedTx_effect:
  assumes ok: "store_ok E dx lx bx sx tx" and run: "markClosedTx E owner dseq t tx = Inr tx'"
    and new: "dx (zero_deployment\<lparr>dOwner := owner, dDSeq := dseq, dCreatedAt := t\<rparr>)"
  shows "store_ok E dx lx bx sx tx'"
    and "\<exists>r v. dep_view E tx' (DeploymentKey owner dseq) = Some (dep_set_ver v (close_deployment t r)) \<and>
       r = (case dep_view E tx (DeploymentKey owner dseq) of
              None \<Rightarrow> zero_deployment\<lparr>dOwner := owner, dDSeq := dseq, dCreatedAt := t\<rparr> | Some r \<Rightarrow> r)"
    and "k \<noteq> DeploymentKey owner dseq \<Longrightarrow> dep_view E tx' k = dep_view E tx k"
    and "lease_view E tx k = Some l \<Longrightarrow> liOwner (lID l) = owner \<Longrightarrow> liDSeq (lID l) = dseq \<Longrightarrow>
       \<exists>v. lease_view E tx' k = Some (lease_set_ver v (close_lease t l))"
    and "lease_view E tx k = Some l \<Longrightarrow> liOwner (lID l) \<noteq> owner \<or> liDSeq (lID l) \<noteq> dseq \<Longrightarrow>
       lease_view E tx' k = Some l"
    and "lease_view E tx k = None \<Longrightarrow> lease_view E tx' k = None"
    and "bid_view E tx' = bid_view E tx"
proof -
  from markClosedTx_split [OF ok run new] obtain r tx1 b ls where
    r: "r = (case dep_view E tx (DeploymentKey owner dseq) of
            None \<Rightarrow> zero_deployment\<lparr>dOwner := owner, dDSeq := dseq, dCreatedAt := t\<rparr> | Some r \<Rightarrow> r)"
    and rx: "dx r" "dKey r = DeploymentKey owner dseq"
    and put: "putDeploymentTx E tx (Some (close_deployment t r)) = Inr tx1" and b: "tx Leases = Some b"
    and ls: "ls = filter (\<lambda>l. liOwner (lID l) = owner \<and> liDSeq (lID l) = dseq)
            (scan_rows (lease_unmarshal E zero_lease) (bkt_entries E b))"
    and puts: "put_leases tx1 (map (close_lease t) ls) = Inr tx'" .
  let ?rs = "map (close_lease t) ls"
  have oks: "dep_ok E dx tx" "lease_ok E lx tx" using ok by (simp_all add: store_ok_def)
  have ok1: "store_ok E dx lx bx sx tx1" by (rule putDeploymentTx_store_ok [OF ok dx_close [OF rx(1)] put])
  have lok1: "lease_ok E lx tx1" using ok1 by (simp add: store_ok_def)
  have mem: "l \<in> set ls \<longleftrightarrow> lease_view E tx (lKey l) = Some l \<and> liOwner (lID l) = owner \<and> liDSeq (lID l) = dseq" for l
    using scan_view(2) [OF oks(2) b] by (auto simp: ls)
  have exact: "\<forall>u \<in> set ?rs. lx u"
  proof
    fix u
    assume "u \<in> set ?rs"
    then obtain l where l: "l \<in> set ls" "u = close_lease t l" by auto
    with mem have "lease_view E tx (lKey l) = Some l" by blast
    from lease_view_ok [OF oks(2) this] l(2) show "lx u" by (simp add: lx_close)
  qed
  have lv1: "lease_view E tx1 = lease_view E tx" by (rule view_frame(2), rule put_frames(1) [OF put]) simp
  have plain: "foldM (\<lambda>tx u. putLeaseTx E tx (Some u)) tx1 ?rs = Inr tx'"
    using puts unfolding put_leases_plain .
  have dist: "distinct (map lKey ?rs)"
  proof -
    have "distinct (map lKey (scan_rows (lease_unmarshal E zero_lease) (bkt_entries E b)))"
      using oks(2) b unfolding ok_defs by (rule table_scan_distinct) simp
    then have "distinct (map lKey ls)" unfolding ls by (rule distinct_map_filter)
    then show ?thesis by (simp add: comp_def)
  qed
  show "store_ok E dx lx bx sx tx'"
    using puts ok1 by (rule foldM_invariant [where P = "store_ok E dx lx bx sx"])
      (use exact in \<open>auto intro: putLeaseTx_store_ok\<close>)
  from dep.put_view [OF oks(1) dx_close [OF rx(1)] put] obtain v where
    v: "dep_view E tx1 = (dep_view E tx)(DeploymentKey owner dseq \<mapsto> dep_set_ver v (close_deployment t r))"
    using rx(2) by auto
  have dv: "dep_view E tx' = dep_view E tx1" by (rule view_frame(1), rule put_leases_frame [OF puts]) simp
  show "\<exists>r v. dep_view E tx' (DeploymentKey owner dseq) = Some (dep_set_ver v (close_deployment t r)) \<and>
       r = (case dep_view E tx (DeploymentKey owner dseq) of
              None \<Rightarrow> zero_deployment\<lparr>dOwner := owner, dDSeq := dseq, dCreatedAt := t\<rparr> | Some r \<Rightarrow> r)"
    using v dv r by auto
  show "k \<noteq> DeploymentKey owner dseq \<Longrightarrow> dep_view E tx' k = dep_view E tx k"
    using v dv by simp
  show "\<exists>v. lease_view E tx' k = Some (lease_set_ver v (close_lease t l))"
    if l: "lease_view E tx k = Some l" "liOwner (lID l) = owner" "liDSeq (lID l) = dseq"
  proof -
    have k: "k = lKey l" using lease_view_ok [OF oks(2) l(1)] by simp
    with l mem have "close_lease t l \<in> set ?rs" by auto
    from lease.puts_lookup [OF lok1 plain exact dist this] k show ?thesis by auto
  qed
  have other: "lease_view E tx' k = lease_view E tx k" if "\<forall>l \<in> set ls. lKey l \<noteq> k"
  proof -
    have "k \<notin> lKey ` set ?rs" using that by auto
    from lease.puts_other [OF lok1 plain exact this] lv1 show ?thesis by simp
  qed
  show "lease_view E tx' k = Some l"
    if l: "lease_view E tx k = Some l" "liOwner (lID l) \<noteq> owner \<or> liDSeq (lID l) \<noteq> dseq"
    using other l mem by (metis option.inject)
  show "lease_view E tx k = None \<Longrightarrow> lease_view E tx' k = None"
    using other mem by (metis option.distinct(1))
  show "bid_view E tx' = bid_view E tx"
    by (rule view_frame(3)) (simp add: put_leases_frame [OF puts] put_frames(1) [OF put])
qed

text \<open>Opening a new file makes an empty, well-formed store; opening a well-formed one keeps it.\<close>

lemma create_buckets_present:
  "fold (create_bucket E) [Deployments, Leases, Bids, Sync, Meta] Map.empty =
     [Deployments \<mapsto> bkt_new E, Leases \<mapsto> bkt_new E, Bids \<mapsto> bkt_new E, Sync \<mapsto> bkt_new E, Meta \<mapsto> bkt_new E]"
  by (simp add: create_bucket_def)

lemma table_new:
  "tx n = Some (bkt_new E) \<Longrightarrow> table_ok E n fresh unmarshal key ver exact tx \<and> table_view E n u tx = Map.empty"
  by (auto simp: table_ok_def table_view_def new_get fun_eq_iff)

lemma Open_fresh:
  assumes "Open E Map.empty = (None, db)"
  shows "store_ok E dx lx bx sx db" and "dep_view E db = Map.empty" and "lease_view E db = Map.empty"
    and "bid_view E db = Map.empty" and "SchemaVersion E db = 1"
proof -
  let ?tx = "[Deployments \<mapsto> bkt_new E, Leases \<mapsto> bkt_new E, Bids \<mapsto> bkt_new E, Sync \<mapsto> bkt_new E, Meta \<mapsto> bkt_new E]"
  from update_cases [OF assms [unfolded Open_def], unfolded create_buckets_present Let_def]
  have "put_bytes E ?tx Meta keySchemaVersion (be64_put E currentSchemaVersion) SetSchemaVersion = Inr db"
    by (simp add: tx_bucket_def new_get)
  then obtain m where m:
    "bkt_put E (bkt_new E) keySchemaVersion (be64_put E currentSchemaVersion) = Some m"
    "db = [Deployments \<mapsto> bkt_new E, Leases \<mapsto> bkt_new E, Bids \<mapsto> bkt_new E, Sync \<mapsto> bkt_new E, Meta \<mapsto> m]"
    by (auto simp: put_bytes_Inr)
  note g = put_get [OF m(1)]
  have b: "db Deployments = Some (bkt_new E)" "db Leases = Some (bkt_new E)" "db Bids = Some (bkt_new E)"
    "db Sync = Some (bkt_new E)" "db Meta = Some m" using m(2) by simp_all
  show "store_ok E dx lx bx sx db"
    using b g by (auto simp: store_ok_def ok_defs table_new sync_ok_def meta_ok_def new_get be64_len)
  show "dep_view E db = Map.empty" "lease_view E db = Map.empty" "bid_view E db = Map.empty"
    using b by (simp_all add: view_defs table_new)
  show "SchemaVersion E db = 1"
    using b g by (simp add: SchemaVersion_def be64_len be64_get currentSchemaVersion_def)
qed

lemma Open_keeps:
  assumes "store_ok E dx lx bx sx db" and "Open E db = (r, db')"
  shows "db' = db"
proof -
  from assms(1) obtain m v where "db Deployments \<noteq> None" "db Leases \<noteq> None" "db Bids \<noteq> None" "db Sync \<noteq> None"
    "db Meta = Some m" "bkt_get E m keySchemaVersion = Some v"
    by (auto simp: store_ok_def ok_defs table_ok_def sync_ok_def meta_ok_def)
  then show ?thesis
    using update_cases [OF assms(2) [unfolded Open_def]]
    by (auto simp: create_bucket_def tx_bucket_def)
qed

text \<open>Migrations: the schema version after a run is that of the last migration applied.\<close>

lemma SchemaVersion_meta: "db Meta = Some m \<Longrightarrow> SchemaVersion E db = schemaVersionFromTx E m"
  by (simp add: SchemaVersion_def schemaVersionFromTx_def)

lemma migrate_fold:
  "foldM (migrate_one E c) tx ms = Inr tx' \<Longrightarrow>
     (if filter (\<lambda>m. c < mVersion m) ms = [] then tx' = tx
      else SchemaVersion E tx' = mVersion (last (filter (\<lambda>m. c < mVersion m) ms)))"
proof (induction ms arbitrary: tx' rule: rev_induct)
  case Nil
  then show ?case by simp
next
  case (snoc m ms)
  then obtain tx1 where tx1: "foldM (migrate_one E c) tx ms = Inr tx1" "migrate_one E c tx1 m = Inr tx'"
    by (auto simp: foldM_append rbind_Inr_iff)
  show ?case
  proof (cases "c < mVersion m")
    case True
    then have "\<not> mVersion m \<le> c" by simp
    with tx1(2) obtain txf b b' where "txf Meta = Some b"
      "bkt_put E b keySchemaVersion (be64_put E (mVersion m)) = Some b'" "tx' = txf(Meta \<mapsto> b')"
      by (auto simp: migrate_one_def rbind_Inr_iff put_bytes_Inr)
    then have "SchemaVersion E tx' = mVersion m"
      using put_get be64_len be64_get by (simp add: SchemaVersion_def)
    with True show ?thesis by simp
  next
    case False
    with tx1 have "tx1 = tx'" by (simp add: migrate_one_def linorder_not_less)
    with snoc.IH [OF tx1(1)] False show ?thesis by (simp split: if_splits)
  qed
qed

lemma migrate_skip:
  "\<forall>m \<in> set ms. mVersion m \<le> c \<Longrightarrow> foldM (migrate_one E c) tx ms = Inr tx"
  by (induction ms) (auto simp: migrate_one_def)

text \<open>Listings and statistics.\<close>

lemma sorted_filter_keys: "sorted_wrt (<) (map key rs) \<Longrightarrow> sorted_wrt (<) (map key (filter P rs))"
  by (induction rs) auto

lemma ListDeployments_view:
  assumes "dep_ok E dx db"
  shows "\<exists>ds. ListDeployments E db f = Inr ds \<and>
    (\<forall>d. d \<in> set ds \<longleftrightarrow> dep_view E db (dKey d) = Some d \<and> matchDeployment d f) \<and>
    sorted_wrt (<) (map dKey ds)"
proof -
  from assms [unfolded ok_defs] obtain b where b: "db Deployments = Some b" by (rule table_ok_bucketE)
  have "sorted_wrt (<) (map dKey (scan_rows (dep_unmarshal E zero_deployment) (bkt_entries E b)))"
    using table_scan_keys [OF assms [unfolded ok_defs] b, of zero_deployment] entries_sorted by simp
  then show ?thesis
    using scan_view(1) [OF assms b] b
    by (auto simp: ListDeployments_def tx_bucket_def sorted_filter_keys)
qed

lemma ListLeases_view:
  assumes "lease_ok E lx db"
  shows "\<exists>ls. ListLeases E db f = Inr ls \<and>
    (\<forall>l. l \<in> set ls \<longleftrightarrow> lease_view E db (lKey l) = Some l \<and> matchLease l f) \<and>
    sorted_wrt (<) (map lKey ls)"
proof -
  from assms [unfolded ok_defs] obtain b where b: "db Leases = Some b" by (rule table_ok_bucketE)
  have "sorted_wrt (<) (map lKey (scan_rows (lease_unmarshal E zero_lease) (bkt_entries E b)))"
    using table_scan_keys [OF assms [unfolded ok_defs] b, of zero_lease] entries_sorted by simp
  then show ?thesis
    using scan_view(2) [OF assms b] b
    by (auto simp: ListLeases_def tx_bucket_def sorted_filter_keys)
qed

lemma migrate_schema:
  assumes sorted: "sorted_wrt (<) (map mVersion ms)" and run: "migrate E ms db = (None, db')"
  shows "SchemaVersion E db' = fold max (map mVersion ms) (SchemaVersion E db)"
proof -
  from update_cases [OF run [unfolded migrate_def]] obtain m where m: "db Meta = Some m"
    and f: "foldM (migrate_one E (schemaVersionFromTx E m)) db ms = Inr db'"
    by (auto simp: tx_bucket_def rbind_Inr_iff)
  let ?c = "schemaVersionFromTx E m"
  have c: "SchemaVersion E db = ?c" using m by (rule SchemaVersion_meta)
  have "fold max (map mVersion ms) ?c = (if filter (\<lambda>m. ?c < mVersion m) ms = [] then ?c
      else mVersion (last (filter (\<lambda>m. ?c < mVersion m) ms)))"
    using sorted
  proof (induction ms rule: rev_induct)
    case (snoc x ms)
    then have IH: "fold max (map mVersion ms) ?c = (if filter (\<lambda>m. ?c < mVersion m) ms = [] then ?c
      else mVersion (last (filter (\<lambda>m. ?c < mVersion m) ms)))"
      and x: "\<forall>y \<in> set ms. mVersion y < mVersion x" by (auto simp: sorted_wrt_append)
    show ?case
    proof (cases "filter (\<lambda>m. ?c < mVersion m) ms = []")
      case False
      then have "last (filter (\<lambda>m. ?c < mVersion m) ms) \<in> set (filter (\<lambda>m. ?c < mVersion m) ms)"
        by (rule last_in_set)
      with x have "?c < mVersion (last (filter (\<lambda>m. ?c < mVersion m) ms))"
        "mVersion (last (filter (\<lambda>m. ?c < mVersion m) ms)) < mVersion x" by auto
      moreover from calculation have "?c < mVersion x" by (rule less_trans)
      ultimately show ?thesis using IH False by (simp add: max_absorb1 less_imp_le)
    qed (use IH in \<open>simp add: max_absorb1 max_absorb2 less_imp_le linorder_not_less\<close>)
  qed simp
  with migrate_fold [OF f] c show ?thesis by (auto split: if_splits)
qed

lemma migrate_again:
  assumes "migrate E ms db = (r, db')" and "\<forall>m \<in> set ms. mVersion m \<le> SchemaVersion E db"
  shows "db' = db"
  using update_cases [OF assms(1) [unfolded migrate_def]] assms(2)
  by (auto simp: tx_bucket_def rbind_Inr_iff SchemaVersion_meta migrate_skip)

end

lemma fold_max_ge: "(x::'a::linorder) \<in> set xs \<Longrightarrow> x \<le> fold max xs a" "a \<le> fold max xs a"
proof -
  have mono: "a \<le> fold max xs a" for a and xs :: "'a list"
    by (induction xs arbitrary: a) (auto intro: order_trans [OF max.cobounded2])
  then show "a \<le> fold max xs a" .
  show "x \<in> set xs \<Longrightarrow> x \<le> fold max xs a"
    by (induction xs arbitrary: a) (auto intro: order_trans [OF max.cobounded1 mono])
qed

section \<open>Public operations\<close>

context store_env
begin

lemma PutDeployment_effect:
  assumes ok: "store_ok E dx lx bx sx db" and d: "dx d" and put: "PutDeployment E db (Some d) = (None, db')"
  shows "\<exists>v. next_version (map_option dRecordVersion (dep_view E db (dKey d))) (dRecordVersion d) = Some v \<and>
      dep_view E db' = (dep_view E db)(dKey d \<mapsto> d\<lparr>dRecordVersion := v\<rparr>) \<and> store_ok E dx lx bx sx db'"
proof -
  have run: "putDeploymentTx E db (Some d) = Inr db'"
    using update_cases [OF put [unfolded PutDeployment_def]] by simp
  have "dep_ok E dx db" using ok by (simp add: store_ok_def)
  from dep.put_view [OF this d run] putDeploymentTx_store_ok [OF ok d run] show ?thesis
    by (simp add: dep_set_ver_def)
qed

end

context store_env
begin

lemma Put_store_ok:
  assumes "store_ok E dx lx bx sx db"
  shows "(\<forall>d. r = Some d \<longrightarrow> dx d) \<Longrightarrow> store_ok E dx lx bx sx (snd (PutDeployment E db r))"
    and "(\<forall>l. rl = Some l \<longrightarrow> lx l) \<Longrightarrow> store_ok E dx lx bx sx (snd (PutLease E db rl))"
    and "(\<forall>b. rb = Some b \<longrightarrow> bx b) \<Longrightarrow> store_ok E dx lx bx sx (snd (PutBid E db rb))"
    and "(\<forall>st. rs = Some st \<longrightarrow> sx st) \<Longrightarrow> store_ok E dx lx bx sx (snd (PutSyncState E db rs))"
  unfolding PutDeployment_def PutLease_def PutBid_def PutSyncState_def
proof -
  let ?P = "store_ok E dx lx bx sx"
  show "?P (snd (db_update E (\<lambda>tx. putDeploymentTx E tx r) db))" if "\<forall>d. r = Some d \<longrightarrow> dx d"
  proof (rule update_keeps [where P = ?P, OF assms])
    show "?P tx'" if "putDeploymentTx E db r = Inr tx'" for tx'
      using that \<open>\<forall>d. r = Some d \<longrightarrow> dx d\<close> putDeploymentTx_store_ok [OF assms]
      by (cases r) (auto simp: putDeploymentTx_def putDeploymentTxWithMarshal_def)
  qed
  show "?P (snd (db_update E (\<lambda>tx. putLeaseTx E tx rl) db))" if "\<forall>l. rl = Some l \<longrightarrow> lx l"
  proof (rule update_keeps [where P = ?P, OF assms])
    show "?P tx'" if "putLeaseTx E db rl = Inr tx'" for tx'
      using that \<open>\<forall>l. rl = Some l \<longrightarrow> lx l\<close> putLeaseTx_store_ok [OF assms]
      by (cases rl) (auto simp: putLeaseTx_def putLeaseTxWithMarshal_def)
  qed
  show "?P (snd (db_update E (\<lambda>tx. putBidTx E tx rb) db))" if "\<forall>b. rb = Some b \<longrightarrow> bx b"
  proof (rule update_keeps [where P = ?P, OF assms])
    show "?P tx'" if "putBidTx E db rb = Inr tx'" for tx'
      using that \<open>\<forall>b. rb = Some b \<longrightarrow> bx b\<close> putBidTx_store_ok [OF assms]
      by (cases rb) (auto simp: putBidTx_def putBidTxWithMarshal_def)
  qed
  show "?P (snd (db_update E (\<lambda>tx. putSyncStateTx E tx rs) db))" if "\<forall>st. rs = Some st \<longrightarrow> sx st"
  proof (rule update_keeps [where P = ?P, OF assms])
    show "?P tx'" if "putSyncStateTx E db rs = Inr tx'" for tx'
      using that \<open>\<forall>st. rs = Some st \<longrightarrow> sx st\<close> putSyncStateTx_store_ok [OF assms]
      by (cases rs) (auto simp: putSyncStateTx_def putSyncStateTxWithMarshal_def)
  qed
qed

lemma MarkDeploymentClosed_store_ok:
  assumes "store_ok E dx lx bx sx db" and "dx (zero_deployment\<lparr>dOwner := owner, dDSeq := dseq, dCreatedAt := t\<rparr>)"
  shows "store_ok E dx lx bx sx (snd (MarkDeploymentClosed E db owner dseq t))"
  using assms(1) update_keeps [where P = "store_ok E dx lx bx sx", OF assms(1)]
    markClosedTx_effect(1) [OF assms(1) _ assms(2)]
  by (auto simp: MarkDeploymentClosed_def)

end

text \<open>Each statistics counter is a fold that counts.\<close>

lemma fold_count_deployment:
  "fold count_deployment ds st = st\<lparr>
     stDeployments := stDeployments st + int (length ds),
     stActiveDeployments := stActiveDeployments st + int (length (filter (\<lambda>d. dState d = ''active'') ds)),
     stClosedDeployments := stClosedDeployments st + int (length (filter (\<lambda>d. dState d = ''closed'') ds))\<rparr>"
  by (induction ds arbitrary: st) (auto simp: count_deployment_def Let_def)

lemma fold_count_lease:
  "fold count_lease ls st = st\<lparr>
     stLeases := stLeases st + int (length ls),
     stActiveLeases := stActiveLeases st + int (length (filter (\<lambda>l. lState l = ''active'') ls)),
     stClosedLeases := stClosedLeases st + int (length (filter (\<lambda>l. lState l = ''closed'') ls)),
     stInsufficientFundsLeases := stInsufficientFundsLeases st
       + int (length (filter (\<lambda>l. lState l = ''insufficient_funds'') ls))\<rparr>"
  by (induction ls arbitrary: st) (auto simp: count_lease_def Let_def)

lemma fold_count_bid:
  "fold count_bid bs st = st\<lparr>
     stBids := stBids st + int (length bs),
     stOpenBids := stOpenBids st + int (length (filter (\<lambda>b. bState b = ''open'') bs)),
     stMatchedBids := stMatchedBids st + int (length (filter (\<lambda>b. bState b = ''matched'') bs)),
     stClosedBids := stClosedBids st + int (length (filter (\<lambda>b. bState b = ''closed'') bs)),
     stLostBids := stLostBids st + int (length (filter (\<lambda>b. bState b = ''lost'') bs))\<rparr>"
  by (induction bs arbitrary: st) (auto simp: count_bid_def Let_def)

lemmas fold_counts = fold_count_deployment fold_count_lease fold_count_bid

text \<open>The registry of migrations stays strictly ordered.\<close>

lemma RegisterMigration_sorted:
  assumes "sorted_wrt (<) (map mVersion ms)" and "RegisterMigration ms m = Some ms'"
  shows "sorted_wrt (<) (map mVersion ms') \<and> set ms' = insert m (set ms)"
proof -
  from assms have ms': "ms' = sort_key mVersion (ms @ [m])" and new: "mVersion m \<notin> mVersion ` set ms"
    by (auto simp: RegisterMigration_def list_ex_iff split: if_splits)
  have "distinct (map mVersion (ms @ [m]))"
    using assms(1) new by (auto simp: strict_sorted_iff)
  then have "distinct (map mVersion ms')"
    by (metis ms' mset_map mset_sort mset_eq_imp_distinct_iff)
  then show ?thesis by (auto simp: ms' strict_sorted_iff)
qed

end
