(* ===== verification/Store_Spec.thy ===== *)
theory Store_Spec
  imports Store_Props "HOL-Library.RBT"
begin

text \<open>
  The store's properties, over any environment that satisfies \<open>store_env\<close>, and the
  reference environment \<open>ref_ext\<close>: buckets are red-black trees, stored values are
  the structured records themselves, a transaction commits whenever its body succeeds.
  Decoding into a record with a map keeps the old entries of that map, as encoding/json does.
\<close>

section \<open>A reference environment\<close>

datatype ref_val = VDep DeploymentRecord | VLease LeaseRecord | VBid BidRecord | VSync SyncState | VWord u64

definition merge_map :: "(string \<rightharpoonup> string) option \<Rightarrow> (string \<rightharpoonup> string) option \<Rightarrow> (string \<rightharpoonup> string) option" where
  "merge_map old new = (case (old, new) of (Some m, Some n) \<Rightarrow> Some (m ++ n) | _ \<Rightarrow> new)"

lemma merge_map_None [simp]: "merge_map None new = new"
  by (simp add: merge_map_def)

definition ref_ext :: "((bytes, ref_val) rbt, ref_val) ext" where
  "ref_ext = \<lparr>bkt_new = RBT.empty, bkt_get = RBT.lookup, bkt_put = (\<lambda>b k v. Some (RBT.insert k v b)),
     bkt_delete = (\<lambda>b k. Some (RBT.delete k b)), bkt_entries = RBT.entries,
     db_update = (\<lambda>f db. case f db of Inl e \<Rightarrow> (Some e, db) | Inr db' \<Rightarrow> (None, db')),
     val_len = (\<lambda>v. case v of VWord _ \<Rightarrow> 8 | _ \<Rightarrow> 2), be64_put = VWord,
     be64_get = (\<lambda>v. case v of VWord w \<Rightarrow> w | _ \<Rightarrow> 0),
     dep_marshal = (\<lambda>d. Some (VDep d)), dep_unmarshal = (\<lambda>d0 v. case v of VDep d \<Rightarrow> Some (d\<lparr>dLabels := merge_map (dLabels d0) (dLabels d)\<rparr>) | _ \<Rightarrow> None),
     lease_marshal = (\<lambda>l. Some (VLease l)), lease_unmarshal = (\<lambda>_ v. case v of VLease l \<Rightarrow> Some l | _ \<Rightarrow> None),
     bid_marshal = (\<lambda>b. Some (VBid b)), bid_unmarshal = (\<lambda>b0 v. case v of VBid b \<Rightarrow>
       Some (b\<lparr>bProviderAttributes := merge_map (bProviderAttributes b0) (bProviderAttributes b)\<rparr>) | _ \<Rightarrow> None),
     sync_marshal = (\<lambda>s. Some (VSync s)), sync_unmarshal = (\<lambda>_ v. case v of VSync s \<Rightarrow> Some s | _ \<Rightarrow> None),
     ver_unmarshal = (\<lambda>v. case v of VDep d \<Rightarrow> Some (dRecordVersion d) | VLease l \<Rightarrow> Some (lRecordVersion l)
       | VBid b \<Rightarrow> Some (bRecordVersion b) | VSync s \<Rightarrow> Some 0 | VWord _ \<Rightarrow> None)\<rparr>"

lemma fresh_maps: "fresh_deployment d \<Longrightarrow> dLabels d = None" "fresh_bid b \<Longrightarrow> bProviderAttributes b = None"
proof -
  assume "fresh_deployment d"
  then have "dLabels d = dLabels (zero_deployment\<lparr>dOwner := dOwner d, dDSeq := dDSeq d, dCreatedAt := dCreatedAt d\<rparr>)"
    by (simp only: fresh_deployment_def)
  then show "dLabels d = None" by (simp add: zero_deployment_def)
qed (simp add: fresh_bid_def zero_bid_def)

interpretation ref: store_env ref_ext "\<lambda>_. True" "\<lambda>_. True" "\<lambda>_. True" "\<lambda>_. True"
proof (unfold_locales, goal_cases)
  case (7 b)
  show ?case
    by (simp add: ref_ext_def strict_sorted_iff RBT.sorted_entries RBT.distinct_entries)
qed (auto simp: ref_ext_def fun_eq_iff RBT.map_of_entries fresh_maps)

text \<open>Example stores: freshly opened, and with one deployment and one of its leases.\<close>

definition sample_store :: "(bytes, ref_val) rbt db" where
  "sample_store = snd (Open ref_ext Map.empty)"

definition sample_deployment :: DeploymentRecord where
  "sample_deployment = zero_deployment\<lparr>dOwner := ''o'', dDSeq := 7, dState := ''active''\<rparr>"

definition sample_lease :: LeaseRecord where
  "sample_lease = zero_lease\<lparr>lID := \<lparr>liOwner = ''o'', liDSeq = 7, liGSeq = 1, liOSeq = 1, liProvider = ''p''\<rparr>,
     lState := ''active''\<rparr>"

abbreviation any :: "'a \<Rightarrow> bool" where
  "any \<equiv> \<lambda>_. True"

lemma ref_update: "db_update ref_ext f db = (case f db of Inl e \<Rightarrow> (Some e, db) | Inr db' \<Rightarrow> (None, db'))"
  by (simp add: ref_ext_def)

lemma sample_open: "Open ref_ext Map.empty = (None, sample_store)"
proof -
  have "fst (Open ref_ext Map.empty) = None"
    by (simp add: Open_def ref_update create_bucket_def put_bytes_def tx_bucket_def ref_ext_def)
  then show ?thesis by (simp add: sample_store_def prod_eq_iff)
qed

lemma sample_store_ok: "store_ok ref_ext any any any any sample_store"
  by (rule ref.Open_fresh [OF sample_open])

text \<open>In the reference environment no write fails but for an exhausted revision.\<close>

lemma ref_put_record:
  assumes "table_ok ref_ext n fresh unmarshal key ver exact tx"
    and "fresh r0" "table_view ref_ext n (unmarshal r0) tx (key r) = None" "marshal (set_ver (if ver r = 0 then 1 else ver r) r) = Some v"
  shows "\<exists>tx'. put_record ref_ext n key ver set_ver marshal verr merr tx r = Inr tx'"
proof -
  from assms(1) obtain b where b: "tx n = Some b" by (rule table_ok_bucketE)
  have "nextRecordVersion ref_ext (bkt_get ref_ext b (key r)) (ver r) = Inr (if ver r = 0 then 1 else ver r)"
    using ref.nextRecordVersion_spec [OF assms(1) b assms(2), of "key r" "ver r"] assms(3)
    by (simp add: next_version_def)
  with b assms(4) show ?thesis
    by (auto simp: put_record_def tx_bucket_def put_bytes_def ref_ext_def)
qed

lemma fst_pair: "fst p = a \<Longrightarrow> p = (a, snd p)"
  by (cases p) simp

section \<open>Properties of the store\<close>

text \<open>
  C1.  After a successful \<open>PutDeployment\<close> on a well-formed store, \<open>GetDeployment\<close> returns
  exactly the record that was put, under a new non-zero revision that is above the stored
  one and not below the incoming one; every other deployment, every lease, every bid, the
  sync state and the schema version read as before, and the store is still well-formed.
\<close>

theorem PutDeployment_GetDeployment:
  assumes env: "store_env E dx lx bx sx" and ok: "store_ok E dx lx bx sx db" and d: "dx d"
    and put: "PutDeployment E db (Some d) = (None, db')"
  shows "\<exists>v. v \<noteq> 0 \<and> dRecordVersion d \<le> v \<and>
      GetDeployment E db' (dOwner d) (dDSeq d) = Inr (Some (d\<lparr>dRecordVersion := v\<rparr>)) \<and>
      (\<forall>old. GetDeployment E db (dOwner d) (dDSeq d) = Inr (Some old) \<longrightarrow> dRecordVersion old < v) \<and>
      (\<forall>owner dseq. (owner, dseq) \<noteq> (dOwner d, dDSeq d) \<longrightarrow>
         GetDeployment E db' owner dseq = GetDeployment E db owner dseq) \<and>
      (\<forall>i. GetLease E db' i = GetLease E db i) \<and> (\<forall>i. GetBid E db' i = GetBid E db i) \<and>
      GetSyncState E db' = GetSyncState E db \<and> SchemaVersion E db' = SchemaVersion E db \<and>
      store_ok E dx lx bx sx db'"
proof -
  from put store_env.update_cases [OF env put [unfolded PutDeployment_def]] have "putDeploymentTx E db (Some d) = Inr db'" by simp
  then have "m \<noteq> Deployments \<Longrightarrow> db' m = db m" for m by (rule store_env.put_frames(1) [OF env])
  then have others: "GetLease E db' i = GetLease E db i" "GetBid E db' j = GetBid E db j"
    "GetSyncState E db' = GetSyncState E db" "SchemaVersion E db' = SchemaVersion E db" for i j
    by (simp_all add: GetLease_def GetBid_def GetSyncState_def SchemaVersion_def schemaVersionFromTx_def tx_bucket_def)
  from store_env.PutDeployment_effect [OF env ok d put] obtain v where
    v: "next_version (map_option dRecordVersion (dep_view E db (dKey d))) (dRecordVersion d) = Some v"
      "dep_view E db' = (dep_view E db)(dKey d \<mapsto> d\<lparr>dRecordVersion := v\<rparr>)" and ok': "store_ok E dx lx bx sx db'"
    by blast
  have "GetDeployment E db = (\<lambda>owner dseq. Inr (dep_view E db (DeploymentKey owner dseq)))"
    "GetDeployment E db' = (\<lambda>owner dseq. Inr (dep_view E db' (DeploymentKey owner dseq)))"
    using ok ok' store_env.GetDeployment_view [OF env] by (auto simp: store_ok_def fun_eq_iff)
  with v ok' others next_version_greater [of _ "dRecordVersion d" v] show ?thesis
    by (intro exI [of _ v]) (auto simp: next_version_nonzero next_version_ge)
qed

theorem PutDeployment_GetDeployment_witness:
  "fst (PutDeployment ref_ext sample_store (Some sample_deployment)) = None \<and>
   (\<exists>v. v \<noteq> 0 \<and> GetDeployment ref_ext (snd (PutDeployment ref_ext sample_store (Some sample_deployment))) ''o'' 7 =
      Inr (Some (sample_deployment\<lparr>dRecordVersion := v\<rparr>)))"
proof -
  have put: "fst (PutDeployment ref_ext sample_store (Some sample_deployment)) = None" by code_simp
  from PutDeployment_GetDeployment [OF ref.store_env_axioms sample_store_ok TrueI fst_pair [OF put]] put
  show ?thesis by (auto simp: sample_deployment_def)
qed

text \<open>
   A failed \<open>PutDeployment\<close> leaves the store as it was, and on a well-formed store it
  fails only for a nil record, an exhausted revision (the stored one is \<open>2\<^sup>6\<^sup>4 - 1\<close> and the
  incoming one is not above it), a marshalling error, or an error of the database.
\<close>

theorem PutDeployment_failure:
  assumes env: "store_env E dx lx bx sx" and ok: "store_ok E dx lx bx sx db"
    and put: "PutDeployment E db d = (Some e, db')"
  shows "db' = db \<and>
    ((d = None \<and> e = NilDeployment)
     \<or> (\<exists>r old. d = Some r \<and> GetDeployment E db (dOwner r) (dDSeq r) = Inr (Some old) \<and>
          dRecordVersion old = - 1 \<and> e = VersionDeployment (RevisionExhausted (- 1)))
     \<or> e = MarshalDeployment \<or> e = BucketPut \<or> e = CommitFailed)"
proof -
  have same: "db' = db"
    using store_env.update_cases [OF env put [unfolded PutDeployment_def]] by auto
  have dok: "dep_ok E dx db" using ok by (simp add: store_ok_def)
  show ?thesis
  proof (cases "putDeploymentTx E db d")
    case (Inr tx)
    with store_env.update_commit [OF env, of "\<lambda>tx. putDeploymentTx E tx d" db tx] put same
    show ?thesis by (auto simp: PutDeployment_def)
  next
    case (Inl e')
    with store_env.update_error [OF env, of "\<lambda>tx. putDeploymentTx E tx d" db e'] put
    have e: "e' = e" by (simp add: PutDeployment_def)
    show ?thesis
    proof (cases d)
      case None
      with Inl e same show ?thesis by (simp add: putDeploymentTx_def putDeploymentTxWithMarshal_def)
    next
      case (Some r)
      from store_env.put_record_error [OF env dok [unfolded ok_defs] Inl [unfolded Some putDeploymentTx_Some], of zero_deployment]
      show ?thesis
        using store_env.GetDeployment_view [OF env dok] e Some same unfolding view_defs by auto
    qed
  qed
qed

theorem PutDeployment_failure_witness:
  "PutDeployment ref_ext sample_store None = (Some NilDeployment, sample_store) \<and> NilDeployment \<noteq> CommitFailed"
proof -
  have put: "fst (PutDeployment ref_ext sample_store None) = Some NilDeployment" by code_simp
  from PutDeployment_failure [OF ref.store_env_axioms sample_store_ok fst_pair [OF put]] fst_pair [OF put]
  show ?thesis by auto
qed

text \<open>
  C2.  \<open>MarkDeploymentClosed\<close> closes a deployment and all of its leases in one step: after
  success the deployment is stored closed (a record is made when there was none), each of
  its leases is closed, and every other deployment, lease and bid is untouched; after any
  error the store is as before.
\<close>

theorem MarkDeploymentClosed_atomic:
  assumes env: "store_env E dx lx bx sx" and ok: "store_ok E dx lx bx sx db"
    and new: "dx (zero_deployment\<lparr>dOwner := owner, dDSeq := dseq, dCreatedAt := t\<rparr>)"
    and run: "MarkDeploymentClosed E db owner dseq t = (r, db')"
  shows "(r \<noteq> None \<longrightarrow> db' = db) \<and>
    (r = None \<longrightarrow> store_ok E dx lx bx sx db' \<and>
      (\<exists>d. GetDeployment E db' owner dseq = Inr (Some d) \<and> dState d = ''closed'' \<and> dUpdatedAt d = t \<and>
        (\<forall>old. GetDeployment E db owner dseq = Inr (Some old) \<longrightarrow>
          d = (close_deployment t old)\<lparr>dRecordVersion := dRecordVersion d\<rparr>)) \<and>
      (\<forall>o2 d2. (o2, d2) \<noteq> (owner, dseq) \<longrightarrow> GetDeployment E db' o2 d2 = GetDeployment E db o2 d2) \<and>
      (\<forall>i l. GetLease E db i = Inr (Some l) \<and> liOwner (lID l) = owner \<and> liDSeq (lID l) = dseq \<longrightarrow>
        (\<exists>v. GetLease E db' i = Inr (Some ((close_lease t l)\<lparr>lRecordVersion := v\<rparr>)))) \<and>
      (\<forall>i l. GetLease E db i = Inr (Some l) \<and> (liOwner (lID l), liDSeq (lID l)) \<noteq> (owner, dseq) \<longrightarrow>
        GetLease E db' i = Inr (Some l)) \<and>
      (\<forall>i. GetLease E db i = Inr None \<longrightarrow> GetLease E db' i = Inr None) \<and>
      (\<forall>i. GetBid E db' i = GetBid E db i))"
proof (cases r)
  case (Some e)
  then show ?thesis
    using run store_env.update_cases [OF env, of "markClosedTx E owner dseq t" db r db']
    by (auto simp: MarkDeploymentClosed_def split: if_splits)
next
  case None
  with run store_env.update_cases [OF env, of "markClosedTx E owner dseq t" db r db']
  have tx: "markClosedTx E owner dseq t db = Inr db'"
    by (auto simp: MarkDeploymentClosed_def split: if_splits)
  note eff = store_env.markClosedTx_effect [OF env ok tx new]
  have ok': "store_ok E dx lx bx sx db'" by (rule eff(1))
  have gets: "GetDeployment E db' o2 d2 = Inr (dep_view E db' (DeploymentKey o2 d2))"
    "GetDeployment E db o2 d2 = Inr (dep_view E db (DeploymentKey o2 d2))"
    "GetLease E db' i = Inr (lease_view E db' (LeaseKey i))" "GetLease E db i = Inr (lease_view E db (LeaseKey i))"
    "GetBid E db' j = Inr (bid_view E db' (BidKey j))" "GetBid E db j = Inr (bid_view E db (BidKey j))" for o2 d2 i j
    using ok ok' by (simp_all add: store_ok_def store_env.GetDeployment_view [OF env]
      store_env.GetLease_view [OF env] store_env.GetBid_view [OF env])
  have dep: "\<exists>d. dep_view E db' (DeploymentKey owner dseq) = Some d \<and> dState d = ''closed'' \<and> dUpdatedAt d = t \<and>
      (\<forall>old. dep_view E db (DeploymentKey owner dseq) = Some old \<longrightarrow>
        d = (close_deployment t old)\<lparr>dRecordVersion := dRecordVersion d\<rparr>)"
    using eff(2) by (auto simp: dep_set_ver_def)
  have lease: "\<exists>v. lease_view E db' (LeaseKey i) = Some ((close_lease t l)\<lparr>lRecordVersion := v\<rparr>)"
    if "lease_view E db (LeaseKey i) = Some l \<and> liOwner (lID l) = owner \<and> liDSeq (lID l) = dseq" for i l
    using eff(4) [of "LeaseKey i" l] that by (auto simp: lease_set_ver_def)
  have "store_ok E dx lx bx sx db'" by (rule eff(1))
  moreover have "dep_view E db' (DeploymentKey o2 d2) = dep_view E db (DeploymentKey o2 d2)"
    if "(o2, d2) \<noteq> (owner, dseq)" for o2 d2
    using that by (intro eff(3)) auto
  ultimately show ?thesis using dep lease eff(5-7) None by (auto simp: gets)
qed

text \<open>An example: the store with one active lease, whose deployment is then closed.\<close>

definition sample_store2 :: "(bytes, ref_val) rbt db" where
  "sample_store2 = snd (PutLease ref_ext sample_store (Some sample_lease))"

lemma sample_store2_ok: "store_ok ref_ext any any any any sample_store2"
  unfolding sample_store2_def by (intro ref.Put_store_ok sample_store_ok) simp_all

theorem MarkDeploymentClosed_atomic_witness:
  "let (r, db') = MarkDeploymentClosed ref_ext sample_store2 ''o'' 7 99 in
   r = None \<and> (\<exists>d. GetDeployment ref_ext db' ''o'' 7 = Inr (Some d) \<and> dState d = ''closed'') \<and>
   map_sum id (map_option lState) (GetLease ref_ext db' (lID sample_lease)) = Inr (Some ''closed'')"
proof -
  let ?run = "MarkDeploymentClosed ref_ext sample_store2 ''o'' 7 99"
  have ok: "fst ?run = None"
    and "map_sum id (map_option lID) (GetLease ref_ext sample_store2 (lID sample_lease)) = Inr (Some (lID sample_lease))"
    by code_simp+
  then obtain l where l: "GetLease ref_ext sample_store2 (lID sample_lease) = Inr (Some l)" "lID l = lID sample_lease"
    by (cases "GetLease ref_ext sample_store2 (lID sample_lease)") auto
  have ids: "liOwner (lID l) = ''o''" "liDSeq (lID l) = 7" using l(2) by (simp_all add: sample_lease_def)
  note spec = MarkDeploymentClosed_atomic [OF ref.store_env_axioms sample_store2_ok TrueI fst_pair [OF ok]]
  then have "\<exists>v. GetLease ref_ext (snd ?run) (lID sample_lease) = Inr (Some ((close_lease 99 l)\<lparr>lRecordVersion := v\<rparr>))"
    using l(1) ids by blast
  moreover from spec have "\<exists>d. GetDeployment ref_ext (snd ?run) ''o'' 7 = Inr (Some d) \<and> dState d = ''closed''"
    by blast
  ultimately show ?thesis using ok by (auto simp: split_beta)
qed

text \<open>
   \<open>ListDeployments\<close> and \<open>ListLeases\<close> on a well-formed store succeed and return exactly
  the stored records that match the filter, each once, in the strict byte order of the keys.
\<close>

theorem List_exact:
  assumes env: "store_env E dx lx bx sx" and ok: "store_ok E dx lx bx sx db"
  shows "\<exists>ds ls. ListDeployments E db f = Inr ds \<and> ListLeases E db g = Inr ls \<and>
    (\<forall>d. d \<in> set ds \<longleftrightarrow> GetDeployment E db (dOwner d) (dDSeq d) = Inr (Some d) \<and> matchDeployment d f) \<and>
    sorted_wrt (<) (map dKey ds) \<and>
    (\<forall>l. l \<in> set ls \<longleftrightarrow> GetLease E db (lID l) = Inr (Some l) \<and> matchLease l g) \<and>
    sorted_wrt (<) (map lKey ls)"
proof -
  have oks: "dep_ok E dx db" "lease_ok E lx db" using ok by (simp_all add: store_ok_def)
  show ?thesis
    using store_env.ListDeployments_view [OF env oks(1), of f] store_env.ListLeases_view [OF env oks(2), of g]
    by (auto simp: store_env.GetDeployment_view [OF env oks(1)] store_env.GetLease_view [OF env oks(2)])
qed

theorem List_exact_witness:
  "\<exists>ls. ListLeases ref_ext sample_store2 \<lparr>lfOwner = [], lfDSeq = 7, lfProvider = [], lfState = []\<rparr> = Inr ls \<and>
    ls \<noteq> [] \<and> sorted_wrt (<) (map lKey ls)"
proof -
  let ?f = "\<lparr>lfOwner = [], lfDSeq = 7, lfProvider = [], lfState = []\<rparr>"
  have "map_sum id length (ListLeases ref_ext sample_store2 ?f) = Inr 1" by code_simp
  with List_exact [OF ref.store_env_axioms sample_store2_ok,
      of "\<lparr>dfOwner = [], dfState = [], dfTags = [], dfLabel = []\<rparr>" ?f] show ?thesis by auto
qed

definition listed :: "store_err + 'a list \<Rightarrow> int option" where
  "listed r = (case r of Inl _ \<Rightarrow> None | Inr xs \<Rightarrow> Some (int (length xs)))"

definition dep_in :: "string \<Rightarrow> DeploymentFilter" where
  "dep_in s = \<lparr>dfOwner = [], dfState = s, dfTags = [], dfLabel = []\<rparr>"

definition lease_in :: "string \<Rightarrow> LeaseFilter" where
  "lease_in s = \<lparr>lfOwner = [], lfDSeq = 0, lfProvider = [], lfState = s\<rparr>"

definition bid_in :: "string \<Rightarrow> BidFilter" where
  "bid_in s = \<lparr>bfOwner = [], bfDSeq = 0, bfProvider = [], bfState = s\<rparr>"

lemma match_in:
  "matchDeployment d (dep_in s) \<longleftrightarrow> s = [] \<or> dState d = s"
  "matchLease l (lease_in s) \<longleftrightarrow> s = [] \<or> lState l = s"
  "matchBid b (bid_in s) \<longleftrightarrow> s = [] \<or> bState b = s"
  by (auto simp: matchDeployment_def matchLease_def matchBid_def dep_in_def lease_in_def bid_in_def)

text \<open>
  Every counter of \<open>Stats\<close> is the length of the listing of the corresponding state
  (or of the unfiltered listing).
\<close>

theorem Stats_agree:
  assumes "Stats E db = Inr st"
  shows "listed (ListDeployments E db (dep_in '''')) = Some (stDeployments st) \<and>
    listed (ListDeployments E db (dep_in ''active'')) = Some (stActiveDeployments st) \<and>
    listed (ListDeployments E db (dep_in ''closed'')) = Some (stClosedDeployments st) \<and>
    listed (ListLeases E db (lease_in '''')) = Some (stLeases st) \<and>
    listed (ListLeases E db (lease_in ''active'')) = Some (stActiveLeases st) \<and>
    listed (ListLeases E db (lease_in ''closed'')) = Some (stClosedLeases st) \<and>
    listed (ListLeases E db (lease_in ''insufficient_funds'')) = Some (stInsufficientFundsLeases st) \<and>
    listed (ListBids E db (bid_in '''')) = Some (stBids st) \<and>
    listed (ListBids E db (bid_in ''open'')) = Some (stOpenBids st) \<and>
    listed (ListBids E db (bid_in ''matched'')) = Some (stMatchedBids st) \<and>
    listed (ListBids E db (bid_in ''closed'')) = Some (stClosedBids st) \<and>
    listed (ListBids E db (bid_in ''lost'')) = Some (stLostBids st)"
  using assms
  by (auto simp: Stats_def rbind_Inr_iff tx_bucket_def fold_counts zero_stats_def
      listed_def ListDeployments_def ListLeases_def ListBids_def match_in)

theorem Stats_agree_witness:
  "\<exists>st. Stats ref_ext sample_store2 = Inr st \<and> stActiveLeases st = 1 \<and>
     listed (ListLeases ref_ext sample_store2 (lease_in ''active'')) = Some 1"
proof -
  have "map_sum id stActiveLeases (Stats ref_ext sample_store2) = Inr 1" by code_simp
  then obtain st where "Stats ref_ext sample_store2 = Inr st" "stActiveLeases st = 1"
    by (cases "Stats ref_ext sample_store2") auto
  with Stats_agree [of ref_ext sample_store2 st] show ?thesis by auto
qed

lemma owners_cases:
  fixes owners :: "string list"
  assumes "sorted owners" "distinct owners" "set owners = S"
  shows "(S = {} \<longrightarrow> owners = []) \<and> (\<forall>x. S = {x} \<longrightarrow> owners = [x]) \<and>
    (S \<noteq> {} \<longrightarrow> (\<forall>x. S \<noteq> {x}) \<longrightarrow> (\<exists>a b as. owners = a # b # as))"
proof (cases owners)
  case (Cons a as)
  with assms show ?thesis by (cases as) auto
qed (use assms in auto)

text \<open>
   \<open>UniqueDeploymentOwner\<close> over the unfiltered listing of a well-formed store decides
  how many named owners have a deployment of that number: none gives the empty string, one
  gives that owner, several give the error that lists them all in order.
\<close>

theorem UniqueDeploymentOwner_spec:
  assumes env: "store_env E dx lx bx sx" and ok: "store_ok E dx lx bx sx db" and dseq: "dseq \<noteq> 0"
    and list: "ListDeployments E db (dep_in '''') = Inr ds"
    and S: "S = {y. y \<noteq> [] \<and> GetDeployment E db y dseq \<noteq> Inr None}"
  shows "UniqueDeploymentOwner (Some (Inr (map Some ds) :: store_err + DeploymentRecord option list)) dseq =
      (if S = {} then Inr []
       else if \<exists>x. S = {x} then Inr (THE x. S = {x})
       else Inl (MultipleOwners dseq (sorted_list_of_set S)))
    \<and> finite S"
proof -
  have dok: "dep_ok E dx db" using ok by (simp add: store_ok_def)
  let ?owners = "List.map_filter (\<lambda>r. case r of None \<Rightarrow> None
      | Some d \<Rightarrow> if dDSeq d \<noteq> dseq \<or> dOwner d = [] then None else Some (dOwner d)) (map Some ds)"
  have own: "?owners = map dOwner (filter (\<lambda>d. dDSeq d = dseq \<and> dOwner d \<noteq> []) ds)"
    by (induction ds) (auto simp: List.map_filter_def)
  have mem: "d \<in> set ds \<longleftrightarrow> dep_view E db (dKey d) = Some d" for d
    using store_env.ListDeployments_view [OF env dok, of "dep_in ''''"] list by (auto simp: match_in)
  have "set ?owners = S"
  proof
    show "set ?owners \<subseteq> S"
      unfolding own using mem store_env.GetDeployment_view [OF env dok] by (auto simp: S)
    show "S \<subseteq> set ?owners"
    proof
      fix y
      assume "y \<in> S"
      then obtain d where d: "y \<noteq> []" "dep_view E db (DeploymentKey y dseq) = Some d"
        using store_env.GetDeployment_view [OF env dok] by (auto simp: S)
      with dep_view_ok [OF dok d(2)] have "dOwner d = y" "dDSeq d = dseq" by simp_all
      with d mem show "y \<in> set ?owners" unfolding own by auto
    qed
  qed
  then have srt: "sort (remdups ?owners) = sorted_list_of_set S" and fin: "finite S"
    by (auto simp: sorted_list_of_set_sort_remdups [symmetric])
  have the: "(THE x. {y} = {x}) = y" for y :: string by (rule the_equality) auto
  have "UniqueDeploymentOwner (Some (Inr (map Some ds) :: store_err + DeploymentRecord option list)) dseq =
      (case sorted_list_of_set S of [] \<Rightarrow> Inr [] | [x] \<Rightarrow> Inr x | _ \<Rightarrow> Inl (MultipleOwners dseq (sorted_list_of_set S)))"
    using dseq unfolding UniqueDeploymentOwner_def by (simp only: option.case if_False result_simps Let_def srt)
  moreover have "(S = {} \<longrightarrow> sorted_list_of_set S = []) \<and> (\<forall>x. S = {x} \<longrightarrow> sorted_list_of_set S = [x]) \<and>
    (S \<noteq> {} \<longrightarrow> (\<forall>x. S \<noteq> {x}) \<longrightarrow> (\<exists>a b as. sorted_list_of_set S = a # b # as))"
    using fin by (intro owners_cases) simp_all
  ultimately show ?thesis using fin the by auto
qed

theorem UniqueDeploymentOwner_spec_witness:
  "let db = snd (PutDeployment ref_ext sample_store (Some sample_deployment)); S = {y. y \<noteq> [] \<and> GetDeployment ref_ext db y 7 \<noteq> Inr None} in
   \<exists>ds. ListDeployments ref_ext db (dep_in '''') = Inr ds \<and> finite S \<and>
     UniqueDeploymentOwner (Some (Inr (map Some ds) :: store_err + DeploymentRecord option list)) 7 = Inr ''o''"
proof -
  let ?db = "snd (PutDeployment ref_ext sample_store (Some sample_deployment))"
  have ok: "store_ok ref_ext any any any any ?db" by (intro ref.Put_store_ok sample_store_ok) simp
  have "map_sum id (\<lambda>ds. UniqueDeploymentOwner (Some (Inr (map Some ds) :: store_err + DeploymentRecord option list)) 7)
     (ListDeployments ref_ext ?db (dep_in '''')) = Inr (Inr ''o'')" by code_simp
  then obtain ds where ds: "ListDeployments ref_ext ?db (dep_in '''') = Inr ds"
    "UniqueDeploymentOwner (Some (Inr (map Some ds) :: store_err + DeploymentRecord option list)) 7 = Inr ''o''"
    by (cases "ListDeployments ref_ext ?db (dep_in '''')") auto
  from UniqueDeploymentOwner_spec [OF ref.store_env_axioms ok _ ds(1) refl, of 7] ds show ?thesis
    by (simp add: Let_def)
qed

inductive registered :: "'b Migration list \<Rightarrow> bool" where
  registered_init: "registered []"
| registered_add: "registered ms \<Longrightarrow> RegisterMigration ms m = Some ms' \<Longrightarrow> registered ms'"

lemma registered_sorted: "registered ms \<Longrightarrow> sorted_wrt (<) (map mVersion ms)"
  by (induction rule: registered.induct) (auto dest: RegisterMigration_sorted)

text \<open>
   Running the registered migrations on a store leaves it at the highest version among
  its own and the registered ones, keeps it as it was when any migration or the commit
  fails, and a second run changes nothing.  Registration keeps the migrations in strictly
  increasing version order, which this rests on.
\<close>

theorem migrate_reaches_latest:
  assumes env: "store_env E dx lx bx sx" and reg: "registered ms" and run: "migrate E ms db = (r, db')"
  shows "(r \<noteq> None \<longrightarrow> db' = db) \<and>
    (r = None \<longrightarrow> SchemaVersion E db' = fold max (map mVersion ms) (SchemaVersion E db) \<and>
      snd (migrate E ms db') = db')"
proof (cases r)
  case (Some e)
  with run show ?thesis
    using store_env.update_cases [OF env run [unfolded migrate_def]] by auto
next
  case None
  with run have v: "SchemaVersion E db' = fold max (map mVersion ms) (SchemaVersion E db)"
    using store_env.migrate_schema [OF env registered_sorted [OF reg]] by simp
  have "\<forall>m \<in> set ms. mVersion m \<le> SchemaVersion E db'" unfolding v by (auto intro: fold_max_ge(1))
  then have "snd (migrate E ms db') = db'"
    using store_env.migrate_again [OF env surjective_pairing] by blast
  with v None show ?thesis by simp
qed

theorem migrate_reaches_latest_witness:
  "let ms = [\<lparr>mVersion = 3, mDescription = ''index'', mFn = Inr\<rparr>] in
   SchemaVersion ref_ext (snd (migrate ref_ext ms sample_store)) = 3 \<and>
   snd (migrate ref_ext ms (snd (migrate ref_ext ms sample_store))) = snd (migrate ref_ext ms sample_store)"
proof -
  let ?ms = "[\<lparr>mVersion = 3, mDescription = ''index'', mFn = Inr\<rparr>] :: (bytes, ref_val) rbt Migration list"
  have reg: "registered ?ms"
    by (rule registered_add [OF registered_init, of "hd ?ms"]) (simp add: RegisterMigration_def)
  have ok: "fst (migrate ref_ext ?ms sample_store) = None" by code_simp
  have "SchemaVersion ref_ext sample_store = 1" by (rule ref.Open_fresh [OF sample_open])
  moreover have "max 3 (1 :: u64) = 3" by code_simp
  ultimately show ?thesis
    using migrate_reaches_latest [OF ref.store_env_axioms reg fst_pair [OF ok]] by (simp add: Let_def)
qed

text \<open>
  The bucket keys identify records: deployment keys always, lease and bid keys for
  owners without a colon (bech32 addresses have none).
\<close>

theorem keys_injective:
  "(DeploymentKey o1 d1 = DeploymentKey o2 d2 \<longleftrightarrow> o1 = o2 \<and> d1 = d2) \<and>
   (CHR '':'' \<notin> set (liOwner i) \<and> CHR '':'' \<notin> set (liOwner j) \<longrightarrow> (LeaseKey i = LeaseKey j \<longleftrightarrow> i = j)) \<and>
   (CHR '':'' \<notin> set (biOwner a) \<and> CHR '':'' \<notin> set (biOwner b) \<longrightarrow> (BidKey a = BidKey b \<longleftrightarrow> a = b))"
  using LeaseKey_inj [of i j] BidKey_inj [of a b] by auto

theorem keys_injective_witness:
  "DeploymentKey ''a'' 12 \<noteq> DeploymentKey ''a:1'' 2 \<and> LeaseKey (lID sample_lease) \<noteq> LeaseKey (lID zero_lease)"
proof -
  have "lID sample_lease \<noteq> lID zero_lease" by (simp add: sample_lease_def zero_lease_def)
  then show ?thesis
    using keys_injective [of "''a''" 12 "''a:1''" 2 "lID sample_lease" "lID zero_lease" "bID zero_bid" "bID zero_bid"]
    by (simp add: sample_lease_def zero_lease_def)
qed

end
