(* ===== verification/Store_Export.thy ===== *)
theory Store_Export
  imports Store_Spec
begin

text \<open>
  Export and import of the store (\<open>src/internal/store/bbolt/export.go\<close>): the envelope, its
  validation, the export of one read snapshot through a size-limited first pass, the import
  in one transaction, the dry run that rolls it back, and the validation against a
  disposable copy.

  The JSON and YAML libraries are parameters (record \<open>codec\<close>), as is the bech32 codec of
  the Cosmos SDK.  A context is the sequence of answers of \<open>ctx.Err()\<close>, one per poll.
\<close>

section \<open>The envelope\<close>

text \<open>A slice is an option of a list (nil is \<open>None\<close>); its elements are pointers.\<close>

record ExportEnvelope =
  eVersion :: int
  eContext :: string
  eSchemaVersion :: u64
  eExportedAt :: string
  eSyncState :: "SyncState option"
  eDeployments :: "DeploymentRecord option list option"
  eLeases :: "LeaseRecord option list option"
  eBids :: "BidRecord option list option"

definition range_of :: "'a list option \<Rightarrow> 'a list" where
  "range_of s = (case s of None \<Rightarrow> [] | Some xs \<Rightarrow> xs)"

lemma range_of_simps [simp]: "range_of None = []" "range_of (Some xs) = xs"
  by (simp_all add: range_of_def)

definition zero_envelope :: ExportEnvelope where
  "zero_envelope = \<lparr>eVersion = 0, eContext = [], eSchemaVersion = 0, eExportedAt = [], eSyncState = None,
     eDeployments = None, eLeases = None, eBids = None\<rparr>"

definition initializeCollections :: "ExportEnvelope \<Rightarrow> ExportEnvelope" where
  "initializeCollections e =
     (let e = (case eDeployments e of None \<Rightarrow> e\<lparr>eDeployments := Some []\<rparr> | Some _ \<Rightarrow> e);
          e = (case eLeases e of None \<Rightarrow> e\<lparr>eLeases := Some []\<rparr> | Some _ \<Rightarrow> e)
      in (case eBids e of None \<Rightarrow> e\<lparr>eBids := Some []\<rparr> | Some _ \<Rightarrow> e))"

definition exportEnvelopeVersion :: int where
  "exportEnvelopeVersion = 1"

definition storeSnapshotLockTimeout :: int where
  "storeSnapshotLockTimeout = 250 * 1000000"

definition maxEncodedEnvelopeBytes :: nat where
  "maxEncodedEnvelopeBytes = 64 * 2 ^ 20"

datatype env_err =
    EnvVersion int | EnvSchema u64
  | DeploymentNull nat | DeploymentIdentity nat | DeploymentOwner nat env_err | DeploymentState nat string
  | DeploymentNegative nat | DeploymentDuplicate nat bytes
  | LeaseNull nat | LeaseIdentity nat | LeaseOwner nat env_err | LeaseProvider nat env_err | LeaseState nat string
  | LeaseNegative nat | LeaseDuplicate nat bytes
  | BidNull nat | BidIdentity nat | BidOwner nat env_err | BidProvider nat env_err | BidState nat string
  | BidNegative nat | BidDuplicate nat bytes
  | SyncNegative | SyncSchema u64 | SyncAccount nat env_err
  | InvalidBech32 | AddressLength nat | ReencodeAddress | NotCanonical string

section \<open>Addresses and validation\<close>

record addr_codec =
  StringToBytes :: "string \<Rightarrow> bytes option"
  BytesToString :: "bytes \<Rightarrow> string option"

definition validateImportAccountAddressWithCodec :: "string \<Rightarrow> addr_codec \<Rightarrow> env_err + unit" where
  "validateImportAccountAddressWithCodec s C =
     rbind (of_opt InvalidBech32 (StringToBytes C s)) (\<lambda>decoded.
     rbind (fail_if (length decoded \<noteq> 20) (AddressLength (length decoded))) (\<lambda>_.
     rbind (of_opt ReencodeAddress (BytesToString C decoded)) (\<lambda>canonical.
       fail_if (canonical \<noteq> s) (NotCanonical canonical))))"

text \<open>
  One element of each collection: the index and the keys seen so far are the loop's state.
\<close>

definition validate_deployment ::
  "addr_codec \<Rightarrow> nat \<times> bytes set \<Rightarrow> DeploymentRecord option \<Rightarrow> env_err + nat \<times> bytes set" where
  "validate_deployment C = (\<lambda>(i, seen) d.
     case d of
       None \<Rightarrow> Inl (DeploymentNull i)
     | Some d \<Rightarrow>
         rbind (fail_if (dDSeq d = 0) (DeploymentIdentity i)) (\<lambda>_.
         rbind (map_err (DeploymentOwner i) (validateImportAccountAddressWithCodec (dOwner d) C)) (\<lambda>_.
         rbind (fail_if (dState d \<notin> {''active'', ''closed''}) (DeploymentState i (dState d))) (\<lambda>_.
         rbind (fail_if (dCreatedAt d < 0 \<or> dUpdatedAt d < 0 \<or> dClosedAt d < 0 \<or> dCreatedHeight d < 0)
           (DeploymentNegative i)) (\<lambda>_.
         rbind (fail_if (dKey d \<in> seen) (DeploymentDuplicate i (dKey d))) (\<lambda>_.
           Inr (Suc i, insert (dKey d) seen)))))))"

definition validate_lease ::
  "addr_codec \<Rightarrow> nat \<times> bytes set \<Rightarrow> LeaseRecord option \<Rightarrow> env_err + nat \<times> bytes set" where
  "validate_lease C = (\<lambda>(i, seen) l.
     case l of
       None \<Rightarrow> Inl (LeaseNull i)
     | Some l \<Rightarrow>
         rbind (fail_if (liDSeq (lID l) = 0 \<or> liGSeq (lID l) = 0 \<or> liOSeq (lID l) = 0) (LeaseIdentity i)) (\<lambda>_.
         rbind (map_err (LeaseOwner i) (validateImportAccountAddressWithCodec (liOwner (lID l)) C)) (\<lambda>_.
         rbind (map_err (LeaseProvider i) (validateImportAccountAddressWithCodec (liProvider (lID l)) C)) (\<lambda>_.
         rbind (fail_if (lState l \<notin> {''active'', ''closed'', ''insufficient_funds''}) (LeaseState i (lState l))) (\<lambda>_.
         rbind (fail_if (lCreatedAt l < 0 \<or> lClosedAt l < 0) (LeaseNegative i)) (\<lambda>_.
         rbind (fail_if (lKey l \<in> seen) (LeaseDuplicate i (lKey l))) (\<lambda>_.
           Inr (Suc i, insert (lKey l) seen))))))))"

definition validate_bid ::
  "addr_codec \<Rightarrow> nat \<times> bytes set \<Rightarrow> BidRecord option \<Rightarrow> env_err + nat \<times> bytes set" where
  "validate_bid C = (\<lambda>(i, seen) b.
     case b of
       None \<Rightarrow> Inl (BidNull i)
     | Some b \<Rightarrow>
         rbind (fail_if (biDSeq (bID b) = 0 \<or> biGSeq (bID b) = 0 \<or> biOSeq (bID b) = 0) (BidIdentity i)) (\<lambda>_.
         rbind (map_err (BidOwner i) (validateImportAccountAddressWithCodec (biOwner (bID b)) C)) (\<lambda>_.
         rbind (map_err (BidProvider i) (validateImportAccountAddressWithCodec (biProvider (bID b)) C)) (\<lambda>_.
         rbind (fail_if (bState b \<notin> {''open'', ''matched'', ''closed'', ''lost''}) (BidState i (bState b))) (\<lambda>_.
         rbind (fail_if (bCreatedAt b < 0) (BidNegative i)) (\<lambda>_.
         rbind (fail_if (bKey b \<in> seen) (BidDuplicate i (bKey b))) (\<lambda>_.
           Inr (Suc i, insert (bKey b) seen))))))))"

definition validate_sync :: "addr_codec \<Rightarrow> SyncState \<Rightarrow> env_err + unit" where
  "validate_sync C s =
     rbind (fail_if (sLastBlockHeight s < 0 \<or> sLastSyncTime s < 0) SyncNegative) (\<lambda>_.
     rbind (fail_if (currentSchemaVersion < sSchemaVersion s) (SyncSchema (sSchemaVersion s))) (\<lambda>_.
     rbind (foldM (\<lambda>i account. rbind (map_err (SyncAccount i) (validateImportAccountAddressWithCodec account C))
               (\<lambda>_. Inr (Suc i))) 0 (sTrackedAccounts s)) (\<lambda>_. Inr ())))"

definition validateImportEnvelope :: "addr_codec \<Rightarrow> ExportEnvelope \<Rightarrow> env_err + unit" where
  "validateImportEnvelope C env =
     rbind (fail_if (eVersion env \<noteq> exportEnvelopeVersion) (EnvVersion (eVersion env))) (\<lambda>_.
     rbind (fail_if (eSchemaVersion env = 0 \<or> currentSchemaVersion < eSchemaVersion env)
       (EnvSchema (eSchemaVersion env))) (\<lambda>_.
     rbind (foldM (validate_deployment C) (0, {}) (range_of (eDeployments env))) (\<lambda>_.
     rbind (foldM (validate_lease C) (0, {}) (range_of (eLeases env))) (\<lambda>_.
     rbind (foldM (validate_bid C) (0, {}) (range_of (eBids env))) (\<lambda>_.
       case eSyncState env of None \<Rightarrow> Inr () | Some s \<Rightarrow> validate_sync C s)))))"

section \<open>Reading one snapshot\<close>

text \<open>\<open>ctx n\<close>: whether the \<open>n\<close>-th call of \<open>ctx.Err()\<close> finds the context cancelled.\<close>

type_synonym ctx = "nat \<Rightarrow> bool"

definition poll :: "ctx \<Rightarrow> 'e \<Rightarrow> nat \<Rightarrow> 'e + nat" where
  "poll ctx e n = (if ctx n then Inl e else Inr (Suc n))"

datatype snap_err =
    SnapCtx | BucketMissing bucket | SchemaMalformed | DecodeSync
  | DecodeDeployment bytes | DecodeLease bytes | DecodeBid bytes

definition requiredExportBucket :: "'b db \<Rightarrow> bucket \<Rightarrow> snap_err + 'b" where
  "requiredExportBucket tx n = of_opt (BucketMissing n) (tx n)"

definition decode_rows ::
  "ctx \<Rightarrow> (bytes \<Rightarrow> snap_err) \<Rightarrow> ('v \<Rightarrow> 'r option) \<Rightarrow> nat \<times> 'r option list \<Rightarrow> (bytes \<times> 'v) list
    \<Rightarrow> snap_err + nat \<times> 'r option list" where
  "decode_rows ctx err unmarshal = foldM (\<lambda>(n, records) (key, value).
     rbind (poll ctx SnapCtx n) (\<lambda>n.
     rbind (of_opt (err key) (unmarshal value)) (\<lambda>record. Inr (n, records @ [Some record]))))"

definition readExportSnapshot ::
  "('b, 'v) ext \<Rightarrow> ctx \<Rightarrow> 'b db \<Rightarrow> ExportEnvelope \<Rightarrow> snap_err + ExportEnvelope" where
  "readExportSnapshot E ctx tx env =
     rbind (poll ctx SnapCtx 0) (\<lambda>n.
     rbind (requiredExportBucket tx Meta) (\<lambda>meta.
     rbind (requiredExportBucket tx Sync) (\<lambda>syncBucket.
     rbind (requiredExportBucket tx Deployments) (\<lambda>deployments.
     rbind (requiredExportBucket tx Leases) (\<lambda>leases.
     rbind (requiredExportBucket tx Bids) (\<lambda>bids.
     rbind (case bkt_get E meta keySchemaVersion of
              None \<Rightarrow> Inl SchemaMalformed
            | Some schema \<Rightarrow> if val_len E schema \<noteq> 8 then Inl SchemaMalformed else Inr (be64_get E schema)) (\<lambda>schema.
     rbind (case bkt_get E syncBucket keySyncState of
              None \<Rightarrow> Inr (eSyncState env)
            | Some data \<Rightarrow> rbind (of_opt DecodeSync (sync_unmarshal E zero_sync data)) (\<lambda>s. Inr (Some s))) (\<lambda>sync.
     rbind (decode_rows ctx DecodeDeployment (dep_unmarshal E zero_deployment)
              (n, range_of (eDeployments env)) (bkt_entries E deployments)) (\<lambda>(n, ds).
     rbind (decode_rows ctx DecodeLease (lease_unmarshal E zero_lease)
              (n, range_of (eLeases env)) (bkt_entries E leases)) (\<lambda>(n, ls).
     rbind (decode_rows ctx DecodeBid (bid_unmarshal E zero_bid)
              (n, range_of (eBids env)) (bkt_entries E bids)) (\<lambda>(n, bs).
     rbind (poll ctx SnapCtx n) (\<lambda>_.
       Inr (env\<lparr>eSchemaVersion := schema, eSyncState := sync, eDeployments := Some ds,
              eLeases := Some ls, eBids := Some bs\<rparr>)))))))))))))"

section \<open>Encoding and exporting\<close>

text \<open>
  The encoders: the chunks an encoder writes and whether it succeeds on the value; the YAML
  encoder may write the rest when it is closed.  The decoders: the first document, what
  follows it, and the raw shape of the input.
\<close>

datatype decode_rest = RestEOF | RestDocument | RestError

datatype yaml_kind = MappingNode | SequenceNode | OtherNode

record yaml_node =
  nKind :: yaml_kind
  nValue :: string

text \<open>\<open>yaml_document\<close>: the nodes under the document node, each with its own content.\<close>

record codec =
  json_encode :: "ExportEnvelope \<Rightarrow> bytes list \<times> bool"
  yaml_encode :: "ExportEnvelope \<Rightarrow> bytes list \<times> bool"
  yaml_close :: "ExportEnvelope \<Rightarrow> bytes list"
  json_decode :: "bytes \<Rightarrow> ExportEnvelope option"
  json_rest :: "bytes \<Rightarrow> decode_rest"
  json_fields :: "bytes \<Rightarrow> (string \<Rightarrow> bytes option) option"
  yaml_decode :: "bytes \<Rightarrow> ExportEnvelope option"
  yaml_rest :: "bytes \<Rightarrow> decode_rest"
  yaml_document :: "bytes \<Rightarrow> (yaml_node \<times> yaml_node list) list option"

definition MarshalJSON :: "codec \<Rightarrow> ExportEnvelope \<Rightarrow> bytes list \<times> bool" where
  "MarshalJSON X e = json_encode X (initializeCollections e)"

definition MarshalYAML :: "ExportEnvelope \<Rightarrow> ExportEnvelope" where
  "MarshalYAML e = initializeCollections e"

datatype export_err =
    ReadSnapshot snap_err | ValidateSnapshot env_err
  | WriteYAMLStart | EncodeYAML | FlushYAML | EncodeJSON | UnsupportedExportFormat ExportFormat

text \<open>A writer: its state after writing a chunk, and whether the write succeeded.\<close>

type_synonym 'w writer = "'w \<Rightarrow> bytes \<Rightarrow> bool \<times> 'w"

fun write_all :: "'w writer \<Rightarrow> 'w \<Rightarrow> bytes list \<Rightarrow> bool \<times> 'w" where
  "write_all write w [] = (True, w)"
| "write_all write w (c # cs) = (case write w c of (False, w1) \<Rightarrow> (False, w1) | (True, w1) \<Rightarrow> write_all write w1 cs)"

definition encodeExportEnvelope ::
  "codec \<Rightarrow> 'w writer \<Rightarrow> 'w \<Rightarrow> ExportFormat \<Rightarrow> ExportEnvelope \<Rightarrow> export_err option \<times> 'w" where
  "encodeExportEnvelope X write w format env =
     (case format of
        FormatYAML \<Rightarrow>
          (case write w (''---'' @ [CHR 0x0A]) of
             (False, w) \<Rightarrow> (Some WriteYAMLStart, w)
           | (True, w) \<Rightarrow>
               (case write_all write w (fst (yaml_encode X (MarshalYAML env))) of
                  (ok, w) \<Rightarrow>
                    if \<not> (ok \<and> snd (yaml_encode X (MarshalYAML env)))
                    then (Some EncodeYAML, snd (write_all write w (yaml_close X (MarshalYAML env))))
                    else (case write_all write w (yaml_close X (MarshalYAML env)) of
                            (False, w) \<Rightarrow> (Some FlushYAML, w)
                          | (True, w) \<Rightarrow> (None, w))))
      | FormatJSON \<Rightarrow>
          (if \<not> snd (MarshalJSON X env) then (Some EncodeJSON, w)
           else (case write_all write w (fst (MarshalJSON X env)) of
                   (False, w) \<Rightarrow> (Some EncodeJSON, w)
                 | (True, w) \<Rightarrow> (None, w)))
      | FormatOther i \<Rightarrow> (Some (UnsupportedExportFormat format), w))"

record exportSizeWriter =
  written :: int
  limit :: int

definition exportSizeWriter_Write :: "exportSizeWriter writer" where
  "exportSizeWriter_Write w p =
     (let remaining = wrap_i64 (limit w - written w) in
      if remaining < 0 \<or> remaining < int (length p) then (False, w)
      else (True, w\<lparr>written := wrap_i64 (written w + int (length p))\<rparr>))"

definition export ::
  "('b, 'v) ext \<Rightarrow> addr_codec \<Rightarrow> codec \<Rightarrow> ctx \<Rightarrow> string \<Rightarrow> 'b db \<Rightarrow> 'w writer \<Rightarrow> 'w \<Rightarrow> ExportFormat \<Rightarrow> string
    \<Rightarrow> export_err option \<times> 'w" where
  "export E C X ctx now db write w format contextName =
     (let env = zero_envelope\<lparr>eVersion := exportEnvelopeVersion, eExportedAt := now, eDeployments := Some [],
            eLeases := Some [], eBids := Some [], eContext := contextName\<rparr>
      in case readExportSnapshot E ctx db env of
           Inl e \<Rightarrow> (Some (ReadSnapshot e), w)
         | Inr env \<Rightarrow>
             (case validateImportEnvelope C env of
                Inl e \<Rightarrow> (Some (ValidateSnapshot e), w)
              | Inr _ \<Rightarrow>
                  (case encodeExportEnvelope X exportSizeWriter_Write
                          \<lparr>written = 0, limit = int maxEncodedEnvelopeBytes\<rparr> format env of
                     (Some e, _) \<Rightarrow> (Some e, w)
                   | (None, _) \<Rightarrow> encodeExportEnvelope X write w format env)))"

section \<open>Decoding\<close>

datatype decode_err =
    ReadInput | InputTooLarge
  | UnmarshalYAML | TrailingYAMLDocument | TrailingYAMLData
  | UnmarshalJSON | TrailingJSONDocument | TrailingJSONData
  | UnsupportedImportFormat ExportFormat
  | InspectJSON | InspectYAML | EnvelopeNotMapping | RequiredArray string
  | ValidateImportErr env_err

definition json_array_field :: "bytes option \<Rightarrow> bool" where
  "json_array_field raw =
     (case raw of
        None \<Rightarrow> False
      | Some raw \<Rightarrow>
          (let t = trim_space raw in
           \<not> (length t = 0 \<or> t = ''null'' \<or> hd t \<noteq> CHR ''['')))"

text \<open>The children of a YAML mapping alternate keys and values; the first key named decides.\<close>

fun yaml_array_field :: "string \<Rightarrow> yaml_node list \<Rightarrow> bool" where
  "yaml_array_field name (k # v # rest) =
     (if nValue k = name then nKind v = SequenceNode else yaml_array_field name rest)"
| "yaml_array_field name _ = False"

definition validateRequiredImportCollections :: "codec \<Rightarrow> bytes \<Rightarrow> ExportFormat \<Rightarrow> decode_err + unit" where
  "validateRequiredImportCollections X data format =
     (let names = [''deployments'', ''leases'', ''bids''] in
      case format of
        FormatJSON \<Rightarrow>
          rbind (of_opt InspectJSON (json_fields X data)) (\<lambda>fields.
            foldM (\<lambda>_ name. fail_if (\<not> json_array_field (fields name)) (RequiredArray name)) () names)
      | FormatYAML \<Rightarrow>
          rbind (of_opt InspectYAML (yaml_document X data)) (\<lambda>document.
            case document of
              [(root, content)] \<Rightarrow>
                if nKind root \<noteq> MappingNode then Inl EnvelopeNotMapping
                else foldM (\<lambda>_ name. fail_if (\<not> yaml_array_field name content) (RequiredArray name)) () names
            | _ \<Rightarrow> Inl EnvelopeNotMapping)
      | FormatOther i \<Rightarrow> Inl (UnsupportedImportFormat format))"

text \<open>\<open>r n\<close>: what \<open>io.ReadAll\<close> returns on the reader limited to \<open>n\<close> bytes.\<close>

type_synonym reader = "nat \<Rightarrow> bytes option"

definition decodeImportEnvelope ::
  "addr_codec \<Rightarrow> codec \<Rightarrow> reader \<Rightarrow> ExportFormat \<Rightarrow> decode_err + ExportEnvelope" where
  "decodeImportEnvelope C X r format =
     rbind (of_opt ReadInput (r (maxEncodedEnvelopeBytes + 1))) (\<lambda>data.
     rbind (fail_if (maxEncodedEnvelopeBytes < length data) InputTooLarge) (\<lambda>_.
     rbind (case format of
              FormatYAML \<Rightarrow>
                rbind (of_opt UnmarshalYAML (yaml_decode X data)) (\<lambda>env.
                  case yaml_rest X data of
                    RestDocument \<Rightarrow> Inl TrailingYAMLDocument
                  | RestError \<Rightarrow> Inl TrailingYAMLData
                  | RestEOF \<Rightarrow> Inr env)
            | FormatJSON \<Rightarrow>
                rbind (of_opt UnmarshalJSON (json_decode X data)) (\<lambda>env.
                  case json_rest X data of
                    RestDocument \<Rightarrow> Inl TrailingJSONDocument
                  | RestError \<Rightarrow> Inl TrailingJSONData
                  | RestEOF \<Rightarrow> Inr env)
            | FormatOther i \<Rightarrow> Inl (UnsupportedImportFormat format)) (\<lambda>env.
     rbind (validateRequiredImportCollections X data format) (\<lambda>_.
     rbind (map_err ValidateImportErr (validateImportEnvelope C env)) (\<lambda>_.
       Inr env)))))"

section \<open>Importing\<close>

text \<open>bbolt's \<open>DeleteBucket\<close> and \<open>CreateBucket\<close> in a writable transaction.\<close>

definition tx_DeleteBucket :: "'b db \<Rightarrow> bucket \<Rightarrow> store_err + 'b db" where
  "tx_DeleteBucket tx n = (case tx n of None \<Rightarrow> Inl (NilBucket n) | Some _ \<Rightarrow> Inr (tx(n := None)))"

definition tx_CreateBucket :: "('b, 'v) ext \<Rightarrow> 'b db \<Rightarrow> bucket \<Rightarrow> store_err + 'b db" where
  "tx_CreateBucket E tx n = (case tx n of None \<Rightarrow> Inr (tx(n \<mapsto> bkt_new E)) | Some _ \<Rightarrow> Inl BucketExists)"

definition clearDataBucketsTxWithCreate ::
  "'b db \<Rightarrow> ('b db \<Rightarrow> bucket \<Rightarrow> store_err + 'b db) \<Rightarrow> store_err + 'b db" where
  "clearDataBucketsTxWithCreate tx createBucket =
     foldM (\<lambda>tx name.
       rbind (map_err (\<lambda>_. DeleteBucketFailed name) (tx_DeleteBucket tx name)) (\<lambda>tx.
         map_err (RecreateBucketFailed name) (createBucket tx name)))
       tx [Deployments, Leases, Bids, Sync]"

definition clearDataBucketsTx :: "('b, 'v) ext \<Rightarrow> 'b db \<Rightarrow> store_err + 'b db" where
  "clearDataBucketsTx E tx = clearDataBucketsTxWithCreate tx (tx_CreateBucket E)"

text \<open>
  One record of an import.  The error message names the record's key, so a failed put of a
  nil pointer dereferences it.
\<close>

definition import_one ::
  "ctx \<Rightarrow> ('b db \<Rightarrow> 'r option \<Rightarrow> store_err + 'b db) \<Rightarrow> ('r \<Rightarrow> store_err \<Rightarrow> store_err)
    \<Rightarrow> nat \<times> 'b db \<Rightarrow> 'r option \<Rightarrow> store_err + nat \<times> 'b db" where
  "import_one ctx put err = (\<lambda>(n, tx) r.
     rbind (poll ctx CtxErr n) (\<lambda>n.
     rbind (map_err (\<lambda>e. case r of None \<Rightarrow> NilDereference | Some x \<Rightarrow> err x e) (put tx r)) (\<lambda>tx.
       Inr (n, tx))))"

definition applyImportTx ::
  "('b, 'v) ext \<Rightarrow> ctx \<Rightarrow> 'b db \<Rightarrow> ExportEnvelope \<Rightarrow> bool \<Rightarrow> store_err + 'b db" where
  "applyImportTx E ctx tx env merge =
     rbind (poll ctx CtxErr 0) (\<lambda>n.
     rbind (if merge then Inr tx else map_err ClearDataBuckets (clearDataBucketsTx E tx)) (\<lambda>tx.
     rbind (foldM (import_one ctx (putDeploymentTx E) (\<lambda>d. ImportDeployment (dOwner d) (dDSeq d)))
              (n, tx) (range_of (eDeployments env))) (\<lambda>ntx.
     rbind (foldM (import_one ctx (putLeaseTx E) (\<lambda>l. ImportLease (lKey l))) ntx (range_of (eLeases env))) (\<lambda>ntx.
     rbind (foldM (import_one ctx (putBidTx E) (\<lambda>b. ImportBid (bKey b))) ntx (range_of (eBids env))) (\<lambda>(n, tx).
       case eSyncState env of
         None \<Rightarrow> Inr tx
       | Some s \<Rightarrow>
           rbind (poll ctx CtxErr n) (\<lambda>_. map_err ImportSyncState (putSyncStateTx E tx (Some s))))))))"

datatype import_err = DecodeFailed decode_err | StoreFailed store_err

definition importData ::
  "('b, 'v) ext \<Rightarrow> addr_codec \<Rightarrow> codec \<Rightarrow> ctx \<Rightarrow> reader \<Rightarrow> ExportFormat \<Rightarrow> bool \<Rightarrow> 'b db
    \<Rightarrow> import_err option \<times> 'b db" where
  "importData E C X ctx r format merge db =
     (case decodeImportEnvelope C X r format of
        Inl e \<Rightarrow> (Some (DecodeFailed e), db)
      | Inr env \<Rightarrow>
          map_prod (map_option StoreFailed) id (db_update E (\<lambda>tx. applyImportTx E ctx tx env merge) db))"

definition validateImportData ::
  "('b, 'v) ext \<Rightarrow> addr_codec \<Rightarrow> codec \<Rightarrow> ctx \<Rightarrow> reader \<Rightarrow> ExportFormat \<Rightarrow> bool \<Rightarrow> 'b db
    \<Rightarrow> import_err option \<times> 'b db" where
  "validateImportData E C X ctx r format merge db =
     (case decodeImportEnvelope C X r format of
        Inl e \<Rightarrow> (Some (DecodeFailed e), db)
      | Inr env \<Rightarrow>
          (case db_update E (\<lambda>tx. rbind (applyImportTx E ctx tx env merge) (\<lambda>_. Inl DryRunRollback)) db of
             (err, db') \<Rightarrow> (if err = Some DryRunRollback then None else map_option StoreFailed err, db')))"

section \<open>Validation against a disposable copy\<close>

datatype snapshot_err =
    SnapshotCtx | DeadlineExceeded
  | CreateDisposable | InspectStore
  | OpenSnapshotDeadline | OpenSnapshot | CopySnapshot | CloseSnapshot
  | CloseDisposable | OpenDisposable store_err | MigrateDisposable store_err
  | ValidateDisposable import_err

datatype open_result = OpenOK | OpenTimeout | OpenError

datatype stat_result = StatSize nat | StatNotExist | StatError

text \<open>
  The operating system's answers: the context's remaining time, opening the source
  read-only under a lock timeout, writing and closing the copy.
\<close>

record os_env =
  osRemaining :: "int option"
  osOpenSource :: "int \<Rightarrow> open_result"
  osWriteTo :: bool
  osCloseSource :: bool
  osCreateTemp :: bool
  osStat :: stat_result
  osCloseTemp :: bool
  osCloseSnapshot :: bool

definition copyStoreSnapshotWithOpen :: "os_env \<Rightarrow> ctx \<Rightarrow> nat \<Rightarrow> snapshot_err + nat" where
  "copyStoreSnapshotWithOpen os ctx n =
     rbind (poll ctx SnapshotCtx n) (\<lambda>n.
     rbind (case osRemaining os of
              None \<Rightarrow> Inr (storeSnapshotLockTimeout, False)
            | Some remaining \<Rightarrow>
                if remaining \<le> 0 then Inl DeadlineExceeded
                else if remaining < storeSnapshotLockTimeout then Inr (remaining, True)
                else Inr (storeSnapshotLockTimeout, False)) (\<lambda>(lockTimeout, deadlineBounded).
     case osOpenSource os lockTimeout of
       OpenOK \<Rightarrow>
         rbind (rbind (poll ctx SnapshotCtx n) (\<lambda>n.
                rbind (fail_if (\<not> osWriteTo os) CopySnapshot) (\<lambda>_.
                  poll ctx SnapshotCtx n))) (\<lambda>n.
         rbind (fail_if (\<not> osCloseSource os) CloseSnapshot) (\<lambda>_. Inr n))
     | err \<Rightarrow>
         rbind (poll ctx SnapshotCtx n) (\<lambda>_.
           if deadlineBounded \<and> err = OpenTimeout then Inl OpenSnapshotDeadline else Inl OpenSnapshot)))"

text \<open>
  \<open>source\<close> is the content of the database at \<open>sourcePath\<close>; the disposable store starts as
  its copy, or empty, and is opened, migrated and imported into.  The context passed to
  \<open>ValidateImport\<close> is polled on from where the copy left it.
\<close>

definition validateImportSnapshot ::
  "('b, 'v) ext \<Rightarrow> 'b Migration list \<Rightarrow> addr_codec \<Rightarrow> codec \<Rightarrow> os_env \<Rightarrow> ctx \<Rightarrow> 'b db \<Rightarrow> reader \<Rightarrow> ExportFormat
    \<Rightarrow> bool \<Rightarrow> snapshot_err option" where
  "validateImportSnapshot E migrations C X os ctx source r format merge =
     (case rbind (poll ctx SnapshotCtx 0) (\<lambda>n.
           rbind (fail_if (\<not> osCreateTemp os) CreateDisposable) (\<lambda>_.
           rbind (case osStat os of
                    StatSize k \<Rightarrow>
                      if 0 < k then rbind (copyStoreSnapshotWithOpen os ctx n) (\<lambda>n. Inr (n, source))
                      else Inr (n, Map.empty)
                  | StatNotExist \<Rightarrow> Inr (n, Map.empty)
                  | StatError \<Rightarrow> Inl InspectStore) (\<lambda>(n, disposable).
           rbind (fail_if (\<not> osCloseTemp os) CloseDisposable) (\<lambda>_.
           case Open E disposable of
             (Some e, _) \<Rightarrow> Inl (OpenDisposable e)
           | (None, snapshot) \<Rightarrow>
               (case migrate E migrations snapshot of
                  (Some e, _) \<Rightarrow> Inl (MigrateDisposable e)
                | (None, snapshot) \<Rightarrow>
                    (case fst (validateImportData E C X (\<lambda>i. ctx (n + i)) r format merge snapshot) of
                       Some e \<Rightarrow> Inl (ValidateDisposable e)
                     | None \<Rightarrow> fail_if (\<not> osCloseSnapshot os) CloseDisposable)))))) of
        Inl e \<Rightarrow> Some e
      | Inr _ \<Rightarrow> None)"

end
