(* ===== verification/Store_Transfer.thy ===== *)
theory Store_Transfer
  imports Store_Export
begin

text \<open>
  Properties of export and import: the validation decides a declarative predicate, an import
  is all or nothing and keeps the store well-formed, the dry run agrees with the import and
  changes nothing, replacing a store by an exported snapshot restores it exactly, an export
  stays within the size an import accepts, and every state the public operations reach is
  well-formed.
\<close>

section \<open>What the validation decides\<close>

definition valid_address :: "addr_codec \<Rightarrow> string \<Rightarrow> bool" where
  "valid_address C s \<longleftrightarrow>
     (\<exists>b. StringToBytes C s = Some b \<and> length b = 20 \<and> BytesToString C b = Some s)"

definition valid_deployment :: "addr_codec \<Rightarrow> DeploymentRecord \<Rightarrow> bool" where
  "valid_deployment C d \<longleftrightarrow> dDSeq d \<noteq> 0 \<and> valid_address C (dOwner d) \<and> dState d \<in> {''active'', ''closed''} \<and>
     0 \<le> dCreatedAt d \<and> 0 \<le> dUpdatedAt d \<and> 0 \<le> dClosedAt d \<and> 0 \<le> dCreatedHeight d"

definition valid_lease :: "addr_codec \<Rightarrow> LeaseRecord \<Rightarrow> bool" where
  "valid_lease C l \<longleftrightarrow> liDSeq (lID l) \<noteq> 0 \<and> liGSeq (lID l) \<noteq> 0 \<and> liOSeq (lID l) \<noteq> 0 \<and>
     valid_address C (liOwner (lID l)) \<and> valid_address C (liProvider (lID l)) \<and>
     lState l \<in> {''active'', ''closed'', ''insufficient_funds''} \<and> 0 \<le> lCreatedAt l \<and> 0 \<le> lClosedAt l"

definition valid_bid :: "addr_codec \<Rightarrow> BidRecord \<Rightarrow> bool" where
  "valid_bid C b \<longleftrightarrow> biDSeq (bID b) \<noteq> 0 \<and> biGSeq (bID b) \<noteq> 0 \<and> biOSeq (bID b) \<noteq> 0 \<and>
     valid_address C (biOwner (bID b)) \<and> valid_address C (biProvider (bID b)) \<and>
     bState b \<in> {''open'', ''matched'', ''closed'', ''lost''} \<and> 0 \<le> bCreatedAt b"

definition valid_sync :: "addr_codec \<Rightarrow> SyncState \<Rightarrow> bool" where
  "valid_sync C s \<longleftrightarrow> 0 \<le> sLastBlockHeight s \<and> 0 \<le> sLastSyncTime s \<and> sSchemaVersion s \<le> currentSchemaVersion \<and>
     (\<forall>a \<in> set (sTrackedAccounts s). valid_address C a)"

text \<open>No nil element, every record valid, no two of them under one key.\<close>

definition valid_rows :: "('r \<Rightarrow> bool) \<Rightarrow> ('r \<Rightarrow> bytes) \<Rightarrow> 'r option list option \<Rightarrow> bool" where
  "valid_rows P key xs \<longleftrightarrow>
     (\<exists>rs. range_of xs = map Some rs \<and> (\<forall>r \<in> set rs. P r) \<and> distinct (map key rs))"

definition valid_envelope :: "addr_codec \<Rightarrow> ExportEnvelope \<Rightarrow> bool" where
  "valid_envelope C env \<longleftrightarrow> eVersion env = 1 \<and> eSchemaVersion env \<noteq> 0 \<and> eSchemaVersion env \<le> currentSchemaVersion \<and>
     valid_rows (valid_deployment C) dKey (eDeployments env) \<and> valid_rows (valid_lease C) lKey (eLeases env) \<and>
     valid_rows (valid_bid C) bKey (eBids env) \<and> (\<forall>s. eSyncState env = Some s \<longrightarrow> valid_sync C s)"

lemma validate_address_iff: "validateImportAccountAddressWithCodec s C = Inr u \<longleftrightarrow> valid_address C s"
  by (auto simp: validateImportAccountAddressWithCodec_def valid_address_def rbind_Inr_iff)

text \<open>A validation loop that remembers the keys seen decides \<open>valid_rows\<close>.\<close>

lemma validate_loop:
  assumes nil: "\<And>i seen x. v (i, seen) None \<noteq> Inr x"
    and some: "\<And>i seen r x. v (i, seen) (Some r) = Inr x \<longleftrightarrow> P r \<and> key r \<notin> seen \<and> x = (Suc i, insert (key r) seen)"
  shows "(\<exists>x. foldM v (i, seen) xs = Inr x) \<longleftrightarrow>
    (\<exists>rs. xs = map Some rs \<and> (\<forall>r \<in> set rs. P r \<and> key r \<notin> seen) \<and> distinct (map key rs))"
proof (induction xs arbitrary: i seen)
  case Nil
  then show ?case by auto
next
  case (Cons y xs)
  show ?case
  proof (cases y)
    case None
    then show ?thesis using nil by (auto simp: rbind_Inr_iff)
  next
    case (Some r)
    have "(\<exists>x. foldM v (i, seen) (y # xs) = Inr x) \<longleftrightarrow>
        P r \<and> key r \<notin> seen \<and> (\<exists>x. foldM v (Suc i, insert (key r) seen) xs = Inr x)"
      by (auto simp: Some rbind_Inr_iff some)
    also have "\<dots> \<longleftrightarrow> P r \<and> key r \<notin> seen \<and> (\<exists>rs. xs = map Some rs \<and>
        (\<forall>r' \<in> set rs. P r' \<and> key r' \<notin> insert (key r) seen) \<and> distinct (map key rs))"
      by (simp only: Cons.IH)
    also have "\<dots> \<longleftrightarrow> (\<exists>rs. y # xs = map Some rs \<and> (\<forall>r \<in> set rs. P r \<and> key r \<notin> seen) \<and> distinct (map key rs))"
      by (auto simp: Some Cons_eq_map_conv image_iff) metis+
    finally show ?thesis .
  qed
qed

lemma validate_rows:
  assumes "\<And>i seen x. v (i, seen) None \<noteq> Inr x"
    and "\<And>i seen r x. v (i, seen) (Some r) = Inr x \<longleftrightarrow> P r \<and> key r \<notin> seen \<and> x = (Suc i, insert (key r) seen)"
  shows "(\<exists>x. foldM v (0, {}) (range_of xs) = Inr x) \<longleftrightarrow> valid_rows P key xs"
  using validate_loop [of v P key 0 "{}" "range_of xs", OF assms] by (simp add: valid_rows_def)

lemma validate_steps:
  "validate_deployment C (i, seen) (Some d) = Inr x \<longleftrightarrow>
     valid_deployment C d \<and> dKey d \<notin> seen \<and> x = (Suc i, insert (dKey d) seen)"
  "validate_lease C (i, seen) (Some l) = Inr x \<longleftrightarrow>
     valid_lease C l \<and> lKey l \<notin> seen \<and> x = (Suc i, insert (lKey l) seen)"
  "validate_bid C (i, seen) (Some b) = Inr x \<longleftrightarrow>
     valid_bid C b \<and> bKey b \<notin> seen \<and> x = (Suc i, insert (bKey b) seen)"
  by (auto simp: validate_deployment_def valid_deployment_def validate_lease_def valid_lease_def
      validate_bid_def valid_bid_def rbind_Inr_iff validate_address_iff not_less)

lemma validate_nil:
  "validate_deployment C (i, seen) None \<noteq> Inr x" "validate_lease C (i, seen) None \<noteq> Inr x"
  "validate_bid C (i, seen) None \<noteq> Inr x"
  by (simp_all add: validate_deployment_def validate_lease_def validate_bid_def)

lemma validate_accounts:
  "(\<exists>j. foldM (\<lambda>i account. rbind (map_err (SyncAccount i) (validateImportAccountAddressWithCodec account C))
      (\<lambda>_. Inr (Suc i))) i accounts = Inr j) \<longleftrightarrow> (\<forall>a \<in> set accounts. valid_address C a)"
  by (induction accounts arbitrary: i) (auto simp: rbind_Inr_iff validate_address_iff)

lemma validate_sync_iff: "validate_sync C s = Inr () \<longleftrightarrow> valid_sync C s"
  using validate_accounts [of C 0 "sTrackedAccounts s"]
  by (auto simp: validate_sync_def valid_sync_def rbind_Inr_iff not_less)

lemma validate_envelope_iff: "validateImportEnvelope C env = Inr () \<longleftrightarrow> valid_envelope C env"
proof -
  note rows = validate_rows [OF validate_nil(1) validate_steps(1)] validate_rows [OF validate_nil(2) validate_steps(2)]
    validate_rows [OF validate_nil(3) validate_steps(3)]
  have "validateImportEnvelope C env = Inr () \<longleftrightarrow> eVersion env = 1 \<and> eSchemaVersion env \<noteq> 0 \<and>
      eSchemaVersion env \<le> currentSchemaVersion \<and>
      (\<exists>x. foldM (validate_deployment C) (0, {}) (range_of (eDeployments env)) = Inr x) \<and>
      (\<exists>x. foldM (validate_lease C) (0, {}) (range_of (eLeases env)) = Inr x) \<and>
      (\<exists>x. foldM (validate_bid C) (0, {}) (range_of (eBids env)) = Inr x) \<and>
      (case eSyncState env of None \<Rightarrow> True | Some s \<Rightarrow> validate_sync C s = Inr ())"
    by (auto simp: validateImportEnvelope_def exportEnvelopeVersion_def rbind_Inr_iff not_less split: option.splits)
  then show ?thesis
    unfolding rows by (simp add: valid_envelope_def validate_sync_iff split: option.splits)
qed

text \<open>
   \<open>validateImportEnvelope\<close> accepts exactly the envelopes of version 1 and a known schema
  whose records are all present, complete, in a known state, with canonical 20-byte
  addresses, non-negative times and pairwise different keys, and whose sync state is valid.
\<close>

theorem validateImportEnvelope_decides: "validateImportEnvelope C env = Inr () \<longleftrightarrow> valid_envelope C env"
  by (rule validate_envelope_iff)

section \<open>What an import does\<close>

definition rows_exact :: "('r \<Rightarrow> bool) \<Rightarrow> 'r option list option \<Rightarrow> bool" where
  "rows_exact P xs \<longleftrightarrow> (\<forall>r. Some r \<in> set (range_of xs) \<longrightarrow> P r)"

definition env_exact ::
  "(DeploymentRecord \<Rightarrow> bool) \<Rightarrow> (LeaseRecord \<Rightarrow> bool) \<Rightarrow> (BidRecord \<Rightarrow> bool) \<Rightarrow> (SyncState \<Rightarrow> bool)
    \<Rightarrow> ExportEnvelope \<Rightarrow> bool" where
  "env_exact dx lx bx sx env \<longleftrightarrow> rows_exact dx (eDeployments env) \<and> rows_exact lx (eLeases env) \<and>
     rows_exact bx (eBids env) \<and> (\<forall>s. eSyncState env = Some s \<longrightarrow> sx s)"

text \<open>A successful loop of imports had no nil element and performed the puts in order.\<close>

lemma import_loop:
  assumes nil: "\<And>tx tx'. put tx None \<noteq> Inr tx'"
    and run: "foldM (import_one ctx put err) (n, tx) xs = Inr (n', tx')"
  shows "\<exists>rs. xs = map Some rs \<and> foldM (\<lambda>tx r. put tx (Some r)) tx rs = Inr tx'"
  using run
proof (induction xs arbitrary: n tx)
  case Nil
  then show ?case by simp
next
  case (Cons x xs)
  then obtain n1 tx1 where step: "put tx x = Inr tx1" and rest: "foldM (import_one ctx put err) (n1, tx1) xs = Inr (n', tx')"
    by (auto simp: import_one_def rbind_Inr_iff)
  from step nil obtain r where "x = Some r" by (cases x) auto
  moreover from Cons.IH [OF rest] obtain rs where "xs = map Some rs" "foldM (\<lambda>tx r. put tx (Some r)) tx1 rs = Inr tx'" by blast
  ultimately show ?case using step by (intro exI [of _ "r # rs"]) simp
qed

lemma put_nil:
  "putDeploymentTx E tx None \<noteq> Inr tx'" "putLeaseTx E tx None \<noteq> Inr tx'" "putBidTx E tx None \<noteq> Inr tx'"
  by (simp_all add: putDeploymentTx_def putDeploymentTxWithMarshal_def putLeaseTx_def putLeaseTxWithMarshal_def
      putBidTx_def putBidTxWithMarshal_def)

lemma applyImportTx_split:
  assumes "applyImportTx E ctx tx env merge = Inr tx'"
  obtains tx0 ds tx1 ls tx2 bs tx3 where
    "if merge then tx0 = tx else clearDataBucketsTx E tx = Inr tx0"
    "range_of (eDeployments env) = map Some ds" "foldM (\<lambda>tx d. putDeploymentTx E tx (Some d)) tx0 ds = Inr tx1"
    "range_of (eLeases env) = map Some ls" "foldM (\<lambda>tx l. putLeaseTx E tx (Some l)) tx1 ls = Inr tx2"
    "range_of (eBids env) = map Some bs" "foldM (\<lambda>tx b. putBidTx E tx (Some b)) tx2 bs = Inr tx3"
    "case eSyncState env of None \<Rightarrow> tx' = tx3 | Some s \<Rightarrow> putSyncStateTx E tx3 (Some s) = Inr tx'"
proof -
  from assms obtain tx0 n n1 tx1 n2 tx2 n3 tx3 where
    z: "if merge then tx0 = tx else clearDataBucketsTx E tx = Inr tx0"
    and d: "foldM (import_one ctx (putDeploymentTx E) (\<lambda>d. ImportDeployment (dOwner d) (dDSeq d)))
      (n, tx0) (range_of (eDeployments env)) = Inr (n1, tx1)"
    and l: "foldM (import_one ctx (putLeaseTx E) (\<lambda>l. ImportLease (lKey l))) (n1, tx1) (range_of (eLeases env)) = Inr (n2, tx2)"
    and b: "foldM (import_one ctx (putBidTx E) (\<lambda>b. ImportBid (bKey b))) (n2, tx2) (range_of (eBids env)) = Inr (n3, tx3)"
    and s: "case eSyncState env of None \<Rightarrow> tx' = tx3 | Some s \<Rightarrow> putSyncStateTx E tx3 (Some s) = Inr tx'"
    by (auto simp: applyImportTx_def rbind_Inr_iff split: if_splits option.splits)
  from import_loop [OF put_nil(1) d] import_loop [OF put_nil(2) l] import_loop [OF put_nil(3) b] that z s
  show ?thesis by blast
qed

lemma foldM_frame:
  "foldM f tx xs = Inr tx' \<Longrightarrow> (\<And>s x s'. f s x = Inr s' \<Longrightarrow> s' m = s m) \<Longrightarrow> tx' m = tx m"
  by (induction xs arbitrary: tx) (auto simp: rbind_Inr_iff)

context store_env
begin

lemma clear_eq:
  assumes "store_ok E dx lx bx sx tx"
  shows "clearDataBucketsTx E tx =
    Inr (tx(Deployments \<mapsto> bkt_new E, Leases \<mapsto> bkt_new E, Bids \<mapsto> bkt_new E, Sync \<mapsto> bkt_new E))"
proof -
  from assms obtain a b c d where "tx Deployments = Some a" "tx Leases = Some b" "tx Bids = Some c" "tx Sync = Some d"
    by (auto simp: store_ok_def ok_defs table_ok_def sync_ok_def)
  then show ?thesis
    by (simp add: clearDataBucketsTx_def clearDataBucketsTxWithCreate_def tx_DeleteBucket_def tx_CreateBucket_def fun_eq_iff)
qed

lemma clear_effect:
  assumes "store_ok E dx lx bx sx tx" and "clearDataBucketsTx E tx = Inr tx'"
  shows "store_ok E dx lx bx sx tx' \<and> dep_view E tx' = Map.empty \<and> lease_view E tx' = Map.empty \<and> bid_view E tx' = Map.empty
    \<and> GetSyncState E tx' = Inr None"
proof -
  have tx': "tx' = tx(Deployments \<mapsto> bkt_new E, Leases \<mapsto> bkt_new E, Bids \<mapsto> bkt_new E, Sync \<mapsto> bkt_new E)"
    using assms clear_eq by simp
  have b: "tx' Deployments = Some (bkt_new E)" "tx' Leases = Some (bkt_new E)" "tx' Bids = Some (bkt_new E)"
    "tx' Sync = Some (bkt_new E)" "tx' Meta = tx Meta" unfolding tx' by simp_all
  from assms(1) have "meta_ok E tx'" using ok_frame(5) [of tx' tx E] b(5) by (simp add: store_ok_def)
  with b show ?thesis
    by (simp add: store_ok_def ok_defs view_defs table_new sync_ok_def new_get GetSyncState_def tx_bucket_def)
qed

lemma puts_store_ok:
  assumes "store_ok E dx lx bx sx tx"
  shows "foldM (\<lambda>tx d. putDeploymentTx E tx (Some d)) tx ds = Inr tx' \<Longrightarrow> \<forall>d \<in> set ds. dx d \<Longrightarrow> store_ok E dx lx bx sx tx'"
    and "foldM (\<lambda>tx l. putLeaseTx E tx (Some l)) tx ls = Inr tx' \<Longrightarrow> \<forall>l \<in> set ls. lx l \<Longrightarrow> store_ok E dx lx bx sx tx'"
    and "foldM (\<lambda>tx b. putBidTx E tx (Some b)) tx bs = Inr tx' \<Longrightarrow> \<forall>b \<in> set bs. bx b \<Longrightarrow> store_ok E dx lx bx sx tx'"
  by (erule foldM_invariant [where P = "store_ok E dx lx bx sx", OF _ assms];
      auto intro: putDeploymentTx_store_ok putLeaseTx_store_ok putBidTx_store_ok)+

lemma puts_frames:
  "foldM (\<lambda>tx d. putDeploymentTx E tx (Some d)) tx ds = Inr tx' \<Longrightarrow> m \<noteq> Deployments \<Longrightarrow> tx' m = tx m"
  "foldM (\<lambda>tx l. putLeaseTx E tx (Some l)) tx ls = Inr tx' \<Longrightarrow> m \<noteq> Leases \<Longrightarrow> tx' m = tx m"
  "foldM (\<lambda>tx b. putBidTx E tx (Some b)) tx bs = Inr tx' \<Longrightarrow> m \<noteq> Bids \<Longrightarrow> tx' m = tx m"
  by (erule foldM_frame; erule put_frames, assumption)+

lemma applyImportTx_store_ok:
  assumes ok: "store_ok E dx lx bx sx tx" and x: "env_exact dx lx bx sx env"
    and run: "applyImportTx E ctx tx env merge = Inr tx'"
  shows "store_ok E dx lx bx sx tx'"
  using run
proof (rule applyImportTx_split)
  fix tx0 ds tx1 ls tx2 bs tx3
  assume a: "if merge then tx0 = tx else clearDataBucketsTx E tx = Inr tx0"
    "range_of (eDeployments env) = map Some ds" "foldM (\<lambda>tx d. putDeploymentTx E tx (Some d)) tx0 ds = Inr tx1"
    "range_of (eLeases env) = map Some ls" "foldM (\<lambda>tx l. putLeaseTx E tx (Some l)) tx1 ls = Inr tx2"
    "range_of (eBids env) = map Some bs" "foldM (\<lambda>tx b. putBidTx E tx (Some b)) tx2 bs = Inr tx3"
    "case eSyncState env of None \<Rightarrow> tx' = tx3 | Some s \<Rightarrow> putSyncStateTx E tx3 (Some s) = Inr tx'"
  have ok0: "store_ok E dx lx bx sx tx0" using a(1) ok clear_effect by (cases merge) auto
  have exact: "\<forall>d \<in> set ds. dx d" "\<forall>l \<in> set ls. lx l" "\<forall>b \<in> set bs. bx b"
    using x a(2,4,6) by (auto simp: env_exact_def rows_exact_def)
  have ok3: "store_ok E dx lx bx sx tx3"
    by (rule puts_store_ok(3) [OF puts_store_ok(2) [OF puts_store_ok(1) [OF ok0 a(3) exact(1)] a(5) exact(2)] a(7) exact(3)])
  show ?thesis
  proof (cases "eSyncState env")
    case None
    with a(8) ok3 show ?thesis by simp
  next
    case (Some s)
    with a(8) x show ?thesis by (auto simp: env_exact_def intro: putSyncStateTx_store_ok [OF ok3])
  qed
qed

lemma applyImportTx_merge_revision:
  assumes ok: "store_ok E dx lx bx sx tx" and x: "env_exact dx lx bx sx env"
    and run: "applyImportTx E ctx tx env True = Inr tx'" and old: "dep_view E tx k = Some old"
  shows "\<exists>new. dep_view E tx' k = Some new \<and> dRecordVersion old \<le> dRecordVersion new"
  using run
proof (rule applyImportTx_split)
  fix tx0 ds tx1 ls tx2 bs tx3
  assume a: "if True then tx0 = tx else clearDataBucketsTx E tx = Inr tx0"
    "range_of (eDeployments env) = map Some ds" "foldM (\<lambda>tx d. putDeploymentTx E tx (Some d)) tx0 ds = Inr tx1"
    and l: "foldM (\<lambda>tx l. putLeaseTx E tx (Some l)) tx1 ls = Inr tx2" and b: "foldM (\<lambda>tx b. putBidTx E tx (Some b)) tx2 bs = Inr tx3"
    and s: "case eSyncState env of None \<Rightarrow> tx' = tx3 | Some s \<Rightarrow> putSyncStateTx E tx3 (Some s) = Inr tx'"
  have "tx' Deployments = tx3 Deployments"
    using s putSync_frame [of tx3 _ tx' Deployments] by (auto split: option.splits)
  also have "\<dots> = tx1 Deployments" using puts_frames(3) [OF b] puts_frames(2) [OF l] by simp
  finally have v: "dep_view E tx' = dep_view E tx1" by (rule view_frame)
  have "\<forall>d \<in> set ds. dx d" using x a(2) by (auto simp: env_exact_def rows_exact_def)
  then show ?thesis
    using dep.puts_revision [of tx ds tx1 k old] ok a(1,3) old v by (simp add: store_ok_def)
qed

end

lemma foldM_Inl: "foldM f s xs = Inl e \<Longrightarrow> \<exists>s x. f s x = Inl e"
  by (induction xs arbitrary: s) (auto simp: rbind_Inl_iff)

lemma import_loop_error:
  "foldM (import_one ctx put err) s xs = Inl e \<Longrightarrow>
     e = CtxErr \<or> e = NilDereference \<or> (\<exists>r e'. e = err r e')"
  by (drule foldM_Inl)
    (auto simp: import_one_def poll_def rbind_Inl_iff map_err_Inl_iff split: if_splits option.splits)

text \<open>The import never returns the marker the dry run rolls back with.\<close>

lemma applyImportTx_marker: "applyImportTx E ctx tx env merge \<noteq> Inl DryRunRollback"
proof
  assume "applyImportTx E ctx tx env merge = Inl DryRunRollback"
  then show False
    by (auto simp: applyImportTx_def rbind_Inl_iff poll_def map_err_Inl_iff split: if_splits option.splits
        dest!: import_loop_error)
qed

text \<open>
  C31.  An import is all or nothing: after any error, cancellation at any poll included, the
  store is unchanged; after success it is well-formed, and a merge neither loses a record
  nor lowers a revision.
\<close>

theorem importData_atomic:
  assumes env: "store_env E dx lx bx sx" and ok: "store_ok E dx lx bx sx db"
    and x: "\<And>e. decodeImportEnvelope C X r format = Inr e \<Longrightarrow> env_exact dx lx bx sx e"
    and run: "importData E C X ctx r format merge db = (err, db')"
  shows "(err \<noteq> None \<longrightarrow> db' = db) \<and> store_ok E dx lx bx sx db' \<and>
    (merge \<longrightarrow> (\<forall>owner dseq old. GetDeployment E db owner dseq = Inr (Some old) \<longrightarrow>
      (\<exists>new. GetDeployment E db' owner dseq = Inr (Some new) \<and> dRecordVersion old \<le> dRecordVersion new)))"
proof (cases "err = None")
  case False
  have "db' = db"
  proof (cases "decodeImportEnvelope C X r format")
    case (Inr e)
    with run False store_env.update_cases [OF env, of "\<lambda>tx. applyImportTx E ctx tx e merge" db _ db']
    show ?thesis by (auto simp: importData_def map_prod_def split: prod.splits)
  qed (use run in \<open>simp add: importData_def\<close>)
  with ok False show ?thesis by auto
next
  case True
  with run obtain e where e: "decodeImportEnvelope C X r format = Inr e"
    "db_update E (\<lambda>tx. applyImportTx E ctx tx e merge) db = (None, db')"
    by (cases "decodeImportEnvelope C X r format") (auto simp: importData_def map_prod_def split: prod.splits)
  then have tx: "applyImportTx E ctx db e merge = Inr db'"
    using store_env.update_cases [OF env e(2)] by simp
  have ok': "store_ok E dx lx bx sx db'"
    by (rule store_env.applyImportTx_store_ok [OF env ok x [OF e(1)] tx])
  have "\<exists>new. dep_view E db' k = Some new \<and> dRecordVersion old \<le> dRecordVersion new"
    if merge "dep_view E db k = Some old" for k old
    using that store_env.applyImportTx_merge_revision [OF env ok x [OF e(1)]] tx by simp
  with ok ok' True store_env.GetDeployment_view [OF env] show ?thesis by (auto simp: store_ok_def)
qed

text \<open>An example: a codec for one envelope and an address codec on 20-character addresses.\<close>

definition sample_codec :: "ExportEnvelope \<Rightarrow> codec" where
  "sample_codec env = \<lparr>json_encode = (\<lambda>_. ([''{}''], True)), yaml_encode = (\<lambda>_. ([''{}''], True)), yaml_close = (\<lambda>_. []),
     json_decode = (\<lambda>_. Some env), json_rest = (\<lambda>_. RestEOF), json_fields = (\<lambda>_. Some (\<lambda>_. Some ''[]'')),
     yaml_decode = (\<lambda>_. Some env), yaml_rest = (\<lambda>_. RestEOF), yaml_document = (\<lambda>_. None)\<rparr>"

definition sample_addr :: addr_codec where
  "sample_addr = \<lparr>StringToBytes = Some, BytesToString = Some\<rparr>"

definition sample_env :: ExportEnvelope where
  "sample_env = zero_envelope\<lparr>eVersion := 1, eSchemaVersion := 1, eDeployments := Some [Some (zero_deployment\<lparr>
     dOwner := replicate 20 CHR ''o'', dDSeq := 7, dState := ''active'', dRecordVersion := 4\<rparr>)]\<rparr>"

abbreviation sample_reader :: reader where
  "sample_reader \<equiv> (\<lambda>n. Some (take n ''{}''))"

lemma sample_decode:
  assumes "valid_envelope sample_addr env"
  shows "decodeImportEnvelope sample_addr (sample_codec env) sample_reader FormatJSON = Inr env"
proof -
  have "validateRequiredImportCollections (sample_codec env) ''{}'' FormatJSON = Inr ()"
    by (simp add: validateRequiredImportCollections_def json_array_field_def sample_codec_def Let_def
        trim_space_printable printable_def)
  moreover have "validateImportEnvelope sample_addr env = Inr ()"
    using assms by (simp add: validate_envelope_iff)
  ultimately show ?thesis
    by (simp add: decodeImportEnvelope_def maxEncodedEnvelopeBytes_def sample_codec_def)
qed

lemma sample_env_valid: "valid_envelope sample_addr sample_env"
proof -
  let ?d = "zero_deployment\<lparr>dOwner := replicate 20 CHR ''o'', dDSeq := 7, dState := ''active'', dRecordVersion := 4\<rparr>"
  have "valid_deployment sample_addr ?d"
    by (simp add: valid_deployment_def valid_address_def sample_addr_def zero_deployment_def)
  then have "valid_rows (valid_deployment sample_addr) dKey (Some [Some ?d])"
    unfolding valid_rows_def by (intro exI [of _ "[?d]"]) simp
  then show ?thesis
    by (simp add: valid_envelope_def sample_env_def zero_envelope_def valid_rows_def currentSchemaVersion_def)
qed

lemma any_exact: "env_exact any any any any env"
  by (simp add: env_exact_def rows_exact_def)

theorem importData_atomic_witness:
  "let run = importData ref_ext sample_addr (sample_codec sample_env) (\<lambda>_. False) sample_reader FormatJSON True sample_store in
   fst run = None \<and> store_ok ref_ext any any any any (snd run) \<and>
   snd (importData ref_ext sample_addr (sample_codec sample_env) (\<lambda>n. n = 1) sample_reader FormatJSON True sample_store) = sample_store"
proof -
  let ?run = "\<lambda>ctx. importData ref_ext sample_addr (sample_codec sample_env) ctx sample_reader FormatJSON True sample_store"
  note dec = sample_decode [OF sample_env_valid]
  have eqs: "?run ctx = map_prod (map_option StoreFailed) id
      (db_update ref_ext (\<lambda>tx. applyImportTx ref_ext ctx tx sample_env True) sample_store)" for ctx
    by (simp add: importData_def dec)
  have "fst (db_update ref_ext (\<lambda>tx. applyImportTx ref_ext (\<lambda>_. False) tx sample_env True) sample_store) = None"
    "fst (db_update ref_ext (\<lambda>tx. applyImportTx ref_ext (\<lambda>n. n = 1) tx sample_env True) sample_store) = Some CtxErr"
    by code_simp+
  then have f: "fst (?run (\<lambda>_. False)) = None" "fst (?run (\<lambda>n. n = 1)) = Some (StoreFailed CtxErr)"
    unfolding eqs by simp_all
  from importData_atomic [OF ref.store_env_axioms sample_store_ok any_exact fst_pair [OF f(1)]]
    importData_atomic [OF ref.store_env_axioms sample_store_ok any_exact fst_pair [OF f(2)]] f(1)
  show ?thesis by (simp add: Let_def)
qed

text \<open>
   The dry run changes nothing and predicts the import: it succeeds when the import
  does, reports the import's own error otherwise, and when it succeeds the import can fail
  only at the commit.
\<close>

theorem validateImportData_dry_run:
  assumes env: "store_env E dx lx bx sx"
    and dry: "validateImportData E C X ctx r format merge db = (err, db')"
    and real: "importData E C X ctx r format merge db = (err2, db2)"
  shows "db' = db \<and> (err2 = None \<longrightarrow> err = None) \<and> (err \<noteq> None \<longrightarrow> err2 = err \<and> db2 = db) \<and>
    (err = None \<longrightarrow> err2 = None \<or> (err2 = Some (StoreFailed CommitFailed) \<and> db2 = db))"
proof (cases "decodeImportEnvelope C X r format")
  case (Inl e)
  with dry real show ?thesis by (simp add: validateImportData_def importData_def)
next
  case (Inr e)
  show ?thesis
  proof (cases "applyImportTx E ctx db e merge")
    case (Inl x)
    then have "x \<noteq> DryRunRollback" using applyImportTx_marker by metis
    moreover have "db_update E (\<lambda>tx. rbind (applyImportTx E ctx tx e merge) (\<lambda>_. Inl DryRunRollback)) db = (Some x, db)"
      "db_update E (\<lambda>tx. applyImportTx E ctx tx e merge) db = (Some x, db)"
      using Inl by (intro store_env.update_error [OF env]; simp)+
    ultimately show ?thesis using dry real Inr by (auto simp: validateImportData_def importData_def)
  next
    case apply_ok: (Inr tx)
    have "db_update E (\<lambda>tx. rbind (applyImportTx E ctx tx e merge) (\<lambda>_. Inl DryRunRollback)) db = (Some DryRunRollback, db)"
      using apply_ok by (intro store_env.update_error [OF env]) simp
    moreover have "db_update E (\<lambda>tx. applyImportTx E ctx tx e merge) db \<in> {(None, tx), (Some CommitFailed, db)}"
      using store_env.update_commit [OF env, of "\<lambda>tx. applyImportTx E ctx tx e merge" db tx] apply_ok by auto
    ultimately show ?thesis using dry real Inr by (auto simp: validateImportData_def importData_def)
  qed
qed

theorem validateImportData_dry_run_witness:
  "let dry = validateImportData ref_ext sample_addr (sample_codec sample_env) (\<lambda>_. False) sample_reader FormatJSON True sample_store
   in dry = (None, sample_store)"
proof -
  let ?real = "importData ref_ext sample_addr (sample_codec sample_env) (\<lambda>_. False) sample_reader FormatJSON True sample_store"
  have "fst (db_update ref_ext (\<lambda>tx. applyImportTx ref_ext (\<lambda>_. False) tx sample_env True) sample_store) = None"
    by code_simp
  then have "fst ?real = None" by (simp add: importData_def sample_decode [OF sample_env_valid])
  with validateImportData_dry_run [OF ref.store_env_axioms surjective_pairing surjective_pairing,
      of sample_addr "sample_codec sample_env" "\<lambda>_. False" sample_reader FormatJSON True sample_store]
  show ?thesis by (auto simp: Let_def prod_eq_iff)
qed

section \<open>Export and restore\<close>

lemma decode_rows_scan:
  "decode_rows ctx err u (n, acc) rows = Inr (n', out) \<Longrightarrow> out = acc @ map Some (scan_rows u rows)"
proof (induction rows arbitrary: n acc)
  case Nil
  then show ?case by (simp add: decode_rows_def)
next
  case (Cons kv rows)
  obtain k v where kv: "kv = (k, v)" by force
  from Cons.prems obtain n1 r where r: "u v = Some r"
    and rest: "decode_rows ctx err u (n1, acc @ [Some r]) rows = Inr (n', out)"
    by (auto simp: decode_rows_def kv rbind_Inr_iff)
  from Cons.IH [OF rest] r kv show ?case by simp
qed

text \<open>The records of a snapshot: what a table holds, each under its own key, with a revision.\<close>

definition snapshot_of :: "(bytes \<rightharpoonup> 'r) \<Rightarrow> ('r \<Rightarrow> bytes) \<Rightarrow> ('r \<Rightarrow> u64) \<Rightarrow> ('r \<Rightarrow> bool) \<Rightarrow> 'r list \<Rightarrow> bool" where
  "snapshot_of view key ver exact rs \<longleftrightarrow>
     distinct (map key rs) \<and> (\<forall>k. find_by key k rs = view k) \<and> (\<forall>r \<in> set rs. exact r \<and> ver r \<noteq> 0)"

context store_env
begin

lemma table_snapshot:
  assumes ok: "table_ok E n fresh unmarshal key ver exact tx" and b: "tx n = Some b" and r0: "fresh r0"
  shows "snapshot_of (table_view E n (unmarshal r0) tx) key ver exact (scan_rows (unmarshal r0) (bkt_entries E b))"
  unfolding snapshot_of_def
proof (intro conjI allI ballI)
  fix r
  assume "r \<in> set (scan_rows (unmarshal r0) (bkt_entries E b))"
  then have "table_view E n (unmarshal r0) tx (key r) = Some r" using table_scan_mem [OF ok b r0] by blast
  from table_view_ok [OF ok this r0] show "exact r" "ver r \<noteq> 0" by simp_all
qed (use table_scan_distinct [OF ok b r0] table_scan_find [OF ok b r0] in auto)

lemma readExportSnapshot_rows:
  assumes ok: "store_ok E dx lx bx sx tx" and run: "readExportSnapshot E ctx tx env = Inr env'"
    and empty: "eDeployments env = Some []" "eLeases env = Some []" "eBids env = Some []" "eSyncState env = None"
  obtains ds ls bs where
    "eDeployments env' = Some (map Some ds)" "snapshot_of (dep_view E tx) dKey dRecordVersion dx ds"
    "eLeases env' = Some (map Some ls)" "snapshot_of (lease_view E tx) lKey lRecordVersion lx ls"
    "eBids env' = Some (map Some bs)" "snapshot_of (bid_view E tx) bKey bRecordVersion bx bs"
    "GetSyncState E tx = Inr (eSyncState env')" "\<forall>s. eSyncState env' = Some s \<longrightarrow> sx s"
proof -
  from run empty obtain d l b y n1 n2 n3 n4 ds ls bs where
    bk: "tx Deployments = Some d" "tx Leases = Some l" "tx Bids = Some b" "tx Sync = Some y"
    and rows: "decode_rows ctx DecodeDeployment (dep_unmarshal E zero_deployment) (n1, []) (bkt_entries E d) = Inr (n2, ds)"
      "decode_rows ctx DecodeLease (lease_unmarshal E zero_lease) (n2, []) (bkt_entries E l) = Inr (n3, ls)"
      "decode_rows ctx DecodeBid (bid_unmarshal E zero_bid) (n3, []) (bkt_entries E b) = Inr (n4, bs)"
    and env': "eDeployments env' = Some ds" "eLeases env' = Some ls" "eBids env' = Some bs"
    and sync: "(case bkt_get E y keySyncState of None \<Rightarrow> Inr (eSyncState env)
        | Some data \<Rightarrow> rbind (of_opt DecodeSync (sync_unmarshal E zero_sync data)) (\<lambda>s. Inr (Some s))) = Inr (eSyncState env')"
    unfolding readExportSnapshot_def by (auto simp: requiredExportBucket_def rbind_Inr_iff)
  have oks: "dep_ok E dx tx" "lease_ok E lx tx" "bid_ok E bx tx" "sync_ok E sx tx" using ok by (simp_all add: store_ok_def)
  have scans: "ds = map Some (scan_rows (dep_unmarshal E zero_deployment) (bkt_entries E d))"
    "ls = map Some (scan_rows (lease_unmarshal E zero_lease) (bkt_entries E l))"
    "bs = map Some (scan_rows (bid_unmarshal E zero_bid) (bkt_entries E b))"
    using rows [THEN decode_rows_scan] by simp_all
  have "GetSyncState E tx = Inr (eSyncState env') \<and> (\<forall>s. eSyncState env' = Some s \<longrightarrow> sx s)"
    using sync oks(4) bk(4) empty(4)
    by (auto simp: GetSyncState_def tx_bucket_def sync_ok_def rbind_Inr_iff split: option.splits)
  with that [OF env'(1) [unfolded scans(1)] _ env'(2) [unfolded scans(2)] _ env'(3) [unfolded scans(3)]]
    table_snapshot [OF oks(1) [unfolded ok_defs] bk(1), of zero_deployment, OF fresh_records(1)]
    table_snapshot [OF oks(2) [unfolded ok_defs] bk(2), of zero_lease, OF fresh_records(2)]
    table_snapshot [OF oks(3) [unfolded ok_defs] bk(3), of zero_bid, OF fresh_records(3)]
  show ?thesis unfolding view_defs by blast
qed

lemma GetSyncState_put:
  assumes "sx s" and "putSyncStateTx E tx (Some s) = Inr tx'"
  shows "GetSyncState E tx' = Inr (Some s)"
proof -
  from assms(2) obtain b v b' where b: "tx Sync = Some b" "sync_marshal E s = Some v"
    "bkt_put E b keySyncState v = Some b'" "tx' = tx(Sync \<mapsto> b')"
    by (auto simp: putSyncStateTx_def putSyncStateTxWithMarshal_def rbind_Inr_iff put_bytes_Inr)
  then show ?thesis
    using put_get [OF b(3)] sync_json [OF assms(1) b(2)] by (simp add: GetSyncState_def tx_bucket_def)
qed

lemma replace_restores:
  assumes ok: "store_ok E dx lx bx sx tx"
    and ds: "eDeployments env = Some (map Some ds)" "snapshot_of dv dKey dRecordVersion dx ds"
    and ls: "eLeases env = Some (map Some ls)" "snapshot_of lv lKey lRecordVersion lx ls"
    and bs: "eBids env = Some (map Some bs)" "snapshot_of bv bKey bRecordVersion bx bs"
    and sync: "\<forall>s. eSyncState env = Some s \<longrightarrow> sx s"
    and run: "applyImportTx E ctx tx env False = Inr tx'"
  shows "dep_view E tx' = dv \<and> lease_view E tx' = lv \<and> bid_view E tx' = bv \<and> GetSyncState E tx' = Inr (eSyncState env)"
  using run
proof (rule applyImportTx_split)
  fix tx0 ds' tx1 ls' tx2 bs' tx3
  assume a: "if False then tx0 = tx else clearDataBucketsTx E tx = Inr tx0"
    "range_of (eDeployments env) = map Some ds'" "foldM (\<lambda>tx d. putDeploymentTx E tx (Some d)) tx0 ds' = Inr tx1"
    "range_of (eLeases env) = map Some ls'" "foldM (\<lambda>tx l. putLeaseTx E tx (Some l)) tx1 ls' = Inr tx2"
    "range_of (eBids env) = map Some bs'" "foldM (\<lambda>tx b. putBidTx E tx (Some b)) tx2 bs' = Inr tx3"
    and s: "case eSyncState env of None \<Rightarrow> tx' = tx3 | Some s \<Rightarrow> putSyncStateTx E tx3 (Some s) = Inr tx'"
  have eqs: "ds' = ds" "ls' = ls" "bs' = bs" using a(2,4,6) ds(1) ls(1) bs(1) by (simp_all add: inj_map_eq_map)
  have x: "\<forall>d \<in> set ds. dx d" "\<forall>l \<in> set ls. lx l" "\<forall>b \<in> set bs. bx b"
    using ds(2) ls(2) bs(2) by (auto simp: snapshot_of_def)
  have c: "store_ok E dx lx bx sx tx0" "dep_view E tx0 = Map.empty" "lease_view E tx0 = Map.empty"
    "bid_view E tx0 = Map.empty" "GetSyncState E tx0 = Inr None"
    using clear_effect [OF ok, of tx0] a(1) by auto
  have ok1: "store_ok E dx lx bx sx tx1" by (rule puts_store_ok(1) [OF c(1) a(3) [unfolded eqs] x(1)])
  have ok2: "store_ok E dx lx bx sx tx2" by (rule puts_store_ok(2) [OF ok1 a(5) [unfolded eqs] x(2)])
  note frames = puts_frames(1) [OF a(3)] puts_frames(2) [OF a(5)] puts_frames(3) [OF a(7)]
  have l1: "lease_view E tx1 = Map.empty" using view_frame(2) [of tx1 tx0 E] frames(1) c(3) by simp
  have b2: "bid_view E tx2 = Map.empty" using view_frame(3) [of tx2 tx0 E] frames(1,2) c(4) by simp
  have "dep_view E tx1 = dv"
    using dep.puts_restore [OF _ a(3) [unfolded eqs] x(1)] ds(2) c by (auto simp: snapshot_of_def store_ok_def fun_eq_iff)
  moreover have "lease_view E tx2 = lv"
    using lease.puts_restore [OF _ a(5) [unfolded eqs] x(2)] ls(2) ok1 l1 by (auto simp: snapshot_of_def store_ok_def fun_eq_iff)
  moreover have "bid_view E tx3 = bv"
    using bid.puts_restore [OF _ a(7) [unfolded eqs] x(3)] bs(2) ok2 b2 by (auto simp: snapshot_of_def store_ok_def fun_eq_iff)
  moreover have "m \<noteq> Sync \<Longrightarrow> tx' m = tx3 m" for m using s putSync_frame [of tx3 _ tx' m] by (auto split: option.splits)
  then have "dep_view E tx' = dep_view E tx1" "lease_view E tx' = lease_view E tx2" "bid_view E tx' = bid_view E tx3"
    using frames by (intro view_frame; simp)+
  moreover have "GetSyncState E tx' = Inr (eSyncState env)"
  proof (cases "eSyncState env")
    case None
    with s c(5) frames show ?thesis by (simp add: GetSyncState_def tx_bucket_def)
  next
    case (Some y)
    with s sync GetSyncState_put show ?thesis by simp
  qed
  ultimately show ?thesis by simp
qed

end

section \<open>The size of an export\<close>

text \<open>The writer that keeps everything, and how the size writer measures it.\<close>

abbreviation collect :: "bytes writer" where
  "collect \<equiv> (\<lambda>w c. (True, w @ c))"

lemma write_all_collect: "write_all collect w cs = (True, w @ concat cs)"
  by (induction cs arbitrary: w) auto

definition size_ok :: "exportSizeWriter \<Rightarrow> bool" where
  "size_ok s \<longleftrightarrow> 0 \<le> written s \<and> written s \<le> limit s \<and> limit s < 2 ^ 63"

lemma size_write:
  assumes "size_ok s" and "exportSizeWriter_Write s p = (True, s')"
  shows "size_ok s' \<and> written s' = written s + int (length p) \<and> limit s' = limit s"
proof -
  have i: "wrap_i64 (limit s - written s) = limit s - written s"
    using assms(1) by (intro wrap_i64_id) (auto simp: size_ok_def is_i64_def)
  with assms(2) have le: "int (length p) \<le> limit s - written s"
    and s': "s' = s\<lparr>written := wrap_i64 (written s + int (length p))\<rparr>"
    by (auto simp: exportSizeWriter_Write_def Let_def split: if_splits)
  have "wrap_i64 (written s + int (length p)) = written s + int (length p)"
    using assms(1) le by (intro wrap_i64_id) (auto simp: size_ok_def is_i64_def)
  with s' le assms(1) show ?thesis by (simp add: size_ok_def)
qed

lemma size_write_all:
  "size_ok s \<Longrightarrow> write_all exportSizeWriter_Write s cs = (True, s') \<Longrightarrow>
     size_ok s' \<and> written s' = written s + int (length (concat cs)) \<and> limit s' = limit s"
proof (induction cs arbitrary: s)
  case (Cons c cs)
  then obtain s1 where s1: "exportSizeWriter_Write s c = (True, s1)" "write_all exportSizeWriter_Write s1 cs = (True, s')"
    by (auto split: prod.splits bool.splits)
  from size_write [OF Cons.prems(1) s1(1)] Cons.IH [OF _ s1(2)] show ?case by auto
qed auto

text \<open>An encoding that passes the size writer is collected whole.\<close>

lemma encode_measured:
  assumes "size_ok s" and "encodeExportEnvelope X exportSizeWriter_Write s format env = (None, s')"
  shows "\<exists>out. encodeExportEnvelope X collect w format env = (None, w @ out) \<and>
    int (length out) = written s' - written s \<and> written s' \<le> limit s"
proof (cases format)
  case FormatYAML
  from assms(2) FormatYAML obtain s1 s2 where
    a: "exportSizeWriter_Write s (''---'' @ [CHR 0x0A]) = (True, s1)"
      "write_all exportSizeWriter_Write s1 (fst (yaml_encode X (MarshalYAML env))) = (True, s2)"
      "snd (yaml_encode X (MarshalYAML env))"
      "write_all exportSizeWriter_Write s2 (yaml_close X (MarshalYAML env)) = (True, s')"
    unfolding encodeExportEnvelope_def by (auto split: prod.splits bool.splits if_splits)
  from size_write [OF assms(1) a(1)] have 1: "size_ok s1" "written s1 = written s + 4" "limit s1 = limit s" by auto
  from size_write_all [OF 1(1) a(2)] size_write_all [OF _ a(4)] 1 have "size_ok s'"
    "written s' = written s + 4 + int (length (concat (fst (yaml_encode X (MarshalYAML env)))))
       + int (length (concat (yaml_close X (MarshalYAML env))))" "limit s' = limit s" by auto
  with a(3) FormatYAML show ?thesis
    by (auto simp: encodeExportEnvelope_def write_all_collect size_ok_def split: prod.splits)
next
  case FormatJSON
  from assms(2) FormatJSON have a: "snd (MarshalJSON X env)"
    "write_all exportSizeWriter_Write s (fst (MarshalJSON X env)) = (True, s')"
    unfolding encodeExportEnvelope_def by (auto split: prod.splits bool.splits if_splits)
  from size_write_all [OF assms(1) a(2)] a(1) FormatJSON show ?thesis
    by (auto simp: encodeExportEnvelope_def write_all_collect size_ok_def)
next
  case (FormatOther i)
  with assms(2) show ?thesis by (simp add: encodeExportEnvelope_def)
qed

text \<open>
   A successful export is at most as large as the largest input an import accepts, and a
  failure that is not the writer's own (a bad snapshot, an invalid record, an oversized or
  unencodable envelope) leaves every writer untouched.
\<close>

theorem export_size_and_purity:
  "(\<forall>out. export E C X ctx now db collect [] format name = (None, out) \<longrightarrow> length out \<le> maxEncodedEnvelopeBytes) \<and>
   (\<forall>e out. export E C X ctx now db collect [] format name = (Some e, out) \<longrightarrow>
      (\<forall>write w. export E C X ctx now db write w format name = (Some e, w)))"
proof -
  let ?s = "\<lparr>written = 0, limit = int maxEncodedEnvelopeBytes\<rparr>"
  let ?env = "zero_envelope\<lparr>eVersion := exportEnvelopeVersion, eExportedAt := now, eDeployments := Some [],
            eLeases := Some [], eBids := Some [], eContext := name\<rparr>"
  have s: "size_ok ?s" by (simp add: size_ok_def maxEncodedEnvelopeBytes_def)
  show ?thesis
  proof (cases "\<exists>env s'. readExportSnapshot E ctx db ?env = Inr env \<and> validateImportEnvelope C env = Inr () \<and>
      encodeExportEnvelope X exportSizeWriter_Write ?s format env = (None, s')")
    case True
    then obtain env s' where ok: "readExportSnapshot E ctx db ?env = Inr env" "validateImportEnvelope C env = Inr ()"
      and enc: "encodeExportEnvelope X exportSizeWriter_Write ?s format env = (None, s')" by blast
    from encode_measured [OF s enc, of "[]"] ok enc show ?thesis by (auto simp: export_def)
  next
    case False
    then show ?thesis
      unfolding export_def Let_def by (auto split: sum.splits prod.splits option.splits)
  qed
qed

theorem export_size_and_purity_witness:
  "\<exists>e. export ref_ext sample_addr (sample_codec sample_env) (\<lambda>_. True) ''now'' sample_store collect [] FormatJSON ''c'' = (Some e, []) \<and>
     export ref_ext sample_addr (sample_codec sample_env) (\<lambda>_. True) ''now'' sample_store (\<lambda>w c. (False, c)) ''w'' FormatJSON ''c''
       = (Some e, ''w'')"
proof -
  let ?run = "export ref_ext sample_addr (sample_codec sample_env) (\<lambda>_. True) ''now'' sample_store collect [] FormatJSON ''c''"
  have run: "?run = (Some (ReadSnapshot SnapCtx), [])" by (simp add: export_def readExportSnapshot_def poll_def Let_def)
  note pure = export_size_and_purity [of ref_ext sample_addr "sample_codec sample_env" "\<lambda>_. True" "''now''" sample_store
      FormatJSON "''c''", THEN conjunct2, rule_format, OF run]
  show ?thesis using run pure [of "\<lambda>w c. (False, c)" "''w''"] by (intro exI conjI)
qed

section \<open>Restoring a backup\<close>

text \<open>
  What the encoders keep: JSON keeps an envelope as it is, YAML (\<open>gopkg.in/yaml.v3\<close>) prints a
  nil map as an empty one.
\<close>

definition nil_to_empty :: "(string \<rightharpoonup> string) option \<Rightarrow> (string \<rightharpoonup> string) option" where
  "nil_to_empty m = Some (case m of None \<Rightarrow> Map.empty | Some f \<Rightarrow> f)"

definition dep_form :: "ExportFormat \<Rightarrow> DeploymentRecord \<Rightarrow> DeploymentRecord" where
  "dep_form format d = (if format = FormatYAML then d\<lparr>dLabels := nil_to_empty (dLabels d)\<rparr> else d)"

definition bid_form :: "ExportFormat \<Rightarrow> BidRecord \<Rightarrow> BidRecord" where
  "bid_form format b = (if format = FormatYAML then b\<lparr>bProviderAttributes := nil_to_empty (bProviderAttributes b)\<rparr> else b)"

definition env_form :: "ExportFormat \<Rightarrow> ExportEnvelope \<Rightarrow> ExportEnvelope" where
  "env_form format e = e\<lparr>eDeployments := map_option (map (map_option (dep_form format))) (eDeployments e),
     eBids := map_option (map (map_option (bid_form format))) (eBids e)\<rparr>"

lemma form_simps [simp]:
  "dOwner (dep_form format d) = dOwner d" "dDSeq (dep_form format d) = dDSeq d" "dState (dep_form format d) = dState d"
  "dCreatedAt (dep_form format d) = dCreatedAt d" "dUpdatedAt (dep_form format d) = dUpdatedAt d"
  "dClosedAt (dep_form format d) = dClosedAt d" "dCreatedHeight (dep_form format d) = dCreatedHeight d"
  "dRecordVersion (dep_form format d) = dRecordVersion d"
  "bID (bid_form format b) = bID b" "bState (bid_form format b) = bState b" "bCreatedAt (bid_form format b) = bCreatedAt b"
  "bRecordVersion (bid_form format b) = bRecordVersion b"
  by (simp_all add: dep_form_def bid_form_def)

lemma json_forms [simp]: "dep_form FormatJSON = id" "bid_form FormatJSON = id"
  by (simp_all add: dep_form_def bid_form_def fun_eq_iff)

lemma env_form_json [simp]: "env_form FormatJSON e = e"
  by (simp add: env_form_def option.map_id0 list.map_id0)

lemma range_of_map: "range_of (map_option (map f) xs) = map f (range_of xs)"
  by (cases xs) simp_all

text \<open>
  The documented behaviour of the two encoders on the envelopes of \<open>ex\<close>: what was encoded is
  decoded again, as the only document, and the collections are arrays.
\<close>

definition codec_law :: "(ExportEnvelope \<Rightarrow> bool) \<Rightarrow> codec \<Rightarrow> bool" where
  "codec_law ex X \<longleftrightarrow>
     (\<forall>e cs. ex e \<longrightarrow> json_encode X e = (cs, True) \<longrightarrow>
        json_decode X (concat cs) = Some e \<and> json_rest X (concat cs) = RestEOF \<and>
        (\<exists>fields. json_fields X (concat cs) = Some fields \<and>
          (\<forall>name \<in> {''deployments'', ''leases'', ''bids''}. \<exists>raw. fields name = Some (''['' @ raw @ '']'')))) \<and>
     (\<forall>e cs text. ex e \<longrightarrow> yaml_encode X e = (cs, True) \<longrightarrow> text = ''---'' @ [CHR 0x0A] @ concat cs @ concat (yaml_close X e) \<longrightarrow>
        yaml_decode X text = Some (env_form FormatYAML e) \<and> yaml_rest X text = RestEOF \<and>
        (\<exists>root content. yaml_document X text = Some [(root, content)] \<and> nKind root = MappingNode \<and>
          (\<forall>name \<in> {''deployments'', ''leases'', ''bids''}. yaml_array_field name content)))"

definition exact_envelope ::
  "(DeploymentRecord \<Rightarrow> bool) \<Rightarrow> (LeaseRecord \<Rightarrow> bool) \<Rightarrow> (BidRecord \<Rightarrow> bool) \<Rightarrow> (SyncState \<Rightarrow> bool) \<Rightarrow> (string \<Rightarrow> bool)
    \<Rightarrow> ExportEnvelope \<Rightarrow> bool" where
  "exact_envelope dx lx bx sx ux e \<longleftrightarrow>
     eDeployments e \<noteq> None \<and> eLeases e \<noteq> None \<and> eBids e \<noteq> None \<and> env_exact dx lx bx sx e \<and> ux (eContext e) \<and> ux (eExportedAt e)"

lemma initialized_same: "exact_envelope dx lx bx sx ux e \<Longrightarrow> initializeCollections e = e"
  by (auto simp: exact_envelope_def initializeCollections_def Let_def)

lemma validate_forms:
  "foldM (validate_deployment C) s (map (map_option (dep_form format)) ds) = foldM (validate_deployment C) s ds"
  "foldM (validate_bid C) s (map (map_option (bid_form format)) bs) = foldM (validate_bid C) s bs"
proof -
  have d: "validate_deployment C s (map_option (dep_form format) r) = validate_deployment C s r" for s r
    by (cases s; cases r) (simp_all add: validate_deployment_def)
  have b: "validate_bid C s (map_option (bid_form format) r) = validate_bid C s r" for s r
    by (cases s; cases r) (simp_all add: validate_bid_def)
  show "foldM (validate_deployment C) s (map (map_option (dep_form format)) ds) = foldM (validate_deployment C) s ds"
    by (induction ds arbitrary: s) (simp_all add: d)
  show "foldM (validate_bid C) s (map (map_option (bid_form format)) bs) = foldM (validate_bid C) s bs"
    by (induction bs arbitrary: s) (simp_all add: b)
qed

lemma validate_env_form: "validateImportEnvelope C (env_form format e) = validateImportEnvelope C e"
  by (simp add: validateImportEnvelope_def env_form_def validate_forms range_of_map)

lemma json_array_bracket: "json_array_field (Some (''['' @ raw @ '']''))"
proof -
  have "trim_space (''['' @ raw @ '']'') = ''['' @ raw @ '']''" by (rule trim_space_printable) (simp add: printable_def)
  then show ?thesis by (simp add: json_array_field_def Let_def)
qed

text \<open>The text of an export decodes to the form of the envelope that its format keeps.\<close>

lemma encoded_decodes:
  assumes law: "codec_law ex X" and ex: "ex e" "initializeCollections e = e" and valid: "validateImportEnvelope C e = Inr ()"
    and enc: "encodeExportEnvelope X collect [] format e = (None, out)" and len: "length out \<le> maxEncodedEnvelopeBytes"
  shows "decodeImportEnvelope C X (\<lambda>n. Some (take n out)) format = Inr (env_form format e)"
proof (cases format)
  case FormatJSON
  from enc FormatJSON have j: "json_encode X e = (fst (json_encode X e), True)" and out: "out = concat (fst (json_encode X e))"
    by (auto simp: encodeExportEnvelope_def MarshalJSON_def ex(2) write_all_collect prod_eq_iff split: if_splits)
  from law ex(1) j obtain fields where dec: "json_decode X out = Some e" "json_rest X out = RestEOF" "json_fields X out = Some fields"
    and f: "\<forall>name \<in> {''deployments'', ''leases'', ''bids''}. \<exists>raw. fields name = Some (''['' @ raw @ '']'')"
    unfolding codec_law_def out by blast
  have "validateRequiredImportCollections X out FormatJSON = Inr ()"
    using f dec(3) json_array_bracket by (auto simp: validateRequiredImportCollections_def Let_def)
  with dec len valid FormatJSON show ?thesis by (simp add: decodeImportEnvelope_def)
next
  case FormatYAML
  from enc FormatYAML have j: "yaml_encode X e = (fst (yaml_encode X e), True)"
    and out: "out = ''---'' @ [CHR 0x0A] @ concat (fst (yaml_encode X e)) @ concat (yaml_close X e)"
    by (auto simp: encodeExportEnvelope_def MarshalYAML_def ex(2) write_all_collect prod_eq_iff split: if_splits)
  from law ex(1) j out obtain root content where dec: "yaml_decode X out = Some (env_form FormatYAML e)" "yaml_rest X out = RestEOF"
      "yaml_document X out = Some [(root, content)]" "nKind root = MappingNode"
    and f: "\<forall>name \<in> {''deployments'', ''leases'', ''bids''}. yaml_array_field name content"
    unfolding codec_law_def by blast
  have "validateRequiredImportCollections X out FormatYAML = Inr ()"
    using f dec(3,4) by (auto simp: validateRequiredImportCollections_def Let_def)
  with dec len valid FormatYAML show ?thesis by (simp add: decodeImportEnvelope_def validate_env_form)
next
  case (FormatOther i)
  with enc show ?thesis by (simp add: encodeExportEnvelope_def)
qed

lemma export_run:
  assumes "export E C X ctx now db collect [] format name = (None, out)"
  obtains e where "readExportSnapshot E ctx db (zero_envelope\<lparr>eVersion := exportEnvelopeVersion, eExportedAt := now,
      eDeployments := Some [], eLeases := Some [], eBids := Some [], eContext := name\<rparr>) = Inr e"
    "validateImportEnvelope C e = Inr ()" "encodeExportEnvelope X collect [] format e = (None, out)"
    "length out \<le> maxEncodedEnvelopeBytes"
proof -
  from assms obtain e where "readExportSnapshot E ctx db (zero_envelope\<lparr>eVersion := exportEnvelopeVersion, eExportedAt := now,
      eDeployments := Some [], eLeases := Some [], eBids := Some [], eContext := name\<rparr>) = Inr e"
    "validateImportEnvelope C e = Inr ()" "encodeExportEnvelope X collect [] format e = (None, out)"
    by (auto simp: export_def Let_def split: sum.splits prod.splits option.splits)
  then show ?thesis using that export_size_and_purity assms by blast
qed

lemma snapshot_form:
  assumes "snapshot_of view key ver exact rs" and "\<And>r. key (f r) = key r" "\<And>r. ver (f r) = ver r" "\<And>r. exact r \<Longrightarrow> exact (f r)"
  shows "snapshot_of (\<lambda>k. map_option f (view k)) key ver exact (map f rs)"
proof -
  have "find_by key k (map f rs) = map_option f (find_by key k rs)" for k
    using assms(2) by (induction rs) (auto simp: find_by_def)
  then show ?thesis using assms by (auto simp: snapshot_of_def comp_def)
qed

text \<open>
  C3.  Restoring a backup.  The text that an export of a well-formed store writes is always
  accepted by the decoder of the import, and when the import in replace mode into any other
  well-formed store succeeds, that store has exactly the deployments, the leases, the bids
  (revisions included) and the sync state of the first; through YAML, a record that had no
  map of labels or attributes has an empty one.  An import that fails leaves the store as it was.
\<close>

theorem export_replace_roundtrip:
  assumes env: "store_env E dx lx bx sx" and ok: "store_ok E dx lx bx sx db" and ok2: "store_ok E dx lx bx sx db2"
    and law: "codec_law (exact_envelope dx lx bx sx ux) X" and names: "ux now" "ux name"
    and forms: "\<And>d. dx d \<Longrightarrow> dx (dep_form format d)" "\<And>b. bx b \<Longrightarrow> bx (bid_form format b)"
    and exp: "export E C X ctx now db collect [] format name = (None, out)"
    and imp: "importData E C X ctx2 (\<lambda>n. Some (take n out)) format False db2 = (err, db')"
  shows "(\<forall>e. err \<noteq> Some (DecodeFailed e)) \<and> (err \<noteq> None \<longrightarrow> db' = db2) \<and>
    (err = None \<longrightarrow>
      (\<forall>owner dseq. GetDeployment E db' owner dseq = map_sum id (map_option (dep_form format)) (GetDeployment E db owner dseq)) \<and>
      (\<forall>i. GetLease E db' i = GetLease E db i) \<and>
      (\<forall>i. GetBid E db' i = map_sum id (map_option (bid_form format)) (GetBid E db i)) \<and>
      GetSyncState E db' = GetSyncState E db)"
proof -
  from exp obtain e where snap: "readExportSnapshot E ctx db (zero_envelope\<lparr>eVersion := exportEnvelopeVersion, eExportedAt := now,
      eDeployments := Some [], eLeases := Some [], eBids := Some [], eContext := name\<rparr>) = Inr e"
    and valid: "validateImportEnvelope C e = Inr ()" and enc: "encodeExportEnvelope X collect [] format e = (None, out)"
    and len: "length out \<le> maxEncodedEnvelopeBytes" by (rule export_run)
  from store_env.readExportSnapshot_rows [OF env ok snap] obtain ds ls bs where
    ds: "eDeployments e = Some (map Some ds)" "snapshot_of (dep_view E db) dKey dRecordVersion dx ds"
    and ls: "eLeases e = Some (map Some ls)" "snapshot_of (lease_view E db) lKey lRecordVersion lx ls"
    and bs: "eBids e = Some (map Some bs)" "snapshot_of (bid_view E db) bKey bRecordVersion bx bs"
    and sy: "GetSyncState E db = Inr (eSyncState e)" "\<forall>s. eSyncState e = Some s \<longrightarrow> sx s" by (auto simp: zero_envelope_def)
  have head: "eContext e = name" "eExportedAt e = now" using snap by (auto simp: readExportSnapshot_def rbind_Inr_iff)
  have ex: "exact_envelope dx lx bx sx ux e"
    using ds ls bs sy(2) names head by (auto simp: exact_envelope_def env_exact_def rows_exact_def snapshot_of_def)
  have dec: "decodeImportEnvelope C X (\<lambda>n. Some (take n out)) format = Inr (env_form format e)"
    by (rule encoded_decodes [OF law ex initialized_same [OF ex] valid enc len])
  let ?f = "env_form format e"
  have f: "eDeployments ?f = Some (map Some (map (dep_form format) ds))" "eLeases ?f = Some (map Some ls)"
    "eBids ?f = Some (map Some (map (bid_form format) bs))" "eSyncState ?f = eSyncState e"
    using ds ls bs by (simp_all add: env_form_def)
  note sd = snapshot_form [OF ds(2), of "dep_form format"] and sb = snapshot_form [OF bs(2), of "bid_form format"]
  show ?thesis
  proof (cases err)
    case (Some x)
    with imp dec store_env.update_cases [OF env, of "\<lambda>tx. applyImportTx E ctx2 tx ?f False" db2]
    show ?thesis by (fastforce simp: importData_def map_prod_def split: prod.splits)
  next
    case None
    have "db_update E (\<lambda>tx. applyImportTx E ctx2 tx ?f False) db2 = (None, db')"
      using imp dec None by (auto simp: importData_def map_prod_def split: prod.splits)
    then have tx: "applyImportTx E ctx2 db2 ?f False = Inr db'" using store_env.update_cases [OF env] by fastforce
    have "env_exact dx lx bx sx ?f"
      using f ex forms sy(2) ds(2) ls(2) bs(2) by (auto simp: env_exact_def rows_exact_def snapshot_of_def)
    then have ok': "store_ok E dx lx bx sx db'" by (rule store_env.applyImportTx_store_ok [OF env ok2 _ tx])
    from store_env.replace_restores [OF env ok2 f(1) sd f(2) ls(2) f(3) sb _ tx] forms sy f(4) ok ok' None
    show ?thesis
      by (simp add: store_ok_def store_env.GetDeployment_view [OF env] store_env.GetLease_view [OF env]
          store_env.GetBid_view [OF env])
  qed
qed

text \<open>An example: the exported and restored store holds the deployment of \<open>sample_env\<close>.\<close>

definition sample_source :: "(bytes, ref_val) rbt db" where
  "sample_source = snd (PutDeployment ref_ext sample_store (Some (zero_deployment\<lparr>dOwner := replicate 20 CHR ''o'',
     dDSeq := 7, dState := ''active'', dRecordVersion := 4\<rparr>)))"

lemma sample_source_ok: "store_ok ref_ext any any any any sample_source"
  unfolding sample_source_def by (intro ref.Put_store_ok sample_store_ok) simp

text \<open>A codec that encodes the one envelope \<open>e\<close>, and the export and the restore of a store with it.\<close>

definition one_codec :: "ExportEnvelope \<Rightarrow> codec" where
  "one_codec e = (sample_codec e)\<lparr>json_encode := (\<lambda>x. if x = e then ([''{}''], True) else ([], False)),
     yaml_encode := (\<lambda>_. ([], False))\<rparr>"

lemma one_codec_law: "codec_law ex (one_codec e)"
  by (auto simp: codec_law_def one_codec_def sample_codec_def split: if_splits)

abbreviation sample_export :: "codec \<Rightarrow> export_err option \<times> bytes" where
  "sample_export X \<equiv> export ref_ext sample_addr X (\<lambda>_. False) ''now'' sample_source collect [] FormatJSON ''c''"

abbreviation sample_restore :: "codec \<Rightarrow> bytes \<Rightarrow> import_err option \<times> (bytes, ref_val) rbt db" where
  "sample_restore X out \<equiv> importData ref_ext sample_addr X (\<lambda>_. False) (\<lambda>n. Some (take n out)) FormatJSON False sample_store"

theorem export_replace_roundtrip_witness:
  "\<exists>X out db'. sample_export X = (None, out) \<and> sample_restore X out = (None, db') \<and>
     GetDeployment ref_ext db' (replicate 20 CHR ''o'') 7 = GetDeployment ref_ext sample_source (replicate 20 CHR ''o'') 7 \<and>
     map_sum id (\<lambda>d. d \<noteq> None) (GetDeployment ref_ext sample_source (replicate 20 CHR ''o'') 7) = Inr True"
proof -
  let ?e0 = "zero_envelope\<lparr>eVersion := exportEnvelopeVersion, eExportedAt := ''now'', eDeployments := Some [], eLeases := Some [],
    eBids := Some [], eContext := ''c''\<rparr>"
  let ?snap = "readExportSnapshot ref_ext (\<lambda>_. False) sample_source ?e0"
  have ev: "map_sum id (\<lambda>e. validateImportEnvelope sample_addr e) ?snap = Inr (Inr ())"
    "map_sum id (\<lambda>e. fst (db_update ref_ext (\<lambda>tx. applyImportTx ref_ext (\<lambda>_. False) tx e False) sample_store)) ?snap = Inr None"
    "map_sum id (\<lambda>e. map_option length (eDeployments e) = Some 1 \<and> map_option length (eLeases e) = Some 0 \<and> map_option length (eBids e) = Some 0) ?snap = Inr True"
    "map_sum id (\<lambda>d. \<not> Option.is_none d) (GetDeployment ref_ext sample_source (replicate 20 CHR ''o'') 7) = Inr True"
    by code_simp+
  from ev(1) obtain e where e: "?snap = Inr e" "validateImportEnvelope sample_addr e = Inr ()"
    by (cases ?snap) auto
  let ?X = "one_codec e"
  have "eDeployments e \<noteq> None" "eLeases e \<noteq> None" "eBids e \<noteq> None" using ev(3) e(1) by auto
  then have "MarshalJSON ?X e = ([''{}''], True)"
    by (auto simp: MarshalJSON_def initializeCollections_def Let_def one_codec_def)
  then have exp: "sample_export ?X = (None, ''{}'')"
    using e by (simp add: export_def encodeExportEnvelope_def exportSizeWriter_Write_def maxEncodedEnvelopeBytes_def wrap_i64_def)
  have "decodeImportEnvelope sample_addr ?X (\<lambda>n. Some (take n ''{}'')) FormatJSON = decodeImportEnvelope sample_addr (sample_codec e) sample_reader FormatJSON"
    by (simp add: decodeImportEnvelope_def validateRequiredImportCollections_def one_codec_def)
  then have "decodeImportEnvelope sample_addr ?X (\<lambda>n. Some (take n ''{}'')) FormatJSON = Inr e"
    using e(2) sample_decode [of e] by (simp add: validate_envelope_iff)
  then have imp: "fst (sample_restore ?X ''{}'') = None" using ev(2) e(1) by (simp add: importData_def)
  have "GetDeployment ref_ext (snd (sample_restore ?X ''{}'')) (replicate 20 CHR ''o'') 7 =
      map_sum id (map_option (dep_form FormatJSON)) (GetDeployment ref_ext sample_source (replicate 20 CHR ''o'') 7)"
    using export_replace_roundtrip [OF ref.store_env_axioms sample_source_ok sample_store_ok one_codec_law [of _ e] TrueI TrueI TrueI TrueI exp
      fst_pair [OF imp]] by blast
  moreover have "map_sum id (map_option (dep_form FormatJSON)) r = r" for r :: "store_err + DeploymentRecord option"
    by (cases r) (simp_all add: option.map_id0)
  moreover have "map_sum id (\<lambda>d. d \<noteq> None) (GetDeployment ref_ext sample_source (replicate 20 CHR ''o'') 7) = Inr True"
    using ev(4) by (simp add: Option.is_none_def)
  ultimately show ?thesis using exp fst_pair [OF imp] by metis
qed

section \<open>Reachable stores\<close>

text \<open>
  The states of a store that is opened on a new file and then changed by its public
  operations, with records that the JSON encoding represents exactly.
\<close>

inductive reachable_store ::
  "('b, 'v) ext \<Rightarrow> (DeploymentRecord \<Rightarrow> bool) \<Rightarrow> (LeaseRecord \<Rightarrow> bool) \<Rightarrow> (BidRecord \<Rightarrow> bool) \<Rightarrow> (SyncState \<Rightarrow> bool)
    \<Rightarrow> 'b db \<Rightarrow> bool" for E dx lx bx sx where
  reach_open: "Open E Map.empty = (None, db) \<Longrightarrow> reachable_store E dx lx bx sx db"
| reach_reopen: "reachable_store E dx lx bx sx db \<Longrightarrow> reachable_store E dx lx bx sx (snd (Open E db))"
| reach_putd: "reachable_store E dx lx bx sx db \<Longrightarrow> \<forall>r. d = Some r \<longrightarrow> dx r \<Longrightarrow>
    reachable_store E dx lx bx sx (snd (PutDeployment E db d))"
| reach_putl: "reachable_store E dx lx bx sx db \<Longrightarrow> \<forall>r. l = Some r \<longrightarrow> lx r \<Longrightarrow>
    reachable_store E dx lx bx sx (snd (PutLease E db l))"
| reach_putb: "reachable_store E dx lx bx sx db \<Longrightarrow> \<forall>r. b = Some r \<longrightarrow> bx r \<Longrightarrow>
    reachable_store E dx lx bx sx (snd (PutBid E db b))"
| reach_puts: "reachable_store E dx lx bx sx db \<Longrightarrow> \<forall>r. s = Some r \<longrightarrow> sx r \<Longrightarrow>
    reachable_store E dx lx bx sx (snd (PutSyncState E db s))"
| reach_deld: "reachable_store E dx lx bx sx db \<Longrightarrow> reachable_store E dx lx bx sx (snd (DeleteDeployment E db owner dseq))"
| reach_dell: "reachable_store E dx lx bx sx db \<Longrightarrow> reachable_store E dx lx bx sx (snd (DeleteLease E db i))"
| reach_close: "reachable_store E dx lx bx sx db \<Longrightarrow>
    dx (zero_deployment\<lparr>dOwner := owner, dDSeq := dseq, dCreatedAt := t\<rparr>) \<Longrightarrow>
    reachable_store E dx lx bx sx (snd (MarkDeploymentClosed E db owner dseq t))"
| reach_import: "reachable_store E dx lx bx sx db \<Longrightarrow>
    \<forall>e. decodeImportEnvelope C X r format = Inr e \<longrightarrow> env_exact dx lx bx sx e \<Longrightarrow>
    reachable_store E dx lx bx sx (snd (importData E C X ctx r format merge db))"
| reach_dry_run: "reachable_store E dx lx bx sx db \<Longrightarrow>
    reachable_store E dx lx bx sx (snd (validateImportData E C X ctx r format merge db))"

context store_env
begin

lemma importData_store_ok:
  assumes ok: "store_ok E dx lx bx sx db" and x: "\<forall>e. decodeImportEnvelope C X r format = Inr e \<longrightarrow> env_exact dx lx bx sx e"
  shows "store_ok E dx lx bx sx (snd (importData E C X ctx r format merge db))"
proof (cases "decodeImportEnvelope C X r format")
  case (Inr e)
  have "store_ok E dx lx bx sx (snd (db_update E (\<lambda>tx. applyImportTx E ctx tx e merge) db))"
    using x Inr by (intro update_keeps [where P = "store_ok E dx lx bx sx"]) (auto intro: ok applyImportTx_store_ok [OF ok])
  with Inr show ?thesis by (simp add: importData_def)
qed (use ok in \<open>simp add: importData_def\<close>)

lemma validateImportData_keeps: "snd (validateImportData E C X ctx r format merge db) = db"
proof (cases "decodeImportEnvelope C X r format")
  case (Inr e)
  have "snd (db_update E (\<lambda>tx. rbind (applyImportTx E ctx tx e merge) (\<lambda>_. Inl DryRunRollback)) db) = db"
    by (rule update_keeps [where P = "\<lambda>s. s = db"]) (auto simp: rbind_Inr_iff)
  with Inr show ?thesis by (simp add: validateImportData_def split_beta)
qed (simp add: validateImportData_def)

lemma reachable_store_ok: "reachable_store E dx lx bx sx db \<Longrightarrow> store_ok E dx lx bx sx db"
proof (induction rule: reachable_store.induct)
  case (reach_reopen db)
  then show ?case using Open_keeps [OF _ surjective_pairing] by simp
qed (simp_all add: Open_fresh Put_store_ok DeleteDeployment_store_ok DeleteLease_store_ok
    MarkDeploymentClosed_store_ok importData_store_ok validateImportData_keeps)

end

text \<open>
  C32.  Every state a store can reach through its public operations is well-formed: every
  stored row decodes to a record filed under its own key with a non-zero revision, so no
  read, listing or write can meet a corrupt row or a missing bucket.
\<close>

theorem reachable_store_well_formed:
  assumes "store_env E dx lx bx sx" and "reachable_store E dx lx bx sx db"
  shows "store_ok E dx lx bx sx db \<and>
    (\<forall>owner dseq. \<exists>d. GetDeployment E db owner dseq = Inr d \<and>
       (\<forall>r. d = Some r \<longrightarrow> dOwner r = owner \<and> dDSeq r = dseq \<and> dRecordVersion r \<noteq> 0))"
proof -
  have ok: "store_ok E dx lx bx sx db" by (rule store_env.reachable_store_ok [OF assms])
  then have dok: "dep_ok E dx db" by (simp add: store_ok_def)
  have "dOwner r = owner \<and> dDSeq r = dseq \<and> dRecordVersion r \<noteq> 0"
    if "dep_view E db (DeploymentKey owner dseq) = Some r" for owner dseq r
    using dep_view_ok [OF dok that] by simp
  with store_env.GetDeployment_view [OF assms(1) dok] ok show ?thesis by simp
qed

theorem reachable_store_well_formed_witness:
  "reachable_store ref_ext any any any any sample_store2 \<and> store_ok ref_ext any any any any sample_store2"
proof -
  have "reachable_store ref_ext any any any any sample_store2"
    unfolding sample_store2_def by (intro reach_putl reach_open [OF sample_open]) simp
  with reachable_store_well_formed [OF ref.store_env_axioms] show ?thesis by blast
qed

end
