(* ===== verification/Store_Refinement.thy ===== *)
theory Store_Refinement
  imports Store_Spec
begin

text \<open>
  An abstract store, three maps from keys to records, and the proof that the bbolt store
  implements it: sequences of operations on the database are sequences of abstract steps.
\<close>

section \<open>The abstract store\<close>

record astore =
  aDep :: "bytes \<rightharpoonup> DeploymentRecord"
  aLease :: "bytes \<rightharpoonup> LeaseRecord"
  aBid :: "bytes \<rightharpoonup> BidRecord"

datatype store_op =
    PutD DeploymentRecord | PutL LeaseRecord | PutB BidRecord | DelD string u64 | DelL LeaseID | CloseD string u64 int

text \<open>The leases of a deployment are closed, each under some revision, and all other leases kept.\<close>

definition close_leases :: "string \<Rightarrow> u64 \<Rightarrow> int \<Rightarrow> (bytes \<Rightarrow> u64) \<Rightarrow> (bytes \<rightharpoonup> LeaseRecord) \<Rightarrow> bytes \<rightharpoonup> LeaseRecord" where
  "close_leases owner dseq t revs m k =
     map_option (\<lambda>l. if liOwner (lID l) = owner \<and> liDSeq (lID l) = dseq then lease_set_ver (revs k) (close_lease t l) else l) (m k)"

definition closing :: "string \<Rightarrow> u64 \<Rightarrow> int \<Rightarrow> DeploymentRecord option \<Rightarrow> DeploymentRecord" where
  "closing owner dseq t old =
     (case old of None \<Rightarrow> zero_deployment\<lparr>dOwner := owner, dDSeq := dseq, dCreatedAt := t\<rparr> | Some r \<Rightarrow> r)"

inductive astep :: "store_op \<Rightarrow> astore \<Rightarrow> astore \<Rightarrow> bool" where
  putD: "next_version (map_option dRecordVersion (aDep a (dKey d))) (dRecordVersion d) = Some v \<Longrightarrow>
    astep (PutD d) a (a\<lparr>aDep := (aDep a)(dKey d \<mapsto> dep_set_ver v d)\<rparr>)"
| putL: "next_version (map_option lRecordVersion (aLease a (lKey l))) (lRecordVersion l) = Some v \<Longrightarrow>
    astep (PutL l) a (a\<lparr>aLease := (aLease a)(lKey l \<mapsto> lease_set_ver v l)\<rparr>)"
| putB: "next_version (map_option bRecordVersion (aBid a (bKey b))) (bRecordVersion b) = Some v \<Longrightarrow>
    astep (PutB b) a (a\<lparr>aBid := (aBid a)(bKey b \<mapsto> bid_set_ver v b)\<rparr>)"
| delD: "astep (DelD owner dseq) a (a\<lparr>aDep := (aDep a)(DeploymentKey owner dseq := None)\<rparr>)"
| delL: "astep (DelL i) a (a\<lparr>aLease := (aLease a)(LeaseKey i := None)\<rparr>)"
| closeD: "astep (CloseD owner dseq t) a
    (a\<lparr>aDep := (aDep a)(DeploymentKey owner dseq \<mapsto> dep_set_ver v (close_deployment t (closing owner dseq t (aDep a (DeploymentKey owner dseq))))),
       aLease := close_leases owner dseq t revs (aLease a)\<rparr>)"

text \<open>A run: the operations with whether they succeeded; one that failed has no effect.\<close>

fun arun :: "(store_op \<times> bool) list \<Rightarrow> astore \<Rightarrow> astore \<Rightarrow> bool" where
  "arun [] a a' \<longleftrightarrow> a' = a"
| "arun ((op, ok) # xs) a a' \<longleftrightarrow> (\<exists>a1. (if ok then astep op a a1 else a1 = a) \<and> arun xs a1 a')"

section \<open>The concrete store\<close>

definition run_op :: "('b, 'v) ext \<Rightarrow> store_op \<Rightarrow> 'b db \<Rightarrow> store_err option \<times> 'b db" where
  "run_op E op db =
     (case op of
        PutD d \<Rightarrow> PutDeployment E db (Some d)
      | PutL l \<Rightarrow> PutLease E db (Some l)
      | PutB b \<Rightarrow> PutBid E db (Some b)
      | DelD owner dseq \<Rightarrow> DeleteDeployment E db owner dseq
      | DelL i \<Rightarrow> DeleteLease E db i
      | CloseD owner dseq t \<Rightarrow> MarkDeploymentClosed E db owner dseq t)"

fun run_ops :: "('b, 'v) ext \<Rightarrow> store_op list \<Rightarrow> 'b db \<Rightarrow> store_err option list \<times> 'b db" where
  "run_ops E [] db = ([], db)"
| "run_ops E (op # ops) db = (let (e, db) = run_op E op db; (es, db) = run_ops E ops db in (e # es, db))"

definition abs_store :: "('b, 'v) ext \<Rightarrow> 'b db \<Rightarrow> astore" where
  "abs_store E db = \<lparr>aDep = dep_view E db, aLease = lease_view E db, aBid = bid_view E db\<rparr>"

text \<open>The records of an operation are ones that JSON represents exactly.\<close>

definition op_exact ::
  "(DeploymentRecord \<Rightarrow> bool) \<Rightarrow> (LeaseRecord \<Rightarrow> bool) \<Rightarrow> (BidRecord \<Rightarrow> bool) \<Rightarrow> store_op \<Rightarrow> bool" where
  "op_exact dx lx bx op =
     (case op of
        PutD d \<Rightarrow> dx d
      | PutL l \<Rightarrow> lx l
      | PutB b \<Rightarrow> bx b
      | CloseD owner dseq t \<Rightarrow> dx (zero_deployment\<lparr>dOwner := owner, dDSeq := dseq, dCreatedAt := t\<rparr>)
      | _ \<Rightarrow> True)"

section \<open>Refinement\<close>

context store_env
begin

lemma delete_view:
  assumes "tx n = Some b" and "bkt_delete E b k = Some b'"
  shows "table_view E n u (tx(n \<mapsto> b')) = (table_view E n u tx)(k := None)"
  using assms delete_get [OF assms(2)] by (auto simp: table_view_def fun_eq_iff)

lemma close_view:
  assumes ok: "store_ok E dx lx bx sx tx" and run: "markClosedTx E owner dseq t tx = Inr tx'"
    and new: "dx (zero_deployment\<lparr>dOwner := owner, dDSeq := dseq, dCreatedAt := t\<rparr>)"
  shows "astep (CloseD owner dseq t) (abs_store E tx) (abs_store E tx')"
proof -
  note eff = markClosedTx_effect [OF ok run new]
  let ?K = "DeploymentKey owner dseq"
  from eff(2) obtain v where v: "dep_view E tx' ?K = Some (dep_set_ver v (close_deployment t (closing owner dseq t (dep_view E tx ?K))))"
    by (auto simp: closing_def)
  have d: "dep_view E tx' = (dep_view E tx)(?K \<mapsto> dep_set_ver v (close_deployment t (closing owner dseq t (dep_view E tx ?K))))"
    using v eff(3) by (auto simp: fun_eq_iff)
  define revs where "revs k = lRecordVersion (the (lease_view E tx' k))" for k
  have "lease_view E tx' k = close_leases owner dseq t revs (lease_view E tx) k" for k
    using eff(4-6) [of k] by (cases "lease_view E tx k") (auto simp: close_leases_def lease_set_ver_def revs_def)
  then have l: "lease_view E tx' = close_leases owner dseq t revs (lease_view E tx)" by blast
  have eq: "abs_store E tx' = (abs_store E tx)
      \<lparr>aDep := (aDep (abs_store E tx))(?K \<mapsto> dep_set_ver v (close_deployment t (closing owner dseq t (aDep (abs_store E tx) ?K)))),
       aLease := close_leases owner dseq t revs (aLease (abs_store E tx))\<rparr>"
    unfolding abs_store_def d l eff(7) by simp
  show ?thesis unfolding eq by (rule closeD)
qed

lemma run_op_step:
  assumes ok: "store_ok E dx lx bx sx db" and x: "op_exact dx lx bx op" and run: "run_op E op db = (None, db')"
  shows "astep op (abs_store E db) (abs_store E db')"
proof (cases op)
  case (PutD d)
  with x run ok have d: "dx d" "putDeploymentTx E db (Some d) = Inr db'" "dep_ok E dx db"
    using update_cases [of "\<lambda>tx. putDeploymentTx E tx (Some d)" db None db'] by (auto simp: run_op_def op_exact_def PutDeployment_def store_ok_def)
  from dep.put_view [OF d(3,1,2)] obtain v where v: "next_version (map_option dRecordVersion (dep_view E db (dKey d))) (dRecordVersion d) = Some v"
    "dep_view E db' = (dep_view E db)(dKey d \<mapsto> dep_set_ver v d)" by blast
  have "lease_view E db' = lease_view E db" "bid_view E db' = bid_view E db" by (rule view_frame, rule put_frames(1) [OF d(2)], simp)+
  with v(2) have eq: "abs_store E db' = (abs_store E db)\<lparr>aDep := (aDep (abs_store E db))(dKey d \<mapsto> dep_set_ver v d)\<rparr>" by (simp add: abs_store_def)
  show ?thesis unfolding PutD eq by (rule putD) (simp add: abs_store_def v(1))
next
  case (PutL l)
  with x run ok have l: "lx l" "putLeaseTx E db (Some l) = Inr db'" "lease_ok E lx db"
    using update_cases [of "\<lambda>tx. putLeaseTx E tx (Some l)" db None db'] by (auto simp: run_op_def op_exact_def PutLease_def store_ok_def)
  from lease.put_view [OF l(3,1,2)] obtain v where v: "next_version (map_option lRecordVersion (lease_view E db (lKey l))) (lRecordVersion l) = Some v"
    "lease_view E db' = (lease_view E db)(lKey l \<mapsto> lease_set_ver v l)" by blast
  have "dep_view E db' = dep_view E db" "bid_view E db' = bid_view E db" by (rule view_frame, rule put_frames(2) [OF l(2)], simp)+
  with v(2) have eq: "abs_store E db' = (abs_store E db)\<lparr>aLease := (aLease (abs_store E db))(lKey l \<mapsto> lease_set_ver v l)\<rparr>" by (simp add: abs_store_def)
  show ?thesis unfolding PutL eq by (rule putL) (simp add: abs_store_def v(1))
next
  case (PutB b)
  with x run ok have b: "bx b" "putBidTx E db (Some b) = Inr db'" "bid_ok E bx db"
    using update_cases [of "\<lambda>tx. putBidTx E tx (Some b)" db None db'] by (auto simp: run_op_def op_exact_def PutBid_def store_ok_def)
  from bid.put_view [OF b(3,1,2)] obtain v where v: "next_version (map_option bRecordVersion (bid_view E db (bKey b))) (bRecordVersion b) = Some v"
    "bid_view E db' = (bid_view E db)(bKey b \<mapsto> bid_set_ver v b)" by blast
  have "dep_view E db' = dep_view E db" "lease_view E db' = lease_view E db" by (rule view_frame, rule put_frames(3) [OF b(2)], simp)+
  with v(2) have eq: "abs_store E db' = (abs_store E db)\<lparr>aBid := (aBid (abs_store E db))(bKey b \<mapsto> bid_set_ver v b)\<rparr>" by (simp add: abs_store_def)
  show ?thesis unfolding PutB eq by (rule putB) (simp add: abs_store_def v(1))
next
  case (DelD owner dseq)
  with run obtain b b' where b: "db Deployments = Some b" "bkt_delete E b (DeploymentKey owner dseq) = Some b'" "db' = db(Deployments \<mapsto> b')"
    using update_cases [of _ db None db'] by (fastforce simp: run_op_def DeleteDeployment_def tx_bucket_def rbind_Inr_iff)
  have "dep_view E db' = (dep_view E db)(DeploymentKey owner dseq := None)"
    unfolding dep_view_def b(3) using b(1,2) by (rule delete_view)
  then have eq: "abs_store E db' = (abs_store E db)\<lparr>aDep := (aDep (abs_store E db))(DeploymentKey owner dseq := None)\<rparr>"
    by (simp add: abs_store_def b(3))
  show ?thesis unfolding DelD eq by (rule delD)
next
  case (DelL i)
  with run obtain b b' where b: "db Leases = Some b" "bkt_delete E b (LeaseKey i) = Some b'" "db' = db(Leases \<mapsto> b')"
    using update_cases [of _ db None db'] by (fastforce simp: run_op_def DeleteLease_def tx_bucket_def rbind_Inr_iff)
  have "lease_view E db' = (lease_view E db)(LeaseKey i := None)"
    unfolding lease_view_def b(3) using b(1,2) by (rule delete_view)
  then have eq: "abs_store E db' = (abs_store E db)\<lparr>aLease := (aLease (abs_store E db))(LeaseKey i := None)\<rparr>"
    by (simp add: abs_store_def b(3))
  show ?thesis unfolding DelL eq by (rule delL)
next
  case (CloseD owner dseq t)
  with x run close_view [OF ok] update_cases [of "markClosedTx E owner dseq t" db None db'] show ?thesis
    by (auto simp: run_op_def op_exact_def MarkDeploymentClosed_def split: if_splits)
qed

lemma run_op_ok:
  assumes "store_ok E dx lx bx sx db" and "op_exact dx lx bx op"
  shows "store_ok E dx lx bx sx (snd (run_op E op db))"
  using assms Put_store_ok [OF assms(1)] DeleteDeployment_store_ok [OF assms(1)] DeleteLease_store_ok [OF assms(1)]
    MarkDeploymentClosed_store_ok [OF assms(1)]
  by (cases op) (simp_all add: run_op_def op_exact_def)

lemma run_op_error: "run_op E op db = (Some e, db') \<Longrightarrow> db' = db"
  by (cases op) (auto simp: run_op_def PutDeployment_def PutLease_def PutBid_def DeleteDeployment_def DeleteLease_def MarkDeploymentClosed_def
      dest: update_cases split: if_splits)

lemma run_ops_refine:
  "run_ops E ops db = (es, db') \<Longrightarrow> store_ok E dx lx bx sx db \<Longrightarrow> (\<And>op. op \<in> set ops \<Longrightarrow> op_exact dx lx bx op) \<Longrightarrow>
    store_ok E dx lx bx sx db' \<and> length es = length ops \<and> arun (zip ops (map (\<lambda>e. e = None) es)) (abs_store E db) (abs_store E db')"
proof (induction ops arbitrary: db es)
  case (Cons op ops)
  obtain e db1 where r: "run_op E op db = (e, db1)" by force
  with Cons.prems(1) obtain es1 where rest: "run_ops E ops db1 = (es1, db')" "es = e # es1" by (auto simp: Let_def split: prod.splits)
  have x: "op_exact dx lx bx op" using Cons.prems(3) by simp
  have ok1: "store_ok E dx lx bx sx db1" using run_op_ok [OF Cons.prems(2) x] r by simp
  have "if e = None then astep op (abs_store E db) (abs_store E db1) else abs_store E db1 = abs_store E db"
    using run_op_step [OF Cons.prems(2) x] run_op_error r by (cases e) auto
  with Cons.IH [OF rest(1) ok1] Cons.prems(3) rest(2) show ?case by auto
qed simp

end

text \<open>
  C4.  The bbolt store refines the abstract store of three maps: whatever sequence of puts,
  deletes and closings is run on a well-formed database, each operation that succeeds is a
  step of the abstract store, each one that fails has no effect, and what is read afterwards
  is what the abstract store holds.
\<close>

theorem bolt_store_refines:
  assumes env: "store_env E dx lx bx sx" and ok: "store_ok E dx lx bx sx db"
    and x: "\<And>op. op \<in> set ops \<Longrightarrow> op_exact dx lx bx op" and run: "run_ops E ops db = (es, db')"
  shows "\<exists>a'. arun (zip ops (map (\<lambda>e. e = None) es)) (abs_store E db) a' \<and> length es = length ops \<and>
    (\<forall>owner dseq. GetDeployment E db' owner dseq = Inr (aDep a' (DeploymentKey owner dseq))) \<and>
    (\<forall>i. GetLease E db' i = Inr (aLease a' (LeaseKey i))) \<and> (\<forall>i. GetBid E db' i = Inr (aBid a' (BidKey i)))"
proof -
  from store_env.run_ops_refine [OF env run ok x] have r: "store_ok E dx lx bx sx db'" "length es = length ops"
    "arun (zip ops (map (\<lambda>e. e = None) es)) (abs_store E db) (abs_store E db')" by auto
  then have "dep_ok E dx db'" "lease_ok E lx db'" "bid_ok E bx db'" by (simp_all add: store_ok_def)
  with r show ?thesis
    using store_env.GetDeployment_view [OF env] store_env.GetLease_view [OF env] store_env.GetBid_view [OF env]
    by (intro exI [of _ "abs_store E db'"]) (simp add: abs_store_def)
qed

theorem bolt_store_refines_witness:
  "\<exists>es db' a'. run_ops ref_ext [PutL sample_lease, CloseD ''o'' 7 5, DelD ''o'' 7] sample_store = (es, db') \<and>
     arun (zip [PutL sample_lease, CloseD ''o'' 7 5, DelD ''o'' 7] (map (\<lambda>e. e = None) es)) (abs_store ref_ext sample_store) a' \<and>
     GetDeployment ref_ext db' ''o'' 7 = Inr (aDep a' (DeploymentKey ''o'' 7))"
proof -
  obtain es db' where run: "run_ops ref_ext [PutL sample_lease, CloseD ''o'' 7 5, DelD ''o'' 7] sample_store = (es, db')" by force
  have "op_exact any any any op" if "op \<in> set [PutL sample_lease, CloseD ''o'' 7 5, DelD ''o'' 7]" for op
    using that by (auto simp: op_exact_def)
  from bolt_store_refines [OF ref.store_env_axioms sample_store_ok this run] run show ?thesis by blast
qed

end
