(* ===== verification/Sync_Engine.thy ===== *)
theory Sync_Engine
  imports Store_Transfer
begin

text \<open>
  The sync engine (\<open>src/internal/sync/engine.go\<close>, \<open>reconcile.go\<close>): the handlers of chain
  events and the reconciliation of the local store with the chain.

  The engine works against the interface \<open>store.Store\<close>: a record of operations on an
  abstract store state, which \<open>bolt_ops\<close> fills with the operations of the bbolt store.  The
  clock is a parameter (\<open>clk i\<close> is the Unix time of the \<open>i\<close>-th reading), as are the chain's
  answers.  An operation returns its error, if any, and the state of the store after it:
  what was written before an error stays written.
\<close>

section \<open>The store interface and sequencing\<close>

record ('s, 'e) Store =
  opGetDeployment :: "'s \<Rightarrow> string \<Rightarrow> u64 \<Rightarrow> 'e + DeploymentRecord option"
  opPutDeployment :: "'s \<Rightarrow> DeploymentRecord \<Rightarrow> 'e option \<times> 's"
  opGetLease :: "'s \<Rightarrow> LeaseID \<Rightarrow> 'e + LeaseRecord option"
  opPutLease :: "'s \<Rightarrow> LeaseRecord \<Rightarrow> 'e option \<times> 's"
  opGetBid :: "'s \<Rightarrow> BidID \<Rightarrow> 'e + BidRecord option"
  opPutBid :: "'s \<Rightarrow> BidRecord \<Rightarrow> 'e option \<times> 's"
  opGetSyncState :: "'s \<Rightarrow> 'e + SyncState option"
  opPutSyncState :: "'s \<Rightarrow> SyncState \<Rightarrow> 'e option \<times> 's"
  opSchemaVersion :: "'s \<Rightarrow> u64"

definition bolt_ops :: "('b, 'v) ext \<Rightarrow> ('b db, store_err) Store" where
  "bolt_ops E = \<lparr>opGetDeployment = GetDeployment E, opPutDeployment = (\<lambda>db d. PutDeployment E db (Some d)),
     opGetLease = GetLease E, opPutLease = (\<lambda>db l. PutLease E db (Some l)),
     opGetBid = GetBid E, opPutBid = (\<lambda>db b. PutBid E db (Some b)),
     opGetSyncState = GetSyncState E, opPutSyncState = (\<lambda>db s. PutSyncState E db (Some s)),
     opSchemaVersion = SchemaVersion E\<rparr>"

text \<open>\<open>guard s r f\<close>: return the error of a read with the state unchanged; \<open>seq\<close>, \<open>loop\<close>: stop at the first error.\<close>

definition guard :: "'s \<Rightarrow> 'e + 'a \<Rightarrow> ('a \<Rightarrow> 'e option \<times> 's) \<Rightarrow> 'e option \<times> 's" where
  "guard s r f = (case r of Inl e \<Rightarrow> (Some e, s) | Inr x \<Rightarrow> f x)"

definition seq :: "'e option \<times> 's \<Rightarrow> ('s \<Rightarrow> 'e option \<times> 's) \<Rightarrow> 'e option \<times> 's" where
  "seq r f = (case r of (Some e, s) \<Rightarrow> (Some e, s) | (None, s) \<Rightarrow> f s)"

primrec loop :: "('s \<Rightarrow> 'a \<Rightarrow> 'e option \<times> 's) \<Rightarrow> 's \<Rightarrow> 'a list \<Rightarrow> 'e option \<times> 's" where
  "loop f s [] = (None, s)"
| "loop f s (x # xs) = seq (f s x) (\<lambda>s. loop f s xs)"

section \<open>Chain events\<close>

text \<open>The fields the handlers read; a price is given by its string.\<close>

datatype chain_event =
    EventDeploymentCreated string u64 bytes
  | EventDeploymentUpdated string u64 bytes
  | EventDeploymentClosed string u64
  | EventBidCreated BidID string
  | EventBidClosed BidID
  | EventLeaseCreated LeaseID string
  | EventLeaseClosed LeaseID
  | OtherEvent

text \<open>The set of tracked accounts, as the list of its keys.\<close>

record Engine =
  tracked :: "string list"

definition New :: "string list \<Rightarrow> Engine" where
  "New trackedAccounts = \<lparr>tracked = remdups trackedAccounts\<rparr>"

definition isTracked :: "Engine \<Rightarrow> string \<Rightarrow> bool" where
  "isTracked e owner \<longleftrightarrow> owner \<in> set (tracked e)"

definition handleDeploymentCreated ::
  "('s, 'e) Store \<Rightarrow> Engine \<Rightarrow> (nat \<Rightarrow> int) \<Rightarrow> 's \<Rightarrow> string \<Rightarrow> u64 \<Rightarrow> bytes \<Rightarrow> 'e option \<times> 's" where
  "handleDeploymentCreated S e clk s owner dseq hash =
     (if \<not> isTracked e owner then (None, s)
      else (let now = clk 0 in
        opPutDeployment S s (zero_deployment\<lparr>dOwner := owner, dDSeq := dseq, dState := ''active'',
          dVersion := hash, dCreatedAt := now, dUpdatedAt := now\<rparr>)))"

definition handleDeploymentUpdated ::
  "('s, 'e) Store \<Rightarrow> Engine \<Rightarrow> (nat \<Rightarrow> int) \<Rightarrow> 's \<Rightarrow> string \<Rightarrow> u64 \<Rightarrow> bytes \<Rightarrow> 'e option \<times> 's" where
  "handleDeploymentUpdated S e clk s owner dseq hash =
     (if \<not> isTracked e owner then (None, s)
      else guard s (opGetDeployment S s owner dseq) (\<lambda>rec.
        let (rec, i) = (case rec of
              None \<Rightarrow> (zero_deployment\<lparr>dOwner := owner, dDSeq := dseq, dState := ''active'', dCreatedAt := clk 0\<rparr>, 1)
            | Some r \<Rightarrow> (r, 0))
        in opPutDeployment S s (rec\<lparr>dVersion := hash, dUpdatedAt := clk i\<rparr>)))"

definition handleDeploymentClosed ::
  "('s, 'e) Store \<Rightarrow> Engine \<Rightarrow> (nat \<Rightarrow> int) \<Rightarrow> 's \<Rightarrow> string \<Rightarrow> u64 \<Rightarrow> 'e option \<times> 's" where
  "handleDeploymentClosed S e clk s owner dseq =
     (if \<not> isTracked e owner then (None, s)
      else guard s (opGetDeployment S s owner dseq) (\<lambda>rec.
        let rec = (case rec of None \<Rightarrow> zero_deployment\<lparr>dOwner := owner, dDSeq := dseq\<rparr> | Some r \<Rightarrow> r);
            now = clk 0
        in opPutDeployment S s (rec\<lparr>dState := ''closed'', dClosedAt := now, dUpdatedAt := now\<rparr>)))"

definition handleBidCreated ::
  "('s, 'e) Store \<Rightarrow> Engine \<Rightarrow> (nat \<Rightarrow> int) \<Rightarrow> 's \<Rightarrow> BidID \<Rightarrow> string \<Rightarrow> 'e option \<times> 's" where
  "handleBidCreated S e clk s i price =
     (if \<not> isTracked e (biOwner i) then (None, s)
      else opPutBid S s (zero_bid\<lparr>bID := i, bState := ''open'', bPrice := price, bCreatedAt := clk 0\<rparr>))"

definition handleBidClosed ::
  "('s, 'e) Store \<Rightarrow> Engine \<Rightarrow> 's \<Rightarrow> BidID \<Rightarrow> 'e option \<times> 's" where
  "handleBidClosed S e s i =
     (if \<not> isTracked e (biOwner i) then (None, s)
      else guard s (opGetBid S s i) (\<lambda>rec.
        let rec = (case rec of None \<Rightarrow> zero_bid\<lparr>bID := i\<rparr> | Some r \<Rightarrow> r)
        in opPutBid S s (rec\<lparr>bState := ''closed''\<rparr>)))"

definition handleLeaseCreated ::
  "('s, 'e) Store \<Rightarrow> Engine \<Rightarrow> (nat \<Rightarrow> int) \<Rightarrow> 's \<Rightarrow> LeaseID \<Rightarrow> string \<Rightarrow> 'e option \<times> 's" where
  "handleLeaseCreated S e clk s i price =
     (if \<not> isTracked e (liOwner i) then (None, s)
      else seq (opPutLease S s (zero_lease\<lparr>lID := i, lState := ''active'', lPrice := price, lCreatedAt := clk 0\<rparr>)) (\<lambda>s.
        let bidID = \<lparr>biOwner = liOwner i, biDSeq = liDSeq i, biGSeq = liGSeq i, biOSeq = liOSeq i, biProvider = liProvider i\<rparr>
        in guard s (opGetBid S s bidID) (\<lambda>bid.
             case bid of None \<Rightarrow> (None, s) | Some b \<Rightarrow> opPutBid S s (b\<lparr>bState := ''matched''\<rparr>))))"

definition handleLeaseClosed ::
  "('s, 'e) Store \<Rightarrow> Engine \<Rightarrow> (nat \<Rightarrow> int) \<Rightarrow> 's \<Rightarrow> LeaseID \<Rightarrow> 'e option \<times> 's" where
  "handleLeaseClosed S e clk s i =
     (if \<not> isTracked e (liOwner i) then (None, s)
      else guard s (opGetLease S s i) (\<lambda>rec.
        let rec = (case rec of None \<Rightarrow> zero_lease\<lparr>lID := i\<rparr> | Some r \<Rightarrow> r)
        in opPutLease S s (rec\<lparr>lState := ''closed'', lClosedAt := clk 0\<rparr>)))"

definition HandleEvent ::
  "('s, 'e) Store \<Rightarrow> Engine \<Rightarrow> (nat \<Rightarrow> int) \<Rightarrow> 's \<Rightarrow> chain_event \<Rightarrow> 'e option \<times> 's" where
  "HandleEvent S e clk s ev =
     (case ev of
        EventDeploymentCreated owner dseq hash \<Rightarrow> handleDeploymentCreated S e clk s owner dseq hash
      | EventDeploymentUpdated owner dseq hash \<Rightarrow> handleDeploymentUpdated S e clk s owner dseq hash
      | EventDeploymentClosed owner dseq \<Rightarrow> handleDeploymentClosed S e clk s owner dseq
      | EventBidCreated i price \<Rightarrow> handleBidCreated S e clk s i price
      | EventBidClosed i \<Rightarrow> handleBidClosed S e s i
      | EventLeaseCreated i price \<Rightarrow> handleLeaseCreated S e clk s i price
      | EventLeaseClosed i \<Rightarrow> handleLeaseClosed S e clk s i
      | OtherEvent \<Rightarrow> (None, s))"

section \<open>Reconciliation\<close>

record 'e Querier =
  qCurrentHeight :: "'e + int"
  qDeployments :: "string \<Rightarrow> 'e + DeploymentRecord list"
  qLeases :: "string \<Rightarrow> u64 \<Rightarrow> 'e + LeaseRecord list"
  qBids :: "string \<Rightarrow> u64 \<Rightarrow> 'e + BidRecord list"

definition gapThreshold :: int where
  "gapThreshold = 1000"

record ReconcileStats =
  rsAccounts :: int
  rsDeployments :: int
  rsLeases :: int
  rsBids :: int
  rsHeight :: int

definition zero_rstats :: ReconcileStats where
  "zero_rstats = \<lparr>rsAccounts = 0, rsDeployments = 0, rsLeases = 0, rsBids = 0, rsHeight = 0\<rparr>"

definition mergeDeployment :: "DeploymentRecord option \<Rightarrow> DeploymentRecord \<Rightarrow> int \<Rightarrow> DeploymentRecord" where
  "mergeDeployment existing fresh now =
     (let m = fresh;
          m = (if dUpdatedAt m = 0 then m\<lparr>dUpdatedAt := now\<rparr> else m);
          m = (case existing of
                 None \<Rightarrow> m
               | Some x \<Rightarrow> m\<lparr>dSDLHash := dSDLHash x, dSDLPath := dSDLPath x, dDeposit := dDeposit x, dLabels := dLabels x,
                     dNotes := dNotes x, dTags := dTags x, dCreatedAt := dCreatedAt x, dClosedAt := dClosedAt x\<rparr>);
          m = (if dCreatedAt m = 0 then m\<lparr>dCreatedAt := now\<rparr> else m)
      in if dState m = ''closed'' \<and> dClosedAt m = 0 then m\<lparr>dClosedAt := now\<rparr> else m)"

definition mergeLease :: "LeaseRecord option \<Rightarrow> LeaseRecord \<Rightarrow> int \<Rightarrow> LeaseRecord" where
  "mergeLease existing fresh now =
     (let m = fresh;
          m = (case existing of
                 None \<Rightarrow> m
               | Some x \<Rightarrow> m\<lparr>lProviderURI := lProviderURI x, lEndpoints := lEndpoints x, lCreatedAt := lCreatedAt x,
                     lClosedAt := lClosedAt x\<rparr>);
          m = (if lCreatedAt m = 0 then m\<lparr>lCreatedAt := now\<rparr> else m)
      in if lState m = ''closed'' \<and> lClosedAt m = 0 then m\<lparr>lClosedAt := now\<rparr> else m)"

definition mergeBid :: "BidRecord option \<Rightarrow> BidRecord \<Rightarrow> int \<Rightarrow> BidRecord" where
  "mergeBid existing fresh now =
     (let m = fresh;
          m = (case existing of
                 None \<Rightarrow> m
               | Some x \<Rightarrow>
                   (let m = (case bProviderAttributes fresh of
                               None \<Rightarrow> m\<lparr>bProviderAttributes := bProviderAttributes x, bProviderAudited := bProviderAudited x\<rparr>
                             | Some _ \<Rightarrow> m)
                    in m\<lparr>bCreatedAt := bCreatedAt x\<rparr>))
      in if bCreatedAt m = 0 then m\<lparr>bCreatedAt := now\<rparr> else m)"

definition putSyncState :: "('s, 'e) Store \<Rightarrow> Engine \<Rightarrow> int \<Rightarrow> 's \<Rightarrow> int \<Rightarrow> 'e option \<times> 's" where
  "putSyncState S e now s height =
     opPutSyncState S s \<lparr>sLastBlockHeight = height, sLastSyncTime = now, sTrackedAccounts = sort (tracked e),
       sSchemaVersion = opSchemaVersion S s\<rparr>"

text \<open>The bodies of the three nested loops; the loop state is the statistics and the store.\<close>

definition reconcile_lease ::
  "('s, 'e) Store \<Rightarrow> int \<Rightarrow> ReconcileStats \<times> 's \<Rightarrow> LeaseRecord \<Rightarrow> 'e option \<times> (ReconcileStats \<times> 's)" where
  "reconcile_lease S now = (\<lambda>(stats, s) l.
     guard (stats, s) (opGetLease S s (lID l)) (\<lambda>existing.
       case opPutLease S s (mergeLease existing l now) of
         (Some e, s) \<Rightarrow> (Some e, (stats, s))
       | (None, s) \<Rightarrow> (None, (stats\<lparr>rsLeases := rsLeases stats + 1\<rparr>, s))))"

definition reconcile_bid ::
  "('s, 'e) Store \<Rightarrow> int \<Rightarrow> ReconcileStats \<times> 's \<Rightarrow> BidRecord \<Rightarrow> 'e option \<times> (ReconcileStats \<times> 's)" where
  "reconcile_bid S now = (\<lambda>(stats, s) b.
     guard (stats, s) (opGetBid S s (bID b)) (\<lambda>existing.
       case opPutBid S s (mergeBid existing b now) of
         (Some e, s) \<Rightarrow> (Some e, (stats, s))
       | (None, s) \<Rightarrow> (None, (stats\<lparr>rsBids := rsBids stats + 1\<rparr>, s))))"

definition put_merged ::
  "('s, 'e) Store \<Rightarrow> int \<Rightarrow> ReconcileStats \<times> 's \<Rightarrow> DeploymentRecord \<Rightarrow> 'e option \<times> (ReconcileStats \<times> 's)" where
  "put_merged S now = (\<lambda>(stats, s) d.
     guard (stats, s) (opGetDeployment S s (dOwner d) (dDSeq d)) (\<lambda>existing.
       case opPutDeployment S s (mergeDeployment existing d now) of
         (Some e, s) \<Rightarrow> (Some e, (stats, s))
       | (None, s) \<Rightarrow> (None, (stats\<lparr>rsDeployments := rsDeployments stats + 1\<rparr>, s))))"

definition reconcile_deployment ::
  "('s, 'e) Store \<Rightarrow> 'e Querier \<Rightarrow> int \<Rightarrow> string \<Rightarrow> ReconcileStats \<times> 's \<Rightarrow> DeploymentRecord
    \<Rightarrow> 'e option \<times> (ReconcileStats \<times> 's)" where
  "reconcile_deployment S q now owner st d =
     seq (put_merged S now st d) (\<lambda>st.
     seq (guard st (qLeases q owner (dDSeq d)) (loop (reconcile_lease S now) st)) (\<lambda>st.
       guard st (qBids q owner (dDSeq d)) (loop (reconcile_bid S now) st)))"

definition fullReconcile ::
  "('s, 'e) Store \<Rightarrow> Engine \<Rightarrow> 'e Querier \<Rightarrow> int \<Rightarrow> 's \<Rightarrow> 'e option \<times> (ReconcileStats \<times> 's)" where
  "fullReconcile S e q now s =
     (let stats = zero_rstats\<lparr>rsAccounts := int (length (tracked e))\<rparr>; owners = sort (tracked e)
      in loop (\<lambda>st owner. guard st (qDeployments q owner) (loop (reconcile_deployment S q now owner) st))
           (stats, s) owners)"

definition Reconcile ::
  "('s, 'e) Store \<Rightarrow> Engine \<Rightarrow> 'e Querier \<Rightarrow> (nat \<Rightarrow> int) \<Rightarrow> 's \<Rightarrow> 'e option \<times> 's" where
  "Reconcile S e q clk s =
     guard s (opGetSyncState S s) (\<lambda>ss.
     guard s (qCurrentHeight q) (\<lambda>currentHeight.
       if (case ss of None \<Rightarrow> True
           | Some st \<Rightarrow> gapThreshold < wrap_i64 (currentHeight - sLastBlockHeight st))
       then (case fullReconcile S e q (clk 0) s of
               (Some err, (_, s)) \<Rightarrow> (Some err, s)
             | (None, (_, s)) \<Rightarrow> putSyncState S e (clk 1) s currentHeight)
       else putSyncState S e (clk 0) s currentHeight))"

definition ReconcileNow ::
  "('s, 'e) Store \<Rightarrow> Engine \<Rightarrow> 'e Querier \<Rightarrow> (nat \<Rightarrow> int) \<Rightarrow> 's \<Rightarrow> ReconcileStats \<times> 'e option \<times> 's" where
  "ReconcileNow S e q clk s =
     (case qCurrentHeight q of
        Inl err \<Rightarrow> (zero_rstats, Some err, s)
      | Inr currentHeight \<Rightarrow>
          (case fullReconcile S e q (clk 0) s of
             (Some err, (stats, s)) \<Rightarrow> (stats, Some err, s)
           | (None, (stats, s)) \<Rightarrow>
               (case putSyncState S e (clk 1) s currentHeight of
                  (err, s) \<Rightarrow> (stats\<lparr>rsHeight := currentHeight\<rparr>, err, s))))"

section \<open>Backoff\<close>

definition second :: int where
  "second = 1000000000"

text \<open>
  \<open>uint (attempt)\<close> of a 64-bit int, and the shift of an int64, which is 0 from 64 places on.
  \<open>rnd n\<close> is what \<open>rand.Int63n(n)\<close> returns; it panics unless \<open>n > 0\<close>, which is \<open>None\<close> here.
\<close>

definition shl_i64 :: "int \<Rightarrow> nat \<Rightarrow> int" where
  "shl_i64 x k = (if 64 \<le> k then 0 else wrap_i64 (x * 2 ^ k))"

definition BackoffDelay :: "(int \<Rightarrow> int) \<Rightarrow> int \<Rightarrow> int option" where
  "BackoffDelay rnd attempt =
     (let base = shl_i64 second (nat (attempt mod 2 ^ 64));
          base = (if 60 * second < base then 60 * second else base);
          half = (if 0 \<le> base then base div 2 else - ((- base) div 2))
      in if half \<le> 0 then None else Some (wrap_i64 (base + rnd half)))"

end
