(* ===== verification/Sync_Laws.thy ===== *)
theory Sync_Laws
  imports Sync_Engine
begin

text \<open>
  What the sync engine needs of its store, as the locale \<open>sync_store\<close> over the record of
  operations, and the engine's lemmas proved from it; the bbolt store is shown to satisfy it
  (locale \<open>json_store\<close>: the store's environment with the records whose strings JSON
  represents exactly).
\<close>

section \<open>Records with exactly representable strings\<close>

text \<open>\<open>ux\<close>: the strings that survive the JSON encoding (valid UTF-8).\<close>

definition ascii :: "string \<Rightarrow> bool" where
  "ascii s \<longleftrightarrow> list_all (\<lambda>c. (of_char c :: nat) < 128) s"

definition map_exact :: "(string \<Rightarrow> bool) \<Rightarrow> (string \<rightharpoonup> string) option \<Rightarrow> bool" where
  "map_exact ux m \<longleftrightarrow> (\<forall>f k v. m = Some f \<longrightarrow> f k = Some v \<longrightarrow> ux k \<and> ux v)"

definition dep_exact :: "(string \<Rightarrow> bool) \<Rightarrow> DeploymentRecord \<Rightarrow> bool" where
  "dep_exact ux d \<longleftrightarrow> ux (dOwner d) \<and> ux (dState d) \<and> ux (dSDLHash d) \<and> ux (dSDLPath d) \<and> ux (dDeposit d) \<and>
     ux (dEscrowBalance d) \<and> ux (dTransferred d) \<and> map_exact ux (dLabels d) \<and> ux (dNotes d) \<and> (\<forall>t \<in> set (dTags d). ux t)"

definition lease_exact :: "(string \<Rightarrow> bool) \<Rightarrow> LeaseRecord \<Rightarrow> bool" where
  "lease_exact ux l \<longleftrightarrow> ux (liOwner (lID l)) \<and> ux (liProvider (lID l)) \<and> ux (lState l) \<and> ux (lPrice l) \<and>
     ux (lProviderURI l) \<and> (\<forall>p \<in> set (lEndpoints l). ux (epService p) \<and> ux (epURI p))"

definition bid_exact :: "(string \<Rightarrow> bool) \<Rightarrow> BidRecord \<Rightarrow> bool" where
  "bid_exact ux b \<longleftrightarrow> ux (biOwner (bID b)) \<and> ux (biProvider (bID b)) \<and> ux (bState b) \<and> ux (bPrice b) \<and>
     map_exact ux (bProviderAttributes b)"

definition sync_exact :: "(string \<Rightarrow> bool) \<Rightarrow> SyncState \<Rightarrow> bool" where
  "sync_exact ux s \<longleftrightarrow> (\<forall>a \<in> set (sTrackedAccounts s). ux a)"

lemmas exact_defs = dep_exact_def lease_exact_def bid_exact_def

lemma merge_exact:
  "dep_exact ux d \<Longrightarrow> (\<forall>x. ed = Some x \<longrightarrow> dep_exact ux x) \<Longrightarrow> dep_exact ux (mergeDeployment ed d now)"
  "lease_exact ux l \<Longrightarrow> (\<forall>x. el = Some x \<longrightarrow> lease_exact ux x) \<Longrightarrow> lease_exact ux (mergeLease el l now)"
  "bid_exact ux b \<Longrightarrow> (\<forall>x. eb = Some x \<longrightarrow> bid_exact ux x) \<Longrightarrow> bid_exact ux (mergeBid eb b now)"
  by (auto simp: exact_defs mergeDeployment_def mergeLease_def mergeBid_def Let_def split: option.split)

text \<open>What a merge takes from the chain and what it keeps.\<close>

definition same_local :: "DeploymentRecord \<Rightarrow> DeploymentRecord \<Rightarrow> bool" where
  "same_local x y \<longleftrightarrow> dSDLHash y = dSDLHash x \<and> dSDLPath y = dSDLPath x \<and> dDeposit y = dDeposit x \<and> dLabels y = dLabels x \<and>
     dNotes y = dNotes x \<and> dTags y = dTags x \<and> (dCreatedAt x \<noteq> 0 \<longrightarrow> dCreatedAt y = dCreatedAt x) \<and>
     (dClosedAt x \<noteq> 0 \<longrightarrow> dClosedAt y = dClosedAt x) \<and> dRecordVersion x \<le> dRecordVersion y"

definition same_chain :: "DeploymentRecord \<Rightarrow> DeploymentRecord \<Rightarrow> bool" where
  "same_chain d r \<longleftrightarrow> dOwner r = dOwner d \<and> dDSeq r = dDSeq d \<and> dState r = dState d \<and> dVersion r = dVersion d \<and>
     dEscrowBalance r = dEscrowBalance d \<and> dTransferred r = dTransferred d \<and> dCreatedHeight r = dCreatedHeight d"

definition same_local_lease :: "LeaseRecord \<Rightarrow> LeaseRecord \<Rightarrow> bool" where
  "same_local_lease x y \<longleftrightarrow> lProviderURI y = lProviderURI x \<and> lEndpoints y = lEndpoints x \<and>
     (lCreatedAt x \<noteq> 0 \<longrightarrow> lCreatedAt y = lCreatedAt x) \<and> (lClosedAt x \<noteq> 0 \<longrightarrow> lClosedAt y = lClosedAt x) \<and>
     lRecordVersion x \<le> lRecordVersion y"

text \<open>
  A bid keeps its creation time and never loses its provider attributes; without a report
  that carries attributes (\<open>R\<close> are the reported bids) it keeps these and the audit mark.
\<close>

definition same_local_bid :: "BidRecord set \<Rightarrow> BidRecord \<Rightarrow> BidRecord \<Rightarrow> bool" where
  "same_local_bid R x y \<longleftrightarrow> bKey y = bKey x \<and> (bCreatedAt x \<noteq> 0 \<longrightarrow> bCreatedAt y = bCreatedAt x) \<and> bRecordVersion x \<le> bRecordVersion y \<and>
     (bProviderAttributes x \<noteq> None \<longrightarrow> bProviderAttributes y \<noteq> None) \<and>
     ((\<forall>b \<in> R. bKey b = bKey x \<longrightarrow> bProviderAttributes b = None) \<longrightarrow>
        bProviderAttributes y = bProviderAttributes x \<and> bProviderAudited y = bProviderAudited x)"

definition reported_bids :: "'e Querier \<Rightarrow> BidRecord set" where
  "reported_bids q = {b. \<exists>owner n bs. qBids q owner n = Inr bs \<and> b \<in> set bs}"

lemma merge_local:
  "dRecordVersion x \<le> v \<Longrightarrow> same_local x ((mergeDeployment (Some x) d now)\<lparr>dRecordVersion := v\<rparr>)"
  "lRecordVersion y \<le> v \<Longrightarrow> same_local_lease y ((mergeLease (Some y) l now)\<lparr>lRecordVersion := v\<rparr>)"
  "same_chain d ((mergeDeployment ex d now)\<lparr>dRecordVersion := v\<rparr>)"
  by (auto simp: same_local_def same_local_lease_def same_chain_def mergeDeployment_def mergeLease_def Let_def
      split: option.split)

lemma merge_ids [simp]:
  "dOwner (mergeDeployment ex d now) = dOwner d" "dDSeq (mergeDeployment ex d now) = dDSeq d"
  "lID (mergeLease el l now) = lID l" "bID (mergeBid eb b now) = bID b"
  by (auto simp: mergeDeployment_def mergeLease_def mergeBid_def Let_def split: option.split)

lemma same_local_trans: "same_local x y \<Longrightarrow> same_local y z \<Longrightarrow> same_local x z"
  by (auto simp: same_local_def)

lemma same_local_lease_trans: "same_local_lease x y \<Longrightarrow> same_local_lease y z \<Longrightarrow> same_local_lease x z"
  by (auto simp: same_local_lease_def)

lemma same_local_bid_trans: "same_local_bid R x y \<Longrightarrow> same_local_bid R y z \<Longrightarrow> same_local_bid R x z"
  by (auto simp: same_local_bid_def)

lemma same_local_refl [simp]: "same_local x x" "same_local_lease y y" "same_local_bid R z z"
  by (simp_all add: same_local_def same_local_lease_def same_local_bid_def)

lemma merge_local_bid:
  "b \<in> R \<Longrightarrow> bKey x = bKey b \<Longrightarrow> bRecordVersion x \<le> v \<Longrightarrow> same_local_bid R x ((mergeBid (Some x) b now)\<lparr>bRecordVersion := v\<rparr>)"
  by (auto simp: same_local_bid_def mergeBid_def Let_def split: option.split)

section \<open>Loops\<close>

lemma seq_simps [simp]: "seq (None, s) f = f s" "seq (Some e, s) f = (Some e, s)"
  by (simp_all add: seq_def)

lemma guard_simps [simp]: "guard s (Inl e) f = (Some e, s)" "guard s (Inr x) f = f x"
  by (simp_all add: guard_def)

lemma seq_None_iff: "seq r f = (None, s') \<longleftrightarrow> (\<exists>s. r = (None, s) \<and> f s = (None, s'))"
  by (cases r; cases "fst r") (auto simp: seq_def)

lemma guard_None_iff: "guard s r f = (None, s') \<longleftrightarrow> (\<exists>x. r = Inr x \<and> f x = (None, s'))"
  by (cases r) simp_all

lemma seq_keeps: "P (snd r) \<Longrightarrow> (\<And>s. P s \<Longrightarrow> P (snd (f s))) \<Longrightarrow> P (snd (seq r f))"
  by (cases r; cases "fst r") auto

lemma guard_keeps: "P s \<Longrightarrow> (\<And>x. r = Inr x \<Longrightarrow> P (snd (f x))) \<Longrightarrow> P (snd (guard s r f))"
  by (cases r) simp_all

lemma loop_keeps: "P s \<Longrightarrow> (\<And>s x. x \<in> set xs \<Longrightarrow> P s \<Longrightarrow> P (snd (f s x))) \<Longrightarrow> P (snd (loop f s xs))"
proof (induction xs arbitrary: s)
  case (Cons x xs)
  then show ?case by (auto intro!: seq_keeps [where P = P])
qed simp

text \<open>After a loop that succeeds, what each step establishes holds of every element.\<close>

lemma loop_establishes:
  assumes "loop f s xs = (None, s')" and "I s"
    and step: "\<And>s x s'. x \<in> set xs \<Longrightarrow> I s \<Longrightarrow> f s x = (None, s') \<Longrightarrow> I s' \<and> Q x s' \<and> (\<forall>y. R y s \<longrightarrow> R y s')"
    and keep: "\<And>s s' x. I s \<Longrightarrow> I s' \<Longrightarrow> \<forall>y. R y s \<longrightarrow> R y s' \<Longrightarrow> Q x s \<Longrightarrow> Q x s'"
  shows "I s' \<and> (\<forall>x \<in> set xs. Q x s') \<and> (\<forall>y. R y s \<longrightarrow> R y s')"
  using assms(1,2) step
proof (induction xs arbitrary: s)
  case Nil
  then show ?case by simp
next
  case (Cons x xs)
  then obtain s1 where s1: "f s x = (None, s1)" "loop f s1 xs = (None, s')" by (auto simp: seq_None_iff)
  have a: "I s1 \<and> Q x s1 \<and> (\<forall>y. R y s \<longrightarrow> R y s1)"
    using Cons.prems(3) [of x s s1] Cons.prems(2) s1(1) by simp
  have b: "I s' \<and> (\<forall>x \<in> set xs. Q x s') \<and> (\<forall>y. R y s1 \<longrightarrow> R y s')"
    using a s1(2) Cons.prems(3) by (intro Cons.IH) auto
  with a keep [of s1 s' x] show ?case by auto
qed

section \<open>The contract of the store\<close>

locale sync_store =
  fixes S :: "('s, 'e) Store"
    and ok :: "'s \<Rightarrow> bool"
    and dv :: "'s \<Rightarrow> bytes \<rightharpoonup> DeploymentRecord"
    and lv :: "'s \<Rightarrow> bytes \<rightharpoonup> LeaseRecord"
    and bv :: "'s \<Rightarrow> bytes \<rightharpoonup> BidRecord"
    and ux :: "string \<Rightarrow> bool"
  assumes ascii_ux: "ascii str \<Longrightarrow> ux str"
    and get_dep: "ok s \<Longrightarrow> opGetDeployment S s owner dseq = Inr (dv s (DeploymentKey owner dseq))"
    and get_lease: "ok s \<Longrightarrow> opGetLease S s i = Inr (lv s (LeaseKey i))"
    and get_bid: "ok s \<Longrightarrow> opGetBid S s j = Inr (bv s (BidKey j))"
    and dv_ok: "ok s \<Longrightarrow> dv s k = Some d \<Longrightarrow> dKey d = k \<and> dep_exact ux d"
    and lv_ok: "ok s \<Longrightarrow> lv s k = Some l \<Longrightarrow> lKey l = k \<and> lease_exact ux l"
    and bv_ok: "ok s \<Longrightarrow> bv s k = Some b \<Longrightarrow> bKey b = k \<and> bid_exact ux b"
    and put_dep: "ok s \<Longrightarrow> dep_exact ux d \<Longrightarrow> opPutDeployment S s d = (None, s') \<Longrightarrow>
      ok s' \<and> lv s' = lv s \<and> bv s' = bv s \<and> (\<exists>v. dv s' = (dv s)(dKey d \<mapsto> d\<lparr>dRecordVersion := v\<rparr>) \<and>
        (\<forall>x. dv s (dKey d) = Some x \<longrightarrow> dRecordVersion x < v))"
    and put_dep_err: "opPutDeployment S s d = (Some e, s') \<Longrightarrow> s' = s"
    and put_lease: "ok s \<Longrightarrow> lease_exact ux l \<Longrightarrow> opPutLease S s l = (None, s') \<Longrightarrow>
      ok s' \<and> dv s' = dv s \<and> bv s' = bv s \<and> (\<exists>v. lv s' = (lv s)(lKey l \<mapsto> l\<lparr>lRecordVersion := v\<rparr>) \<and>
        (\<forall>x. lv s (lKey l) = Some x \<longrightarrow> lRecordVersion x < v))"
    and put_lease_err: "opPutLease S s l = (Some e, s') \<Longrightarrow> s' = s"
    and put_bid: "ok s \<Longrightarrow> bid_exact ux b \<Longrightarrow> opPutBid S s b = (None, s') \<Longrightarrow>
      ok s' \<and> dv s' = dv s \<and> lv s' = lv s \<and> (\<exists>v. bv s' = (bv s)(bKey b \<mapsto> b\<lparr>bRecordVersion := v\<rparr>) \<and>
        (\<forall>x. bv s (bKey b) = Some x \<longrightarrow> bRecordVersion x < v))"
    and put_bid_err: "opPutBid S s b = (Some e, s') \<Longrightarrow> s' = s"
begin

lemma ux_words [simp]: "ux []" "ux ''active''" "ux ''closed''" "ux ''open''" "ux ''matched''"
  by (rule ascii_ux, simp add: ascii_def)+

lemma zero_exact [simp]:
  "dep_exact ux (zero_deployment\<lparr>dOwner := w, dDSeq := q\<rparr>) = ux w"
  "lease_exact ux (zero_lease\<lparr>lID := i\<rparr>) = (ux (liOwner i) \<and> ux (liProvider i))"
  "bid_exact ux (zero_bid\<lparr>bID := j\<rparr>) = (ux (biOwner j) \<and> ux (biProvider j))"
  by (auto simp: exact_defs map_exact_def zero_deployment_def zero_lease_def zero_bid_def)

text \<open>One step of the reconciliation: it keeps the store well-formed and every local field.\<close>

definition keeps_local :: "'e Querier \<Rightarrow> 's \<Rightarrow> 's \<Rightarrow> bool" where
  "keeps_local q s s' \<longleftrightarrow> (\<forall>k x. dv s k = Some x \<longrightarrow> (\<exists>y. dv s' k = Some y \<and> same_local x y)) \<and>
     (\<forall>k x. lv s k = Some x \<longrightarrow> (\<exists>y. lv s' k = Some y \<and> same_local_lease x y)) \<and>
     (\<forall>k x. bv s k = Some x \<longrightarrow> (\<exists>y. bv s' k = Some y \<and> same_local_bid (reported_bids q) x y))"

lemma keeps_local_trans: "keeps_local q s t \<Longrightarrow> keeps_local q t u \<Longrightarrow> keeps_local q s u"
  unfolding keeps_local_def by (meson same_local_trans same_local_lease_trans same_local_bid_trans)

lemma keeps_local_refl [simp]: "keeps_local q s s"
  by (simp add: keeps_local_def)

lemma put_merged_step:
  assumes ok: "ok s" and d: "dep_exact ux d" and run: "put_merged S now (st, s) d = (r, (st', s'))"
  shows "ok s' \<and> keeps_local q s s' \<and> lv s' = lv s \<and> (r \<noteq> None \<longrightarrow> s' = s) \<and>
    (r = None \<longrightarrow> (\<exists>y. dv s' (dKey d) = Some y \<and> same_chain d y) \<and> (\<forall>k. k \<noteq> dKey d \<longrightarrow> dv s' k = dv s k))"
proof -
  let ?m = "mergeDeployment (dv s (dKey d)) d now"
  from dv_ok [OF ok] d have m: "dep_exact ux ?m" by (intro merge_exact) auto
  obtain r1 s1 where put: "opPutDeployment S s ?m = (r1, s1)" by force
  with run ok have rs: "r = r1" "s' = s1" by (auto simp: put_merged_def get_dep split: option.splits)
  show ?thesis
  proof (cases r1)
    case None
    from put_dep [OF ok m put [unfolded None]] obtain v where
      v: "ok s1" "lv s1 = lv s" "bv s1 = bv s" "dv s1 = (dv s)(dKey d \<mapsto> ?m\<lparr>dRecordVersion := v\<rparr>)"
        "\<forall>x. dv s (dKey d) = Some x \<longrightarrow> dRecordVersion x < v" by auto
    have "keeps_local q s s1"
      using v merge_local(1) [of _ v d now] by (auto simp: keeps_local_def less_imp_le)
    with v rs None merge_local(3) show ?thesis by auto
  next
    case (Some e)
    with put put_dep_err have "s1 = s" by simp
    with rs Some ok show ?thesis by auto
  qed
qed

lemma reconcile_lease_step:
  assumes ok: "ok s" and l: "lease_exact ux l" and run: "reconcile_lease S now (st, s) l = (r, (st', s'))"
  shows "ok s' \<and> keeps_local q s s' \<and> dv s' = dv s"
proof -
  let ?m = "mergeLease (lv s (lKey l)) l now"
  from lv_ok [OF ok] l have m: "lease_exact ux ?m" by (intro merge_exact) auto
  obtain r1 s1 where put: "opPutLease S s ?m = (r1, s1)" by force
  with run ok have rs: "s' = s1" by (auto simp: reconcile_lease_def get_lease split: option.splits)
  show ?thesis
  proof (cases r1)
    case None
    from put_lease [OF ok m put [unfolded None]] obtain v where
      v: "ok s1" "dv s1 = dv s" "bv s1 = bv s" "lv s1 = (lv s)(lKey l \<mapsto> ?m\<lparr>lRecordVersion := v\<rparr>)"
        "\<forall>x. lv s (lKey l) = Some x \<longrightarrow> lRecordVersion x < v" by auto
    then show ?thesis
      using rs merge_local(2) [of _ v l now] by (auto simp: keeps_local_def less_imp_le)
  next
    case (Some e)
    with put put_lease_err have "s1 = s" by simp
    with rs ok show ?thesis by simp
  qed
qed

lemma reconcile_bid_step:
  assumes ok: "ok s" and b: "bid_exact ux b" "b \<in> reported_bids q" and run: "reconcile_bid S now (st, s) b = (r, (st', s'))"
  shows "ok s' \<and> keeps_local q s s' \<and> dv s' = dv s"
proof -
  let ?m = "mergeBid (bv s (bKey b)) b now"
  from bv_ok [OF ok] b(1) have m: "bid_exact ux ?m" by (intro merge_exact) auto
  obtain r1 s1 where put: "opPutBid S s ?m = (r1, s1)" by force
  with run ok have rs: "s' = s1" by (auto simp: reconcile_bid_def get_bid split: option.splits)
  show ?thesis
  proof (cases r1)
    case None
    from put_bid [OF ok m put [unfolded None]] obtain v where
      v: "ok s1" "dv s1 = dv s" "lv s1 = lv s" "bv s1 = (bv s)(bKey b \<mapsto> ?m\<lparr>bRecordVersion := v\<rparr>)"
        "\<forall>x. bv s (bKey b) = Some x \<longrightarrow> bRecordVersion x < v" by auto
    then show ?thesis
      using rs bv_ok [OF ok, of "bKey b"] merge_local_bid [OF b(2), of _ v now] by (auto simp: keeps_local_def less_imp_le)
  next
    case (Some e)
    with put put_bid_err have "s1 = s" by simp
    with rs ok show ?thesis by simp
  qed
qed

text \<open>The loops over leases and bids leave the deployments alone.\<close>

definition below :: "'e Querier \<Rightarrow> 's \<Rightarrow> ReconcileStats \<times> 's \<Rightarrow> bool" where
  "below q s0 st \<longleftrightarrow> ok (snd st) \<and> keeps_local q s0 (snd st) \<and> dv (snd st) = dv s0"

definition querier_exact :: "'e Querier \<Rightarrow> bool" where
  "querier_exact q \<longleftrightarrow>
     (\<forall>owner ds. qDeployments q owner = Inr ds \<longrightarrow> (\<forall>d \<in> set ds. dep_exact ux d)) \<and>
     (\<forall>owner n ls. qLeases q owner n = Inr ls \<longrightarrow> (\<forall>l \<in> set ls. lease_exact ux l)) \<and>
     (\<forall>owner n bs. qBids q owner n = Inr bs \<longrightarrow> (\<forall>b \<in> set bs. bid_exact ux b))"

lemma below_trans: "keeps_local q s0 s \<Longrightarrow> dv s = dv s0 \<Longrightarrow> below q s st \<Longrightarrow> below q s0 st"
  by (auto simp: below_def intro: keeps_local_trans)

lemma lease_loop_below:
  assumes "below q s0 st" and "\<forall>l \<in> set ls. lease_exact ux l"
  shows "below q s0 (snd (loop (reconcile_lease S now) st ls))"
proof (rule loop_keeps [where P = "below q s0", OF assms(1)])
  fix st l
  assume "l \<in> set ls" "below q s0 st"
  moreover obtain a s r b s' where "st = (a, s)" "reconcile_lease S now (a, s) l = (r, (b, s'))" by (metis prod.exhaust)
  ultimately show "below q s0 (snd (reconcile_lease S now st l))"
    using reconcile_lease_step [of s l now a r b s'] assms(2) by (auto simp: below_def intro: keeps_local_trans)
qed

lemma bid_loop_below:
  assumes "below q s0 st" and "\<forall>b \<in> set bs. bid_exact ux b \<and> b \<in> reported_bids q"
  shows "below q s0 (snd (loop (reconcile_bid S now) st bs))"
proof (rule loop_keeps [where P = "below q s0", OF assms(1)])
  fix st b
  assume "b \<in> set bs" "below q s0 st"
  moreover obtain a s r c s' where "st = (a, s)" "reconcile_bid S now (a, s) b = (r, (c, s'))" by (metis prod.exhaust)
  ultimately show "below q s0 (snd (reconcile_bid S now st b))"
    using reconcile_bid_step [of s b q now a r c s'] assms(2) by (auto simp: below_def intro: keeps_local_trans)
qed

lemma reconcile_deployment_step:
  assumes q: "querier_exact q" and ok: "ok s" and d: "dep_exact ux d"
    and run: "reconcile_deployment S q now owner (st, s) d = (r, (st', s'))"
  shows "ok s' \<and> keeps_local q s s' \<and> (\<forall>k. k \<noteq> dKey d \<longrightarrow> dv s' k = dv s k) \<and>
    (r = None \<longrightarrow> (\<exists>y. dv s' (dKey d) = Some y \<and> same_chain d y))"
proof -
  obtain r1 st1 s1 where p: "put_merged S now (st, s) d = (r1, (st1, s1))" by (metis prod.exhaust)
  note step = put_merged_step [OF ok d p]
  show ?thesis
  proof (cases r1)
    case (Some e)
    with run p step show ?thesis by (auto simp: reconcile_deployment_def)
  next
    case None
    let ?rest = "seq (guard (st1, s1) (qLeases q owner (dDSeq d)) (loop (reconcile_lease S now) (st1, s1))) (\<lambda>st.
       guard st (qBids q owner (dDSeq d)) (loop (reconcile_bid S now) st))"
    have b0: "below q s1 (st1, s1)" using step by (simp add: below_def)
    have "below q s1 (snd ?rest)"
      using q b0 by (intro seq_keeps [where P = "below q s1"] guard_keeps [where P = "below q s1"])
        (auto simp: querier_exact_def reported_bids_def intro!: lease_loop_below bid_loop_below, blast)
    moreover have "?rest = (r, (st', s'))" using run p None by (simp add: reconcile_deployment_def)
    ultimately have "below q s1 (st', s')" by simp
    with step None show ?thesis by (auto simp: below_def intro: keeps_local_trans)
  qed
qed

end

section \<open>A full reconciliation\<close>

text \<open>The deployments a querier reports for the accounts of an engine.\<close>

definition reported :: "'e Querier \<Rightarrow> Engine \<Rightarrow> DeploymentRecord set" where
  "reported q e = {d. \<exists>owner ds. owner \<in> set (tracked e) \<and> qDeployments q owner = Inr ds \<and> d \<in> set ds}"

context sync_store
begin

abbreviation account_loop :: "'e Querier \<Rightarrow> int \<Rightarrow> ReconcileStats \<times> 's \<Rightarrow> string \<Rightarrow> 'e option \<times> ReconcileStats \<times> 's" where
  "account_loop q now st owner \<equiv> guard st (qDeployments q owner) (loop (reconcile_deployment S q now owner) st)"

lemma fullReconcile_keeps:
  assumes q: "querier_exact q" and ok: "ok s" and run: "fullReconcile S e q now s = (r, (st, s'))"
  shows "ok s' \<and> keeps_local q s s'"
proof -
  let ?P = "\<lambda>st :: ReconcileStats \<times> 's. ok (snd st) \<and> keeps_local q s (snd st)"
  have one: "?P (snd (reconcile_deployment S q now owner st d))" if d: "dep_exact ux d" and P: "?P st" for owner st d
  proof -
    obtain a t r b t' where st: "st = (a, t)" and run: "reconcile_deployment S q now owner (a, t) d = (r, (b, t'))"
      by (metis prod.exhaust)
    from P st have "ok t" "keeps_local q s t" by auto
    with reconcile_deployment_step [OF q _ d run] st run show ?thesis by (auto intro: keeps_local_trans)
  qed
  have "?P (snd (loop (account_loop q now) (zero_rstats\<lparr>rsAccounts := int (length (tracked e))\<rparr>, s) (sort (tracked e))))"
  proof (rule loop_keeps [where P = ?P])
    fix st :: "ReconcileStats \<times> 's" and owner
    assume P: "?P st"
    show "?P (snd (account_loop q now st owner))"
    proof (rule guard_keeps [where P = ?P, OF P])
      fix ds
      assume "qDeployments q owner = Inr ds"
      with q have "\<forall>d \<in> set ds. dep_exact ux d" by (auto simp: querier_exact_def)
      then show "?P (snd (loop (reconcile_deployment S q now owner) st ds))"
        by (intro loop_keeps [where P = ?P, OF P] one) auto
    qed
  qed (use ok in simp)
  with run show ?thesis by (simp add: fullReconcile_def Let_def)
qed

text \<open>
  What the store says of a reported deployment: the chain's state of one of the reported
  records under that key.
\<close>

definition installed :: "'e Querier \<Rightarrow> Engine \<Rightarrow> bytes \<Rightarrow> ReconcileStats \<times> 's \<Rightarrow> bool" where
  "installed q e k st \<longleftrightarrow> (\<exists>d y. d \<in> reported q e \<and> dKey d = k \<and> dv (snd st) k = Some y \<and> same_chain d y)"

lemma reconcile_deployment_installs:
  assumes q: "querier_exact q" and d: "d \<in> reported q e" "dep_exact ux d" and ok: "ok (snd st)"
    and run: "reconcile_deployment S q now owner st d = (None, st')"
  shows "ok (snd st') \<and> installed q e (dKey d) st' \<and> (\<forall>k. installed q e k st \<longrightarrow> installed q e k st')"
proof -
  obtain a s b s' where st: "st = (a, s)" "st' = (b, s')" by fastforce
  from reconcile_deployment_step [OF q _ d(2) run [unfolded st]] ok st have
    "ok s'" "\<forall>k. k \<noteq> dKey d \<longrightarrow> dv s' k = dv s k" "\<exists>y. dv s' (dKey d) = Some y \<and> same_chain d y" by auto
  moreover from this d(1) st have "installed q e (dKey d) st'" by (auto simp: installed_def)
  moreover have "installed q e k st'" if "installed q e k st" for k
  proof (cases "k = dKey d")
    case False
    with that calculation(2) st show ?thesis by (auto simp: installed_def)
  qed (use calculation in simp)
  ultimately show ?thesis using st by simp
qed

lemma account_loop_installs:
  assumes q: "querier_exact q" and owner: "owner \<in> set (tracked e)" and ok: "ok (snd st)"
    and run: "account_loop q now st owner = (None, st')"
  shows "ok (snd st') \<and> (\<forall>ds. qDeployments q owner = Inr ds \<longrightarrow> (\<forall>d \<in> set ds. installed q e (dKey d) st')) \<and>
    (\<forall>k. installed q e k st \<longrightarrow> installed q e k st')"
proof -
  from run obtain ds where ds: "qDeployments q owner = Inr ds"
    "loop (reconcile_deployment S q now owner) st ds = (None, st')" by (auto simp: guard_None_iff)
  have rep: "d \<in> reported q e \<and> dep_exact ux d" if "d \<in> set ds" for d
    using that owner ds(1) q by (auto simp: reported_def querier_exact_def)
  have "ok (snd st') \<and> (\<forall>d \<in> set ds. installed q e (dKey d) st') \<and> (\<forall>k. installed q e k st \<longrightarrow> installed q e k st')"
  proof (rule loop_establishes [where I = "\<lambda>st. ok (snd st)" and Q = "\<lambda>d. installed q e (dKey d)", OF ds(2) ok])
    fix s d s'
    assume "d \<in> set ds" "ok (snd s)" "reconcile_deployment S q now owner s d = (None, s')"
    with rep show "ok (snd s') \<and> installed q e (dKey d) s' \<and> (\<forall>k. installed q e k s \<longrightarrow> installed q e k s')"
      by (blast dest: reconcile_deployment_installs [OF q])
  qed blast
  with ds(1) show ?thesis by auto
qed

lemma fullReconcile_installs:
  assumes q: "querier_exact q" and ok: "ok s" and run: "fullReconcile S e q now s = (None, (st, s'))"
    and d: "d \<in> reported q e" and uniq: "inj_on dKey (reported q e)"
  shows "\<exists>y. dv s' (dKey d) = Some y \<and> same_chain d y"
proof -
  let ?Q = "\<lambda>owner st. \<forall>ds. qDeployments q owner = Inr ds \<longrightarrow> (\<forall>d \<in> set ds. installed q e (dKey d) st)"
  from run have loop: "loop (account_loop q now) (zero_rstats\<lparr>rsAccounts := int (length (tracked e))\<rparr>, s) (sort (tracked e)) = (None, (st, s'))"
    by (simp add: fullReconcile_def Let_def)
  have "ok (snd (st, s')) \<and> (\<forall>owner \<in> set (sort (tracked e)). ?Q owner (st, s')) \<and>
      (\<forall>k. installed q e k (zero_rstats\<lparr>rsAccounts := int (length (tracked e))\<rparr>, s) \<longrightarrow> installed q e k (st, s'))"
  proof (rule loop_establishes [where I = "\<lambda>st. ok (snd st)" and Q = ?Q, OF loop])
    fix s owner s'
    assume "owner \<in> set (sort (tracked e))" "ok (snd s)" "account_loop q now s owner = (None, s')"
    then show "ok (snd s') \<and> ?Q owner s' \<and> (\<forall>k. installed q e k s \<longrightarrow> installed q e k s')"
      using account_loop_installs [OF q, of owner e s now s'] by simp
  qed (use ok in auto)
  moreover from d obtain owner ds where "owner \<in> set (tracked e)" "qDeployments q owner = Inr ds" "d \<in> set ds"
    by (auto simp: reported_def)
  ultimately have "installed q e (dKey d) (st, s')" by auto
  then obtain d' y where "d' \<in> reported q e" "dKey d' = dKey d" "dv s' (dKey d) = Some y" "same_chain d' y"
    by (auto simp: installed_def)
  moreover from this d uniq have "d' = d" by (blast dest: inj_onD)
  ultimately show ?thesis by auto
qed

end

end
