(* ===== verification/Sync_Props.thy ===== *)
theory Sync_Props
  imports Sync_Laws
begin

text \<open>
  The bbolt store satisfies the contract of the sync engine, and the engine's properties:
  which records an event touches and what it leaves there, that a reconciliation keeps the
  local-only fields and installs the chain's state, when it runs, and the bounds of the
  reconnection delay.
\<close>

section \<open>The bbolt store as the engine's store\<close>

locale json_store = store_env E "dep_exact ux" "lease_exact ux" "bid_exact ux" "sync_exact ux"
  for E :: "('b, 'v) ext" and ux :: "string \<Rightarrow> bool" +
  assumes ascii_exact: "ascii str \<Longrightarrow> ux str"

abbreviation sok :: "('b, 'v) ext \<Rightarrow> (string \<Rightarrow> bool) \<Rightarrow> 'b db \<Rightarrow> bool" where
  "sok E ux \<equiv> store_ok E (dep_exact ux) (lease_exact ux) (bid_exact ux) (sync_exact ux)"

context json_store
begin

lemma put_effects:
  assumes ok: "sok E ux db"
  shows "dep_exact ux d \<Longrightarrow> PutDeployment E db (Some d) = (None, db') \<Longrightarrow>
      sok E ux db' \<and> lease_view E db' = lease_view E db \<and> bid_view E db' = bid_view E db \<and>
      (\<exists>v. dep_view E db' = (dep_view E db)(dKey d \<mapsto> d\<lparr>dRecordVersion := v\<rparr>) \<and>
        (\<forall>x. dep_view E db (dKey d) = Some x \<longrightarrow> dRecordVersion x < v))"
    and "lease_exact ux l \<Longrightarrow> PutLease E db (Some l) = (None, db') \<Longrightarrow>
      sok E ux db' \<and> dep_view E db' = dep_view E db \<and> bid_view E db' = bid_view E db \<and>
      (\<exists>v. lease_view E db' = (lease_view E db)(lKey l \<mapsto> l\<lparr>lRecordVersion := v\<rparr>) \<and>
        (\<forall>x. lease_view E db (lKey l) = Some x \<longrightarrow> lRecordVersion x < v))"
    and "bid_exact ux b \<Longrightarrow> PutBid E db (Some b) = (None, db') \<Longrightarrow>
      sok E ux db' \<and> dep_view E db' = dep_view E db \<and> lease_view E db' = lease_view E db \<and>
      (\<exists>v. bid_view E db' = (bid_view E db)(bKey b \<mapsto> b\<lparr>bRecordVersion := v\<rparr>) \<and>
        (\<forall>x. bid_view E db (bKey b) = Some x \<longrightarrow> bRecordVersion x < v))"
proof -
  have oks: "dep_ok E (dep_exact ux) db" "lease_ok E (lease_exact ux) db" "bid_ok E (bid_exact ux) db"
    using ok by (simp_all add: store_ok_def)
  show "sok E ux db' \<and> lease_view E db' = lease_view E db \<and> bid_view E db' = bid_view E db \<and>
      (\<exists>v. dep_view E db' = (dep_view E db)(dKey d \<mapsto> d\<lparr>dRecordVersion := v\<rparr>) \<and>
        (\<forall>x. dep_view E db (dKey d) = Some x \<longrightarrow> dRecordVersion x < v))"
    if x: "dep_exact ux d" and put: "PutDeployment E db (Some d) = (None, db')"
  proof -
    have tx: "putDeploymentTx E db (Some d) = Inr db'" using update_cases [OF put [unfolded PutDeployment_def]] by simp
    from dep.put_view [OF oks(1) x tx] putDeploymentTx_store_ok [OF ok x tx]
      view_frame(2,3) [of db' db E] put_frames(1) [OF tx]
    show ?thesis by (fastforce simp: dep_set_ver_def dest: next_version_greater)
  qed
  show "sok E ux db' \<and> dep_view E db' = dep_view E db \<and> bid_view E db' = bid_view E db \<and>
      (\<exists>v. lease_view E db' = (lease_view E db)(lKey l \<mapsto> l\<lparr>lRecordVersion := v\<rparr>) \<and>
        (\<forall>x. lease_view E db (lKey l) = Some x \<longrightarrow> lRecordVersion x < v))"
    if x: "lease_exact ux l" and put: "PutLease E db (Some l) = (None, db')"
  proof -
    have tx: "putLeaseTx E db (Some l) = Inr db'" using update_cases [OF put [unfolded PutLease_def]] by simp
    from lease.put_view [OF oks(2) x tx] putLeaseTx_store_ok [OF ok x tx]
      view_frame(1,3) [of db' db E] put_frames(2) [OF tx]
    show ?thesis by (fastforce simp: lease_set_ver_def dest: next_version_greater)
  qed
  show "sok E ux db' \<and> dep_view E db' = dep_view E db \<and> lease_view E db' = lease_view E db \<and>
      (\<exists>v. bid_view E db' = (bid_view E db)(bKey b \<mapsto> b\<lparr>bRecordVersion := v\<rparr>) \<and>
        (\<forall>x. bid_view E db (bKey b) = Some x \<longrightarrow> bRecordVersion x < v))"
    if x: "bid_exact ux b" and put: "PutBid E db (Some b) = (None, db')"
  proof -
    have tx: "putBidTx E db (Some b) = Inr db'" using update_cases [OF put [unfolded PutBid_def]] by simp
    from bid.put_view [OF oks(3) x tx] putBidTx_store_ok [OF ok x tx]
      view_frame(1,2) [of db' db E] put_frames(3) [OF tx]
    show ?thesis by (fastforce simp: bid_set_ver_def dest: next_version_greater)
  qed
qed

end

sublocale json_store \<subseteq> sync: sync_store "bolt_ops E" "sok E ux" "dep_view E" "lease_view E" "bid_view E" ux
proof (unfold_locales, goal_cases)
  case (1 str)
  then show ?case by (rule ascii_exact)
next
  case (9 s d e s')
  then show ?case using update_cases [of "\<lambda>tx. putDeploymentTx E tx (Some d)" s] by (auto simp: bolt_ops_def PutDeployment_def)
next
  case (11 s l e s')
  then show ?case using update_cases [of "\<lambda>tx. putLeaseTx E tx (Some l)" s] by (auto simp: bolt_ops_def PutLease_def)
next
  case (13 s b e s')
  then show ?case using update_cases [of "\<lambda>tx. putBidTx E tx (Some b)" s] by (auto simp: bolt_ops_def PutBid_def)
next
  case (8 s d s')
  then show ?case using put_effects(1) by (simp add: bolt_ops_def)
next
  case (10 s l s')
  then show ?case using put_effects(2) by (simp add: bolt_ops_def)
next
  case (12 s b s')
  then show ?case using put_effects(3) by (simp add: bolt_ops_def)
qed (auto simp: bolt_ops_def store_ok_def GetDeployment_view GetLease_view GetBid_view
    dest: dep_view_ok lease_view_ok bid_view_ok)

lemma exact_any: "dep_exact any = any" "lease_exact any = any" "bid_exact any = any" "sync_exact any = any"
  by (simp_all add: fun_eq_iff exact_defs map_exact_def sync_exact_def)

interpretation refj: json_store ref_ext any
  unfolding json_store_def json_store_axioms_def exact_any using ref.store_env_axioms by simp

section \<open>Events\<close>

text \<open>The account an event is about, the keys it may write, and its strings.\<close>

fun event_owner :: "chain_event \<Rightarrow> string option" where
  "event_owner (EventDeploymentCreated w n h) = Some w"
| "event_owner (EventDeploymentUpdated w n h) = Some w"
| "event_owner (EventDeploymentClosed w n) = Some w"
| "event_owner (EventBidCreated i p) = Some (biOwner i)"
| "event_owner (EventBidClosed i) = Some (biOwner i)"
| "event_owner (EventLeaseCreated i p) = Some (liOwner i)"
| "event_owner (EventLeaseClosed i) = Some (liOwner i)"
| "event_owner OtherEvent = None"

fun event_dep :: "chain_event \<Rightarrow> bytes option" where
  "event_dep (EventDeploymentCreated w n h) = Some (DeploymentKey w n)"
| "event_dep (EventDeploymentUpdated w n h) = Some (DeploymentKey w n)"
| "event_dep (EventDeploymentClosed w n) = Some (DeploymentKey w n)"
| "event_dep _ = None"

fun event_lease :: "chain_event \<Rightarrow> bytes option" where
  "event_lease (EventLeaseCreated i p) = Some (LeaseKey i)"
| "event_lease (EventLeaseClosed i) = Some (LeaseKey i)"
| "event_lease _ = None"

text \<open>A lease and its bid have the same identity, hence the same key.\<close>

fun event_bid :: "chain_event \<Rightarrow> bytes option" where
  "event_bid (EventBidCreated i p) = Some (BidKey i)"
| "event_bid (EventBidClosed i) = Some (BidKey i)"
| "event_bid (EventLeaseCreated i p) = Some (LeaseKey i)"
| "event_bid _ = None"

fun event_exact :: "(string \<Rightarrow> bool) \<Rightarrow> chain_event \<Rightarrow> bool" where
  "event_exact ux (EventDeploymentCreated w n h) = ux w"
| "event_exact ux (EventDeploymentUpdated w n h) = ux w"
| "event_exact ux (EventDeploymentClosed w n) = ux w"
| "event_exact ux (EventBidCreated i p) = (ux (biOwner i) \<and> ux (biProvider i) \<and> ux p)"
| "event_exact ux (EventBidClosed i) = (ux (biOwner i) \<and> ux (biProvider i))"
| "event_exact ux (EventLeaseCreated i p) = (ux (liOwner i) \<and> ux (liProvider i) \<and> ux p)"
| "event_exact ux (EventLeaseClosed i) = (ux (liOwner i) \<and> ux (liProvider i))"
| "event_exact ux OtherEvent = True"

definition lease_as_bid :: "LeaseID \<Rightarrow> BidID" where
  "lease_as_bid i = \<lparr>biOwner = liOwner i, biDSeq = liDSeq i, biGSeq = liGSeq i, biOSeq = liOSeq i, biProvider = liProvider i\<rparr>"

lemma lease_as_bid_key [simp]: "BidKey (lease_as_bid i) = LeaseKey i"
  by (simp add: BidKey_def LeaseKey_def lease_as_bid_def)

text \<open>The keys under which two stores may differ.\<close>

definition touches :: "bytes option \<Rightarrow> ('s \<Rightarrow> bytes \<rightharpoonup> 'r) \<Rightarrow> 's \<Rightarrow> 's \<Rightarrow> bool" where
  "touches k v s s' \<longleftrightarrow> (\<forall>j. k \<noteq> Some j \<longrightarrow> v s' j = v s j)"

context sync_store
begin

definition framed :: "chain_event \<Rightarrow> 's \<Rightarrow> 's \<Rightarrow> bool" where
  "framed ev s s' \<longleftrightarrow> ok s' \<and> touches (event_dep ev) dv s s' \<and> touches (event_lease ev) lv s s' \<and> touches (event_bid ev) bv s s'"

lemma framed_refl: "ok s \<Longrightarrow> framed ev s s"
  by (simp add: framed_def touches_def)

lemma framed_dep:
  assumes "ok s" "dep_exact ux d" "event_dep ev = Some (dKey d)"
  shows "framed ev s (snd (opPutDeployment S s d))"
proof (cases "opPutDeployment S s d")
  case (Pair r s')
  with put_dep [OF assms(1,2), of s'] put_dep_err [of s d _ s'] assms show ?thesis
    by (cases r) (auto simp: framed_def touches_def)
qed

lemma framed_lease:
  assumes "ok s" "lease_exact ux l" "event_lease ev = Some (lKey l)"
  shows "framed ev s (snd (opPutLease S s l))"
proof (cases "opPutLease S s l")
  case (Pair r s')
  with put_lease [OF assms(1,2), of s'] put_lease_err [of s l _ s'] assms show ?thesis
    by (cases r) (auto simp: framed_def touches_def)
qed

lemma framed_bid:
  assumes "ok s" "bid_exact ux b" "event_bid ev = Some (bKey b)"
  shows "framed ev s (snd (opPutBid S s b))"
proof (cases "opPutBid S s b")
  case (Pair r s')
  with put_bid [OF assms(1,2), of s'] put_bid_err [of s b _ s'] assms show ?thesis
    by (cases r) (auto simp: framed_def touches_def)
qed

lemma framed_trans: "framed ev s t \<Longrightarrow> framed ev t u \<Longrightarrow> framed ev s u"
  by (simp add: framed_def touches_def)

lemma dep_update_exact:
  "ux w \<Longrightarrow> dep_exact ux (zero_deployment\<lparr>dOwner := w, dDSeq := q, dState := ''active'', dVersion := h, dCreatedAt := t, dUpdatedAt := t'\<rparr>)"
  "dep_exact ux d \<Longrightarrow> dep_exact ux (d\<lparr>dVersion := h, dUpdatedAt := t\<rparr>)"
  "dep_exact ux d \<Longrightarrow> dep_exact ux (d\<lparr>dState := ''closed'', dClosedAt := t, dUpdatedAt := t\<rparr>)"
  "ux w \<Longrightarrow> dep_exact ux (zero_deployment\<lparr>dOwner := w, dDSeq := q, dState := ''active'', dCreatedAt := t\<rparr>)"
  by (auto simp: exact_defs map_exact_def zero_deployment_def)

lemma lease_update_exact:
  "ux (liOwner i) \<Longrightarrow> ux (liProvider i) \<Longrightarrow> ux p \<Longrightarrow> lease_exact ux (zero_lease\<lparr>lID := i, lState := ''active'', lPrice := p, lCreatedAt := t\<rparr>)"
  "lease_exact ux l \<Longrightarrow> lease_exact ux (l\<lparr>lState := ''closed'', lClosedAt := t\<rparr>)"
  by (auto simp: exact_defs zero_lease_def)

lemma bid_update_exact:
  "ux (biOwner i) \<Longrightarrow> ux (biProvider i) \<Longrightarrow> ux p \<Longrightarrow> bid_exact ux (zero_bid\<lparr>bID := i, bState := ''open'', bPrice := p, bCreatedAt := t\<rparr>)"
  "bid_exact ux b \<Longrightarrow> bid_exact ux (b\<lparr>bState := ''closed''\<rparr>)" "bid_exact ux b \<Longrightarrow> bid_exact ux (b\<lparr>bState := ''matched''\<rparr>)"
  by (auto simp: exact_defs map_exact_def zero_bid_def)

lemma HandleEvent_framed:
  assumes ok: "ok s" and x: "event_exact ux ev"
  shows "framed ev s (snd (HandleEvent S e clk s ev))"
proof (cases ev)
  case (EventDeploymentCreated w n h)
  with ok x show ?thesis
    by (auto simp: HandleEvent_def handleDeploymentCreated_def Let_def framed_refl intro!: framed_dep dep_update_exact)
next
  case (EventDeploymentUpdated w n h)
  with ok x dv_ok [OF ok, of "DeploymentKey w n"] show ?thesis
    by (auto simp: HandleEvent_def handleDeploymentUpdated_def get_dep Let_def framed_refl split: option.split
        intro!: framed_dep dep_update_exact)
next
  case (EventDeploymentClosed w n)
  with ok x dv_ok [OF ok, of "DeploymentKey w n"] show ?thesis
    by (auto simp: HandleEvent_def handleDeploymentClosed_def get_dep Let_def framed_refl split: option.split
        intro!: framed_dep dep_update_exact)
next
  case (EventBidCreated i p)
  with ok x show ?thesis
    by (auto simp: HandleEvent_def handleBidCreated_def framed_refl intro!: framed_bid bid_update_exact)
next
  case (EventBidClosed i)
  with ok x bv_ok [OF ok, of "BidKey i"] show ?thesis
    by (auto simp: HandleEvent_def handleBidClosed_def get_bid Let_def framed_refl split: option.split
        intro!: framed_bid bid_update_exact)
next
  case (EventLeaseClosed i)
  with ok x lv_ok [OF ok, of "LeaseKey i"] show ?thesis
    by (auto simp: HandleEvent_def handleLeaseClosed_def get_lease Let_def framed_refl split: option.split
        intro!: framed_lease lease_update_exact)
next
  case OtherEvent
  with ok show ?thesis by (simp add: HandleEvent_def framed_refl)
next
  case (EventLeaseCreated i p)
  let ?l = "zero_lease\<lparr>lID := i, lState := ''active'', lPrice := p, lCreatedAt := clk 0\<rparr>"
  have f1: "framed ev s (snd (opPutLease S s ?l))"
    using EventLeaseCreated ok x by (intro framed_lease lease_update_exact) auto
  have f2: "framed ev s (snd (guard t (opGetBid S t (lease_as_bid i)) (\<lambda>bid. case bid of None \<Rightarrow> (None, t)
      | Some b \<Rightarrow> opPutBid S t (b\<lparr>bState := ''matched''\<rparr>))))" if f: "framed ev s t" for t
  proof -
    have okt: "ok t" using f by (simp add: framed_def)
    have "framed ev s (snd (opPutBid S t (b\<lparr>bState := ''matched''\<rparr>)))" if "bv t (LeaseKey i) = Some b" for b
      using bv_ok [OF okt that] EventLeaseCreated okt
      by (intro framed_trans [OF f] framed_bid bid_update_exact) auto
    with f okt show ?thesis by (auto simp: get_bid split: option.split)
  qed
  show ?thesis
    using EventLeaseCreated ok seq_keeps [where P = "framed ev s", OF f1 f2]
    by (simp add: HandleEvent_def handleLeaseCreated_def Let_def lease_as_bid_def [symmetric] framed_refl)
qed

end

context sync_store
begin

text \<open>The effect of each handler of a tracked account.\<close>

lemma handleDeploymentCreated_effect:
  assumes "ok s" "ux w" "isTracked e w" "handleDeploymentCreated S e clk s w n h = (None, s')"
  shows "\<exists>r. dv s' (DeploymentKey w n) = Some r \<and> dState r = ''active'' \<and> dVersion r = h \<and> dCreatedAt r = clk 0"
  using put_dep [OF assms(1) dep_update_exact(1) [OF assms(2)]] assms(3,4)
  by (fastforce simp: handleDeploymentCreated_def Let_def)

lemma handleDeploymentUpdated_effect:
  assumes ok: "ok s" and x: "ux w" and w: "isTracked e w" and run: "handleDeploymentUpdated S e clk s w n h = (None, s')"
  shows "\<exists>r. dv s' (DeploymentKey w n) = Some r \<and> dVersion r = h \<and>
    (\<forall>old. dv s (DeploymentKey w n) = Some old \<longrightarrow> r = old\<lparr>dVersion := h, dUpdatedAt := clk 0, dRecordVersion := dRecordVersion r\<rparr>)"
proof -
  let ?r = "case dv s (DeploymentKey w n) of
      None \<Rightarrow> zero_deployment\<lparr>dOwner := w, dDSeq := n, dState := ''active'', dCreatedAt := clk 0\<rparr> | Some r \<Rightarrow> r"
  from run w obtain t where put: "opPutDeployment S s (?r\<lparr>dVersion := h, dUpdatedAt := t\<rparr>) = (None, s')"
    and t: "dv s (DeploymentKey w n) \<noteq> None \<longrightarrow> t = clk 0"
    by (auto simp: handleDeploymentUpdated_def get_dep [OF ok] split: option.splits)
  have r: "dep_exact ux ?r" "dKey ?r = DeploymentKey w n"
    using x dep_update_exact(4) dv_ok [OF ok, of "DeploymentKey w n"] by (auto split: option.split)
  from put_dep [OF ok dep_update_exact(2) [OF r(1)] put] r(2) t show ?thesis by (auto split: option.splits)
qed

lemma handleDeploymentClosed_effect:
  assumes ok: "ok s" and x: "ux w" and w: "isTracked e w" and run: "handleDeploymentClosed S e clk s w n = (None, s')"
  shows "\<exists>r. dv s' (DeploymentKey w n) = Some r \<and> dState r = ''closed'' \<and>
    (\<forall>old. dv s (DeploymentKey w n) = Some old \<longrightarrow>
      r = old\<lparr>dState := ''closed'', dClosedAt := clk 0, dUpdatedAt := clk 0, dRecordVersion := dRecordVersion r\<rparr>)"
proof -
  let ?r = "case dv s (DeploymentKey w n) of None \<Rightarrow> zero_deployment\<lparr>dOwner := w, dDSeq := n\<rparr> | Some r \<Rightarrow> r"
  from run w have put: "opPutDeployment S s (?r\<lparr>dState := ''closed'', dClosedAt := clk 0, dUpdatedAt := clk 0\<rparr>) = (None, s')"
    by (simp add: handleDeploymentClosed_def get_dep [OF ok] Let_def)
  have r: "dep_exact ux ?r" "dKey ?r = DeploymentKey w n"
    using x dv_ok [OF ok, of "DeploymentKey w n"] by (auto split: option.split)
  from put_dep [OF ok dep_update_exact(3) [OF r(1)] put] r(2) show ?thesis by (auto split: option.splits)
qed

lemma handleBidCreated_effect:
  assumes "ok s" "ux (biOwner i)" "ux (biProvider i)" "ux p" "isTracked e (biOwner i)"
    and "handleBidCreated S e clk s i p = (None, s')"
  shows "\<exists>r. bv s' (BidKey i) = Some r \<and> bState r = ''open'' \<and> bPrice r = p"
  using put_bid [OF assms(1) bid_update_exact(1) [OF assms(2-4)]] assms(5,6)
  by (fastforce simp: handleBidCreated_def)

lemma handleBidClosed_effect:
  assumes ok: "ok s" and x: "ux (biOwner i)" "ux (biProvider i)" and w: "isTracked e (biOwner i)"
    and run: "handleBidClosed S e s i = (None, s')"
  shows "\<exists>r. bv s' (BidKey i) = Some r \<and> bState r = ''closed'' \<and>
    (\<forall>old. bv s (BidKey i) = Some old \<longrightarrow> r = old\<lparr>bState := ''closed'', bRecordVersion := bRecordVersion r\<rparr>)"
proof -
  let ?r = "case bv s (BidKey i) of None \<Rightarrow> zero_bid\<lparr>bID := i\<rparr> | Some r \<Rightarrow> r"
  from run w have put: "opPutBid S s (?r\<lparr>bState := ''closed''\<rparr>) = (None, s')"
    by (simp add: handleBidClosed_def get_bid [OF ok] Let_def)
  have r: "bid_exact ux ?r" "bKey ?r = BidKey i" using x bv_ok [OF ok, of "BidKey i"] by (auto split: option.split)
  from put_bid [OF ok bid_update_exact(2) [OF r(1)] put] r(2) show ?thesis by (auto split: option.splits)
qed

lemma handleLeaseClosed_effect:
  assumes ok: "ok s" and x: "ux (liOwner i)" "ux (liProvider i)" and w: "isTracked e (liOwner i)"
    and run: "handleLeaseClosed S e clk s i = (None, s')"
  shows "\<exists>r. lv s' (LeaseKey i) = Some r \<and> lState r = ''closed'' \<and>
    (\<forall>old. lv s (LeaseKey i) = Some old \<longrightarrow>
      r = old\<lparr>lState := ''closed'', lClosedAt := clk 0, lRecordVersion := lRecordVersion r\<rparr>)"
proof -
  let ?r = "case lv s (LeaseKey i) of None \<Rightarrow> zero_lease\<lparr>lID := i\<rparr> | Some r \<Rightarrow> r"
  from run w have put: "opPutLease S s (?r\<lparr>lState := ''closed'', lClosedAt := clk 0\<rparr>) = (None, s')"
    by (simp add: handleLeaseClosed_def get_lease [OF ok] Let_def)
  have r: "lease_exact ux ?r" "lKey ?r = LeaseKey i" using x lv_ok [OF ok, of "LeaseKey i"] by (auto split: option.split)
  from put_lease [OF ok lease_update_exact(2) [OF r(1)] put] r(2) show ?thesis by (auto split: option.splits)
qed

lemma handleLeaseCreated_effect:
  assumes ok: "ok s" and x: "ux (liOwner i)" "ux (liProvider i)" "ux p" and w: "isTracked e (liOwner i)"
    and run: "handleLeaseCreated S e clk s i p = (None, s')"
  shows "(\<exists>r. lv s' (LeaseKey i) = Some r \<and> lState r = ''active'' \<and> lPrice r = p) \<and>
    (\<forall>old. bv s (LeaseKey i) = Some old \<longrightarrow> (\<exists>v. bv s' (LeaseKey i) = Some (old\<lparr>bState := ''matched'', bRecordVersion := v\<rparr>)))"
proof -
  let ?l = "zero_lease\<lparr>lID := i, lState := ''active'', lPrice := p, lCreatedAt := clk 0\<rparr>"
  from run w obtain t where put: "opPutLease S s ?l = (None, t)"
    and bid: "guard t (opGetBid S t (lease_as_bid i)) (\<lambda>bid. case bid of None \<Rightarrow> (None, t)
      | Some b \<Rightarrow> opPutBid S t (b\<lparr>bState := ''matched''\<rparr>)) = (None, s')"
    by (auto simp: handleLeaseCreated_def seq_None_iff lease_as_bid_def)
  from put_lease [OF ok lease_update_exact(1) [OF x] put] obtain v where
    t: "ok t" "bv t = bv s" "lv t = (lv s)(LeaseKey i \<mapsto> ?l\<lparr>lRecordVersion := v\<rparr>)" by auto
  show ?thesis
  proof (cases "bv s (LeaseKey i)")
    case None
    with bid t show ?thesis by (auto simp: get_bid)
  next
    case (Some b)
    with bid t have put2: "opPutBid S t (b\<lparr>bState := ''matched''\<rparr>) = (None, s')" by (simp add: get_bid)
    from bv_ok [OF ok Some] put_bid [OF t(1) bid_update_exact(3) put2] t Some show ?thesis by auto
  qed
qed

lemmas handler_effects = handleDeploymentCreated_effect handleDeploymentUpdated_effect handleDeploymentClosed_effect
  handleBidCreated_effect handleBidClosed_effect handleLeaseClosed_effect handleLeaseCreated_effect

end

context json_store
begin

lemmas bolt_handler_effects = sync.handler_effects

lemmas bolt_HandleEvent_framed = sync.HandleEvent_framed [unfolded sync.framed_def]

lemmas bolt_reconcile_keeps = sync.fullReconcile_keeps [unfolded sync.keeps_local_def sync.querier_exact_def]

lemmas bolt_reconcile_installs = sync.fullReconcile_installs [unfolded sync.querier_exact_def]

end

text \<open>
   An event changes only the deployment, the lease and the bid it names; an event of an
  account that is not tracked changes nothing; and the store stays well-formed, also when a
  handler fails half way.
\<close>

theorem HandleEvent_frame:
  assumes env: "json_store E ux" and ok: "sok E ux db" and x: "event_exact ux ev"
    and run: "HandleEvent (bolt_ops E) e clk db ev = (r, db')"
  shows "sok E ux db' \<and> touches (event_dep ev) (dep_view E) db db' \<and> touches (event_lease ev) (lease_view E) db db' \<and>
    touches (event_bid ev) (bid_view E) db db' \<and>
    ((\<forall>w. event_owner ev = Some w \<longrightarrow> \<not> isTracked e w) \<longrightarrow> r = None \<and> db' = db)"
proof -
  note framed = json_store.bolt_HandleEvent_framed [OF env ok x, of e clk, unfolded run snd_conv]
  have "r = None \<and> db' = db" if "\<forall>w. event_owner ev = Some w \<longrightarrow> \<not> isTracked e w"
    using that run by (cases ev) (auto simp: HandleEvent_def handleDeploymentCreated_def handleDeploymentUpdated_def
      handleDeploymentClosed_def handleBidCreated_def handleBidClosed_def handleLeaseCreated_def handleLeaseClosed_def)
  with framed show ?thesis by simp
qed

theorem HandleEvent_frame_witness:
  "HandleEvent (bolt_ops ref_ext) (New [''o'']) (\<lambda>_. 5) sample_store2 (EventLeaseClosed ((lID sample_lease)\<lparr>liOwner := ''x''\<rparr>))
     = (None, sample_store2)"
proof -
  have "sok ref_ext any sample_store2" using sample_store2_ok by (simp add: exact_any)
  from HandleEvent_frame [OF refj.json_store_axioms this _ surjective_pairing,
      of "EventLeaseClosed ((lID sample_lease)\<lparr>liOwner := ''x''\<rparr>)" "New [''o'']" "\<lambda>_. 5"]
  show ?thesis by (auto simp: isTracked_def New_def prod_eq_iff)
qed

lemma sok_gets:
  assumes "json_store E ux" "sok E ux db"
  shows "GetDeployment E db w n = Inr (dep_view E db (DeploymentKey w n))"
    "GetLease E db i = Inr (lease_view E db (LeaseKey i))" "GetBid E db j = Inr (bid_view E db (BidKey j))"
  using assms store_env.GetDeployment_view store_env.GetLease_view store_env.GetBid_view
  by (fastforce simp: store_ok_def json_store_def)+

text \<open>
   What a handled event of a tracked account leaves in the store: a created or updated
  deployment carries the event's hash, a closed deployment, bid or lease is stored closed
  with its other fields kept, a new lease is active and its bid, if known, is matched.
\<close>

theorem HandleEvent_effect:
  assumes env: "json_store E ux" and ok: "sok E ux db" and x: "event_exact ux ev"
    and w: "event_owner ev = Some w" "isTracked e w"
    and run: "HandleEvent (bolt_ops E) e clk db ev = (None, db')"
  shows "case ev of
      EventDeploymentCreated w n h \<Rightarrow>
        \<exists>r. GetDeployment E db' w n = Inr (Some r) \<and> dState r = ''active'' \<and> dVersion r = h \<and> dCreatedAt r = clk 0
    | EventDeploymentUpdated w n h \<Rightarrow>
        \<exists>r. GetDeployment E db' w n = Inr (Some r) \<and> dVersion r = h \<and>
          (\<forall>old. GetDeployment E db w n = Inr (Some old) \<longrightarrow>
            r = old\<lparr>dVersion := h, dUpdatedAt := clk 0, dRecordVersion := dRecordVersion r\<rparr>)
    | EventDeploymentClosed w n \<Rightarrow>
        \<exists>r. GetDeployment E db' w n = Inr (Some r) \<and> dState r = ''closed'' \<and>
          (\<forall>old. GetDeployment E db w n = Inr (Some old) \<longrightarrow>
            r = old\<lparr>dState := ''closed'', dClosedAt := clk 0, dUpdatedAt := clk 0, dRecordVersion := dRecordVersion r\<rparr>)
    | EventBidCreated i p \<Rightarrow>
        \<exists>r. GetBid E db' i = Inr (Some r) \<and> bState r = ''open'' \<and> bPrice r = p
    | EventBidClosed i \<Rightarrow>
        \<exists>r. GetBid E db' i = Inr (Some r) \<and> bState r = ''closed'' \<and>
          (\<forall>old. GetBid E db i = Inr (Some old) \<longrightarrow> r = old\<lparr>bState := ''closed'', bRecordVersion := bRecordVersion r\<rparr>)
    | EventLeaseCreated i p \<Rightarrow>
        (\<exists>r. GetLease E db' i = Inr (Some r) \<and> lState r = ''active'' \<and> lPrice r = p) \<and>
        (\<forall>old. GetBid E db (lease_as_bid i) = Inr (Some old) \<longrightarrow>
          (\<exists>v. GetBid E db' (lease_as_bid i) = Inr (Some (old\<lparr>bState := ''matched'', bRecordVersion := v\<rparr>))))
    | EventLeaseClosed i \<Rightarrow>
        \<exists>r. GetLease E db' i = Inr (Some r) \<and> lState r = ''closed'' \<and>
          (\<forall>old. GetLease E db i = Inr (Some old) \<longrightarrow>
            r = old\<lparr>lState := ''closed'', lClosedAt := clk 0, lRecordVersion := lRecordVersion r\<rparr>)
    | OtherEvent \<Rightarrow> True"
proof -
  have ok': "sok E ux db'" using json_store.bolt_HandleEvent_framed [OF env ok x, of e clk] run by simp
  note gets = sok_gets [OF env ok] sok_gets [OF env ok']
  note effects = json_store.bolt_handler_effects [OF env ok]
  show ?thesis
    using x w run by (cases ev) (auto simp: HandleEvent_def gets dest: effects)
qed

theorem HandleEvent_effect_witness:
  "\<exists>r. GetLease ref_ext (snd (HandleEvent (bolt_ops ref_ext) (New [''o'']) (\<lambda>_. 5) sample_store2 (EventLeaseClosed (lID sample_lease))))
     (lID sample_lease) = Inr (Some r) \<and> lState r = ''closed''"
proof -
  let ?ev = "EventLeaseClosed (lID sample_lease)"
  let ?run = "HandleEvent (bolt_ops ref_ext) (New [''o'']) (\<lambda>_. 5) sample_store2 ?ev"
  have run: "fst ?run = None" by code_simp
  have ok: "sok ref_ext any sample_store2" using sample_store2_ok by (simp add: exact_any)
  have "event_owner ?ev = Some ''o''" "isTracked (New [''o'']) ''o''"
    by (simp_all add: sample_lease_def isTracked_def New_def)
  from HandleEvent_effect [OF refj.json_store_axioms ok _ this fst_pair [OF run]] show ?thesis by auto
qed

section \<open>Reconciliation\<close>

definition querier_ux :: "(string \<Rightarrow> bool) \<Rightarrow> 'e Querier \<Rightarrow> bool" where
  "querier_ux ux q \<longleftrightarrow>
     (\<forall>owner ds. qDeployments q owner = Inr ds \<longrightarrow> (\<forall>d \<in> set ds. dep_exact ux d)) \<and>
     (\<forall>owner n ls. qLeases q owner n = Inr ls \<longrightarrow> (\<forall>l \<in> set ls. lease_exact ux l)) \<and>
     (\<forall>owner n bs. qBids q owner n = Inr bs \<longrightarrow> (\<forall>b \<in> set bs. bid_exact ux b))"

text \<open>
  C7.  A full reconciliation, also one that fails half way, loses no deployment, no lease and no
  bid and keeps what the chain does not know: SDL path and hash, deposit, labels, notes, tags,
  the recorded times, provider URI and endpoints; a bid keeps its creation time and does not
  lose its provider attributes, and keeps these and the audit mark as they are when no report of
  the bid carries attributes; revisions never go down.
\<close>

theorem fullReconcile_keeps_local:
  assumes env: "json_store E ux" and ok: "sok E ux db" and q: "querier_ux ux q"
    and run: "fullReconcile (bolt_ops E) e q now db = (r, (stats, db'))"
  shows "sok E ux db' \<and>
    (\<forall>w n old. GetDeployment E db w n = Inr (Some old) \<longrightarrow>
      (\<exists>new. GetDeployment E db' w n = Inr (Some new) \<and> same_local old new)) \<and>
    (\<forall>i old. GetLease E db i = Inr (Some old) \<longrightarrow>
      (\<exists>new. GetLease E db' i = Inr (Some new) \<and> same_local_lease old new)) \<and>
    (\<forall>i old. GetBid E db i = Inr (Some old) \<longrightarrow>
      (\<exists>new. GetBid E db' i = Inr (Some new) \<and> same_local_bid (reported_bids q) old new))"
proof -
  have k: "sok E ux db' \<and> (\<forall>k x. dep_view E db k = Some x \<longrightarrow> (\<exists>y. dep_view E db' k = Some y \<and> same_local x y)) \<and>
     (\<forall>k x. lease_view E db k = Some x \<longrightarrow> (\<exists>y. lease_view E db' k = Some y \<and> same_local_lease x y)) \<and>
     (\<forall>k x. bid_view E db k = Some x \<longrightarrow> (\<exists>y. bid_view E db' k = Some y \<and> same_local_bid (reported_bids q) x y))"
    using json_store.bolt_reconcile_keeps [OF env _ ok run] q by (simp add: querier_ux_def)
  then have ok': "sok E ux db'" by simp
  with k show ?thesis by (simp add: sok_gets [OF env ok] sok_gets [OF env ok'])
qed

definition sample_querier :: "store_err Querier" where
  "sample_querier = \<lparr>qCurrentHeight = Inr 2000, qDeployments = (\<lambda>w. Inr [zero_deployment\<lparr>dOwner := w, dDSeq := 7, dState := ''closed''\<rparr>]),
     qLeases = (\<lambda>w n. Inr []), qBids = (\<lambda>w n. Inr [])\<rparr>"

lemma sample_querier_ux: "querier_ux any sample_querier"
  by (simp add: querier_ux_def exact_any)

theorem fullReconcile_keeps_local_witness:
  "\<exists>old new. GetLease ref_ext sample_store2 (lID sample_lease) = Inr (Some old) \<and>
     GetLease ref_ext (snd (snd (fullReconcile (bolt_ops ref_ext) (New [''o'']) sample_querier 9 sample_store2))) (lID sample_lease)
        = Inr (Some new) \<and> lEndpoints new = lEndpoints old"
proof -
  have ok: "sok ref_ext any sample_store2" using sample_store2_ok by (simp add: exact_any)
  from fullReconcile_keeps_local [OF refj.json_store_axioms ok sample_querier_ux, of "New [''o'']" 9]
    surjective_pairing [of "fullReconcile (bolt_ops ref_ext) (New [''o'']) sample_querier 9 sample_store2"]
    surjective_pairing [of "snd (fullReconcile (bolt_ops ref_ext) (New [''o'']) sample_querier 9 sample_store2)"]
  have "\<forall>i old. GetLease ref_ext sample_store2 i = Inr (Some old) \<longrightarrow> (\<exists>new. GetLease ref_ext
      (snd (snd (fullReconcile (bolt_ops ref_ext) (New [''o'']) sample_querier 9 sample_store2))) i = Inr (Some new) \<and>
      same_local_lease old new)" by metis
  moreover have "map_sum id (map_option lState) (GetLease ref_ext sample_store2 (lID sample_lease)) = Inr (Some ''active'')"
    by code_simp
  then obtain old where "GetLease ref_ext sample_store2 (lID sample_lease) = Inr (Some old)"
    by (cases "GetLease ref_ext sample_store2 (lID sample_lease)") auto
  ultimately show ?thesis unfolding same_local_lease_def by metis
qed

text \<open>
  C8.  After a successful full reconciliation every deployment the chain reported for a
  tracked account is stored with the chain's state, version, balance, transfers and height
  (when no two reports have the same owner and number).
\<close>

theorem fullReconcile_installs_chain_state:
  assumes env: "json_store E ux" and ok: "sok E ux db" and q: "querier_ux ux q"
    and run: "fullReconcile (bolt_ops E) e q now db = (None, (stats, db'))"
    and w: "w \<in> set (tracked e)" "qDeployments q w = Inr ds" "d \<in> set ds"
    and uniq: "inj_on (\<lambda>d. (dOwner d, dDSeq d)) (reported q e)"
  shows "\<exists>r. GetDeployment E db' (dOwner d) (dDSeq d) = Inr (Some r) \<and> same_chain d r"
proof -
  have inj: "inj_on dKey (reported q e)" using uniq by (auto simp: inj_on_def)
  have "\<exists>y. dep_view E db' (dKey d) = Some y \<and> same_chain d y"
    using json_store.bolt_reconcile_installs [OF env _ ok run _ inj, of d] q w by (auto simp: querier_ux_def reported_def)
  moreover have ok': "sok E ux db'"
    using json_store.bolt_reconcile_keeps [OF env _ ok run] q by (simp add: querier_ux_def)
  ultimately show ?thesis by (simp add: sok_gets [OF env ok'])
qed

theorem fullReconcile_installs_chain_state_witness:
  "\<exists>r. GetDeployment ref_ext (snd (snd (fullReconcile (bolt_ops ref_ext) (New [''o'']) sample_querier 9 sample_store))) ''o'' 7
     = Inr (Some r) \<and> dState r = ''closed''"
proof -
  let ?run = "fullReconcile (bolt_ops ref_ext) (New [''o'']) sample_querier 9 sample_store"
  let ?d = "zero_deployment\<lparr>dOwner := ''o'', dDSeq := 7, dState := ''closed''\<rparr>"
  have ok: "sok ref_ext any sample_store" using sample_store_ok by (simp add: exact_any)
  have "fst ?run = None" by code_simp
  then have run: "?run = (None, (fst (snd ?run), snd (snd ?run)))" by (simp add: prod_eq_iff)
  have "inj_on (\<lambda>d. (dOwner d, dDSeq d)) (reported sample_querier (New [''o'']))"
    by (auto simp: inj_on_def reported_def sample_querier_def New_def)
  from fullReconcile_installs_chain_state [OF refj.json_store_axioms ok sample_querier_ux run _ _ _ this, of "''o''" "[?d]" ?d]
  show ?thesis by (auto simp: New_def sample_querier_def same_chain_def)
qed

text \<open>
   \<open>Reconcile\<close> reads the chain only when needed: with a sync state no more than 1000
  blocks behind it writes the new height and nothing else; without one, or further behind,
  it is the full reconciliation followed by that write.  (Heights are non-negative int64.)
\<close>

theorem Reconcile_gap:
  assumes ss: "opGetSyncState S s = Inr ss" and h: "qCurrentHeight q = Inr height" "0 \<le> height" "height < 2 ^ 63"
    and st: "\<forall>st. ss = Some st \<longrightarrow> 0 \<le> sLastBlockHeight st \<and> sLastBlockHeight st < 2 ^ 63"
  shows "Reconcile S e q clk s =
    (if \<exists>st. ss = Some st \<and> height \<le> sLastBlockHeight st + 1000
     then putSyncState S e (clk 0) s height
     else case fullReconcile S e q (clk 0) s of
            (Some err, (_, s')) \<Rightarrow> (Some err, s')
          | (None, (_, s')) \<Rightarrow> putSyncState S e (clk 1) s' height)"
proof (cases ss)
  case None
  with ss h show ?thesis by (simp add: Reconcile_def)
next
  case (Some st)
  with assms have "wrap_i64 (height - sLastBlockHeight st) = height - sLastBlockHeight st"
    by (intro wrap_i64_id) (auto simp: is_i64_def)
  with Some ss h show ?thesis by (auto simp: Reconcile_def gapThreshold_def)
qed

theorem Reconcile_gap_witness:
  "Reconcile (bolt_ops ref_ext) (New [''o'']) sample_querier (\<lambda>_. 4) sample_store =
     (case fullReconcile (bolt_ops ref_ext) (New [''o'']) sample_querier 4 sample_store of
        (Some err, (_, s')) \<Rightarrow> (Some err, s')
      | (None, (_, s')) \<Rightarrow> putSyncState (bolt_ops ref_ext) (New [''o'']) 4 s' 2000)"
proof -
  have "opGetSyncState (bolt_ops ref_ext) sample_store = Inr None" by code_simp
  from Reconcile_gap [OF this, of sample_querier 2000 "New [''o'']" "\<lambda>_. 4"] show ?thesis
    by (simp add: sample_querier_def)
qed

section \<open>Backoff\<close>

lemma is_i64_pos: "0 \<le> x \<Longrightarrow> x \<le> 9223372036854775807 \<Longrightarrow> is_i64 x"
  by (simp add: is_i64_def)

lemma shl_second:
  assumes "k \<le> 33"
  shows "shl_i64 second k = second * 2 ^ k"
proof -
  have "(2::int) ^ k \<le> 8589934592" using power_increasing [OF assms, of "2::int"] by simp
  then have "is_i64 (second * 2 ^ k)" by (intro is_i64_pos) (simp_all add: second_def)
  with assms show ?thesis by (simp add: shl_i64_def)
qed

lemma shl_second_zero:
  assumes "55 \<le> k"
  shows "shl_i64 second k = 0"
proof (cases "64 \<le> k")
  case False
  obtain j where j: "k = 55 + j" using assms le_Suc_ex by blast
  have "second * 2 ^ k = 2 ^ 64 * (1953125 * 2 ^ j)" unfolding j power_add by (simp add: second_def)
  moreover have "wrap_i64 (2 ^ 64 * x) = 0" for x unfolding wrap_i64_def mod_mult_self4 by simp
  ultimately show ?thesis using False unfolding shl_i64_def by (simp only: if_False)
qed (simp add: shl_i64_def)

text \<open>
  C35.  The reconnection delay of attempt \<open>n \<le> 33\<close> is at least the capped exponential
  \<open>min (2\<^sup>n) 60\<close> seconds and less than one and a half times that, for every random choice;
  at attempt 34 and from attempt 55 on the shift has overflowed to a value that is not positive,
  and the call panics instead of returning the cap.
\<close>

theorem BackoffDelay_bounds:
  assumes rnd: "\<And>n. 0 < n \<Longrightarrow> 0 \<le> rnd n \<and> rnd n < n" and n: "0 \<le> n" "n \<le> 33"
  shows "\<exists>d. BackoffDelay rnd n = Some d \<and> min (2 ^ nat n) 60 * second \<le> d \<and> 2 * d < 3 * (min (2 ^ nat n) 60 * second) \<and>
    BackoffDelay rnd 34 = None \<and> (\<forall>k. 55 \<le> k \<and> k < 2 ^ 63 \<longrightarrow> BackoffDelay rnd k = None)"
proof -
  define b where "b = min (2 ^ nat n) 60 * second"
  have shl: "shl_i64 second (nat (n mod 2 ^ 64)) = second * 2 ^ nat n"
    using n by (simp add: shl_second)
  have base: "(if 60 * second < second * 2 ^ nat n then 60 * second else second * 2 ^ nat n) = b"
    by (auto simp: b_def min_def second_def)
  have "(1::int) \<le> 2 ^ nat n" by simp
  then have bounds: "1000000000 \<le> b" "b \<le> 60000000000" by (auto simp: b_def second_def min_def)
  have "even b" by (simp add: b_def second_def)
  then have half: "2 * (b div 2) = b" by simp
  with bounds rnd have r: "0 \<le> rnd (b div 2)" "rnd (b div 2) < b div 2" by auto
  have wrap: "wrap_i64 (b + rnd (b div 2)) = b + rnd (b div 2)"
    using bounds half r by (intro wrap_i64_id is_i64_pos) linarith+
  have "BackoffDelay rnd n = Some (b + rnd (b div 2))"
    using half bounds unfolding BackoffDelay_def Let_def shl base by (simp add: wrap)
  moreover have "BackoffDelay rnd 34 = None"
    by (simp add: BackoffDelay_def shl_i64_def second_def wrap_i64_def Let_def)
  moreover have "BackoffDelay rnd k = None" if "55 \<le> k" "k < 2 ^ 63" for k
    using that shl_second_zero [of "nat k"] unfolding BackoffDelay_def Let_def by (simp add: second_def)
  moreover have "b \<le> b + rnd (b div 2)" using r by linarith
  moreover have "2 * rnd (b div 2) < 2 * (b div 2)" using r by simp
  then have "2 * (b + rnd (b div 2)) < 3 * b" unfolding half by simp
  ultimately show ?thesis unfolding b_def by blast
qed

theorem BackoffDelay_bounds_witness:
  "\<exists>d. BackoffDelay (\<lambda>n. 0) 10 = Some d \<and> 60 * second \<le> d \<and> BackoffDelay (\<lambda>n. 0) 34 = None"
  using BackoffDelay_bounds [of "\<lambda>n. 0" 10] by auto

end
