(* ===== verification/Chain_Querier.thy ===== *)
theory Chain_Querier
  imports Sync_Engine
begin

text \<open>
  The querier the reconciliation uses against a live node (\<open>src/internal/sync/querier.go\<close>).

  The node is a parameter (\<open>node\<close>): its sync info and one page of a listing per
  continuation key.  A response carries the fields the code reads; rendering coins is the
  SDK's (\<open>coins\<close>), fetching provider metadata is a parameter as well.  Walking the pages
  is a loop that ends only if the node does not invent new keys for ever, so it runs on
  fuel; \<open>None\<close> is running out of it.
\<close>

section \<open>Responses\<close>

datatype Deployment_State = DeploymentActive | DeploymentClosed | DeploymentStateOther int

datatype Lease_State = LeaseActive | LeaseInsufficientFunds | LeaseClosed | LeaseStateOther int

datatype Bid_State = BidOpen | BidActive | BidLost | BidClosed | BidStateOther int

type_synonym 'c coin = "string \<times> 'c"

record 'c chain_deployment =
  cdOwner :: string
  cdDSeq :: u64
  cdState :: Deployment_State
  cdHash :: bytes
  cdCreatedAt :: int
  cdFunds :: "'c coin list"
  cdTransferred :: "'c coin list"

record chain_lease =
  clID :: LeaseID
  clState :: Lease_State
  clPrice :: string

record chain_bid =
  cbID :: BidID
  cbState :: Bid_State
  cbPrice :: string

text \<open>One page: the response (\<open>None\<close> is nil) and its pagination (\<open>None\<close> is nil).\<close>

record 'a page =
  pgItems :: "'a list option"
  pgPagination :: "bytes option"

record sync_info =
  siCatchingUp :: bool
  siLatestBlockHeight :: int

record ('e, 'c) node =
  nodeSyncInfo :: "'e + sync_info"
  nodeDeployments :: "string \<Rightarrow> bytes \<Rightarrow> nat \<Rightarrow> 'e + 'c chain_deployment page"
  nodeLeases :: "string \<Rightarrow> u64 \<Rightarrow> bytes \<Rightarrow> nat \<Rightarrow> 'e + chain_lease page"
  nodeBids :: "string \<Rightarrow> u64 \<Rightarrow> bytes \<Rightarrow> nat \<Rightarrow> 'e + chain_bid page"

datatype 'e query_err =
    SyncInfoFailed 'e | NodeCatchingUp int
  | QueryFailed 'e | RepeatedPageKey bytes

definition queryPageLimit :: nat where
  "queryPageLimit = 100"

definition CurrentHeight :: "('e, 'c) node \<Rightarrow> 'e query_err + int" where
  "CurrentHeight nd =
     rbind (map_err SyncInfoFailed (nodeSyncInfo nd)) (\<lambda>info.
     rbind (fail_if (siCatchingUp info) (NodeCatchingUp (siLatestBlockHeight info))) (\<lambda>_.
       Inr (siLatestBlockHeight info)))"

section \<open>Conversions\<close>

definition deploymentState :: "Deployment_State \<Rightarrow> string" where
  "deploymentState s = (case s of DeploymentActive \<Rightarrow> ''active'' | DeploymentClosed \<Rightarrow> ''closed'' | _ \<Rightarrow> [])"

definition leaseState :: "Lease_State \<Rightarrow> string" where
  "leaseState s = (case s of LeaseActive \<Rightarrow> ''active'' | LeaseInsufficientFunds \<Rightarrow> ''insufficient_funds''
     | LeaseClosed \<Rightarrow> ''closed'' | _ \<Rightarrow> [])"

definition bidState :: "Bid_State \<Rightarrow> string" where
  "bidState s = (case s of BidOpen \<Rightarrow> ''open'' | BidActive \<Rightarrow> ''matched'' | BidLost \<Rightarrow> ''lost'' | BidClosed \<Rightarrow> ''closed'' | _ \<Rightarrow> [])"

definition decCoinsString :: "('c coin list \<Rightarrow> string) \<Rightarrow> 'c coin list \<Rightarrow> string" where
  "decCoinsString coins cs = (if length cs = 0 then [] else coins cs)"

definition balancesString :: "('c coin list \<Rightarrow> string) \<Rightarrow> 'c coin list \<Rightarrow> string" where
  "balancesString coins funds =
     (if length funds = 0 then [] else decCoinsString coins (map (\<lambda>(denom, amount). (denom, amount)) funds))"

definition deploymentRecords ::
  "('c coin list \<Rightarrow> string) \<Rightarrow> 'c chain_deployment page \<Rightarrow> int \<Rightarrow> DeploymentRecord list" where
  "deploymentRecords coins res now =
     (case pgItems res of
        None \<Rightarrow> []
      | Some ds \<Rightarrow> map (\<lambda>d. zero_deployment\<lparr>dOwner := cdOwner d, dDSeq := cdDSeq d, dState := deploymentState (cdState d),
            dVersion := cdHash d, dCreatedHeight := cdCreatedAt d, dUpdatedAt := now,
            dEscrowBalance := balancesString coins (cdFunds d), dTransferred := decCoinsString coins (cdTransferred d)\<rparr>) ds)"

definition leaseRecords :: "chain_lease page \<Rightarrow> LeaseRecord list" where
  "leaseRecords res =
     (case pgItems res of
        None \<Rightarrow> []
      | Some ls \<Rightarrow> map (\<lambda>l. zero_lease\<lparr>lID := clID l, lState := leaseState (clState l), lPrice := clPrice l\<rparr>) ls)"

definition bidRecords :: "chain_bid page \<Rightarrow> BidRecord list" where
  "bidRecords res =
     (case pgItems res of
        None \<Rightarrow> []
      | Some bs \<Rightarrow> map (\<lambda>b. zero_bid\<lparr>bID := cbID b, bState := bidState (cbState b), bPrice := cbPrice b\<rparr>) bs)"

record Metadata =
  mdAttributes :: "string \<rightharpoonup> string"
  mdAudited :: bool

definition applyBidMetadata :: "BidRecord list \<Rightarrow> (string \<rightharpoonup> Metadata) \<Rightarrow> BidRecord list" where
  "applyBidMetadata records metadata =
     map (\<lambda>r. case metadata (biProvider (bID r)) of
                None \<Rightarrow> r
              | Some m \<Rightarrow> r\<lparr>bProviderAttributes := Some (mdAttributes m), bProviderAudited := mdAudited m\<rparr>) records"

section \<open>Walking the pages\<close>

definition nextPageKey :: "bytes option \<Rightarrow> bytes" where
  "nextPageKey p = (case p of None \<Rightarrow> [] | Some k \<Rightarrow> k)"

text \<open>The next key (empty at the end) and the keys seen after it.\<close>

definition unseenNextPageKey :: "bytes option \<Rightarrow> bytes set \<Rightarrow> 'e query_err + bytes \<times> bytes set" where
  "unseenNextPageKey p seen =
     (let nextKey = nextPageKey p in
      if length nextKey = 0 then Inr ([], seen)
      else if nextKey \<in> seen then Inl (RepeatedPageKey nextKey)
      else Inr (nextKey, insert nextKey seen))"

text \<open>The loop the three listings share; \<open>conv\<close> turns a page into store records.\<close>

fun walk_pages ::
  "nat \<Rightarrow> (bytes \<Rightarrow> 'e + 'a page) \<Rightarrow> ('a page \<Rightarrow> 'r list) \<Rightarrow> bytes \<Rightarrow> bytes set \<Rightarrow> 'r list
    \<Rightarrow> ('e query_err + 'r list) option" where
  "walk_pages 0 fetch conv nextKey seen out = None"
| "walk_pages (Suc fuel) fetch conv nextKey seen out =
     (case fetch nextKey of
        Inl e \<Rightarrow> Some (Inl (QueryFailed e))
      | Inr res \<Rightarrow>
          (case unseenNextPageKey (pgPagination res) seen of
             Inl e \<Rightarrow> Some (Inl e)
           | Inr (nextKey, seen) \<Rightarrow>
               if length nextKey = 0 then Some (Inr (out @ conv res))
               else walk_pages fuel fetch conv nextKey seen (out @ conv res)))"

definition querier_Deployments ::
  "nat \<Rightarrow> ('e, 'c) node \<Rightarrow> ('c coin list \<Rightarrow> string) \<Rightarrow> int \<Rightarrow> string \<Rightarrow> ('e query_err + DeploymentRecord list) option" where
  "querier_Deployments fuel nd coins now owner =
     walk_pages fuel (\<lambda>key. nodeDeployments nd owner key queryPageLimit) (\<lambda>res. deploymentRecords coins res now) [] {} []"

definition querier_Leases ::
  "nat \<Rightarrow> ('e, 'c) node \<Rightarrow> string \<Rightarrow> u64 \<Rightarrow> ('e query_err + LeaseRecord list) option" where
  "querier_Leases fuel nd owner dseq =
     walk_pages fuel (\<lambda>key. nodeLeases nd owner dseq key queryPageLimit) leaseRecords [] {} []"

definition querier_Bids ::
  "nat \<Rightarrow> ('e, 'c) node \<Rightarrow> (string list \<Rightarrow> string \<rightharpoonup> Metadata) \<Rightarrow> string \<Rightarrow> u64 \<Rightarrow> ('e query_err + BidRecord list) option" where
  "querier_Bids fuel nd fetchChainMetadata owner dseq =
     map_option (map_sum id (\<lambda>out. applyBidMetadata out (fetchChainMetadata (map (\<lambda>b. biProvider (bID b)) out))))
       (walk_pages fuel (\<lambda>key. nodeBids nd owner dseq key queryPageLimit) bidRecords [] {} [])"

section \<open>Properties of the walk\<close>

text \<open>Keys of a finite set: each page visits a new one, so one page more than keys is enough.\<close>

lemma walk_pages_total:
  assumes "finite K" and keys: "\<And>k res. fetch k = Inr res \<Longrightarrow> nextPageKey (pgPagination res) \<in> insert [] K"
    and "seen \<subseteq> K" and "card K < card seen + fuel"
  shows "\<exists>r. walk_pages fuel fetch conv k seen out = Some r"
  using assms(3,4)
proof (induction fuel arbitrary: k seen out)
  case 0
  with assms(1) card_mono [of K seen] show ?case by simp
next
  case (Suc fuel)
  show ?case
  proof (cases "fetch k")
    case (Inr res)
    let ?n = "nextPageKey (pgPagination res)"
    show ?thesis
    proof (cases "?n = [] \<or> ?n \<in> seen")
      case False
      with keys [OF Inr] Suc.prems have "insert ?n seen \<subseteq> K" by auto
      moreover have "card (insert ?n seen) = Suc (card seen)"
        using False Suc.prems(1) assms(1) by (simp add: finite_subset)
      ultimately show ?thesis
        using Suc.IH [of "insert ?n seen" ?n "out @ conv res"] Suc.prems(2) False Inr
        by (simp add: unseenNextPageKey_def Let_def)
    qed (use Inr in \<open>auto simp: unseenNextPageKey_def Let_def\<close>)
  qed simp
qed

text \<open>
  \<open>chain fetch k ps\<close>: from the key \<open>k\<close> the node serves the pages \<open>ps\<close>, each naming the key of
  the next and the last one none.
\<close>

inductive page_chain :: "(bytes \<Rightarrow> 'e + 'a page) \<Rightarrow> bytes \<Rightarrow> (bytes \<times> 'a page) list \<Rightarrow> bool" for fetch where
  chain_last: "fetch k = Inr p \<Longrightarrow> nextPageKey (pgPagination p) = [] \<Longrightarrow> page_chain fetch k [(k, p)]"
| chain_step: "fetch k = Inr p \<Longrightarrow> nextPageKey (pgPagination p) = k' \<Longrightarrow> k' \<noteq> [] \<Longrightarrow> page_chain fetch k' ps \<Longrightarrow>
    page_chain fetch k ((k, p) # ps)"

lemma page_chain_head: "page_chain fetch k ps \<Longrightarrow> \<exists>p qs. ps = (k, p) # qs"
  by (cases rule: page_chain.cases) auto

lemma walk_pages_chain:
  assumes "page_chain fetch k ps" and "distinct (map fst ps)" and "seen \<inter> set (map fst (tl ps)) = {}" and "length ps \<le> fuel"
  shows "walk_pages fuel fetch conv k seen out = Some (Inr (out @ concat (map (\<lambda>(k, p). conv p) ps)))"
  using assms
proof (induction arbitrary: fuel seen out rule: page_chain.induct)
  case (chain_last k p)
  then show ?case by (cases fuel) (auto simp: unseenNextPageKey_def Let_def)
next
  case (chain_step k p k' ps)
  from page_chain_head [OF chain_step.hyps(4)] obtain q qs where ps: "ps = (k', q) # qs" by blast
  from chain_step.prems ps obtain n where n: "fuel = Suc n" "length ps \<le> n" by (cases fuel) auto
  have "walk_pages n fetch conv k' (insert k' seen) (out @ conv p) =
      Some (Inr ((out @ conv p) @ concat (map (\<lambda>(k, p). conv p) ps)))"
    using chain_step.prems ps n by (intro chain_step.IH) auto
  with chain_step n ps show ?case by (auto simp: unseenNextPageKey_def Let_def)
qed

lemma page_chain_keys:
  assumes "page_chain fetch k ps" and keys: "\<And>k res. fetch k = Inr res \<Longrightarrow> nextPageKey (pgPagination res) \<in> insert [] K"
  shows "set (map fst (tl ps)) \<subseteq> K - {[]}"
  using assms(1)
proof (induction rule: page_chain.induct)
  case (chain_step k p k' ps)
  from page_chain_head [OF chain_step.hyps(4)] obtain q qs where "ps = (k', q) # qs" by blast
  with chain_step keys [OF chain_step.hyps(1)] show ?case by auto
qed simp

text \<open>The page of \<open>k\<close> names \<open>k'\<close> as the key of the next page.\<close>

definition leads :: "(bytes \<Rightarrow> 'e + 'a page) \<Rightarrow> bytes \<Rightarrow> bytes \<Rightarrow> bool" where
  "leads fetch k k' \<longleftrightarrow> (\<exists>p. fetch k = Inr p \<and> nextPageKey (pgPagination p) = k' \<and> k' \<noteq> [])"

text \<open>Why a listing fails: a page that is reached is refused, or the keys run in a circle.\<close>

definition walk_failure :: "(bytes \<Rightarrow> 'e + 'a page) \<Rightarrow> 'e query_err \<Rightarrow> bool" where
  "walk_failure fetch e \<longleftrightarrow>
     (\<exists>k x. e = QueryFailed x \<and> (leads fetch)\<^sup>*\<^sup>* [] k \<and> fetch k = Inl x) \<or>
     (\<exists>k. e = RepeatedPageKey k \<and> (leads fetch)\<^sup>*\<^sup>* [] k \<and> (leads fetch)\<^sup>+\<^sup>+ k k)"

lemma walk_pages_result:
  assumes "walk_pages fuel fetch conv k seen out = Some r" and "k \<in> insert [] seen" and "(leads fetch)\<^sup>*\<^sup>* [] k"
    and "\<And>s. s \<in> seen \<Longrightarrow> (leads fetch)\<^sup>*\<^sup>* [] s \<and> (leads fetch)\<^sup>*\<^sup>* s k"
  shows "case r of
      Inr ds \<Rightarrow> \<exists>ps. page_chain fetch k ps \<and> distinct (map fst ps) \<and> seen \<inter> set (map fst (tl ps)) = {} \<and>
        ds = out @ concat (map (\<lambda>(k, p). conv p) ps)
    | Inl e \<Rightarrow> walk_failure fetch e"
  using assms
proof (induction fuel arbitrary: k seen out)
  case (Suc fuel)
  show ?case
  proof (cases "fetch k")
    case (Inl x)
    with Suc.prems(1) have "r = Inl (QueryFailed x)" by simp
    with Inl Suc.prems(3) show ?thesis by (auto simp: walk_failure_def)
  next
    case (Inr p)
    let ?n = "nextPageKey (pgPagination p)"
    consider (last) "?n = []" | (again) "?n \<noteq> []" "?n \<in> seen" | (new) "?n \<noteq> []" "?n \<notin> seen" by blast
    then show ?thesis
    proof cases
      case last
      with Suc.prems(1) Inr have "r = Inr (out @ conv p)" by (simp add: unseenNextPageKey_def Let_def)
      with chain_last [where fetch = fetch, OF Inr last] show ?thesis by (auto intro!: exI [of _ "[(k, p)]"])
    next
      case again
      with Inr have "leads fetch k ?n" by (simp add: leads_def)
      with Suc.prems(4) [OF again(2)] have "(leads fetch)\<^sup>*\<^sup>* [] ?n" "(leads fetch)\<^sup>+\<^sup>+ ?n ?n" by auto
      moreover from Suc.prems(1) Inr again have "r = Inl (RepeatedPageKey ?n)" by (simp add: unseenNextPageKey_def Let_def)
      ultimately show ?thesis by (auto simp: walk_failure_def)
    next
      case new
      with Inr have step: "leads fetch k ?n" by (simp add: leads_def)
      from Suc.prems(1) Inr new have run: "walk_pages fuel fetch conv ?n (insert ?n seen) (out @ conv p) = Some r"
        by (simp add: unseenNextPageKey_def Let_def)
      have reach: "(leads fetch)\<^sup>*\<^sup>* [] ?n" using Suc.prems(3) step by simp
      have seen: "(leads fetch)\<^sup>*\<^sup>* [] s \<and> (leads fetch)\<^sup>*\<^sup>* s ?n" if "s \<in> insert ?n seen" for s
        using that Suc.prems(4) [of s] step reach by auto
      note IH = Suc.IH [OF run _ reach seen]
      show ?thesis
      proof (cases r)
        case (Inl e)
        with IH show ?thesis by simp
      next
        case Inr': (Inr ds)
        with IH obtain ps where ps: "page_chain fetch ?n ps" "distinct (map fst ps)" "insert ?n seen \<inter> set (map fst (tl ps)) = {}"
          "ds = (out @ conv p) @ concat (map (\<lambda>(k, p). conv p) ps)" by auto
        from page_chain_head [OF ps(1)] obtain q qs where q: "ps = (?n, q) # qs" by blast
        have "[] \<notin> set (map fst ps)" using page_chain_keys [OF ps(1), where K = UNIV] new(1) q by auto
        moreover have "seen \<inter> set (map fst ps) = {}" using ps(3) new(2) q by auto
        ultimately have "distinct (map fst ((k, p) # ps))" "seen \<inter> set (map fst (tl ((k, p) # ps))) = {}"
          using ps(2) Suc.prems(2) by (force, simp)
        moreover have "page_chain fetch k ((k, p) # ps)" by (rule chain_step [where fetch = fetch, OF Inr refl new(1) ps(1)])
        ultimately show ?thesis using ps(4) Inr' by (simp only: sum.case) (intro exI [of _ "(k, p) # ps"] conjI; simp)
      qed
    qed
  qed
qed simp

text \<open>
  C33.  Listing a tracked account's deployments walks every page.  Against a node that knows
  finitely many keys the walk ends, and it succeeds exactly when the node serves a chain of
  pages with pairwise different keys up to one without a next key: the result is then the
  records of all of them in order, nothing truncated.  Otherwise it fails, with the error of a
  page that was reached, or with a key that leads back to itself; a repeated key never passes
  for the end of the list.
\<close>

theorem querier_Deployments_complete:
  fixes nd :: "('e, 'c) node"
  assumes fetch: "fetch = (\<lambda>key. nodeDeployments nd owner key queryPageLimit)"
    and K: "finite K" "\<forall>k res. fetch k = Inr res \<longrightarrow> nextPageKey (pgPagination res) \<in> insert [] K" and fuel: "card K < fuel"
  shows "\<exists>r. querier_Deployments fuel nd coins now owner = Some r \<and>
    (\<forall>ds. r = Inr ds \<longleftrightarrow> (\<exists>ps. page_chain fetch [] ps \<and> distinct (map fst ps) \<and> ds = concat (map (\<lambda>(k, p). deploymentRecords coins p now) ps))) \<and>
    (\<forall>e. r = Inl e \<longrightarrow> walk_failure fetch e)"
proof -
  let ?walk = "walk_pages fuel fetch (\<lambda>res. deploymentRecords coins res now) [] {} []"
  have walk: "querier_Deployments fuel nd coins now owner = ?walk" by (simp add: querier_Deployments_def fetch)
  have keys: "\<And>k res. fetch k = Inr res \<Longrightarrow> nextPageKey (pgPagination res) \<in> insert [] K" using K(2) by blast
  have "\<exists>r. ?walk = Some r" by (rule walk_pages_total [where K = K]) (use K(1) keys fuel in simp_all)
  then obtain r where r: "?walk = Some r" by blast
  note result = walk_pages_result [OF r]
  have all: "r = Inr (concat (map (\<lambda>(k, p). deploymentRecords coins p now) ps))" if "page_chain fetch [] ps" "distinct (map fst ps)" for ps
  proof -
    have "set (map fst (tl ps)) \<subseteq> K" by (rule order_trans [OF page_chain_keys [where K = K, OF that(1)]]) (use keys in auto)
    moreover have "distinct (map fst (tl ps))" using that(2) by (simp add: distinct_tl map_tl)
    ultimately have "length (tl ps) \<le> card K" using card_mono [OF K(1)] distinct_card [of "map fst (tl ps)"] by (metis length_map)
    then have "length ps \<le> fuel" using fuel by simp
    from walk_pages_chain [OF that _ this, of "{}" "\<lambda>res. deploymentRecords coins res now" "[]"] r show ?thesis by simp
  qed
  have "(\<forall>ds. r = Inr ds \<longrightarrow> (\<exists>ps. page_chain fetch [] ps \<and> distinct (map fst ps) \<and> ds = concat (map (\<lambda>(k, p). deploymentRecords coins p now) ps))) \<and>
      (\<forall>e. r = Inl e \<longrightarrow> walk_failure fetch e)"
    using result by (auto split: sum.splits)
  with all walk r show ?thesis by auto
qed

text \<open>An example: a node with two pages.\<close>

definition sample_node :: "(string, nat) node" where
  "sample_node = \<lparr>nodeSyncInfo = Inl ''down'',
     nodeDeployments = (\<lambda>w k n. if k = [] then Inr \<lparr>pgItems = Some [\<lparr>cdOwner = w, cdDSeq = 1, cdState = DeploymentActive, cdHash = [],
         cdCreatedAt = 5, cdFunds = [(''uakt'', 3)], cdTransferred = []\<rparr>], pgPagination = Some ''x''\<rparr>
       else Inr \<lparr>pgItems = Some [\<lparr>cdOwner = w, cdDSeq = 2, cdState = DeploymentClosed, cdHash = [], cdCreatedAt = 6, cdFunds = [],
         cdTransferred = []\<rparr>], pgPagination = None\<rparr>),
     nodeLeases = (\<lambda>w d k n. Inl ''none''), nodeBids = (\<lambda>w d k n. Inl ''none'')\<rparr>"

theorem querier_Deployments_complete_witness:
  "\<exists>ds. querier_Deployments 2 sample_node (\<lambda>_. ''c'') 9 ''o'' = Some (Inr ds) \<and> map dDSeq ds = [1, 2]"
proof -
  let ?f = "\<lambda>key. nodeDeployments sample_node ''o'' key queryPageLimit"
  obtain p1 p2 where p: "?f [] = Inr p1" "?f ''x'' = Inr p2" by (simp add: sample_node_def)
  then have k: "nextPageKey (pgPagination p1) = ''x''" "nextPageKey (pgPagination p2) = []"
    by (auto simp: sample_node_def nextPageKey_def)
  have chain: "page_chain ?f [] [([], p1), (''x'', p2)]"
    by (rule chain_step [OF p(1) k(1) _ chain_last [where fetch = ?f, OF p(2) k(2)]]) simp
  have keys: "\<forall>k res. ?f k = Inr res \<longrightarrow> nextPageKey (pgPagination res) \<in> insert [] {''x''}"
    by (auto simp: sample_node_def nextPageKey_def split: if_splits)
  have fuel: "card {''x''} < 2" by simp
  have fin: "finite {''x''}" by simp
  let ?ps = "[([], p1), (''x'', p2)]"
  obtain r where r: "querier_Deployments 2 sample_node (\<lambda>_. ''c'') 9 ''o'' = Some r"
    "\<And>ds. r = Inr ds \<longleftrightarrow> (\<exists>ps. page_chain ?f [] ps \<and> distinct (map fst ps) \<and> ds = concat (map (\<lambda>(k, p). deploymentRecords (\<lambda>_. ''c'') p 9) ps))"
    using querier_Deployments_complete [where nd = sample_node and owner = "''o''" and coins = "\<lambda>_. ''c''" and now = 9, OF refl fin keys fuel] by blast
  have "r = Inr (concat (map (\<lambda>(k, p). deploymentRecords (\<lambda>_. ''c'') p 9) ?ps))"
    unfolding r(2) using chain by (intro exI [of _ ?ps]) simp
  with r(1) p show ?thesis by (auto simp: sample_node_def deploymentRecords_def)
qed

end
