(* ===== verification/Go_Files.thy ===== *)
theory Go_Files
  imports Go_Strings
begin

text \<open>
  The part of Go's standard library on paths and files that the source uses, on a Unix
  system: \<open>filepath.Clean\<close>, \<open>Join\<close> and \<open>Dir\<close>, and \<open>os.MkdirAll\<close>, \<open>Stat\<close>, \<open>Rename\<close>, \<open>Remove\<close>, \<open>RemoveAll\<close>,
  \<open>ReadFile\<close>, \<open>WriteFile\<close> and \<open>Chmod\<close> on a file system that maps clean paths to directories
  and files.  What the operating system refuses (permissions, a full disk) is a parameter.
\<close>

section \<open>Paths\<close>

definition clean_step :: "bool \<Rightarrow> string list \<Rightarrow> string \<Rightarrow> string list" where
  "clean_step rooted st e =
     (if e = [] \<or> e = ''.'' then st
      else if e = ''..'' then
        (if st \<noteq> [] \<and> last st \<noteq> ''..'' then butlast st else if rooted then st else st @ [''..''])
      else st @ [e])"

definition clean_elems :: "bool \<Rightarrow> string \<Rightarrow> string list" where
  "clean_elems rooted p = foldl (clean_step rooted) [] (split_on CHR ''/'' p)"

definition filepath_Clean :: "string \<Rightarrow> string" where
  "filepath_Clean p =
     (let rooted = (p \<noteq> [] \<and> hd p = CHR ''/''); es = clean_elems rooted p in
      if rooted then CHR ''/'' # join_with ''/'' es
      else if es = [] then ''.''
      else join_with ''/'' es)"

definition filepath_Join :: "string list \<Rightarrow> string" where
  "filepath_Join elem =
     (case dropWhile (\<lambda>e. e = []) elem of [] \<Rightarrow> [] | es \<Rightarrow> filepath_Clean (join_with ''/'' es))"

text \<open>\<open>filepath.Dir\<close>: what comes before the last slash, cleaned.\<close>

definition filepath_Dir :: "string \<Rightarrow> string" where
  "filepath_Dir p = filepath_Clean (rev (dropWhile (\<lambda>c. c \<noteq> CHR ''/'') (rev p)))"

text \<open>A plain name is one element of a path.\<close>

definition plain_name :: "string \<Rightarrow> bool" where
  "plain_name e \<longleftrightarrow> e \<noteq> [] \<and> e \<noteq> ''.'' \<and> e \<noteq> ''..'' \<and> CHR ''/'' \<notin> set e"

text \<open>\<open>under p q\<close>: \<open>q\<close> is the path \<open>p\<close> or lies below it.\<close>

definition under :: "string \<Rightarrow> string \<Rightarrow> bool" where
  "under p q \<longleftrightarrow> q = p \<or> has_prefix q (p @ ''/'')"

lemma under_iff: "under p q \<longleftrightarrow> q = p \<or> (\<exists>t. q = p @ CHR ''/'' # t)"
  by (auto simp: under_def has_prefix_iff)

lemma under_refl [simp]: "under p p"
  by (simp add: under_def)

lemma under_child [simp]: "under p (p @ CHR ''/'' # t)"
  by (auto simp: under_iff)

lemma clean_step_plain [simp]: "plain_name e \<Longrightarrow> clean_step r st e = st @ [e]"
  by (simp add: clean_step_def plain_name_def)

lemma split_on_snoc: "c \<notin> set e \<Longrightarrow> split_on c (p @ c # e) = split_on c p @ [e]"
proof (induction p)
  case Nil
  then show ?case by (simp add: split_on_no_sep)
next
  case (Cons x xs)
  then show ?case by (cases "split_on c xs") auto
qed

lemma clean_elems_snoc:
  "plain_name e \<Longrightarrow> clean_elems r (p @ CHR ''/'' # e) = clean_elems r p @ [e]"
  by (simp add: clean_elems_def split_on_snoc plain_name_def clean_step_def)

lemma join_with_snoc: "xs \<noteq> [] \<Longrightarrow> join_with sep (xs @ [e]) = join_with sep xs @ sep @ e"
proof (induction sep xs rule: join_with.induct)
  case (3 sep x y ys)
  then show ?case by (cases ys) auto
qed auto

text \<open>\<open>rooted\<close>: an absolute path.  A plain name below a path that is not the root is appended as it is.\<close>

definition rooted :: "string \<Rightarrow> bool" where
  "rooted p \<longleftrightarrow> p \<noteq> [] \<and> hd p = CHR ''/''"

definition path_elems :: "string \<Rightarrow> string list" where
  "path_elems p = clean_elems (rooted p) p"

lemma filepath_Clean_elems:
  "filepath_Clean p = (if rooted p then CHR ''/'' # join_with ''/'' (path_elems p)
     else if path_elems p = [] then ''.'' else join_with ''/'' (path_elems p))"
  by (simp add: filepath_Clean_def rooted_def path_elems_def Let_def)

lemma rooted_append [simp]: "p \<noteq> [] \<Longrightarrow> rooted (p @ q) = rooted p"
  by (simp add: rooted_def)

lemma path_elems_snoc: "plain_name e \<Longrightarrow> p \<noteq> [] \<Longrightarrow> path_elems (p @ CHR ''/'' # e) = path_elems p @ [e]"
  by (simp add: path_elems_def clean_elems_snoc)

lemma clean_append:
  assumes "plain_name e" and "path_elems p \<noteq> []"
  shows "filepath_Clean (p @ CHR ''/'' # e) = filepath_Clean p @ CHR ''/'' # e"
proof -
  have p: "p \<noteq> []" using assms(2) by (auto simp: path_elems_def clean_elems_def clean_step_def)
  with assms show ?thesis
    by (simp add: filepath_Clean_elems path_elems_snoc join_with_snoc)
qed

text \<open>Cleaning is idempotent: a cleaned path has only leading dot-dots, and none when rooted.\<close>

definition normal :: "bool \<Rightarrow> string list \<Rightarrow> bool" where
  "normal r es \<longleftrightarrow> (\<exists>k ps. es = replicate k ''..'' @ ps \<and> (\<forall>p \<in> set ps. plain_name p) \<and> (r \<longrightarrow> k = 0))"

lemma normalI: "\<forall>p \<in> set ps. plain_name p \<Longrightarrow> (r \<longrightarrow> k = 0) \<Longrightarrow> normal r (replicate k ''..'' @ ps)"
  by (auto simp: normal_def)

lemma normal_step:
  assumes "normal r es" and "CHR ''/'' \<notin> set e"
  shows "normal r (clean_step r es e)"
proof -
  from assms(1) obtain k ps where es: "es = replicate k ''..'' @ ps" "\<forall>p \<in> set ps. plain_name p" "r \<longrightarrow> k = 0"
    by (auto simp: normal_def)
  show ?thesis
  proof (cases "e = ''..''")
    case True
    show ?thesis
    proof (cases "ps = []")
      case False
      then have "last ps \<noteq> ''..''" using es(2) last_in_set [OF False] by (auto simp: plain_name_def)
      with False es True have "clean_step r es e = replicate k ''..'' @ butlast ps"
        by (simp add: clean_step_def butlast_append)
      with es show ?thesis using normalI [of "butlast ps" r k] by (auto dest: in_set_butlastD)
    next
      case True': True
      then have "clean_step r es e = (if r then es else replicate (Suc k) ''..'' @ [])"
        using es True by (auto simp: clean_step_def replicate_append_same)
      with assms(1) show ?thesis using normalI [of "[]" r "Suc k"] by auto
    qed
  next
    case False
    then have "clean_step r es e = es \<or> plain_name e \<and> clean_step r es e = replicate k ''..'' @ (ps @ [e])"
      using assms(2) es(1) by (auto simp: clean_step_def plain_name_def)
    with es assms(1) show ?thesis using normalI [of "ps @ [e]" r k] by auto
  qed
qed

lemma normal_elems: "normal r (clean_elems r p)"
proof -
  have "normal r es \<Longrightarrow> \<forall>x \<in> set xs. CHR ''/'' \<notin> set x \<Longrightarrow> normal r (foldl (clean_step r) es xs)" for es xs
    by (induction xs arbitrary: es) (simp_all add: normal_step)
  moreover have "normal r []" by (auto simp: normal_def)
  ultimately show ?thesis using split_on_parts by (simp add: clean_elems_def)
qed

lemma foldl_normal:
  assumes "normal r es"
  shows "foldl (clean_step r) [] es = es"
proof -
  from assms obtain k ps where es: "es = replicate k ''..'' @ ps" "\<forall>p \<in> set ps. plain_name p" "r \<longrightarrow> k = 0"
    by (auto simp: normal_def)
  have dots: "\<not> r \<Longrightarrow> foldl (clean_step r) (replicate i ''..'') (replicate j ''..'') = replicate (i + j) ''..''" for i j
  proof (induction j arbitrary: i)
    case (Suc j)
    have "clean_step r (replicate i ''..'') ''..'' = replicate (Suc i) ''..''"
      using Suc.prems by (auto simp: clean_step_def replicate_append_same)
    with Suc.IH [of "Suc i"] Suc.prems show ?case by (simp del: replicate.simps(2) add: replicate_Suc [of j])
  qed simp
  have plain: "\<forall>p \<in> set qs. plain_name p \<Longrightarrow> foldl (clean_step r) st qs = st @ qs" for st qs
    by (induction qs arbitrary: st) simp_all
  have "foldl (clean_step r) [] (replicate k ''..'') = replicate k ''..''"
    using es(3) dots [of 0 k] by (cases r) auto
  then show ?thesis by (simp only: es(1) foldl_append plain [OF es(2)])
qed

lemma normal_no_slash: "normal r es \<Longrightarrow> e \<in> set es \<Longrightarrow> e \<noteq> [] \<and> CHR ''/'' \<notin> set e"
proof -
  assume "normal r es" and "e \<in> set es"
  then obtain k ps where "e \<in> set (replicate k ''..'') \<or> e \<in> set ps" "\<forall>p \<in> set ps. plain_name p"
    unfolding normal_def set_append by (metis UnE set_append)
  moreover have "e \<in> set (replicate k ''..'') \<Longrightarrow> e = ''..''" by (simp add: set_replicate_conv_if split: if_splits)
  ultimately show ?thesis by (force simp: plain_name_def)
qed

lemma clean_elems_clean [simp]: "rooted (filepath_Clean p) = rooted p" "path_elems (filepath_Clean p) = path_elems p"
proof -
  let ?es = "path_elems p"
  have n: "normal (rooted p) ?es" unfolding path_elems_def by (rule normal_elems)
  have split: "?es \<noteq> [] \<Longrightarrow> split_on CHR ''/'' (join_with ''/'' ?es) = ?es"
    using normal_no_slash [OF n] by (intro split_join) auto
  have hd: "\<not> rooted (join_with ''/'' ?es)"
  proof (cases ?es)
    case (Cons e rest)
    with normal_no_slash [OF n, of e] show ?thesis by (cases rest; cases e) (auto simp: rooted_def)
  qed (simp add: rooted_def)
  show r: "rooted (filepath_Clean p) = rooted p"
    using hd by (auto simp: filepath_Clean_elems) (auto simp: rooted_def)
  have "foldl (clean_step (rooted p)) [] (split_on CHR ''/'' (filepath_Clean p)) = ?es"
    using split foldl_normal [OF n]
    by (cases "?es = []") (auto simp: filepath_Clean_elems clean_step_def)
  then show "path_elems (filepath_Clean p) = ?es" unfolding r path_elems_def [of "filepath_Clean p"] clean_elems_def .
qed

lemma filepath_Clean_idem [simp]: "filepath_Clean (filepath_Clean p) = filepath_Clean p"
  by (simp add: filepath_Clean_elems [of "filepath_Clean p"]) (simp add: filepath_Clean_elems)

lemma filepath_Clean_not_Nil [simp]: "filepath_Clean p \<noteq> []"
proof (cases "path_elems p")
  case (Cons e es)
  with normal_no_slash [OF normal_elems, of e "rooted p" p] have "e \<noteq> []" by (simp add: path_elems_def)
  with Cons show ?thesis by (cases es) (simp_all add: filepath_Clean_elems)
qed (simp add: filepath_Clean_elems)

section \<open>The file system\<close>

text \<open>Permission bits, as a number.\<close>

datatype node = Dir nat | File nat string

type_synonym fs = "string \<Rightarrow> node option"

datatype write_outcome = WroteAll | OpenRefused | WroteOnly nat

text \<open>
  The operating system's part: which calls it lets succeed, what it leaves behind in a
  removal, how far a write gets, the mode it gives to a new file, and the environment.
\<close>

record os =
  osMkdir :: "string \<Rightarrow> bool"
  osStat :: "string \<Rightarrow> bool"
  osRename :: "string \<Rightarrow> string \<Rightarrow> bool"
  osRemove :: "string \<Rightarrow> bool"
  osKeeps :: "string \<Rightarrow> bool"
  osRead :: "string \<Rightarrow> bool"
  osWrite :: "string \<Rightarrow> write_outcome"
  osChmod :: "string \<Rightarrow> bool"
  osMask :: "nat \<Rightarrow> nat"
  osGetenv :: "string \<Rightarrow> string"

text \<open>An operating system that lets everything succeed, with an empty environment.\<close>

definition good_os :: os where
  "good_os = \<lparr>osMkdir = (\<lambda>_. True), osStat = (\<lambda>_. True), osRename = (\<lambda>_ _. True), osRemove = (\<lambda>_. True),
     osKeeps = (\<lambda>_. False), osRead = (\<lambda>_. True), osWrite = (\<lambda>_. WroteAll), osChmod = (\<lambda>_. True), osMask = (\<lambda>m. m),
     osGetenv = (\<lambda>_. [])\<rparr>"

datatype os_err = NotExist | OSRefused

text \<open>\<open>os.MkdirAll\<close> makes the missing directories of the path and leaves those that exist.  The empty
  path stands for the root of the file system.\<close>

definition MkdirAll :: "os \<Rightarrow> fs \<Rightarrow> string \<Rightarrow> nat \<Rightarrow> os_err option \<times> fs" where
  "MkdirAll os fs p mode =
     (if \<not> osMkdir os p then (Some OSRefused, fs)
      else (None, \<lambda>q. if under q p \<and> fs q = None then Some (Dir (osMask os mode)) else fs q))"

definition RemoveAll :: "os \<Rightarrow> fs \<Rightarrow> string \<Rightarrow> fs" where
  "RemoveAll os fs p = (\<lambda>q. if under p q \<and> \<not> osKeeps os q then None else fs q)"

definition Remove :: "os \<Rightarrow> fs \<Rightarrow> string \<Rightarrow> os_err option \<times> fs" where
  "Remove os fs p =
     (if fs p = None then (Some NotExist, fs)
      else if \<not> osRemove os p then (Some OSRefused, fs)
      else (None, fs(p := None)))"

text \<open>Whether a rename succeeds is the operating system's; one that does moves the whole tree.\<close>

definition Rename :: "os \<Rightarrow> fs \<Rightarrow> string \<Rightarrow> string \<Rightarrow> os_err option \<times> fs" where
  "Rename os fs old new =
     (if fs old = None \<or> \<not> osRename os old new then (Some OSRefused, fs)
      else (None, \<lambda>q. if under new q then fs (old @ drop (length new) q) else if under old q then None else fs q))"

definition ReadFile :: "os \<Rightarrow> fs \<Rightarrow> string \<Rightarrow> os_err + string" where
  "ReadFile os fs p =
     (case fs p of
        None \<Rightarrow> Inl NotExist
      | Some (Dir _) \<Rightarrow> Inl OSRefused
      | Some (File _ c) \<Rightarrow> if osRead os p then Inr c else Inl OSRefused)"

text \<open>\<open>os.WriteFile\<close> truncates, then writes; an existing file keeps its mode.\<close>

definition WriteFile :: "os \<Rightarrow> fs \<Rightarrow> string \<Rightarrow> string \<Rightarrow> nat \<Rightarrow> os_err option \<times> fs" where
  "WriteFile os fs p data perm =
     (let mode = (case fs p of Some (File m _) \<Rightarrow> m | _ \<Rightarrow> osMask os perm) in
      if (case fs p of Some (Dir _) \<Rightarrow> True | _ \<Rightarrow> False) then (Some OSRefused, fs)
      else case osWrite os p of
        OpenRefused \<Rightarrow> (Some OSRefused, fs)
      | WroteOnly n \<Rightarrow> (Some OSRefused, fs(p \<mapsto> File mode (take n data)))
      | WroteAll \<Rightarrow> (None, fs(p \<mapsto> File mode data)))"

definition Chmod :: "os \<Rightarrow> fs \<Rightarrow> string \<Rightarrow> nat \<Rightarrow> os_err option \<times> fs" where
  "Chmod os fs p mode =
     (if \<not> osChmod os p then (Some OSRefused, fs)
      else case fs p of
        None \<Rightarrow> (Some NotExist, fs)
      | Some (Dir _) \<Rightarrow> (None, fs(p \<mapsto> Dir mode))
      | Some (File _ c) \<Rightarrow> (None, fs(p \<mapsto> File mode c)))"

end
