(* ===== verification/Context_Files.thy ===== *)
theory Context_Files
  imports Go_Files
begin

text \<open>
  Where a context keeps its files (the path functions, \<open>ConfigHome\<close> and \<open>EnsureContextDirs\<close> of
  \<open>src/internal/context/config.go\<close>) and the stored Console API credential
  (\<open>src/internal/context/credentials.go\<close>), on the file system of \<open>Go_Files\<close>.  The lemmas give
  the trees of two contexts with different plain names as disjoint, and what a read of the
  credential returns after it was stored, removed, moved or deleted.
\<close>

section \<open>Paths\<close>

text \<open>\<open>home\<close> is what \<open>os.UserHomeDir\<close> returns.\<close>

definition ConfigHome :: "os \<Rightarrow> os_err + string \<Rightarrow> string \<Rightarrow> os_err + string" where
  "ConfigHome os home override =
     (if override \<noteq> [] then Inr override
      else if osGetenv os ''AKT_HOME'' \<noteq> [] then Inr (osGetenv os ''AKT_HOME'')
      else if osGetenv os ''XDG_CONFIG_HOME'' \<noteq> [] then Inr (filepath_Join [osGetenv os ''XDG_CONFIG_HOME'', ''akt''])
      else rbind home (\<lambda>h. Inr (filepath_Join [h, ''.config'', ''akt''])))"

definition ConfigPath :: "string \<Rightarrow> string" where
  "ConfigPath root = filepath_Join [root, ''config.yaml'']"

definition ContextDir :: "string \<Rightarrow> string \<Rightarrow> string" where
  "ContextDir root name = filepath_Join [root, ''contexts'', name]"

definition StoreDir :: "string \<Rightarrow> string \<Rightarrow> string" where
  "StoreDir root name = filepath_Join [root, ''contexts'', name, ''store'']"

definition StoreDBPath :: "string \<Rightarrow> string \<Rightarrow> string" where
  "StoreDBPath root name = filepath_Join [StoreDir root name, ''deployments.db'']"

definition ActionLogPath :: "string \<Rightarrow> string \<Rightarrow> string" where
  "ActionLogPath root name = filepath_Join [root, ''contexts'', name, ''actions.log'']"

definition WorkflowsDir :: "string \<Rightarrow> string" where
  "WorkflowsDir root = filepath_Join [root, ''workflows'']"

definition ContextWorkflowsDir :: "string \<Rightarrow> string \<Rightarrow> string" where
  "ContextWorkflowsDir root name = filepath_Join [root, ''contexts'', name, ''workflows'']"

section \<open>Directories and the credential\<close>

datatype file_err = CreateContextDirectory | CreateStoreDirectory | RemoveConsoleKey | WriteConsoleKey | RestrictConsoleKey
  | ReadConsoleKey

text \<open>The modes 0700, 0755 and 0600 are 448, 493 and 384.\<close>

definition EnsureContextDirs :: "os \<Rightarrow> fs \<Rightarrow> string \<Rightarrow> string \<Rightarrow> file_err option \<times> fs" where
  "EnsureContextDirs os fs root name =
     (case MkdirAll os fs (ContextDir root name) 448 of
        (Some _, fs) \<Rightarrow> (Some CreateContextDirectory, fs)
      | (None, fs) \<Rightarrow>
          (case MkdirAll os fs (StoreDir root name) 493 of
             (Some _, fs) \<Rightarrow> (Some CreateStoreDirectory, fs)
           | (None, fs) \<Rightarrow> (None, fs)))"

definition EnvConsoleAPIKey :: string where
  "EnvConsoleAPIKey = ''AKT_CONSOLE_API_KEY''"

definition consoleAPIKeyFile :: string where
  "consoleAPIKeyFile = ''console-api-key''"

definition ConsoleAPIKeyPath :: "string \<Rightarrow> string \<Rightarrow> string" where
  "ConsoleAPIKeyPath root ctxName = filepath_Join [ContextDir root ctxName, consoleAPIKeyFile]"

definition SetConsoleAPIKey :: "os \<Rightarrow> fs \<Rightarrow> string \<Rightarrow> string \<Rightarrow> string \<Rightarrow> file_err option \<times> fs" where
  "SetConsoleAPIKey os fs root ctxName key =
     (let path = ConsoleAPIKeyPath root ctxName in
      if key = [] then
        (case Remove os fs path of
           (Some OSRefused, fs) \<Rightarrow> (Some RemoveConsoleKey, fs)
         | (_, fs) \<Rightarrow> (None, fs))
      else
        (case MkdirAll os fs (ContextDir root ctxName) 448 of
           (Some _, fs) \<Rightarrow> (Some CreateContextDirectory, fs)
         | (None, fs) \<Rightarrow>
             (case WriteFile os fs path (key @ [CHR 0x0A]) 384 of
                (Some _, fs) \<Rightarrow> (Some WriteConsoleKey, fs)
              | (None, fs) \<Rightarrow>
                  (case Chmod os fs path 384 of
                     (Some _, fs) \<Rightarrow> (Some RestrictConsoleKey, fs)
                   | (None, fs) \<Rightarrow> (None, fs)))))"

definition StoredConsoleAPIKey :: "os \<Rightarrow> fs \<Rightarrow> string \<Rightarrow> string \<Rightarrow> file_err + string" where
  "StoredConsoleAPIKey os fs root ctxName =
     (case ReadFile os fs (ConsoleAPIKeyPath root ctxName) of
        Inl NotExist \<Rightarrow> Inr []
      | Inl OSRefused \<Rightarrow> Inl ReadConsoleKey
      | Inr data \<Rightarrow> Inr (trim_space data))"

definition ResolveConsoleAPIKey :: "os \<Rightarrow> fs \<Rightarrow> string \<Rightarrow> string \<Rightarrow> string" where
  "ResolveConsoleAPIKey os fs root ctxName =
     (if osGetenv os EnvConsoleAPIKey \<noteq> [] then osGetenv os EnvConsoleAPIKey
      else case StoredConsoleAPIKey os fs root ctxName of Inl _ \<Rightarrow> [] | Inr key \<Rightarrow> key)"

section \<open>Where the files of a context are\<close>

definition contexts_root :: "string \<Rightarrow> string" where
  "contexts_root root = filepath_Join [root, ''contexts'']"

lemma path_elems_contexts: "path_elems (if root = [] then ''contexts'' else root @ ''/contexts'') \<noteq> []"
proof (cases "root = []")
  case True
  then show ?thesis by (simp add: path_elems_def clean_elems_def clean_step_def rooted_def)
next
  case False
  have "plain_name ''contexts''" by (simp add: plain_name_def)
  from path_elems_snoc [OF this False] False show ?thesis by simp
qed

lemma clean_below:
  assumes "plain_name a" and "plain_name b" and "path_elems p \<noteq> []"
  shows "filepath_Clean (p @ CHR ''/'' # a @ CHR ''/'' # b) = filepath_Clean p @ CHR ''/'' # a @ CHR ''/'' # b"
proof -
  have p: "p \<noteq> []" using assms(3) by (auto simp: path_elems_def clean_elems_def clean_step_def)
  have "filepath_Clean ((p @ CHR ''/'' # a) @ CHR ''/'' # b) = filepath_Clean (p @ CHR ''/'' # a) @ CHR ''/'' # b"
    using assms p by (intro clean_append) (simp_all add: path_elems_snoc)
  with clean_append [OF assms(1,3)] show ?thesis by simp
qed

lemma context_paths:
  assumes "plain_name name"
  shows "ContextDir root name = contexts_root root @ CHR ''/'' # name"
    "StoreDir root name = ContextDir root name @ ''/store''"
    "ActionLogPath root name = ContextDir root name @ ''/actions.log''"
    "ContextWorkflowsDir root name = ContextDir root name @ ''/workflows''"
proof -
  let ?p = "if root = [] then ''contexts'' else root @ ''/contexts''"
  note e = path_elems_contexts [of root]
  show D: "ContextDir root name = contexts_root root @ CHR ''/'' # name"
    using clean_append [OF assms e] by (cases "root = []") (simp_all add: ContextDir_def contexts_root_def filepath_Join_def)
  have sub: "filepath_Join [root, ''contexts'', name, f] = ContextDir root name @ CHR ''/'' # f" if f: "plain_name f" for f
    using clean_below [OF assms f e] unfolding D by (cases "root = []") (simp_all add: contexts_root_def filepath_Join_def)
  show "StoreDir root name = ContextDir root name @ ''/store''"
    "ActionLogPath root name = ContextDir root name @ ''/actions.log''"
    "ContextWorkflowsDir root name = ContextDir root name @ ''/workflows''"
    unfolding StoreDir_def ActionLogPath_def ContextWorkflowsDir_def by (subst sub; simp add: plain_name_def)+
qed

lemma ContextDir_clean: "filepath_Clean (ContextDir root name) = ContextDir root name" "ContextDir root name \<noteq> []"
proof -
  obtain p where "ContextDir root name = filepath_Clean p"
    by (cases "root = []") (auto simp: ContextDir_def filepath_Join_def)
  then show "filepath_Clean (ContextDir root name) = ContextDir root name" "ContextDir root name \<noteq> []" by simp_all
qed

lemma ContextDir_elems: "plain_name name \<Longrightarrow> path_elems (ContextDir root name) \<noteq> []"
  using path_elems_snoc [of name "if root = [] then ''contexts'' else root @ ''/contexts''"]
  by (cases "root = []") (simp_all add: ContextDir_def filepath_Join_def)

lemma ConsoleAPIKeyPath_eq:
  assumes "plain_name name"
  shows "ConsoleAPIKeyPath root name = ContextDir root name @ ''/console-api-key''"
proof -
  have "plain_name consoleAPIKeyFile" by (simp add: plain_name_def consoleAPIKeyFile_def)
  from clean_append [OF this ContextDir_elems [OF assms]] show ?thesis
    by (simp add: ConsoleAPIKeyPath_def filepath_Join_def ContextDir_clean) (simp add: consoleAPIKeyFile_def)
qed

lemma no_slash_prefix:
  assumes "a @ s = b @ t" and "CHR ''/'' \<notin> set a" "CHR ''/'' \<notin> set b"
    and "s = [] \<or> hd s = CHR ''/''" "t = [] \<or> hd t = CHR ''/''"
  shows "a = b"
proof -
  have "takeWhile (\<lambda>c. c \<noteq> CHR ''/'') (x @ y) = x" if "CHR ''/'' \<notin> set x" "y = [] \<or> hd y = CHR ''/''" for x y
    using that by (cases y) (auto simp: takeWhile_append)
  with assms show ?thesis by metis
qed

text \<open>The trees of two contexts are disjoint.\<close>

lemma context_trees_disjoint:
  assumes "plain_name a" "plain_name b" and "a \<noteq> b" and "under (ContextDir root a) q"
  shows "\<not> under (ContextDir root b) q"
proof
  assume "under (ContextDir root b) q"
  with assms(4) obtain s t where "a @ s = b @ t" "s = [] \<or> hd s = CHR ''/''" "t = [] \<or> hd t = CHR ''/''"
    unfolding under_iff context_paths [OF assms(1)] context_paths [OF assms(2)] by fastforce
  with assms(1-3) no_slash_prefix [of a s b t] show False by (auto simp: plain_name_def)
qed

section \<open>The credential\<close>

text \<open>A key that \<open>strings.TrimSpace\<close> leaves alone, also with a line end after it.\<close>

definition plain_key :: "string \<Rightarrow> bool" where
  "plain_key key \<longleftrightarrow> key \<noteq> [] \<and> printable (hd key) \<and> printable (last key)"

lemma trim_key:
  assumes "plain_key key"
  shows "trim_space (key @ [CHR 0x0A]) = key"
proof -
  from assms obtain c cs where key: "key = c # cs" "printable c" by (cases key) (auto simp: plain_key_def)
  have "drop_space utf8_spaces (key @ [CHR 0x0A]) = None" using key by (simp add: drop_space_printable)
  then have l: "trim_fuel n utf8_spaces (key @ [CHR 0x0A]) = key @ [CHR 0x0A]" for n by (rule trim_fuel_no_space)
  have rv: "rev key = last key # rev (butlast key)"
    using key(1) by (metis append_butlast_last_id list.distinct(1) rev_eq_Cons_iff rev_rev_ident)
  have "drop_space (map rev utf8_spaces) (rev key) = None"
    unfolding rv using assms by (simp add: drop_space_printable plain_key_def)
  then have r: "trim_fuel n (map rev utf8_spaces) (rev key) = rev key" for n by (rule trim_fuel_no_space)
  have "drop_space (map rev utf8_spaces) (CHR 0x0A # rev key) = Some (rev key)"
    by (simp add: drop_space_def ascii_space_def)
  with l r show ?thesis by (simp add: trim_space_def Let_def)
qed

lemma SetConsoleAPIKey_stores:
  assumes "SetConsoleAPIKey os fs root name key = (None, fs')" and "key \<noteq> []"
  shows "fs' (ConsoleAPIKeyPath root name) = Some (File 384 (key @ [CHR 0x0A]))"
  using assms
  by (auto simp: SetConsoleAPIKey_def MkdirAll_def WriteFile_def Chmod_def Let_def
      split: if_splits prod.splits option.splits write_outcome.splits node.splits)

lemma SetConsoleAPIKey_removes:
  assumes "SetConsoleAPIKey os fs root name [] = (None, fs')"
  shows "fs' (ConsoleAPIKeyPath root name) = None"
  using assms by (auto simp: SetConsoleAPIKey_def Remove_def Let_def split: if_splits prod.splits option.splits os_err.splits)

lemma StoredConsoleAPIKey_file:
  "fs (ConsoleAPIKeyPath root name) = Some (File m (key @ [CHR 0x0A])) \<Longrightarrow> plain_key key \<Longrightarrow>
    osRead os (ConsoleAPIKeyPath root name) \<Longrightarrow> StoredConsoleAPIKey os fs root name = Inr key"
  by (simp add: StoredConsoleAPIKey_def ReadFile_def trim_key)

lemma StoredConsoleAPIKey_missing:
  "fs (ConsoleAPIKeyPath root name) = None \<Longrightarrow> StoredConsoleAPIKey os fs root name = Inr []"
  by (simp add: StoredConsoleAPIKey_def ReadFile_def)

text \<open>Only the tree of the named context is touched, and the directories above it.\<close>

lemma SetConsoleAPIKey_frame:
  assumes "SetConsoleAPIKey os fs root name key = (r, fs')" and "plain_name name" and "\<not> under (ContextDir root name) q" "fs q \<noteq> None"
  shows "fs' q = fs q"
proof -
  have "q \<noteq> ConsoleAPIKeyPath root name"
    using assms(2,3) by (auto simp: ConsoleAPIKeyPath_eq)
  with assms(1,4) show ?thesis
    by (auto simp: SetConsoleAPIKey_def Remove_def MkdirAll_def WriteFile_def Chmod_def Let_def
        split: if_splits prod.splits option.splits write_outcome.splits node.splits os_err.splits)
qed

lemma Rename_moves:
  "Rename os fs old new = (None, fs') \<Longrightarrow> fs' (new @ t) = (if under new (new @ t) then fs (old @ t) else if under old (new @ t) then None else fs (new @ t))"
  by (auto simp: Rename_def split: if_splits)

lemma ConsoleAPIKeyPath_under: "plain_name name \<Longrightarrow> under (ContextDir root name) (ConsoleAPIKeyPath root name)"
  by (simp add: ConsoleAPIKeyPath_eq)

end
