(* ===== verification/Context_Manager.thy ===== *)
theory Context_Manager
  imports Context_Files
begin

text \<open>
  The configuration of contexts, networks and keyrings and its manager
  (\<open>src/internal/context/types.go\<close>, \<open>defaults.go\<close>, \<open>manager.go\<close>, and \<open>SaveConfig\<close> of
  \<open>config.go\<close>).

  A manager is its root directory, its in-memory configuration, the content of
  \<open>config.yaml\<close> (\<open>None\<close>: empty or partly written) and the other files below the root.  The
  lock makes every operation atomic, so each is a function from the state to an error, if
  any, and the next state.  What the operating system and the YAML library let succeed is
  a parameter, as are the functions that edit a record; the source passes a pointer to
  them, so they return the edited record also on an error.
\<close>

section \<open>Configuration\<close>

record Endpoints =
  enRPC :: "string list"
  enAPI :: "string list"
  enGRPC :: "string list"

record Network =
  nName :: string
  nChainID :: string
  nEndpoints :: Endpoints
  nGasPrices :: string
  nGasAdjustment :: string
  nFaucet :: string

record Keyring =
  kName :: string
  kBackend :: string
  kDir :: string

record ProviderDefaults =
  pdAuthType :: string

record Context =
  cName :: string
  cNetwork :: Network
  cKeyring :: Keyring
  cAuthMethod :: string
  cConsoleAPIURL :: string
  cDefaultAccount :: string
  cTrackedAccounts :: "string list"
  cGas :: string
  cFees :: string
  cProviderDefaults :: ProviderDefaults
  cGasPrices :: string
  cGasAdjustment :: string
  cAuthType :: string
  cRoot :: string
  cConsoleAPIKey :: string

record contextYAML =
  yName :: string
  yNetwork :: string
  yKeyring :: string
  yAuthMethod :: string
  yConsoleAPIURL :: string
  yDefaultAccount :: string
  yTrackedAccounts :: "string list"
  yGas :: string
  yFees :: string
  yProviderDefaults :: ProviderDefaults

record TUISettings =
  tuiTheme :: string
  tuiKeybindings :: string
  tuiCustomKeybindings :: "(string \<times> string) list"
  tuiRefreshInterval :: string

record PluginSettings =
  plPaths :: "string list"
  plDisabled :: "string list"

record Defaults =
  dfOutput :: string
  dfBroadcastMode :: string
  dfCommandGating :: string

record Config =
  cfgVersion :: int
  cfgCurrentContext :: string
  cfgNetworks :: "Network list"
  cfgKeyrings :: "Keyring list"
  cfgContexts :: "Context list"
  cfgTUI :: TUISettings
  cfgPlugins :: PluginSettings
  cfgDefaults :: Defaults

definition ConfigVersion :: int where
  "ConfigVersion = 1"

definition ProviderAuthJWT :: string where
  "ProviderAuthJWT = ''jwt''"

definition ProviderAuthMTLS :: string where
  "ProviderAuthMTLS = ''mtls''"

definition AuthMethodKeyring :: string where
  "AuthMethodKeyring = ''keyring''"

definition AuthMethodConsoleAPI :: string where
  "AuthMethodConsoleAPI = ''console-api''"

definition DefaultConsoleAPIURL :: string where
  "DefaultConsoleAPIURL = ''https://console-api.akash.network''"

datatype ctx_err =
    InvalidProviderAuth string | NameRequired | AlreadyExists string | NotFound string
  | UnknownTemplate string | NetworkInUse string "string list" | NetworkRequired
  | InvalidAuthMethod string | NoNetworkToEdit string | ForkWithoutChanges
  | CurrentContextInUse string | RenameDirectory | FileErr file_err
  | NoContext | ApplyFailed string
  | ConfigDirectory | CreateConfig | MarshalConfig | CloseEncoder | WriteConfig | CloseConfig

definition ResolveProviderAuthType :: "string \<Rightarrow> ctx_err + string" where
  "ResolveProviderAuthType v =
     (if v = [] then Inr ProviderAuthJWT
      else if v \<in> {ProviderAuthJWT, ProviderAuthMTLS} then Inr v
      else Inl (InvalidProviderAuth v))"

definition zero_network :: Network where
  "zero_network = \<lparr>nName = [], nChainID = [], nEndpoints = \<lparr>enRPC = [], enAPI = [], enGRPC = []\<rparr>, nGasPrices = [],
     nGasAdjustment = [], nFaucet = []\<rparr>"

definition zero_keyring :: Keyring where
  "zero_keyring = \<lparr>kName = [], kBackend = [], kDir = []\<rparr>"

definition zero_context :: Context where
  "zero_context = \<lparr>cName = [], cNetwork = zero_network, cKeyring = zero_keyring, cAuthMethod = [], cConsoleAPIURL = [],
     cDefaultAccount = [], cTrackedAccounts = [], cGas = [], cFees = [], cProviderDefaults = \<lparr>pdAuthType = []\<rparr>,
     cGasPrices = [], cGasAdjustment = [], cAuthType = [], cRoot = [], cConsoleAPIKey = []\<rparr>"

text \<open>On disk a context names its network and keyring.\<close>

definition Context_MarshalYAML :: "Context \<Rightarrow> contextYAML" where
  "Context_MarshalYAML c = \<lparr>yName = cName c, yNetwork = nName (cNetwork c), yKeyring = kName (cKeyring c),
     yAuthMethod = cAuthMethod c, yConsoleAPIURL = cConsoleAPIURL c, yDefaultAccount = cDefaultAccount c,
     yTrackedAccounts = cTrackedAccounts c, yGas = cGas c, yFees = cFees c, yProviderDefaults = cProviderDefaults c\<rparr>"

definition Context_UnmarshalYAML :: "Context \<Rightarrow> contextYAML \<Rightarrow> Context" where
  "Context_UnmarshalYAML c raw = c\<lparr>cName := yName raw, cNetwork := zero_network\<lparr>nName := yNetwork raw\<rparr>,
     cKeyring := zero_keyring\<lparr>kName := yKeyring raw\<rparr>, cAuthMethod := yAuthMethod raw, cConsoleAPIURL := yConsoleAPIURL raw,
     cDefaultAccount := yDefaultAccount raw, cTrackedAccounts := yTrackedAccounts raw, cGas := yGas raw, cFees := yFees raw,
     cProviderDefaults := yProviderDefaults raw\<rparr>"

section \<open>Defaults\<close>

definition NetworkTemplates :: "string \<Rightarrow> Network option" where
  "NetworkTemplates name =
     map_of [
       (''mainnet'', \<lparr>nName = ''mainnet'', nChainID = ''akashnet-2'', nEndpoints = \<lparr>
          enRPC = [''https://rpc.akt.dev:443/rpc'', ''https://rpc.akashnet.net:443'', ''https://rpc-akash.ecostake.com:443''],
          enAPI = [''https://api.akashnet.net:443'', ''https://akash-api.polkachu.com:443''],
          enGRPC = [''grpc.akashnet.net:443'']\<rparr>, nGasPrices = ''0.025uakt'', nGasAdjustment = ''1.5'', nFaucet = []\<rparr>),
       (''testnet'', \<lparr>nName = ''testnet'', nChainID = ''testnet-02'', nEndpoints = \<lparr>
          enRPC = [''https://rpc.testnet-02.aksh.pw:443''], enAPI = [''https://api.testnet-02.aksh.pw:443''],
          enGRPC = [''grpc.testnet-02.aksh.pw:443'']\<rparr>, nGasPrices = ''0.025uakt'', nGasAdjustment = ''1.5'', nFaucet = []\<rparr>),
       (''sandbox'', \<lparr>nName = ''sandbox'', nChainID = ''sandbox-2'', nEndpoints = \<lparr>
          enRPC = [''https://rpc.sandbox-2.aksh.pw:443''], enAPI = [''https://api.sandbox-2.aksh.pw:443''],
          enGRPC = [''grpc.sandbox-2.aksh.pw:9090'']\<rparr>, nGasPrices = ''0.025uakt'', nGasAdjustment = ''1.5'',
          nFaucet = ''http://faucet.sandbox-2.aksh.pw/''\<rparr>)] name"

definition DefaultKeyring :: Keyring where
  "DefaultKeyring = \<lparr>kName = ''default'', kBackend = ''os'', kDir = []\<rparr>"

definition DefaultConfig :: Config where
  "DefaultConfig = \<lparr>cfgVersion = ConfigVersion, cfgCurrentContext = [], cfgNetworks = [], cfgKeyrings = [DefaultKeyring],
     cfgContexts = [],
     cfgTUI = \<lparr>tuiTheme = ''dark'', tuiKeybindings = ''vim'', tuiCustomKeybindings = [], tuiRefreshInterval = []\<rparr>,
     cfgPlugins = \<lparr>plPaths = [], plDisabled = []\<rparr>,
     cfgDefaults = \<lparr>dfOutput = ''pretty'', dfBroadcastMode = ''sync'', dfCommandGating = []\<rparr>\<rparr>"

section \<open>The manager's state and its file\<close>

record Manager =
  mRoot :: string
  mCfg :: Config
  mFile :: "Config option"
  mFiles :: fs

text \<open>
  What becomes of a save: the first call that fails.  \<open>os.Create\<close> truncates the file before
  the configuration is encoded.
\<close>

datatype save_outcome =
    SaveOk | MkdirFails | CreateFails | EncodeFails | CloseEncoderFails | WriteFails | CloseFails

definition SaveConfig :: "save_outcome \<Rightarrow> Config \<Rightarrow> Config option \<Rightarrow> ctx_err option \<times> Config option" where
  "SaveConfig out cfg file =
     (case out of
        MkdirFails \<Rightarrow> (Some ConfigDirectory, file)
      | CreateFails \<Rightarrow> (Some CreateConfig, file)
      | EncodeFails \<Rightarrow> (Some MarshalConfig, None)
      | CloseEncoderFails \<Rightarrow> (Some CloseEncoder, None)
      | WriteFails \<Rightarrow> (Some WriteConfig, None)
      | CloseFails \<Rightarrow> (Some CloseConfig, None)
      | SaveOk \<Rightarrow> (None, Some cfg))"

definition save :: "save_outcome \<Rightarrow> Manager \<Rightarrow> ctx_err option \<times> Manager" where
  "save out m = (case SaveConfig out (mCfg m) (mFile m) of (e, f) \<Rightarrow> (e, m\<lparr>mFile := f\<rparr>))"

section \<open>Networks\<close>

definition getNetwork :: "Manager \<Rightarrow> string \<Rightarrow> Network option" where
  "getNetwork m name = find_by nName name (cfgNetworks (mCfg m))"

definition getContext :: "Manager \<Rightarrow> string \<Rightarrow> Context option" where
  "getContext m name = find_by cName name (cfgContexts (mCfg m))"

definition getKeyring :: "Manager \<Rightarrow> string \<Rightarrow> Keyring option" where
  "getKeyring m name = find_by kName name (cfgKeyrings (mCfg m))"

definition ListNetworks :: "Manager \<Rightarrow> Network list" where
  "ListNetworks m = cfgNetworks (mCfg m)"

definition CreateNetwork :: "save_outcome \<Rightarrow> Manager \<Rightarrow> Network \<Rightarrow> ctx_err option \<times> Manager" where
  "CreateNetwork out m net =
     (if nName net = [] then (Some NameRequired, m)
      else if getNetwork m (nName net) \<noteq> None then (Some (AlreadyExists (nName net)), m)
      else save out (m\<lparr>mCfg := (mCfg m)\<lparr>cfgNetworks := cfgNetworks (mCfg m) @ [net]\<rparr>\<rparr>))"

definition CreateNetworkFromTemplate :: "save_outcome \<Rightarrow> Manager \<Rightarrow> string \<Rightarrow> string \<Rightarrow> ctx_err option \<times> Manager" where
  "CreateNetworkFromTemplate out m name template =
     (case NetworkTemplates template of
        None \<Rightarrow> (Some (UnknownTemplate template), m)
      | Some tmpl \<Rightarrow> CreateNetwork out m (tmpl\<lparr>nName := name\<rparr>))"

text \<open>Changing the first record of a name in place, through a pointer to it.\<close>

primrec upd_first :: "('a \<Rightarrow> string) \<Rightarrow> string \<Rightarrow> ('a \<Rightarrow> 'a) \<Rightarrow> 'a list \<Rightarrow> 'a list" where
  "upd_first key k f [] = []"
| "upd_first key k f (x # xs) = (if key x = k then f x # xs else x # upd_first key k f xs)"

definition UpdateNetwork ::
  "save_outcome \<Rightarrow> Manager \<Rightarrow> string \<Rightarrow> (Network \<Rightarrow> ctx_err option \<times> Network) \<Rightarrow> ctx_err option \<times> Manager" where
  "UpdateNetwork out m name edit =
     (case getNetwork m name of
        None \<Rightarrow> (Some (NotFound name), m)
      | Some net \<Rightarrow>
          (let m' = m\<lparr>mCfg := (mCfg m)\<lparr>cfgNetworks := upd_first nName name (\<lambda>_. snd (edit net)) (cfgNetworks (mCfg m))\<rparr>\<rparr>
           in case fst (edit net) of
                Some e \<Rightarrow> (Some e, m')
              | None \<Rightarrow> save out m'))"

definition ForkNetwork :: "save_outcome \<Rightarrow> Manager \<Rightarrow> string \<Rightarrow> string \<Rightarrow> ctx_err option \<times> Manager" where
  "ForkNetwork out m srcName newName =
     (case getNetwork m srcName of
        None \<Rightarrow> (Some (NotFound srcName), m)
      | Some src \<Rightarrow>
          if getNetwork m newName \<noteq> None then (Some (AlreadyExists newName), m)
          else save out (m\<lparr>mCfg := (mCfg m)\<lparr>cfgNetworks := cfgNetworks (mCfg m) @ [src\<lparr>nName := newName\<rparr>]\<rparr>\<rparr>))"

definition contextsUsingNetwork :: "Manager \<Rightarrow> string \<Rightarrow> string list" where
  "contextsUsingNetwork m name = map cName (filter (\<lambda>c. nName (cNetwork c) = name) (cfgContexts (mCfg m)))"

definition DeleteNetwork :: "save_outcome \<Rightarrow> Manager \<Rightarrow> string \<Rightarrow> ctx_err option \<times> Manager" where
  "DeleteNetwork out m name =
     (let users = contextsUsingNetwork m name in
      if 0 < length users then (Some (NetworkInUse name users), m)
      else save out (m\<lparr>mCfg := (mCfg m)\<lparr>cfgNetworks := filter (\<lambda>n. nName n \<noteq> name) (cfgNetworks (mCfg m))\<rparr>\<rparr>))"

section \<open>Contexts\<close>

definition ListContexts :: "Manager \<Rightarrow> Context list" where
  "ListContexts m = cfgContexts (mCfg m)"

definition ActiveContext :: "Manager \<Rightarrow> string \<Rightarrow> string" where
  "ActiveContext m override =
     (if override \<noteq> [] then override
      else if cfgCurrentContext (mCfg m) \<noteq> [] then cfgCurrentContext (mCfg m)
      else case ListContexts m of [c] \<Rightarrow> cName c | _ \<Rightarrow> [])"

text \<open>\<open>check_create\<close>: the validation and the defaults, before anything is changed.\<close>

definition check_create :: "Manager \<Rightarrow> Context \<Rightarrow> ctx_err + Context" where
  "check_create m ctx =
     rbind (fail_if (cName ctx = []) NameRequired) (\<lambda>_.
     rbind (fail_if (getContext m (cName ctx) \<noteq> None) (AlreadyExists (cName ctx))) (\<lambda>_.
     rbind (if nName (cNetwork ctx) = []
            then fail_if (cAuthMethod ctx \<noteq> AuthMethodConsoleAPI) NetworkRequired
            else fail_if (getNetwork m (nName (cNetwork ctx)) = None) (NotFound (nName (cNetwork ctx)))) (\<lambda>_.
     let ctx = (if kName (cKeyring ctx) = [] then ctx\<lparr>cKeyring := zero_keyring\<lparr>kName := ''default''\<rparr>\<rparr> else ctx) in
     rbind (fail_if (getKeyring m (kName (cKeyring ctx)) = None) (NotFound (kName (cKeyring ctx)))) (\<lambda>_.
     let ctx = (if cGas ctx = [] then ctx\<lparr>cGas := ''auto''\<rparr> else ctx) in
     rbind (ResolveProviderAuthType (pdAuthType (cProviderDefaults ctx))) (\<lambda>auth.
     let ctx = ctx\<lparr>cProviderDefaults := (cProviderDefaults ctx)\<lparr>pdAuthType := auth\<rparr>\<rparr> in
     rbind (fail_if (cAuthMethod ctx \<notin> {[], AuthMethodKeyring, AuthMethodConsoleAPI})
       (InvalidAuthMethod (cAuthMethod ctx))) (\<lambda>_. Inr ctx))))))"

definition CreateContext :: "save_outcome \<Rightarrow> os \<Rightarrow> Manager \<Rightarrow> Context \<Rightarrow> ctx_err option \<times> Manager" where
  "CreateContext out os m ctx =
     (case check_create m ctx of
        Inl e \<Rightarrow> (Some e, m)
      | Inr ctx \<Rightarrow>
          (case EnsureContextDirs os (mFiles m) (mRoot m) (cName ctx) of
             (Some e, files) \<Rightarrow> (Some (FileErr e), m\<lparr>mFiles := files\<rparr>)
           | (None, files) \<Rightarrow>
               (case save out (m\<lparr>mFiles := files, mCfg := (mCfg m)\<lparr>cfgContexts := cfgContexts (mCfg m) @ [ctx]\<rparr>\<rparr>) of
                  (Some e, m') \<Rightarrow> (Some e, m'\<lparr>mCfg := (mCfg m')\<lparr>cfgContexts := butlast (cfgContexts (mCfg m'))\<rparr>\<rparr>)
                | (None, m') \<Rightarrow> (None, m'))))"

definition UseContext :: "save_outcome \<Rightarrow> Manager \<Rightarrow> string \<Rightarrow> ctx_err option \<times> Manager" where
  "UseContext out m name =
     (if getContext m name = None then (Some (NotFound name), m)
      else save out (m\<lparr>mCfg := (mCfg m)\<lparr>cfgCurrentContext := name\<rparr>\<rparr>))"

text \<open>
  \<open>UpdateContextAndNetwork\<close>: the edited copies of the context and, if any, of the network
  are computed and validated first; only then the configuration changes.  A nil function is
  \<open>None\<close>.
\<close>

definition edited_network ::
  "Manager \<Rightarrow> string \<Rightarrow> string \<Rightarrow> (Network \<Rightarrow> ctx_err option \<times> Network) option \<Rightarrow> Context
    \<Rightarrow> ctx_err + Context \<times> (string \<times> Network) option" where
  "edited_network m name forkName applyNetwork ctx =
     (case applyNetwork of
        None \<Rightarrow> if forkName \<noteq> [] then Inl ForkWithoutChanges else Inr (ctx, None)
      | Some edit \<Rightarrow>
          rbind (fail_if (nName (cNetwork ctx) = []) (NoNetworkToEdit name)) (\<lambda>_.
          rbind (of_opt (NotFound (nName (cNetwork ctx))) (getNetwork m (nName (cNetwork ctx)))) (\<lambda>net.
          let old = nName (cNetwork ctx) in
          rbind (if forkName = [] then Inr (ctx, net)
                 else if getNetwork m forkName \<noteq> None then Inl (AlreadyExists forkName)
                 else Inr (ctx\<lparr>cNetwork := zero_network\<lparr>nName := forkName\<rparr>\<rparr>, net\<lparr>nName := forkName\<rparr>)) (\<lambda>(ctx, net).
          case edit net of
            (Some e, _) \<Rightarrow> Inl e
          | (None, net) \<Rightarrow> Inr (ctx, Some (old, net))))))"

definition check_update ::
  "Manager \<Rightarrow> string \<Rightarrow> string \<Rightarrow> (Context \<Rightarrow> ctx_err option \<times> Context) option
    \<Rightarrow> (Network \<Rightarrow> ctx_err option \<times> Network) option \<Rightarrow> ctx_err + Context \<times> (string \<times> Network) option" where
  "check_update m name forkName applyContext applyNetwork =
     rbind (of_opt (NotFound name) (getContext m name)) (\<lambda>ctx.
     rbind (case applyContext of
              None \<Rightarrow> Inr ctx
            | Some edit \<Rightarrow> (case edit ctx of (Some e, _) \<Rightarrow> Inl e | (None, ctx) \<Rightarrow> Inr ctx)) (\<lambda>ctx.
     rbind (edited_network m name forkName applyNetwork ctx) (\<lambda>(ctx, net).
     rbind (fail_if (nName (cNetwork ctx) \<noteq> [] \<and> forkName = [] \<and> getNetwork m (nName (cNetwork ctx)) = None)
       (NotFound (nName (cNetwork ctx)))) (\<lambda>_.
     rbind (fail_if (getKeyring m (kName (cKeyring ctx)) = None) (NotFound (kName (cKeyring ctx)))) (\<lambda>_.
     rbind (ResolveProviderAuthType (pdAuthType (cProviderDefaults ctx))) (\<lambda>auth.
       Inr (ctx\<lparr>cProviderDefaults := (cProviderDefaults ctx)\<lparr>pdAuthType := auth\<rparr>\<rparr>, net)))))))"

definition UpdateContextAndNetwork ::
  "save_outcome \<Rightarrow> Manager \<Rightarrow> string \<Rightarrow> string \<Rightarrow> (Context \<Rightarrow> ctx_err option \<times> Context) option
    \<Rightarrow> (Network \<Rightarrow> ctx_err option \<times> Network) option \<Rightarrow> ctx_err option \<times> Manager" where
  "UpdateContextAndNetwork out m name forkName applyContext applyNetwork =
     (case check_update m name forkName applyContext applyNetwork of
        Inl e \<Rightarrow> (Some e, m)
      | Inr (ctx, net) \<Rightarrow>
          (let contexts = upd_first cName name (\<lambda>_. ctx) (cfgContexts (mCfg m));
               networks = (case net of
                   None \<Rightarrow> cfgNetworks (mCfg m)
                 | Some (old, net) \<Rightarrow>
                     if forkName \<noteq> [] then cfgNetworks (mCfg m) @ [net]
                     else upd_first nName old (\<lambda>_. net) (cfgNetworks (mCfg m)))
           in case save out (m\<lparr>mCfg := (mCfg m)\<lparr>cfgContexts := contexts, cfgNetworks := networks\<rparr>\<rparr>) of
                (Some e, m') \<Rightarrow>
                  (Some e, m'\<lparr>mCfg := (mCfg m')\<lparr>cfgContexts := cfgContexts (mCfg m), cfgNetworks := cfgNetworks (mCfg m)\<rparr>\<rparr>)
              | (None, m') \<Rightarrow> (None, m')))"

definition UpdateContext ::
  "save_outcome \<Rightarrow> Manager \<Rightarrow> string \<Rightarrow> (Context \<Rightarrow> ctx_err option \<times> Context) \<Rightarrow> ctx_err option \<times> Manager" where
  "UpdateContext out m name edit = UpdateContextAndNetwork out m name [] (Some edit) None"

definition DeleteContext :: "save_outcome \<Rightarrow> os \<Rightarrow> Manager \<Rightarrow> string \<Rightarrow> bool \<Rightarrow> ctx_err option \<times> Manager" where
  "DeleteContext out os m name keepData =
     (if cfgCurrentContext (mCfg m) = name then (Some (CurrentContextInUse name), m)
      else if getContext m name = None then (Some (NotFound name), m)
      else (let m = m\<lparr>mCfg := (mCfg m)\<lparr>cfgContexts := filter (\<lambda>c. cName c \<noteq> name) (cfgContexts (mCfg m))\<rparr>\<rparr>;
                m = (if keepData then m else m\<lparr>mFiles := RemoveAll os (mFiles m) (ContextDir (mRoot m) name)\<rparr>)
            in save out m))"

definition move_context_dir :: "os \<Rightarrow> Manager \<Rightarrow> string \<Rightarrow> string \<Rightarrow> ctx_err + fs" where
  "move_context_dir os m oldName newName =
     (let oldDir = ContextDir (mRoot m) oldName; newDir = ContextDir (mRoot m) newName in
      if mFiles m oldDir \<noteq> None \<and> osStat os oldDir
      then (case Rename os (mFiles m) oldDir newDir of (Some _, _) \<Rightarrow> Inl RenameDirectory | (None, files) \<Rightarrow> Inr files)
      else Inr (mFiles m))"

definition RenameContext :: "save_outcome \<Rightarrow> os \<Rightarrow> Manager \<Rightarrow> string \<Rightarrow> string \<Rightarrow> ctx_err option \<times> Manager" where
  "RenameContext out os m oldName newName =
     (if getContext m newName \<noteq> None then (Some (AlreadyExists newName), m)
      else if getContext m oldName = None then (Some (NotFound oldName), m)
      else case move_context_dir os m oldName newName of
        Inl e \<Rightarrow> (Some e, m)
      | Inr files \<Rightarrow> save out (m\<lparr>mFiles := files, mCfg := (mCfg m)\<lparr>
             cfgContexts := upd_first cName oldName (\<lambda>c. c\<lparr>cName := newName\<rparr>) (cfgContexts (mCfg m)),
             cfgCurrentContext := (if cfgCurrentContext (mCfg m) = oldName then newName else cfgCurrentContext (mCfg m))\<rparr>\<rparr>))"

section \<open>Keyrings\<close>

definition CreateKeyring :: "save_outcome \<Rightarrow> Manager \<Rightarrow> Keyring \<Rightarrow> ctx_err option \<times> Manager" where
  "CreateKeyring out m kr =
     (if kName kr = [] then (Some NameRequired, m)
      else if getKeyring m (kName kr) \<noteq> None then (Some (AlreadyExists (kName kr)), m)
      else (let kr = (if kBackend kr = [] then kr\<lparr>kBackend := ''os''\<rparr> else kr)
            in save out (m\<lparr>mCfg := (mCfg m)\<lparr>cfgKeyrings := cfgKeyrings (mCfg m) @ [kr]\<rparr>\<rparr>)))"

definition UpdateKeyring ::
  "save_outcome \<Rightarrow> Manager \<Rightarrow> string \<Rightarrow> (Keyring \<Rightarrow> ctx_err option \<times> Keyring) \<Rightarrow> ctx_err option \<times> Manager" where
  "UpdateKeyring out m name edit =
     (case getKeyring m name of
        None \<Rightarrow> (Some (NotFound name), m)
      | Some kr \<Rightarrow>
          (let m' = m\<lparr>mCfg := (mCfg m)\<lparr>cfgKeyrings := upd_first kName name (\<lambda>_. snd (edit kr)) (cfgKeyrings (mCfg m))\<rparr>\<rparr>
           in case fst (edit kr) of
                Some e \<Rightarrow> (Some e, m')
              | None \<Rightarrow> save out m'))"

definition KeyringUsers :: "Manager \<Rightarrow> string \<Rightarrow> string list" where
  "KeyringUsers m name =
     map cName (filter (\<lambda>c. (if kName (cKeyring c) = [] then ''default'' else kName (cKeyring c)) = name)
       (cfgContexts (mCfg m)))"

definition ListKeyrings :: "Manager \<Rightarrow> Keyring list" where
  "ListKeyrings m = cfgKeyrings (mCfg m)"

definition KeyringDir :: "string \<Rightarrow> Keyring \<Rightarrow> string" where
  "KeyringDir root kr = (if kDir kr \<noteq> [] then kDir kr else filepath_Join [root, ''keyrings'', kName kr])"

section \<open>Resolution\<close>

definition Resolve :: "os \<Rightarrow> Manager \<Rightarrow> string \<Rightarrow> ctx_err + Context" where
  "Resolve os m name =
     (let name = (if name = [] then cfgCurrentContext (mCfg m) else name) in
      rbind (fail_if (name = []) NoContext) (\<lambda>_.
      rbind (of_opt (NotFound name) (getContext m name)) (\<lambda>ctx.
      rbind (if nName (cNetwork ctx) = [] then Inr zero_network
             else of_opt (NotFound (nName (cNetwork ctx))) (getNetwork m (nName (cNetwork ctx)))) (\<lambda>net.
      rbind (of_opt (NotFound (kName (cKeyring ctx))) (getKeyring m (kName (cKeyring ctx)))) (\<lambda>kr.
      let authMethod = (if cAuthMethod ctx = [] then AuthMethodKeyring else cAuthMethod ctx);
          consoleURL = (if cConsoleAPIURL ctx = [] then DefaultConsoleAPIURL else cConsoleAPIURL ctx) in
      rbind (ResolveProviderAuthType (pdAuthType (cProviderDefaults ctx))) (\<lambda>auth.
        Inr \<lparr>cName = cName ctx, cNetwork = net, cKeyring = kr, cAuthMethod = authMethod, cConsoleAPIURL = consoleURL,
          cDefaultAccount = cDefaultAccount ctx, cTrackedAccounts = cTrackedAccounts ctx, cGas = cGas ctx, cFees = cFees ctx,
          cProviderDefaults = (cProviderDefaults ctx)\<lparr>pdAuthType := auth\<rparr>, cGasPrices = nGasPrices net,
          cGasAdjustment = nGasAdjustment net, cAuthType = auth, cRoot = mRoot m,
          cConsoleAPIKey = ResolveConsoleAPIKey os (mFiles m) (mRoot m) (cName ctx)\<rparr>))))))"

end
