(* ===== verification/Context_Props.thy ===== *)
theory Context_Props
  imports Context_Manager
begin

text \<open>
  Properties of the context manager: names stay unique and references resolve in every
  state the operations reach, a context edit is all or nothing in memory, forking a network
  affects one context only, and a well-formed configuration resolves.
\<close>

section \<open>Well-formed configurations\<close>

definition ctx_ok :: "Config \<Rightarrow> Context \<Rightarrow> bool" where
  "ctx_ok cfg c \<longleftrightarrow> (nName (cNetwork c) = [] \<or> nName (cNetwork c) \<in> nName ` set (cfgNetworks cfg)) \<and>
     kName (cKeyring c) \<in> kName ` set (cfgKeyrings cfg) \<and>
     pdAuthType (cProviderDefaults c) \<in> {ProviderAuthJWT, ProviderAuthMTLS}"

definition cfg_ok :: "Config \<Rightarrow> bool" where
  "cfg_ok cfg \<longleftrightarrow> distinct (map nName (cfgNetworks cfg)) \<and> distinct (map kName (cfgKeyrings cfg)) \<and>
     distinct (map cName (cfgContexts cfg)) \<and> (\<forall>c \<in> set (cfgContexts cfg). ctx_ok cfg c) \<and>
     (cfgCurrentContext cfg = [] \<or> cfgCurrentContext cfg \<in> cName ` set (cfgContexts cfg))"

section \<open>Lists of named records\<close>

lemma upd_first_names:
  "(\<And>x. x \<in> set xs \<Longrightarrow> key x = k \<Longrightarrow> key (f x) = key x) \<Longrightarrow> map key (upd_first key k f xs) = map key xs"
  by (induction xs) auto

lemma upd_first_mem: "y \<in> set (upd_first key k f xs) \<Longrightarrow> y \<in> set xs \<or> (\<exists>x. find_by key k xs = Some x \<and> y = f x)"
  by (induction xs) auto

lemma upd_first_other: "j \<noteq> k \<Longrightarrow> (\<And>x. key x = k \<Longrightarrow> x \<in> set xs \<Longrightarrow> key (f x) \<noteq> j) \<Longrightarrow>
    find_by key j (upd_first key k f xs) = find_by key j xs"
  by (induction xs) auto

lemma upd_first_this:
  "find_by key k xs = Some x \<Longrightarrow> key (f x) = k \<Longrightarrow> find_by key k (upd_first key k f xs) = Some (f x)"
  by (induction xs) (auto split: if_splits)

lemma upd_first_in: "find_by key k xs = Some x \<Longrightarrow> f x \<in> set (upd_first key k f xs)"
  by (induction xs) (auto split: if_splits)

lemma upd_first_rename:
  assumes "distinct (map key xs)" and "new \<notin> key ` set xs" and "\<And>x. key (f x) = new"
  shows "distinct (map key (upd_first key old f xs))"
  using assms
proof (induction xs)
  case (Cons x xs)
  have "key ` set (upd_first key old f xs) \<subseteq> insert new (key ` set xs)"
    using upd_first_mem [of _ key old f xs] Cons.prems(3) by fastforce
  with Cons show ?case by auto
qed simp

lemma find_by_in: "find_by key k xs \<noteq> None \<longleftrightarrow> k \<in> key ` set xs"
  using find_by_None_iff [of key k xs] by simp

lemma find_by_key: "find_by key k xs = Some x \<Longrightarrow> key x = k"
  using find_by_SomeD by fast

lemma get_in:
  "getNetwork m n = None \<longleftrightarrow> n \<notin> nName ` set (cfgNetworks (mCfg m))"
  "getKeyring m n = None \<longleftrightarrow> n \<notin> kName ` set (cfgKeyrings (mCfg m))"
  "getContext m n = None \<longleftrightarrow> n \<notin> cName ` set (cfgContexts (mCfg m))"
  by (simp_all add: getNetwork_def getKeyring_def getContext_def find_by_None_iff)

lemma save_cfg [simp]: "mCfg (snd (save out m)) = mCfg m"
  by (simp add: save_def split_beta)

lemma save_files [simp]: "mFiles (snd (save out m)) = mFiles m" "mRoot (snd (save out m)) = mRoot m"
  by (simp_all add: save_def split_beta)

lemma save_fst: "fst (save out m) = None \<longleftrightarrow> out = SaveOk"
  by (cases out) (auto simp: save_def SaveConfig_def)

lemma ResolveProviderAuthType_Inr:
  "ResolveProviderAuthType v = Inr a \<Longrightarrow> a \<in> {ProviderAuthJWT, ProviderAuthMTLS} \<and> (v \<noteq> [] \<longrightarrow> a = v)"
  by (auto simp: ResolveProviderAuthType_def split: if_splits)

section \<open>Every operation keeps the configuration well-formed\<close>

lemma ctx_ok_mono:
  "ctx_ok cfg c \<Longrightarrow> nName ` set (cfgNetworks cfg) \<subseteq> nName ` set (cfgNetworks cfg') \<Longrightarrow>
    kName ` set (cfgKeyrings cfg) \<subseteq> kName ` set (cfgKeyrings cfg') \<Longrightarrow> ctx_ok cfg' c"
  by (auto simp: ctx_ok_def)

lemma CreateNetwork_ok: "cfg_ok (mCfg m) \<Longrightarrow> cfg_ok (mCfg (snd (CreateNetwork out m net)))"
  by (auto simp: CreateNetwork_def cfg_ok_def get_in intro: ctx_ok_mono)

lemma CreateNetworkFromTemplate_ok: "cfg_ok (mCfg m) \<Longrightarrow> cfg_ok (mCfg (snd (CreateNetworkFromTemplate out m name t)))"
  by (auto simp: CreateNetworkFromTemplate_def CreateNetwork_ok split: option.split)

lemma ForkNetwork_ok: "cfg_ok (mCfg m) \<Longrightarrow> cfg_ok (mCfg (snd (ForkNetwork out m src new)))"
  by (auto simp: ForkNetwork_def cfg_ok_def get_in intro: ctx_ok_mono split: option.split)

lemma DeleteNetwork_ok:
  assumes "cfg_ok (mCfg m)"
  shows "cfg_ok (mCfg (snd (DeleteNetwork out m name)))"
proof (cases "contextsUsingNetwork m name = []")
  case True
  then have unused: "nName (cNetwork c) \<noteq> name" if "c \<in> set (cfgContexts (mCfg m))" for c
    using that by (auto simp: contextsUsingNetwork_def filter_empty_conv)
  have "ctx_ok (mCfg m) c \<Longrightarrow> nName (cNetwork c) \<noteq> name \<Longrightarrow>
      ctx_ok ((mCfg m)\<lparr>cfgNetworks := filter (\<lambda>n. nName n \<noteq> name) (cfgNetworks (mCfg m))\<rparr>) c" for c
    by (auto simp: ctx_ok_def)
  with True unused assms show ?thesis
    by (simp add: DeleteNetwork_def cfg_ok_def distinct_map_filter)
next
  case False
  with assms show ?thesis by (simp add: DeleteNetwork_def Let_def)
qed

lemma UpdateNetwork_ok:
  assumes "cfg_ok (mCfg m)" and "\<And>n. nName (snd (edit n)) = nName n"
  shows "cfg_ok (mCfg (snd (UpdateNetwork out m name edit)))"
proof (cases "getNetwork m name")
  case (Some net)
  let ?nets = "upd_first nName name (\<lambda>_. snd (edit net)) (cfgNetworks (mCfg m))"
  have "nName net = name" by (rule find_by_key [OF Some [unfolded getNetwork_def]])
  then have names: "map nName ?nets = map nName (cfgNetworks (mCfg m))"
    using assms(2) by (intro upd_first_names) simp
  then have "nName ` set ?nets = nName ` set (cfgNetworks (mCfg m))" by (metis list.set_map)
  then have "ctx_ok ((mCfg m)\<lparr>cfgNetworks := ?nets\<rparr>) c = ctx_ok (mCfg m) c" for c by (simp add: ctx_ok_def)
  with names assms(1) have "cfg_ok ((mCfg m)\<lparr>cfgNetworks := ?nets\<rparr>)" by (simp add: cfg_ok_def)
  with Some show ?thesis by (auto simp: UpdateNetwork_def Let_def split: option.split)
qed (use assms in \<open>simp add: UpdateNetwork_def\<close>)

lemma CreateKeyring_ok: "cfg_ok (mCfg m) \<Longrightarrow> cfg_ok (mCfg (snd (CreateKeyring out m kr)))"
  by (auto simp: CreateKeyring_def Let_def cfg_ok_def get_in intro: ctx_ok_mono)

lemma UpdateKeyring_ok:
  assumes "cfg_ok (mCfg m)" and "\<And>n. kName (snd (edit n)) = kName n"
  shows "cfg_ok (mCfg (snd (UpdateKeyring out m name edit)))"
proof (cases "getKeyring m name")
  case (Some kr)
  let ?krs = "upd_first kName name (\<lambda>_. snd (edit kr)) (cfgKeyrings (mCfg m))"
  have "kName kr = name" by (rule find_by_key [OF Some [unfolded getKeyring_def]])
  then have names: "map kName ?krs = map kName (cfgKeyrings (mCfg m))"
    using assms(2) by (intro upd_first_names) simp
  then have "kName ` set ?krs = kName ` set (cfgKeyrings (mCfg m))" by (metis list.set_map)
  then have "ctx_ok ((mCfg m)\<lparr>cfgKeyrings := ?krs\<rparr>) c = ctx_ok (mCfg m) c" for c by (simp add: ctx_ok_def)
  with names assms(1) have "cfg_ok ((mCfg m)\<lparr>cfgKeyrings := ?krs\<rparr>)" by (simp add: cfg_ok_def)
  with Some show ?thesis by (auto simp: UpdateKeyring_def Let_def split: option.split)
qed (use assms in \<open>simp add: UpdateKeyring_def\<close>)

lemma UseContext_ok: "cfg_ok (mCfg m) \<Longrightarrow> cfg_ok (mCfg (snd (UseContext out m name)))"
  by (auto simp: UseContext_def cfg_ok_def get_in ctx_ok_def)

lemma DeleteContext_ok: "cfg_ok (mCfg m) \<Longrightarrow> cfg_ok (mCfg (snd (DeleteContext out os m name keepData)))"
  by (auto simp: DeleteContext_def Let_def cfg_ok_def ctx_ok_def distinct_map_filter)

lemma RenameContext_ok:
  assumes "cfg_ok (mCfg m)"
  shows "cfg_ok (mCfg (snd (RenameContext out os m old new)))"
proof (cases "getContext m new \<noteq> None \<or> getContext m old = None")
  case False
  let ?ctxs = "upd_first cName old (\<lambda>c. c\<lparr>cName := new\<rparr>) (cfgContexts (mCfg m))"
  have new: "new \<notin> cName ` set (cfgContexts (mCfg m))" and old: "old \<in> cName ` set (cfgContexts (mCfg m))"
    using False by (auto simp: get_in)
  have "distinct (map cName ?ctxs)"
    using assms new by (intro upd_first_rename) (auto simp: cfg_ok_def)
  moreover have "\<forall>c \<in> set ?ctxs. ctx_ok (mCfg m) c"
    using assms by (auto dest!: upd_first_mem find_by_SomeD simp: cfg_ok_def) (auto simp: ctx_ok_def)
  moreover have "new \<in> cName ` set ?ctxs"
  proof -
    from old obtain c where "find_by cName old (cfgContexts (mCfg m)) = Some c"
      using find_by_in [of cName old "cfgContexts (mCfg m)"] by blast
    then have "c\<lparr>cName := new\<rparr> \<in> set ?ctxs" by (rule upd_first_in)
    then show ?thesis by force
  qed
  moreover have "x \<in> cName ` set ?ctxs" if "x \<in> cName ` set (cfgContexts (mCfg m))" "x \<noteq> old" for x
  proof -
    have "find_by cName x ?ctxs = find_by cName x (cfgContexts (mCfg m))"
      using that new by (intro upd_first_other) auto
    with that show ?thesis using find_by_in by metis
  qed
  ultimately show ?thesis
    using assms False by (auto simp: RenameContext_def cfg_ok_def ctx_ok_def split: sum.split)
qed (use assms in \<open>auto simp: RenameContext_def\<close>)

lemma check_create_Inr:
  assumes "check_create m ctx = Inr c"
  shows "cName c = cName ctx \<and> cName c \<noteq> [] \<and> getContext m (cName ctx) = None \<and> ctx_ok (mCfg m) c"
  using assms ResolveProviderAuthType_Inr [of "pdAuthType (cProviderDefaults ctx)"]
  by (auto simp: check_create_def rbind_Inr_iff Let_def get_in ctx_ok_def split: if_splits)

lemma CreateContext_ok:
  assumes "cfg_ok (mCfg m)"
  shows "cfg_ok (mCfg (snd (CreateContext out os m ctx)))"
proof (cases "check_create m ctx")
  case (Inr c)
  obtain r files where dirs: "EnsureContextDirs os (mFiles m) (mRoot m) (cName c) = (r, files)" by force
  let ?m = "m\<lparr>mFiles := files, mCfg := (mCfg m)\<lparr>cfgContexts := cfgContexts (mCfg m) @ [c]\<rparr>\<rparr>"
  note chk = check_create_Inr [OF Inr]
  have ok: "cfg_ok (mCfg ?m)"
    using assms chk by (auto simp: cfg_ok_def get_in ctx_ok_def)
  have "mCfg (snd (save out ?m)) = mCfg ?m" by (rule save_cfg)
  then show ?thesis
    using Inr ok assms dirs by (cases r; cases "save out ?m"; cases "fst (save out ?m)") (auto simp: CreateContext_def)
qed (use assms in \<open>simp add: CreateContext_def\<close>)

text \<open>What a validated edit is: the edited context, and the edited or forked network.\<close>

definition keeps_names :: "('a \<Rightarrow> string) \<Rightarrow> ('a \<Rightarrow> ctx_err option \<times> 'a) option \<Rightarrow> bool" where
  "keeps_names key edit \<longleftrightarrow> (\<forall>f x. edit = Some f \<longrightarrow> key (snd (f x)) = key x)"

lemma edited_network_Inr:
  assumes "edited_network m name forkName applyNetwork ctx = Inr (c, net)" and "keeps_names nName applyNetwork"
  shows "cName c = cName ctx \<and> cKeyring c = cKeyring ctx \<and> cProviderDefaults c = cProviderDefaults ctx \<and>
    (case net of
       None \<Rightarrow> forkName = [] \<and> c = ctx
     | Some (old, n) \<Rightarrow> old = nName (cNetwork ctx) \<and> old \<in> nName ` set (cfgNetworks (mCfg m)) \<and>
         (if forkName = [] then c = ctx \<and> nName n = old
          else nName (cNetwork c) = forkName \<and> nName n = forkName \<and> forkName \<notin> nName ` set (cfgNetworks (mCfg m))))"
proof (cases applyNetwork)
  case None
  with assms(1) show ?thesis by (auto simp: edited_network_def split: if_splits)
next
  case (Some edit)
  from assms(1) Some obtain net0 where net0: "getNetwork m (nName (cNetwork ctx)) = Some net0"
    by (auto simp: edited_network_def rbind_Inr_iff)
  have mem: "nName (cNetwork ctx) \<in> nName ` set (cfgNetworks (mCfg m))" "nName net0 = nName (cNetwork ctx)"
    using net0 get_in(1) [of m "nName (cNetwork ctx)"] find_by_key [OF net0 [unfolded getNetwork_def]] by auto
  have names: "nName (snd (edit n)) = nName n" for n using assms(2) Some by (simp add: keeps_names_def)
  show ?thesis
  proof (cases "forkName = []")
    case True
    with assms(1) Some net0 mem names [of net0] show ?thesis
      by (auto simp: edited_network_def rbind_Inr_iff split: prod.splits option.splits)
  next
    case False
    obtain r n where e: "edit (net0\<lparr>nName := forkName\<rparr>) = (r, n)" by force
    with names [of "net0\<lparr>nName := forkName\<rparr>"] have n: "nName n = forkName" by simp
    have new: "getNetwork m forkName = None"
      using assms(1) Some net0 False by (cases "getNetwork m forkName") (auto simp: edited_network_def rbind_Inr_iff)
    with assms(1) Some net0 False e have "c = ctx\<lparr>cNetwork := zero_network\<lparr>nName := forkName\<rparr>\<rparr>" "net = Some (nName (cNetwork ctx), n)"
      by (cases r; auto simp: edited_network_def rbind_Inr_iff)+
    with mem new n False show ?thesis by (simp add: get_in)
  qed
qed

lemma check_update_Inr:
  assumes chk: "check_update m name forkName applyContext applyNetwork = Inr (c, net)"
    and names: "keeps_names cName applyContext" "keeps_names nName applyNetwork"
  shows "cName c = name \<and> getContext m name \<noteq> None \<and> kName (cKeyring c) \<in> kName ` set (cfgKeyrings (mCfg m)) \<and>
    pdAuthType (cProviderDefaults c) \<in> {ProviderAuthJWT, ProviderAuthMTLS} \<and>
    (case net of
       None \<Rightarrow> forkName = [] \<and> (nName (cNetwork c) = [] \<or> nName (cNetwork c) \<in> nName ` set (cfgNetworks (mCfg m)))
     | Some (old, n) \<Rightarrow> old \<in> nName ` set (cfgNetworks (mCfg m)) \<and>
         (if forkName = [] then nName (cNetwork c) = old \<and> nName n = old
          else nName (cNetwork c) = forkName \<and> nName n = forkName \<and> forkName \<notin> nName ` set (cfgNetworks (mCfg m))))"
proof -
  from chk obtain c0 c1 c2 auth where c0: "getContext m name = Some c0"
    and c1: "(case applyContext of None \<Rightarrow> Inr c0
            | Some edit \<Rightarrow> (case edit c0 of (Some e, _) \<Rightarrow> Inl e | (None, ctx) \<Rightarrow> Inr ctx)) = Inr c1"
    and c2: "edited_network m name forkName applyNetwork c1 = Inr (c2, net)"
    and ref: "\<not> (nName (cNetwork c2) \<noteq> [] \<and> forkName = [] \<and> getNetwork m (nName (cNetwork c2)) = None)"
    and kr: "getKeyring m (kName (cKeyring c2)) \<noteq> None"
    and auth: "ResolveProviderAuthType (pdAuthType (cProviderDefaults c2)) = Inr auth"
    and c: "c = c2\<lparr>cProviderDefaults := (cProviderDefaults c2)\<lparr>pdAuthType := auth\<rparr>\<rparr>"
    by (auto simp: check_update_def rbind_Inr_iff)
  have "cName c0 = name" by (rule find_by_key [OF c0 [unfolded getContext_def]])
  moreover have "cName c1 = cName c0"
  proof (cases applyContext)
    case (Some edit)
    with names(1) have "cName (snd (edit c0)) = cName c0" by (simp add: keeps_names_def)
    with c1 Some show ?thesis by (auto split: prod.splits option.splits)
  qed (use c1 in simp)
  moreover note edited_network_Inr [OF c2 names(2)] ResolveProviderAuthType_Inr [OF auth]
  ultimately show ?thesis
    using c c0 kr ref by (auto simp: get_in split: option.splits)
qed

lemma UpdateContextAndNetwork_failure:
  assumes "UpdateContextAndNetwork out m name forkName applyContext applyNetwork = (Some e, m')"
  shows "mCfg m' = mCfg m"
proof (cases "check_update m name forkName applyContext applyNetwork")
  case (Inr cn)
  obtain c net where cn: "cn = (c, net)" by force
  let ?m = "m\<lparr>mCfg := (mCfg m)\<lparr>cfgContexts := upd_first cName name (\<lambda>_. c) (cfgContexts (mCfg m)),
    cfgNetworks := (case net of None \<Rightarrow> cfgNetworks (mCfg m) | Some (old, net) \<Rightarrow>
      if forkName \<noteq> [] then cfgNetworks (mCfg m) @ [net] else upd_first nName old (\<lambda>_. net) (cfgNetworks (mCfg m)))\<rparr>\<rparr>"
  obtain r m1 where s: "save out ?m = (r, m1)" by force
  then have "mCfg m1 = mCfg ?m" using save_cfg [of out ?m] by simp
  with assms Inr cn s show ?thesis
    by (cases r) (auto simp: UpdateContextAndNetwork_def Let_def)
qed (use assms in \<open>simp add: UpdateContextAndNetwork_def\<close>)

lemma UpdateContextAndNetwork_success:
  assumes "UpdateContextAndNetwork out m name forkName applyContext applyNetwork = (None, m')"
  obtains c net where "check_update m name forkName applyContext applyNetwork = Inr (c, net)"
    "mCfg m' = (mCfg m)\<lparr>cfgContexts := upd_first cName name (\<lambda>_. c) (cfgContexts (mCfg m)),
      cfgNetworks := (case net of None \<Rightarrow> cfgNetworks (mCfg m) | Some (old, net) \<Rightarrow>
        if forkName \<noteq> [] then cfgNetworks (mCfg m) @ [net] else upd_first nName old (\<lambda>_. net) (cfgNetworks (mCfg m)))\<rparr>"
proof -
  from assms obtain c net where chk: "check_update m name forkName applyContext applyNetwork = Inr (c, net)"
    by (auto simp: UpdateContextAndNetwork_def split: sum.splits)
  let ?m = "m\<lparr>mCfg := (mCfg m)\<lparr>cfgContexts := upd_first cName name (\<lambda>_. c) (cfgContexts (mCfg m)),
    cfgNetworks := (case net of None \<Rightarrow> cfgNetworks (mCfg m) | Some (old, net) \<Rightarrow>
      if forkName \<noteq> [] then cfgNetworks (mCfg m) @ [net] else upd_first nName old (\<lambda>_. net) (cfgNetworks (mCfg m)))\<rparr>\<rparr>"
  obtain r m1 where s: "save out ?m = (r, m1)" by force
  then have "mCfg m1 = mCfg ?m" using save_cfg [of out ?m] by simp
  with assms chk s that show ?thesis
    by (cases r) (auto simp: UpdateContextAndNetwork_def Let_def)
qed

lemma UpdateContextAndNetwork_files:
  assumes "UpdateContextAndNetwork out m name forkName applyContext applyNetwork = (r, m')"
  shows "mFiles m' = mFiles m" and "mRoot m' = mRoot m"
  using assms by (auto simp: UpdateContextAndNetwork_def Let_def save_def split: sum.splits prod.splits option.splits)

lemma UpdateContextAndNetwork_ok:
  assumes ok: "cfg_ok (mCfg m)" and names: "keeps_names cName applyContext" "keeps_names nName applyNetwork"
  shows "cfg_ok (mCfg (snd (UpdateContextAndNetwork out m name forkName applyContext applyNetwork)))"
proof (cases "UpdateContextAndNetwork out m name forkName applyContext applyNetwork")
  case (Pair r m')
  show ?thesis
  proof (cases r)
    case (Some e)
    with Pair ok UpdateContextAndNetwork_failure show ?thesis by fastforce
  next
    case None
    from UpdateContextAndNetwork_success [OF Pair [unfolded None]] obtain c net where
      chk: "check_update m name forkName applyContext applyNetwork = Inr (c, net)"
      and m': "mCfg m' = (mCfg m)\<lparr>cfgContexts := upd_first cName name (\<lambda>_. c) (cfgContexts (mCfg m)),
        cfgNetworks := (case net of None \<Rightarrow> cfgNetworks (mCfg m) | Some (old, net) \<Rightarrow>
        if forkName \<noteq> [] then cfgNetworks (mCfg m) @ [net] else upd_first nName old (\<lambda>_. net) (cfgNetworks (mCfg m)))\<rparr>" .
    note spec = check_update_Inr [OF chk names]
    have ctxs: "map cName (upd_first cName name (\<lambda>_. c) (cfgContexts (mCfg m))) = map cName (cfgContexts (mCfg m))"
      using spec by (intro upd_first_names) auto
    have upd: "map nName (upd_first nName old (\<lambda>_. n) (cfgNetworks (mCfg m))) = map nName (cfgNetworks (mCfg m))"
      if "nName n = old" for old n using that by (intro upd_first_names) auto
    have nets: "distinct (map nName (cfgNetworks (mCfg m'))) \<and>
      insert (nName (cNetwork c)) (nName ` set (cfgNetworks (mCfg m))) - {[]} \<subseteq> nName ` set (cfgNetworks (mCfg m'))"
    proof (cases net)
      case None
      with spec ok m' show ?thesis by (auto simp: cfg_ok_def)
    next
      case (Some on)
      obtain old n where on: "on = (old, n)" by force
      show ?thesis
      proof (cases "forkName = []")
        case True
        with Some on spec have n: "nName n = old" "nName (cNetwork c) = old" "old \<in> nName ` set (cfgNetworks (mCfg m))" by auto
        have "nName ` set (upd_first nName old (\<lambda>_. n) (cfgNetworks (mCfg m))) = nName ` set (cfgNetworks (mCfg m))"
          using upd [OF n(1)] by (metis list.set_map)
        with True Some on m' n upd [OF n(1)] ok show ?thesis by (auto simp: cfg_ok_def)
      next
        case False
        with Some on spec m' ok show ?thesis by (auto simp: cfg_ok_def)
      qed
    qed
    have kr: "cfgKeyrings (mCfg m') = cfgKeyrings (mCfg m)" using m' by simp
    have "ctx_ok (mCfg m') x" if x: "x \<in> set (cfgContexts (mCfg m'))" for x
    proof -
      from x m' have "x \<in> set (cfgContexts (mCfg m)) \<or> x = c" using upd_first_mem by fastforce
      moreover have "ctx_ok (mCfg m') c" unfolding ctx_ok_def kr using spec nets by blast
      moreover have "ctx_ok (mCfg m) x \<Longrightarrow> ctx_ok (mCfg m') x" unfolding ctx_ok_def kr using nets by blast
      ultimately show ?thesis using ok unfolding cfg_ok_def by blast
    qed
    moreover have "distinct (map cName (cfgContexts (mCfg m')))" using ctxs ok m' by (simp add: cfg_ok_def)
    moreover have "cName ` set (cfgContexts (mCfg m')) = cName ` set (cfgContexts (mCfg m))"
      using ctxs m' by simp (metis list.set_map)
    ultimately show ?thesis using nets ok m' Pair by (simp add: cfg_ok_def)
  qed
qed

section \<open>Reachable managers\<close>

text \<open>
  The states a manager reaches from the default configuration; an edit of a record keeps the
  record's name (renaming has its own operation).
\<close>

inductive reachable_manager :: "Manager \<Rightarrow> bool" where
  mgr_init: "reachable_manager \<lparr>mRoot = root, mCfg = DefaultConfig, mFile = f, mFiles = files\<rparr>"
| mgr_create_network: "reachable_manager m \<Longrightarrow> reachable_manager (snd (CreateNetwork out m net))"
| mgr_template: "reachable_manager m \<Longrightarrow> reachable_manager (snd (CreateNetworkFromTemplate out m name t))"
| mgr_update_network: "reachable_manager m \<Longrightarrow> \<forall>n. nName (snd (edit n)) = nName n \<Longrightarrow>
    reachable_manager (snd (UpdateNetwork out m name edit))"
| mgr_fork: "reachable_manager m \<Longrightarrow> reachable_manager (snd (ForkNetwork out m src new))"
| mgr_delete_network: "reachable_manager m \<Longrightarrow> reachable_manager (snd (DeleteNetwork out m name))"
| mgr_create_context: "reachable_manager m \<Longrightarrow> reachable_manager (snd (CreateContext out os m ctx))"
| mgr_use: "reachable_manager m \<Longrightarrow> reachable_manager (snd (UseContext out m name))"
| mgr_update: "reachable_manager m \<Longrightarrow> keeps_names cName ac \<Longrightarrow> keeps_names nName an \<Longrightarrow>
    reachable_manager (snd (UpdateContextAndNetwork out m name forkName ac an))"
| mgr_delete_context: "reachable_manager m \<Longrightarrow> reachable_manager (snd (DeleteContext out os m name keepData))"
| mgr_rename: "reachable_manager m \<Longrightarrow> reachable_manager (snd (RenameContext out os m old new))"
| mgr_create_keyring: "reachable_manager m \<Longrightarrow> reachable_manager (snd (CreateKeyring out m kr))"
| mgr_update_keyring: "reachable_manager m \<Longrightarrow> \<forall>k. kName (snd (kedit k)) = kName k \<Longrightarrow>
    reachable_manager (snd (UpdateKeyring out m name kedit))"

lemmas manager_ok = CreateNetwork_ok CreateNetworkFromTemplate_ok UpdateNetwork_ok ForkNetwork_ok DeleteNetwork_ok
  CreateContext_ok UseContext_ok UpdateContextAndNetwork_ok DeleteContext_ok RenameContext_ok CreateKeyring_ok UpdateKeyring_ok

lemma reachable_cfg_ok: "reachable_manager m \<Longrightarrow> cfg_ok (mCfg m)"
proof (induction rule: reachable_manager.induct)
  case (mgr_init root f files)
  then show ?case by (simp add: cfg_ok_def DefaultConfig_def)
qed (simp_all add: manager_ok)

text \<open>
  C9.  In every configuration the manager's operations reach, also after failed saves, names
  of networks, keyrings and contexts are unique, every context refers to a keyring and to
  no network or an existing one, and the current context exists; so \<open>Resolve\<close> of any
  existing context succeeds, with its network and keyring filled in.
\<close>

theorem reachable_manager_resolves:
  assumes "reachable_manager m"
  shows "cfg_ok (mCfg m) \<and>
    (\<forall>c. getContext m name = Some c \<and> name \<noteq> [] \<longrightarrow>
      (\<exists>r. Resolve os m name = Inr r \<and> cName r = name \<and>
        getKeyring m (kName (cKeyring c)) = Some (cKeyring r) \<and>
        (if nName (cNetwork c) = [] then cNetwork r = zero_network
         else getNetwork m (nName (cNetwork c)) = Some (cNetwork r)) \<and>
        cAuthType r \<in> {ProviderAuthJWT, ProviderAuthMTLS}))"
proof -
  have ok: "cfg_ok (mCfg m)" by (rule reachable_cfg_ok [OF assms])
  have "\<exists>r. Resolve os m name = Inr r \<and> cName r = name \<and>
        getKeyring m (kName (cKeyring c)) = Some (cKeyring r) \<and>
        (if nName (cNetwork c) = [] then cNetwork r = zero_network
         else getNetwork m (nName (cNetwork c)) = Some (cNetwork r)) \<and>
        cAuthType r \<in> {ProviderAuthJWT, ProviderAuthMTLS}"
    if c: "getContext m name = Some c" "name \<noteq> []" for c
  proof -
    have "c \<in> set (cfgContexts (mCfg m))" and nm: "cName c = name"
      using find_by_SomeD [OF c(1) [unfolded getContext_def]] by auto
    with ok have cok: "ctx_ok (mCfg m) c" by (simp add: cfg_ok_def)
    then obtain kr where kr: "getKeyring m (kName (cKeyring c)) = Some kr"
      using get_in(2) [of m "kName (cKeyring c)"] by (auto simp: ctx_ok_def)
    have auth: "ResolveProviderAuthType (pdAuthType (cProviderDefaults c)) = Inr (pdAuthType (cProviderDefaults c))"
      "pdAuthType (cProviderDefaults c) \<in> {ProviderAuthJWT, ProviderAuthMTLS}"
      using cok by (auto simp: ctx_ok_def ResolveProviderAuthType_def ProviderAuthJWT_def ProviderAuthMTLS_def)
    show ?thesis
    proof (cases "nName (cNetwork c) = []")
      case True
      with c kr auth nm show ?thesis by (simp add: Resolve_def Let_def)
    next
      case False
      with cok obtain net where "getNetwork m (nName (cNetwork c)) = Some net"
        using get_in(1) [of m "nName (cNetwork c)"] by (auto simp: ctx_ok_def)
      with False c kr auth nm show ?thesis by (simp add: Resolve_def Let_def)
    qed
  qed
  with ok show ?thesis by blast
qed

text \<open>An example: mainnet from its template and a context on it.\<close>

definition sample_manager :: Manager where
  "sample_manager = snd (CreateContext SaveOk good_os
     (snd (CreateNetworkFromTemplate SaveOk \<lparr>mRoot = ''/r'', mCfg = DefaultConfig, mFile = None, mFiles = (\<lambda>_. None)\<rparr> ''main'' ''mainnet''))
     (zero_context\<lparr>cName := ''prod'', cNetwork := zero_network\<lparr>nName := ''main''\<rparr>\<rparr>))"

lemma sample_manager_reachable: "reachable_manager sample_manager"
  unfolding sample_manager_def by (intro mgr_create_context mgr_template mgr_init)

theorem reachable_manager_resolves_witness:
  "\<exists>r. Resolve good_os sample_manager ''prod'' = Inr r \<and> nChainID (cNetwork r) = ''akashnet-2'' \<and> cAuthType r = ''jwt''"
proof -
  have "map_option (\<lambda>c. (nName (cNetwork c), pdAuthType (cProviderDefaults c))) (getContext sample_manager ''prod'') = Some (''main'', ''jwt'')"
    by code_simp
  then obtain c where c: "getContext sample_manager ''prod'' = Some c" "nName (cNetwork c) = ''main''" by auto
  from reachable_manager_resolves [OF sample_manager_reachable, of "''prod''" good_os] c obtain r where
    r: "Resolve good_os sample_manager ''prod'' = Inr r" "getNetwork sample_manager ''main'' = Some (cNetwork r)" by auto
  have "map_option nChainID (getNetwork sample_manager ''main'') = Some ''akashnet-2''"
    "map_sum id cAuthType (Resolve good_os sample_manager ''prod'') = Inr ''jwt''" by code_simp+
  with r show ?thesis by auto
qed

text \<open>
  C34.  A failed \<open>UpdateContextAndNetwork\<close>, whether a validation or the save failed, leaves
  the in-memory configuration exactly as it was.  The file is another matter: a save that
  fails after \<open>os.Create\<close> has truncated \<open>config.yaml\<close> leaves it without a configuration.
\<close>

theorem UpdateContextAndNetwork_atomic:
  assumes "UpdateContextAndNetwork out m name forkName ac an = (Some e, m')"
  shows "mCfg m' = mCfg m \<and>
    (mFile m' = mFile m \<or> (out \<in> {EncodeFails, CloseEncoderFails, WriteFails, CloseFails} \<and> mFile m' = None))"
proof -
  have "mFile m' = mFile m \<or> (out \<in> {EncodeFails, CloseEncoderFails, WriteFails, CloseFails} \<and> mFile m' = None)"
    using assms by (cases out)
      (auto simp: UpdateContextAndNetwork_def save_def SaveConfig_def Let_def split: sum.splits prod.splits)
  with UpdateContextAndNetwork_failure [OF assms] show ?thesis by simp
qed

theorem UpdateContextAndNetwork_atomic_witness:
  "\<exists>e m'. UpdateContextAndNetwork WriteFails sample_manager ''prod'' [] (Some (\<lambda>c. (None, c\<lparr>cGas := ''7''\<rparr>))) None = (Some e, m') \<and>
     mCfg m' = mCfg sample_manager \<and> mFile sample_manager \<noteq> None \<and> mFile m' = None"
proof -
  let ?run = "UpdateContextAndNetwork WriteFails sample_manager ''prod'' [] (Some (\<lambda>c. (None, c\<lparr>cGas := ''7''\<rparr>))) None"
  have "fst ?run = Some WriteConfig" "Option.is_none (mFile (snd ?run))" "\<not> Option.is_none (mFile sample_manager)" by code_simp+
  moreover from this(1) have "?run = (Some WriteConfig, snd ?run)" by (simp add: prod_eq_iff)
  moreover from UpdateContextAndNetwork_atomic [OF this] have "mCfg (snd ?run) = mCfg sample_manager" by simp
  ultimately show ?thesis by (intro exI [of _ WriteConfig] exI [of _ "snd ?run"]) (simp add: Option.is_none_def)
qed

text \<open>
   Editing a network through a fork affects the edited context only: it then uses the
  edited copy under the new name, and every other context resolves exactly as before.
\<close>

theorem fork_edit_isolated:
  assumes ok: "cfg_ok (mCfg m)" and names: "keeps_names cName ac" "keeps_names nName an"
    and run: "UpdateContextAndNetwork out m name forkName ac an = (None, m')" and fork: "forkName \<noteq> []"
  shows "(\<forall>other. other \<noteq> name \<and> other \<noteq> [] \<and> getContext m other \<noteq> None \<longrightarrow>
      Resolve os m' other = Resolve os m other) \<and>
    (\<exists>c. getContext m' name = Some c \<and> nName (cNetwork c) = forkName \<and> getNetwork m forkName = None \<and> getNetwork m' forkName \<noteq> None)"
proof -
  from UpdateContextAndNetwork_success [OF run] obtain c net where
    chk: "check_update m name forkName ac an = Inr (c, net)"
    and m': "mCfg m' = (mCfg m)\<lparr>cfgContexts := upd_first cName name (\<lambda>_. c) (cfgContexts (mCfg m)),
        cfgNetworks := (case net of None \<Rightarrow> cfgNetworks (mCfg m) | Some (old, net) \<Rightarrow>
        if forkName \<noteq> [] then cfgNetworks (mCfg m) @ [net] else upd_first nName old (\<lambda>_. net) (cfgNetworks (mCfg m)))\<rparr>" .
  note spec = check_update_Inr [OF chk names]
  obtain old n where on: "net = Some (old, n)" using spec fork by (cases net) auto
  have net: "net = Some (old, n)" "nName n = forkName" "nName (cNetwork c) = forkName"
    "forkName \<notin> nName ` set (cfgNetworks (mCfg m))" using spec fork on by simp_all
  have nets: "cfgNetworks (mCfg m') = cfgNetworks (mCfg m) @ [n]" using m' net fork by simp
  have ctx: "getContext m' other = getContext m other" if "other \<noteq> name" for other
    using that spec m' by (simp add: getContext_def upd_first_other)
  have kr: "getKeyring m' = getKeyring m" using m' by (simp add: getKeyring_def fun_eq_iff)
  have get: "getNetwork m' k = getNetwork m k" if "getNetwork m k \<noteq> None" for k
    using that nets by (auto simp: getNetwork_def find_by_append)
  have "Resolve os m' other = Resolve os m other"
    if o: "other \<noteq> name" "other \<noteq> []" "getContext m other \<noteq> None" for other
  proof -
    from o(3) obtain x where x: "getContext m other = Some x" by auto
    with find_by_SomeD [OF x [unfolded getContext_def]] ok have "ctx_ok (mCfg m) x" by (auto simp: cfg_ok_def)
    then have "nName (cNetwork x) \<noteq> [] \<Longrightarrow> getNetwork m' (nName (cNetwork x)) = getNetwork m (nName (cNetwork x))"
      using get get_in(1) [of m "nName (cNetwork x)"] by (auto simp: ctx_ok_def)
    with x o ctx [OF o(1)] kr UpdateContextAndNetwork_files [OF run] show ?thesis by (simp add: Resolve_def Let_def)
  qed
  moreover have "getContext m' name = Some c"
  proof -
    from spec obtain c0 where "find_by cName name (cfgContexts (mCfg m)) = Some c0" by (auto simp: getContext_def)
    from upd_first_this [OF this, of "\<lambda>_. c"] spec m' show ?thesis by (simp add: getContext_def)
  qed
  moreover have "getNetwork m forkName = None" "getNetwork m' forkName \<noteq> None"
    using net nets by (auto simp: get_in)
  ultimately show ?thesis using net by blast
qed

theorem fork_edit_isolated_witness:
  "let m = snd (CreateContext SaveOk good_os sample_manager (zero_context\<lparr>cName := ''dev'', cNetwork := zero_network\<lparr>nName := ''main''\<rparr>\<rparr>));
       m' = snd (UpdateContextAndNetwork SaveOk m ''dev'' ''fork'' None (Some (\<lambda>n. (None, n\<lparr>nGasPrices := ''1uakt''\<rparr>)))) in
   Resolve good_os m' ''prod'' = Resolve good_os m ''prod'' \<and> getNetwork m' ''fork'' \<noteq> None"
proof -
  let ?m = "snd (CreateContext SaveOk good_os sample_manager (zero_context\<lparr>cName := ''dev'', cNetwork := zero_network\<lparr>nName := ''main''\<rparr>\<rparr>))"
  let ?run = "UpdateContextAndNetwork SaveOk ?m ''dev'' ''fork'' None (Some (\<lambda>n. (None, n\<lparr>nGasPrices := ''1uakt''\<rparr>)))"
  have ok: "cfg_ok (mCfg ?m)" by (intro reachable_cfg_ok mgr_create_context sample_manager_reachable)
  have "fst ?run = None" "\<not> Option.is_none (getContext ?m ''prod'')" by code_simp+
  then have run: "?run = (None, snd ?run)" and prod: "getContext ?m ''prod'' \<noteq> None" by (simp_all add: prod_eq_iff Option.is_none_def)
  have names: "keeps_names cName None" "keeps_names nName (Some (\<lambda>n. (None, n\<lparr>nGasPrices := ''1uakt''\<rparr>)))"
    by (simp_all add: keeps_names_def)
  have "''fork'' \<noteq> []" by simp
  note iso = fork_edit_isolated [OF ok names run this, of good_os]
  from iso obtain c where "getNetwork (snd ?run) ''fork'' \<noteq> None" by (elim conjE exE)
  moreover have "Resolve good_os (snd ?run) ''prod'' = Resolve good_os ?m ''prod''"
    by (rule conjunct1 [OF iso, rule_format]) (use prod in simp)
  ultimately show ?thesis unfolding Let_def by (intro conjI)
qed

text \<open>
  \<open>DeleteNetwork\<close> refuses exactly the networks some context uses, naming those contexts,
  and otherwise removes the network and nothing else.
\<close>

theorem DeleteNetwork_guard:
  "DeleteNetwork SaveOk m name =
    (if \<exists>c \<in> set (ListContexts m). nName (cNetwork c) = name
     then (Some (NetworkInUse name (map cName (filter (\<lambda>c. nName (cNetwork c) = name) (ListContexts m)))), m)
     else (None, m\<lparr>mCfg := (mCfg m)\<lparr>cfgNetworks := filter (\<lambda>n. nName n \<noteq> name) (cfgNetworks (mCfg m))\<rparr>,
            mFile := Some ((mCfg m)\<lparr>cfgNetworks := filter (\<lambda>n. nName n \<noteq> name) (cfgNetworks (mCfg m))\<rparr>)\<rparr>))
   \<and> getNetwork (snd (DeleteNetwork SaveOk m name)) name =
      (if \<exists>c \<in> set (ListContexts m). nName (cNetwork c) = name then getNetwork m name else None)"
proof -
  have "contextsUsingNetwork m name = [] \<longleftrightarrow> \<not> (\<exists>c \<in> set (ListContexts m). nName (cNetwork c) = name)"
    by (auto simp: contextsUsingNetwork_def ListContexts_def filter_empty_conv)
  then show ?thesis
    by (auto simp: DeleteNetwork_def Let_def save_def SaveConfig_def contextsUsingNetwork_def ListContexts_def getNetwork_def
        find_by_None_iff)
qed

theorem DeleteNetwork_guard_witness:
  "fst (DeleteNetwork SaveOk sample_manager ''main'') = Some (NetworkInUse ''main'' [''prod''])"
proof -
  have "map (\<lambda>c. (cName c, nName (cNetwork c))) (ListContexts sample_manager) = [(''prod'', ''main'')]" by code_simp
  then obtain c where "ListContexts sample_manager = [c]" "cName c = ''prod''" "nName (cNetwork c) = ''main''"
    by (cases "ListContexts sample_manager") auto
  with DeleteNetwork_guard [of sample_manager "''main''"] show ?thesis by simp
qed

end
