(* ===== verification/Context_Data.thy ===== *)
theory Context_Data
  imports Context_Props
begin

text \<open>
  The data directory of a context over the life of the context: what renaming moves, what
  deleting erases, and that neither reaches into the directory of another context.
\<close>

section \<open>Frames\<close>

lemma under_trans: "under p q \<Longrightarrow> under q r \<Longrightarrow> under p r"
  by (auto simp: under_iff)

text \<open>Neither directory of two contexts is above a file of the other.\<close>

lemma not_above:
  assumes "plain_name a" "plain_name b" "a \<noteq> b" "under (ContextDir root b) q"
  shows "\<not> under q (ContextDir root a)"
  using context_trees_disjoint [OF assms(1-3), of root "ContextDir root a"] under_trans [OF assms(4)] by auto

lemma SetConsoleAPIKey_other:
  assumes "SetConsoleAPIKey os fs root a key = (r, fs')" "plain_name a" "plain_name b" "a \<noteq> b" "under (ContextDir root b) q"
  shows "fs' q = fs q"
proof -
  have "q \<noteq> ConsoleAPIKeyPath root a"
    using context_trees_disjoint [OF assms(2-4)] ConsoleAPIKeyPath_under [OF assms(2)] assms(5) by blast
  with not_above [OF assms(2-5)] assms(1) show ?thesis
    by (auto simp: SetConsoleAPIKey_def Remove_def MkdirAll_def WriteFile_def Chmod_def Let_def
        split: if_splits prod.splits option.splits write_outcome.splits node.splits os_err.splits)
qed

lemma SetConsoleAPIKey_dir:
  assumes "SetConsoleAPIKey os fs root a key = (None, fs')" "plain_name a" "key \<noteq> []"
  shows "fs' (ContextDir root a) \<noteq> None"
proof -
  have "ContextDir root a \<noteq> ConsoleAPIKeyPath root a" using assms(2) by (simp add: ConsoleAPIKeyPath_eq)
  with assms(1,3) show ?thesis
    by (auto simp: SetConsoleAPIKey_def MkdirAll_def WriteFile_def Chmod_def Let_def
        split: if_splits prod.splits option.splits write_outcome.splits node.splits)
qed

lemma RenameContext_success:
  assumes "RenameContext out os m old new = (None, m')"
  obtains files where "move_context_dir os m old new = Inr files" "mFiles m' = files" "mRoot m' = mRoot m"
proof -
  from assms obtain files where f: "move_context_dir os m old new = Inr files"
    by (auto simp: RenameContext_def split: if_splits sum.splits)
  moreover from assms f have "mFiles m' = files \<and> mRoot m' = mRoot m"
    by (auto simp: RenameContext_def save_def split: if_splits prod.splits)
  ultimately show ?thesis using that by blast
qed

lemma move_context_dir_moves:
  assumes "move_context_dir os m old new = Inr files" "mFiles m (ContextDir (mRoot m) old) \<noteq> None"
    and "osStat os (ContextDir (mRoot m) old)"
  shows "files = (\<lambda>q. if under (ContextDir (mRoot m) new) q
      then mFiles m (ContextDir (mRoot m) old @ drop (length (ContextDir (mRoot m) new)) q)
      else if under (ContextDir (mRoot m) old) q then None else mFiles m q)"
  using assms by (auto simp: move_context_dir_def Rename_def Let_def split: if_splits)

lemma fst_None: "fst p = None \<Longrightarrow> p = (None, snd p)"
  by (cases p) simp

section \<open>Properties\<close>

text \<open>
  C10.  The stored credential follows its context: after a key was stored for one context and
  the context renamed, the key is found under the new name, in a file readable by the owner
  only, the old name has none, and no file of any third context has changed.
\<close>

theorem credential_follows_rename:
  assumes names: "plain_name a" "plain_name b" "a \<noteq> b" and key: "plain_key key"
    and set: "SetConsoleAPIKey os (mFiles m) (mRoot m) a key = (None, files)"
    and ren: "RenameContext out os (m\<lparr>mFiles := files\<rparr>) a b = (None, m')"
    and os: "osStat os (ContextDir (mRoot m) a)" "osRead os (ConsoleAPIKeyPath (mRoot m) b)" "osGetenv os EnvConsoleAPIKey = []"
  shows "ResolveConsoleAPIKey os (mFiles m') (mRoot m') b = key \<and>
    mFiles m' (ConsoleAPIKeyPath (mRoot m) b) = Some (File 384 (key @ [CHR 0x0A])) \<and>
    ResolveConsoleAPIKey os (mFiles m') (mRoot m') a = [] \<and>
    (\<forall>c q. plain_name c \<and> c \<noteq> a \<and> c \<noteq> b \<and> under (ContextDir (mRoot m) c) q \<longrightarrow> mFiles m' q = mFiles m q)"
proof -
  let ?r = "mRoot m"
  have k: "key \<noteq> []" using key by (simp add: plain_key_def)
  from RenameContext_success [OF ren] have mv: "move_context_dir os (m\<lparr>mFiles := files\<rparr>) a b = Inr (mFiles m')"
    and root: "mRoot m' = ?r" by auto
  have files: "mFiles m' = (\<lambda>q. if under (ContextDir ?r b) q
      then files (ContextDir ?r a @ drop (length (ContextDir ?r b)) q)
      else if under (ContextDir ?r a) q then None else files q)"
    using move_context_dir_moves [OF mv] SetConsoleAPIKey_dir [OF set names(1) k] os(1) by (auto simp: fun_eq_iff)
  have "mFiles m' (ConsoleAPIKeyPath ?r b) = files (ConsoleAPIKeyPath ?r a)"
    unfolding files using names by (simp add: ConsoleAPIKeyPath_eq)
  then have at_b: "mFiles m' (ConsoleAPIKeyPath ?r b) = Some (File 384 (key @ [CHR 0x0A]))"
    using SetConsoleAPIKey_stores [OF set k] by simp
  have "mFiles m' (ConsoleAPIKeyPath ?r a) = None"
    unfolding files using context_trees_disjoint [OF names] ConsoleAPIKeyPath_under [OF names(1)] by auto
  from StoredConsoleAPIKey_missing [of "mFiles m'", OF this] have at_a: "StoredConsoleAPIKey os (mFiles m') ?r a = Inr []" .
  have other: "mFiles m' q = mFiles m q" if "plain_name c" "c \<noteq> a" "c \<noteq> b" "under (ContextDir ?r c) q" for c q
    using that context_trees_disjoint [of c] names SetConsoleAPIKey_other [OF set names(1), of c q]
    unfolding files by auto
  have "ResolveConsoleAPIKey os (mFiles m') ?r b = key" "ResolveConsoleAPIKey os (mFiles m') ?r a = []"
    using StoredConsoleAPIKey_file [of "mFiles m'", OF at_b key os(2)] at_a os(3) by (simp_all add: ResolveConsoleAPIKey_def)
  with at_b other show ?thesis unfolding root by blast
qed

theorem credential_follows_rename_witness:
  "let files = snd (SetConsoleAPIKey good_os (mFiles sample_manager) ''/r'' ''prod'' ''s3cret'');
       m' = snd (RenameContext SaveOk good_os (sample_manager\<lparr>mFiles := files\<rparr>) ''prod'' ''live'')
   in ResolveConsoleAPIKey good_os (mFiles m') (mRoot m') ''live'' = ''s3cret'' \<and> ResolveConsoleAPIKey good_os (mFiles m') (mRoot m') ''prod'' = []"
proof -
  let ?set = "SetConsoleAPIKey good_os (mFiles sample_manager) (mRoot sample_manager) ''prod'' ''s3cret''"
  let ?ren = "RenameContext SaveOk good_os (sample_manager\<lparr>mFiles := snd ?set\<rparr>) ''prod'' ''live''"
  have run: "fst ?set = None" "fst ?ren = None" and root: "mRoot sample_manager = ''/r''" by code_simp+
  have set: "?set = (None, snd ?set)" and ren: "?ren = (None, snd ?ren)" by (rule fst_None [OF run(1)], rule fst_None [OF run(2)])
  have names: "plain_name ''prod''" "plain_name ''live''" "''prod'' \<noteq> ''live''" "plain_key ''s3cret''" by code_simp+
  have os: "osStat good_os p" "osRead good_os p" "osGetenv good_os v = []" for p v by (simp_all add: good_os_def)
  note all = credential_follows_rename [OF names set ren os(1) os(2) os(3)]
  show ?thesis unfolding Let_def root [symmetric] by (intro conjI conjunct1 [OF all] conjunct1 [OF conjunct2 [OF conjunct2 [OF all]]])
qed

text \<open>
   \<open>DeleteContext\<close> without \<open>keepData\<close> leaves no file of the context behind that the
  operating system lets it remove, so the credential is gone even for a later context of
  the same name; with \<open>keepData\<close> every file stays; and it never touches another context's
  files.  The current context cannot be deleted.
\<close>

theorem DeleteContext_data:
  assumes "DeleteContext out os m a keepData = (r, m')" and "plain_name a"
  shows "(if a = cfgCurrentContext (mCfg m) \<or> getContext m a = None
      then r \<noteq> None \<and> m' = m
      else getContext m' a = None \<and>
        (\<forall>q. mFiles m' q = (if \<not> keepData \<and> under (ContextDir (mRoot m) a) q \<and> \<not> osKeeps os q then None else mFiles m q)) \<and>
        (\<not> keepData \<and> \<not> osKeeps os (ConsoleAPIKeyPath (mRoot m) a) \<longrightarrow>
          StoredConsoleAPIKey os (mFiles m') (mRoot m') a = Inr [])) \<and>
    (\<forall>c q. plain_name c \<and> c \<noteq> a \<and> under (ContextDir (mRoot m) c) q \<longrightarrow> mFiles m' q = mFiles m q)"
proof (cases "a = cfgCurrentContext (mCfg m) \<or> getContext m a = None")
  case True
  with assms(1) show ?thesis by (auto simp: DeleteContext_def split: if_splits)
next
  case False
  have m': "mFiles m' = (if keepData then mFiles m else RemoveAll os (mFiles m) (ContextDir (mRoot m) a))"
      "mRoot m' = mRoot m" "mCfg m' = (mCfg m)\<lparr>cfgContexts := filter (\<lambda>c. cName c \<noteq> a) (cfgContexts (mCfg m))\<rparr>"
    using False assms(1) by (auto simp: DeleteContext_def Let_def save_def split: prod.splits)
  have gone: "getContext m' a = None" by (auto simp: m' get_in)
  have files: "mFiles m' q = (if \<not> keepData \<and> under (ContextDir (mRoot m) a) q \<and> \<not> osKeeps os q then None else mFiles m q)" for q
    by (simp add: m' RemoveAll_def)
  have "StoredConsoleAPIKey os (mFiles m') (mRoot m') a = Inr []" if "\<not> keepData" "\<not> osKeeps os (ConsoleAPIKeyPath (mRoot m) a)"
    using that ConsoleAPIKeyPath_under [OF assms(2)] by (intro StoredConsoleAPIKey_missing) (simp add: files m'(2))
  moreover have "mFiles m' q = mFiles m q" if "plain_name c" "c \<noteq> a" "under (ContextDir (mRoot m) c) q" for c q
    using that context_trees_disjoint [of c a] assms(2) by (simp add: files)
  ultimately show ?thesis unfolding if_not_P [OF False] using gone files by blast
qed

theorem DeleteContext_data_witness:
  "let files = snd (SetConsoleAPIKey good_os (mFiles sample_manager) ''/r'' ''prod'' ''s3cret'');
       m' = snd (DeleteContext SaveOk good_os (sample_manager\<lparr>mFiles := files\<rparr>) ''prod'' False)
   in getContext m' ''prod'' = None \<and> files (''/r/contexts/prod/console-api-key'') \<noteq> None \<and>
      StoredConsoleAPIKey good_os (mFiles m') (mRoot m') ''prod'' = Inr []"
proof -
  let ?files = "snd (SetConsoleAPIKey good_os (mFiles sample_manager) ''/r'' ''prod'' ''s3cret'')"
  define m where "m = sample_manager\<lparr>mFiles := ?files\<rparr>"
  let ?run = "DeleteContext SaveOk good_os m ''prod'' False"
  have start: "\<not> (''prod'' = cfgCurrentContext (mCfg m) \<or> Option.is_none (getContext m ''prod''))"
    and key: "\<not> Option.is_none (?files (''/r/contexts/prod/console-api-key''))" and prod: "plain_name ''prod''"
    unfolding m_def by code_simp+
  have keeps: "\<not> osKeeps good_os p" for p by (simp add: good_os_def)
  from DeleteContext_data [of SaveOk good_os m "''prod''" False "fst ?run" "snd ?run", OF _ prod] start keeps
  have "getContext (snd ?run) ''prod'' = None \<and> StoredConsoleAPIKey good_os (mFiles (snd ?run)) (mRoot (snd ?run)) ''prod'' = Inr []"
    by (simp add: Option.is_none_def)
  with key show ?thesis by (simp add: Let_def Option.is_none_def m_def)
qed

end
