(* ===== verification/Action_Log.thy ===== *)
theory Action_Log
  imports Go_Files
begin

text \<open>
  The action log (\<open>src/internal/actionlog/log.go\<close>): an append-only file of JSON lines with five
  rotated predecessors.  The log files live in the file system of \<open>Go_Files\<close>; the open handle
  refers to the file at the log's path as long as it is open.  The JSON coding of an entry,
  the clock, and what the operating system refuses are parameters.
\<close>

section \<open>Entries and filters\<close>

definition maxLogSize :: nat where
  "maxLogSize = 10 * 1024 * 1024"

definition maxLogRecordSize :: nat where
  "maxLogRecordSize = maxLogSize"

definition maxRotatedFiles :: nat where
  "maxRotatedFiles = 5"

text \<open>A time is its distance from the zero time, the first instant of year 1.\<close>

type_synonym time = int

definition TypeTx :: string where
  "TypeTx = ''tx''"

definition TypeWorkflow :: string where
  "TypeWorkflow = ''workflow''"

record Entry =
  eTimestamp :: time
  eType :: string
  eAction :: string
  eTxHash :: string
  eHeight :: int
  eGasUsed :: int
  eResultCode :: u32
  eDSeq :: u64
  eGSeq :: u32
  eOSeq :: u32
  eProvider :: string
  eAccount :: string
  eParams :: string
  eDurationMs :: int
  eWorkflowID :: string
  eStep :: int
  eStepName :: string
  eError :: string
  eStatus :: string

definition zero_entry :: Entry where
  "zero_entry = \<lparr>eTimestamp = 0, eType = [], eAction = [], eTxHash = [], eHeight = 0, eGasUsed = 0, eResultCode = 0, eDSeq = 0,
     eGSeq = 0, eOSeq = 0, eProvider = [], eAccount = [], eParams = [], eDurationMs = 0, eWorkflowID = [], eStep = 0,
     eStepName = [], eError = [], eStatus = []\<rparr>"

record Filter =
  fType :: string
  fSince :: time
  fLimit :: int
  fDSeq :: u64
  fAccount :: string
  fWorkflowID :: string

definition zero_filter :: Filter where
  "zero_filter = \<lparr>fType = [], fSince = 0, fLimit = 0, fDSeq = 0, fAccount = [], fWorkflowID = []\<rparr>"

definition matchesFilter :: "Entry \<Rightarrow> Filter \<Rightarrow> bool" where
  "matchesFilter e f \<longleftrightarrow>
     (if fType f \<noteq> [] \<and> eType e \<noteq> fType f then False
      else if fSince f \<noteq> 0 \<and> eTimestamp e < fSince f then False
      else if fDSeq f \<noteq> 0 \<and> eDSeq e \<noteq> fDSeq f then False
      else if fAccount f \<noteq> [] \<and> eAccount e \<noteq> fAccount f then False
      else if fWorkflowID f \<noteq> [] \<and> eWorkflowID e \<noteq> fWorkflowID f then False
      else True)"

section \<open>The logger\<close>

text \<open>
  \<open>logHandle\<close>: whether \<open>l.file\<close> is an open file.  The parameters: the JSON functions, and for
  one call the clock and which system calls succeed (\<open>loWrite\<close>: \<open>None\<close> when all bytes are
  written, otherwise how many).
\<close>

record Logger =
  logPath :: string
  logHandle :: bool
  logFiles :: fs

record entry_codec =
  entry_marshal :: "Entry \<Rightarrow> string option"
  entry_unmarshal :: "string \<Rightarrow> Entry option"

record log_os =
  loNow :: time
  loOpen :: "string \<Rightarrow> bool"
  loStat :: bool
  loClose :: bool
  loSync :: bool
  loRename :: "string \<Rightarrow> bool"
  loWrite :: "nat option"

datatype log_err =
    LogDirectory | OpenLog | MarshalEntry | EntryTooLarge nat | CloseForRotation | OpenAfterRotation | WriteLog
  | FlushLog | ReadRotated nat | ReadLog | ReadRecord | LogNotExist

definition rotated :: "string \<Rightarrow> nat \<Rightarrow> string" where
  "rotated path i = path @ ''.'' @ format_nat i"

text \<open>\<open>os.OpenFile\<close> with \<open>O_APPEND|O_CREATE\<close>: an existing file is kept, a new one has mode 0644.\<close>

definition open_append :: "log_os \<Rightarrow> fs \<Rightarrow> string \<Rightarrow> fs option" where
  "open_append os fs p =
     (if \<not> loOpen os p then None
      else case fs p of
        None \<Rightarrow> Some (fs(p \<mapsto> File 420 []))
      | Some (Dir _) \<Rightarrow> None
      | Some (File _ _) \<Rightarrow> Some fs)"

definition Log_Open :: "os \<Rightarrow> log_os \<Rightarrow> fs \<Rightarrow> string \<Rightarrow> log_err + Logger" where
  "Log_Open sys os fs path =
     (case MkdirAll sys fs (filepath_Dir path) 493 of
        (Some _, _) \<Rightarrow> Inl LogDirectory
      | (None, fs) \<Rightarrow>
          (case open_append os fs path of
             None \<Rightarrow> Inl OpenLog
           | Some fs \<Rightarrow> Inr \<lparr>logPath = path, logHandle = True, logFiles = fs\<rparr>))"

definition file_text :: "fs \<Rightarrow> string \<Rightarrow> string" where
  "file_text fs p = (case fs p of Some (File _ c) \<Rightarrow> c | _ \<Rightarrow> [])"

text \<open>A rename whose error is ignored; the source of a rename of a missing file does not exist.\<close>

definition try_rename :: "log_os \<Rightarrow> fs \<Rightarrow> string \<Rightarrow> string \<Rightarrow> fs" where
  "try_rename os fs src dst = (if fs src = None \<or> \<not> loRename os src then fs else fs(dst := fs src, src := None))"

definition shift_files :: "log_os \<Rightarrow> string \<Rightarrow> fs \<Rightarrow> fs" where
  "shift_files os path fs =
     (let fs = foldl (\<lambda>fs i. try_rename os fs (rotated path i) (rotated path (i + 1))) fs (rev [1..<maxRotatedFiles])
      in try_rename os fs path (rotated path 1))"

definition maybeRotate :: "log_os \<Rightarrow> Logger \<Rightarrow> log_err option \<times> Logger" where
  "maybeRotate os l =
     (if \<not> logHandle l \<or> \<not> loStat os then (None, l)
      else if length (file_text (logFiles l) (logPath l)) < maxLogSize then (None, l)
      else if \<not> loClose os then (Some CloseForRotation, l\<lparr>logHandle := False\<rparr>)
      else (let fs = shift_files os (logPath l) (logFiles l) in
            case open_append os fs (logPath l) of
              None \<Rightarrow> (Some OpenAfterRotation, l\<lparr>logHandle := False, logFiles := fs\<rparr>)
            | Some fs \<Rightarrow> (None, l\<lparr>logFiles := fs\<rparr>)))"

definition append_text :: "fs \<Rightarrow> string \<Rightarrow> string \<Rightarrow> fs" where
  "append_text fs p t = (case fs p of Some (File m c) \<Rightarrow> fs(p \<mapsto> File m (c @ t)) | _ \<Rightarrow> fs(p \<mapsto> File 420 t))"

definition Log :: "entry_codec \<Rightarrow> log_os \<Rightarrow> Logger \<Rightarrow> Entry \<Rightarrow> log_err option \<times> Logger" where
  "Log C os l entry =
     (let entry = (if eTimestamp entry = 0 then entry\<lparr>eTimestamp := loNow os\<rparr> else entry) in
      case entry_marshal C entry of
        None \<Rightarrow> (Some MarshalEntry, l)
      | Some data \<Rightarrow>
          (let data = data @ [CHR 0x0A] in
           if maxLogRecordSize < length data then (Some (EntryTooLarge (length data)), l)
           else case maybeRotate os l of
             (Some e, l) \<Rightarrow> (Some e, l)
           | (None, l) \<Rightarrow>
               if \<not> logHandle l then (Some WriteLog, l)
               else (case loWrite os of
                  None \<Rightarrow> (None, l\<lparr>logFiles := append_text (logFiles l) (logPath l) data\<rparr>)
                | Some n \<Rightarrow> (Some WriteLog, l\<lparr>logFiles := append_text (logFiles l) (logPath l) (take n data)\<rparr>))))"

text \<open>
  \<open>bufio.Scanner\<close> over lines with the buffer limit: lines without the line end and one
  carriage return before it, the last one only if it is not empty; a line that does not fit
  with its line end is an error.
\<close>

definition drop_cr :: "string \<Rightarrow> string" where
  "drop_cr s = (if s \<noteq> [] \<and> last s = CHR 0x0D then butlast s else s)"

definition scan_lines :: "string \<Rightarrow> log_err + string list" where
  "scan_lines text =
     (let ls = split_on (CHR 0x0A) text;
          ls = (if last ls = [] then butlast ls else ls)
      in if \<exists>s \<in> set ls. maxLogRecordSize < length s + 1 then Inl ReadRecord else Inr (map drop_cr ls))"

definition readLogFile :: "entry_codec \<Rightarrow> log_os \<Rightarrow> fs \<Rightarrow> string \<Rightarrow> Filter \<Rightarrow> log_err + Entry list" where
  "readLogFile C os fs path flt =
     (case fs path of
        None \<Rightarrow> Inl LogNotExist
      | Some (Dir _) \<Rightarrow> Inl ReadRecord
      | Some (File _ text) \<Rightarrow>
          if \<not> loOpen os path then Inl OpenLog
          else rbind (scan_lines text) (\<lambda>ls.
            Inr (filter (\<lambda>e. matchesFilter e flt) (List.map_filter (entry_unmarshal C) ls))))"

text \<open>\<open>collapsed\<close> and the positions of the transactions seen so far.\<close>

definition collapse_step :: "Entry list \<times> (string \<rightharpoonup> nat) \<Rightarrow> Entry \<Rightarrow> Entry list \<times> (string \<rightharpoonup> nat)" where
  "collapse_step = (\<lambda>(collapsed, indices) entry.
     if eType entry = TypeTx \<and> eTxHash entry \<noteq> [] then
       (case indices (eTxHash entry) of
          Some index \<Rightarrow> (collapsed[index := entry\<lparr>eTimestamp := eTimestamp (collapsed ! index)\<rparr>], indices)
        | None \<Rightarrow> (collapsed @ [entry], indices(eTxHash entry \<mapsto> length collapsed)))
     else (collapsed @ [entry], indices))"

definition collapseTransactionRevisions :: "Entry list \<Rightarrow> Entry list" where
  "collapseTransactionRevisions entries = fst (foldl collapse_step ([], Map.empty) entries)"

definition read_rotated :: "entry_codec \<Rightarrow> log_os \<Rightarrow> Logger \<Rightarrow> Filter \<Rightarrow> Entry list \<Rightarrow> nat \<Rightarrow> log_err + Entry list" where
  "read_rotated C os l flt acc i =
     (case readLogFile C os (logFiles l) (rotated (logPath l) i) flt of
        Inr entries \<Rightarrow> Inr (acc @ entries)
      | Inl e \<Rightarrow> if e = LogNotExist then Inr acc else Inl (ReadRotated i))"

definition Log_Read :: "entry_codec \<Rightarrow> log_os \<Rightarrow> Logger \<Rightarrow> Filter \<Rightarrow> log_err + Entry list" where
  "Log_Read C os l flt =
     rbind (fail_if (\<not> logHandle l \<or> \<not> loSync os) FlushLog) (\<lambda>_.
     rbind (foldM (read_rotated C os l flt) [] (rev [1..<maxRotatedFiles + 1])) (\<lambda>allEntries.
     rbind (case readLogFile C os (logFiles l) (logPath l) flt of
              Inr entries \<Rightarrow> Inr entries
            | Inl e \<Rightarrow> if e = LogNotExist then Inr [] else Inl e) (\<lambda>entries.
     let allEntries = rev (collapseTransactionRevisions (allEntries @ entries))
     in Inr (if 0 < fLimit flt \<and> fLimit flt < int (length allEntries) then take (nat (fLimit flt)) allEntries else allEntries))))"

text \<open>\<open>Export\<close>, with what the writer is given; a write may fail.\<close>

primrec export_lines :: "entry_codec \<Rightarrow> (string \<Rightarrow> bool) \<Rightarrow> string \<Rightarrow> Entry list \<Rightarrow> bool \<times> string" where
  "export_lines C ok out [] = (True, out)"
| "export_lines C ok out (e # es) =
     (case entry_marshal C e of
        None \<Rightarrow> export_lines C ok out es
      | Some data \<Rightarrow>
          if ok (data @ [CHR 0x0A]) then export_lines C ok (out @ data @ [CHR 0x0A]) es else (False, out))"

definition Log_Export :: "entry_codec \<Rightarrow> log_os \<Rightarrow> Logger \<Rightarrow> (string \<Rightarrow> bool) \<Rightarrow> log_err + bool \<times> string" where
  "Log_Export C os l ok =
     rbind (Log_Read C os l zero_filter) (\<lambda>entries. Inr (export_lines C ok [] (rev entries)))"

definition Log_Close :: "log_os \<Rightarrow> Logger \<Rightarrow> bool \<times> Logger" where
  "Log_Close os l = (logHandle l \<and> loClose os, l\<lparr>logHandle := False\<rparr>)"

end
