(* ===== verification/Action_Log_Props.thy ===== *)
theory Action_Log_Props
  imports Action_Log
begin

text \<open>
  Properties of the action log: what a successful append leaves in the files and what
  rotation may drop, that everything written can be read back, what a read returns, and a
  bound on the size of the files.
\<close>

section \<open>Files of a log\<close>

text \<open>What the log relies on of the JSON functions; \<open>X\<close> are the entries they keep exactly.\<close>

definition codec_ok :: "entry_codec \<Rightarrow> (Entry \<Rightarrow> bool) \<Rightarrow> bool" where
  "codec_ok C X \<longleftrightarrow> (\<forall>e s. entry_marshal C e = Some s \<longrightarrow>
     CHR 0x0A \<notin> set s \<and> (s = [] \<or> last s \<noteq> CHR 0x0D) \<and> (X e \<longrightarrow> entry_unmarshal C s = Some e))"

definition log_text :: "string list \<Rightarrow> string" where
  "log_text ls = concat (map (\<lambda>s. s @ [CHR 0x0A]) ls)"

definition line_ok :: "string \<Rightarrow> bool" where
  "line_ok s \<longleftrightarrow> CHR 0x0A \<notin> set s \<and> length s + 1 \<le> maxLogRecordSize"

definition node_ok :: "node option \<Rightarrow> bool" where
  "node_ok n \<longleftrightarrow> (case n of None \<Rightarrow> True | Some (Dir _) \<Rightarrow> False | Some (File _ t) \<Rightarrow> \<exists>ls. t = log_text ls \<and> (\<forall>s \<in> set ls. line_ok s))"

definition log_name :: "string \<Rightarrow> nat \<Rightarrow> string" where
  "log_name p i = (if i = 0 then p else rotated p i)"

definition log_ok :: "Logger \<Rightarrow> bool" where
  "log_ok l \<longleftrightarrow> logHandle l \<and> (\<forall>i \<le> maxRotatedFiles. node_ok (logFiles l (log_name (logPath l) i)))"

definition node_entries :: "entry_codec \<Rightarrow> node option \<Rightarrow> Entry list" where
  "node_entries C n = (case n of Some (File _ t) \<Rightarrow>
     (case scan_lines t of Inr ls \<Rightarrow> List.map_filter (entry_unmarshal C) ls | Inl _ \<Rightarrow> []) | _ \<Rightarrow> [])"

definition file_entries :: "entry_codec \<Rightarrow> Logger \<Rightarrow> nat \<Rightarrow> Entry list" where
  "file_entries C l i = node_entries C (logFiles l (log_name (logPath l) i))"

text \<open>All entries, the oldest first.\<close>

definition history :: "entry_codec \<Rightarrow> Logger \<Rightarrow> Entry list" where
  "history C l = concat (map (file_entries C l) (rev [0..<maxRotatedFiles + 1]))"

lemma rotated_eq [simp]: "rotated p i = rotated p j \<longleftrightarrow> i = j" "rotated p i \<noteq> p" "p \<noteq> rotated p i"
  using format_nat_inj by (auto simp: rotated_def)

lemma log_name_eq: "log_name p i = log_name p j \<longleftrightarrow> i = j"
  by (auto simp: log_name_def)

lemma split_log_text: "\<forall>s \<in> set ls. CHR 0x0A \<notin> set s \<Longrightarrow> split_on (CHR 0x0A) (log_text ls) = ls @ [[]]"
  by (induction ls) (simp_all add: log_text_def split_on_append)

lemma scan_log_text: "\<forall>s \<in> set ls. line_ok s \<Longrightarrow> scan_lines (log_text ls) = Inr (map drop_cr ls)"
  by (auto simp: scan_lines_def split_log_text line_ok_def Let_def)

lemma log_text_append: "log_text ls @ s @ [CHR 0x0A] = log_text (ls @ [s])"
  by (simp add: log_text_def)

lemma node_ok_None [simp]: "node_ok None"
  by (simp add: node_ok_def)

lemma node_ok_empty [simp]: "node_ok (Some (File m []))"
  by (auto simp: node_ok_def log_text_def intro: exI [of _ "[]"])

lemma node_entries_simps [simp]:
  "node_entries C None = []" "node_entries C (Some (File m [])) = []"
  by (simp_all add: node_entries_def scan_lines_def map_filter_def)

text \<open>Appending a line appends its entry.\<close>

lemma append_line:
  assumes "node_ok n" and "n = None \<or> n = Some (File m t)" and "line_ok s"
  shows "node_ok (Some (File m' ((case n of Some (File _ t) \<Rightarrow> t | _ \<Rightarrow> []) @ s @ [CHR 0x0A])))"
    and "node_entries C (Some (File m' ((case n of Some (File _ t) \<Rightarrow> t | _ \<Rightarrow> []) @ s @ [CHR 0x0A]))) =
      node_entries C n @ (case entry_unmarshal C (drop_cr s) of None \<Rightarrow> [] | Some e \<Rightarrow> [e])"
proof -
  obtain ls where ls: "(case n of Some (File _ t) \<Rightarrow> t | _ \<Rightarrow> []) = log_text ls" "\<forall>s \<in> set ls. line_ok s"
    using assms(1,2) by (cases n) (auto simp: node_ok_def log_text_def intro: exI [of _ "[]"] that [of "[]"])
  have all: "\<forall>x \<in> set (ls @ [s]). line_ok x" using ls(2) assms(3) by auto
  show "node_ok (Some (File m' ((case n of Some (File _ t) \<Rightarrow> t | _ \<Rightarrow> []) @ s @ [CHR 0x0A])))"
    unfolding ls(1) log_text_append using all by (auto simp: node_ok_def intro!: exI [of _ "ls @ [s]"])
  have "node_entries C n = List.map_filter (entry_unmarshal C) (map drop_cr ls)"
  proof (cases n)
    case None
    with ls(1) have "ls = []" by (cases ls) (simp_all add: log_text_def)
    with None show ?thesis by (simp add: map_filter_def)
  next
    case (Some x)
    with assms(2) ls scan_log_text [OF ls(2)] show ?thesis by (auto simp: node_entries_def)
  qed
  then show "node_entries C (Some (File m' ((case n of Some (File _ t) \<Rightarrow> t | _ \<Rightarrow> []) @ s @ [CHR 0x0A]))) =
      node_entries C n @ (case entry_unmarshal C (drop_cr s) of None \<Rightarrow> [] | Some e \<Rightarrow> [e])"
    unfolding ls(1) log_text_append using scan_log_text [OF all]
    by (simp add: node_entries_def map_filter_def split: option.split)
qed

section \<open>Rotation\<close>

lemma upt_rotated: "rev [1..<maxRotatedFiles] = [4, 3, 2, 1]" "rev [0..<maxRotatedFiles + 1] = [5, 4, 3, 2, 1, 0]"
  "rev [1..<maxRotatedFiles + 1] = [5, 4, 3, 2, 1]"
  by (simp_all add: maxRotatedFiles_def upt_rec)

lemma try_rename_at:
  "loRename os src \<Longrightarrow> src \<noteq> dst \<Longrightarrow>
    try_rename os fs src dst q = (if q = src then None else if q = dst \<and> fs src \<noteq> None then fs src else fs q)"
  by (auto simp: try_rename_def)

lemma shift_files_at:
  assumes "\<And>p. loRename os p"
  shows "shift_files os p fs (rotated p 5) = (if fs (rotated p 4) = None then fs (rotated p 5) else fs (rotated p 4))"
    "shift_files os p fs (rotated p 4) = fs (rotated p 3)" "shift_files os p fs (rotated p 3) = fs (rotated p 2)"
    "shift_files os p fs (rotated p 2) = fs (rotated p 1)" "shift_files os p fs (rotated p 1) = fs p"
    "shift_files os p fs p = None"
  unfolding shift_files_def upt_rotated Let_def using assms by (simp_all add: try_rename_at)

lemma log_files_split: "(\<forall>i \<le> maxRotatedFiles. P i) \<longleftrightarrow> P 0 \<and> P 1 \<and> P 2 \<and> P 3 \<and> P 4 \<and> P 5"
proof -
  have "i \<le> maxRotatedFiles \<longleftrightarrow> i \<in> set [0, 1, 2, 3, 4, 5]" for i by (auto simp: maxRotatedFiles_def)
  then show ?thesis by (simp add: all_conj_distrib)
qed

lemma log_name_simps [simp]: "log_name p 0 = p" "i \<noteq> 0 \<Longrightarrow> log_name p i = rotated p i"
  by (simp_all add: log_name_def)

lemma history_files:
  "history C l = file_entries C l 5 @ file_entries C l 4 @ file_entries C l 3 @ file_entries C l 2 @ file_entries C l 1 @ file_entries C l 0"
  unfolding history_def upt_rotated by simp

text \<open>A rotation drops at most the oldest file; without one nothing changes.\<close>

lemma maybeRotate_cases:
  assumes run: "maybeRotate os l = (None, l')" and ok: "log_ok l"
  obtains "l' = l" "\<not> loStat os \<or> length (file_text (logFiles l) (logPath l)) < maxLogSize"
  | fs where "maxLogSize \<le> length (file_text (logFiles l) (logPath l))"
      "open_append os (shift_files os (logPath l) (logFiles l)) (logPath l) = Some fs" "l' = l\<lparr>logFiles := fs\<rparr>"
proof (cases "\<not> loStat os \<or> length (file_text (logFiles l) (logPath l)) < maxLogSize")
  case True
  with run ok have "l' = l" by (auto simp: maybeRotate_def log_ok_def split: if_splits)
  with True that(1) show ?thesis by simp
next
  case False
  with run ok have "loClose os" by (auto simp: maybeRotate_def log_ok_def split: if_splits)
  with run ok False obtain fs where "open_append os (shift_files os (logPath l) (logFiles l)) (logPath l) = Some fs" "l' = l\<lparr>logFiles := fs\<rparr>"
    by (auto simp: maybeRotate_def log_ok_def Let_def split: option.splits)
  with False that(2) show ?thesis by simp
qed

lemma maybeRotate_keeps:
  assumes run: "maybeRotate os l = (None, l')" and ok: "log_ok l" and ren: "\<And>p. loRename os p"
  shows "log_ok l' \<and> logPath l' = logPath l \<and>
    (\<exists>lost. history C l = lost @ history C l' \<and>
      (lost = [] \<or> lost = file_entries C l 5 \<and> maxLogSize \<le> length (file_text (logFiles l) (logPath l))))"
  using run ok
proof (cases rule: maybeRotate_cases)
  case 1
  with ok show ?thesis by auto
next
  case (2 fs)
  let ?p = "logPath l" and ?f = "logFiles l"
  note at = shift_files_at [OF ren] shift_files_at [OF ren, unfolded One_nat_def]
  have fs: "fs = (shift_files os ?p ?f)(?p \<mapsto> File 420 [])"
    using 2(2) at(6) by (auto simp: open_append_def split: if_splits)
  have ok': "log_ok l'"
    using ok unfolding log_ok_def log_files_split 2(3) fs by (auto simp: at)
  have other: "file_entries C l' 4 = file_entries C l 3" "file_entries C l' 3 = file_entries C l 2"
    "file_entries C l' 2 = file_entries C l 1" "file_entries C l' 1 = file_entries C l 0" "file_entries C l' 0 = []"
    unfolding file_entries_def 2(3) fs by (simp_all add: at)
  show ?thesis
  proof (cases "?f (rotated ?p 4) = None")
    case True
    then have "file_entries C l' 5 = file_entries C l 5" "file_entries C l 4 = []"
      unfolding file_entries_def 2(3) fs by (simp_all add: at)
    with other have "history C l = [] @ history C l'" by (simp add: history_files)
    with ok' 2(3) show ?thesis by auto
  next
    case False
    then have "file_entries C l' 5 = file_entries C l 4"
      unfolding file_entries_def 2(3) fs by (auto simp: at)
    with other have "history C l = file_entries C l 5 @ history C l'" by (simp add: history_files)
    with ok' 2(1,3) show ?thesis by auto
  qed
qed

section \<open>Appending\<close>

definition stamped :: "log_os \<Rightarrow> Entry \<Rightarrow> Entry" where
  "stamped os e = (if eTimestamp e = 0 then e\<lparr>eTimestamp := loNow os\<rparr> else e)"

lemma append_text_at:
  "node_ok (fs p) \<Longrightarrow> append_text fs p t = fs(p \<mapsto> File (case fs p of Some (File m _) \<Rightarrow> m | _ \<Rightarrow> 420) ((case fs p of Some (File _ c) \<Rightarrow> c | _ \<Rightarrow> []) @ t))"
  by (auto simp: append_text_def node_ok_def split: option.splits node.splits)

lemma write_line:
  assumes ok: "log_ok l" and line: "line_ok s"
    and l': "l' = l\<lparr>logFiles := append_text (logFiles l) (logPath l) (s @ [CHR 0x0A])\<rparr>"
  shows "log_ok l' \<and> history C l' = history C l @ (case entry_unmarshal C (drop_cr s) of None \<Rightarrow> [] | Some e \<Rightarrow> [e])"
proof -
  let ?n = "logFiles l (logPath l)"
  have n: "node_ok ?n" using ok unfolding log_ok_def log_files_split by simp
  then obtain m t where n': "?n = None \<or> ?n = Some (File m t)" by (auto simp: node_ok_def split: option.splits node.splits)
  note fs = append_text_at [of "logFiles l", OF n, of "s @ [CHR 0x0A]"]
  note new = append_line [OF n n' line]
  have "log_ok l'"
    using ok new(1) unfolding log_ok_def log_files_split l' fs by auto
  moreover have "file_entries C l' i = file_entries C l i" if "i \<noteq> 0" for i
    using that by (simp add: file_entries_def l' fs)
  moreover have "file_entries C l' 0 = file_entries C l 0 @ (case entry_unmarshal C (drop_cr s) of None \<Rightarrow> [] | Some e \<Rightarrow> [e])"
    unfolding file_entries_def l' fs using new(2) by simp
  ultimately show ?thesis by (simp add: history_files)
qed

lemma Log_success:
  assumes "Log C os l e = (None, l')"
  obtains data l1 where "entry_marshal C (stamped os e) = Some data" "length data + 1 \<le> maxLogRecordSize"
    "maybeRotate os l = (None, l1)" "logHandle l1" "l' = l1\<lparr>logFiles := append_text (logFiles l1) (logPath l1) (data @ [CHR 0x0A])\<rparr>"
  using assms that
  by (auto simp: Log_def stamped_def Let_def not_less split: option.splits if_splits prod.splits)

text \<open>
   A successful \<open>Log\<close> adds its entry, with a time stamp, as the newest one.  Of the entries
  that were in the log it loses none, or, when the file had reached 10 MB and was rotated,
  at most those of the oldest of the five rotated files.
\<close>

theorem Log_appends:
  assumes C: "codec_ok C X" and ok: "log_ok l" and ren: "\<And>p. loRename os p" and x: "X (stamped os e)"
    and run: "Log C os l e = (None, l')"
  shows "log_ok l' \<and> (\<exists>lost kept. history C l = lost @ kept \<and> history C l' = kept @ [stamped os e] \<and>
    (lost = [] \<or> lost = file_entries C l 5 \<and> maxLogSize \<le> length (file_text (logFiles l) (logPath l))))"
proof -
  from Log_success [OF run] obtain data l1 where data: "entry_marshal C (stamped os e) = Some data" "length data + 1 \<le> maxLogRecordSize"
    and rot: "maybeRotate os l = (None, l1)"
    and l': "l' = l1\<lparr>logFiles := append_text (logFiles l1) (logPath l1) (data @ [CHR 0x0A])\<rparr>" .
  have line: "line_ok data" "drop_cr data = data" "entry_unmarshal C data = Some (stamped os e)"
    using C data x by (auto simp: codec_ok_def line_ok_def drop_cr_def)
  from maybeRotate_keeps [OF rot ok ren] obtain lost where l1: "log_ok l1" "history C l = lost @ history C l1"
    "lost = [] \<or> lost = file_entries C l 5 \<and> maxLogSize \<le> length (file_text (logFiles l) (logPath l))" by blast
  from write_line [OF l1(1) line(1) l', of C] line(2,3) have "log_ok l'" "history C l' = history C l1 @ [stamped os e]" by auto
  with l1 show ?thesis by blast
qed

text \<open>An example: one entry and a codec for it, a fresh log, an operating system without failures.\<close>

definition sample_entry :: Entry where
  "sample_entry = zero_entry\<lparr>eTimestamp := 5, eType := TypeTx, eTxHash := ''AB''\<rparr>"

definition sample_codec :: entry_codec where
  "sample_codec = \<lparr>entry_marshal = (\<lambda>e. if e = sample_entry then Some ''x'' else None),
     entry_unmarshal = (\<lambda>s. if s = ''x'' then Some sample_entry else None)\<rparr>"

definition good_log_os :: log_os where
  "good_log_os = \<lparr>loNow = 9, loOpen = (\<lambda>_. True), loStat = True, loClose = True, loSync = True,
     loRename = (\<lambda>_. True), loWrite = None\<rparr>"

definition sample_log :: Logger where
  "sample_log = \<lparr>logPath = ''/l'', logHandle = True, logFiles = [''/l'' \<mapsto> File 420 []]\<rparr>"

lemma sample_codec_ok: "codec_ok sample_codec (\<lambda>_. True)"
  by (simp add: codec_ok_def sample_codec_def)

lemma sample_log_ok: "log_ok sample_log"
  unfolding log_ok_def log_files_split by (simp add: sample_log_def rotated_def)

lemma good_log_os_simps [simp]: "loOpen good_log_os p" "loRename good_log_os p" "loSync good_log_os" "loStat good_log_os"
  by (simp_all add: good_log_os_def)

lemma sample_Log: "Log sample_codec good_log_os sample_log sample_entry = (None, sample_log\<lparr>logFiles := [''/l'' \<mapsto> File 420 (''x'' @ [CHR 0x0A])]\<rparr>)"
  by (simp add: Log_def sample_codec_def good_log_os_def sample_log_def sample_entry_def zero_entry_def maybeRotate_def file_text_def
      append_text_def maxLogRecordSize_def maxLogSize_def)

theorem Log_appends_witness:
  "history sample_codec (snd (Log sample_codec good_log_os sample_log sample_entry)) = [sample_entry]"
proof -
  have stamp: "stamped good_log_os sample_entry = sample_entry" by (simp add: stamped_def sample_entry_def)
  have "history sample_codec sample_log = []"
    unfolding history_files by (simp add: file_entries_def sample_log_def rotated_def)
  with Log_appends [OF sample_codec_ok sample_log_ok _ _ sample_Log] stamp show ?thesis by (simp add: sample_Log)
qed

section \<open>Reading\<close>

lemma readLogFile_ok:
  assumes "node_ok (fs p)" and "loOpen os p"
  shows "readLogFile C os fs p f = (if fs p = None then Inl LogNotExist else Inr (filter (\<lambda>e. matchesFilter e f) (node_entries C (fs p))))"
  using assms scan_log_text
  by (auto simp: readLogFile_def node_ok_def node_entries_def split: option.splits node.splits)

lemma read_rotated_ok:
  assumes "log_ok l" and "\<And>p. loOpen os p" and "i \<noteq> 0" "i \<le> maxRotatedFiles"
  shows "read_rotated C os l f acc i = Inr (acc @ filter (\<lambda>e. matchesFilter e f) (file_entries C l i))"
proof -
  have "node_ok (logFiles l (rotated (logPath l) i))" using assms unfolding log_ok_def by (metis log_name_def)
  from readLogFile_ok [of "logFiles l", OF this assms(2)] assms(3) show ?thesis
    by (auto simp: read_rotated_def file_entries_def)
qed

lemma foldM_read:
  assumes "log_ok l" and "\<And>p. loOpen os p" and "\<forall>i \<in> set is. i \<noteq> 0 \<and> i \<le> maxRotatedFiles"
  shows "foldM (read_rotated C os l f) acc is = Inr (acc @ filter (\<lambda>e. matchesFilter e f) (concat (map (file_entries C l) is)))"
  using assms(3) by (induction "is" arbitrary: acc) (simp_all add: read_rotated_ok [OF assms(1,2)])

text \<open>Reading well-formed files never fails on a record.\<close>

lemma Log_Read_files:
  assumes ok: "log_ok l" and os: "\<And>p. loOpen os p" "loSync os"
  shows "Log_Read C os l f = Inr
    (let es = rev (collapseTransactionRevisions (filter (\<lambda>e. matchesFilter e f) (history C l)))
     in if 0 < fLimit f then take (nat (fLimit f)) es else es)"
proof -
  have rot: "foldM (read_rotated C os l f) [] (rev [1..<maxRotatedFiles + 1]) =
      Inr (filter (\<lambda>e. matchesFilter e f) (concat (map (file_entries C l) [5, 4, 3, 2, 1])))"
    unfolding upt_rotated by (subst foldM_read [OF ok os(1)]) (simp_all add: maxRotatedFiles_def)
  have "node_ok (logFiles l (logPath l))" using ok unfolding log_ok_def log_files_split by simp
  from readLogFile_ok [of "logFiles l", OF this os(1)]
  have cur: "(case readLogFile C os (logFiles l) (logPath l) f of Inr entries \<Rightarrow> Inr entries
      | Inl e \<Rightarrow> if e = LogNotExist then Inr [] else Inl e) = Inr (filter (\<lambda>e. matchesFilter e f) (file_entries C l 0))"
    by (auto simp: file_entries_def)
  have "logHandle l" using ok by (simp add: log_ok_def)
  then show ?thesis
    unfolding Log_Read_def rot cur using os(2) by (auto simp: history_files Let_def)
qed

section \<open>Revisions of a transaction\<close>

definition is_tx :: "Entry \<Rightarrow> bool" where
  "is_tx e \<longleftrightarrow> eType e = TypeTx \<and> eTxHash e \<noteq> []"

definition same_tx :: "Entry \<Rightarrow> Entry \<Rightarrow> bool" where
  "same_tx e e' \<longleftrightarrow> is_tx e \<and> is_tx e' \<and> eTxHash e = eTxHash e'"

text \<open>An entry as its last revision in \<open>es\<close>, at its own time.\<close>

definition revised :: "Entry list \<Rightarrow> Entry \<Rightarrow> Entry" where
  "revised es e = (if is_tx e then (last (e # filter (same_tx e) es))\<lparr>eTimestamp := eTimestamp e\<rparr> else e)"

text \<open>What collapsing means: each transaction once, where it first occurs, in its last revision.\<close>

function collapse_ref :: "Entry list \<Rightarrow> Entry list" where
  "collapse_ref [] = []"
| "collapse_ref (e # es) = revised es e # collapse_ref (filter (\<lambda>x. \<not> same_tx e x) es)"
  by pat_completeness auto
termination
  by (relation "measure length") (simp_all add: le_imp_less_Suc)

definition known :: "(string \<rightharpoonup> nat) \<Rightarrow> Entry \<Rightarrow> bool" where
  "known indices e \<longleftrightarrow> is_tx e \<and> indices (eTxHash e) \<noteq> None"

definition indexed :: "Entry list \<Rightarrow> (string \<rightharpoonup> nat) \<Rightarrow> bool" where
  "indexed acc indices \<longleftrightarrow>
     (\<forall>h i. indices h = Some i \<longrightarrow> i < length acc \<and> is_tx (acc ! i) \<and> eTxHash (acc ! i) = h) \<and>
     (\<forall>i < length acc. is_tx (acc ! i) \<longrightarrow> indices (eTxHash (acc ! i)) = Some i)"

lemma revised_other: "\<not> same_tx a e \<Longrightarrow> revised (e # es) a = revised es a"
  by (simp add: revised_def)

lemma revised_same: "same_tx a e \<Longrightarrow> revised (e # es) a = revised es (e\<lparr>eTimestamp := eTimestamp a\<rparr>)"
proof -
  assume same: "same_tx a e"
  then have "same_tx (e\<lparr>eTimestamp := eTimestamp a\<rparr>) = same_tx a" by (auto simp: same_tx_def is_tx_def fun_eq_iff)
  with same show ?thesis by (auto simp: revised_def same_tx_def is_tx_def)
qed

lemma indexedD:
  "indexed acc ind \<Longrightarrow> ind h = Some i \<Longrightarrow> i < length acc \<and> is_tx (acc ! i) \<and> eTxHash (acc ! i) = h"
  "indexed acc ind \<Longrightarrow> i < length acc \<Longrightarrow> is_tx (acc ! i) \<Longrightarrow> ind (eTxHash (acc ! i)) = Some i"
  unfolding indexed_def by blast+

lemma indexedI:
  "(\<And>h i. ind h = Some i \<Longrightarrow> i < length acc \<and> is_tx (acc ! i) \<and> eTxHash (acc ! i) = h) \<Longrightarrow>
    (\<And>i. i < length acc \<Longrightarrow> is_tx (acc ! i) \<Longrightarrow> ind (eTxHash (acc ! i)) = Some i) \<Longrightarrow> indexed acc ind"
  unfolding indexed_def by blast

lemma indexed_new:
  assumes ix: "indexed acc ind" and none: "ind (eTxHash e) = None" and tx: "is_tx e"
  shows "indexed (acc @ [e]) (ind(eTxHash e \<mapsto> length acc))"
proof (rule indexedI)
  fix h i
  assume "(ind(eTxHash e \<mapsto> length acc)) h = Some i"
  then show "i < length (acc @ [e]) \<and> is_tx ((acc @ [e]) ! i) \<and> eTxHash ((acc @ [e]) ! i) = h"
    using tx indexedD(1) [OF ix, of h i] by (cases "h = eTxHash e") (auto simp: nth_append)
next
  fix i
  assume i: "i < length (acc @ [e])" "is_tx ((acc @ [e]) ! i)"
  show "(ind(eTxHash e \<mapsto> length acc)) (eTxHash ((acc @ [e]) ! i)) = Some i"
  proof (cases "i = length acc")
    case False
    with i indexedD(2) [OF ix, of i] none show ?thesis by (auto simp: nth_append)
  qed simp
qed

lemma indexed_update:
  assumes ix: "indexed acc ind" and i: "i < length acc" and same: "same_tx (acc ! i) e"
  shows "indexed (acc[i := e\<lparr>eTimestamp := t\<rparr>]) ind"
proof -
  have at: "is_tx (acc[i := e\<lparr>eTimestamp := t\<rparr>] ! j) = is_tx (acc ! j)"
    "eTxHash (acc[i := e\<lparr>eTimestamp := t\<rparr>] ! j) = eTxHash (acc ! j)" if "j < length acc" for j
    using that same by (cases "j = i"; simp add: same_tx_def is_tx_def)+
  show ?thesis
    using indexedD [OF ix] at by (intro indexedI) auto
qed

lemma collapse_steps:
  assumes "indexed acc indices"
  shows "fst (foldl collapse_step (acc, indices) es) =
    map (revised es) acc @ collapse_ref (filter (\<lambda>x. \<not> known indices x) es)"
  using assms
proof (induction es arbitrary: acc indices)
  case Nil
  have "revised [] a = a" for a by (simp add: revised_def)
  then show ?case by (simp add: map_idI)
next
  case (Cons e es)
  show ?case
  proof (cases "is_tx e")
    case False
    then have "collapse_step (acc, indices) e = (acc @ [e], indices)" "\<not> known indices e" "\<not> same_tx a e" "\<not> same_tx e a" for a
      by (auto simp: collapse_step_def is_tx_def known_def same_tx_def)
    moreover have "indexed (acc @ [e]) indices"
      using indexedD [OF Cons.prems] False by (intro indexedI) (auto simp: nth_append less_Suc_eq)
    moreover from Cons.IH [OF this] have "fst (foldl collapse_step (acc @ [e], indices) es) =
      map (revised es) (acc @ [e]) @ collapse_ref (filter (\<lambda>x. \<not> known indices x) es)" .
    ultimately show ?thesis using False by (simp add: revised_other revised_def)
  next
    case tx: True
    show ?thesis
    proof (cases "indices (eTxHash e)")
      case None
      then have step: "collapse_step (acc, indices) e = (acc @ [e], indices(eTxHash e \<mapsto> length acc))"
        using tx by (simp add: collapse_step_def is_tx_def)
      have none: "\<not> same_tx a e" if "a \<in> set acc" for a
      proof -
        from that obtain i where i: "i < length acc" "acc ! i = a" unfolding in_set_conv_nth by blast
        with indexedD(2) [OF Cons.prems, of i] None show ?thesis by (auto simp: same_tx_def)
      qed
      have "indexed (acc @ [e]) (indices(eTxHash e \<mapsto> length acc))"
        by (rule indexed_new [OF Cons.prems None tx])
      from Cons.IH [OF this] have IH: "fst (foldl collapse_step (acc @ [e], indices(eTxHash e \<mapsto> length acc)) es) =
        map (revised es) (acc @ [e]) @ collapse_ref (filter (\<lambda>x. \<not> known (indices(eTxHash e \<mapsto> length acc)) x) es)" .
      have known: "known (indices(eTxHash e \<mapsto> length acc)) x \<longleftrightarrow> known indices x \<or> same_tx e x" for x
        using tx by (auto simp: known_def same_tx_def)
      have new: "filter (same_tx e) (filter (\<lambda>x. \<not> known indices x) es) = filter (same_tx e) es"
        using None by (auto simp: known_def same_tx_def intro: filter_cong)
      have "map (revised (e # es)) acc = map (revised es) acc" using none by (simp add: revised_other)
      moreover have "filter (\<lambda>x. \<not> known indices x) (e # es) = e # filter (\<lambda>x. \<not> known indices x) es"
        using None by (simp add: known_def)
      moreover have "revised (filter (\<lambda>x. \<not> known indices x) es) e = revised es e" by (simp only: revised_def new)
      moreover have "filter (\<lambda>x. \<not> same_tx e x) (filter (\<lambda>x. \<not> known indices x) es) =
          filter (\<lambda>x. \<not> known (indices(eTxHash e \<mapsto> length acc)) x) es"
        unfolding filter_filter by (rule filter_cong) (auto simp: known)
      ultimately show ?thesis using IH step by simp
    next
      case (Some i)
      let ?e = "e\<lparr>eTimestamp := eTimestamp (acc ! i)\<rparr>"
      have i: "i < length acc" "same_tx (acc ! i) e" using indexedD(1) [OF Cons.prems Some] tx by (auto simp: same_tx_def)
      have step: "collapse_step (acc, indices) e = (acc[i := ?e], indices)"
        using tx Some by (simp add: collapse_step_def is_tx_def)
      have "indexed (acc[i := ?e]) indices" by (rule indexed_update [OF Cons.prems i])
      note IH = Cons.IH [OF this]
      have "revised es (acc[i := ?e] ! j) = revised (e # es) (acc ! j)" if j: "j < length acc" for j
      proof (cases "j = i")
        case True
        with i j show ?thesis by (simp add: revised_same)
      next
        case False
        with indexedD(2) [OF Cons.prems j] Some have "\<not> same_tx (acc ! j) e" by (auto simp: same_tx_def)
        with False j show ?thesis by (simp add: revised_other)
      qed
      then have "map (revised es) (acc[i := ?e]) = map (revised (e # es)) acc" by (intro nth_equalityI) simp_all
      with IH step Some tx show ?thesis by (simp add: known_def)
    qed
  qed
qed

text \<open>
   \<open>collapseTransactionRevisions\<close> keeps one entry per transaction, where the transaction
  first occurs, with the time of its first record and everything else of its last one, and
  keeps every other entry as it is.
\<close>

theorem collapse_correct: "collapseTransactionRevisions es = collapse_ref es"
proof -
  have "indexed [] Map.empty" by (simp add: indexed_def)
  from collapse_steps [OF this, of es] show ?thesis
    by (simp add: collapseTransactionRevisions_def known_def)
qed

section \<open>What was logged is read back\<close>

text \<open>
  \<open>calls\<close> are the successful calls of \<open>Log\<close> that lead from one log to another, each with the
  system it ran on; between them a call may have been refused without an effect.
\<close>

inductive written :: "entry_codec \<Rightarrow> Logger \<Rightarrow> (log_os \<times> Entry) list \<Rightarrow> Logger \<Rightarrow> bool" for C where
  none: "written C l [] l"
| logged: "written C l ((os, e) # calls) l'" if "Log C os l e = (None, l1)" "written C l1 calls l'"
| refused: "written C l calls l'" if "Log C os l e = (Some err, l)" "written C l calls l'"

text \<open>The size of the line of a call.\<close>

definition line_size :: "entry_codec \<Rightarrow> log_os \<times> Entry \<Rightarrow> nat" where
  "line_size C call = (case entry_marshal C (stamped (fst call) (snd call)) of None \<Rightarrow> 0 | Some s \<Rightarrow> length s + 1)"

lemma written_Nil: "written C l [] l' \<Longrightarrow> l' = l"
proof -
  have "written C l calls l' \<Longrightarrow> calls = [] \<longrightarrow> l' = l" for calls by (induction rule: written.induct) simp_all
  then show "written C l [] l' \<Longrightarrow> l' = l" by blast
qed

lemma Log_size:
  assumes ok: "log_ok l" and run: "Log C os l e = (None, l')" and small: "length (file_text (logFiles l) (logPath l)) < maxLogSize"
  shows "length (file_text (logFiles l') (logPath l')) = length (file_text (logFiles l) (logPath l)) + line_size C (os, e)"
proof -
  from Log_success [OF run] obtain data l1 where data: "entry_marshal C (stamped os e) = Some data" and rot: "maybeRotate os l = (None, l1)"
    and l': "l' = l1\<lparr>logFiles := append_text (logFiles l1) (logPath l1) (data @ [CHR 0x0A])\<rparr>" .
  have "l1 = l" using rot small ok by (auto simp: maybeRotate_def log_ok_def split: if_splits)
  moreover have "node_ok (logFiles l (logPath l))" using ok unfolding log_ok_def log_files_split by simp
  ultimately show ?thesis using l' data
    by (auto simp: append_text_at line_size_def file_text_def split: option.split node.split)
qed

lemma written_history:
  assumes C: "codec_ok C X" and run: "written C l calls l'" and ok: "log_ok l"
    and calls: "\<forall>(os, e) \<in> set calls. (\<forall>p. loRename os p) \<and> X (stamped os e)"
  shows "log_ok l' \<and> (\<exists>lost kept. history C l @ map (\<lambda>(os, e). stamped os e) calls = lost @ kept \<and> history C l' = kept \<and>
    (calls \<noteq> [] \<longrightarrow> kept \<noteq> []) \<and>
    (length (file_text (logFiles l) (logPath l)) + sum_list (map (line_size C) calls) \<le> maxLogSize \<longrightarrow> lost = []))"
  using run ok calls
proof (induction rule: written.induct)
  case (none l)
  then show ?case by simp
next
  case (logged os l e l1 calls l')
  from logged.prems have os: "\<And>p. loRename os p" "X (stamped os e)" and rest: "\<forall>(os, e) \<in> set calls. (\<forall>p. loRename os p) \<and> X (stamped os e)"
    by auto
  from Log_appends [OF C logged.prems(1) os logged.hyps(1)] obtain lost1 kept1 where one: "log_ok l1" "history C l = lost1 @ kept1"
    "history C l1 = kept1 @ [stamped os e]" "lost1 = [] \<or> maxLogSize \<le> length (file_text (logFiles l) (logPath l))" by blast
  from logged.IH [OF one(1) rest] obtain lost kept where more: "log_ok l'" "history C l1 @ map (\<lambda>(os, e). stamped os e) calls = lost @ kept"
    "history C l' = kept" "calls \<noteq> [] \<longrightarrow> kept \<noteq> []"
    "length (file_text (logFiles l1) (logPath l1)) + sum_list (map (line_size C) calls) \<le> maxLogSize \<longrightarrow> lost = []" by blast
  have "kept \<noteq> []"
  proof (cases calls)
    case Nil
    with logged.hyps(2) have "l' = l1" by (simp add: written_Nil)
    with one(3) more(3) show ?thesis by auto
  qed (use more(4) in simp)
  moreover have "history C l @ map (\<lambda>(os, e). stamped os e) ((os, e) # calls) = (lost1 @ lost) @ kept"
    using one(2,3) more(2) by simp
  moreover have "lost1 @ lost = []"
    if bound: "length (file_text (logFiles l) (logPath l)) + sum_list (map (line_size C) ((os, e) # calls)) \<le> maxLogSize"
  proof -
    from Log_success [OF logged.hyps(1)] obtain data where "entry_marshal C (stamped os e) = Some data" .
    then have "0 < line_size C (os, e)" by (simp add: line_size_def)
    with bound have small: "length (file_text (logFiles l) (logPath l)) < maxLogSize" by simp
    from Log_size [OF logged.prems(1) logged.hyps(1) small] bound more(5) small one(4) show ?thesis by simp
  qed
  ultimately show ?case using more(1,3) by blast
next
  case (refused os l e err calls l')
  then show ?case by blast
qed

text \<open>
  C40.  What \<open>Log\<close> wrote is read back.  After any sequence of successful calls of it, \<open>Read\<close> then
  succeeds and returns the entries that match the filter, each transaction once, in its last
  revision, the most recent entry first and no more than the limit.  The entries are those the
  log had and then those of the calls, in that order and with their time stamps; only a
  beginning of them may have been rotated away, never the entry of the last call, and nothing
  at all as long as the file stays within 10 MB.
\<close>

theorem Log_Read_history:
  assumes C: "codec_ok C X" and ok: "log_ok l" and run: "written C l calls l'"
    and calls: "\<forall>(os, e) \<in> set calls. (\<forall>p. loRename os p) \<and> X (stamped os e)"
    and os: "\<And>p. loOpen os p" "loSync os"
  shows "\<exists>lost kept. history C l @ map (\<lambda>(os, e). stamped os e) calls = lost @ kept \<and> (calls \<noteq> [] \<longrightarrow> kept \<noteq> []) \<and>
    (length (file_text (logFiles l) (logPath l)) + sum_list (map (line_size C) calls) \<le> maxLogSize \<longrightarrow> lost = []) \<and>
    Log_Read C os l' f = Inr
      (let es = rev (collapse_ref (filter (\<lambda>e. matchesFilter e f) kept))
       in if 0 < fLimit f then take (nat (fLimit f)) es else es)"
proof -
  from written_history [OF C run ok calls] obtain lost kept where ok': "log_ok l'"
    and kept: "history C l @ map (\<lambda>(os, e). stamped os e) calls = lost @ kept" "history C l' = kept" "calls \<noteq> [] \<longrightarrow> kept \<noteq> []"
    "length (file_text (logFiles l) (logPath l)) + sum_list (map (line_size C) calls) \<le> maxLogSize \<longrightarrow> lost = []" by blast
  from Log_Read_files [OF ok' os, of C f] kept show ?thesis
    by (intro exI [of _ lost] exI [of _ kept]) (simp add: collapse_correct)
qed

text \<open>One entry logged on a fresh log, and read back.\<close>

theorem Log_Read_history_witness:
  "Log_Read sample_codec good_log_os (snd (Log sample_codec good_log_os sample_log sample_entry)) zero_filter = Inr [sample_entry]"
proof -
  let ?l = "snd (Log sample_codec good_log_os sample_log sample_entry)"
  have stamp: "stamped good_log_os sample_entry = sample_entry" by (simp add: stamped_def sample_entry_def)
  have none: "history sample_codec sample_log = []"
    unfolding history_files by (simp add: file_entries_def sample_log_def rotated_def)
  have run: "written sample_codec sample_log [(good_log_os, sample_entry)] ?l"
    by (rule logged [OF _ written.none]) (simp add: sample_Log)
  have size: "length (file_text (logFiles sample_log) (logPath sample_log)) + sum_list (map (line_size sample_codec) [(good_log_os, sample_entry)]) \<le> maxLogSize"
    by (simp add: line_size_def stamp sample_codec_def file_text_def sample_log_def maxLogSize_def)
  have "\<forall>(os, e) \<in> set [(good_log_os, sample_entry)]. (\<forall>p. loRename os p) \<and> True" by (simp add: good_log_os_def)
  from Log_Read_history [OF sample_codec_ok sample_log_ok run this, of good_log_os zero_filter] size none stamp
  have "Log_Read sample_codec good_log_os ?l zero_filter = Inr (rev (collapse_ref (filter (\<lambda>e. matchesFilter e zero_filter) [sample_entry])))"
    by (auto simp: zero_filter_def Let_def)
  also have "\<dots> = Inr [sample_entry]"
    by (simp add: matchesFilter_def zero_filter_def revised_def)
  finally show ?thesis .
qed

section \<open>Size\<close>

definition files_below :: "nat \<Rightarrow> string \<Rightarrow> fs \<Rightarrow> bool" where
  "files_below B p fs \<longleftrightarrow> (\<forall>i. length (file_text fs (log_name p i)) < B)"

lemma file_text_upd: "file_text (fs(q := n)) r = (if r = q then (case n of Some (File _ c) \<Rightarrow> c | _ \<Rightarrow> []) else file_text fs r)"
  by (simp add: file_text_def)

lemma try_rename_below:
  assumes "files_below B p fs" and "0 < B"
  shows "files_below B p (try_rename os fs (log_name p i) q)"
proof -
  have "length (case fs (log_name p i) of Some (File _ c) \<Rightarrow> c | _ \<Rightarrow> []) < B"
    using assms(1) by (simp add: files_below_def file_text_def)
  with assms show ?thesis by (auto simp: files_below_def try_rename_def file_text_upd)
qed

lemma shift_files_below:
  assumes "files_below B p fs" and "0 < B"
  shows "files_below B p (shift_files os p fs)"
proof -
  have "files_below B p (foldl (\<lambda>fs i. try_rename os fs (rotated p i) (rotated p (i + 1))) fs is)"
    if "\<forall>i \<in> set is. i \<noteq> 0" "files_below B p fs" for fs "is"
    using that
  proof (induction "is" arbitrary: fs)
    case (Cons i "is")
    from try_rename_below [OF Cons.prems(2) assms(2), of os i "rotated p (i + 1)"] Cons show ?case by simp
  qed simp
  from this [OF _ assms(1), of "rev [1..<maxRotatedFiles]"] try_rename_below [OF _ assms(2), of p _ os 0]
  show ?thesis unfolding shift_files_def Let_def by simp
qed

lemma maybeRotate_below:
  assumes small: "files_below B (logPath l) (logFiles l)" and B: "maxLogSize \<le> B"
    and os: "loStat os" "\<And>p. loRename os p" and run: "maybeRotate os l = (r, l1)"
  shows "files_below B (logPath l1) (logFiles l1) \<and> logPath l1 = logPath l \<and>
    (r = None \<and> logHandle l1 \<longrightarrow> length (file_text (logFiles l1) (logPath l1)) < maxLogSize)"
proof -
  let ?fs = "shift_files os (logPath l) (logFiles l)"
  have B0: "0 < B" using B by (simp add: maxLogSize_def)
  note shifted = shift_files_below [OF small B0, of os] and gone = shift_files_at(6) [OF os(2), of "logPath l" "logFiles l"]
  have created: "files_below B (logPath l) (?fs(logPath l \<mapsto> File 420 []))"
    using shifted B0 by (auto simp: files_below_def file_text_upd)
  show ?thesis
  proof (cases "\<not> logHandle l \<or> length (file_text (logFiles l) (logPath l)) < maxLogSize \<or> \<not> loClose os")
    case True
    with run small os(1) show ?thesis by (auto simp: maybeRotate_def split: if_splits)
  next
    case False
    with run os(1) shifted created gone B0 show ?thesis
      by (auto simp: maybeRotate_def Let_def open_append_def file_text_upd maxLogSize_def split: option.splits if_splits)
  qed
qed

lemma append_text_below:
  assumes "files_below (2 * maxLogSize) p fs" and "length (file_text fs p) < maxLogSize" and "length t \<le> maxLogSize"
  shows "files_below (2 * maxLogSize) p (append_text fs p t)"
  using assms by (auto simp: files_below_def append_text_def file_text_def split: option.splits node.splits)

text \<open>
   Whatever else fails, as long as the log can be examined and renamed, \<open>Log\<close> never lets
  one of the log files reach 20 MB: the five rotated files and the current one stay
  bounded for ever.
\<close>

theorem Log_bounded:
  assumes small: "files_below (2 * maxLogSize) (logPath l) (logFiles l)"
    and os: "loStat os" "\<And>p. loRename os p"
    and run: "Log C os l e = (r, l')"
  shows "files_below (2 * maxLogSize) (logPath l') (logFiles l') \<and> logPath l' = logPath l"
proof (cases "entry_marshal C (stamped os e)")
  case None
  with run small show ?thesis by (auto simp: Log_def stamped_def Let_def)
next
  case (Some data)
  obtain r1 l1 where rot: "maybeRotate os l = (r1, l1)" by force
  note l1 = maybeRotate_below [OF small _ os rot]
  show ?thesis
  proof (cases "maxLogRecordSize < length (data @ [CHR 0x0A]) \<or> r1 \<noteq> None \<or> \<not> logHandle l1")
    case True
    with run Some rot small l1 show ?thesis
      by (auto simp: Log_def stamped_def Let_def split: if_splits option.splits)
  next
    case False
    then have len: "length (take n (data @ [CHR 0x0A])) \<le> maxLogSize" "length (data @ [CHR 0x0A]) \<le> maxLogSize" for n
      by (auto simp: maxLogRecordSize_def)
    from False l1 have "length (file_text (logFiles l1) (logPath l1)) < maxLogSize"
      "files_below (2 * maxLogSize) (logPath l1) (logFiles l1)" "logPath l1 = logPath l" by auto
    with append_text_below [OF _ _ len(1)] append_text_below [OF _ _ len(2)] run Some rot False show ?thesis
      by (auto simp: Log_def stamped_def Let_def split: if_splits option.splits)
  qed
qed

theorem Log_bounded_witness:
  "files_below (2 * maxLogSize) ''/l'' (logFiles (snd (Log sample_codec good_log_os sample_log sample_entry)))"
proof -
  have "files_below (2 * maxLogSize) (logPath sample_log) (logFiles sample_log)"
    by (simp add: files_below_def sample_log_def file_text_def maxLogSize_def)
  from Log_bounded [OF this _ _ sample_Log] show ?thesis unfolding sample_Log by (simp add: sample_log_def)
qed

end
