(* ===== verification/Go_Json.thy ===== *)
theory Go_Json
  imports Go_Strings Complex_Main
begin

text \<open>
  JSON values as Go's \<open>any\<close> holds them, and objects as the code reads and updates them.  A
  \<open>map[string]any\<close> is the list of its pairs; where its order cannot be observed it is kept
  sorted by key, so that equality of values is \<open>reflect.DeepEqual\<close>.
\<close>

section \<open>Values\<close>

datatype float64 = NaN | NegInf | Fin rat | PosInf

fun float_less :: "float64 \<Rightarrow> float64 \<Rightarrow> bool" where
  "float_less (Fin x) (Fin y) \<longleftrightarrow> x < y"
| "float_less NegInf (Fin y) \<longleftrightarrow> True"
| "float_less NegInf PosInf \<longleftrightarrow> True"
| "float_less (Fin x) PosInf \<longleftrightarrow> True"
| "float_less _ _ \<longleftrightarrow> False"

datatype json = JNull | JBool bool | JNum float64 | JStr string | JArr "json list" | JObj "(string \<times> json) list"

type_synonym obj = "(string \<times> json) list"

section \<open>Objects\<close>

text \<open>\<open>m[k]\<close> of a missing key is nil; \<open>m[k] = v\<close> and \<open>delete(m, k)\<close> keep the keys sorted.\<close>

definition oget :: "obj \<Rightarrow> string \<Rightarrow> json" where
  "oget m k = (case map_of m k of None \<Rightarrow> JNull | Some v \<Rightarrow> v)"

fun oput :: "string \<Rightarrow> 'a \<Rightarrow> (string \<times> 'a) list \<Rightarrow> (string \<times> 'a) list" where
  "oput k v [] = [(k, v)]"
| "oput k v ((k', v') # m) = (if k < k' then (k, v) # (k', v') # m else if k = k' then (k, v) # m else (k', v') # oput k v m)"

definition odel :: "string \<Rightarrow> (string \<times> 'a) list \<Rightarrow> (string \<times> 'a) list" where
  "odel k m = filter (\<lambda>x. fst x \<noteq> k) m"

text \<open>The checked conversions \<open>v.(map[string]any)\<close> and \<open>v.([]any)\<close>, with the zero value when they fail.\<close>

definition as_obj :: "json \<Rightarrow> obj option" where
  "as_obj v = (case v of JObj m \<Rightarrow> Some m | _ \<Rightarrow> None)"

definition obj_or_nil :: "json \<Rightarrow> obj" where
  "obj_or_nil v = (case v of JObj m \<Rightarrow> m | _ \<Rightarrow> [])"

definition arr_or_nil :: "json \<Rightarrow> json list" where
  "arr_or_nil v = (case v of JArr xs \<Rightarrow> xs | _ \<Rightarrow> [])"

definition str_or_empty :: "json \<Rightarrow> string" where
  "str_or_empty v = (case v of JStr s \<Rightarrow> s | _ \<Rightarrow> [])"

definition okeys :: "(string \<times> 'a) list \<Rightarrow> bool" where
  "okeys m \<longleftrightarrow> sorted_wrt (<) (map fst m)"

lemma as_obj_Some_iff [simp]: "as_obj v = Some m \<longleftrightarrow> v = JObj m"
  by (cases v) (auto simp: as_obj_def)

lemma or_nil_simps [simp]: "obj_or_nil (JObj m) = m" "arr_or_nil (JArr xs) = xs" "obj_or_nil JNull = []" "arr_or_nil JNull = []"
  by (simp_all add: obj_or_nil_def arr_or_nil_def)

lemma okeys_simps [simp]: "okeys []" "okeys (x # m) \<longleftrightarrow> (\<forall>y \<in> set m. fst x < fst y) \<and> okeys m"
  by (auto simp: okeys_def)

lemma map_of_oput [simp]: "map_of (oput k v m) = (map_of m)(k \<mapsto> v)"
  by (induction k v m rule: oput.induct) (auto simp: fun_eq_iff)

lemma map_of_odel [simp]: "map_of (odel k m) = (map_of m)(k := None)"
  unfolding odel_def by (induction m) (auto simp: fun_eq_iff)

lemma keys_oput [simp]: "fst ` set (oput k v m) = insert k (fst ` set m)"
  by (induction k v m rule: oput.induct) auto

lemma set_oput: "set (oput k v m) \<subseteq> insert (k, v) (set m)"
  by (induction k v m rule: oput.induct) auto

lemma okeys_oput [simp]: "okeys m \<Longrightarrow> okeys (oput k v m)"
proof (induction k v m rule: oput.induct)
  case (2 k v k' v' m)
  have "\<forall>y \<in> set (oput k v m). fst y \<in> insert k (fst ` set m)" using keys_oput [of k v m] by blast
  with 2 show ?case by fastforce
qed simp

lemma okeys_odel [simp]: "okeys m \<Longrightarrow> okeys (odel k m)"
  unfolding odel_def by (induction m) auto

lemma okeys_distinct: "okeys m \<Longrightarrow> distinct (map fst m)"
  by (simp add: okeys_def strict_sorted_iff)

text \<open>Objects with the same entries are equal.\<close>

lemma okeys_list: "okeys m \<Longrightarrow> m = map (\<lambda>k. (k, the (map_of m k))) (map fst m)"
proof (induction m)
  case (Cons x m)
  have "map (\<lambda>k. (k, the (map_of (x # m) k))) (map fst m) = map (\<lambda>k. (k, the (map_of m k))) (map fst m)"
    using Cons.prems by (auto simp: map_of_Cons_code)
  with Cons show ?case by (cases x) (simp del: map_map)
qed simp

lemma okeys_ext:
  assumes "okeys m" and "okeys m'" and "map_of m = map_of m'"
  shows "m = m'"
proof -
  have "fst ` set m = fst ` set m'" using assms(3) by (metis dom_map_of_conv_image_fst)
  then have "map fst m = map fst m'" using assms(1,2) unfolding okeys_def by (intro strict_sorted_equal) simp_all
  then show ?thesis using okeys_list [OF assms(1)] okeys_list [OF assms(2)] assms(3) by simp
qed

lemma oget_oput [simp]: "oget (oput k v m) k' = (if k' = k then v else oget m k')"
  by (simp add: oget_def)

lemma oget_odel [simp]: "oget (odel k m) k' = (if k' = k then JNull else oget m k')"
  by (simp add: oget_def)

end
