(* ===== verification/Workflow_Types.thy ===== *)
theory Workflow_Types
  imports Go_Json
begin

text \<open>
  The data of the workflow engine and its templates (\<open>src/internal/workflow/types.go\<close>,
  \<open>template.go\<close>, \<open>params.go\<close>).

  A value of Go's \<open>any\<close> that came out of JSON is a \<open>json\<close>; an error is a value of \<open>wf_err\<close>, in
  step results too, where the source has its text.  A map that the code iterates over is the
  list of its pairs in the order of the iteration, any other map a partial function.  The
  parameters, in one record: the clock and the channels of a run, the template engine,
  the JSON and number functions, the shell, the terminal.  \<open>'w\<close> is the state of the world
  that they and the clients read and change.
\<close>

section \<open>Definitions of workflows\<close>

definition StepTx :: string where "StepTx = ''tx''"

definition StepQuery :: string where "StepQuery = ''query''"

definition StepWait :: string where "StepWait = ''wait''"

definition StepPrompt :: string where "StepPrompt = ''prompt''"

definition StepProvider :: string where "StepProvider = ''provider''"

definition StepOutput :: string where "StepOutput = ''output''"

definition StepShell :: string where "StepShell = ''shell''"

definition StepCheck :: string where "StepCheck = ''check''"

definition OnErrorAbort :: string where "OnErrorAbort = ''abort''"

definition OnErrorContinue :: string where "OnErrorContinue = ''continue''"

definition OnErrorSkip :: string where "OnErrorSkip = ''skip''"

record ParamDef =
  pType :: string
  pRequired :: bool
  pDefault :: string
  pDescription :: string

record RetryDef =
  retryMax :: int
  retryDelay :: string

record DisplayDef =
  displayColumns :: "string list"

record StepDef =
  sdName :: string
  sdType :: string
  sdMsg :: string
  sdQuery :: string
  sdTimeout :: string
  sdUntil :: string
  sdTimeoutError :: string
  sdMode :: string
  sdData :: string
  sdDisplay :: DisplayDef
  sdAction :: string
  sdCommand :: string
  sdCondition :: string
  sdTemplate :: string
  sdParams :: "(string \<times> string) list"
  sdOutput :: "(string \<times> string) list"
  sdOnError :: string
  sdRetry :: "RetryDef option"
  sdOnFail :: string

record WorkflowDef =
  wfName :: string
  wfDescription :: string
  wfLong :: string
  wfExample :: string
  wfVersion :: int
  wfParams :: "(string \<times> ParamDef) list"
  wfSteps :: "StepDef list"

section \<open>Runs\<close>

datatype wf_err =
    NoExecutor string | CtxErr | StepFailed string wf_err
  | ParseTemplate string | ExecuteTemplate string | ResolveParam string wf_err | ResolvingParams wf_err
  | ParseListErr | EmptyData | BidSelectionSyntax string | BidSelectionEmpty string | BidSelectionAddress string
  | ResolveSelection wf_err | ResolveData wf_err | NoItems | NoItemSelected | InvalidSelection string
  | ChainUnavailable | ProviderUnavailable | ExtractOutputsErr wf_err
  | ResolveTimeout wf_err | InvalidTimeout string | TimeoutNotPositive | ResolveTimeoutError wf_err | EmptyTimeoutError
  | TimedOut "string option" int | EvalConditionErr string wf_err | ConditionNotMet string
  | ResolveCommand wf_err | ShellErr string | RenderOutput wf_err | WriteOutput wf_err | ShortWrite
  | InvalidDSeq string | ZeroDSeq string | UnknownAction string | MarshalProviderResult
  | WorkflowNotFound string | ParseWorkflowErr | WorkflowNoName | WorkflowNoSteps string | FileMissing
  | External string

record StepResult =
  srName :: string
  srType :: string
  srStatus :: string
  srOutput :: "(string \<rightharpoonup> json) option"
  srRawResult :: string
  srError :: "wf_err option"
  srDuration :: int
  srTxHash :: string
  srHeight :: int

record RunState =
  rsWorkflowID :: string
  rsWorkflow :: string
  rsAccount :: string
  rsParams :: "string \<rightharpoonup> json"
  rsSteps :: "string \<rightharpoonup> StepResult"
  rsStepOrder :: "string list"

definition NewRunState :: "string \<Rightarrow> string \<Rightarrow> string \<Rightarrow> (string \<rightharpoonup> json) \<Rightarrow> RunState" where
  "NewRunState workflowID workflowName account params =
     \<lparr>rsWorkflowID = workflowID, rsWorkflow = workflowName, rsAccount = account, rsParams = params, rsSteps = Map.empty,
      rsStepOrder = []\<rparr>"

definition SetStepResult :: "RunState \<Rightarrow> string \<Rightarrow> StepResult \<Rightarrow> RunState" where
  "SetStepResult rs name result =
     rs\<lparr>rsSteps := (rsSteps rs)(name \<mapsto> result), rsStepOrder := rsStepOrder rs @ [name]\<rparr>"

definition StepOutput_value :: "RunState \<Rightarrow> string \<Rightarrow> string \<Rightarrow> json" where
  "StepOutput_value rs stepName key =
     (case rsSteps rs stepName of
        None \<Rightarrow> JNull
      | Some sr \<Rightarrow> (case srOutput sr of None \<Rightarrow> JNull | Some out \<Rightarrow> (case out key of None \<Rightarrow> JNull | Some v \<Rightarrow> v)))"

section \<open>Parameters\<close>

text \<open>What a template sees.\<close>

record template_data =
  tdAccount :: string
  tdWorkflowID :: string
  tdParams :: "string \<rightharpoonup> json"
  tdSteps :: "string \<rightharpoonup> (string \<rightharpoonup> json)"
  tdResult :: "json option"

datatype wait_event = Cancelled | DeadlinePassed | Tick

record 'w deps =
  dNow :: "'w \<Rightarrow> int"
  dDone :: "'w \<Rightarrow> bool"
  dSleep :: "'w \<Rightarrow> int \<Rightarrow> bool \<times> 'w"
  dSelect :: "'w \<Rightarrow> wait_event \<times> 'w"
  dTemplate :: "string \<Rightarrow> (template_data \<Rightarrow> string option) option"
  dJSON :: "string \<Rightarrow> json option"
  dJSONText :: "json \<Rightarrow> string option"
  dErrorText :: "wf_err \<Rightarrow> string"
  dDuration :: "string \<Rightarrow> int option"
  dParseFloat :: "string \<Rightarrow> float64 option"
  dFormatFloat :: "float64 \<Rightarrow> string"
  dSprint :: "json \<Rightarrow> string"
  dBech32 :: "string \<Rightarrow> (string \<times> string) option"
  dAccPrefix :: string
  dShell :: "'w \<Rightarrow> string \<Rightarrow> (wf_err + string) \<times> 'w"
  dWrite :: "'w \<Rightarrow> string \<Rightarrow> (wf_err + nat) \<times> 'w"
  dReadLine :: "'w \<Rightarrow> string \<times> 'w"
  dPrint :: "'w \<Rightarrow> string \<Rightarrow> 'w"

section \<open>Templates\<close>

definition step_data :: "'w deps \<Rightarrow> StepResult \<Rightarrow> string \<rightharpoonup> json" where
  "step_data D sr =
     (let stepData = (case srOutput sr of None \<Rightarrow> Map.empty | Some out \<Rightarrow> out)
      in stepData(''_status'' \<mapsto> JStr (srStatus sr), ''_tx_hash'' \<mapsto> JStr (srTxHash sr),
           ''_height'' \<mapsto> JNum (Fin (of_int (srHeight sr))),
           ''_error'' \<mapsto> JStr (case srError sr of None \<Rightarrow> [] | Some e \<Rightarrow> dErrorText D e)))"

definition buildTemplateData :: "'w deps \<Rightarrow> RunState \<Rightarrow> template_data" where
  "buildTemplateData D state =
     \<lparr>tdAccount = rsAccount state, tdWorkflowID = rsWorkflowID state, tdParams = rsParams state,
      tdSteps = (\<lambda>name. map_option (step_data D) (rsSteps state name)), tdResult = None\<rparr>"

definition render :: "'w deps \<Rightarrow> string \<Rightarrow> template_data \<Rightarrow> wf_err + string" where
  "render D tmpl data =
     (case dTemplate D tmpl of
        None \<Rightarrow> Inl (ParseTemplate tmpl)
      | Some t \<Rightarrow> (case t data of None \<Rightarrow> Inl (ExecuteTemplate tmpl) | Some text \<Rightarrow> Inr (trim_space text)))"

definition ResolveTemplate :: "'w deps \<Rightarrow> string \<Rightarrow> RunState \<Rightarrow> wf_err + string" where
  "ResolveTemplate D tmpl state =
     (if tmpl = [] then Inr []
      else if \<not> contains tmpl ''{{'' then Inr tmpl
      else render D tmpl (buildTemplateData D state))"

definition ResolveParams :: "'w deps \<Rightarrow> (string \<times> string) list \<Rightarrow> RunState \<Rightarrow> wf_err + (string \<times> string) list" where
  "ResolveParams D params state =
     (if length params = 0 then Inr params
      else foldM (\<lambda>resolved (k, v).
        rbind (map_err (ResolveParam k) (ResolveTemplate D v state)) (\<lambda>r. Inr (resolved @ [(k, r)]))) [] params)"

definition resolveWithResult :: "'w deps \<Rightarrow> string \<Rightarrow> RunState \<Rightarrow> json \<Rightarrow> wf_err + string" where
  "resolveWithResult D tmpl state result =
     (if \<not> contains tmpl ''{{'' then Inr tmpl
      else render D tmpl ((buildTemplateData D state)\<lparr>tdResult := Some result\<rparr>))"

definition result_data :: "'w deps \<Rightarrow> string \<Rightarrow> json" where
  "result_data D raw = (if 0 < length raw then (case dJSON D raw of None \<Rightarrow> JNull | Some v \<Rightarrow> v) else JNull)"

definition ExtractOutputs ::
  "'w deps \<Rightarrow> (string \<times> string) list \<Rightarrow> string \<Rightarrow> RunState \<Rightarrow> wf_err + (string \<rightharpoonup> json) option" where
  "ExtractOutputs D outputDefs raw state =
     (if length outputDefs = 0 then
        Inr (case dJSON D raw of Some (JObj m) \<Rightarrow> Some (map_of m) | _ \<Rightarrow> None)
      else
        (let resultData = result_data D raw
         in Inr (Some (foldl (\<lambda>outputs (name, tmpl).
              outputs(name \<mapsto> (case resolveWithResult D tmpl state resultData of Inl _ \<Rightarrow> JNull | Inr s \<Rightarrow> JStr s)))
              Map.empty outputDefs))))"

definition EvalCondition :: "'w deps \<Rightarrow> string \<Rightarrow> string \<Rightarrow> RunState \<Rightarrow> wf_err + bool" where
  "EvalCondition D condition data state =
     (if condition = [] then Inr True
      else rbind (resolveWithResult D condition state (result_data D data)) (\<lambda>rendered.
        let s = trim_space rendered
        in Inr (s \<noteq> [] \<and> s \<noteq> ''false'' \<and> s \<noteq> ''0'' \<and> s \<noteq> ''<no value>'')))"

text \<open>A list of objects; \<open>null\<close> is a nil list or a nil object.\<close>

fun list_items :: "json list \<Rightarrow> obj option list option" where
  "list_items [] = Some []"
| "list_items (JObj m # xs) = map_option ((#) (Some m)) (list_items xs)"
| "list_items (JNull # xs) = map_option ((#) None) (list_items xs)"
| "list_items (_ # xs) = None"

definition ParseList :: "'w deps \<Rightarrow> string \<Rightarrow> wf_err + obj option list" where
  "ParseList D data =
     (let data = trim_space data in
      if data = [] then Inl EmptyData
      else case dJSON D data of
        Some JNull \<Rightarrow> Inr []
      | Some (JArr xs) \<Rightarrow> of_opt ParseListErr (list_items xs)
      | _ \<Rightarrow> Inl ParseListErr)"

section \<open>Bid selection\<close>

definition ValidateBidSelection :: "'w deps \<Rightarrow> string \<Rightarrow> wf_err option" where
  "ValidateBidSelection D val =
     (if val \<in> {''interactive'', ''cheapest''} then None
      else case cut_prefix ''provider='' val of
        None \<Rightarrow> Some (BidSelectionSyntax val)
      | Some provider \<Rightarrow>
          if provider = [] then Some (BidSelectionEmpty val)
          else (case dBech32 D provider of
             None \<Rightarrow> Some (BidSelectionAddress val)
           | Some (hrp, address) \<Rightarrow>
               if hrp \<noteq> dAccPrefix D \<or> length address \<noteq> 20 then Some (BidSelectionAddress val) else None))"

end
