(* ===== verification/Workflow_Engine.thy ===== *)
theory Workflow_Engine
  imports Workflow_Types Action_Log
begin

text \<open>
  The workflow engine (\<open>src/internal/workflow/engine.go\<close>), its action-log adapter
  (\<open>actionlog.go\<close>) and the loader of definitions (\<open>loader.go\<close>).  An executor is a function on
  the state of the world, \<open>None\<close> when it does not return; a registry maps step types to
  executors.  The random workflow id and the YAML decoder are parameters.
\<close>

section \<open>The engine\<close>

type_synonym 'w outcome = "(StepResult option \<times> wf_err option) \<times> 'w"

type_synonym 'w executor = "'w \<Rightarrow> StepDef \<Rightarrow> RunState \<Rightarrow> 'w outcome option"

type_synonym 'w registry = "string \<rightharpoonup> 'w executor"

text \<open>\<open>None\<close>: no logger.\<close>

type_synonym 'w step_logger = "('w \<Rightarrow> string \<Rightarrow> nat \<Rightarrow> StepResult \<Rightarrow> 'w) option"

definition registry_Get :: "'w registry \<Rightarrow> string \<Rightarrow> wf_err + 'w executor" where
  "registry_Get R t = of_opt (NoExecutor t) (R t)"

text \<open>The attempts of a step, with a pause before each but the first; \<open>n\<close> are left.\<close>

fun attempts ::
  "'w deps \<Rightarrow> 'w executor \<Rightarrow> int \<Rightarrow> StepDef \<Rightarrow> RunState \<Rightarrow> nat \<Rightarrow> bool \<Rightarrow> StepResult option \<times> wf_err option \<Rightarrow> 'w
    \<Rightarrow> 'w outcome option" where
  "attempts D ex delay step state 0 first lastRes w = Some (lastRes, w)"
| "attempts D ex delay step state (Suc n) first lastRes w =
     (let (cancelled, w) = (if first then (False, w) else dSleep D w delay) in
      if cancelled then Some ((fst lastRes, Some CtxErr), w)
      else case ex w step state of
        None \<Rightarrow> None
      | Some ((r, None), w) \<Rightarrow> Some ((r, None), w)
      | Some (res, w) \<Rightarrow> attempts D ex delay step state n False res w)"

definition second_ns :: int where
  "second_ns = 1000000000"

definition max_attempts :: "StepDef \<Rightarrow> nat" where
  "max_attempts step = (case sdRetry step of Some r \<Rightarrow> if 0 < retryMax r then nat (retryMax r) else 1 | None \<Rightarrow> 1)"

definition retry_delay :: "'w deps \<Rightarrow> StepDef \<Rightarrow> int" where
  "retry_delay D step =
     (case sdRetry step of
        None \<Rightarrow> 0
      | Some r \<Rightarrow>
          if 0 < retryMax r then
            (let d = (if retryDelay r \<noteq> [] then (case dDuration D (retryDelay r) of None \<Rightarrow> 0 | Some d \<Rightarrow> d) else 0)
             in if d = 0 then 2 * second_ns else d)
          else 0)"

definition failed_result :: "StepDef \<Rightarrow> wf_err \<Rightarrow> int \<Rightarrow> StepResult" where
  "failed_result step e duration =
     \<lparr>srName = sdName step, srType = sdType step, srStatus = ''failed'', srOutput = None, srRawResult = [], srError = Some e,
      srDuration = duration, srTxHash = [], srHeight = 0\<rparr>"

definition success_result :: "StepDef \<Rightarrow> (string \<rightharpoonup> json) option \<Rightarrow> string \<Rightarrow> int \<Rightarrow> StepResult" where
  "success_result step outputs raw duration =
     \<lparr>srName = sdName step, srType = sdType step, srStatus = ''success'', srOutput = outputs, srRawResult = raw, srError = None,
      srDuration = duration, srTxHash = [], srHeight = 0\<rparr>"

definition executeStep ::
  "'w deps \<Rightarrow> 'w registry \<Rightarrow> StepDef \<Rightarrow> RunState \<Rightarrow> 'w \<Rightarrow> 'w outcome option" where
  "executeStep D R step state w =
     (case registry_Get R (sdType step) of
        Inl e \<Rightarrow> Some ((Some (failed_result step e 0), Some e), w)
      | Inr ex \<Rightarrow> attempts D ex (retry_delay D step) step state (max_attempts step) True (None, None) w)"

text \<open>One round of the loop of \<open>Run\<close>: \<open>Some e\<close> when the run ends with that error.\<close>

definition run_step ::
  "'w deps \<Rightarrow> 'w registry \<Rightarrow> 'w step_logger \<Rightarrow> nat \<Rightarrow> StepDef \<Rightarrow> RunState \<Rightarrow> 'w
    \<Rightarrow> (wf_err option \<times> RunState \<times> 'w) option" where
  "run_step D R logger i step state w =
     (if dDone D w then Some (Some CtxErr, state, w)
      else (case executeStep D R step state w of None \<Rightarrow> None | Some ((result, err), w) \<Rightarrow>
        Some (let state' = (case result of None \<Rightarrow> state | Some r \<Rightarrow> SetStepResult state (sdName step) r);
             w' = (case (logger, result) of (Some lg, Some r) \<Rightarrow> lg w (rsWorkflowID state) i r | _ \<Rightarrow> w)
         in case err of
              None \<Rightarrow> (None, state', w')
            | Some e \<Rightarrow>
                if sdOnError step = OnErrorContinue then (None, state', w')
                else if sdOnError step = OnErrorSkip then (None, state', w')
                else (Some (StepFailed (sdName step) e), state', w'))))"

fun run_steps ::
  "'w deps \<Rightarrow> 'w registry \<Rightarrow> 'w step_logger \<Rightarrow> nat \<Rightarrow> StepDef list \<Rightarrow> RunState \<Rightarrow> 'w
    \<Rightarrow> (wf_err option \<times> RunState \<times> 'w) option" where
  "run_steps D R logger i [] state w = Some (None, state, w)"
| "run_steps D R logger i (step # steps) state w =
     (case run_step D R logger i step state w of
        None \<Rightarrow> None
      | Some (Some e, state, w) \<Rightarrow> Some (Some e, state, w)
      | Some (None, state, w) \<Rightarrow> run_steps D R logger (Suc i) steps state w)"

text \<open>\<open>workflowID\<close> is what \<open>GenerateWorkflowID\<close> returned.\<close>

definition Run ::
  "'w deps \<Rightarrow> 'w registry \<Rightarrow> 'w step_logger \<Rightarrow> string \<Rightarrow> WorkflowDef \<Rightarrow> string \<Rightarrow> (string \<rightharpoonup> json) \<Rightarrow> 'w
    \<Rightarrow> (wf_err option \<times> RunState \<times> 'w) option" where
  "Run D R logger workflowID wfd account params w =
     run_steps D R logger 0 (wfSteps wfd) (NewRunState workflowID (wfName wfd) account params) w"

section \<open>The action-log adapter\<close>

definition workflow_entry :: "'w deps \<Rightarrow> string \<Rightarrow> string \<Rightarrow> nat \<Rightarrow> StepResult \<Rightarrow> Entry" where
  "workflow_entry D workflow workflowID stepIndex result =
     zero_entry\<lparr>eType := TypeWorkflow, eAction := workflow, eWorkflowID := workflowID, eStep := int stepIndex,
       eStepName := srName result, eStatus := srStatus result,
       eError := (case srError result of None \<Rightarrow> [] | Some e \<Rightarrow> dErrorText D e), eTxHash := srTxHash result,
       eHeight := srHeight result\<rparr>"

text \<open>Logging is best effort: the error of \<open>Log\<close> is dropped.\<close>

definition LogStep ::
  "'w deps \<Rightarrow> entry_codec \<Rightarrow> log_os \<Rightarrow> string \<Rightarrow> Logger option \<Rightarrow> string \<Rightarrow> nat \<Rightarrow> StepResult \<Rightarrow> Logger option" where
  "LogStep D C os workflow a workflowID stepIndex result =
     (case a of None \<Rightarrow> None | Some l \<Rightarrow> Some (snd (Log C os l (workflow_entry D workflow workflowID stepIndex result))))"

section \<open>Loading definitions\<close>

record Loader =
  ldHome :: string
  ldContext :: string
  ldBuiltins :: "(string \<times> string) list"

definition parseWorkflow :: "(string \<Rightarrow> WorkflowDef option) \<Rightarrow> string \<Rightarrow> wf_err + WorkflowDef" where
  "parseWorkflow yaml data =
     (case yaml data of
        None \<Rightarrow> Inl ParseWorkflowErr
      | Some wfd \<Rightarrow>
          if wfName wfd = [] then Inl WorkflowNoName
          else if length (wfSteps wfd) = 0 then Inl (WorkflowNoSteps (wfName wfd))
          else Inr wfd)"

definition loadFromFile :: "(string \<Rightarrow> WorkflowDef option) \<Rightarrow> os \<Rightarrow> fs \<Rightarrow> string \<Rightarrow> wf_err + WorkflowDef" where
  "loadFromFile yaml os fs path =
     (case ReadFile os fs path of Inl _ \<Rightarrow> Inl FileMissing | Inr data \<Rightarrow> parseWorkflow yaml data)"

definition Load :: "(string \<Rightarrow> WorkflowDef option) \<Rightarrow> os \<Rightarrow> fs \<Rightarrow> Loader \<Rightarrow> string \<Rightarrow> wf_err + WorkflowDef" where
  "Load yaml os fs l name =
     (let file = name @ ''.yaml'';
          per_context = (if ldContext l \<noteq> []
            then loadFromFile yaml os fs (filepath_Join [ldHome l, ''contexts'', ldContext l, ''workflows'', file]) else Inl FileMissing)
      in case per_context of
           Inr wfd \<Rightarrow> Inr wfd
         | Inl _ \<Rightarrow>
             (case loadFromFile yaml os fs (filepath_Join [ldHome l, ''workflows'', file]) of
                Inr wfd \<Rightarrow> Inr wfd
              | Inl _ \<Rightarrow>
                  (case map_of (ldBuiltins l) name of
                     Some data \<Rightarrow> parseWorkflow yaml data
                   | None \<Rightarrow> Inl (WorkflowNotFound name))))"

text \<open>
  \<open>filepath.Ext\<close> of a name without a slash: from the last dot on.  The entries of a directory
  are given as what \<open>os.ReadDir\<close> returns, names with whether they are directories.
\<close>

definition filepath_Ext :: "string \<Rightarrow> string" where
  "filepath_Ext name =
     (if CHR ''.'' \<in> set name then CHR ''.'' # rev (takeWhile (\<lambda>c. c \<noteq> CHR ''.'') (rev name)) else [])"

definition addFromDir :: "(string \<times> bool) list option \<Rightarrow> string list \<Rightarrow> string list" where
  "addFromDir entries names =
     (case entries of
        None \<Rightarrow> names
      | Some es \<Rightarrow> foldl (\<lambda>names (name, isDir).
          if isDir then names
          else (let ext = filepath_Ext name in
            if ext \<noteq> ''.yaml'' \<and> ext \<noteq> ''.yml'' then names
            else (let base = take (length name - length ext) name
                  in if base \<in> set names then names else names @ [base]))) names es)"

definition List_workflows :: "(string \<Rightarrow> (string \<times> bool) list option) \<Rightarrow> Loader \<Rightarrow> string list" where
  "List_workflows readDir l =
     (let names = (if ldContext l \<noteq> []
            then addFromDir (readDir (filepath_Join [ldHome l, ''contexts'', ldContext l, ''workflows''])) [] else []);
          names = addFromDir (readDir (filepath_Join [ldHome l, ''workflows''])) names
      in foldl (\<lambda>names (name, _). if name \<in> set names then names else names @ [name]) names (ldBuiltins l))"

end
