(* ===== verification/Workflow_Steps.thy ===== *)
theory Workflow_Steps
  imports Workflow_Engine
begin

text \<open>
  The executors of the workflow steps and their registry (\<open>src/internal/workflow/steps\<close>).  The
  chain and the provider are interfaces in the source; here they are records of functions
  on the state of the world, \<open>None\<close> for a nil client.
\<close>

section \<open>Clients\<close>

record TxResult =
  txHash :: string
  txHeight :: int
  txCode :: u32
  txData :: string

record 'w ChainClient =
  cBroadcastTx :: "'w \<Rightarrow> string \<Rightarrow> (string \<times> string) list \<Rightarrow> (wf_err + TxResult) \<times> 'w"
  cQuery :: "'w \<Rightarrow> string \<Rightarrow> (string \<times> string) list \<Rightarrow> (wf_err + string) \<times> 'w"

record 'w ProviderClient =
  pSendManifest :: "'w \<Rightarrow> string \<Rightarrow> u64 \<Rightarrow> string \<Rightarrow> wf_err option \<times> 'w"
  pSendManifestToActiveLeases :: "'w \<Rightarrow> u64 \<Rightarrow> string \<Rightarrow> (string list \<times> wf_err option) \<times> 'w"
  pLeaseStatus :: "'w \<Rightarrow> string \<Rightarrow> u64 \<Rightarrow> (wf_err + string) \<times> 'w"

text \<open>A failed step: its result and the error returned, which may wrap the recorded one.\<close>

definition failed ::
  "'w deps \<Rightarrow> int \<Rightarrow> StepDef \<Rightarrow> wf_err \<Rightarrow> wf_err \<Rightarrow> 'w \<Rightarrow> 'w outcome" where
  "failed D start step recorded returned w = ((Some (failed_result step recorded (dNow D w - start)), Some returned), w)"

definition succeeded ::
  "'w deps \<Rightarrow> int \<Rightarrow> StepDef \<Rightarrow> (string \<rightharpoonup> json) option \<Rightarrow> string \<Rightarrow> 'w \<Rightarrow> 'w outcome" where
  "succeeded D start step outputs raw w = ((Some (success_result step outputs raw (dNow D w - start)), None), w)"

section \<open>Transactions and queries\<close>

definition TxExecutor_Execute :: "'w deps \<Rightarrow> 'w ChainClient option \<Rightarrow> 'w executor" where
  "TxExecutor_Execute D chain w step state = Some
     (let start = dNow D w in
      case chain of
        None \<Rightarrow> failed D start step ChainUnavailable ChainUnavailable w
      | Some c \<Rightarrow>
          (case ResolveParams D (sdParams step) state of
             Inl e \<Rightarrow> failed D start step e (ResolvingParams e) w
           | Inr params \<Rightarrow>
               (case cBroadcastTx c w (sdMsg step) params of
                  (Inl e, w) \<Rightarrow> failed D start step e e w
                | (Inr result, w) \<Rightarrow>
                    (case ExtractOutputs D (sdOutput step) (txData result) state of
                       Inl e \<Rightarrow>
                         ((Some ((failed_result step e (dNow D w - start))\<lparr>srTxHash := txHash result, srHeight := txHeight result\<rparr>),
                           Some (ExtractOutputsErr e)), w)
                     | Inr outputs \<Rightarrow>
                         ((Some ((success_result step outputs (txData result) (dNow D w - start))
                             \<lparr>srTxHash := txHash result, srHeight := txHeight result\<rparr>), None), w)))))"

definition QueryExecutor_Execute :: "'w deps \<Rightarrow> 'w ChainClient option \<Rightarrow> 'w executor" where
  "QueryExecutor_Execute D chain w step state = Some
     (let start = dNow D w in
      case chain of
        None \<Rightarrow> failed D start step ChainUnavailable ChainUnavailable w
      | Some c \<Rightarrow>
          (case ResolveParams D (sdParams step) state of
             Inl e \<Rightarrow> failed D start step e (ResolvingParams e) w
           | Inr params \<Rightarrow>
               (case cQuery c w (sdQuery step) params of
                  (Inl e, w) \<Rightarrow> failed D start step e e w
                | (Inr data, w) \<Rightarrow>
                    (case ExtractOutputs D (sdOutput step) data state of
                       Inl e \<Rightarrow> failed D start step e (ExtractOutputsErr e) w
                     | Inr outputs \<Rightarrow> succeeded D start step outputs data w))))"

section \<open>Waiting\<close>

definition defaultPollInterval :: int where
  "defaultPollInterval = 5 * second_ns"

definition defaultWaitTimeout :: int where
  "defaultWaitTimeout = 5 * 60 * second_ns"

record WaitProgress =
  wpStep :: string
  wpQuery :: string
  wpElapsed :: int
  wpRemaining :: int
  wpResult :: string

type_synonym 'w reporter = "('w \<Rightarrow> WaitProgress \<Rightarrow> 'w) option"

definition report :: "'w deps \<Rightarrow> 'w reporter \<Rightarrow> int \<Rightarrow> int \<Rightarrow> StepDef \<Rightarrow> string \<Rightarrow> 'w \<Rightarrow> 'w" where
  "report D progress start timeout step data w =
     (case progress of
        None \<Rightarrow> w
      | Some f \<Rightarrow>
          (let elapsed = dNow D w - start; remaining = timeout - elapsed; remaining = (if remaining < 0 then 0 else remaining)
           in f w \<lparr>wpStep = sdName step, wpQuery = sdQuery step, wpElapsed = elapsed, wpRemaining = remaining, wpResult = data\<rparr>))"

text \<open>
  The loop: one query per round, until the condition holds, the run is cancelled or the
  deadline passes.  \<open>None\<close>: still waiting after that many rounds.
\<close>

fun wait_loop ::
  "'w deps \<Rightarrow> 'w ChainClient \<Rightarrow> 'w reporter \<Rightarrow> int \<Rightarrow> int \<Rightarrow> wf_err \<Rightarrow> (string \<times> string) list \<Rightarrow> StepDef \<Rightarrow> RunState \<Rightarrow> nat \<Rightarrow> 'w
    \<Rightarrow> 'w outcome option" where
  "wait_loop D c progress start timeout timeoutError params step state 0 w = None"
| "wait_loop D c progress start timeout timeoutError params step state (Suc n) w =
     (let (res, w) = cQuery c w (sdQuery step) params;
          w = (case res of Inl _ \<Rightarrow> w | Inr data \<Rightarrow> report D progress start timeout step data w);
          met = (case res of Inl _ \<Rightarrow> None
                 | Inr data \<Rightarrow> if EvalCondition D (sdUntil step) data state = Inr True then Some data else None)
      in case met of
           Some data \<Rightarrow>
             Some (succeeded D start step
               (case ExtractOutputs D (sdOutput step) data state of Inl _ \<Rightarrow> None | Inr outputs \<Rightarrow> outputs) data w)
         | None \<Rightarrow>
             (case dSelect D w of
                (Cancelled, w) \<Rightarrow> Some (failed D start step CtxErr CtxErr w)
              | (DeadlinePassed, w) \<Rightarrow> Some (failed D start step timeoutError timeoutError w)
              | (Tick, w) \<Rightarrow> wait_loop D c progress start timeout timeoutError params step state n w))"

definition wait_timeout :: "'w deps \<Rightarrow> StepDef \<Rightarrow> RunState \<Rightarrow> wf_err + int" where
  "wait_timeout D step state =
     (if sdTimeout step = [] then Inr defaultWaitTimeout
      else rbind (map_err ResolveTimeout (ResolveTemplate D (sdTimeout step) state)) (\<lambda>resolved.
           rbind (of_opt (InvalidTimeout resolved) (dDuration D resolved)) (\<lambda>duration.
           rbind (fail_if (duration \<le> 0) TimeoutNotPositive) (\<lambda>_. Inr duration))))"

definition wait_timeout_error :: "'w deps \<Rightarrow> StepDef \<Rightarrow> RunState \<Rightarrow> int \<Rightarrow> wf_err + wf_err" where
  "wait_timeout_error D step state timeout =
     (if sdTimeoutError step = [] then Inr (TimedOut None timeout)
      else rbind (map_err ResolveTimeoutError (ResolveTemplate D (sdTimeoutError step) state)) (\<lambda>resolved.
           let resolved = trim_space resolved in
           rbind (fail_if (resolved = []) EmptyTimeoutError) (\<lambda>_. Inr (TimedOut (Some resolved) timeout))))"

definition WaitExecutor_Execute ::
  "'w deps \<Rightarrow> 'w ChainClient option \<Rightarrow> 'w reporter \<Rightarrow> nat \<Rightarrow> 'w \<Rightarrow> StepDef \<Rightarrow> RunState
    \<Rightarrow> 'w outcome option" where
  "WaitExecutor_Execute D chain progress rounds w step state =
     (let start = dNow D w in
      case rbind (wait_timeout D step state) (\<lambda>timeout.
           rbind (wait_timeout_error D step state timeout) (\<lambda>timeoutError.
           rbind (of_opt ChainUnavailable chain) (\<lambda>c. Inr (timeout, timeoutError, c)))) of
        Inl e \<Rightarrow> Some (failed D start step e e w)
      | Inr (timeout, timeoutError, c) \<Rightarrow>
          (case ResolveParams D (sdParams step) state of
             Inl e \<Rightarrow> Some (failed D start step e (ResolvingParams e) w)
           | Inr params \<Rightarrow> wait_loop D c progress start timeout timeoutError params step state rounds w))"

section \<open>Checks, shell commands and output\<close>

definition CheckExecutor_Execute :: "'w deps \<Rightarrow> 'w executor" where
  "CheckExecutor_Execute D w step state = Some
     (let start = dNow D w in
      case EvalCondition D (sdCondition step) [] state of
        Inl e \<Rightarrow> failed D start step e (EvalConditionErr (sdCondition step) e) w
      | Inr True \<Rightarrow> succeeded D start step None [] w
      | Inr False \<Rightarrow>
          (let status = (if sdOnFail step = OnErrorSkip then ''skipped'' else ''failed'');
               result = (failed_result step (ConditionNotMet (sdCondition step)) (dNow D w - start))\<lparr>srStatus := status\<rparr>
           in ((Some result, if status = ''skipped'' then None else Some (ConditionNotMet (sdCondition step))), w)))"

definition ShellExecutor_Execute :: "'w deps \<Rightarrow> 'w executor" where
  "ShellExecutor_Execute D w step state = Some
     (let start = dNow D w in
      case ResolveTemplate D (sdCommand step) state of
        Inl e \<Rightarrow> failed D start step e (ResolveCommand e) w
      | Inr cmdStr \<Rightarrow>
          (case dShell D w cmdStr of
             (Inl e, w) \<Rightarrow> failed D start step e e w
           | (Inr stdout, w) \<Rightarrow>
               succeeded D start step
                 (case ExtractOutputs D (sdOutput step) stdout state of Inl _ \<Rightarrow> None | Inr outputs \<Rightarrow> outputs) stdout w))"

definition OutputExecutor_Execute :: "'w deps \<Rightarrow> 'w executor" where
  "OutputExecutor_Execute D w step state = Some
     (let start = dNow D w in
      case ResolveTemplate D (sdTemplate step) state of
        Inl e \<Rightarrow> failed D start step e (RenderOutput e) w
      | Inr rendered \<Rightarrow>
          (case dWrite D w rendered of
             (Inl e, w) \<Rightarrow> failed D start step e (WriteOutput e) w
           | (Inr written, w) \<Rightarrow>
               if written \<noteq> length rendered then failed D start step ShortWrite (WriteOutput ShortWrite) w
               else succeeded D start step (Some [''text'' \<mapsto> JStr rendered]) [] w))"

section \<open>Prompts\<close>

definition field_obj :: "obj \<Rightarrow> string \<Rightarrow> obj option" where
  "field_obj m k = (case map_of m k of Some (JObj o') \<Rightarrow> Some o' | _ \<Rightarrow> None)"

definition field_str :: "json option \<Rightarrow> string" where
  "field_str v = (case v of Some (JStr s) \<Rightarrow> s | _ \<Rightarrow> [])"

definition normalizeScalar :: "'w deps \<Rightarrow> json \<Rightarrow> json" where
  "normalizeScalar D v = (case v of JNum f \<Rightarrow> JStr (dFormatFloat D f) | _ \<Rightarrow> v)"

definition inner_bid :: "obj \<Rightarrow> obj" where
  "inner_bid item = (case field_obj item ''bid'' of Some b \<Rightarrow> b | None \<Rightarrow> item)"

definition identity_keys :: "string list" where
  "identity_keys = [''owner'', ''dseq'', ''gseq'', ''oseq'', ''provider'']"

definition bidIdentity :: "'w deps \<Rightarrow> obj \<Rightarrow> string \<rightharpoonup> json" where
  "bidIdentity D item =
     (let inner = inner_bid item;
          i = (case field_obj inner ''id'' of Some m \<Rightarrow> m | None \<Rightarrow> inner);
          out = foldl (\<lambda>out k. case map_of i k of Some v \<Rightarrow> out(k \<mapsto> normalizeScalar D v) | None \<Rightarrow> out) Map.empty identity_keys
      in case field_obj inner ''price'' of
           None \<Rightarrow> out
         | Some p \<Rightarrow>
             out(''price'' \<mapsto> JStr (trim_space
               (field_str (map_option (normalizeScalar D) (map_of p ''amount'')) @ field_str (map_of p ''denom'')))))"

definition bidPrice :: "'w deps \<Rightarrow> obj \<Rightarrow> float64 option" where
  "bidPrice D item =
     (case field_obj (inner_bid item) ''price'' of
        None \<Rightarrow> None
      | Some p \<Rightarrow>
          (case map_of p ''amount'' of
             Some (JNum a) \<Rightarrow> Some a
           | Some (JStr a) \<Rightarrow> dParseFloat D a
           | _ \<Rightarrow> None))"

text \<open>A nil item has no fields.\<close>

definition item_obj :: "obj option \<Rightarrow> obj" where
  "item_obj x = (case x of None \<Rightarrow> [] | Some m \<Rightarrow> m)"

definition cheaper :: "'w deps \<Rightarrow> obj option \<times> float64 option \<Rightarrow> obj option \<Rightarrow> obj option \<times> float64 option" where
  "cheaper D = (\<lambda>(best, bestPrice) item.
     case bidPrice D (item_obj item) of
       None \<Rightarrow> (best, bestPrice)
     | Some price \<Rightarrow>
         if (case bestPrice of None \<Rightarrow> True | Some b \<Rightarrow> float_less price b) then (item, Some price) else (best, bestPrice))"

definition selectCheapest :: "'w deps \<Rightarrow> obj option list \<Rightarrow> obj option" where
  "selectCheapest D items =
     (case items of
        [] \<Rightarrow> None
      | x # xs \<Rightarrow> fst (foldl (cheaper D) (x, bidPrice D (item_obj x)) xs))"

definition selectByProvider :: "'w deps \<Rightarrow> obj option list \<Rightarrow> string \<Rightarrow> obj option" where
  "selectByProvider D items addr =
     (case List.find (\<lambda>item. case bidIdentity D (item_obj item) ''provider'' of Some p \<Rightarrow> dSprint D p = addr | None \<Rightarrow> False) items of
        None \<Rightarrow> None
      | Some item \<Rightarrow> item)"

text \<open>\<open>strconv.Atoi\<close>: an optional sign and decimal digits, in the range of a 64-bit int.\<close>

definition parse_atoi :: "string \<Rightarrow> int option" where
  "parse_atoi s =
     (case s of
        [] \<Rightarrow> None
      | c # t \<Rightarrow>
          if c = CHR ''-'' then (case parse_uint 64 t of Inr n \<Rightarrow> if n \<le> 2 ^ 63 then Some (- int n) else None | Inl _ \<Rightarrow> None)
          else (case parse_uint 64 (if c = CHR ''+'' then t else s) of
                  Inr n \<Rightarrow> if n < 2 ^ 63 then Some (int n) else None | Inl _ \<Rightarrow> None))"

definition item_line :: "'w deps \<Rightarrow> string list \<Rightarrow> nat \<Rightarrow> obj option \<Rightarrow> string" where
  "item_line D columns i item =
     (let identity = bidIdentity D (item_obj item);
          parts = List.map_filter (\<lambda>col. case map_of (item_obj item) col of
              Some v \<Rightarrow> Some (dSprint D v)
            | None \<Rightarrow> map_option (dSprint D) (identity col)) columns
      in ''  '' @ format_nat (i + 1) @ ''  '' @ join_with ''  '' parts @ [CHR 0x0A])"

definition interactiveSelect :: "'w deps \<Rightarrow> obj option list \<Rightarrow> string list \<Rightarrow> 'w \<Rightarrow> (wf_err + obj option) \<times> 'w" where
  "interactiveSelect D items columns w =
     (if length items = 0 then (Inl NoItems, w)
      else (let w = foldl (\<lambda>w (i, item). dPrint D w (item_line D columns i item)) w (enumerate 0 items);
                w = dPrint D w ([CHR 0x0A] @ ''Select [1-'' @ format_nat (length items) @ '']: '');
                (input, w) = dReadLine D w;
                input = trim_space input
            in case parse_atoi input of
                 None \<Rightarrow> (Inl (InvalidSelection input), w)
               | Some n \<Rightarrow>
                   if n < 1 \<or> int (length items) < n then (Inl (InvalidSelection input), w)
                   else (Inr (items ! nat (n - 1)), w)))"

definition select_item ::
  "'w deps \<Rightarrow> string \<Rightarrow> obj option list \<Rightarrow> string list \<Rightarrow> 'w \<Rightarrow> (wf_err + obj option) \<times> 'w" where
  "select_item D mode items columns w =
     (if mode = ''interactive'' then interactiveSelect D items columns w
      else if mode = ''cheapest'' then (Inr (selectCheapest D items), w)
      else if has_prefix mode ''provider='' then (Inr (selectByProvider D items (drop 9 mode)), w)
      else (Inr None, w))"

definition PromptExecutor_Execute :: "'w deps \<Rightarrow> 'w executor" where
  "PromptExecutor_Execute D w step state = Some
     (let start = dNow D w in
      case ResolveTemplate D (sdMode step) state of
        Inl e \<Rightarrow> failed D start step (ResolveSelection e) (ResolveSelection e) w
      | Inr mode \<Rightarrow>
          (case ValidateBidSelection D mode of
             Some e \<Rightarrow> failed D start step e e w
           | None \<Rightarrow>
               (case ResolveTemplate D (sdData step) state of
                  Inl e \<Rightarrow> failed D start step (ResolveData e) (ResolveData e) w
                | Inr dataRaw \<Rightarrow>
                    (case ParseList D dataRaw of
                       Inl _ \<Rightarrow> failed D start step NoItems NoItems w
                     | Inr items \<Rightarrow>
                         if length items = 0 then failed D start step NoItems NoItems w
                         else (case select_item D mode items (displayColumns (sdDisplay step)) w of
                            (Inl e, w) \<Rightarrow> failed D start step e e w
                          | (Inr None, w) \<Rightarrow> failed D start step NoItemSelected NoItemSelected w
                          | (Inr (Some selected), w) \<Rightarrow>
                              succeeded D start step
                                (Some ([''selected'' \<mapsto> JObj selected] ++ bidIdentity D selected)) [] w)))))"

section \<open>Provider calls\<close>

definition parseProviderDSeq :: "string \<Rightarrow> wf_err + u64" where
  "parseProviderDSeq val =
     (case parse_uint 64 val of
        Inl _ \<Rightarrow> Inl (InvalidDSeq val)
      | Inr n \<Rightarrow> if n = 0 then Inl (ZeroDSeq val) else Inr (of_nat n))"

definition param :: "(string \<times> string) list \<Rightarrow> string \<Rightarrow> string" where
  "param params k = (case map_of params k of Some v \<Rightarrow> v | None \<Rightarrow> [])"

definition manifest_to_active_leases ::
  "'w deps \<Rightarrow> 'w ProviderClient \<Rightarrow> int \<Rightarrow> (string \<times> string) list \<Rightarrow> StepDef \<Rightarrow> u64 \<Rightarrow> 'w \<Rightarrow> 'w outcome" where
  "manifest_to_active_leases D p start params step dseq w =
     (case pSendManifestToActiveLeases p w dseq (param params ''sdl'') of ((providers, sendErr), w) \<Rightarrow>
        (let list = JArr (map JStr providers); count = JNum (Fin (of_nat (length providers)));
             outputs = [''providers'' \<mapsto> list, ''count'' \<mapsto> count]
         in case dJSONText D (JObj [(''count'', count), (''providers'', list)]) of
              None \<Rightarrow> failed D start step MarshalProviderResult MarshalProviderResult w
            | Some raw \<Rightarrow>
                (case sendErr of
                   Some e \<Rightarrow>
                     ((Some ((failed_result step e (dNow D w - start))\<lparr>srOutput := Some outputs, srRawResult := raw\<rparr>), Some e), w)
                 | None \<Rightarrow> succeeded D start step (Some outputs) raw w)))"

definition ProviderExecutor_Execute :: "'w deps \<Rightarrow> 'w ProviderClient option \<Rightarrow> 'w executor" where
  "ProviderExecutor_Execute D provider w step state = Some
     (let start = dNow D w in
      case provider of
        None \<Rightarrow> failed D start step ProviderUnavailable ProviderUnavailable w
      | Some p \<Rightarrow>
          (case ResolveParams D (sdParams step) state of
             Inl e \<Rightarrow> failed D start step e (ResolvingParams e) w
           | Inr params \<Rightarrow>
               if sdAction step = ''send-manifest'' then
                 (case parseProviderDSeq (param params ''dseq'') of
                    Inl e \<Rightarrow> failed D start step e e w
                  | Inr dseq \<Rightarrow>
                      (case pSendManifest p w (param params ''provider'') dseq (param params ''sdl'') of
                         (Some e, w) \<Rightarrow> failed D start step e e w
                       | (None, w) \<Rightarrow> succeeded D start step None [] w))
               else if sdAction step = ''send-manifest-to-active-leases'' then
                 (case parseProviderDSeq (param params ''dseq'') of
                    Inl e \<Rightarrow> failed D start step e e w
                  | Inr dseq \<Rightarrow> manifest_to_active_leases D p start params step dseq w)
               else if sdAction step = ''lease-status'' then
                 (case parseProviderDSeq (param params ''dseq'') of
                    Inl e \<Rightarrow> failed D start step e e w
                  | Inr dseq \<Rightarrow>
                      (case pLeaseStatus p w (param params ''provider'') dseq of
                         (Inl e, w) \<Rightarrow> failed D start step e e w
                       | (Inr data, w) \<Rightarrow>
                           succeeded D start step
                             (case ExtractOutputs D (sdOutput step) data state of Inl _ \<Rightarrow> None | Inr outputs \<Rightarrow> outputs) data w))
               else failed D start step (UnknownAction (sdAction step)) (UnknownAction (sdAction step)) w))"

section \<open>The registry\<close>

definition Register :: "'w registry \<Rightarrow> string \<Rightarrow> 'w executor \<Rightarrow> 'w registry" where
  "Register R t e = R(t \<mapsto> e)"

definition NewRegistry :: "'w deps \<Rightarrow> nat \<Rightarrow> 'w ChainClient option \<Rightarrow> 'w ProviderClient option \<Rightarrow> 'w registry" where
  "NewRegistry D rounds chain provider =
     (let r = Map.empty;
          r = Register r StepTx (TxExecutor_Execute D chain);
          r = Register r StepQuery (QueryExecutor_Execute D chain);
          r = Register r StepWait (WaitExecutor_Execute D chain None rounds);
          r = Register r StepPrompt (PromptExecutor_Execute D);
          r = Register r StepProvider (ProviderExecutor_Execute D provider);
          r = Register r StepOutput (OutputExecutor_Execute D);
          r = Register r StepShell (ShellExecutor_Execute D)
      in Register r StepCheck (CheckExecutor_Execute D))"

end
