(* ===== verification/Deployment_Patch.thy ===== *)
theory Deployment_Patch
  imports Go_Json
begin

text \<open>
  Patches of deployment configurations (\<open>src/internal/deploymentconfig/patch.go\<close>): the data,
  their validation, and the reading of YAML through its syntax tree.

  A YAML node has an identity; an alias names the identity of its target, which may be one of
  its own ancestors.  The YAML scanner, the decoding of a scalar, the YAML printer and the
  text of a number are parameters.  Maps are iterated over in the order of their keys; the
  code's order is random, which can only change which of several errors is reported.
\<close>

section \<open>Errors\<close>

datatype dc_err =
    BadName | VersionTooLong | CommandNotArray | CommandNotStrings | BadCredentials | BadEnvName | BadPort | BadBodySize
  | BadTimeouts | NoNextCases | OffNotAlone | BadNextCase
  | DocumentTooLarge | NotYAML | ManyDocuments | NotObject | TooManyNodes | TooDeep | MergeNotObject | BadKey | DuplicateKey
  | BadScalarType | InvalidScalar | DcPanic
  | InvalidPatch dc_err | UnknownField | NullField | ArrayNotStrings | ServiceNotObject | ExposeNotObject | StorageNotObject
  | PatchDecode
  | InvalidSDL dc_err | NoServices | UnknownService | SharedServices | SharedService | SharedEnv | SharedEndpoints | SharedEndpoint
  | SharedStorage | SharedVolume | ExposeEntryNotObject | AmbiguousPort | UnknownPort | KindChanged | LeasedIPMoved
  | ContainerPortCollision | ExternalPortCollision | UnknownVolume | ResultTooLarge
  | CannotParseCurrent | CannotParseRequested | CannotVerify | Unrepresentable | DuplicateEnv

section \<open>Patches\<close>

text \<open>A nil pointer is \<open>None\<close>; a \<open>json.RawMessage\<close> is its value, \<open>None\<close> when it is empty.\<close>

record HTTPOptionsPatch =
  hoMaxBodySize :: "u32 option"
  hoReadTimeout :: "u32 option"
  hoSendTimeout :: "u32 option"
  hoNextTries :: "u32 option"
  hoNextTimeout :: "u32 option"
  hoNextCases :: "string list option"

record ExposePatch =
  epPort :: "u32 option"
  epAs :: "u32 option"
  epAccept :: "string list option"
  epHTTPOptions :: "HTTPOptionsPatch option"

record StoragePatch =
  stMount :: "string option"
  stReadOnly :: "bool option"

record ServicePatch =
  spImage :: "string option"
  spCommand :: "json option"
  spArgs :: "json option"
  spEnv :: "(string \<times> string option) list"
  spCredentials :: "json option"
  spExpose :: "(string \<times> ExposePatch) list"
  spStorage :: "(string \<times> StoragePatch) list"

record Patch =
  paServices :: "(string \<times> ServicePatch) list"
  paName :: "string option"
  paIfManifestVersion :: string

definition maxDocumentBytes :: nat where
  "maxDocumentBytes = 2 ^ 20"

section \<open>Validation\<close>

text \<open>\<open>utf8.RuneCountInString\<close>: the width of the rune a string starts with, 1 for an invalid one.\<close>

definition in_range :: "nat \<Rightarrow> nat \<Rightarrow> char \<Rightarrow> bool" where
  "in_range a b c \<longleftrightarrow> a \<le> of_char c \<and> of_char c \<le> b"

definition rune_width :: "string \<Rightarrow> nat" where
  "rune_width s =
     (case s of
        c # c1 # c2 # c3 # _ \<Rightarrow>
          if in_range 0xC2 0xDF c \<and> in_range 0x80 0xBF c1 then 2
          else if (in_range 0xE0 0xE0 c \<and> in_range 0xA0 0xBF c1 \<or> in_range 0xE1 0xEC c \<and> in_range 0x80 0xBF c1 \<or>
                   in_range 0xED 0xED c \<and> in_range 0x80 0x9F c1 \<or> in_range 0xEE 0xEF c \<and> in_range 0x80 0xBF c1) \<and> in_range 0x80 0xBF c2 then 3
          else if (in_range 0xF0 0xF0 c \<and> in_range 0x90 0xBF c1 \<or> in_range 0xF1 0xF3 c \<and> in_range 0x80 0xBF c1 \<or>
                   in_range 0xF4 0xF4 c \<and> in_range 0x80 0x8F c1) \<and> in_range 0x80 0xBF c2 \<and> in_range 0x80 0xBF c3 then 4
          else 1
      | [c, c1, c2] \<Rightarrow>
          if in_range 0xC2 0xDF c \<and> in_range 0x80 0xBF c1 then 2
          else if (in_range 0xE0 0xE0 c \<and> in_range 0xA0 0xBF c1 \<or> in_range 0xE1 0xEC c \<and> in_range 0x80 0xBF c1 \<or>
                   in_range 0xED 0xED c \<and> in_range 0x80 0x9F c1 \<or> in_range 0xEE 0xEF c \<and> in_range 0x80 0xBF c1) \<and> in_range 0x80 0xBF c2 then 3
          else 1
      | [c, c1] \<Rightarrow> if in_range 0xC2 0xDF c \<and> in_range 0x80 0xBF c1 then 2 else 1
      | _ \<Rightarrow> 1)"

lemma rune_width_pos: "0 < rune_width s"
  by (auto simp: rune_width_def split: list.split)

function rune_count :: "string \<Rightarrow> nat" where
  "rune_count [] = 0"
| "rune_count (c # s) = 1 + rune_count (drop (rune_width (c # s)) (c # s))"
  by pat_completeness auto
termination
  by (relation "measure length") (simp_all add: diff_less rune_width_pos del: drop_Suc_Cons)

text \<open>Letters, and digits after the first character.\<close>

definition valid_env_char :: "bool \<Rightarrow> char \<Rightarrow> bool" where
  "valid_env_char later c \<longleftrightarrow>
     c \<in> {CHR ''-'', CHR ''.'', CHR ''_''} \<or> in_range 0x61 0x7A c \<or> in_range 0x41 0x5A c \<or> later \<and> in_range 0x30 0x39 c"

definition validEnvName :: "string \<Rightarrow> bool" where
  "validEnvName name =
     (case name of [] \<Rightarrow> False | c # cs \<Rightarrow> valid_env_char False c \<and> list_all (valid_env_char True) cs)"

definition is_str :: "json \<Rightarrow> bool" where
  "is_str v = (case v of JStr _ \<Rightarrow> True | _ \<Rightarrow> False)"

definition validate_strings :: "json option \<Rightarrow> dc_err + unit" where
  "validate_strings raw =
     (case raw of
        None \<Rightarrow> Inr ()
      | Some JNull \<Rightarrow> Inr ()
      | Some (JArr vs) \<Rightarrow> fail_if (\<not> list_all is_str vs) CommandNotStrings
      | Some _ \<Rightarrow> Inl CommandNotArray)"

text \<open>The strict decoding into a struct of three string pointers, all of which must be set.\<close>

definition validate_credentials :: "json option \<Rightarrow> dc_err + unit" where
  "validate_credentials raw =
     (case raw of
        None \<Rightarrow> Inr ()
      | Some JNull \<Rightarrow> Inr ()
      | Some (JObj m) \<Rightarrow>
          fail_if (\<not> (fst ` set m \<subseteq> {''host'', ''username'', ''password''}) \<or>
            \<not> list_all (\<lambda>k. is_str (oget m k)) [''host'', ''username'', ''password'']) BadCredentials
      | Some _ \<Rightarrow> Inl BadCredentials)"

definition next_case :: "string list \<Rightarrow> string \<Rightarrow> dc_err + unit" where
  "next_case cases val =
     (if val \<in> set [''error'', ''timeout'', ''500'', ''502'', ''503'', ''504'', ''403'', ''404'', ''429''] then Inr ()
      else if val = ''off'' then fail_if (length cases \<noteq> 1) OffNotAlone
      else Inl BadNextCase)"

definition set_to :: "u32 option \<Rightarrow> (nat \<Rightarrow> bool) \<Rightarrow> bool" where
  "set_to v P = (case v of None \<Rightarrow> False | Some n \<Rightarrow> P (unat n))"

definition validate_options :: "HTTPOptionsPatch \<Rightarrow> dc_err + unit" where
  "validate_options options =
     rbind (fail_if (set_to (hoMaxBodySize options) (\<lambda>n. n = 0 \<or> 104857600 < n)) BadBodySize) (\<lambda>_.
     rbind (fail_if (set_to (hoReadTimeout options) (\<lambda>n. n = 0) \<or> set_to (hoSendTimeout options) (\<lambda>n. n = 0)) BadTimeouts) (\<lambda>_.
     case hoNextCases options of
       None \<Rightarrow> Inr ()
     | Some cases \<Rightarrow>
         rbind (fail_if (length cases = 0) NoNextCases) (\<lambda>_. foldM (\<lambda>_ val. next_case cases val) () cases)))"

definition validate_expose :: "ExposePatch \<Rightarrow> dc_err + unit" where
  "validate_expose expose =
     rbind (foldM (\<lambda>_ port. fail_if (set_to port (\<lambda>n. n = 0 \<or> 65535 < n)) BadPort) () [epPort expose, epAs expose]) (\<lambda>_.
     case epHTTPOptions expose of None \<Rightarrow> Inr () | Some options \<Rightarrow> validate_options options)"

definition validate_service :: "ServicePatch \<Rightarrow> dc_err + unit" where
  "validate_service service =
     rbind (foldM (\<lambda>_ raw. validate_strings raw) () [spCommand service, spArgs service]) (\<lambda>_.
     rbind (validate_credentials (spCredentials service)) (\<lambda>_.
     rbind (foldM (\<lambda>_ kv. fail_if (\<not> validEnvName (fst kv)) BadEnvName) () (spEnv service)) (\<lambda>_.
     foldM (\<lambda>_ kv. validate_expose (snd kv)) () (spExpose service))))"

definition Validate :: "Patch \<Rightarrow> dc_err + unit" where
  "Validate patch =
     rbind (fail_if (case paName patch of None \<Rightarrow> False
        | Some name \<Rightarrow> trim_space name = [] \<or> 256 < rune_count (trim_space name)) BadName) (\<lambda>_.
     rbind (fail_if (64 < length (paIfManifestVersion patch)) VersionTooLong) (\<lambda>_.
     foldM (\<lambda>_ kv. validate_service (snd kv)) () (paServices patch)))"

section \<open>YAML syntax trees\<close>

datatype ykind = ScalarNode | SequenceNode | MappingNode | AliasNode

datatype ynode = Node (nKind: ykind) (nId: nat) (nTag: string) (nValue: string) (nContent: "ynode list") (nAlias: nat)

fun tree_nodes :: "ynode \<Rightarrow> ynode list" where
  "tree_nodes (Node k i t v c a) = Node k i t v c a # concat (map tree_nodes c)"

text \<open>The target of an alias; the parser resolves every alias it accepts.\<close>

definition node_at :: "ynode \<Rightarrow> nat \<Rightarrow> ynode option" where
  "node_at doc i = List.find (\<lambda>n. nId n = i) (tree_nodes doc)"

text \<open>The keys and values of a mapping, at even and odd positions of its content.\<close>

fun node_pairs :: "ynode list \<Rightarrow> (ynode \<times> ynode) list" where
  "node_pairs (k # v # rest) = (k, v) # node_pairs rest"
| "node_pairs _ = []"

text \<open>What a scalar decodes to: its tag is one of null, bool, int, float and str.\<close>

datatype yscalar = SNull | SBool bool | SNum float64 | SStr string

fun of_scalar :: "yscalar \<Rightarrow> json" where
  "of_scalar SNull = JNull"
| "of_scalar (SBool b) = JBool b"
| "of_scalar (SNum f) = JNum f"
| "of_scalar (SStr s) = JStr s"

text \<open>
  \<open>yDecode\<close>: the root of the first document and whether something follows it; \<open>yScalar\<close>: the
  value of a scalar with this tag and text, passed through JSON.
\<close>

record yaml =
  yDecode :: "string \<Rightarrow> (ynode \<times> bool) option"
  yScalar :: "string \<Rightarrow> string \<Rightarrow> yscalar option"
  yMarshal :: "json \<Rightarrow> string"
  yFormatFloat :: "float64 \<Rightarrow> string"

definition add_defaults :: "obj \<Rightarrow> obj \<Rightarrow> obj" where
  "add_defaults result defaults =
     foldl (\<lambda>result (key, v). if map_of result key = None then oput key v result else result) result defaults"

definition merge_one :: "obj \<Rightarrow> json \<Rightarrow> dc_err + obj" where
  "merge_one result raw = (case raw of JObj defaults \<Rightarrow> Inr (add_defaults result defaults) | _ \<Rightarrow> Inl MergeNotObject)"

definition merge_list :: "json \<Rightarrow> json list" where
  "merge_list v = (case v of JArr vs \<Rightarrow> vs | _ \<Rightarrow> [v])"

text \<open>
  \<open>nodeValue\<close> at depth \<open>65 - left\<close>.  The three loops take what they do with a node as \<open>eval\<close>, the
  recursive call.
\<close>

type_synonym eval = "ynode \<Rightarrow> nat \<Rightarrow> dc_err + json \<times> nat"

definition merge_key :: "eval \<Rightarrow> obj \<times> nat \<Rightarrow> ynode \<times> ynode \<Rightarrow> dc_err + obj \<times> nat" where
  "merge_key eval = (\<lambda>(result, count) (key, val).
     if nTag key \<noteq> ''!!merge'' then Inr (result, count)
     else rbind (eval val count) (\<lambda>(v, count).
          rbind (foldM merge_one result (merge_list v)) (\<lambda>result. Inr (result, count))))"

definition key_name :: "yaml \<Rightarrow> eval \<Rightarrow> ynode \<Rightarrow> nat \<Rightarrow> dc_err + string \<times> nat" where
  "key_name Y eval key count =
     (if nTag key = ''!!int'' then
        rbind (eval key count) (\<lambda>(number, count). case number of JNum f \<Rightarrow> Inr (yFormatFloat Y f, count) | _ \<Rightarrow> Inl DcPanic)
      else Inr (nValue key, count))"

definition put_key :: "yaml \<Rightarrow> eval \<Rightarrow> obj \<times> string set \<times> nat \<Rightarrow> ynode \<times> ynode \<Rightarrow> dc_err + obj \<times> string set \<times> nat" where
  "put_key Y eval = (\<lambda>(result, seen, count) (key, val).
     if nKind key \<noteq> ScalarNode \<or> nTag key \<notin> {''!!str'', ''!!merge'', ''!!int''} then Inl BadKey
     else rbind (key_name Y eval key count) (\<lambda>(keyName, count).
       if keyName \<in> seen then Inl DuplicateKey
       else let seen = insert keyName seen in
         if nTag key = ''!!merge'' then Inr (result, seen, count)
         else rbind (eval val count) (\<lambda>(v, count). Inr (oput keyName v result, seen, count))))"

definition mapping_value :: "yaml \<Rightarrow> eval \<Rightarrow> ynode list \<Rightarrow> nat \<Rightarrow> dc_err + json \<times> nat" where
  "mapping_value Y eval content count =
     rbind (foldM (merge_key eval) ([], count) (node_pairs content)) (\<lambda>(result, count).
     rbind (foldM (put_key Y eval) (result, {}, count) (node_pairs content)) (\<lambda>(result, _, count).
     Inr (JObj result, count)))"

definition sequence_value :: "eval \<Rightarrow> ynode list \<Rightarrow> nat \<Rightarrow> dc_err + json \<times> nat" where
  "sequence_value eval content count =
     rbind (foldM (\<lambda>(values, count) child. rbind (eval child count) (\<lambda>(v, count). Inr (values @ [v], count))) ([], count) content)
       (\<lambda>(values, count). Inr (JArr values, count))"

definition scalar_value :: "yaml \<Rightarrow> ynode \<Rightarrow> nat \<Rightarrow> dc_err + json \<times> nat" where
  "scalar_value Y node count =
     (if nTag node \<notin> {''!!str'', ''!!null'', ''!!int'', ''!!float'', ''!!bool''} then Inl BadScalarType
      else rbind (of_opt InvalidScalar (yScalar Y (nTag node) (nValue node))) (\<lambda>v. Inr (of_scalar v, count)))"

fun nodeValue :: "yaml \<Rightarrow> ynode \<Rightarrow> nat \<Rightarrow> ynode \<Rightarrow> nat \<Rightarrow> dc_err + json \<times> nat" where
  "nodeValue Y doc 0 node count = (if 100000 < count + 1 then Inl TooManyNodes else Inl TooDeep)"
| "nodeValue Y doc (Suc left) node count =
     (let count = count + 1 in
      if 100000 < count then Inl TooManyNodes
      else case nKind node of
        AliasNode \<Rightarrow> (case node_at doc (nAlias node) of None \<Rightarrow> Inl DcPanic | Some target \<Rightarrow> nodeValue Y doc left target count)
      | MappingNode \<Rightarrow> mapping_value Y (nodeValue Y doc left) (nContent node) count
      | SequenceNode \<Rightarrow> sequence_value (nodeValue Y doc left) (nContent node) count
      | ScalarNode \<Rightarrow> scalar_value Y node count)"

definition parseObject :: "yaml \<Rightarrow> string \<Rightarrow> dc_err + obj" where
  "parseObject Y data =
     rbind (fail_if (maxDocumentBytes < length data) DocumentTooLarge) (\<lambda>_.
     rbind (of_opt NotYAML (yDecode Y data)) (\<lambda>(node, more).
     rbind (fail_if more ManyDocuments) (\<lambda>_.
     rbind (nodeValue Y node 65 node 0) (\<lambda>(v, _).
     of_opt NotObject (as_obj v)))))"

section \<open>Reading a patch\<close>

definition check_field :: "string list \<Rightarrow> string list \<Rightarrow> string \<times> json \<Rightarrow> dc_err + unit" where
  "check_field names nullable = (\<lambda>(key, v).
     rbind (fail_if (key \<notin> set names) UnknownField) (\<lambda>_.
     rbind (fail_if (v = JNull \<and> key \<notin> set nullable) NullField) (\<lambda>_.
     case v of JArr values \<Rightarrow> fail_if (\<not> list_all is_str values) ArrayNotStrings | _ \<Rightarrow> Inr ())))"

definition checkFields :: "obj \<Rightarrow> string list \<Rightarrow> string list \<Rightarrow> dc_err + unit" where
  "checkFields object names nullable = foldM (\<lambda>_ kv. check_field names nullable kv) () object"

definition shape_expose :: "json \<Rightarrow> dc_err + unit" where
  "shape_expose raw =
     rbind (of_opt ExposeNotObject (as_obj raw)) (\<lambda>expose.
     rbind (checkFields expose [''port'', ''as'', ''accept'', ''httpOptions''] []) (\<lambda>_.
     case oget expose ''httpOptions'' of
       JObj options \<Rightarrow>
         checkFields options [''maxBodySize'', ''readTimeout'', ''sendTimeout'', ''nextTries'', ''nextTimeout'', ''nextCases''] []
     | _ \<Rightarrow> Inr ()))"

definition shape_storage :: "json \<Rightarrow> dc_err + unit" where
  "shape_storage raw =
     rbind (of_opt StorageNotObject (as_obj raw)) (\<lambda>volume. checkFields volume [''mount'', ''readOnly''] [])"

definition shape_service :: "json \<Rightarrow> dc_err + unit" where
  "shape_service raw =
     rbind (of_opt ServiceNotObject (as_obj raw)) (\<lambda>service.
     rbind (checkFields service [''image'', ''command'', ''args'', ''env'', ''credentials'', ''expose'', ''storage'']
              [''command'', ''args'', ''credentials'']) (\<lambda>_.
     rbind (case oget service ''credentials'' of
              JObj credentials \<Rightarrow> checkFields credentials [''host'', ''username'', ''password''] []
            | _ \<Rightarrow> Inr ()) (\<lambda>_.
     rbind (foldM (\<lambda>_ kv. shape_expose (snd kv)) () (obj_or_nil (oget service ''expose''))) (\<lambda>_.
     foldM (\<lambda>_ kv. shape_storage (snd kv)) () (obj_or_nil (oget service ''storage''))))))"

definition validatePatchShape :: "obj \<Rightarrow> dc_err + unit" where
  "validatePatchShape document =
     rbind (checkFields document [''services'', ''name'', ''ifManifestVersion''] []) (\<lambda>_.
     foldM (\<lambda>_ kv. shape_service (snd kv)) () (obj_or_nil (oget document ''services'')))"

text \<open>
  \<open>decodeStrict\<close> into the types of a patch: \<open>null\<close> leaves the zero value, an unknown field or a
  value of another type is an error.
\<close>

definition decode_str :: "json \<Rightarrow> string option option" where
  "decode_str v = (case v of JNull \<Rightarrow> Some None | JStr s \<Rightarrow> Some (Some s) | _ \<Rightarrow> None)"

definition decode_bool :: "json \<Rightarrow> bool option option" where
  "decode_bool v = (case v of JNull \<Rightarrow> Some None | JBool b \<Rightarrow> Some (Some b) | _ \<Rightarrow> None)"

definition decode_u32 :: "json \<Rightarrow> u32 option option" where
  "decode_u32 v =
     (case v of
        JNull \<Rightarrow> Some None
      | JNum (Fin q) \<Rightarrow> if q = of_int \<lfloor>q\<rfloor> \<and> 0 \<le> q \<and> q < 2 ^ 32 then Some (Some (of_int \<lfloor>q\<rfloor>)) else None
      | _ \<Rightarrow> None)"

definition decode_strs :: "json \<Rightarrow> string list option option" where
  "decode_strs v =
     (case v of
        JNull \<Rightarrow> Some None
      | JArr vs \<Rightarrow> if list_all (\<lambda>x. is_str x \<or> x = JNull) vs then Some (Some (map str_or_empty vs)) else None
      | _ \<Rightarrow> None)"

fun decode_entries :: "(json \<Rightarrow> 'a option) \<Rightarrow> obj \<Rightarrow> (string \<times> 'a) list option" where
  "decode_entries dec [] = Some []"
| "decode_entries dec ((k, v) # m) =
     (case dec v of None \<Rightarrow> None | Some x \<Rightarrow> map_option ((#) (k, x)) (decode_entries dec m))"

definition decode_map :: "(json \<Rightarrow> 'a option) \<Rightarrow> json \<Rightarrow> (string \<times> 'a) list option" where
  "decode_map dec v = (case v of JNull \<Rightarrow> Some [] | JObj m \<Rightarrow> decode_entries dec m | _ \<Rightarrow> None)"

text \<open>The members of an object whose names are among the fields of the struct.\<close>

definition decode_struct :: "string list \<Rightarrow> json \<Rightarrow> obj option" where
  "decode_struct names v =
     (case v of JNull \<Rightarrow> Some [] | JObj m \<Rightarrow> if fst ` set m \<subseteq> set names then Some m else None | _ \<Rightarrow> None)"

definition decode_options :: "json \<Rightarrow> HTTPOptionsPatch option option" where
  "decode_options v =
     (if v = JNull then Some None
      else Option.bind (decode_struct [''maxBodySize'', ''readTimeout'', ''sendTimeout'', ''nextTries'', ''nextTimeout'', ''nextCases''] v) (\<lambda>m.
        Option.bind (decode_u32 (oget m ''maxBodySize'')) (\<lambda>a. Option.bind (decode_u32 (oget m ''readTimeout'')) (\<lambda>b.
        Option.bind (decode_u32 (oget m ''sendTimeout'')) (\<lambda>c. Option.bind (decode_u32 (oget m ''nextTries'')) (\<lambda>d.
        Option.bind (decode_u32 (oget m ''nextTimeout'')) (\<lambda>e. Option.bind (decode_strs (oget m ''nextCases'')) (\<lambda>f.
        Some (Some \<lparr>hoMaxBodySize = a, hoReadTimeout = b, hoSendTimeout = c, hoNextTries = d, hoNextTimeout = e, hoNextCases = f\<rparr>)))))))))"

definition decode_expose :: "json \<Rightarrow> ExposePatch option" where
  "decode_expose v =
     Option.bind (decode_struct [''port'', ''as'', ''accept'', ''httpOptions''] v) (\<lambda>m.
     Option.bind (decode_u32 (oget m ''port'')) (\<lambda>a. Option.bind (decode_u32 (oget m ''as'')) (\<lambda>b.
     Option.bind (decode_strs (oget m ''accept'')) (\<lambda>c. Option.bind (decode_options (oget m ''httpOptions'')) (\<lambda>d.
     Some \<lparr>epPort = a, epAs = b, epAccept = c, epHTTPOptions = d\<rparr>)))))"

definition decode_storage :: "json \<Rightarrow> StoragePatch option" where
  "decode_storage v =
     Option.bind (decode_struct [''mount'', ''readOnly''] v) (\<lambda>m.
     Option.bind (decode_str (oget m ''mount'')) (\<lambda>a. Option.bind (decode_bool (oget m ''readOnly'')) (\<lambda>b.
     Some \<lparr>stMount = a, stReadOnly = b\<rparr>)))"

definition decode_service :: "json \<Rightarrow> ServicePatch option" where
  "decode_service v =
     Option.bind (decode_struct [''image'', ''command'', ''args'', ''env'', ''credentials'', ''expose'', ''storage''] v) (\<lambda>m.
     Option.bind (decode_str (oget m ''image'')) (\<lambda>image. Option.bind (decode_map decode_str (oget m ''env'')) (\<lambda>env.
     Option.bind (decode_map decode_expose (oget m ''expose'')) (\<lambda>expose.
     Option.bind (decode_map decode_storage (oget m ''storage'')) (\<lambda>storage.
     Some \<lparr>spImage = image, spCommand = map_of m ''command'', spArgs = map_of m ''args'', spEnv = env,
       spCredentials = map_of m ''credentials'', spExpose = expose, spStorage = storage\<rparr>)))))"

definition decode_patch :: "obj \<Rightarrow> Patch option" where
  "decode_patch document =
     Option.bind (decode_struct [''services'', ''name'', ''ifManifestVersion''] (JObj document)) (\<lambda>m.
     Option.bind (decode_map decode_service (oget m ''services'')) (\<lambda>services.
     Option.bind (decode_str (oget m ''name'')) (\<lambda>name. Option.bind (decode_str (oget m ''ifManifestVersion'')) (\<lambda>v.
     Some \<lparr>paServices = services, paName = name, paIfManifestVersion = (case v of None \<Rightarrow> [] | Some s \<Rightarrow> s)\<rparr>))))"

definition ParsePatch :: "yaml \<Rightarrow> string \<Rightarrow> dc_err + Patch" where
  "ParsePatch Y data =
     rbind (map_err InvalidPatch (parseObject Y data)) (\<lambda>document.
     rbind (validatePatchShape document) (\<lambda>_.
     rbind (of_opt PatchDecode (decode_patch document)) (\<lambda>patch.
     rbind (Validate patch) (\<lambda>_. Inr patch))))"

section \<open>References\<close>

fun hasReference :: "json \<Rightarrow> bool" where
  "hasReference (JStr s) \<longleftrightarrow> contains s ''ac-secret://''"
| "hasReference (JArr vs) \<longleftrightarrow> list_ex hasReference vs"
| "hasReference (JObj m) \<longleftrightarrow> list_ex (\<lambda>kv. hasReference (snd kv)) m"
| "hasReference _ \<longleftrightarrow> False"

definition HasReferences :: "yaml \<Rightarrow> string \<Rightarrow> dc_err + bool" where
  "HasReferences Y sdl = rbind (parseObject Y sdl) (\<lambda>document. Inr (hasReference (JObj document)))"

end
