(* ===== verification/Deployment_Apply.thy ===== *)
theory Deployment_Apply
  imports Deployment_Patch
begin

text \<open>
  Applying a patch to a deployment manifest, and deriving a patch from two manifests
  (\<open>src/internal/deploymentconfig/apply.go\<close>, \<open>diff.go\<close>).  The parsed document is a tree that
  nothing else refers to, so the code's updates in place are updates of the tree.
\<close>

section \<open>Fields of a service\<close>

definition clear_field :: "string \<times> json option \<Rightarrow> obj \<Rightarrow> obj" where
  "clear_field = (\<lambda>(name, raw) service.
     case raw of
       None \<Rightarrow> service
     | Some JNull \<Rightarrow> odel name service
     | Some v \<Rightarrow>
         if name = ''credentials'' then
           oput name (JObj (foldl (\<lambda>credentials (key, v). oput key v credentials)
             (obj_or_nil (oget service ''credentials'')) (obj_or_nil v))) service
         else oput name v service)"

definition env_key :: "string \<Rightarrow> string" where
  "env_key s = (case cut_at (CHR ''='') s of None \<Rightarrow> s | Some (key, _) \<Rightarrow> key)"

definition applyEnv :: "obj \<Rightarrow> (string \<times> string option) list \<Rightarrow> obj" where
  "applyEnv service patch =
     (let kept = filter (\<lambda>entry. case entry of JStr s \<Rightarrow> map_of patch (env_key s) = None | _ \<Rightarrow> True) (arr_or_nil (oget service ''env''));
          values = kept @ List.map_filter (\<lambda>key. case map_of patch key of Some (Some v) \<Rightarrow> Some (JStr (key @ ''='' @ v)) | _ \<Rightarrow> None)
            (sort (map fst patch))
      in if length values = 0 then odel ''env'' service else oput ''env'' (JArr values) service)"

definition httpOptionValues :: "HTTPOptionsPatch \<Rightarrow> obj" where
  "httpOptionValues options =
     foldl (\<lambda>fields (name, v). case v of None \<Rightarrow> fields | Some x \<Rightarrow> oput name x fields) []
       [(''max_body_size'', map_option (\<lambda>n. JNum (Fin (of_nat (unat n)))) (hoMaxBodySize options)),
        (''read_timeout'', map_option (\<lambda>n. JNum (Fin (of_nat (unat n)))) (hoReadTimeout options)),
        (''send_timeout'', map_option (\<lambda>n. JNum (Fin (of_nat (unat n)))) (hoSendTimeout options)),
        (''next_tries'', map_option (\<lambda>n. JNum (Fin (of_nat (unat n)))) (hoNextTries options)),
        (''next_timeout'', map_option (\<lambda>n. JNum (Fin (of_nat (unat n)))) (hoNextTimeout options)),
        (''next_cases'', map_option (\<lambda>cs. JArr (map JStr cs)) (hoNextCases options))]"

section \<open>Endpoints\<close>

definition externalPort :: "obj \<Rightarrow> float64" where
  "externalPort entry =
     (let port = (case oget entry ''port'' of JNum p \<Rightarrow> p | _ \<Rightarrow> Fin 0)
      in case oget entry ''as'' of JNum a \<Rightarrow> if a \<noteq> Fin 0 then a else port | _ \<Rightarrow> port)"

definition is_global :: "json \<Rightarrow> bool" where
  "is_global target \<longleftrightarrow> oget (obj_or_nil target) ''global'' = JBool True"

definition endpointKind :: "obj \<Rightarrow> string" where
  "endpointKind entry =
     (if list_ex is_global (arr_or_nil (oget entry ''to'')) then
        (let protocol = str_or_empty (oget entry ''proto'')
         in if (protocol = [] \<or> to_lower protocol = ''tcp'') \<and> externalPort entry = Fin 80 then ''http'' else ''random'')
      else ''internal'')"

definition hasLeasedIP :: "obj \<Rightarrow> bool" where
  "hasLeasedIP entry \<longleftrightarrow> list_ex (\<lambda>target. str_or_empty (oget (obj_or_nil target) ''ip'') \<noteq> []) (arr_or_nil (oget entry ''to''))"

text \<open>The indices of the entries at a port.\<close>

definition port_matches :: "yaml \<Rightarrow> string \<Rightarrow> obj \<Rightarrow> bool" where
  "port_matches Y port entry = (case oget entry ''port'' of JNum n \<Rightarrow> yFormatFloat Y n = port | _ \<Rightarrow> False)"

definition matching :: "yaml \<Rightarrow> obj list \<Rightarrow> string \<Rightarrow> nat list" where
  "matching Y before port = filter (\<lambda>i. port_matches Y port (before ! i)) [0..<length before]"

definition set_port :: "string \<Rightarrow> u32 option \<Rightarrow> obj \<Rightarrow> obj" where
  "set_port name v entry = (case v of None \<Rightarrow> entry | Some n \<Rightarrow> oput name (JNum (Fin (of_nat (unat n)))) entry)"

definition move_ports :: "ExposePatch \<Rightarrow> obj \<Rightarrow> obj" where
  "move_ports p entry = set_port ''as'' (epAs p) (set_port ''port'' (epPort p) entry)"

text \<open>One round of the loop over the patch: \<open>after\<close>, and the entries changed so far.\<close>

definition move_endpoint ::
  "yaml \<Rightarrow> obj list \<Rightarrow> obj list \<times> (nat \<times> ExposePatch) list \<Rightarrow> string \<times> ExposePatch \<Rightarrow> dc_err + obj list \<times> (nat \<times> ExposePatch) list" where
  "move_endpoint Y before = (\<lambda>(after, changed) (port, p).
     case matching Y before port of
       [] \<Rightarrow> Inl UnknownPort
     | [i] \<Rightarrow>
         (let old = before ! i; new = move_ports p (after ! i) in
          if endpointKind old \<noteq> endpointKind new then Inl KindChanged
          else if hasLeasedIP old \<and> (oget old ''port'' \<noteq> oget new ''port'' \<or> externalPort old \<noteq> externalPort new) then Inl LeasedIPMoved
          else Inr (after[i := new], changed @ [(i, p)]))
     | _ \<Rightarrow> Inl AmbiguousPort)"

definition check_collision :: "obj list \<Rightarrow> obj list \<Rightarrow> nat \<times> ExposePatch \<Rightarrow> nat \<Rightarrow> dc_err + unit" where
  "check_collision before after = (\<lambda>(i, p) j.
     if i = j then Inr ()
     else rbind (fail_if (epPort p \<noteq> None \<and> oget (after ! i) ''port'' = oget (after ! j) ''port'') ContainerPortCollision) (\<lambda>_.
       fail_if (externalPort (before ! i) \<noteq> externalPort (after ! i) \<and> externalPort (after ! i) = externalPort (after ! j))
         ExternalPortCollision))"

definition set_options :: "ExposePatch \<Rightarrow> obj \<Rightarrow> obj" where
  "set_options p entry =
     (let entry = (case epAccept p of None \<Rightarrow> entry | Some accept \<Rightarrow> oput ''accept'' (JArr (map JStr accept)) entry)
      in case epHTTPOptions p of
           None \<Rightarrow> entry
         | Some o' \<Rightarrow>
             (let fields = httpOptionValues o' in
              if 0 < length fields then
                oput ''http_options'' (JObj (foldl (\<lambda>options (name, v). oput name v options)
                  (obj_or_nil (oget entry ''http_options'')) fields)) entry
              else entry))"

definition applyExpose :: "yaml \<Rightarrow> obj \<Rightarrow> (string \<times> ExposePatch) list \<Rightarrow> dc_err + obj" where
  "applyExpose Y service patch =
     (if length patch = 0 then Inr service
      else (let exposed = arr_or_nil (oget service ''expose'') in
        if \<not> list_all (\<lambda>x. as_obj x \<noteq> None) exposed then Inl ExposeEntryNotObject
        else (let before = map obj_or_nil exposed in
          rbind (foldM (move_endpoint Y before) (before, []) patch) (\<lambda>(after, changed).
          rbind (foldM (\<lambda>_ c. foldM (\<lambda>_ j. check_collision before after c j) () [0..<length after]) () changed) (\<lambda>_.
          Inr (oput ''expose'' (JArr (foldl (\<lambda>exposed (i, p). exposed[i := JObj (set_options p (after ! i))]) exposed changed)) service))))))"

section \<open>Storage\<close>

definition set_volume :: "StoragePatch \<Rightarrow> obj \<Rightarrow> obj" where
  "set_volume change volume =
     (let volume = (case stMount change of None \<Rightarrow> volume | Some s \<Rightarrow> oput ''mount'' (JStr s) volume)
      in case stReadOnly change of None \<Rightarrow> volume | Some b \<Rightarrow> oput ''readOnly'' (JBool b) volume)"

definition change_volume :: "obj \<Rightarrow> string \<times> StoragePatch \<Rightarrow> dc_err + obj" where
  "change_volume storage = (\<lambda>(name, change).
     rbind (of_opt UnknownVolume (as_obj (oget storage name))) (\<lambda>volume.
     Inr (oput name (JObj (set_volume change volume)) storage)))"

definition applyStorage :: "obj \<Rightarrow> (string \<times> StoragePatch) list \<Rightarrow> dc_err + obj" where
  "applyStorage service patch =
     (if patch = [] then Inr service
      else (let params = obj_or_nil (oget service ''params''); storage = obj_or_nil (oget params ''storage'') in
        rbind (foldM change_volume storage patch) (\<lambda>storage.
        Inr (oput ''params'' (JObj (oput ''storage'' (JObj storage) params)) service))))"

section \<open>Shared nodes\<close>

text \<open>The value of a key in a mapping node.\<close>

definition mappingNode :: "ynode \<Rightarrow> string \<Rightarrow> ynode option" where
  "mappingNode node key =
     (if nKind node \<noteq> MappingNode then None
      else map_option snd (List.find (\<lambda>(k, v). nValue k = key) (node_pairs (nContent node))))"

text \<open>The nodes below a node, with the node; marking stops at a node that was marked before, below which all is marked.\<close>

fun markShared :: "ynode \<Rightarrow> nat set \<Rightarrow> nat set" where
  "markShared (Node k i t v c a) referenced =
     (if i \<in> referenced then referenced else foldl (\<lambda>referenced child. markShared child referenced) (insert i referenced) c)"

fun scan_aliases :: "ynode \<Rightarrow> ynode \<Rightarrow> nat set \<Rightarrow> nat set" where
  "scan_aliases doc (Node k i t v c a) referenced =
     (let referenced = (if k = AliasNode then (case node_at doc a of None \<Rightarrow> referenced | Some n \<Rightarrow> markShared n referenced) else referenced)
      in foldl (\<lambda>referenced child. scan_aliases doc child referenced) referenced c)"

definition shared :: "nat set \<Rightarrow> ynode option \<Rightarrow> bool" where
  "shared referenced node = (case node of None \<Rightarrow> False | Some n \<Rightarrow> nKind n = AliasNode \<or> nId n \<in> referenced)"

definition sets_options :: "HTTPOptionsPatch option \<Rightarrow> bool" where
  "sets_options options = (case options of None \<Rightarrow> False | Some o' \<Rightarrow> 0 < length (httpOptionValues o'))"

definition serviceAssigns :: "ServicePatch \<Rightarrow> bool" where
  "serviceAssigns patch \<longleftrightarrow>
     spImage patch \<noteq> None \<or> spCommand patch \<noteq> None \<or> spArgs patch \<noteq> None \<or> spCredentials patch \<noteq> None \<or> 0 < length (spEnv patch) \<or>
     list_ex (\<lambda>(_, e). epPort e \<noteq> None \<or> epAs e \<noteq> None \<or> epAccept e \<noteq> None \<or> sets_options (epHTTPOptions e)) (spExpose patch) \<or>
     list_ex (\<lambda>(_, s). stMount s \<noteq> None \<or> stReadOnly s \<noteq> None) (spStorage patch)"

text \<open>An alias stands for its target where the code asks for it.\<close>

definition deref :: "ynode \<Rightarrow> ynode \<Rightarrow> ynode" where
  "deref doc n = (if nKind n = AliasNode then (case node_at doc (nAlias n) of None \<Rightarrow> n | Some t \<Rightarrow> t) else n)"

definition shared_endpoint :: "ynode \<Rightarrow> nat set \<Rightarrow> ServicePatch \<Rightarrow> ynode \<Rightarrow> bool" where
  "shared_endpoint doc referenced change entry =
     (case map_option (deref doc) (mappingNode (deref doc entry) ''port'') of
        None \<Rightarrow> False
      | Some port \<Rightarrow>
          (case map_of (spExpose change) (nValue port) of
             None \<Rightarrow> False
           | Some p \<Rightarrow> shared referenced (Some entry) \<or>
               sets_options (epHTTPOptions p) \<and> shared referenced (mappingNode entry ''http_options'')))"

definition reject_service :: "ynode \<Rightarrow> nat set \<Rightarrow> ynode \<Rightarrow> string \<times> ServicePatch \<Rightarrow> dc_err + unit" where
  "reject_service doc referenced services = (\<lambda>(name, change).
     if \<not> serviceAssigns change then Inr ()
     else case mappingNode services name of
       None \<Rightarrow> Inr ()
     | Some service \<Rightarrow>
         rbind (fail_if (shared referenced (Some service) \<or> mappingNode service ''<<'' \<noteq> None) SharedService) (\<lambda>_.
         rbind (fail_if (0 < length (spEnv change) \<and> shared referenced (mappingNode service ''env'') \<or>
            spCredentials change \<noteq> None \<and> shared referenced (mappingNode service ''credentials'')) SharedEnv) (\<lambda>_.
         rbind (case mappingNode service ''expose'' of
              None \<Rightarrow> Inr ()
            | Some exposed \<Rightarrow>
                if length (spExpose change) = 0 then Inr ()
                else rbind (fail_if (shared referenced (Some exposed)) SharedEndpoints) (\<lambda>_.
                  fail_if (list_ex (shared_endpoint doc referenced change) (nContent exposed)) SharedEndpoint)) (\<lambda>_.
         case mappingNode service ''params'' of
           None \<Rightarrow> Inr ()
         | Some params \<Rightarrow>
             if length (spStorage change) = 0 then Inr ()
             else (let storage = mappingNode params ''storage'' in
               rbind (fail_if (shared referenced (Some params) \<or> shared referenced storage) SharedStorage) (\<lambda>_.
               case storage of
                 None \<Rightarrow> Inr ()
               | Some st \<Rightarrow>
                   fail_if (list_ex (\<lambda>(volume, s). (stMount s \<noteq> None \<or> stReadOnly s \<noteq> None) \<and> shared referenced (mappingNode st volume))
                     (spStorage change)) SharedVolume))))))"

definition rejectSharedServices :: "yaml \<Rightarrow> string \<Rightarrow> Patch \<Rightarrow> dc_err + unit" where
  "rejectSharedServices Y data patch =
     (case yDecode Y data of
        None \<Rightarrow> Inl DcPanic
      | Some (doc, _) \<Rightarrow>
          (let referenced = scan_aliases doc doc {}; services = mappingNode doc ''services'' in
           rbind (fail_if (list_ex (\<lambda>(_, change). serviceAssigns change) (paServices patch) \<and>
             (case services of None \<Rightarrow> mappingNode doc ''<<'' \<noteq> None | Some s \<Rightarrow> shared referenced (Some s))) SharedServices) (\<lambda>_.
           case services of
             None \<Rightarrow> Inr ()
           | Some s \<Rightarrow> foldM (\<lambda>_ kv. reject_service doc referenced s kv) () (paServices patch))))"

section \<open>Applying a patch\<close>

definition assign_fields :: "ServicePatch \<Rightarrow> obj \<Rightarrow> obj" where
  "assign_fields change service =
     (let service = (case spImage change of None \<Rightarrow> service | Some img \<Rightarrow> oput ''image'' (JStr img) service)
      in foldl (\<lambda>service field. clear_field field service) service
           [(''command'', spCommand change), (''args'', spArgs change), (''credentials'', spCredentials change)])"

definition apply_service :: "yaml \<Rightarrow> ServicePatch \<Rightarrow> obj \<Rightarrow> dc_err + obj" where
  "apply_service Y change service =
     (let service = assign_fields change service;
          service = (if 0 < length (spEnv change) then applyEnv service (spEnv change) else service)
      in rbind (applyExpose Y service (spExpose change)) (\<lambda>service. applyStorage service (spStorage change)))"

definition patch_service :: "yaml \<Rightarrow> obj \<Rightarrow> string \<times> ServicePatch \<Rightarrow> dc_err + obj" where
  "patch_service Y services = (\<lambda>(name, change).
     rbind (of_opt UnknownService (as_obj (oget services name))) (\<lambda>service.
     rbind (apply_service Y change service) (\<lambda>service.
     Inr (oput name (JObj service) services))))"

definition apply_document :: "yaml \<Rightarrow> Patch \<Rightarrow> obj \<Rightarrow> dc_err + obj" where
  "apply_document Y patch document =
     rbind (of_opt NoServices (as_obj (oget document ''services''))) (\<lambda>services.
     rbind (foldM (patch_service Y) services (paServices patch)) (\<lambda>services.
     Inr (oput ''services'' (JObj services) document)))"

definition Apply :: "yaml \<Rightarrow> string \<Rightarrow> Patch \<Rightarrow> dc_err + string" where
  "Apply Y sdl patch =
     rbind (Validate patch) (\<lambda>_.
     rbind (map_err InvalidSDL (parseObject Y sdl)) (\<lambda>document.
     rbind (rejectSharedServices Y sdl patch) (\<lambda>_.
     rbind (apply_document Y patch document) (\<lambda>document.
     let encoded = yMarshal Y (JObj document)
     in if maxDocumentBytes < length encoded then Inl ResultTooLarge else Inr encoded))))"

section \<open>Deriving a patch\<close>

definition HasChanges :: "Patch \<Rightarrow> bool" where
  "HasChanges patch \<longleftrightarrow> paName patch \<noteq> None \<or> list_ex (\<lambda>(_, service). serviceAssigns service) (paServices patch)"

text \<open>The variables of an environment, with \<open>null\<close> for one without a value; a name that occurs twice is an error.\<close>

definition env_entry :: "(string \<times> json) list \<Rightarrow> json \<Rightarrow> dc_err + (string \<times> json) list" where
  "env_entry result v =
     (case v of
        JStr entry \<Rightarrow>
          (let (key, content) = (case cut_at (CHR ''='') entry of None \<Rightarrow> (entry, JNull) | Some (key, content) \<Rightarrow> (key, JStr content))
           in if map_of result key \<noteq> None then Inl DuplicateEnv else Inr (oput key content result))
      | _ \<Rightarrow> Inl Unrepresentable)"

definition envValues :: "json \<Rightarrow> dc_err + (string \<times> json) list" where
  "envValues raw =
     (case raw of JNull \<Rightarrow> Inr [] | JArr values \<Rightarrow> foldM env_entry [] values | _ \<Rightarrow> Inl Unrepresentable)"

definition diffEnv :: "json \<Rightarrow> json \<Rightarrow> dc_err + obj" where
  "diffEnv current requested =
     (if current = requested then Inr []
      else rbind (envValues current) (\<lambda>old.
           rbind (envValues requested) (\<lambda>desired.
           let patch = foldl (\<lambda>patch (name, _). if map_of desired name = None then oput name JNull patch else patch) [] old
           in foldM (\<lambda>patch (name, v).
                if map_of old name = Some v then Inr patch
                else if v = JNull then Inl Unrepresentable
                else Inr (oput name v patch)) patch desired)))"

definition option_names :: "(string \<times> string) list" where
  "option_names =
     [(''max_body_size'', ''maxBodySize''), (''read_timeout'', ''readTimeout''), (''send_timeout'', ''sendTimeout''),
      (''next_tries'', ''nextTries''), (''next_timeout'', ''nextTimeout''), (''next_cases'', ''nextCases'')]"

text \<open>The fields among \<open>names\<close> that differ, under their names in the patch.\<close>

definition changed_fields :: "(string \<times> string) list \<Rightarrow> obj \<Rightarrow> obj \<Rightarrow> obj" where
  "changed_fields names prior desired =
     foldl (\<lambda>fields (sdl, name). if oget prior sdl \<noteq> oget desired sdl then oput name (oget desired sdl) fields else fields) [] names"

definition same_names :: "string list \<Rightarrow> (string \<times> string) list" where
  "same_names ns = map (\<lambda>n. (n, n)) ns"

definition diff_endpoint :: "yaml \<Rightarrow> obj \<Rightarrow> json \<times> json \<Rightarrow> dc_err + obj" where
  "diff_endpoint Y patch = (\<lambda>(priorRaw, raw).
     rbind (of_opt Unrepresentable (as_obj raw)) (\<lambda>desired.
     rbind (of_opt Unrepresentable (as_obj priorRaw)) (\<lambda>prior.
     let fields = changed_fields (same_names [''port'', ''as'', ''accept'']) prior desired;
         options = changed_fields option_names (obj_or_nil (oget prior ''http_options'')) (obj_or_nil (oget desired ''http_options''));
         fields = (if 0 < length options then oput ''httpOptions'' (JObj options) fields else fields)
     in if length fields = 0 then Inr patch
        else case oget prior ''port'' of
          JNum port \<Rightarrow>
            (let key = yFormatFloat Y port
             in if map_of patch key \<noteq> None then Inl Unrepresentable else Inr (oput key (JObj fields) patch))
        | _ \<Rightarrow> Inl Unrepresentable)))"

definition diffExpose :: "yaml \<Rightarrow> json \<Rightarrow> json \<Rightarrow> dc_err + obj" where
  "diffExpose Y current requested =
     (if current = requested then Inr []
      else case (current, requested) of
        (JArr old, JArr desired) \<Rightarrow>
          if length old \<noteq> length desired then Inl Unrepresentable else foldM (diff_endpoint Y) [] (zip old desired)
      | _ \<Rightarrow> Inl Unrepresentable)"

definition diff_volume :: "obj \<Rightarrow> obj \<Rightarrow> string \<times> json \<Rightarrow> dc_err + obj" where
  "diff_volume oldStorage patch = (\<lambda>(name, raw).
     rbind (of_opt Unrepresentable (as_obj raw)) (\<lambda>desired.
     rbind (of_opt Unrepresentable (as_obj (oget oldStorage name))) (\<lambda>prior.
     let fields = changed_fields (same_names [''mount'', ''readOnly'']) prior desired
     in Inr (if 0 < length fields then oput name (JObj fields) patch else patch))))"

definition diffStorage :: "obj \<Rightarrow> obj \<Rightarrow> dc_err + obj" where
  "diffStorage current requested =
     (let oldStorage = obj_or_nil (oget (obj_or_nil (oget current ''params'')) ''storage'');
          newStorage = obj_or_nil (oget (obj_or_nil (oget requested ''params'')) ''storage'')
      in foldM (diff_volume oldStorage) [] newStorage)"

definition diff_field :: "obj \<Rightarrow> obj \<Rightarrow> obj \<Rightarrow> string \<Rightarrow> dc_err + obj" where
  "diff_field old desired acc field =
     (if oget old field = oget desired field then Inr acc
      else if field = ''image'' \<and> oget desired field = JNull then Inl Unrepresentable
      else if field = ''credentials'' \<and> oget desired field \<noteq> JNull then
        rbind (of_opt Unrepresentable (as_obj (oget desired field))) (\<lambda>credentials.
        Inr (oput field (JObj [(''host'', oget credentials ''host''), (''password'', oget credentials ''password''),
          (''username'', oget credentials ''username'')]) acc))
      else Inr (oput field (oget desired field) acc))"

definition put_nonempty :: "string \<Rightarrow> obj \<Rightarrow> obj \<Rightarrow> obj" where
  "put_nonempty name m acc = (if 0 < length m then oput name (JObj m) acc else acc)"

definition diff_service :: "yaml \<Rightarrow> obj \<Rightarrow> (string \<times> ServicePatch) list \<Rightarrow> string \<times> json \<Rightarrow> dc_err + (string \<times> ServicePatch) list" where
  "diff_service Y oldServices services = (\<lambda>(name, raw).
     rbind (of_opt Unrepresentable (as_obj raw)) (\<lambda>desired.
     rbind (of_opt Unrepresentable (as_obj (oget oldServices name))) (\<lambda>old.
     rbind (foldM (diff_field old desired) [] [''image'', ''command'', ''args'', ''credentials'']) (\<lambda>fields.
     rbind (diffEnv (oget old ''env'') (oget desired ''env'')) (\<lambda>env.
     rbind (diffExpose Y (oget old ''expose'') (oget desired ''expose'')) (\<lambda>expose.
     rbind (diffStorage old desired) (\<lambda>storage.
     let fields = put_nonempty ''storage'' storage (put_nonempty ''expose'' expose (put_nonempty ''env'' env fields))
     in if length fields = 0 then Inr services
        else rbind (of_opt Unrepresentable (decode_service (JObj fields))) (\<lambda>service. Inr (oput name service services)))))))))"

text \<open>
  \<open>sort.SliceStable\<close> as the insertion sort it is for up to twenty entries; on strings, which
  are totally ordered, every stable sort gives the same result.
\<close>

definition env_less :: "json \<Rightarrow> json \<Rightarrow> bool" where
  "env_less a b = (case (a, b) of (JStr s, JStr t) \<Rightarrow> s < t | _ \<Rightarrow> False)"

fun insert_back :: "('a \<Rightarrow> 'a \<Rightarrow> bool) \<Rightarrow> 'a \<Rightarrow> 'a list \<Rightarrow> 'a list" where
  "insert_back lt x [] = [x]"
| "insert_back lt x (y # ys) = (if lt x y then y # insert_back lt x ys else x # y # ys)"

definition slice_stable :: "('a \<Rightarrow> 'a \<Rightarrow> bool) \<Rightarrow> 'a list \<Rightarrow> 'a list" where
  "slice_stable lt xs = rev (foldl (\<lambda>acc x. insert_back lt x acc) [] xs)"

definition normalize_service :: "json \<Rightarrow> json" where
  "normalize_service raw =
     (case raw of
        JObj service \<Rightarrow>
          (let service = foldl (\<lambda>service field. if oget service field = JNull then odel field service else service) service
             [''command'', ''args'', ''credentials'', ''env'']
           in JObj (case oget service ''env'' of
                JArr env \<Rightarrow> if length env = 0 then odel ''env'' service else oput ''env'' (JArr (slice_stable env_less env)) service
              | _ \<Rightarrow> service))
      | _ \<Rightarrow> raw)"

definition normalizeSDL :: "obj \<Rightarrow> obj" where
  "normalizeSDL document =
     (case oget document ''services'' of
        JObj services \<Rightarrow> oput ''services'' (JObj (map (\<lambda>(name, raw). (name, normalize_service raw)) services)) document
      | _ \<Rightarrow> document)"

definition Diff :: "yaml \<Rightarrow> string \<Rightarrow> string \<Rightarrow> dc_err + Patch" where
  "Diff Y currentSDL requestedSDL =
     rbind (map_err (\<lambda>_. CannotParseCurrent) (parseObject Y currentSDL)) (\<lambda>current.
     rbind (map_err (\<lambda>_. CannotParseRequested) (parseObject Y requestedSDL)) (\<lambda>requested.
     case (oget current ''services'', oget requested ''services'') of
       (JObj oldServices, JObj newServices) \<Rightarrow>
         rbind (foldM (diff_service Y oldServices) [] newServices) (\<lambda>services.
         let patch = \<lparr>paServices = services, paName = None, paIfManifestVersion = []\<rparr> in
         rbind (Validate patch) (\<lambda>_.
         rbind (Apply Y currentSDL patch) (\<lambda>result.
         rbind (map_err (\<lambda>_. CannotVerify) (parseObject Y result)) (\<lambda>applied.
         if normalizeSDL applied \<noteq> normalizeSDL requested then Inl Unrepresentable else Inr patch))))
     | _ \<Rightarrow> Inl NoServices))"

end
