(* ===== verification/Deployment_Props.thy ===== *)
theory Deployment_Props
  imports Deployment_Apply
begin

text \<open>
  Properties of deployment configurations: the parser's bounds, what a patch changes and what
  it leaves alone, and the safety of endpoint edits.
\<close>

section \<open>The size of a parsed document\<close>

fun json_nodes :: "json \<Rightarrow> nat" where
  "json_nodes (JArr vs) = 1 + sum_list (map json_nodes vs)"
| "json_nodes (JObj m) = 1 + sum_list (map (\<lambda>kv. json_nodes (snd kv)) m)"
| "json_nodes _ = 1"

fun depth_le :: "nat \<Rightarrow> json \<Rightarrow> bool" where
  "depth_le 0 v \<longleftrightarrow> False"
| "depth_le (Suc n) (JArr vs) \<longleftrightarrow> list_all (depth_le n) vs"
| "depth_le (Suc n) (JObj m) \<longleftrightarrow> list_all (\<lambda>kv. depth_le n (snd kv)) m"
| "depth_le (Suc n) v \<longleftrightarrow> True"

text \<open>Every object in the value is sorted by key, without duplicates.\<close>

fun canonical :: "json \<Rightarrow> bool" where
  "canonical (JArr vs) \<longleftrightarrow> list_all canonical vs"
| "canonical (JObj m) \<longleftrightarrow> okeys m \<and> list_all (\<lambda>kv. canonical (snd kv)) m"
| "canonical v \<longleftrightarrow> True"

abbreviation obj_nodes :: "obj \<Rightarrow> nat" where
  "obj_nodes m \<equiv> sum_list (map (\<lambda>kv. json_nodes (snd kv)) m)"

text \<open>\<open>bounded n v\<close>: a canonical value nested at most \<open>n\<close> deep; \<open>fine n m\<close>: the same of the members of an object.\<close>

definition bounded :: "nat \<Rightarrow> json \<Rightarrow> bool" where
  "bounded n v \<longleftrightarrow> depth_le n v \<and> canonical v"

definition fine :: "nat \<Rightarrow> obj \<Rightarrow> bool" where
  "fine n m \<longleftrightarrow> okeys m \<and> (\<forall>kv \<in> set m. bounded n (snd kv))"

lemma bounded_simps [simp]:
  "bounded (Suc n) (JObj m) \<longleftrightarrow> fine n m"
  "bounded (Suc n) (JArr vs) \<longleftrightarrow> (\<forall>v \<in> set vs. bounded n v)"
  by (auto simp: bounded_def fine_def list_all_iff)

lemma bounded_scalar [simp]: "bounded (Suc n) (of_scalar v)"
  by (cases v) (simp_all add: bounded_def)

lemma bounded_mono: "bounded n v \<Longrightarrow> bounded (Suc n) v"
proof (induction n v rule: depth_le.induct)
  case (2 n vs)
  then show ?case by (auto simp: bounded_def list_all_iff)
next
  case (3 n m)
  then show ?case by (fastforce simp: bounded_def list_all_iff)
qed (auto simp: bounded_def)

lemma bounded_0 [simp]: "\<not> bounded 0 v"
  by (simp add: bounded_def)

lemma bounded_JObjD: "bounded n (JObj m) \<Longrightarrow> fine n m"
  by (cases n) (auto simp: fine_def dest: bounded_mono)

lemma bounded_JArrD: "bounded n (JArr vs) \<Longrightarrow> v \<in> set vs \<Longrightarrow> bounded n v"
  by (cases n) (auto dest: bounded_mono)

lemma obj_nodes_oput: "obj_nodes (oput k v m) \<le> obj_nodes m + json_nodes v"
  by (induction k v m rule: oput.induct) auto

lemma fine_oput: "fine n m \<Longrightarrow> bounded n v \<Longrightarrow> fine n (oput k v m)"
  using set_oput [of k v m] unfolding fine_def by auto

lemma add_defaults_ok:
  "fine n result \<Longrightarrow> fine n defaults \<Longrightarrow>
    fine n (add_defaults result defaults) \<and> obj_nodes (add_defaults result defaults) \<le> obj_nodes result + obj_nodes defaults"
  unfolding add_defaults_def
proof (induction defaults arbitrary: result)
  case (Cons kv defaults)
  obtain k v where kv: "kv = (k, v)" by force
  have f: "fine n defaults" "bounded n v" using Cons.prems(2) by (auto simp: fine_def kv)
  define r where "r = (if map_of result k = None then oput k v result else result)"
  have "fine n r" "obj_nodes r \<le> obj_nodes result + json_nodes v"
    using Cons.prems(1) f obj_nodes_oput [of k v result] by (auto simp: r_def fine_oput)
  with Cons.IH [of r] f show ?case by (simp add: kv r_def)
qed simp

lemma merge_all_ok:
  "foldM merge_one result vs = Inr r \<Longrightarrow> fine n result \<Longrightarrow> (\<And>v. v \<in> set vs \<Longrightarrow> bounded n v) \<Longrightarrow>
    fine n r \<and> obj_nodes r \<le> obj_nodes result + sum_list (map json_nodes vs)"
proof (induction vs arbitrary: result)
  case (Cons v vs)
  from Cons.prems(1) obtain r1 where r1: "merge_one result v = Inr r1" "foldM merge_one r1 vs = Inr r" by (auto simp: rbind_Inr_iff)
  then obtain d where d: "v = JObj d" and rest: "foldM merge_one (add_defaults result d) vs = Inr r"
    by (cases v) (auto simp: merge_one_def)
  have "fine n d" using Cons.prems(3) [of v] d bounded_JObjD by auto
  from add_defaults_ok [OF Cons.prems(2) this] Cons.IH [OF rest] Cons.prems(3) d show ?case by fastforce
qed simp

lemma merge_list_ok:
  "bounded n v \<Longrightarrow> x \<in> set (merge_list v) \<Longrightarrow> bounded n x" "sum_list (map json_nodes (merge_list v)) \<le> json_nodes v"
  by (auto simp: merge_list_def dest: bounded_JArrD split: json.splits)

text \<open>The contract of an evaluation at a level, and that the loops of a mapping and a sequence keep it.\<close>

locale evaluation =
  fixes eval :: eval and n :: nat
  assumes eval: "eval node c = Inr (v, c') \<Longrightarrow> c + json_nodes v \<le> c' \<and> bounded n v"
    and count: "eval node c = Inr (v, c') \<Longrightarrow> c' \<le> 100000"
begin

lemma loop_counts:
  assumes "c \<le> 100000"
  shows "sequence_value eval content c = Inr (v, c') \<Longrightarrow> c' \<le> 100000"
    and "mapping_value Y eval content c = Inr (v, c') \<Longrightarrow> c' \<le> 100000"
proof -
  assume "sequence_value eval content c = Inr (v, c')"
  then obtain vs where
    run: "foldM (\<lambda>(values, count) child. rbind (eval child count) (\<lambda>(v, count). Inr (values @ [v], count))) ([], c) content = Inr (vs, c')"
    by (auto simp: sequence_value_def rbind_Inr_iff)
  have "snd (vs, c') \<le> 100000"
    by (rule foldM_invariant [OF run]) (use assms in \<open>auto simp: rbind_Inr_iff dest: count\<close>)
  then show "c' \<le> 100000" by simp
next
  assume "mapping_value Y eval content c = Inr (v, c')"
  then obtain r c1 r' seen' where m: "foldM (merge_key eval) ([], c) (node_pairs content) = Inr (r, c1)"
    and p: "foldM (put_key Y eval) (r, {}, c1) (node_pairs content) = Inr (r', seen', c')"
    by (auto simp: mapping_value_def rbind_Inr_iff)
  have "snd (r, c1) \<le> 100000"
    by (rule foldM_invariant [OF m]) (use assms in \<open>auto simp: merge_key_def rbind_Inr_iff dest: count split: if_splits prod.splits\<close>)
  have name: "c2 \<le> 100000" if "key_name Y eval key n = Inr (k, c2)" "n \<le> 100000" for key n k c2
    using that by (cases "eval key n") (auto simp: key_name_def dest: count split: if_splits json.splits)
  have "snd (snd (r', seen', c')) \<le> 100000"
    by (rule foldM_invariant [OF p])
      (use \<open>snd (r, c1) \<le> 100000\<close> in \<open>auto simp: put_key_def rbind_Inr_iff Let_def dest: count name split: if_splits prod.splits\<close>)
  then show "c' \<le> 100000" by simp
qed

lemma sequence:
  assumes "sequence_value eval content c = Inr (v, c')"
  shows "c + json_nodes v \<le> Suc c' \<and> bounded (Suc n) v"
proof -
  from assms obtain vs where v: "v = JArr vs"
    and run: "foldM (\<lambda>(values, count) child. rbind (eval child count) (\<lambda>(v, count). Inr (values @ [v], count))) ([], c) content = Inr (vs, c')"
    by (auto simp: sequence_value_def rbind_Inr_iff)
  have "c + sum_list (map json_nodes (fst (vs, c'))) \<le> snd (vs, c') \<and> (\<forall>x \<in> set (fst (vs, c')). bounded n x)"
    by (rule foldM_invariant [OF run]) (auto simp: rbind_Inr_iff dest!: eval)
  with v show ?thesis by simp
qed

lemma merges:
  assumes "foldM (merge_key eval) ([], c) ps = Inr (r, c')"
  shows "c + obj_nodes r \<le> c' \<and> fine n r"
proof -
  have "c + obj_nodes (fst (r, c')) \<le> snd (r, c') \<and> fine n (fst (r, c'))"
  proof (rule foldM_invariant [OF assms])
    fix s x s' assume s: "c + obj_nodes (fst s) \<le> snd s \<and> fine n (fst s)" and run: "merge_key eval s x = Inr s'"
    obtain result count key val where sx: "s = (result, count)" "x = (key, val)" by (cases s, cases x)
    show "c + obj_nodes (fst s') \<le> snd s' \<and> fine n (fst s')"
    proof (cases "nTag key = ''!!merge''")
      case False
      with run s sx show ?thesis by (simp add: merge_key_def)
    next
      case True
      with run sx obtain v c1 r1 where e: "eval val count = Inr (v, c1)" and m: "foldM merge_one result (merge_list v) = Inr r1"
        and s': "s' = (r1, c1)" by (auto simp: merge_key_def rbind_Inr_iff)
      have "fine n r1 \<and> obj_nodes r1 \<le> obj_nodes result + sum_list (map json_nodes (merge_list v))"
        by (rule merge_all_ok [OF m]) (use eval [OF e] merge_list_ok(1) s sx in auto)
      with merge_list_ok(2) [of v] have "fine n r1" "obj_nodes r1 \<le> obj_nodes result + json_nodes v" by auto
      with eval [OF e] s sx s' show ?thesis by auto
    qed
  qed (simp add: fine_def)
  then show ?thesis by simp
qed

lemma puts:
  assumes "foldM (put_key Y eval) (r0, seen, c) ps = Inr (r, seen', c')" and "fine n r0"
  shows "c + obj_nodes r \<le> c' + obj_nodes r0 \<and> fine n r"
proof -
  have "c + obj_nodes (fst (r, seen', c')) \<le> snd (snd (r, seen', c')) + obj_nodes r0 \<and> fine n (fst (r, seen', c'))"
  proof (rule foldM_invariant [OF assms(1)])
    fix s x s' assume s: "c + obj_nodes (fst s) \<le> snd (snd s) + obj_nodes r0 \<and> fine n (fst s)" and run: "put_key Y eval s x = Inr s'"
    obtain result sn count key val where sx: "s = (result, sn, count)" "x = (key, val)" by (cases s, cases x)
    from run sx obtain k c1 where k: "key_name Y eval key count = Inr (k, c1)"
      and s': "s' = (result, insert k sn, c1) \<or> (\<exists>v c2. eval val c1 = Inr (v, c2) \<and> s' = (oput k v result, insert k sn, c2))"
      by (auto simp: put_key_def rbind_Inr_iff Let_def split: if_splits)
    have "count \<le> c1"
    proof (cases "nTag key = ''!!int''")
      case True
      with k obtain v where "eval key count = Inr (v, c1)"
        by (cases "eval key count") (auto simp: key_name_def split: json.splits)
      then show ?thesis using eval by fastforce
    qed (use k in \<open>simp add: key_name_def\<close>)
    from s' show "c + obj_nodes (fst s') \<le> snd (snd s') + obj_nodes r0 \<and> fine n (fst s')"
    proof (elim disjE exE conjE)
      assume "s' = (result, insert k sn, c1)"
      with s sx \<open>count \<le> c1\<close> show ?thesis by simp
    next
      fix v c2 assume "eval val c1 = Inr (v, c2)" and s': "s' = (oput k v result, insert k sn, c2)"
      from eval [OF this(1)] have "c1 + json_nodes v \<le> c2" "bounded n v" by auto
      with s s' sx \<open>count \<le> c1\<close> obj_nodes_oput [of k v result] show ?thesis by (simp add: fine_oput)
    qed
  qed (use assms(2) in auto)
  then show ?thesis by simp
qed

lemma mapping:
  assumes "mapping_value Y eval content c = Inr (v, c')"
  shows "c + json_nodes v \<le> Suc c' \<and> bounded (Suc n) v"
proof -
  from assms obtain r c1 r' seen' where m: "foldM (merge_key eval) ([], c) (node_pairs content) = Inr (r, c1)"
    and p: "foldM (put_key Y eval) (r, {}, c1) (node_pairs content) = Inr (r', seen', c')" and v: "v = JObj r'"
    by (auto simp: mapping_value_def rbind_Inr_iff)
  from merges [OF m] puts [OF p] v show ?thesis by auto
qed

end

lemma nodeValue_evaluation: "evaluation (nodeValue Y doc left) left"
proof (induction left)
  case 0
  show ?case by unfold_locales (simp_all split: if_splits)
next
  case (Suc left)
  have "c + json_nodes v \<le> c' \<and> bounded (Suc left) v \<and> c' \<le> 100000" if run: "nodeValue Y doc (Suc left) node c = Inr (v, c')" for node c v c'
  proof -
    have small: "\<not> 100000 < c + 1" using run by (auto simp: Let_def)
    show ?thesis
    proof (cases "nKind node")
      case ScalarNode
      with run small obtain x where "v = of_scalar x" "c' = c + 1" by (auto simp: scalar_value_def rbind_Inr_iff split: if_splits)
      with small show ?thesis by (cases x) (auto simp: bounded_def)
    next
      case SequenceNode
      with run small have "sequence_value (nodeValue Y doc left) (nContent node) (c + 1) = Inr (v, c')" by simp
      from evaluation.sequence [OF Suc this] evaluation.loop_counts(1) [OF Suc _ this] small show ?thesis by simp
    next
      case MappingNode
      with run small have "mapping_value Y (nodeValue Y doc left) (nContent node) (c + 1) = Inr (v, c')" by simp
      from evaluation.mapping [OF Suc this] evaluation.loop_counts(2) [OF Suc _ this] small show ?thesis by simp
    next
      case AliasNode
      with run small obtain t where "nodeValue Y doc left t (c + 1) = Inr (v, c')" by (auto split: option.splits)
      from evaluation.eval [OF Suc this] evaluation.count [OF Suc this] bounded_mono show ?thesis by auto
    qed
  qed
  then show ?case by unfold_locales blast+
qed

interpretation node: evaluation "nodeValue Y doc left" left for Y doc left
  by (rule nodeValue_evaluation)

lemma parse_bounds:
  assumes "parseObject Y data = Inr document"
  shows "bounded 65 (JObj document)" "json_nodes (JObj document) \<le> 100000" "length data \<le> 1048576"
proof -
  from assms obtain node c where v: "nodeValue Y node 65 node 0 = Inr (JObj document, c)" and len: "length data \<le> 1048576"
    unfolding parseObject_def maxDocumentBytes_def rbind_Inr_iff by (auto simp: rbind_Inr_iff)
  from node.eval [OF v] node.count [OF v] len
  show "bounded 65 (JObj document)" "json_nodes (JObj document) \<le> 100000" "length data \<le> 1048576" by simp_all
qed

section \<open>Duplicate keys\<close>

text \<open>
  The name of a key, an integer by its value; the nodes that the value of a node is made of; and
  that no mapping among them has a name twice.
\<close>

definition key_text :: "yaml \<Rightarrow> ynode \<Rightarrow> string" where
  "key_text Y key =
     (if nTag key = ''!!int'' then (case yScalar Y (nTag key) (nValue key) of Some (SNum f) \<Rightarrow> yFormatFloat Y f | _ \<Rightarrow> nValue key)
      else nValue key)"

inductive part :: "ynode \<Rightarrow> ynode \<Rightarrow> ynode \<Rightarrow> bool" for doc where
  element: "part doc n child" if "nKind n = SequenceNode" "child \<in> set (nContent n)"
| member: "part doc n v" if "nKind n = MappingNode" "(k, v) \<in> set (node_pairs (nContent n))"
| target: "part doc n t" if "nKind n = AliasNode" "node_at doc (nAlias n) = Some t"

definition unique_keys :: "yaml \<Rightarrow> ynode \<Rightarrow> bool" where
  "unique_keys Y n \<longleftrightarrow> (nKind n = MappingNode \<longrightarrow> distinct (map (\<lambda>(k, _). key_text Y k) (node_pairs (nContent n))))"

lemma merges_evaluated:
  "foldM (merge_key eval) s ps = Inr s' \<Longrightarrow> (k, v) \<in> set ps \<Longrightarrow> nTag k = ''!!merge'' \<Longrightarrow> \<exists>c r. eval v c = Inr r"
proof (induction ps arbitrary: s)
  case (Cons p ps)
  from Cons.prems(1) obtain s1 where s1: "merge_key eval s p = Inr s1" "foldM (merge_key eval) s1 ps = Inr s'" by (auto simp: rbind_Inr_iff)
  show ?case
  proof (cases "p = (k, v)")
    case True
    with s1(1) Cons.prems(3) show ?thesis by (auto simp: merge_key_def rbind_Inr_iff split: prod.splits)
  next
    case False
    with Cons.prems(2,3) Cons.IH [OF s1(2)] show ?thesis by simp
  qed
qed simp

lemma puts_evaluated:
  "foldM (put_key Y eval) s ps = Inr s' \<Longrightarrow> (k, v) \<in> set ps \<Longrightarrow> nTag k \<noteq> ''!!merge'' \<Longrightarrow> \<exists>c r. eval v c = Inr r"
proof (induction ps arbitrary: s)
  case (Cons p ps)
  from Cons.prems(1) obtain s1 where s1: "put_key Y eval s p = Inr s1" "foldM (put_key Y eval) s1 ps = Inr s'" by (auto simp: rbind_Inr_iff)
  show ?case
  proof (cases "p = (k, v)")
    case True
    with s1(1) Cons.prems(3) show ?thesis by (auto simp: put_key_def rbind_Inr_iff Let_def split: prod.splits if_splits)
  next
    case False
    with Cons.prems(2,3) Cons.IH [OF s1(2)] show ?thesis by simp
  qed
qed simp

lemma elements_evaluated:
  "foldM (\<lambda>(values, count) child. rbind (eval child count) (\<lambda>(v, count). Inr (values @ [v], count))) s content = Inr s' \<Longrightarrow>
    child \<in> set content \<Longrightarrow> \<exists>c r. eval child c = Inr r"
  by (induction content arbitrary: s) (auto simp: rbind_Inr_iff split: prod.splits)

lemma puts_distinct:
  assumes scalar: "\<And>k c x c'. nKind k = ScalarNode \<Longrightarrow> eval k c = Inr (x, c') \<Longrightarrow>
      \<exists>y. yScalar Y (nTag k) (nValue k) = Some y \<and> x = of_scalar y"
  shows "foldM (put_key Y eval) (r, seen, c) ps = Inr s' \<Longrightarrow>
    distinct (map (\<lambda>(k, _). key_text Y k) ps) \<and> seen \<inter> set (map (\<lambda>(k, _). key_text Y k) ps) = {}"
proof (induction ps arbitrary: r seen c)
  case (Cons p ps)
  obtain k v where p: "p = (k, v)" by force
  from Cons.prems p obtain s1 where s1: "put_key Y eval (r, seen, c) (k, v) = Inr s1" "foldM (put_key Y eval) s1 ps = Inr s'"
    by (auto simp: rbind_Inr_iff)
  from s1(1) obtain name c1 where kind: "nKind k = ScalarNode" and name: "key_name Y eval k c = Inr (name, c1)" and new: "name \<notin> seen"
    and next': "\<exists>r1 c2. s1 = (r1, insert name seen, c2)"
    by (auto simp: put_key_def rbind_Inr_iff Let_def split: if_splits)
  have "name = key_text Y k"
  proof (cases "nTag k = ''!!int''")
    case True
    obtain f where f: "eval k c = Inr (JNum f, c1)" "name = yFormatFloat Y f"
      using name True by (cases "eval k c") (auto simp: key_name_def split: json.splits)
    from scalar [OF kind f(1)] obtain y where "yScalar Y (nTag k) (nValue k) = Some y" "JNum f = of_scalar y" by blast
    with True f(2) show ?thesis by (cases y) (simp_all add: key_text_def)
  qed (use name in \<open>simp add: key_name_def key_text_def\<close>)
  with next' Cons.IH s1(2) new p show ?case by fastforce
qed simp

lemma nodeValue_scalar:
  "nKind k = ScalarNode \<Longrightarrow> nodeValue Y doc left k c = Inr (x, c') \<Longrightarrow> \<exists>y. yScalar Y (nTag k) (nValue k) = Some y \<and> x = of_scalar y"
  by (cases left) (auto simp: scalar_value_def Let_def rbind_Inr_iff split: if_splits)

lemma nodeValue_unique:
  "nodeValue Y doc left n c = Inr r \<Longrightarrow> (part doc)\<^sup>*\<^sup>* n m \<Longrightarrow> unique_keys Y m"
proof (induction left arbitrary: n c r)
  case 0
  then show ?case by (simp split: if_splits)
next
  case (Suc left)
  from Suc.prems(1) have run: "case nKind n of
        AliasNode \<Rightarrow> \<exists>t. node_at doc (nAlias n) = Some t \<and> nodeValue Y doc left t (c + 1) = Inr r
      | MappingNode \<Rightarrow> mapping_value Y (nodeValue Y doc left) (nContent n) (c + 1) = Inr r
      | SequenceNode \<Rightarrow> sequence_value (nodeValue Y doc left) (nContent n) (c + 1) = Inr r
      | ScalarNode \<Rightarrow> True"
    by (auto simp: Let_def split: if_splits ykind.splits option.splits)
  have parts: "\<exists>c r. nodeValue Y doc left t c = Inr r" if "part doc n t" for t
    using that
  proof cases
    case element
    with run obtain s' where "foldM (\<lambda>(values, count) child. rbind (nodeValue Y doc left child count) (\<lambda>(v, count). Inr (values @ [v], count)))
        ([], c + 1) (nContent n) = Inr s'" by (auto simp: sequence_value_def rbind_Inr_iff)
    from elements_evaluated [OF this element(2)] show ?thesis .
  next
    case (member k)
    with run obtain s1 s2 s3 where m: "foldM (merge_key (nodeValue Y doc left)) ([], c + 1) (node_pairs (nContent n)) = Inr s1"
      and p: "foldM (put_key Y (nodeValue Y doc left)) s2 (node_pairs (nContent n)) = Inr s3"
      by (auto simp: mapping_value_def rbind_Inr_iff)
    from merges_evaluated [OF m member(2)] puts_evaluated [OF p member(2)] show ?thesis by blast
  next
    case target
    then have "nodeValue Y doc left t (c + 1) = Inr r" using run by auto
    then show ?thesis by blast
  qed
  from Suc.prems(2) show ?case
  proof (cases rule: converse_rtranclpE)
    case base
    show ?thesis
    proof (cases "nKind n = MappingNode")
      case True
      with run obtain r0 c0 s3 where "foldM (put_key Y (nodeValue Y doc left)) (r0, {}, c0) (node_pairs (nContent n)) = Inr s3"
        by (auto simp: mapping_value_def rbind_Inr_iff)
      from puts_distinct [OF nodeValue_scalar this] base show ?thesis by (simp add: unique_keys_def)
    qed (simp add: base [symmetric] unique_keys_def)
  next
    case (step t)
    from parts [OF step(1)] Suc.IH step(2) show ?thesis by blast
  qed
qed

text \<open>
  C37.  The document reader is safe on every input, aliases to an ancestor included: what it
  accepts is an object of at most 100000 values, nested at most 65 deep, from one document in
  a text of at most 1 MiB; and no mapping that the object is made of, through sequences,
  members, merges and aliases, writes a key twice, an integer key being compared by its value.
\<close>

theorem parseObject_bounded:
  assumes "parseObject Y data = Inr document"
  shows "length data \<le> 1048576 \<and> json_nodes (JObj document) \<le> 100000 \<and> depth_le 65 (JObj document) \<and>
    (\<exists>root. yDecode Y data = Some (root, False) \<and> (\<forall>n. (part root)\<^sup>*\<^sup>* root n \<longrightarrow> unique_keys Y n))"
proof -
  from assms obtain root c where "yDecode Y data = Some (root, False)" "nodeValue Y root 65 root 0 = Inr (JObj document, c)"
    unfolding parseObject_def rbind_Inr_iff by (auto simp: rbind_Inr_iff)
  with nodeValue_unique parse_bounds [OF assms] show ?thesis by (auto simp: bounded_def)
qed

section \<open>Endpoints\<close>

lemma foldM_unit_iff: "foldM (\<lambda>_. f) () xs = Inr () \<longleftrightarrow> (\<forall>x \<in> set xs. f x = Inr ())"
  by (induction xs) (auto simp: rbind_Inr_iff)

lemma oget_set_port: "oget (set_port name v entry) k = (if k = name \<and> v \<noteq> None then JNum (Fin (of_nat (unat (the v)))) else oget entry k)"
  by (auto simp: set_port_def split: option.splits)

lemma map_of_move_ports: "k \<notin> {''port'', ''as''} \<Longrightarrow> map_of (move_ports p entry) k = map_of entry k"
  by (auto simp: move_ports_def set_port_def split: option.splits)

lemma map_of_set_options: "k \<notin> {''accept'', ''http_options''} \<Longrightarrow> map_of (set_options p entry) k = map_of entry k"
  by (auto simp: set_options_def Let_def split: option.splits)

lemma oget_set_options: "k \<notin> {''accept'', ''http_options''} \<Longrightarrow> oget (set_options p entry) k = oget entry k"
  by (simp add: oget_def map_of_set_options)

lemma endpoint_set_options [simp]:
  "externalPort (set_options p entry) = externalPort entry"
  "endpointKind (set_options p entry) = endpointKind entry"
  "oget (set_options p entry) ''port'' = oget entry ''port''"
  by (simp_all add: externalPort_def endpointKind_def oget_set_options)

lemma matching_one: "matching Y before port = [i] \<Longrightarrow> i < length before \<and> port_matches Y port (before ! i)"
proof -
  assume "matching Y before port = [i]"
  then have "i \<in> set (matching Y before port)" by simp
  then show ?thesis by (simp add: matching_def)
qed

text \<open>What the loop over the ports of a patch keeps; \<open>rest\<close> are the ports still to come.\<close>

definition moved :: "yaml \<Rightarrow> obj list \<Rightarrow> string set \<Rightarrow> obj list \<times> (nat \<times> ExposePatch) list \<Rightarrow> bool" where
  "moved Y before rest = (\<lambda>(after, changed). length after = length before \<and> distinct (map fst changed) \<and>
     (\<forall>i. i \<notin> fst ` set changed \<longrightarrow> after ! i = before ! i) \<and>
     (\<forall>(i, p) \<in> set changed. i < length before \<and> after ! i = move_ports p (before ! i) \<and>
        endpointKind (after ! i) = endpointKind (before ! i) \<and>
        (hasLeasedIP (before ! i) \<longrightarrow> oget (after ! i) ''port'' = oget (before ! i) ''port'' \<and> externalPort (after ! i) = externalPort (before ! i)) \<and>
        (\<forall>port \<in> rest. \<not> port_matches Y port (before ! i))))"

lemma move_endpoint_moved:
  assumes m: "moved Y before (insert port rest) s" and run: "move_endpoint Y before s (port, p) = Inr s'" and "port \<notin> rest"
  shows "moved Y before rest s'"
proof -
  obtain after changed where s: "s = (after, changed)" by force
  from run s obtain i where i: "matching Y before port = [i]" and ok: "endpointKind (before ! i) = endpointKind (move_ports p (after ! i))"
      "hasLeasedIP (before ! i) \<Longrightarrow> oget (before ! i) ''port'' = oget (move_ports p (after ! i)) ''port'' \<and>
        externalPort (before ! i) = externalPort (move_ports p (after ! i))"
    and s': "s' = (after[i := move_ports p (after ! i)], changed @ [(i, p)])"
    by (auto simp: move_endpoint_def Let_def split: list.splits if_splits)
  note pm = matching_one [OF i]
  have new: "i \<notin> fst ` set changed" using m pm s by (fastforce simp: moved_def)
  then have after: "after ! i = before ! i" using m s by (simp add: moved_def)
  have "\<not> port_matches Y q (before ! i)" if "q \<in> rest" for q
    using that pm assms(3) by (auto simp: port_matches_def split: json.splits)
  with m ok new after pm show ?thesis unfolding s s' moved_def by (auto simp: nth_list_update rev_image_eqI)
qed

lemma move_all_moved:
  "foldM (move_endpoint Y before) s patch = Inr s' \<Longrightarrow> moved Y before (fst ` set patch) s \<Longrightarrow> distinct (map fst patch) \<Longrightarrow>
    moved Y before {} s' \<and> (\<forall>i \<in> fst ` set (snd s'). i \<in> fst ` set (snd s) \<or> (\<exists>port \<in> fst ` set patch. port_matches Y port (before ! i)))"
proof (induction patch arbitrary: s)
  case (Cons x patch)
  obtain port p where x: "x = (port, p)" by force
  from Cons.prems(1) x obtain s1 where s1: "move_endpoint Y before s (port, p) = Inr s1" "foldM (move_endpoint Y before) s1 patch = Inr s'"
    by (auto simp: rbind_Inr_iff)
  have "moved Y before (fst ` set patch) s1" using move_endpoint_moved [OF _ s1(1)] Cons.prems(2,3) x by simp
  moreover have "\<exists>i. port_matches Y port (before ! i) \<and> fst ` set (snd s1) = insert i (fst ` set (snd s))"
    using s1(1) by (auto simp: move_endpoint_def Let_def dest!: matching_one split: prod.splits list.splits if_splits)
  ultimately show ?case using Cons.IH [OF s1(2)] Cons.prems(3) x by auto
qed simp

lemma foldl_update:
  "distinct (map fst changed) \<Longrightarrow> i < length xs \<Longrightarrow>
    foldl (\<lambda>xs (i, p). xs[i := f i p]) xs changed ! i = (case map_of changed i of None \<Rightarrow> xs ! i | Some p \<Rightarrow> f i p)"
proof (induction changed arbitrary: xs)
  case (Cons c changed)
  obtain j q where c: "c = (j, q)" by force
  have "map_of changed j = None" using Cons.prems(1) c by (simp add: map_of_eq_None_iff)
  with Cons c show ?case by (auto simp: nth_list_update split: option.splits)
qed simp

lemma length_foldl_update [simp]: "length (foldl (\<lambda>xs (i, p). xs[i := f i p]) xs changed) = length xs"
  by (induction changed arbitrary: xs) auto

text \<open>
  What an edit keeps of an endpoint: its kind, its ports when it is reached through a leased
  IP, and every field but the ports, the accepted hosts and the HTTP options.
\<close>

definition endpoint_kept :: "obj \<Rightarrow> obj \<Rightarrow> bool" where
  "endpoint_kept old new \<longleftrightarrow> endpointKind new = endpointKind old \<and>
     (hasLeasedIP old \<longrightarrow> oget new ''port'' = oget old ''port'' \<and> externalPort new = externalPort old) \<and>
     (\<forall>k. k \<notin> {''port'', ''as'', ''accept'', ''http_options''} \<longrightarrow> map_of new k = map_of old k)"

lemma endpoint_kept_refl [simp]: "endpoint_kept x x"
  by (simp add: endpoint_kept_def)

lemma applyExpose_run:
  assumes run: "applyExpose Y service patch = Inr service'" and ne: "patch \<noteq> []"
  obtains before after changed where "oget service ''expose'' = JArr (map JObj before)"
    "foldM (move_endpoint Y before) (before, []) patch = Inr (after, changed)"
    "foldM (\<lambda>_ c. foldM (\<lambda>_ j. check_collision before after c j) () [0..<length after]) () changed = Inr ()"
    "service' = oput ''expose'' (JArr (foldl (\<lambda>xs (i, p). xs[i := JObj (set_options p (after ! i))]) (map JObj before) changed)) service"
proof -
  define exposed where "exposed = arr_or_nil (oget service ''expose'')"
  have "\<exists>before after changed. list_all (\<lambda>x. as_obj x \<noteq> None) exposed \<and> before = map obj_or_nil exposed \<and>
    foldM (move_endpoint Y before) (before, []) patch = Inr (after, changed) \<and>
    foldM (\<lambda>_ c. foldM (\<lambda>_ j. check_collision before after c j) () [0..<length after]) () changed = Inr () \<and>
    service' = oput ''expose'' (JArr (foldl (\<lambda>xs (i, p). xs[i := JObj (set_options p (after ! i))]) exposed changed)) service"
    using run ne unfolding applyExpose_def exposed_def [symmetric] by (auto simp: Let_def rbind_Inr_iff split: if_splits)
  then obtain before after changed where obj: "list_all (\<lambda>x. as_obj x \<noteq> None) exposed" and b: "before = map obj_or_nil exposed"
    and r: "foldM (move_endpoint Y before) (before, []) patch = Inr (after, changed)"
    "foldM (\<lambda>_ c. foldM (\<lambda>_ j. check_collision before after c j) () [0..<length after]) () changed = Inr ()"
    "service' = oput ''expose'' (JArr (foldl (\<lambda>xs (i, p). xs[i := JObj (set_options p (after ! i))]) exposed changed)) service" by blast
  have e: "exposed = map JObj before" using obj b by (induction exposed arbitrary: before) auto
  have "before \<noteq> []" using r(1) ne by (cases patch) (auto simp: move_endpoint_def matching_def)
  then have "oget service ''expose'' = JArr (map JObj before)" using e exposed_def by (cases "oget service ''expose''") (auto simp: arr_or_nil_def)
  with r e show ?thesis using that by blast
qed

text \<open>After a successful collision check, an endpoint whose port another one has has kept it.\<close>

lemma collision_unmoved:
  assumes m: "moved Y before {} (mid, changed)" and "i \<noteq> j" "j < length before"
    and col: "foldM (\<lambda>_ c. foldM (\<lambda>_ j. check_collision before mid c j) () [0..<length mid]) () changed = Inr ()"
  shows "oget (mid ! i) ''port'' = oget (mid ! j) ''port'' \<Longrightarrow> oget (mid ! i) ''port'' = oget (before ! i) ''port''"
    and "externalPort (mid ! i) = externalPort (mid ! j) \<Longrightarrow> externalPort (mid ! i) = externalPort (before ! i)"
proof -
  have check: "check_collision before mid (i, p) j = Inr ()" if "(i, p) \<in> set changed" for p
    using col that m assms(3) by (auto simp: foldM_unit_iff moved_def)
  have changed: "i \<in> fst ` set changed \<Longrightarrow> \<exists>p. (i, p) \<in> set changed \<and> mid ! i = move_ports p (before ! i)"
    and same: "i \<notin> fst ` set changed \<Longrightarrow> mid ! i = before ! i" using m unfolding moved_def by fastforce+
  show "oget (mid ! i) ''port'' = oget (before ! i) ''port''" if "oget (mid ! i) ''port'' = oget (mid ! j) ''port''"
  proof (cases "i \<in> fst ` set changed")
    case True
    from changed [OF True] obtain p where p: "(i, p) \<in> set changed" "mid ! i = move_ports p (before ! i)" by blast
    from check [OF p(1)] that \<open>i \<noteq> j\<close> have "epPort p = None" by (auto simp: check_collision_def rbind_Inr_iff)
    with p(2) show ?thesis by (simp add: move_ports_def oget_set_port)
  qed (simp add: same)
  show "externalPort (mid ! i) = externalPort (before ! i)" if "externalPort (mid ! i) = externalPort (mid ! j)"
  proof (cases "i \<in> fst ` set changed")
    case True
    from changed [OF True] obtain p where p: "(i, p) \<in> set changed" by blast
    from check [OF p] that \<open>i \<noteq> j\<close> show ?thesis by (auto simp: check_collision_def rbind_Inr_iff)
  qed (simp add: same)
qed

text \<open>The endpoints written back.\<close>

definition final :: "obj list \<Rightarrow> obj list \<Rightarrow> (nat \<times> ExposePatch) list \<Rightarrow> nat \<Rightarrow> obj" where
  "final before mid changed i = (case map_of changed i of None \<Rightarrow> before ! i | Some p \<Rightarrow> set_options p (mid ! i))"

lemma final_facts:
  assumes m: "moved Y before {} (mid, changed)"
  shows "oget (final before mid changed i) ''port'' = oget (mid ! i) ''port''"
    "externalPort (final before mid changed i) = externalPort (mid ! i)"
    "endpoint_kept (before ! i) (final before mid changed i)"
    "foldl (\<lambda>xs (i, p). xs[i := JObj (set_options p (mid ! i))]) (map JObj before) changed =
       map JObj (map (final before mid changed) [0..<length before])"
proof -
  show "oget (final before mid changed i) ''port'' = oget (mid ! i) ''port''"
    "externalPort (final before mid changed i) = externalPort (mid ! i)"
    using m by (auto simp: final_def moved_def map_of_eq_None_iff split: option.splits)
  show "endpoint_kept (before ! i) (final before mid changed i)"
  proof (cases "map_of changed i")
    case (Some p)
    then have p: "(i, p) \<in> set changed" by (rule map_of_SomeD)
    with Some m show ?thesis by (auto simp: final_def moved_def endpoint_kept_def map_of_set_options map_of_move_ports)
  qed (simp add: final_def)
  show "foldl (\<lambda>xs (i, p). xs[i := JObj (set_options p (mid ! i))]) (map JObj before) changed =
       map JObj (map (final before mid changed) [0..<length before])"
    using m by (intro nth_equalityI) (auto simp: foldl_update moved_def final_def split: option.splits)
qed

text \<open>
   Editing endpoints is safe: an edit that is accepted keeps the number of endpoints,
  the kind of each, the ports of those reached through a leased IP and all fields that a
  patch cannot name; endpoints the patch does not name are unchanged; and two endpoints
  share a container port or an external port only if they did before.
\<close>

theorem applyExpose_safe:
  assumes run: "applyExpose Y service patch = Inr service'" and ne: "patch \<noteq> []" and dist: "distinct (map fst patch)"
  shows "\<exists>before after. oget service ''expose'' = JArr (map JObj before) \<and> service' = oput ''expose'' (JArr (map JObj after)) service \<and>
    length after = length before \<and>
    (\<forall>i < length before. endpoint_kept (before ! i) (after ! i) \<and>
      ((\<forall>port \<in> fst ` set patch. \<not> port_matches Y port (before ! i)) \<longrightarrow> after ! i = before ! i)) \<and>
    (\<forall>i < length before. \<forall>j < length before. i \<noteq> j \<longrightarrow>
      (oget (after ! i) ''port'' = oget (after ! j) ''port'' \<longrightarrow> oget (before ! i) ''port'' = oget (before ! j) ''port'') \<and>
      (externalPort (after ! i) = externalPort (after ! j) \<longrightarrow> externalPort (before ! i) = externalPort (before ! j)))"
proof -
  from run ne obtain before mid changed where e: "oget service ''expose'' = JArr (map JObj before)"
    and mv: "foldM (move_endpoint Y before) (before, []) patch = Inr (mid, changed)"
    and col: "foldM (\<lambda>_ c. foldM (\<lambda>_ j. check_collision before mid c j) () [0..<length mid]) () changed = Inr ()"
    and s': "service' = oput ''expose'' (JArr (foldl (\<lambda>xs (i, p). xs[i := JObj (set_options p (mid ! i))]) (map JObj before) changed)) service"
    by (rule applyExpose_run)
  have "moved Y before (fst ` set patch) (before, [])" by (simp add: moved_def)
  from move_all_moved [OF mv this dist] have m: "moved Y before {} (mid, changed)"
    and src: "\<And>i. i \<in> fst ` set changed \<Longrightarrow> \<exists>port \<in> fst ` set patch. port_matches Y port (before ! i)" by auto
  note f = final_facts [OF m]
  have unnamed: "final before mid changed i = before ! i" if "\<forall>port \<in> fst ` set patch. \<not> port_matches Y port (before ! i)" for i
  proof -
    have "map_of changed i = None" using src [of i] that by (auto simp: map_of_eq_None_iff)
    then show ?thesis by (simp add: final_def)
  qed
  have port: "oget (before ! i) ''port'' = oget (before ! j) ''port''"
    if "i < length before" "j < length before" "i \<noteq> j" "oget (mid ! i) ''port'' = oget (mid ! j) ''port''" for i j
    using collision_unmoved(1) [OF m _ _ col] that by metis
  have ext: "externalPort (before ! i) = externalPort (before ! j)"
    if "i < length before" "j < length before" "i \<noteq> j" "externalPort (mid ! i) = externalPort (mid ! j)" for i j
    using collision_unmoved(2) [OF m _ _ col] that by metis
  let ?after = "map (final before mid changed) [0..<length before]"
  have after: "i < length before \<Longrightarrow> ?after ! i = final before mid changed i" for i by simp
  show ?thesis
    by (intro exI [of _ before] exI [of _ ?after] conjI allI impI; (simp only: after f(1,2))?)
      (use e s' f(3,4) in \<open>simp_all add: unnamed\<close>, (erule (3) port ext)+)
qed

section \<open>Fields of a service\<close>

lemma map_of_clear_field: "k \<noteq> name \<Longrightarrow> map_of (clear_field (name, raw) service) k = map_of service k"
  by (auto simp: clear_field_def split: option.splits json.splits)

lemma oget_clear_field:
  "k \<noteq> name \<Longrightarrow> oget (clear_field (name, raw) service) k = oget service k"
  "name \<noteq> ''credentials'' \<Longrightarrow> oget (clear_field (name, raw) service) name = (case raw of None \<Rightarrow> oget service name | Some v \<Rightarrow> v)"
  by (auto simp: oget_def clear_field_def split: option.splits json.splits)

lemma map_of_applyEnv: "k \<noteq> ''env'' \<Longrightarrow> map_of (applyEnv service patch) k = map_of service k"
  by (simp add: applyEnv_def Let_def)

lemma map_of_applyExpose:
  assumes "applyExpose Y service patch = Inr service'" and "k \<noteq> ''expose''"
  shows "map_of service' k = map_of service k"
proof (cases "patch = []")
  case True
  with assms show ?thesis by (simp add: applyExpose_def)
next
  case False
  with assms(1) obtain v where "service' = oput ''expose'' v service" by (elim applyExpose_run) blast
  with assms(2) show ?thesis by simp
qed

lemma map_of_applyStorage: "applyStorage service patch = Inr service' \<Longrightarrow> k \<noteq> ''params'' \<Longrightarrow> map_of service' k = map_of service k"
  by (auto simp: applyStorage_def Let_def rbind_Inr_iff split: if_splits)

text \<open>The entries of an environment for one variable.\<close>

definition entry_for :: "string \<Rightarrow> json \<Rightarrow> bool" where
  "entry_for key e = (case e of JStr s \<Rightarrow> env_key s = key | _ \<Rightarrow> False)"

definition env_entries :: "obj \<Rightarrow> string \<Rightarrow> json list" where
  "env_entries service key = filter (entry_for key) (arr_or_nil (oget service ''env''))"

lemma env_key_assign: "CHR ''='' \<notin> set key \<Longrightarrow> env_key (key @ ''='' @ v) = key"
proof -
  assume "CHR ''='' \<notin> set key"
  then have "cut_at (CHR ''='') (key @ ''='' @ v) = Some (key, v)" by (simp add: cut_at_Some_iff)
  then show ?thesis by (simp add: env_key_def)
qed

lemma validEnvName_no_eq: "validEnvName key \<Longrightarrow> CHR ''='' \<notin> set key"
proof -
  have "\<not> valid_env_char later (CHR ''='')" for later by (simp add: valid_env_char_def in_range_def)
  then show "validEnvName key \<Longrightarrow> CHR ''='' \<notin> set key" by (auto simp: validEnvName_def list_all_iff split: list.splits)
qed

lemma new_entries:
  assumes "distinct ks" and "\<And>k. k \<in> set ks \<Longrightarrow> CHR ''='' \<notin> set k"
  shows "filter (entry_for key) (List.map_filter (\<lambda>k. case map_of patch k of Some (Some v) \<Rightarrow> Some (JStr (k @ ''='' @ v)) | _ \<Rightarrow> None) ks) =
    (if key \<in> set ks then (case map_of patch key of Some (Some v) \<Rightarrow> [JStr (key @ ''='' @ v)] | _ \<Rightarrow> []) else [])"
  using assms
proof (induction ks)
  case (Cons k ks)
  have "entry_for key (JStr (k @ ''='' @ v)) \<longleftrightarrow> k = key" for v using Cons.prems(2) [of k] env_key_assign [of k v] by (simp add: entry_for_def)
  moreover have "k \<notin> set ks" using Cons.prems(1) by simp
  ultimately show ?case using Cons.IH Cons.prems by (cases "map_of patch k") (auto simp: map_filter_simps split: option.split)
qed (simp add: map_filter_simps)

lemma applyEnv_entries:
  assumes "distinct (map fst patch)" and "\<And>k. k \<in> fst ` set patch \<Longrightarrow> validEnvName k"
  shows "env_entries (applyEnv service patch) key =
    (case map_of patch key of None \<Rightarrow> env_entries service key | Some None \<Rightarrow> [] | Some (Some v) \<Rightarrow> [JStr (key @ ''='' @ v)])"
proof -
  define kept where "kept = filter (\<lambda>entry. case entry of JStr s \<Rightarrow> map_of patch (env_key s) = None | _ \<Rightarrow> True) (arr_or_nil (oget service ''env''))"
  define new where "new = List.map_filter (\<lambda>k. case map_of patch k of Some (Some v) \<Rightarrow> Some (JStr (k @ ''='' @ v)) | _ \<Rightarrow> None) (sort (map fst patch))"
  have "arr_or_nil (oget (applyEnv service patch) ''env'') = kept @ new"
    by (simp add: applyEnv_def Let_def kept_def [symmetric] new_def [symmetric])
  then have "env_entries (applyEnv service patch) key = filter (entry_for key) kept @ filter (entry_for key) new"
    by (simp add: env_entries_def)
  moreover have "filter (entry_for key) new =
      (if key \<in> set (sort (map fst patch)) then (case map_of patch key of Some (Some v) \<Rightarrow> [JStr (key @ ''='' @ v)] | _ \<Rightarrow> []) else [])"
    unfolding new_def by (rule new_entries) (use assms validEnvName_no_eq in auto)
  moreover have "filter (entry_for key) kept = (if map_of patch key = None then env_entries service key else [])"
    by (auto simp: kept_def env_entries_def entry_for_def filter_empty_conv split: json.splits intro!: filter_cong)
  moreover have "map_of patch key = None \<longleftrightarrow> key \<notin> set (sort (map fst patch))" by (simp add: map_of_eq_None_iff)
  ultimately show ?thesis by (auto split: option.splits)
qed

text \<open>The volumes of a service, and what an edit leaves of them.\<close>

definition storage_of :: "obj \<Rightarrow> obj" where
  "storage_of service = obj_or_nil (oget (obj_or_nil (oget service ''params'')) ''storage'')"

lemma change_volume_keeps:
  assumes "foldM change_volume storage patch = Inr storage'"
  shows "dom (map_of storage') = dom (map_of storage)"
    and "name \<notin> fst ` set patch \<Longrightarrow> map_of storage' name = map_of storage name"
    and "k \<notin> {''mount'', ''readOnly''} \<Longrightarrow> oget (obj_or_nil (oget storage' name)) k = oget (obj_or_nil (oget storage name)) k"
proof -
  have step: "\<exists>volume. oget s x = JObj volume \<and> s' = oput x (JObj (set_volume c volume)) s" if "change_volume s (x, c) = Inr s'" for s x c s'
    using that by (auto simp: change_volume_def rbind_Inr_iff)
  have vol: "k \<notin> {''mount'', ''readOnly''} \<Longrightarrow> oget (set_volume c volume) k = oget volume k" for k c volume
    by (auto simp: set_volume_def Let_def split: option.splits)
  show "dom (map_of storage') = dom (map_of storage)"
  proof (rule foldM_invariant [OF assms])
    fix s x s' assume s: "dom (map_of s) = dom (map_of storage)" "change_volume s x = Inr s'"
    then obtain volume where v: "oget s (fst x) = JObj volume" "s' = oput (fst x) (JObj (set_volume (snd x) volume)) s"
      using step [of s "fst x" "snd x" s'] by auto
    then have "fst x \<in> dom (map_of s)" by (auto simp: oget_def split: option.splits)
    with s(1) v(2) show "dom (map_of s') = dom (map_of storage)" by auto
  qed simp
  show "map_of storage' name = map_of storage name" if "name \<notin> fst ` set patch"
  proof (rule foldM_invariant [OF assms])
    fix s x s' assume "x \<in> set patch" "map_of s name = map_of storage name" "change_volume s x = Inr s'"
    then show "map_of s' name = map_of storage name" using step [of s "fst x" "snd x" s'] that by auto
  qed simp
  show "oget (obj_or_nil (oget storage' name)) k = oget (obj_or_nil (oget storage name)) k" if "k \<notin> {''mount'', ''readOnly''}"
  proof (rule foldM_invariant [OF assms])
    fix s x s' assume "oget (obj_or_nil (oget s name)) k = oget (obj_or_nil (oget storage name)) k" "change_volume s x = Inr s'"
    then show "oget (obj_or_nil (oget s' name)) k = oget (obj_or_nil (oget storage name)) k"
      using step [of s "fst x" "snd x" s'] vol [OF that] by auto
  qed simp
qed

text \<open>What a patch of a service has changed, and all that it has.\<close>

definition service_patched :: "ServicePatch \<Rightarrow> obj \<Rightarrow> obj \<Rightarrow> bool" where
  "service_patched change s s' \<longleftrightarrow>
     (\<forall>k. k \<notin> {''image'', ''command'', ''args'', ''credentials'', ''env'', ''expose'', ''params''} \<longrightarrow> map_of s' k = map_of s k) \<and>
     oget s' ''image'' = (case spImage change of None \<Rightarrow> oget s ''image'' | Some i \<Rightarrow> JStr i) \<and>
     oget s' ''command'' = (case spCommand change of None \<Rightarrow> oget s ''command'' | Some v \<Rightarrow> v) \<and>
     oget s' ''args'' = (case spArgs change of None \<Rightarrow> oget s ''args'' | Some v \<Rightarrow> v) \<and>
     (spCredentials change = None \<longrightarrow> oget s' ''credentials'' = oget s ''credentials'') \<and>
     (spExpose change = [] \<longrightarrow> oget s' ''expose'' = oget s ''expose'') \<and>
     (\<forall>key. env_entries s' key = (case map_of (spEnv change) key of
        None \<Rightarrow> env_entries s key | Some None \<Rightarrow> [] | Some (Some v) \<Rightarrow> [JStr (key @ ''='' @ v)])) \<and>
     (\<forall>name k. k \<notin> {''mount'', ''readOnly''} \<longrightarrow> oget (obj_or_nil (oget (storage_of s') name)) k = oget (obj_or_nil (oget (storage_of s) name)) k) \<and>
     (\<forall>k. k \<noteq> ''storage'' \<longrightarrow> oget (obj_or_nil (oget s' ''params'')) k = oget (obj_or_nil (oget s ''params'')) k)"

lemma applyStorage_volumes:
  assumes "applyStorage service patch = Inr service'"
  shows "k \<notin> {''mount'', ''readOnly''} \<Longrightarrow> oget (obj_or_nil (oget (storage_of service') name)) k = oget (obj_or_nil (oget (storage_of service) name)) k"
    and "k \<noteq> ''storage'' \<Longrightarrow> oget (obj_or_nil (oget service' ''params'')) k = oget (obj_or_nil (oget service ''params'')) k"
proof -
  have "service' = service \<or> (\<exists>st. foldM change_volume (storage_of service) patch = Inr st \<and>
      service' = oput ''params'' (JObj (oput ''storage'' (JObj st) (obj_or_nil (oget service ''params'')))) service)"
    using assms by (auto simp: applyStorage_def storage_of_def Let_def rbind_Inr_iff split: if_splits)
  moreover have "storage_of (oput ''params'' (JObj (oput ''storage'' (JObj st) m)) service) = st" for st m by (simp add: storage_of_def)
  ultimately show "k \<notin> {''mount'', ''readOnly''} \<Longrightarrow> oget (obj_or_nil (oget (storage_of service') name)) k = oget (obj_or_nil (oget (storage_of service) name)) k"
    and "k \<noteq> ''storage'' \<Longrightarrow> oget (obj_or_nil (oget service' ''params'')) k = oget (obj_or_nil (oget service ''params'')) k"
    using change_volume_keeps(3) by auto
qed

lemma map_of_oget: "map_of m k = map_of m' k \<Longrightarrow> oget m k = oget m' k"
  by (simp add: oget_def)

lemma assign_fields_spec:
  "k \<notin> {''image'', ''command'', ''args'', ''credentials''} \<Longrightarrow> map_of (assign_fields change s) k = map_of s k"
  "oget (assign_fields change s) ''image'' = (case spImage change of None \<Rightarrow> oget s ''image'' | Some i \<Rightarrow> JStr i)"
  "oget (assign_fields change s) ''command'' = (case spCommand change of None \<Rightarrow> oget s ''command'' | Some v \<Rightarrow> v)"
  "oget (assign_fields change s) ''args'' = (case spArgs change of None \<Rightarrow> oget s ''args'' | Some v \<Rightarrow> v)"
  "spCredentials change = None \<Longrightarrow> oget (assign_fields change s) ''credentials'' = oget s ''credentials''"
proof -
  define s1 where "s1 = (case spImage change of None \<Rightarrow> s | Some img \<Rightarrow> oput ''image'' (JStr img) s)"
  have a: "assign_fields change s = clear_field (''credentials'', spCredentials change)
      (clear_field (''args'', spArgs change) (clear_field (''command'', spCommand change) s1))"
    by (simp add: assign_fields_def s1_def)
  have s1: "k \<noteq> ''image'' \<Longrightarrow> map_of s1 k = map_of s k" "k \<noteq> ''image'' \<Longrightarrow> oget s1 k = oget s k" for k
    by (auto simp: s1_def split: option.split)
  have clear_none: "clear_field (name, None) m = m" for name m by (simp add: clear_field_def)
  show "k \<notin> {''image'', ''command'', ''args'', ''credentials''} \<Longrightarrow> map_of (assign_fields change s) k = map_of s k"
    by (simp add: a map_of_clear_field s1)
  show "oget (assign_fields change s) ''image'' = (case spImage change of None \<Rightarrow> oget s ''image'' | Some i \<Rightarrow> JStr i)"
    by (simp add: a oget_clear_field s1_def split: option.split)
  show "oget (assign_fields change s) ''command'' = (case spCommand change of None \<Rightarrow> oget s ''command'' | Some v \<Rightarrow> v)"
    "oget (assign_fields change s) ''args'' = (case spArgs change of None \<Rightarrow> oget s ''args'' | Some v \<Rightarrow> v)"
    by (simp_all add: a oget_clear_field s1 split: option.split)
  show "spCredentials change = None \<Longrightarrow> oget (assign_fields change s) ''credentials'' = oget s ''credentials''"
    unfolding a by (simp add: clear_none oget_clear_field s1)
qed

lemma apply_service_patched:
  assumes run: "apply_service Y change s = Inr s'" and env: "distinct (map fst (spEnv change))" "\<And>k. k \<in> fst ` set (spEnv change) \<Longrightarrow> validEnvName k"
  shows "service_patched change s s'"
proof -
  define s1 where "s1 = assign_fields change s"
  define s2 where "s2 = (if 0 < length (spEnv change) then applyEnv s1 (spEnv change) else s1)"
  from run obtain s3 where ex: "applyExpose Y s2 (spExpose change) = Inr s3" and st: "applyStorage s3 (spStorage change) = Inr s'"
    unfolding apply_service_def Let_def s1_def [symmetric] s2_def [symmetric] by (auto simp: rbind_Inr_iff)
  have k: "k \<noteq> ''env'' \<Longrightarrow> map_of s2 k = map_of s1 k" "k \<noteq> ''expose'' \<Longrightarrow> map_of s3 k = map_of s2 k"
    "k \<noteq> ''params'' \<Longrightarrow> map_of s' k = map_of s3 k" for k
    using map_of_applyExpose [OF ex] map_of_applyStorage [OF st] by (auto simp: s2_def map_of_applyEnv)
  have late: "map_of s' k = map_of s1 k" if "k \<notin> {''env'', ''expose'', ''params''}" for k using that k by simp
  have late': "oget s' k = oget s1 k" if "k \<notin> {''env'', ''expose'', ''params''}" for k using late [OF that] by (rule map_of_oget)
  have frame: "map_of s' k = map_of s k"
    if "k \<notin> {''image'', ''command'', ''args'', ''credentials'', ''env'', ''expose'', ''params''}" for k
    using that by (simp add: late s1_def assign_fields_spec)
  have expo: "spExpose change = [] \<Longrightarrow> oget s' ''expose'' = oget s ''expose''"
  proof (rule map_of_oget)
    assume "spExpose change = []"
    then have "s3 = s2" using ex by (simp add: applyExpose_def)
    then show "map_of s' ''expose'' = map_of s ''expose''" by (simp add: k s1_def assign_fields_spec)
  qed
  have "env_entries s' key = env_entries s2 key" "env_entries s1 key = env_entries s key" for key
    by (simp_all add: env_entries_def oget_def k s1_def assign_fields_spec)
  then have env': "env_entries s' key = (case map_of (spEnv change) key of
        None \<Rightarrow> env_entries s key | Some None \<Rightarrow> [] | Some (Some v) \<Rightarrow> [JStr (key @ ''='' @ v)])" for key
    using applyEnv_entries [OF env, of s1 key] by (cases "spEnv change"; cases "map_of (spEnv change) key") (auto simp: s2_def)
  have par: "oget s3 ''params'' = oget s ''params''" by (rule map_of_oget) (simp add: k s1_def assign_fields_spec)
  then have "storage_of s3 = storage_of s" by (simp add: storage_of_def)
  with applyStorage_volumes [OF st] par frame expo env' show ?thesis
    unfolding service_patched_def by (intro conjI) (simp_all add: late' s1_def assign_fields_spec)
qed

section \<open>The values a patch sets\<close>

lemma map_of_oputs:
  "distinct (map fst kvs) \<Longrightarrow> map_of (foldl (\<lambda>m (k, v). oput k v m) m kvs) = map_of m ++ map_of kvs"
proof (induction kvs arbitrary: m)
  case (Cons kv kvs)
  obtain k v where kv: "kv = (k, v)" by force
  have "map_of kvs k = None" using Cons.prems kv by (simp add: map_of_eq_None_iff)
  with Cons kv show ?case by (auto simp: fun_eq_iff map_add_def split: option.splits)
qed simp

text \<open>The value of an HTTP option under its name in a manifest.\<close>

definition http_value :: "HTTPOptionsPatch \<Rightarrow> string \<Rightarrow> json option" where
  "http_value options name =
     (let num = map_option (\<lambda>n :: u32. JNum (Fin (of_nat (unat n)))) in
      if name = ''max_body_size'' then num (hoMaxBodySize options)
      else if name = ''read_timeout'' then num (hoReadTimeout options)
      else if name = ''send_timeout'' then num (hoSendTimeout options)
      else if name = ''next_tries'' then num (hoNextTries options)
      else if name = ''next_timeout'' then num (hoNextTimeout options)
      else if name = ''next_cases'' then map_option (\<lambda>cs. JArr (map JStr cs)) (hoNextCases options)
      else None)"

lemma put_option: "okeys m \<Longrightarrow> okeys (case v of None \<Rightarrow> m | Some x \<Rightarrow> oput name x m)"
  "map_of (case v of None \<Rightarrow> m | Some x \<Rightarrow> oput name x m) k = (if k = name \<and> v \<noteq> None then v else map_of m k)"
  by (auto split: option.split)

lemma httpOptionValues_spec: "okeys (httpOptionValues options)" "map_of (httpOptionValues options) k = http_value options k"
proof -
  show "okeys (httpOptionValues options)"
    unfolding httpOptionValues_def foldl.simps prod.case by (intro put_option(1)) simp
  show "map_of (httpOptionValues options) k = http_value options k"
    unfolding httpOptionValues_def foldl.simps prod.case put_option(2) by (auto simp: http_value_def Let_def)
qed

text \<open>An endpoint with the changes of a patch, and all other fields as they were.\<close>

definition endpoint_patched :: "ExposePatch \<Rightarrow> obj \<Rightarrow> obj \<Rightarrow> bool" where
  "endpoint_patched p e e' \<longleftrightarrow>
     (\<forall>k. k \<notin> {''port'', ''as'', ''accept'', ''http_options''} \<longrightarrow> map_of e' k = map_of e k) \<and>
     map_of e' ''port'' = (case epPort p of None \<Rightarrow> map_of e ''port'' | Some n \<Rightarrow> Some (JNum (Fin (of_nat (unat n))))) \<and>
     map_of e' ''as'' = (case epAs p of None \<Rightarrow> map_of e ''as'' | Some n \<Rightarrow> Some (JNum (Fin (of_nat (unat n))))) \<and>
     map_of e' ''accept'' = (case epAccept p of None \<Rightarrow> map_of e ''accept'' | Some hosts \<Rightarrow> Some (JArr (map JStr hosts))) \<and>
     (let new = (\<lambda>k. case epHTTPOptions p of None \<Rightarrow> None | Some o' \<Rightarrow> http_value o' k) in
      if \<forall>k. new k = None then map_of e' ''http_options'' = map_of e ''http_options''
      else \<exists>m. map_of e' ''http_options'' = Some (JObj m) \<and> map_of m = map_of (obj_or_nil (oget e ''http_options'')) ++ new)"

lemma map_of_set_port: "map_of (set_port name v entry) k = (if k = name \<and> v \<noteq> None then map_option (\<lambda>n. JNum (Fin (of_nat (unat n)))) v else map_of entry k)"
  by (auto simp: set_port_def split: option.split)

lemma endpoint_patched_intro: "endpoint_patched p e (set_options p (move_ports p e))"
proof -
  define m where "m = move_ports p e"
  define a where "a = (case epAccept p of None \<Rightarrow> m | Some hosts \<Rightarrow> oput ''accept'' (JArr (map JStr hosts)) m)"
  have m: "map_of m k = (if k = ''as'' \<and> epAs p \<noteq> None then map_option (\<lambda>n. JNum (Fin (of_nat (unat n)))) (epAs p)
      else if k = ''port'' \<and> epPort p \<noteq> None then map_option (\<lambda>n. JNum (Fin (of_nat (unat n)))) (epPort p) else map_of e k)" for k
    by (auto simp: m_def move_ports_def map_of_set_port)
  have a: "map_of a k = (if k = ''accept'' \<and> epAccept p \<noteq> None then map_option (\<lambda>hosts. JArr (map JStr hosts)) (epAccept p) else map_of m k)" for k
    by (auto simp: a_def split: option.split)
  define new where "new = (\<lambda>k. case epHTTPOptions p of None \<Rightarrow> None | Some o' \<Rightarrow> http_value o' k)"
  have opt: "oget a ''http_options'' = oget e ''http_options''" by (simp add: oget_def a m)
  have s: "set_options p m = a" if "\<forall>k. new k = None"
  proof (cases "epHTTPOptions p")
    case (Some o')
    with that have "map_of (httpOptionValues o') = Map.empty" by (simp add: new_def httpOptionValues_spec(2) fun_eq_iff)
    then have "httpOptionValues o' = []" by (metis map_of_eq_empty_iff)
    with Some show ?thesis by (simp add: set_options_def a_def Let_def)
  qed (simp add: set_options_def a_def Let_def)
  have t: "\<exists>x. set_options p m = oput ''http_options'' (JObj x) a \<and> map_of x = map_of (obj_or_nil (oget e ''http_options'')) ++ new"
    if some: "\<not> (\<forall>k. new k = None)"
  proof -
    from some obtain o' where o': "epHTTPOptions p = Some o'" by (cases "epHTTPOptions p") (auto simp: new_def)
    have new: "map_of (httpOptionValues o') = new" by (simp add: new_def o' httpOptionValues_spec(2) fun_eq_iff)
    then have "httpOptionValues o' \<noteq> []" using some by auto
    moreover note map_of_oputs [OF okeys_distinct [OF httpOptionValues_spec(1)], of _ o']
    ultimately have "set_options p m = oput ''http_options'' (JObj (foldl (\<lambda>m (k, v). oput k v m)
        (obj_or_nil (oget e ''http_options'')) (httpOptionValues o'))) a"
      "map_of (foldl (\<lambda>m (k, v). oput k v m) (obj_or_nil (oget e ''http_options'')) (httpOptionValues o')) =
        map_of (obj_or_nil (oget e ''http_options'')) ++ new"
      by (simp_all add: set_options_def a_def [symmetric] Let_def o' opt new)
    then show ?thesis by blast
  qed
  show ?thesis
  proof (cases "\<forall>k. new k = None")
    case True
    with s have "set_options p (move_ports p e) = a" by (simp add: m_def)
    with True show ?thesis
      unfolding endpoint_patched_def Let_def new_def [symmetric] by (simp add: a m split: option.split)
  next
    case False
    with t obtain x where x: "set_options p (move_ports p e) = oput ''http_options'' (JObj x) a"
      "map_of x = map_of (obj_or_nil (oget e ''http_options'')) ++ new" by (auto simp: m_def)
    from False x(2) show ?thesis
      unfolding endpoint_patched_def Let_def new_def [symmetric] x(1) by (auto simp: a m split: option.split)
  qed
qed

text \<open>Endpoints after a patch: each port it names is that of one endpoint, which is changed as it says; the others are as before.\<close>

definition endpoints_patched :: "yaml \<Rightarrow> (string \<times> ExposePatch) list \<Rightarrow> obj \<Rightarrow> obj \<Rightarrow> bool" where
  "endpoints_patched Y patch s s' \<longleftrightarrow>
     (if patch = [] then map_of s' ''expose'' = map_of s ''expose''
      else \<exists>before after. oget s ''expose'' = JArr (map JObj before) \<and> oget s' ''expose'' = JArr (map JObj after) \<and> length after = length before \<and>
        (\<forall>i < length before. (\<forall>port \<in> fst ` set patch. \<not> port_matches Y port (before ! i)) \<longrightarrow> after ! i = before ! i) \<and>
        (\<forall>(port, p) \<in> set patch. \<exists>i < length before. (\<forall>j < length before. port_matches Y port (before ! j) \<longleftrightarrow> j = i) \<and>
           endpoint_patched p (before ! i) (after ! i)))"

lemma move_all_named:
  "foldM (move_endpoint Y before) s patch = Inr s' \<Longrightarrow>
    set (snd s) \<subseteq> set (snd s') \<and> (\<forall>(port, p) \<in> set patch. \<exists>i. matching Y before port = [i] \<and> (i, p) \<in> set (snd s'))"
proof (induction patch arbitrary: s)
  case (Cons x patch)
  obtain port p where x: "x = (port, p)" by force
  from Cons.prems x obtain s1 where s1: "move_endpoint Y before s (port, p) = Inr s1" "foldM (move_endpoint Y before) s1 patch = Inr s'"
    by (auto simp: rbind_Inr_iff)
  from s1(1) obtain i where i: "matching Y before port = [i]" "snd s1 = snd s @ [(i, p)]"
    by (auto simp: move_endpoint_def Let_def split: prod.splits list.splits if_splits)
  from Cons.IH [OF s1(2)] i x show ?case by auto
qed simp

lemma matching_unique: "matching Y before port = [i] \<Longrightarrow> j < length before \<Longrightarrow> port_matches Y port (before ! j) \<longleftrightarrow> j = i"
proof -
  assume "matching Y before port = [i]" and j: "j < length before"
  then have "set (matching Y before port) = {i}" by simp
  with j show ?thesis by (auto simp: matching_def)
qed

lemma applyExpose_patched:
  assumes run: "applyExpose Y service patch = Inr service'" and dist: "distinct (map fst patch)"
  shows "endpoints_patched Y patch service service'"
proof (cases "patch = []")
  case True
  with run show ?thesis by (simp add: endpoints_patched_def applyExpose_def)
next
  case ne: False
  from run ne obtain before mid changed where e: "oget service ''expose'' = JArr (map JObj before)"
    and mv: "foldM (move_endpoint Y before) (before, []) patch = Inr (mid, changed)"
    and s': "service' = oput ''expose'' (JArr (foldl (\<lambda>xs (i, p). xs[i := JObj (set_options p (mid ! i))]) (map JObj before) changed)) service"
    by (rule applyExpose_run)
  have "moved Y before (fst ` set patch) (before, [])" by (simp add: moved_def)
  from move_all_moved [OF mv this dist] have m: "moved Y before {} (mid, changed)"
    and src: "\<And>i. i \<in> fst ` set changed \<Longrightarrow> \<exists>port \<in> fst ` set patch. port_matches Y port (before ! i)" by auto
  have named: "\<exists>i. matching Y before port = [i] \<and> (i, p) \<in> set changed" if "(port, p) \<in> set patch" for port p
    using move_all_named [OF mv] that by auto
  let ?after = "map (final before mid changed) [0..<length before]"
  have "oget service' ''expose'' = JArr (map JObj ?after)" unfolding s' final_facts(4) [OF m] by simp
  moreover have "?after ! i = before ! i"
    if "i < length before" "\<forall>port \<in> fst ` set patch. \<not> port_matches Y port (before ! i)" for i
  proof -
    have "map_of changed i = None" using src [of i] that(2) by (auto simp: map_of_eq_None_iff)
    with that(1) show ?thesis by (simp add: final_def)
  qed
  moreover have "\<exists>i < length before. (\<forall>j < length before. port_matches Y port (before ! j) \<longleftrightarrow> j = i) \<and> endpoint_patched p (before ! i) (?after ! i)"
    if "(port, p) \<in> set patch" for port p
  proof -
    from named [OF that] obtain i where i: "matching Y before port = [i]" "(i, p) \<in> set changed" by blast
    have "distinct (map fst changed)" "i < length before" "mid ! i = move_ports p (before ! i)" using m i(2) by (auto simp: moved_def)
    moreover from this(1) i(2) have "map_of changed i = Some p" by (rule map_of_is_SomeI)
    ultimately have "?after ! i = set_options p (move_ports p (before ! i))" "i < length before" by (simp_all add: final_def)
    with endpoint_patched_intro matching_unique [OF i(1)] show ?thesis by auto
  qed
  ultimately show ?thesis using e ne unfolding endpoints_patched_def
    by (simp only: if_False) (intro exI [of _ before] exI [of _ ?after] conjI; auto)
qed

text \<open>Volumes after a patch.\<close>

definition volume_patched :: "StoragePatch \<Rightarrow> obj \<Rightarrow> obj \<Rightarrow> bool" where
  "volume_patched c v v' \<longleftrightarrow>
     (\<forall>k. k \<notin> {''mount'', ''readOnly''} \<longrightarrow> map_of v' k = map_of v k) \<and>
     map_of v' ''mount'' = (case stMount c of None \<Rightarrow> map_of v ''mount'' | Some path \<Rightarrow> Some (JStr path)) \<and>
     map_of v' ''readOnly'' = (case stReadOnly c of None \<Rightarrow> map_of v ''readOnly'' | Some b \<Rightarrow> Some (JBool b))"

definition volumes_patched :: "(string \<times> StoragePatch) list \<Rightarrow> obj \<Rightarrow> obj \<Rightarrow> bool" where
  "volumes_patched patch s s' \<longleftrightarrow>
     (patch = [] \<longrightarrow> map_of s' ''params'' = map_of s ''params'') \<and>
     (\<forall>name. name \<notin> fst ` set patch \<longrightarrow> map_of (storage_of s') name = map_of (storage_of s) name) \<and>
     (\<forall>(name, c) \<in> set patch. \<exists>v v'. oget (storage_of s) name = JObj v \<and> oget (storage_of s') name = JObj v' \<and> volume_patched c v v')"

lemma volume_patched_intro: "volume_patched c v (set_volume c v)"
  by (auto simp: volume_patched_def set_volume_def Let_def split: option.split)

lemma change_volume_named:
  "foldM change_volume storage patch = Inr storage' \<Longrightarrow> distinct (map fst patch) \<Longrightarrow> (name, c) \<in> set patch \<Longrightarrow>
    \<exists>v v'. oget storage name = JObj v \<and> oget storage' name = JObj v' \<and> volume_patched c v v'"
proof (induction patch arbitrary: storage)
  case (Cons x patch)
  obtain n d where x: "x = (n, d)" by force
  from Cons.prems(1) x obtain s1 where s1: "change_volume storage (n, d) = Inr s1" "foldM change_volume s1 patch = Inr storage'"
    by (auto simp: rbind_Inr_iff)
  from s1(1) obtain v where v: "oget storage n = JObj v" "s1 = oput n (JObj (set_volume d v)) storage"
    by (auto simp: change_volume_def rbind_Inr_iff)
  show ?case
  proof (cases "(name, c) = (n, d)")
    case True
    have "n \<notin> fst ` set patch" using Cons.prems(2) x by simp
    from change_volume_keeps(2) [OF s1(2) this] v(2) have "oget storage' n = JObj (set_volume d v)" by (simp add: oget_def)
    with True v(1) volume_patched_intro show ?thesis by auto
  next
    case False
    with Cons.prems x have "(name, c) \<in> set patch" "name \<noteq> n" by (auto simp: rev_image_eqI)
    with Cons.IH [OF s1(2)] Cons.prems(2) v(2) x show ?thesis by simp
  qed
qed simp

lemma applyStorage_patched:
  assumes run: "applyStorage service patch = Inr service'" and dist: "distinct (map fst patch)"
  shows "volumes_patched patch service service'"
proof (cases "patch = []")
  case True
  with run show ?thesis by (simp add: volumes_patched_def applyStorage_def)
next
  case False
  with run obtain st where st: "foldM change_volume (storage_of service) patch = Inr st"
    "service' = oput ''params'' (JObj (oput ''storage'' (JObj st) (obj_or_nil (oget service ''params'')))) service"
    by (auto simp: applyStorage_def storage_of_def Let_def rbind_Inr_iff)
  have "storage_of service' = st" by (simp add: st(2) storage_of_def)
  with False change_volume_keeps(2) [OF st(1)] change_volume_named [OF st(1) dist] show ?thesis
    unfolding volumes_patched_def by auto
qed

text \<open>
  A field that a patch leaves alone, removes or sets; the credentials, which it merges by key; and
  the environment entries that are no assignments.
\<close>

definition set_or_removed :: "json option \<Rightarrow> json option \<Rightarrow> json option" where
  "set_or_removed raw old = (case raw of None \<Rightarrow> old | Some JNull \<Rightarrow> None | Some v \<Rightarrow> Some v)"

definition credentials_patched :: "json option \<Rightarrow> obj \<Rightarrow> obj \<Rightarrow> bool" where
  "credentials_patched raw s s' \<longleftrightarrow>
     (case raw of
        None \<Rightarrow> map_of s' ''credentials'' = map_of s ''credentials''
      | Some v \<Rightarrow>
          if v = JNull then map_of s' ''credentials'' = None
          else \<exists>m. map_of s' ''credentials'' = Some (JObj m) \<and>
            map_of m = map_of (obj_or_nil (oget s ''credentials'')) ++ map_of (obj_or_nil v))"

definition service_edited :: "yaml \<Rightarrow> ServicePatch \<Rightarrow> obj \<Rightarrow> obj \<Rightarrow> bool" where
  "service_edited Y change s s' \<longleftrightarrow>
     service_patched change s s' \<and>
     map_of s' ''image'' = (case spImage change of None \<Rightarrow> map_of s ''image'' | Some i \<Rightarrow> Some (JStr i)) \<and>
     map_of s' ''command'' = set_or_removed (spCommand change) (map_of s ''command'') \<and>
     map_of s' ''args'' = set_or_removed (spArgs change) (map_of s ''args'') \<and>
     credentials_patched (spCredentials change) s s' \<and>
     (spEnv change = [] \<longrightarrow> map_of s' ''env'' = map_of s ''env'') \<and>
     filter (\<lambda>e. \<not> is_str e) (arr_or_nil (oget s' ''env'')) = filter (\<lambda>e. \<not> is_str e) (arr_or_nil (oget s ''env'')) \<and>
     endpoints_patched Y (spExpose change) s s' \<and>
     volumes_patched (spStorage change) s s'"

lemma clear_field_value:
  "name \<noteq> ''credentials'' \<Longrightarrow> map_of (clear_field (name, raw) m) name = set_or_removed raw (map_of m name)"
  by (auto simp: clear_field_def set_or_removed_def split: option.splits json.splits)

lemma credentials_patched_cong:
  "map_of s ''credentials'' = map_of t ''credentials'' \<Longrightarrow> map_of s' ''credentials'' = map_of t' ''credentials'' \<Longrightarrow>
    credentials_patched raw s s' = credentials_patched raw t t'"
  by (auto simp: credentials_patched_def oget_def split: option.split)

lemma clear_credentials:
  assumes "\<And>v. raw = Some v \<Longrightarrow> distinct (map fst (obj_or_nil v))"
  shows "credentials_patched raw m (clear_field (''credentials'', raw) m)"
proof (cases raw)
  case (Some v)
  show ?thesis
  proof (cases "v = JNull")
    case False
    then have "clear_field (''credentials'', raw) m = oput ''credentials'' (JObj (foldl (\<lambda>c (key, v). oput key v c)
        (obj_or_nil (oget m ''credentials'')) (obj_or_nil v))) m"
      using Some by (cases v) (simp_all add: clear_field_def)
    with False Some map_of_oputs [OF assms [OF Some]] show ?thesis by (simp add: credentials_patched_def)
  qed (simp add: Some clear_field_def credentials_patched_def)
qed (simp add: clear_field_def credentials_patched_def)

lemma assign_fields_values:
  assumes "\<And>v. spCredentials change = Some v \<Longrightarrow> distinct (map fst (obj_or_nil v))"
  shows "map_of (assign_fields change s) ''image'' = (case spImage change of None \<Rightarrow> map_of s ''image'' | Some i \<Rightarrow> Some (JStr i))"
    "map_of (assign_fields change s) ''command'' = set_or_removed (spCommand change) (map_of s ''command'')"
    "map_of (assign_fields change s) ''args'' = set_or_removed (spArgs change) (map_of s ''args'')"
    "credentials_patched (spCredentials change) s (assign_fields change s)"
proof -
  define s1 where "s1 = (case spImage change of None \<Rightarrow> s | Some img \<Rightarrow> oput ''image'' (JStr img) s)"
  define s2 where "s2 = clear_field (''args'', spArgs change) (clear_field (''command'', spCommand change) s1)"
  have a: "assign_fields change s = clear_field (''credentials'', spCredentials change) s2"
    by (simp add: assign_fields_def s1_def s2_def)
  have s1: "map_of s1 ''image'' = (case spImage change of None \<Rightarrow> map_of s ''image'' | Some i \<Rightarrow> Some (JStr i))"
    "k \<noteq> ''image'' \<Longrightarrow> map_of s1 k = map_of s k" for k
    by (auto simp: s1_def split: option.split)
  show "map_of (assign_fields change s) ''image'' = (case spImage change of None \<Rightarrow> map_of s ''image'' | Some i \<Rightarrow> Some (JStr i))"
    "map_of (assign_fields change s) ''command'' = set_or_removed (spCommand change) (map_of s ''command'')"
    "map_of (assign_fields change s) ''args'' = set_or_removed (spArgs change) (map_of s ''args'')"
    by (simp_all add: a s2_def map_of_clear_field clear_field_value s1)
  have "map_of s2 ''credentials'' = map_of s ''credentials''" by (simp add: s2_def map_of_clear_field s1)
  from credentials_patched_cong [OF this refl] clear_credentials [of "spCredentials change" s2, OF assms]
  show "credentials_patched (spCredentials change) s (assign_fields change s)" unfolding a by blast
qed

lemma applyEnv_other:
  "filter (\<lambda>e. \<not> is_str e) (arr_or_nil (oget (applyEnv service patch) ''env'')) = filter (\<lambda>e. \<not> is_str e) (arr_or_nil (oget service ''env''))"
proof -
  define kept where "kept = filter (\<lambda>entry. case entry of JStr s \<Rightarrow> map_of patch (env_key s) = None | _ \<Rightarrow> True) (arr_or_nil (oget service ''env''))"
  define new where "new = List.map_filter (\<lambda>k. case map_of patch k of Some (Some v) \<Rightarrow> Some (JStr (k @ ''='' @ v)) | _ \<Rightarrow> None) (sort (map fst patch))"
  have "arr_or_nil (oget (applyEnv service patch) ''env'') = kept @ new"
    by (simp add: applyEnv_def Let_def kept_def [symmetric] new_def [symmetric])
  moreover have "filter (\<lambda>e. \<not> is_str e) new = []"
    by (auto simp: new_def map_filter_def filter_empty_conv is_str_def split: option.splits)
  moreover have "filter (\<lambda>e. \<not> is_str e) kept = filter (\<lambda>e. \<not> is_str e) (arr_or_nil (oget service ''env''))"
    by (auto simp: kept_def is_str_def split: json.splits intro!: filter_cong)
  ultimately show ?thesis by simp
qed

lemma apply_service_edited:
  assumes run: "apply_service Y change s = Inr s'" and env: "distinct (map fst (spEnv change))" "\<And>k. k \<in> fst ` set (spEnv change) \<Longrightarrow> validEnvName k"
    and names: "distinct (map fst (spExpose change))" "distinct (map fst (spStorage change))"
      "\<And>v. spCredentials change = Some v \<Longrightarrow> distinct (map fst (obj_or_nil v))"
  shows "service_edited Y change s s'"
proof -
  define s1 where "s1 = assign_fields change s"
  define s2 where "s2 = (if 0 < length (spEnv change) then applyEnv s1 (spEnv change) else s1)"
  from run obtain s3 where ex: "applyExpose Y s2 (spExpose change) = Inr s3" and st: "applyStorage s3 (spStorage change) = Inr s'"
    unfolding apply_service_def Let_def s1_def [symmetric] s2_def [symmetric] by (auto simp: rbind_Inr_iff)
  have k: "k \<noteq> ''env'' \<Longrightarrow> map_of s2 k = map_of s1 k" "k \<noteq> ''expose'' \<Longrightarrow> map_of s3 k = map_of s2 k"
    "k \<noteq> ''params'' \<Longrightarrow> map_of s' k = map_of s3 k" for k
    using map_of_applyExpose [OF ex] map_of_applyStorage [OF st] by (auto simp: s2_def map_of_applyEnv)
  have first: "map_of s1 k = map_of s k" if "k \<in> {''env'', ''expose'', ''params''}" for k
    using that by (auto simp: s1_def assign_fields_spec(1))
  have late: "map_of s' k = map_of s1 k" if "k \<notin> {''env'', ''expose'', ''params''}" for k using that k by simp
  have vals: "map_of s1 ''image'' = (case spImage change of None \<Rightarrow> map_of s ''image'' | Some i \<Rightarrow> Some (JStr i))"
    "map_of s1 ''command'' = set_or_removed (spCommand change) (map_of s ''command'')"
    "map_of s1 ''args'' = set_or_removed (spArgs change) (map_of s ''args'')"
    "credentials_patched (spCredentials change) s s1"
    unfolding s1_def using names(3) by (rule assign_fields_values; blast)+
  have same: "map_of s' ''credentials'' = map_of s1 ''credentials''" by (rule late) simp
  have cred: "credentials_patched (spCredentials change) s s'"
    by (rule credentials_patched_cong [OF refl same, THEN iffD2]) (rule vals(4))
  have env_none: "map_of s' ''env'' = map_of s ''env''" if "spEnv change = []" using that by (simp add: k first s2_def)
  have "oget s' ''env'' = oget s2 ''env''" "oget s1 ''env'' = oget s ''env''" by (simp_all add: oget_def k first)
  then have env_other: "filter (\<lambda>e. \<not> is_str e) (arr_or_nil (oget s' ''env'')) = filter (\<lambda>e. \<not> is_str e) (arr_or_nil (oget s ''env''))"
    using applyEnv_other [of s1 "spEnv change"] by (simp add: s2_def)
  have "map_of s2 ''expose'' = map_of s ''expose''" "map_of s' ''expose'' = map_of s3 ''expose''" by (simp_all add: k first)
  then have "endpoints_patched Y (spExpose change) s s' = endpoints_patched Y (spExpose change) s2 s3"
    by (simp only: endpoints_patched_def oget_def)
  with applyExpose_patched [OF ex names(1)] have expo: "endpoints_patched Y (spExpose change) s s'" by simp
  have "map_of s3 ''params'' = map_of s ''params''" by (simp add: k first)
  then have "volumes_patched (spStorage change) s s' = volumes_patched (spStorage change) s3 s'"
    by (simp only: volumes_patched_def storage_of_def oget_def)
  with applyStorage_patched [OF st names(2)] have vols: "volumes_patched (spStorage change) s s'" by simp
  show ?thesis
    unfolding service_edited_def
    using apply_service_patched [OF run env] vals(1-3) cred env_none env_other expo vols by (simp add: late)
qed

text \<open>Patches as they are decoded: maps, in which a name occurs once.\<close>

definition patch_maps :: "Patch \<Rightarrow> bool" where
  "patch_maps patch \<longleftrightarrow> distinct (map fst (paServices patch)) \<and> list_all (\<lambda>(_, s). distinct (map fst (spEnv s))) (paServices patch)"

definition patch_names :: "Patch \<Rightarrow> bool" where
  "patch_names patch \<longleftrightarrow> patch_maps patch \<and>
     list_all (\<lambda>(_, s). distinct (map fst (spExpose s)) \<and> distinct (map fst (spStorage s)) \<and>
       (case spCredentials s of None \<Rightarrow> True | Some v \<Rightarrow> distinct (map fst (obj_or_nil v)))) (paServices patch)"

lemma Validate_env:
  assumes "Validate patch = Inr ()" and "(name, change) \<in> set (paServices patch)" and "key \<in> fst ` set (spEnv change)"
  shows "validEnvName key"
proof -
  from assms(1) have "\<forall>kv \<in> set (paServices patch). validate_service (snd kv) = Inr ()"
    by (simp add: Validate_def rbind_Inr_iff foldM_unit_iff)
  with assms(2) have "validate_service change = Inr ()" by force
  with assms(3) show ?thesis by (auto simp: validate_service_def rbind_Inr_iff foldM_unit_iff)
qed

lemma patch_services:
  assumes run: "foldM (patch_service Y) services changes = Inr services'" and dist: "distinct (map fst changes)"
  shows "(\<forall>name. name \<notin> fst ` set changes \<longrightarrow> map_of services' name = map_of services name) \<and>
    (\<forall>(name, change) \<in> set changes. \<exists>s s'. map_of services name = Some (JObj s) \<and> map_of services' name = Some (JObj s') \<and>
      apply_service Y change s = Inr s')"
  using assms
proof (induction changes arbitrary: services)
  case (Cons x changes)
  obtain n c where x: "x = (n, c)" by force
  from Cons.prems(1) x obtain m where m: "patch_service Y services (n, c) = Inr m" "foldM (patch_service Y) m changes = Inr services'"
    by (auto simp: rbind_Inr_iff)
  then obtain s s1 where s: "oget services n = JObj s" "apply_service Y c s = Inr s1"
    and rest: "foldM (patch_service Y) (oput n (JObj s1) services) changes = Inr services'"
    by (auto simp: patch_service_def rbind_Inr_iff)
  have "map_of services n = Some (JObj s)" using s(1) by (auto simp: oget_def split: option.splits)
  with Cons.IH [OF rest] Cons.prems(2) s x show ?case by (fastforce simp: rev_image_eqI split: if_splits)
qed simp

lemma Apply_run:
  assumes "Apply Y sdl patch = Inr out"
  obtains document services services' where "Validate patch = Inr ()" "parseObject Y sdl = Inr document"
    "oget document ''services'' = JObj services" "foldM (patch_service Y) services (paServices patch) = Inr services'"
    "out = yMarshal Y (JObj (oput ''services'' (JObj services') document))" "length out \<le> maxDocumentBytes"
  using assms unfolding Apply_def apply_document_def by (auto simp: rbind_Inr_iff Let_def not_less split: if_splits)

text \<open>
  C5.  A patch changes what it names and nothing else.  Outside the services the document is
  as before, and services without a patch are as before.  In a patched service the image is
  the one given; command and arguments are the given ones, or removed by a null; credentials
  are removed by a null and otherwise merged key by key; a variable is set, removed or left as
  it was, with one assignment for each that is set; each port that is named is that of exactly
  one endpoint, whose ports, accepted hosts and HTTP options are those given, its other fields
  and the other endpoints unchanged; each volume that is named exists and has the given mount
  path and read-only flag, its other fields and the other volumes unchanged.  Resources and
  unknown fields are never touched.
\<close>

theorem Apply_changes_only_named:
  assumes run: "Apply Y sdl patch = Inr out" and names: "patch_names patch"
  shows "\<exists>document document' services services'. parseObject Y sdl = Inr document \<and> out = yMarshal Y (JObj document') \<and>
    length out \<le> maxDocumentBytes \<and>
    map_of document ''services'' = Some (JObj services) \<and> map_of document' ''services'' = Some (JObj services') \<and>
    (\<forall>k. k \<noteq> ''services'' \<longrightarrow> map_of document' k = map_of document k) \<and>
    (\<forall>name. name \<notin> fst ` set (paServices patch) \<longrightarrow> map_of services' name = map_of services name) \<and>
    (\<forall>(name, change) \<in> set (paServices patch). \<exists>s s'. map_of services name = Some (JObj s) \<and> map_of services' name = Some (JObj s') \<and>
      service_edited Y change s s')"
proof -
  from run obtain document services services' where val: "Validate patch = Inr ()" and doc: "parseObject Y sdl = Inr document"
    and sv: "oget document ''services'' = JObj services" and f: "foldM (patch_service Y) services (paServices patch) = Inr services'"
    and out: "out = yMarshal Y (JObj (oput ''services'' (JObj services') document))" "length out \<le> maxDocumentBytes"
    by (rule Apply_run)
  have d: "distinct (map fst (paServices patch))" using names by (simp add: patch_names_def patch_maps_def)
  note p = patch_services [OF f d]
  have ok: "service_edited Y change s s'" if "(name, change) \<in> set (paServices patch)" "apply_service Y change s = Inr s'" for name change s s'
    using that names Validate_env [OF val that(1)]
    by (intro apply_service_edited) (auto simp: patch_names_def patch_maps_def list_all_iff split: option.splits)
  have "map_of document ''services'' = Some (JObj services)" using sv by (auto simp: oget_def split: option.splits)
  moreover have "\<forall>(name, change) \<in> set (paServices patch). \<exists>s s'. map_of services name = Some (JObj s) \<and> map_of services' name = Some (JObj s') \<and>
      service_edited Y change s s'" using p ok by blast
  ultimately show ?thesis using doc out p
    by (intro exI [of _ document] exI [of _ "oput ''services'' (JObj services') document"] exI [of _ services] exI [of _ services']) simp
qed

end
