(* ===== verification/Deployment_Diff.thy ===== *)
theory Deployment_Diff
  imports Deployment_Props
begin

text \<open>
  A patch derived from two manifests: that it does what was asked, and that manifests which
  differ in anything a patch cannot express are refused.
\<close>

section \<open>Deriving a patch\<close>

lemma okeys_foldl_oput:
  assumes "\<And>acc x. okeys acc \<Longrightarrow> okeys (f acc x)" and "okeys acc"
  shows "okeys (foldl f acc xs)"
  using assms by (induction xs arbitrary: acc) auto

lemma okeys_diffEnv: "diffEnv current requested = Inr m \<Longrightarrow> okeys m"
proof (cases "current = requested")
  case False
  assume "diffEnv current requested = Inr m"
  with False obtain old desired where run: "foldM (\<lambda>patch (name, v).
        if map_of old name = Some v then Inr patch else if v = JNull then Inl Unrepresentable else Inr (oput name v patch))
      (foldl (\<lambda>patch (name, _). if map_of desired name = None then oput name JNull patch else patch) [] old) desired = Inr m"
    by (auto simp: diffEnv_def rbind_Inr_iff Let_def)
  show ?thesis
    by (rule foldM_invariant [OF run]) (auto intro!: okeys_foldl_oput split: if_splits)
qed (simp add: diffEnv_def)

lemma decode_entries_keys: "decode_entries dec m = Some r \<Longrightarrow> map fst r = map fst m"
  by (induction dec m arbitrary: r rule: decode_entries.induct) (auto split: option.splits)

text \<open>The fields of a service that differ, before they are decoded.\<close>

lemma diff_service_cases:
  assumes "diff_service Y oldServices services (name, raw) = Inr services'"
  obtains desired old fs env expose storage where "raw = JObj desired" "oget oldServices name = JObj old"
    "foldM (diff_field old desired) [] [''image'', ''command'', ''args'', ''credentials''] = Inr fs"
    "diffEnv (oget old ''env'') (oget desired ''env'') = Inr env"
    "diffExpose Y (oget old ''expose'') (oget desired ''expose'') = Inr expose" "diffStorage old desired = Inr storage"
    "services' = services \<or> (\<exists>service. decode_service (JObj (put_nonempty ''storage'' storage
       (put_nonempty ''expose'' expose (put_nonempty ''env'' env fs)))) = Some service \<and> services' = oput name service services)"
    "fs = [] \<Longrightarrow> env = [] \<Longrightarrow> expose = [] \<Longrightarrow> storage = [] \<Longrightarrow> services' = services"
proof -
  from assms obtain desired old fs env expose storage where a: "raw = JObj desired" "oget oldServices name = JObj old"
    "foldM (diff_field old desired) [] [''image'', ''command'', ''args'', ''credentials''] = Inr fs"
    "diffEnv (oget old ''env'') (oget desired ''env'') = Inr env"
    "diffExpose Y (oget old ''expose'') (oget desired ''expose'') = Inr expose" "diffStorage old desired = Inr storage"
    and r: "(let fields = put_nonempty ''storage'' storage (put_nonempty ''expose'' expose (put_nonempty ''env'' env fs))
     in if length fields = 0 then Inr services
        else rbind (of_opt Unrepresentable (decode_service (JObj fields))) (\<lambda>service. Inr (oput name service services))) = Inr services'"
    unfolding diff_service_def by (auto simp only: rbind_Inr_iff split_conv of_opt_Inr_iff as_obj_Some_iff)
  have "services' = services \<or> (\<exists>service. decode_service (JObj (put_nonempty ''storage'' storage
       (put_nonempty ''expose'' expose (put_nonempty ''env'' env fs)))) = Some service \<and> services' = oput name service services)"
    using r by (auto simp: Let_def rbind_Inr_iff split: if_splits)
  moreover have "services' = services" if "fs = []" "env = []" "expose = []" "storage = []"
    using r that by (simp add: put_nonempty_def)
  ultimately show ?thesis using a that by blast
qed

lemma oget_put_nonempty: "k \<noteq> name \<Longrightarrow> oget (put_nonempty name m fs) k = oget fs k"
  by (simp add: put_nonempty_def)

lemma diff_fields_env:
  assumes "foldM (diff_field old desired) [] [''image'', ''command'', ''args'', ''credentials''] = Inr fs"
  shows "oget fs ''env'' = JNull"
proof (rule foldM_invariant [OF assms])
  show "oget [] ''env'' = JNull" by (simp add: oget_def)
qed (auto simp: diff_field_def rbind_Inr_iff split: if_splits)

lemma decoded_env:
  assumes "decode_service (JObj m) = Some service" and "oget m ''env'' = JNull \<or> (\<exists>env. oget m ''env'' = JObj env \<and> okeys env)"
  shows "distinct (map fst (spEnv service))"
proof -
  from assms(1) have "decode_map decode_str (oget m ''env'') = Some (spEnv service)"
    by (auto simp: decode_service_def decode_struct_def bind_eq_Some_conv split: if_splits)
  with assms(2) show ?thesis
    by (auto simp: decode_map_def dest!: decode_entries_keys okeys_distinct)
qed

lemma Diff_services:
  assumes "foldM (diff_service Y oldServices) [] newServices = Inr services"
  shows "okeys services \<and> list_all (\<lambda>(_, s). distinct (map fst (spEnv s))) services"
proof (rule foldM_invariant [OF assms])
  fix acc x acc' assume acc: "okeys acc \<and> list_all (\<lambda>(_, s). distinct (map fst (spEnv s))) acc" and run: "diff_service Y oldServices acc x = Inr acc'"
  obtain name raw where x: "x = (name, raw)" by force
  from run [unfolded x] show "okeys acc' \<and> list_all (\<lambda>(_, s). distinct (map fst (spEnv s))) acc'"
  proof (rule diff_service_cases)
    fix desired old fs env expose storage
    assume f: "foldM (diff_field old desired) [] [''image'', ''command'', ''args'', ''credentials''] = Inr fs"
      and e: "diffEnv (oget old ''env'') (oget desired ''env'') = Inr env"
      and r: "acc' = acc \<or> (\<exists>service. decode_service (JObj (put_nonempty ''storage'' storage
       (put_nonempty ''expose'' expose (put_nonempty ''env'' env fs)))) = Some service \<and> acc' = oput name service acc)"
    have "oget (put_nonempty ''env'' env fs) ''env'' = JNull \<or> (\<exists>env'. oget (put_nonempty ''env'' env fs) ''env'' = JObj env' \<and> okeys env')"
      using diff_fields_env [OF f] okeys_diffEnv [OF e] by (auto simp: put_nonempty_def)
    then have "distinct (map fst (spEnv service))" if "decode_service (JObj (put_nonempty ''storage'' storage
       (put_nonempty ''expose'' expose (put_nonempty ''env'' env fs)))) = Some service" for service
      using decoded_env [OF that] by (simp add: oget_put_nonempty)
    with r acc set_oput show ?thesis by (fastforce simp: list_all_iff)
  qed
qed simp

text \<open>Nothing differs between a service and itself.\<close>

lemma changed_fields_same: "changed_fields names m m = []"
  unfolding changed_fields_def by (induction names) auto

lemma canonical_oget: "canonical (JObj m) \<Longrightarrow> canonical (oget m k)"
  by (auto simp: oget_def list_all_iff dest!: map_of_SomeD split: option.split)

lemma canonical_obj_or_nil: "canonical v \<Longrightarrow> canonical (JObj (obj_or_nil v))"
  by (auto simp: obj_or_nil_def split: json.split)

lemma canonical_storage_of: "canonical (JObj m) \<Longrightarrow> canonical (JObj (storage_of m))"
  unfolding storage_of_def by (intro canonical_obj_or_nil canonical_oget)

lemma diff_same_service:
  assumes run: "diff_service Y services acc (name, raw) = Inr acc'" and "map_of services name = Some raw" and can: "canonical raw"
  shows "acc' = acc"
  using run
proof (rule diff_service_cases)
  fix desired old fs env expose storage
  assume a: "raw = JObj desired" "oget services name = JObj old"
    "foldM (diff_field old desired) [] [''image'', ''command'', ''args'', ''credentials''] = Inr fs"
    "diffEnv (oget old ''env'') (oget desired ''env'') = Inr env"
    "diffExpose Y (oget old ''expose'') (oget desired ''expose'') = Inr expose" "diffStorage old desired = Inr storage"
    and same: "fs = [] \<Longrightarrow> env = [] \<Longrightarrow> expose = [] \<Longrightarrow> storage = [] \<Longrightarrow> acc' = acc"
  have eq: "desired = old" using a(1,2) assms(2) by (simp add: oget_def)
  have "fs = []" "env = []" "expose = []" using a(3-5) by (auto simp: eq diff_field_def diffEnv_def diffExpose_def)
  moreover have "storage = []"
  proof -
    have run: "foldM (diff_volume (storage_of old)) [] (storage_of old) = Inr storage" using a(6) by (simp add: eq diffStorage_def storage_of_def)
    have "okeys (storage_of old)" using canonical_storage_of [of old] can a(1) eq by simp
    then have get: "oget (storage_of old) name = v" if "(name, v) \<in> set (storage_of old)" for name v
      using that okeys_distinct by (fastforce simp: oget_def)
    show ?thesis
      by (rule foldM_invariant [OF run]) (auto simp: diff_volume_def rbind_Inr_iff changed_fields_same dest!: get)
  qed
  ultimately show ?thesis using same by blast
qed

lemma Diff_run:
  assumes "Diff Y currentSDL requestedSDL = Inr patch"
  obtains current requested old new result applied where "parseObject Y currentSDL = Inr current" "parseObject Y requestedSDL = Inr requested"
    "oget current ''services'' = JObj old" "oget requested ''services'' = JObj new"
    "foldM (diff_service Y old) [] new = Inr (paServices patch)" "paName patch = None"
    "Apply Y currentSDL patch = Inr result" "parseObject Y result = Inr applied" "normalizeSDL applied = normalizeSDL requested"
proof -
  from assms obtain current requested where p: "parseObject Y currentSDL = Inr current" "parseObject Y requestedSDL = Inr requested"
    and rest: "(case (oget current ''services'', oget requested ''services'') of
       (JObj oldServices, JObj newServices) \<Rightarrow>
         rbind (foldM (diff_service Y oldServices) [] newServices) (\<lambda>services.
         let patch = \<lparr>paServices = services, paName = None, paIfManifestVersion = []\<rparr> in
         rbind (Validate patch) (\<lambda>_.
         rbind (Apply Y currentSDL patch) (\<lambda>result.
         rbind (map_err (\<lambda>_. CannotVerify) (parseObject Y result)) (\<lambda>applied.
         if normalizeSDL applied \<noteq> normalizeSDL requested then Inl Unrepresentable else Inr patch))))
     | _ \<Rightarrow> Inl NoServices) = Inr patch"
    unfolding Diff_def by (auto simp only: rbind_Inr_iff map_err_Inr_iff)
  from rest obtain old new where s: "oget current ''services'' = JObj old" "oget requested ''services'' = JObj new"
    by (cases "oget current ''services''"; cases "oget requested ''services''") auto
  from rest obtain services result applied where "foldM (diff_service Y old) [] new = Inr services"
    "patch = \<lparr>paServices = services, paName = None, paIfManifestVersion = []\<rparr>"
    "Apply Y currentSDL patch = Inr result" "parseObject Y result = Inr applied" "normalizeSDL applied = normalizeSDL requested"
    by (auto simp: s rbind_Inr_iff Let_def split: if_splits)
  with p s that show ?thesis by auto
qed

text \<open>What the code relies on of the YAML library: a printed document reads back as it was.\<close>

definition prints_back :: "yaml \<Rightarrow> bool" where
  "prints_back Y \<longleftrightarrow> (\<forall>d d'. parseObject Y (yMarshal Y (JObj d)) = Inr d' \<longrightarrow> d' = d)"

text \<open>Fields of a service that a patch cannot change.\<close>

definition fixed_field :: "string \<Rightarrow> bool" where
  "fixed_field k \<longleftrightarrow> k \<notin> {''image'', ''command'', ''args'', ''credentials'', ''env'', ''expose'', ''params''}"

lemma normalize_fixed: "fixed_field k \<Longrightarrow> oget (obj_or_nil (normalize_service v)) k = oget (obj_or_nil v) k"
  by (cases v) (auto simp: normalize_service_def fixed_field_def Let_def split: json.split)

lemma normalizeSDL_spec:
  "k \<noteq> ''services'' \<Longrightarrow> map_of (normalizeSDL d) k = map_of d k"
  "oget d ''services'' = JObj services \<Longrightarrow> oget (normalizeSDL d) ''services'' = JObj (map (\<lambda>(name, raw). (name, normalize_service raw)) services)"
  by (auto simp: normalizeSDL_def split: json.split)

lemma map_of_normalized: "map_of (map (\<lambda>(name, raw). (name, normalize_service raw)) services) name = map_option normalize_service (map_of services name)"
  by (induction services) auto

text \<open>Documents that agree after normalization agree in what it leaves alone.\<close>

lemma normalized_agree:
  assumes "normalizeSDL d = normalizeSDL r" and "oget d ''services'' = JObj ds" and "oget r ''services'' = JObj rs"
  shows "k \<noteq> ''services'' \<Longrightarrow> map_of d k = map_of r k"
    and "map_of ds name = None \<longleftrightarrow> map_of rs name = None"
    and "fixed_field k \<Longrightarrow> oget (obj_or_nil (oget ds name)) k = oget (obj_or_nil (oget rs name)) k"
proof -
  show "k \<noteq> ''services'' \<Longrightarrow> map_of d k = map_of r k" using assms(1) normalizeSDL_spec(1) by metis
  have "map (\<lambda>(name, raw). (name, normalize_service raw)) ds = map (\<lambda>(name, raw). (name, normalize_service raw)) rs"
    using assms normalizeSDL_spec(2) by (metis json.inject(5))
  then have n: "map_option normalize_service (map_of ds name) = map_option normalize_service (map_of rs name)"
    using map_of_normalized by metis
  then show "map_of ds name = None \<longleftrightarrow> map_of rs name = None" by auto
  show "oget (obj_or_nil (oget ds name)) k = oget (obj_or_nil (oget rs name)) k" if "fixed_field k"
    using n normalize_fixed [OF that] by (cases "map_of ds name"; cases "map_of rs name") (auto simp: oget_def, metis)
qed

lemma parseObject_canonical: "parseObject Y data = Inr document \<Longrightarrow> canonical (JObj document)"
  using parse_bounds [of Y data document] by (simp add: bounded_def)

lemma apply_document_frame:
  assumes "Apply Y sdl patch = Inr out" and "patch_maps patch" and "parseObject Y sdl = Inr document" and "oget document ''services'' = JObj old"
  obtains document' services' where "out = yMarshal Y (JObj document')" "oget document' ''services'' = JObj services'"
    "\<forall>k. k \<noteq> ''services'' \<longrightarrow> map_of document' k = map_of document k"
    "\<forall>name. (map_of services' name = None) = (map_of old name = None)"
    "\<forall>name k. fixed_field k \<longrightarrow> oget (obj_or_nil (oget services' name)) k = oget (obj_or_nil (oget old name)) k"
proof -
  from assms(1) obtain doc1 services services' where val: "Validate patch = Inr ()" and doc: "parseObject Y sdl = Inr doc1"
    and sv: "oget doc1 ''services'' = JObj services" and f: "foldM (patch_service Y) services (paServices patch) = Inr services'"
    and out: "out = yMarshal Y (JObj (oput ''services'' (JObj services') doc1))" by (rule Apply_run)
  have d: "distinct (map fst (paServices patch))" using assms(2) by (simp add: patch_maps_def)
  note p = patch_services [OF f d]
  have *: "(map_of services' name = None) = (map_of services name = None) \<and>
      (\<forall>k. fixed_field k \<longrightarrow> oget (obj_or_nil (oget services' name)) k = oget (obj_or_nil (oget services name)) k)" for name
  proof (cases "name \<in> fst ` set (paServices patch)")
    case True
    then obtain change where c: "(name, change) \<in> set (paServices patch)" by auto
    with p obtain s s' where s: "map_of services name = Some (JObj s)" "map_of services' name = Some (JObj s')" "apply_service Y change s = Inr s'" by blast
    have "service_patched change s s'"
      using c assms(2) Validate_env [OF val c] s(3) by (intro apply_service_patched) (auto simp: patch_maps_def list_all_iff)
    with s show ?thesis by (simp add: service_patched_def fixed_field_def oget_def)
  qed (use p in \<open>simp add: oget_def\<close>)
  have "doc1 = document" "services = old" using doc assms(3,4) sv by auto
  with out * show ?thesis using that [of "oput ''services'' (JObj services') document" services'] by simp
qed

text \<open>
  C6.  A derived patch does what was asked, and only what a patch can: applied to the current
  manifest it gives the requested one up to normalization; the two manifests agree outside
  the services, have the same services, and agree in every field of a service that a patch
  cannot change, so that no other requested change is dropped; and equal manifests give the
  empty patch.
\<close>

theorem Diff_correct:
  assumes run: "Diff Y currentSDL requestedSDL = Inr patch" and Y: "prints_back Y"
  shows "\<exists>current requested old new. parseObject Y currentSDL = Inr current \<and> parseObject Y requestedSDL = Inr requested \<and>
    oget current ''services'' = JObj old \<and> oget requested ''services'' = JObj new \<and>
    (\<exists>result applied. Apply Y currentSDL patch = Inr result \<and> parseObject Y result = Inr applied \<and> normalizeSDL applied = normalizeSDL requested) \<and>
    (\<forall>k. k \<noteq> ''services'' \<longrightarrow> map_of requested k = map_of current k) \<and>
    (\<forall>name. (map_of new name = None) = (map_of old name = None)) \<and>
    (\<forall>name k. fixed_field k \<longrightarrow> oget (obj_or_nil (oget new name)) k = oget (obj_or_nil (oget old name)) k) \<and>
    (current = requested \<longrightarrow> \<not> HasChanges patch)"
proof -
  from run obtain current requested old new result applied where p: "parseObject Y currentSDL = Inr current" "parseObject Y requestedSDL = Inr requested"
    and s: "oget current ''services'' = JObj old" "oget requested ''services'' = JObj new"
    and diff: "foldM (diff_service Y old) [] new = Inr (paServices patch)" and noname: "paName patch = None"
    and ap: "Apply Y currentSDL patch = Inr result" "parseObject Y result = Inr applied" "normalizeSDL applied = normalizeSDL requested"
    by (rule Diff_run)
  have "patch_maps patch" using Diff_services [OF diff] okeys_distinct by (auto simp: patch_maps_def)
  from ap(1) this p(1) s(1) obtain document' services' where
    f: "result = yMarshal Y (JObj document')" "oget document' ''services'' = JObj services'"
    "\<forall>k. k \<noteq> ''services'' \<longrightarrow> map_of document' k = map_of current k"
    "\<forall>name. (map_of services' name = None) = (map_of old name = None)"
    "\<forall>name k. fixed_field k \<longrightarrow> oget (obj_or_nil (oget services' name)) k = oget (obj_or_nil (oget old name)) k"
    by (rule apply_document_frame)
  have "applied = document'" using Y ap(2) f(1) by (auto simp: prints_back_def)
  note agree = normalized_agree [OF ap(3) f(2) [folded this] s(2)]
  have "\<not> HasChanges patch" if "current = requested"
  proof -
    have can: "canonical (JObj new)" using parseObject_canonical [OF p(2)] canonical_oget [of requested "''services''"] s(2) by simp
    have "old = new" using that s by simp
    have "paServices patch = []"
    proof (rule foldM_invariant [OF diff])
      fix acc x acc' assume x: "x \<in> set new" and "acc = []" "diff_service Y old acc x = Inr acc'"
      moreover have "map_of old (fst x) = Some (snd x)" "canonical (snd x)"
        using x can okeys_distinct [of new] \<open>old = new\<close> by (auto simp: list_all_iff)
      ultimately show "acc' = []" using diff_same_service [of Y old acc "fst x" "snd x" acc'] by simp
    qed simp
    with noname show ?thesis by (simp add: HasChanges_def)
  qed
  moreover have "\<forall>k. k \<noteq> ''services'' \<longrightarrow> map_of requested k = map_of current k"
    "\<forall>name. (map_of new name = None) = (map_of old name = None)"
    "\<forall>name k. fixed_field k \<longrightarrow> oget (obj_or_nil (oget new name)) k = oget (obj_or_nil (oget old name)) k"
    using agree f(3-5) \<open>applied = document'\<close> by simp_all
  ultimately show ?thesis using p s ap by blast
qed

end
