(* ===== verification/Deployment_Examples.thy ===== *)
theory Deployment_Examples
  imports Deployment_Diff
begin

text \<open>Concrete documents, patches and endpoints, and the properties of deployment configurations on them.\<close>

section \<open>A concrete YAML library\<close>

text \<open>Two documents, named by the image of their only service; everything else is refused.\<close>

definition leaf :: "nat \<Rightarrow> string \<Rightarrow> ynode" where
  "leaf i s = Node ScalarNode i ''!!str'' s [] 0"

definition sample_node :: "string \<Rightarrow> ynode" where
  "sample_node img = Node MappingNode 0 ''!!map'' []
     [leaf 1 ''services'', Node MappingNode 2 ''!!map'' [] [leaf 3 ''web'', Node MappingNode 4 ''!!map'' [] [leaf 5 ''image'', leaf 6 img] 0] 0] 0"

definition sample_doc :: "string \<Rightarrow> obj" where
  "sample_doc img = [(''services'', JObj [(''web'', JObj [(''image'', JStr img)])])]"

definition sample_yaml :: yaml where
  "sample_yaml = \<lparr>yDecode = (\<lambda>s. if s = ''a'' \<or> s = ''b'' then Some (sample_node s, False) else None),
     yScalar = (\<lambda>t s. if t = ''!!str'' then Some (SStr s) else None),
     yMarshal = (\<lambda>v. if v = JObj (sample_doc ''a'') then ''a'' else if v = JObj (sample_doc ''b'') then ''b'' else []),
     yFormatFloat = (\<lambda>f. if f = Fin 80 then ''80'' else if f = Fin 81 then ''81'' else [])\<rparr>"

definition empty_service :: ServicePatch where
  "empty_service = \<lparr>spImage = None, spCommand = None, spArgs = None, spEnv = [], spCredentials = None, spExpose = [], spStorage = []\<rparr>"

definition sample_patch :: Patch where
  "sample_patch = \<lparr>paServices = [(''web'', empty_service\<lparr>spImage := Some ''b''\<rparr>)], paName = None, paIfManifestVersion = []\<rparr>"

lemma nodeValue_pos:
  "0 < left \<Longrightarrow> nodeValue Y doc left node count =
     (let count = count + 1 in
      if 100000 < count then Inl TooManyNodes
      else case nKind node of
        AliasNode \<Rightarrow> (case node_at doc (nAlias node) of None \<Rightarrow> Inl DcPanic | Some target \<Rightarrow> nodeValue Y doc (left - 1) target count)
      | MappingNode \<Rightarrow> mapping_value Y (nodeValue Y doc (left - 1)) (nContent node) count
      | SequenceNode \<Rightarrow> sequence_value (nodeValue Y doc (left - 1)) (nContent node) count
      | ScalarNode \<Rightarrow> scalar_value Y node count)"
  by (cases left; cases "nKind node"; cases "node_at doc (nAlias node)") simp_all

lemma sample_leaf: "scalar_value sample_yaml (leaf i s) c = Inr (JStr s, c)"
  by (simp add: leaf_def scalar_value_def sample_yaml_def)

lemma leaf_simps [simp]: "nTag (leaf i s) = ''!!str''" "nKind (leaf i s) = ScalarNode" "nValue (leaf i s) = s" "nId (leaf i s) = i"
  by (simp_all add: leaf_def)

lemma sample_value: "nodeValue sample_yaml doc 65 (sample_node img) 0 = Inr (JObj (sample_doc img), 4)"
  by (simp add: sample_node_def sample_doc_def nodeValue_pos mapping_value_def merge_key_def put_key_def key_name_def sample_leaf)

lemma sample_parse: "s = ''a'' \<or> s = ''b'' \<Longrightarrow> parseObject sample_yaml s = Inr (sample_doc s)"
  by (auto simp: parseObject_def maxDocumentBytes_def sample_value sample_yaml_def as_obj_def
      simp del: nodeValue.simps simp: sample_value [unfolded sample_yaml_def])

lemma sample_prints_back: "prints_back sample_yaml"
proof -
  have "parseObject sample_yaml [] = Inl NotYAML" by (simp add: parseObject_def maxDocumentBytes_def sample_yaml_def)
  then show ?thesis using sample_parse unfolding prints_back_def by (auto simp: sample_yaml_def split: if_splits)
qed

lemma sample_not_shared: "rejectSharedServices sample_yaml ''a'' sample_patch = Inr ()"
  by (simp add: rejectSharedServices_def sample_yaml_def sample_node_def leaf_def mappingNode_def shared_def reject_service_def
      sample_patch_def empty_service_def serviceAssigns_def Let_def)

lemma sample_Apply: "Apply sample_yaml ''a'' sample_patch = Inr ''b''"
  by (simp add: Apply_def sample_not_shared sample_parse apply_document_def)
     (simp add: sample_patch_def empty_service_def Validate_def validate_service_def validate_strings_def validate_credentials_def
      sample_doc_def oget_def patch_service_def as_obj_def apply_service_def assign_fields_def clear_field_def applyExpose_def applyStorage_def
      sample_yaml_def maxDocumentBytes_def)

lemma sample_Diff: "Diff sample_yaml ''a'' ''b'' = Inr sample_patch"
proof -
  have "foldM (diff_service sample_yaml [(''web'', JObj [(''image'', JStr ''a'')])]) [] [(''web'', JObj [(''image'', JStr ''b'')])] =
      Inr (paServices sample_patch)"
    by (simp add: diff_service_def as_obj_def oget_def diff_field_def diffEnv_def diffExpose_def diffStorage_def put_nonempty_def decode_service_def
        decode_struct_def decode_str_def decode_map_def sample_patch_def empty_service_def)
  moreover have "Validate sample_patch = Inr ()"
    by (simp add: sample_patch_def empty_service_def Validate_def validate_service_def validate_strings_def validate_credentials_def)
  moreover have "\<lparr>paServices = paServices sample_patch, paName = None, paIfManifestVersion = []\<rparr> = sample_patch" by (simp add: sample_patch_def)
  ultimately show ?thesis by (simp add: Diff_def sample_parse sample_Apply) (simp add: sample_doc_def oget_def sample_Apply sample_parse)
qed

text \<open>A service with two endpoints, of which a patch moves one.\<close>

definition sample_entry :: "rat \<Rightarrow> obj" where
  "sample_entry port = [(''port'', JNum (Fin port))]"

definition sample_service :: obj where
  "sample_service = [(''expose'', JArr [JObj (sample_entry 80), JObj (sample_entry 81)])]"

definition sample_expose :: "(string \<times> ExposePatch) list" where
  "sample_expose = [(''80'', \<lparr>epPort = Some 8080, epAs = None, epAccept = None, epHTTPOptions = None\<rparr>)]"

lemma sample_applyExpose: "\<exists>s. applyExpose sample_yaml sample_service sample_expose = Inr s"
proof -
  have "matching sample_yaml [sample_entry 80, sample_entry 81] ''80'' = [0]"
    by (simp add: matching_def port_matches_def sample_entry_def oget_def sample_yaml_def upt_rec)
  moreover have "endpointKind (sample_entry 80) = ''internal''" "endpointKind (move_ports p (sample_entry 80)) = ''internal''" for p
    by (simp_all add: endpointKind_def sample_entry_def move_ports_def set_port_def oget_def split: option.split)
  moreover have "\<not> hasLeasedIP (sample_entry 80)" by (simp add: hasLeasedIP_def sample_entry_def oget_def)
  ultimately show ?thesis
    by (simp add: applyExpose_def sample_service_def sample_expose_def oget_def as_obj_def move_endpoint_def)
      (simp add: check_collision_def move_ports_def set_port_def sample_entry_def externalPort_def oget_def upt_rec)
qed

theorem parseObject_bounded_witness:
  "parseObject sample_yaml ''a'' = Inr (sample_doc ''a'') \<and> json_nodes (JObj (sample_doc ''a'')) \<le> 100000 \<and>
     (\<exists>root. yDecode sample_yaml ''a'' = Some (root, False) \<and> unique_keys sample_yaml root)"
  using parseObject_bounded [OF sample_parse [of "''a''"]] sample_parse [of "''a''"] by blast

theorem applyExpose_safe_witness:
  "\<exists>s before after. applyExpose sample_yaml sample_service sample_expose = Inr s \<and>
     oget sample_service ''expose'' = JArr (map JObj before) \<and> s = oput ''expose'' (JArr (map JObj after)) sample_service \<and> length after = length before"
proof -
  from sample_applyExpose obtain s where s: "applyExpose sample_yaml sample_service sample_expose = Inr s" by blast
  have "sample_expose \<noteq> []" "distinct (map fst sample_expose)" by (simp_all add: sample_expose_def)
  from applyExpose_safe [OF s this] obtain before after where "oget sample_service ''expose'' = JArr (map JObj before)"
    "s = oput ''expose'' (JArr (map JObj after)) sample_service" "length after = length before" by blast
  with s show ?thesis by blast
qed

theorem Apply_changes_only_named_witness:
  "\<exists>document document' services services'. parseObject sample_yaml ''a'' = Inr document \<and> ''b'' = yMarshal sample_yaml (JObj document') \<and>
     map_of document ''services'' = Some (JObj services) \<and> map_of document' ''services'' = Some (JObj services') \<and>
     (\<exists>s s'. map_of services ''web'' = Some (JObj s) \<and> map_of services' ''web'' = Some (JObj s') \<and>
        service_edited sample_yaml (empty_service\<lparr>spImage := Some ''b''\<rparr>) s s')"
proof -
  have "patch_names sample_patch" by (simp add: patch_names_def patch_maps_def sample_patch_def empty_service_def)
  have web: "(''web'', empty_service\<lparr>spImage := Some ''b''\<rparr>) \<in> set (paServices sample_patch)" by (simp add: sample_patch_def)
  from Apply_changes_only_named [OF sample_Apply \<open>patch_names sample_patch\<close>] obtain document document' services services' where
    "parseObject sample_yaml ''a'' = Inr document" "''b'' = yMarshal sample_yaml (JObj document')"
    "map_of document ''services'' = Some (JObj services)" "map_of document' ''services'' = Some (JObj services')"
    "\<forall>(name, change) \<in> set (paServices sample_patch). \<exists>s s'. map_of services name = Some (JObj s) \<and> map_of services' name = Some (JObj s') \<and>
      service_edited sample_yaml change s s'" by (elim exE conjE) (rule that)
  moreover from this(5) web have "\<exists>s s'. map_of services ''web'' = Some (JObj s) \<and> map_of services' ''web'' = Some (JObj s') \<and>
      service_edited sample_yaml (empty_service\<lparr>spImage := Some ''b''\<rparr>) s s'" by fastforce
  ultimately show ?thesis by blast
qed

theorem Diff_correct_witness:
  "\<exists>patch current requested. Diff sample_yaml ''a'' ''b'' = Inr patch \<and> parseObject sample_yaml ''a'' = Inr current \<and>
     parseObject sample_yaml ''b'' = Inr requested \<and>
     (\<exists>result applied. Apply sample_yaml ''a'' patch = Inr result \<and> parseObject sample_yaml result = Inr applied \<and> normalizeSDL applied = normalizeSDL requested)"
  using Diff_correct [OF sample_Diff sample_prints_back] sample_Diff by (elim exE conjE) (intro exI conjI)

end
