(* ===== verification/Transport.thy ===== *)
theory Transport
  imports Workflow_Steps "HOL-Library.AList"
begin

text \<open>
  The rails of the workflow actions (\<open>src/internal/transport/deposit.go\<close>, \<open>transport.go\<close>): the
  deposit syntax that every rail accepts, and the client that rewrites a deposit for the rail
  before the adapter behind it sees the transaction.

  Parameters: \<open>sdk\<close>, the functions of the Cosmos SDK that the rails call, and \<open>ParseFloat\<close>.
  A coin that \<open>ParseDecCoin\<close> accepts is its denomination and its printed form.
\<close>

section \<open>Deposits\<close>

record sdk =
  ParseDecCoin :: "string \<Rightarrow> (string \<times> string) option"
  ParseCoinNormalized :: "string \<Rightarrow> string option"
  AccAddressFromBech32 :: "string \<Rightarrow> string option"

definition KindChain :: string where "KindChain = ''chain''"

definition KindConsole :: string where "KindConsole = ''console''"

definition depositAuto :: string where "depositAuto = ''auto''"

record Deposit =
  Raw :: string
  Auto :: bool
  IsUSD :: bool
  USD :: float64
  Coin :: string
  Bare :: bool

definition zero_deposit :: Deposit where
  "zero_deposit = \<lparr>Raw = [], Auto = False, IsUSD = False, USD = Fin 0, Coin = [], Bare = False\<rparr>"

datatype usd_err = MissingAmount | NegativeAmount | NotPlainDecimal string | TooManyFractionalDigits | AmountRange string | NotFinite

datatype deposit_err =
    InvalidDeposit string usd_err | NoDepositForm string
  | BareOnChain string | USDOnChain string | AmountOnConsole string | UnknownKind string

definition decimalDigits :: "string \<Rightarrow> bool" where
  "decimalDigits s \<longleftrightarrow> list_all (\<lambda>c. 48 \<le> (of_char c :: nat) \<and> (of_char c :: nat) \<le> 57) s \<and> s \<noteq> []"

definition looksLikeBareUSD :: "string \<Rightarrow> bool" where
  "looksLikeBareUSD s \<longleftrightarrow>
     list_all (\<lambda>c. 48 \<le> (of_char c :: nat) \<and> (of_char c :: nat) \<le> 57 \<or> c \<in> set ''.+-eE_'') s \<and> s \<noteq> []"

definition validUSDAmount :: "float64 \<Rightarrow> usd_err option" where
  "validUSDAmount v =
     (if v = NaN \<or> v = PosInf \<or> v = NegInf then Some NotFinite
      else if float_less v (Fin 0) then Some NegativeAmount
      else None)"

text \<open>
  \<open>strings.EqualFold\<close> against a suffix of ASCII letters none of whose other case forms
  (the Kelvin sign, the long s) fits into as many bytes: ASCII case folding.
\<close>

definition cutSuffixFold :: "string \<Rightarrow> string \<Rightarrow> string option" where
  "cutSuffixFold s suffix =
     (let n = length s - length suffix in
      if length s < length suffix \<or> to_lower (drop n s) \<noteq> to_lower suffix then None
      else Some (take n s))"

definition parseUSDAmount :: "(string \<Rightarrow> float64 option) \<Rightarrow> string \<Rightarrow> usd_err + float64" where
  "parseUSDAmount ParseFloat s0 =
     (let s = trim_space s0 in
      if s = [] then Inl MissingAmount
      else if has_prefix s ''-'' then Inl NegativeAmount
      else
        let (whole, fraction, hasPoint) = (case cut_at CHR ''.'' s of None \<Rightarrow> (s, [], False) | Some (a, b) \<Rightarrow> (a, b, True)) in
        if whole = [] \<or> \<not> decimalDigits whole \<or> hasPoint \<and> (fraction = [] \<or> \<not> decimalDigits fraction)
        then Inl (NotPlainDecimal s)
        else if hasPoint \<and> length fraction > 2 then Inl TooManyFractionalDigits
        else (case ParseFloat s of
                None \<Rightarrow> Inl (AmountRange s)
              | Some v \<Rightarrow> (case validUSDAmount v of Some e \<Rightarrow> Inl e | None \<Rightarrow> Inr v)))"

definition ParseDeposit :: "sdk \<Rightarrow> (string \<Rightarrow> float64 option) \<Rightarrow> string \<Rightarrow> deposit_err + Deposit" where
  "ParseDeposit K ParseFloat s =
     (let t = trim_space s in
      if t = [] \<or> t = depositAuto then Inr (zero_deposit\<lparr>Raw := t, Auto := True\<rparr>)
      else case cut_prefix ''$'' t of
        Some amount \<Rightarrow>
          rbind (map_err (InvalidDeposit s) (parseUSDAmount ParseFloat amount)) (\<lambda>usd.
            Inr (zero_deposit\<lparr>Raw := t, IsUSD := True, USD := usd\<rparr>))
      | None \<Rightarrow>
        (case cutSuffixFold t ''usd'' of
          Some amount \<Rightarrow>
            rbind (map_err (InvalidDeposit s) (parseUSDAmount ParseFloat amount)) (\<lambda>usd.
              Inr (zero_deposit\<lparr>Raw := t, IsUSD := True, USD := usd\<rparr>))
        | None \<Rightarrow>
          if looksLikeBareUSD t then
            rbind (map_err (InvalidDeposit s) (parseUSDAmount ParseFloat t)) (\<lambda>usd.
              Inr (zero_deposit\<lparr>Raw := t, IsUSD := True, USD := usd, Bare := True\<rparr>))
          else if ParseDecCoin K t \<noteq> None then Inr (zero_deposit\<lparr>Raw := t, Coin := t\<rparr>)
          else Inl (NoDepositForm s)))"

definition RailValue :: "Deposit \<Rightarrow> string \<Rightarrow> deposit_err + string" where
  "RailValue d kind =
     (if kind = KindChain then
        if Auto d then Inr (Raw d)
        else if Coin d \<noteq> [] then Inr (Coin d)
        else if Bare d then Inl (BareOnChain (Raw d))
        else Inl (USDOnChain (Raw d))
      else if kind = KindConsole then
        if Auto d then Inr [] else Inl (AmountOnConsole (Raw d))
      else Inl (UnknownKind kind))"

section \<open>The rail client\<close>

definition translateDepositParam ::
  "sdk \<Rightarrow> (string \<Rightarrow> float64 option) \<Rightarrow> string \<Rightarrow> (string \<times> string) list \<Rightarrow> deposit_err + (string \<times> string) list" where
  "translateDepositParam K ParseFloat kind params =
     (case map_of params ''deposit'' of
        None \<Rightarrow> Inr params
      | Some raw \<Rightarrow>
          rbind (ParseDeposit K ParseFloat raw) (\<lambda>dep.
          rbind (RailValue dep kind) (\<lambda>value.
          if value = raw then Inr params else Inr (AList.update ''deposit'' value params))))"

text \<open>\<open>railClient.BroadcastTx\<close> and \<open>Query\<close>; \<open>errText\<close> is the message of an error, all that its caller reads of it.\<close>

definition railClient ::
  "sdk \<Rightarrow> (string \<Rightarrow> float64 option) \<Rightarrow> (deposit_err \<Rightarrow> string) \<Rightarrow> string \<Rightarrow> 'w ChainClient \<Rightarrow> 'w ChainClient" where
  "railClient K ParseFloat errText kind inner =
     \<lparr>cBroadcastTx = (\<lambda>w msgType params.
        case translateDepositParam K ParseFloat kind params of
          Inl e \<Rightarrow> (Inl (External (errText e)), w)
        | Inr translated \<Rightarrow> cBroadcastTx inner w msgType translated),
      cQuery = (\<lambda>w path params. cQuery inner w path params)\<rparr>"

section \<open>What the amounts look like\<close>

text \<open>A plain decimal: digits, and after a point one or two more.\<close>

definition plain_decimal :: "string \<Rightarrow> bool" where
  "plain_decimal s \<longleftrightarrow> decimalDigits s \<or>
     (\<exists>a b. s = a @ ''.'' @ b \<and> decimalDigits a \<and> decimalDigits b \<and> length b \<le> 2)"

lemma decimalDigits_no_point: "decimalDigits s \<Longrightarrow> CHR ''.'' \<notin> set s"
  by (auto simp: decimalDigits_def list_all_iff)

lemma decimalDigits_no_sign: "decimalDigits s \<Longrightarrow> \<not> has_prefix (s @ t) ''-''"
  by (cases s) (auto simp: decimalDigits_def has_prefix_iff)

lemma plain_decimal_cut:
  "plain_decimal s \<longleftrightarrow>
     (case cut_at CHR ''.'' s of
        None \<Rightarrow> decimalDigits s
      | Some (a, b) \<Rightarrow> decimalDigits a \<and> decimalDigits b \<and> length b \<le> 2)"
proof (cases "cut_at CHR ''.'' s")
  case None
  then have "CHR ''.'' \<notin> set s" by (simp add: cut_at_None_iff)
  with None show ?thesis by (auto simp: plain_decimal_def)
next
  case (Some p)
  obtain a b where p: "p = (a, b)" by (cases p)
  with Some have s: "s = a @ CHR ''.'' # b" and a: "CHR ''.'' \<notin> set a" by (simp_all add: cut_at_Some_iff)
  have "\<not> decimalDigits s" using decimalDigits_no_point [of s] s by auto
  have "x = a \<and> y = b" if "s = x @ ''.'' @ y" and "decimalDigits x" for x y
  proof -
    from that have "cut_at CHR ''.'' s = Some (x, y)" by (simp add: cut_at_Some_iff decimalDigits_no_point)
    with Some p show ?thesis by simp
  qed
  then have "plain_decimal s \<longleftrightarrow> decimalDigits a \<and> decimalDigits b \<and> length b \<le> 2"
    using \<open>\<not> decimalDigits s\<close> s unfolding plain_decimal_def by (metis append_Cons append_Nil)
  with Some p show ?thesis by simp
qed

lemma plain_decimal_no_sign: "plain_decimal s \<Longrightarrow> s \<noteq> [] \<and> \<not> has_prefix s ''-''"
  unfolding plain_decimal_def
proof (elim disjE exE conjE)
  assume "decimalDigits s"
  then show ?thesis using decimalDigits_no_sign [of s "[]"] by (simp add: decimalDigits_def)
next
  fix a b
  assume "s = a @ ''.'' @ b" and "decimalDigits a"
  then show ?thesis using decimalDigits_no_sign [of a "''.'' @ b"] by (simp add: decimalDigits_def)
qed

lemma parseUSDAmount_iff:
  "parseUSDAmount ParseFloat s = Inr v \<longleftrightarrow>
     plain_decimal (trim_space s) \<and> ParseFloat (trim_space s) = Some v \<and> validUSDAmount v = None"
proof (cases "plain_decimal (trim_space s)")
  case True
  then have "trim_space s \<noteq> []" and "\<not> has_prefix (trim_space s) ''-''"
    by (simp_all add: plain_decimal_no_sign)
  with True show ?thesis
    unfolding parseUSDAmount_def Let_def plain_decimal_cut
    by (auto simp: decimalDigits_def split: option.splits)
next
  case False
  then show ?thesis
    unfolding parseUSDAmount_def Let_def plain_decimal_cut
    by (auto split: option.splits)
qed

section \<open>What the rails send\<close>

text \<open>
  A chain coin in the deposit syntax: accepted by the SDK, and none of the forms that mean an
  amount of dollars.
\<close>

definition chain_coin :: "sdk \<Rightarrow> string \<Rightarrow> bool" where
  "chain_coin K v \<longleftrightarrow> ParseDecCoin K v \<noteq> None \<and> \<not> has_prefix v ''$'' \<and> cutSuffixFold v ''usd'' = None \<and> \<not> looksLikeBareUSD v"

definition rail_accepts :: "sdk \<Rightarrow> string \<Rightarrow> string \<Rightarrow> bool" where
  "rail_accepts K kind deposit \<longleftrightarrow>
     kind \<in> {KindChain, KindConsole} \<and> deposit \<in> {[], depositAuto} \<or>
     kind = KindChain \<and> deposit \<notin> {[], depositAuto} \<and> chain_coin K deposit"

lemma kinds_differ [simp]: "KindChain \<noteq> KindConsole" "KindConsole \<noteq> KindChain"
  by (simp_all add: KindChain_def KindConsole_def)

text \<open>The forms of a deposit, and what \<open>ParseDeposit\<close> makes of each.\<close>

lemma ParseDeposit_auto:
  "trim_space s \<in> {[], depositAuto} \<Longrightarrow> ParseDeposit K ParseFloat s = Inr (zero_deposit\<lparr>Raw := trim_space s, Auto := True\<rparr>)"
  by (auto simp: ParseDeposit_def Let_def)

lemma ParseDeposit_coin:
  "trim_space s \<notin> {[], depositAuto} \<Longrightarrow> chain_coin K (trim_space s)
    \<Longrightarrow> ParseDeposit K ParseFloat s = Inr (zero_deposit\<lparr>Raw := trim_space s, Coin := trim_space s\<rparr>)"
  by (simp add: ParseDeposit_def Let_def chain_coin_def has_prefix_def)

lemma ParseDeposit_other:
  assumes "trim_space s \<notin> {[], depositAuto}" and "\<not> chain_coin K (trim_space s)"
    and "ParseDeposit K ParseFloat s = Inr d"
  shows "\<not> Auto d \<and> Coin d = []"
  using assms unfolding ParseDeposit_def Let_def chain_coin_def has_prefix_def
  by (simp add: rbind_Inr_iff split: option.splits if_splits) (auto simp: zero_deposit_def)

lemma rail_of_deposit:
  "rbind (ParseDeposit K ParseFloat s) (\<lambda>d. RailValue d kind) = Inr v \<longleftrightarrow>
     rail_accepts K kind (trim_space s) \<and> v = (if kind = KindChain then trim_space s else [])"
proof -
  consider (auto) "trim_space s \<in> {[], depositAuto}"
    | (coin) "trim_space s \<notin> {[], depositAuto}" "chain_coin K (trim_space s)"
    | (other) "trim_space s \<notin> {[], depositAuto}" "\<not> chain_coin K (trim_space s)"
    by blast
  then show ?thesis
  proof cases
    case auto
    then show ?thesis
      unfolding ParseDeposit_auto [OF auto] by (auto simp: RailValue_def rail_accepts_def zero_deposit_def)
  next
    case coin
    then show ?thesis
      unfolding ParseDeposit_coin [OF coin] by (auto simp: RailValue_def rail_accepts_def zero_deposit_def)
  next
    case other
    then have "\<not> rail_accepts K kind (trim_space s)" by (simp add: rail_accepts_def)
    moreover have "RailValue d kind \<noteq> Inr v" if "ParseDeposit K ParseFloat s = Inr d" for d
      using ParseDeposit_other [OF other that] by (simp add: RailValue_def)
    ultimately show ?thesis by (auto simp: rbind_Inr_iff)
  qed
qed

lemma update_same: "map_of xs k = Some v \<Longrightarrow> AList.update k v xs = xs"
  by (induction xs) (auto split: if_splits)

lemma translateDepositParam_spec:
  "translateDepositParam K ParseFloat kind params = Inr params' \<longleftrightarrow>
     (case map_of params ''deposit'' of
        None \<Rightarrow> params' = params
      | Some raw \<Rightarrow> rail_accepts K kind (trim_space raw) \<and>
          params' = AList.update ''deposit'' (if kind = KindChain then trim_space raw else []) params)"
proof (cases "map_of params ''deposit''")
  case None
  then show ?thesis by (auto simp: translateDepositParam_def)
next
  case (Some raw)
  have "translateDepositParam K ParseFloat kind params =
      rbind (rbind (ParseDeposit K ParseFloat raw) (\<lambda>d. RailValue d kind)) (\<lambda>v. Inr (AList.update ''deposit'' v params))"
    using Some by (auto simp: translateDepositParam_def rbind_def update_same split: sum.splits)
  then have "translateDepositParam K ParseFloat kind params = Inr params' \<longleftrightarrow>
      (\<exists>v. rbind (ParseDeposit K ParseFloat raw) (\<lambda>d. RailValue d kind) = Inr v \<and> Inr (AList.update ''deposit'' v params) = (Inr params' :: deposit_err + _))"
    by (simp only: rbind_Inr_iff [of "rbind _ _"])
  also have "\<dots> \<longleftrightarrow> rail_accepts K kind (trim_space raw) \<and>
      params' = AList.update ''deposit'' (if kind = KindChain then trim_space raw else []) params"
    unfolding rail_of_deposit by (simp only: sum.inject ex_simps conj_assoc simp_thms) (rule eq_commute | blast)+
  finally show ?thesis unfolding Some option.case .
qed

text \<open>
  C16. A transaction that goes through a rail reaches the adapter behind it with every parameter
  but the deposit as the workflow gave it, and with a deposit only in the form of that rail: on
  the chain rail nothing, \<open>auto\<close> or a coin of the SDK that no dollar form matches; on the console
  rail nothing at all, and only where the deposit was left to the rail.  Any other deposit is
  refused before anything is sent: the world is unchanged.
\<close>

theorem railClient_deposit:
  "cBroadcastTx (railClient K ParseFloat errText kind inner) w msgType params =
     (case map_of params ''deposit'' of
        None \<Rightarrow> cBroadcastTx inner w msgType params
      | Some raw \<Rightarrow>
          if rail_accepts K kind (trim_space raw)
          then cBroadcastTx inner w msgType
                 (AList.update ''deposit'' (if kind = KindChain then trim_space raw else []) params)
          else (Inl (External (errText (projl (translateDepositParam K ParseFloat kind params)))), w))"
proof (cases "translateDepositParam K ParseFloat kind params")
  case (Inl e)
  have "\<not> (\<exists>p. translateDepositParam K ParseFloat kind params = Inr p)" using Inl by simp
  then have "case map_of params ''deposit'' of None \<Rightarrow> False | Some raw \<Rightarrow> \<not> rail_accepts K kind (trim_space raw)"
    unfolding translateDepositParam_spec by (auto split: option.splits)
  with Inl show ?thesis by (auto simp: railClient_def split: option.splits)
next
  case (Inr p)
  then show ?thesis
    using translateDepositParam_spec [of K ParseFloat kind params p]
    by (auto simp: railClient_def split: option.splits)
qed

end
