(* ===== verification/Console_Client.thy ===== *)
theory Console_Client
  imports Action_Log Deployment_Apply "HOL-Library.State_Monad"
begin

text \<open>
  The HTTP client of the Console API (\<open>src/internal/console/client.go\<close>, and the error sanitizer of
  \<open>deployment_secrets.go\<close>).

  A call is a computation of the state monad.  The state is the network, with the caller's
  context and its clock, and two traces: the requests handed to the HTTP client and the entries
  handed to the action logger, which is modelled in \<open>Action_Log\<close>.  Parameters: what the network
  answers, the context, the JSON coding of bodies and the message of an error.  A Go error is a
  value of \<open>cerr\<close> that keeps the chain that \<open>errors.Is\<close> and \<open>errors.As\<close> follow.
\<close>

section \<open>Errors\<close>

datatype deployment_problem =
    ManyOptions | SDLError string | ConfigError dc_err | InvalidSDLText | UnsealedReferences
  | InvalidResultDSeq string | NoReceipt | NoReceiptCode | ReceiptFailed string int string | NoReceiptHash
  | PaginationLimit | PaginationStuck int | NegativeSkip int | LimitNotPositive int | BadState string | IndexPanic
  | UpdateWrongDSeq string string | UpdateWrongHash string string | NoSuccess | CloseWrongDSeq string string | StillOpen string string

datatype lease_problem =
    LeaseMissing | LeaseNeedsDeployment | LeaseNeedsOneDeployment | LeasesNotActive string
  | BadRuntimeLimit int | SettingsNotEchoed | DeploymentIsClosed string
  | NoSavedDefinition string | LegacyWithSecrets | EmptyPatch | RenameWithVersion
  | PatchWrongDSeq | PatchNameNotEchoed | PatchNotConfirmed

datatype secret_problem =
    SecretInputUnavailable | SecretsFileIrregular | SecretsFileOpen | SecretsRead | SecretsTooLong | SecretsNotObject
  | SecretsManyDocuments | TooManySecrets | BadSecretName | DuplicateSecret | BadSecretValue | SecretTooLong
  | BadSecretsContext | KeyIDsDisagree | UnsupportedClaims | MissingClaims | CannotEncrypt

datatype account_problem =
    NoUserID | NoWalletAddress | WalletNotEchoed | BlankKeyName | KeyIncomplete | BadUUID string | BadTTL int | BlankToken
  | NilScreening | NoResources | NoTimezone | BadProviderDetail | BadDate string

datatype problem =
    MarshalRequest | CreateRequest | EmptyResponse string string | NoEnvelope string string | DecodeEnvelope string string
  | DecodeResponse | RateLimited | ServerError int | RedirectRefused int | TransportError string string string
  | ResponseTooLong nat | BodyReadFailed string | SensitiveOmitted | InvalidDSeq string
  | Deploying deployment_problem | Leasing lease_problem | Sealing secret_problem | Account account_problem

text \<open>The texts around a wrapped error.\<close>

datatype wrapper =
    Calling string string | TimedOutCalling string string | ReadingResponse
  | Unauthorized401 | Payment402 | NotFound404 string string
  | PrepareSDL | SnapshotBefore | CreateUnknown string | UpdateUnknown | Preflight | CloseOf string | CloseUnknown
  | ManifestNotDelivered string | ProviderUnreachable | LeaseUnknown string | LeaseDeliveryUnknown string
  | ResolveUser | ResolveWallets | KeyUnknown | KeyMissing string | InvalidUUID

datatype cerr =
    ErrUnauthorized | ErrInsufficientFunds | ErrNotFound | ErrAlreadyClosed | Canceled | DeadlineExceeded
  | HTTPError int string
  | Plain problem
  | Wrap wrapper cerr
  | Join cerr cerr

text \<open>The errors that \<open>errors.Is\<close> and \<open>errors.As\<close> visit, in their order.\<close>

fun chain_of :: "cerr \<Rightarrow> cerr list" where
  "chain_of (Wrap k e) = Wrap k e # chain_of e"
| "chain_of (Join a b) = Join a b # chain_of a @ chain_of b"
| "chain_of e = [e]"

definition errors_Is :: "cerr \<Rightarrow> cerr \<Rightarrow> bool" where
  "errors_Is e target \<longleftrightarrow> target \<in> set (chain_of e)"

definition http_error :: "cerr \<Rightarrow> (int \<times> string) option" where
  "http_error e = (case List.map_filter (\<lambda>x. case x of HTTPError s b \<Rightarrow> Some (s, b) | _ \<Rightarrow> None) (chain_of e) of
     [] \<Rightarrow> None | h # _ \<Rightarrow> Some h)"

section \<open>Requests and the world\<close>

text \<open>How a context ends, \<open>ctx.Err()\<close>.\<close>

datatype ctx_end = ContextCanceled | ContextDeadline

fun cause :: "ctx_end \<Rightarrow> cerr" where
  "cause ContextCanceled = Canceled"
| "cause ContextDeadline = DeadlineExceeded"

text \<open>What a request body is made of; the \<open>data\<close> envelope is \<open>Envelope\<close>.\<close>

record LeaseRequest =
  rqDSeq :: string
  rqGSeq :: u32
  rqOSeq :: u32
  rqProvider :: string

record Attribute =
  atKey :: string
  atValue :: string

record SignedBy =
  sbAnyOf :: "string list"
  sbAllOf :: "string list"

record BidScreeningRequirements =
  brSignedBy :: SignedBy
  brAttributes :: "Attribute list"

record BidScreeningRequest =
  bsRequirements :: BidScreeningRequirements
  bsResources :: string
  bsTimezone :: string
  bsReclamationWindow :: string

datatype body =
    SDLBody string | SealedSDL string string string | PatchBody Patch string | LeasesBody string "LeaseRequest list"
  | RuntimeLimit "int option" | AutoReload bool | KeyBody string string | TokenBody int "string list"
  | ScreeningBody BidScreeningRequest
  | Envelope body

definition envelope :: "body \<Rightarrow> body" where
  "envelope v = Envelope v"

record request =
  rMethod :: string
  rURL :: string
  rKey :: string
  rBody :: "string option"

text \<open>
  The answer of \<open>httpClient.Do\<close>: no response (the error's text, and whether the request's own
  deadline has passed), or a status and a body, whose reading may break off with an error.
\<close>

datatype reply = NoReply string bool | Reply int string "string option"

record 'x cw =
  net :: 'x
  sent :: "request list"
  logged :: "Entry list"

record 'x http =
  hDo :: "'x \<Rightarrow> request \<Rightarrow> reply \<times> 'x"
  hValidURL :: "string \<Rightarrow> string \<Rightarrow> bool"
  hCtx :: "'x \<Rightarrow> ctx_end option"
  hSleep :: "'x \<Rightarrow> int \<Rightarrow> ctx_end option \<times> 'x"
  hWithTimeout :: "'x \<Rightarrow> int \<Rightarrow> 'x"
  hCancel :: "'x \<Rightarrow> 'x"
  hNow :: "'x \<Rightarrow> int"
  hMarshal :: "body \<Rightarrow> string option"
  hMarshalMap :: "(string \<times> string) list \<Rightarrow> string option"
  hData :: "string \<Rightarrow> string option"
  hCode :: "string \<Rightarrow> string option"
  hErrText :: "cerr \<Rightarrow> string"

record Client =
  baseURL :: string
  apiKey :: string
  actionLog :: bool
  sensitiveErrors :: bool

abbreviation ok :: "'a \<Rightarrow> ('s, 'e + 'a) state" where
  "ok x \<equiv> State_Monad.return (Inr x)"

abbreviation err :: "'e \<Rightarrow> ('s, 'e + 'a) state" where
  "err e \<equiv> State_Monad.return (Inl e)"

text \<open>Run a fallible call, then one of two continuations; without the first the error is returned.\<close>

definition attempt :: "('s, 'e + 'a) state \<Rightarrow> ('e \<Rightarrow> ('s, 'b) state) \<Rightarrow> ('a \<Rightarrow> ('s, 'b) state) \<Rightarrow> ('s, 'b) state" where
  "attempt m onErr onOk = State_Monad.bind m (\<lambda>r. case r of Inl e \<Rightarrow> onErr e | Inr x \<Rightarrow> onOk x)"

definition ebind :: "('s, 'e + 'a) state \<Rightarrow> ('a \<Rightarrow> ('s, 'e + 'b) state) \<Rightarrow> ('s, 'e + 'b) state" where
  "ebind m f = attempt m (\<lambda>e. err e) f"

section \<open>Constants and the client value\<close>

definition TypeConsole :: string where "TypeConsole = ''console''"

definition DefaultBaseURL :: string where "DefaultBaseURL = ''https://console-api.akash.network''"

definition DefaultUIBaseURL :: string where "DefaultUIBaseURL = ''https://console.akash.network''"

definition maxResponseBodyBytes :: nat where "maxResponseBodyBytes = 16777216"

definition maxRetries :: nat where "maxRetries = 3"

definition MethodGet :: string where "MethodGet = ''GET''"

definition MethodHead :: string where "MethodHead = ''HEAD''"

definition MethodPost :: string where "MethodPost = ''POST''"

definition MethodPut :: string where "MethodPut = ''PUT''"

definition MethodPatch :: string where "MethodPatch = ''PATCH''"

definition MethodDelete :: string where "MethodDelete = ''DELETE''"

lemmas methods = MethodGet_def MethodHead_def MethodPost_def MethodPut_def MethodPatch_def MethodDelete_def

definition New :: "string \<Rightarrow> string \<Rightarrow> Client" where
  "New base key = \<lparr>baseURL = (if base = [] then DefaultBaseURL else base), apiKey = key, actionLog = False, sensitiveErrors = False\<rparr>"

definition WithActionLog :: "Client \<Rightarrow> bool \<Rightarrow> Client" where
  "WithActionLog c l = c\<lparr>actionLog := l\<rparr>"

definition sensitiveClient :: "Client \<Rightarrow> Client" where
  "sensitiveClient c = c\<lparr>sensitiveErrors := True\<rparr>"

definition validateDSeq :: "string \<Rightarrow> cerr option" where
  "validateDSeq dseq =
     (case parse_uint 64 dseq of
        Inl e \<Rightarrow> Some (Plain (InvalidDSeq dseq))
      | Inr parsed \<Rightarrow> if parsed = 0 then Some (Plain (InvalidDSeq dseq)) else None)"

definition trim_right_slash :: "string \<Rightarrow> string" where
  "trim_right_slash s = rev (dropWhile (\<lambda>c. c = CHR ''/'') (rev s))"

definition DeploymentURL :: "Client \<Rightarrow> string \<Rightarrow> string" where
  "DeploymentURL c dseq =
     (if validateDSeq dseq \<noteq> None \<or> trim_right_slash (baseURL c) \<noteq> DefaultBaseURL then []
      else DefaultUIBaseURL @ ''/deployments/'' @ dseq)"

section \<open>URLs\<close>

text \<open>\<open>url.PathEscape\<close> and \<open>url.QueryEscape\<close>.\<close>

definition unreserved :: "char \<Rightarrow> bool" where
  "unreserved c \<longleftrightarrow> in_range 0x30 0x39 c \<or> in_range 0x41 0x5A c \<or> in_range 0x61 0x7A c \<or> c \<in> set ''-_.~''"

definition upper_hex :: "nat \<Rightarrow> char" where
  "upper_hex n = ''0123456789ABCDEF'' ! (n mod 16)"

definition percent :: "char \<Rightarrow> string" where
  "percent c = [CHR ''%'', upper_hex (of_char c div 16), upper_hex (of_char c)]"

definition PathEscape :: "string \<Rightarrow> string" where
  "PathEscape s = concat (map (\<lambda>c. if unreserved c \<or> c \<in> set ''$&+=:@'' then [c] else percent c) s)"

definition QueryEscape :: "string \<Rightarrow> string" where
  "QueryEscape s = concat (map (\<lambda>c. if unreserved c then [c] else if c = CHR '' '' then ''+'' else percent c) s)"

section \<open>Redaction\<close>

text \<open>\<open>strings.ReplaceAll\<close> of a nonempty pattern: leftmost, without overlaps.\<close>

function replace_all :: "string \<Rightarrow> string \<Rightarrow> string \<Rightarrow> string" where
  "replace_all [] old new = []"
| "replace_all (x # xs) old new =
     (if old \<noteq> [] \<and> has_prefix (x # xs) old then new @ replace_all (drop (length old) (x # xs)) old new
      else x # replace_all xs old new)"
  by pat_completeness auto
termination by (relation "measure (\<lambda>(s, _, _). length s)") auto

definition redactResponseSecret :: "string \<Rightarrow> string \<Rightarrow> string" where
  "redactResponseSecret body secret = (if secret = [] then body else replace_all body secret ''[REDACTED]'')"

definition known_codes :: "string list" where
  "known_codes = [''deployment_definition_changed'', ''deployment_resources_changed'', ''stored_secrets_unreadable'',
     ''stored_sdl_unreadable'', ''inherited_secrets_unreadable'', ''deployment_definition_exists'',
     ''deployment_definition_mismatch'', ''manifest_not_delivered'', ''provider_unreachable'']"

definition sanitizeSecretError :: "'x http \<Rightarrow> cerr \<Rightarrow> cerr" where
  "sanitizeSecretError H e =
     (case List.find (errors_Is e) [Canceled, DeadlineExceeded, ErrUnauthorized, ErrInsufficientFunds, ErrNotFound, ErrAlreadyClosed] of
        Some known \<Rightarrow> known
      | None \<Rightarrow>
          (case http_error e of
             Some (status, body) \<Rightarrow>
               let code = (case hCode H body of Some c \<Rightarrow> c | None \<Rightarrow> []);
                   code = (if code = [] then body else code)
               in if code \<in> set known_codes then HTTPError status code else HTTPError status ''sensitive response details omitted''
           | None \<Rightarrow> Plain SensitiveOmitted))"

section \<open>The action log\<close>

definition recordOutcome ::
  "'x http \<Rightarrow> Client \<Rightarrow> string \<Rightarrow> string \<Rightarrow> string \<Rightarrow> cerr option \<Rightarrow> (string \<times> string) list option \<Rightarrow> ('x cw, unit) state" where
  "recordOutcome H c action dseq status opErr params =
     (if \<not> actionLog c then State_Monad.return ()
      else
        let entry = zero_entry\<lparr>eType := TypeConsole, eAction := action, eStatus := status\<rparr>;
            entry = (case parse_uint 64 dseq of Inr n \<Rightarrow> entry\<lparr>eDSeq := of_nat n\<rparr> | Inl _ \<Rightarrow> entry);
            entry = (case opErr of
                None \<Rightarrow> entry
              | Some e \<Rightarrow> entry\<lparr>eStatus := (if eStatus entry = ''success'' then ''failed'' else eStatus entry),
                  eError := redactResponseSecret (hErrText H e) (apiKey c)\<rparr>);
            entry = (case params of
                None \<Rightarrow> entry
              | Some p \<Rightarrow> (case hMarshalMap H p of None \<Rightarrow> entry | Some raw \<Rightarrow> entry\<lparr>eParams := raw\<rparr>))
        in State_Monad.update (\<lambda>w. w\<lparr>logged := logged w @ [entry]\<rparr>))"

definition console_record :: "'x http \<Rightarrow> Client \<Rightarrow> string \<Rightarrow> string \<Rightarrow> cerr option \<Rightarrow> ('x cw, unit) state" where
  "console_record H c action dseq opErr = recordOutcome H c action dseq ''success'' opErr None"

section \<open>Requests with retries\<close>

definition requestTimeout :: "string \<Rightarrow> int" where
  "requestTimeout method = (if method \<in> {MethodPost, MethodPut, MethodPatch, MethodDelete} then 120000 else 30000)"

definition retryableStatus :: "string \<Rightarrow> int \<Rightarrow> bool" where
  "retryableStatus method status \<longleftrightarrow>
     \<not> (status \<noteq> 429 \<and> status < 500) \<and> method \<in> {MethodGet, MethodHead, MethodPut, MethodDelete}"

definition requestFailure :: "Client \<Rightarrow> cerr option \<Rightarrow> bool \<Rightarrow> string \<Rightarrow> string \<Rightarrow> string \<Rightarrow> cerr" where
  "requestFailure c callerErr timedOut method path transportErr =
     (case callerErr of
        Some e \<Rightarrow> Wrap (Calling method path) e
      | None \<Rightarrow>
          if timedOut then Wrap (TimedOutCalling method path) DeadlineExceeded
          else Plain (TransportError method path (redactResponseSecret transportErr (apiKey c))))"

text \<open>\<open>io.ReadAll\<close> of the first \<open>limit + 1\<close> bytes: an error beyond them is not seen.\<close>

definition readResponseBody :: "string \<Rightarrow> string option \<Rightarrow> nat \<Rightarrow> cerr + string" where
  "readResponseBody bytes failure limit =
     (if length bytes < limit + 1 \<and> failure \<noteq> None then Inl (Plain (BodyReadFailed (the failure)))
      else if limit < length (take (limit + 1) bytes) then Inl (Plain (ResponseTooLong limit))
      else Inr bytes)"

definition leaseResponseCode :: "'x http \<Rightarrow> string \<Rightarrow> string" where
  "leaseResponseCode H body =
     (case hCode H body of
        None \<Rightarrow> []
      | Some code \<Rightarrow> if code \<in> {''manifest_not_delivered'', ''provider_unreachable''} then code else [])"

definition waitForRetry :: "'x http \<Rightarrow> nat \<Rightarrow> ('x cw, cerr option) state" where
  "waitForRetry H attempt_no = State (\<lambda>w.
     let (e, x) = hSleep H (net w) (2 ^ attempt_no * 100) in (map_option cause e, w\<lparr>net := x\<rparr>))"

definition ctx_err :: "'x http \<Rightarrow> ('x cw, cerr option) state" where
  "ctx_err H = State (\<lambda>w. (map_option cause (hCtx H (net w)), w))"

definition http_do :: "'x http \<Rightarrow> request \<Rightarrow> ('x cw, reply) state" where
  "http_do H req = State (\<lambda>w. let (r, x) = hDo H (net w) req in (r, w\<lparr>net := x, sent := sent w @ [req]\<rparr>))"

text \<open>
  What a complete response means: a result for the caller, or (the right side) an error after
  which the same request may be worth another attempt.
\<close>

definition judge_response ::
  "Client \<Rightarrow> string \<Rightarrow> string \<Rightarrow> int \<Rightarrow> string \<Rightarrow> (string \<Rightarrow> 'r option) option \<Rightarrow> (cerr + 'r option) + cerr" where
  "judge_response c method path status body decode =
     (if 200 \<le> status \<and> status < 300 then Inl
        (case decode of
           None \<Rightarrow> Inr None
         | Some d \<Rightarrow>
             if trim_space body = [] then Inl (Plain (EmptyResponse method path))
             else (case d body of None \<Rightarrow> Inl (Plain DecodeResponse) | Some r \<Rightarrow> Inr (Some r)))
      else if status = 401 then Inl (Inl (Wrap Unauthorized401 ErrUnauthorized))
      else if status = 402 then Inl (Inl (Wrap Payment402 ErrInsufficientFunds))
      else if status = 404 then Inl (Inl (Wrap (NotFound404 method path) ErrNotFound))
      else if status = 429 then Inr (Plain RateLimited)
      else if 500 \<le> status then Inr (Plain (ServerError status))
      else if 300 \<le> status \<and> status < 400 then Inl (Inl (Plain (RedirectRefused status)))
      else Inl (Inl (HTTPError status (redactResponseSecret body (apiKey c)))))"

text \<open>\<open>None\<close> as a result: nothing was decoded, because the caller passed no result or there was no attempt.\<close>

fun json_attempts ::
  "'x http \<Rightarrow> Client \<Rightarrow> nat \<Rightarrow> string \<Rightarrow> string \<Rightarrow> string option \<Rightarrow> (string \<Rightarrow> 'r option) option \<Rightarrow> ('x cw, cerr + 'r option) state" where
  "json_attempts H c 0 method path payload decode = ok None"
| "json_attempts H c (Suc left) method path payload decode = State_Monad.bind (ctx_err H) (\<lambda>canceled.
     case canceled of
       Some e \<Rightarrow> err (Wrap (Calling method path) e)
     | None \<Rightarrow>
         if \<not> hValidURL H method (baseURL c @ path) then err (Plain CreateRequest)
         else State_Monad.bind (http_do H \<lparr>rMethod = method, rURL = baseURL c @ path, rKey = apiKey c, rBody = payload\<rparr>) (\<lambda>resp.
           case resp of
             NoReply msg timedOut \<Rightarrow> State_Monad.bind (ctx_err H) (\<lambda>callerErr. err (requestFailure c callerErr timedOut method path msg))
           | Reply status bytes failure \<Rightarrow>
               (case readResponseBody bytes failure maxResponseBodyBytes of
                  Inl e \<Rightarrow> err (Wrap ReadingResponse e)
                | Inr body \<Rightarrow>
                    if method = MethodPost \<and> path = ''/v1/leases'' \<and> status \<ge> 400 \<and> leaseResponseCode H body \<noteq> []
                    then err (HTTPError status (leaseResponseCode H body))
                    else (case judge_response c method path status body decode of
                        Inl r \<Rightarrow> State_Monad.return r
                      | Inr lastErr \<Rightarrow>
                          if \<not> retryableStatus method status then err lastErr
                          else if left = 0 then err lastErr
                          else State_Monad.bind (waitForRetry H (maxRetries - Suc left)) (\<lambda>stop.
                            case stop of
                              Some e \<Rightarrow> err e
                            | None \<Rightarrow> json_attempts H c left method path payload decode)))))"

definition sanitized :: "'x http \<Rightarrow> Client \<Rightarrow> ('s, cerr + 'a) state \<Rightarrow> ('s, cerr + 'a) state" where
  "sanitized H c m = (if sensitiveErrors c then attempt m (\<lambda>e. err (sanitizeSecretError H e)) ok else m)"

definition doJSON ::
  "'x http \<Rightarrow> Client \<Rightarrow> string \<Rightarrow> string \<Rightarrow> body option \<Rightarrow> (string \<Rightarrow> 'r option) option \<Rightarrow> ('x cw, cerr + 'r option) state" where
  "doJSON H c method path reqBody decode = sanitized H c
     (case reqBody of
        None \<Rightarrow> json_attempts H c maxRetries method path None decode
      | Some b \<Rightarrow>
          (case hMarshal H b of
             None \<Rightarrow> err (Plain MarshalRequest)
           | Some payload \<Rightarrow> json_attempts H c maxRetries method path (Some payload) decode))"

text \<open>\<open>hData\<close> decodes the envelope: its \<open>data\<close> as text, empty when there is none.\<close>

definition doData ::
  "'x http \<Rightarrow> Client \<Rightarrow> string \<Rightarrow> string \<Rightarrow> body option \<Rightarrow> (string \<Rightarrow> 'r option) \<Rightarrow> ('x cw, cerr + 'r) state" where
  "doData H c method path reqBody decode = sanitized H c
     (ebind (doJSON H c method path reqBody (Some (hData H))) (\<lambda>env.
        let data = (case env of None \<Rightarrow> [] | Some d \<Rightarrow> d) in
        if data = [] \<or> trim_space data = ''null'' then err (Plain (NoEnvelope method path))
        else (case decode data of
                None \<Rightarrow> err (Plain (DecodeEnvelope method path))
              | Some r \<Rightarrow> ok r)))"

end
