(* ===== verification/Console_Types.thy ===== *)
theory Console_Types
  imports Console_Client
begin

text \<open>
  The payloads of the Console API (\<open>src/internal/console/types.go\<close>) and the sealing of secrets
  (\<open>secrets.go\<close>).

  Parameters, in the record \<open>codec\<close>: the decoders of the response payloads (\<open>json.Unmarshal\<close>
  into the struct), the SDL library, the YAML decoder and the encryption of secrets.
\<close>

section \<open>Payloads\<close>

record DeploymentID =
  diOwner :: string
  diDSeq :: string

record Deployment =
  cdID :: DeploymentID
  cdState :: string
  cdHash :: string
  cdCreatedAt :: string

record ConsoleLeaseID =
  clOwner :: string
  clDSeq :: string
  clGSeq :: u32
  clOSeq :: u32
  clProvider :: string

record Price =
  prDenom :: string
  prAmount :: string

text \<open>The parts of a provider's status are kept as raw JSON.\<close>

record LeaseStatus =
  lsServices :: string
  lsForwardedPorts :: string
  lsIPs :: string

record Lease =
  leID :: ConsoleLeaseID
  leState :: string
  lePrice :: "Price option"
  leStatus :: "LeaseStatus option"

record DeploymentListItem =
  itDeployment :: Deployment
  itLeases :: "Lease list"

record Pagination =
  pgTotal :: int
  pgSkip :: int
  pgLimit :: int
  pgHasMore :: bool

record DeploymentList =
  dlDeployments :: "DeploymentListItem list"
  dlPagination :: Pagination

record DeploymentDefinition =
  deSDL :: string
  deManifestVersion :: string

record DeploymentDetail =
  ddDeployment :: Deployment
  ddLeases :: "Lease list"
  ddEscrowAccount :: string
  ddConsoleSettings :: "DeploymentDefinition option"
  ddName :: "string option"
  ddManifestVersion :: string

record SignTx =
  stCode :: int
  stTransactionHash :: string
  stRawLog :: string
  stCodePresent :: bool

record CreateDeploymentResult =
  crDSeq :: string
  crManifest :: string
  crSignTx :: "SignTx option"

record Bid =
  cbID :: ConsoleLeaseID
  cbState :: string
  cbPrice :: "Price option"

record DeploymentSettings =
  dsDSeq :: string
  dsAutoTopUpEnabled :: bool
  dsEstimatedTopUpAmount :: float64
  dsTopUpFrequencyMs :: int
  dsRuntimeLimitHours :: "int option"
  dsRuntimeEndsAt :: "string option"

text \<open>The reply of a settings update, whose fields are pointers.\<close>

record settings_reply =
  srDSeq :: "string option"
  srAutoTopUpEnabled :: "bool option"
  srEstimatedTopUpAmount :: float64
  srTopUpFrequencyMs :: int
  srRuntimeLimitHours :: "int option"
  srRuntimeEndsAt :: "string option"

text \<open>A nil map of secrets is \<open>None\<close>: no source was supplied.\<close>

record SecretValues =
  svValues :: "(string \<times> string) list option"

record CreateDeploymentOptions =
  coSecrets :: SecretValues
  coInheritSecretsFrom :: string

record UpdateDeploymentOptions =
  uoSecrets :: SecretValues

text \<open>The sealing key: the length of its modulus in bits and its exponent; \<open>None\<close> for anything but an RSA key.\<close>

record SecretsContext =
  scSubject :: string
  scKeyID :: string
  scKey :: "(nat \<times> int) option"
  scAlgorithm :: string
  scUse :: string
  scJWKKeyID :: string
  scRequiredClaims :: "string list"

text \<open>A node of the secrets document; the decoder gives the kind and the content of its root, and whether more follows.\<close>

record secret_node =
  snKind :: ykind
  snTag :: string
  snValue :: string
  snAnchor :: string

record sdl_doc =
  sdVersionBytes :: "string + string"
  sdManifestText :: "string + string option"

record codec =
  kDetail :: "string \<Rightarrow> DeploymentDetail option"
  kList :: "string \<Rightarrow> DeploymentList option"
  kCreated :: "string \<Rightarrow> CreateDeploymentResult option"
  kSuccess :: "string \<Rightarrow> bool option option"
  kBids :: "string \<Rightarrow> Bid list option"
  kSettings :: "string \<Rightarrow> DeploymentSettings option"
  kSettingsReply :: "string \<Rightarrow> settings_reply option"
  kSecretsContext :: "string \<Rightarrow> SecretsContext option"
  kSDL :: "string \<Rightarrow> string + sdl_doc"
  kYaml :: yaml
  kSecretDoc :: "string \<Rightarrow> ((ykind \<times> secret_node list) list \<times> bool) option"
  kJSONString :: "string \<Rightarrow> string"
  kEncrypt :: "SecretsContext \<Rightarrow> (string \<times> string) list \<Rightarrow> string \<Rightarrow> int \<Rightarrow> string option"

section \<open>Secrets\<close>

definition maxSecretInputBytes :: nat where "maxSecretInputBytes = 2097152"

definition no_secrets :: SecretValues where "no_secrets = \<lparr>svValues = None\<rparr>"

definition EmptySecretValues :: SecretValues where "EmptySecretValues = \<lparr>svValues = Some []\<rparr>"

definition Supplied :: "SecretValues \<Rightarrow> bool" where "Supplied s \<longleftrightarrow> svValues s \<noteq> None"

definition secret_name :: "string \<Rightarrow> bool" where
  "secret_name s \<longleftrightarrow>
     (case s of [] \<Rightarrow> False
      | c # cs \<Rightarrow> (in_range 0x41 0x5A c \<or> in_range 0x61 0x7A c \<or> c = CHR ''_'') \<and> length cs \<le> 63 \<and>
          list_all (\<lambda>d. in_range 0x41 0x5A d \<or> in_range 0x61 0x7A d \<or> in_range 0x30 0x39 d \<or> d = CHR ''_'') cs)"

text \<open>One pair of the document; the names so far are in the order of the source.\<close>

definition add_secret :: "codec \<Rightarrow> (string \<times> string) list \<Rightarrow> secret_node \<times> secret_node \<Rightarrow> secret_problem + (string \<times> string) list" where
  "add_secret K values kv =
     (let (key, val) = kv in
      if snKind key \<noteq> ScalarNode \<or> snTag key \<noteq> ''!!str'' \<or> \<not> secret_name (snValue key) then Inl BadSecretName
      else if map_of values (snValue key) \<noteq> None then Inl DuplicateSecret
      else if snKind val \<noteq> ScalarNode \<or> snTag val \<noteq> ''!!str'' \<or> snAnchor val \<noteq> [] then Inl BadSecretValue
      else if length (kJSONString K (snValue val)) > 16384 then Inl SecretTooLong
      else Inr (values @ [(snValue key, snValue val)]))"

fun pairs_of :: "'a list \<Rightarrow> ('a \<times> 'a) list" where
  "pairs_of (k # v # rest) = (k, v) # pairs_of rest"
| "pairs_of _ = []"

text \<open>The input is what the limited reader delivers, \<open>Inl\<close> when reading fails.\<close>

definition ReadSecretValues :: "codec \<Rightarrow> unit + string \<Rightarrow> secret_problem + SecretValues" where
  "ReadSecretValues K input =
     (case input of
        Inl _ \<Rightarrow> Inl SecretsRead
      | Inr raw \<Rightarrow>
          if length raw > maxSecretInputBytes then Inl SecretsTooLong
          else (case kSecretDoc K raw of
              None \<Rightarrow> Inl SecretsNotObject
            | Some (content, extra) \<Rightarrow>
                if extra then Inl SecretsManyDocuments
                else (case content of
                    [(MappingNode, nodes)] \<Rightarrow>
                      if length nodes div 2 > 100 then Inl TooManySecrets
                      else rbind (foldM (add_secret K) [] (pairs_of nodes)) (\<lambda>values. Inr \<lparr>svValues = Some values\<rparr>)
                  | _ \<Rightarrow> Inl SecretsNotObject)))"

definition validateSecretsContext :: "SecretsContext \<Rightarrow> secret_problem option" where
  "validateSecretsContext v =
     (if (case scKey v of None \<Rightarrow> True | Some (bits, e) \<Rightarrow> bits < 2048 \<or> 8192 < bits \<or> e < 3 \<or> even e)
         \<or> scAlgorithm v \<noteq> ''RSA-OAEP-256'' \<or> scUse v \<noteq> ''enc'' \<or> scSubject v = [] \<or> scKeyID v = []
      then Some BadSecretsContext
      else if scJWKKeyID v \<noteq> [] \<and> scJWKKeyID v \<noteq> scKeyID v then Some KeyIDsDisagree
      else if list_ex (\<lambda>c. c \<notin> {''sub'', ''kid'', ''exp''}) (scRequiredClaims v) then Some UnsupportedClaims
      else if \<not> {''sub'', ''kid'', ''exp''} \<subseteq> set (scRequiredClaims v) then Some MissingClaims
      else None)"

text \<open>\<open>kEncrypt\<close>: the compact token with the claims of the context, the hash of the SDL unless that is empty, and an expiry.\<close>

definition sealSecrets_with :: "codec \<Rightarrow> SecretsContext \<Rightarrow> SecretValues \<Rightarrow> string \<Rightarrow> int \<Rightarrow> secret_problem + string" where
  "sealSecrets_with K v secrets rawSDL now =
     (case validateSecretsContext v of
        Some e \<Rightarrow> Inl e
      | None \<Rightarrow> of_opt CannotEncrypt
          (kEncrypt K v (case svValues secrets of None \<Rightarrow> [] | Some vs \<Rightarrow> vs) rawSDL (now + 300)))"

definition GetSecretsContext :: "'x http \<Rightarrow> codec \<Rightarrow> Client \<Rightarrow> ('x cw, cerr + SecretsContext) state" where
  "GetSecretsContext H K c =
     ebind (doData H (sensitiveClient c) MethodGet ''/v1/sdl-secrets-context'' None (kSecretsContext K)) (\<lambda>result.
       case validateSecretsContext result of
         Some e \<Rightarrow> err (Plain (Sealing e))
       | None \<Rightarrow> ok result)"

definition sealSecrets :: "'x http \<Rightarrow> codec \<Rightarrow> Client \<Rightarrow> SecretValues \<Rightarrow> string \<Rightarrow> ('x cw, cerr + string) state" where
  "sealSecrets H K c secrets rawSDL =
     ebind (GetSecretsContext H K c) (\<lambda>value. State_Monad.bind State_Monad.get (\<lambda>w.
       case sealSecrets_with K value secrets rawSDL (hNow H (net w)) of
         Inl e \<Rightarrow> err (Plain (Sealing e))
       | Inr token \<Rightarrow> ok token))"

end
