(* ===== verification/Console_Deployments.thy ===== *)
theory Console_Deployments
  imports Console_Types
begin

text \<open>
  Deployments and leases of the Console API (\<open>src/internal/console/deployments.go\<close>,
  \<open>deployment_secrets.go\<close>).  A loop that polls until its context ends takes the number of polls
  as fuel; \<open>None\<close> is a result that is not there yet.
\<close>

section \<open>SDL artifacts and receipts\<close>

text \<open>\<open>base64.StdEncoding\<close>.\<close>

definition base64_alphabet :: string where
  "base64_alphabet = ''ABCDEFGHIJKLMNOPQRSTUVWXYZabcdefghijklmnopqrstuvwxyz0123456789+/''"

definition base64_digit :: "nat \<Rightarrow> char" where
  "base64_digit n = base64_alphabet ! (n mod 64)"

fun base64_std :: "string \<Rightarrow> string" where
  "base64_std [] = []"
| "base64_std [a] = (let n = of_char a * 16 in [base64_digit (n div 64), base64_digit n, CHR ''='', CHR ''=''])"
| "base64_std [a, b] = (let n = of_char a * 1024 + of_char b * 4 in
     [base64_digit (n div 4096), base64_digit (n div 64), base64_digit n, CHR ''=''])"
| "base64_std (a # b # c # rest) = (let n = of_char a * 65536 + of_char b * 256 + of_char c in
     [base64_digit (n div 262144), base64_digit (n div 4096), base64_digit (n div 64), base64_digit n] @ base64_std rest)"

definition deploymentArtifacts :: "codec \<Rightarrow> string \<Rightarrow> deployment_problem + (string \<times> string)" where
  "deploymentArtifacts K rawSDL =
     (case kSDL K rawSDL of
        Inl e \<Rightarrow> Inl (SDLError e)
      | Inr doc \<Rightarrow>
          (case sdVersionBytes doc of
             Inl e \<Rightarrow> Inl (SDLError e)
           | Inr version \<Rightarrow>
               (case sdManifestText doc of
                  Inl e \<Rightarrow> Inl (SDLError e)
                | Inr None \<Rightarrow> Inl (SDLError ''encode manifest'')
                | Inr (Some manifest) \<Rightarrow> Inr (base64_std version, manifest))))"

definition validDeploymentDSeq :: "string \<Rightarrow> bool" where
  "validDeploymentDSeq dseq \<longleftrightarrow> (case parse_uint 64 dseq of Inl _ \<Rightarrow> False | Inr n \<Rightarrow> n > 0)"

definition validateCreateDeploymentResult :: "CreateDeploymentResult \<Rightarrow> deployment_problem option" where
  "validateCreateDeploymentResult r =
     (if \<not> validDeploymentDSeq (crDSeq r) then Some (InvalidResultDSeq (crDSeq r))
      else case crSignTx r of
        None \<Rightarrow> Some NoReceipt
      | Some tx \<Rightarrow>
          if \<not> stCodePresent tx then Some NoReceiptCode
          else if stCode tx \<noteq> 0 then Some (ReceiptFailed (stTransactionHash tx) (stCode tx) (stRawLog tx))
          else if trim_space (stTransactionHash tx) = [] then Some NoReceiptHash
          else None)"

definition definitiveCreateFailure :: "cerr \<Rightarrow> bool" where
  "definitiveCreateFailure e \<longleftrightarrow>
     errors_Is e ErrUnauthorized \<or> errors_Is e ErrInsufficientFunds \<or> errors_Is e ErrNotFound \<or>
     (case http_error e of Some (status, _) \<Rightarrow> status \<ge> 400 \<and> status < 500 \<and> status \<noteq> 429 | None \<Rightarrow> False)"

definition rejectUnsealedReferences :: "codec \<Rightarrow> string \<Rightarrow> deployment_problem option" where
  "rejectUnsealedReferences K rawSDL =
     (case HasReferences (kYaml K) rawSDL of
        Inl _ \<Rightarrow> Some InvalidSDLText
      | Inr True \<Rightarrow> Some UnsealedReferences
      | Inr False \<Rightarrow> None)"

section \<open>Listings\<close>

definition deploymentCollectionPageSize :: int where "deploymentCollectionPageSize = 100"

definition maxDeploymentCollectionPages :: nat where "maxDeploymentCollectionPages = 100"

definition maxDeploymentCollectionRecords :: nat where "maxDeploymentCollectionRecords = 10000"

definition item_dseq :: "DeploymentListItem \<Rightarrow> string" where
  "item_dseq it = diDSeq (cdID (itDeployment it))"

text \<open>The place that the map \<open>byDSeq\<close> ends up with for a sequence: the last item that carries it.\<close>

definition home_of :: "DeploymentListItem list \<Rightarrow> string \<Rightarrow> nat option" where
  "home_of items dseq = fold (\<lambda>i found. if item_dseq (items ! i) = dseq then Some i else found) [0..<length items] None"

definition regroupLeases :: "DeploymentListItem list \<Rightarrow> DeploymentListItem list" where
  "regroupLeases items =
     (let leases = concat (map itLeases items)
      in map (\<lambda>i. (items ! i)\<lparr>itLeases := filter (\<lambda>l. home_of items (clDSeq (leID l)) = Some i) leases\<rparr>) [0..<length items])"

definition ListDeployments :: "'x http \<Rightarrow> codec \<Rightarrow> Client \<Rightarrow> int \<Rightarrow> int \<Rightarrow> ('x cw, cerr + DeploymentList) state" where
  "ListDeployments H K c skip limit =
     (if skip < 0 then err (Plain (Deploying (NegativeSkip skip)))
      else if limit < 1 then err (Plain (Deploying (LimitNotPositive limit)))
      else ebind (doData H c MethodGet (''/v1/deployments?skip='' @ format_nat (nat skip) @ ''&limit='' @ format_nat (nat limit)) None (kList K))
        (\<lambda>page. ok (page\<lparr>dlDeployments := regroupLeases (dlDeployments page)\<rparr>)))"

fun list_pages :: "'x http \<Rightarrow> codec \<Rightarrow> Client \<Rightarrow> nat \<Rightarrow> int \<Rightarrow> DeploymentListItem list \<Rightarrow> ('x cw, cerr + DeploymentListItem list) state" where
  "list_pages H K c 0 skip all = err (Plain (Deploying PaginationLimit))"
| "list_pages H K c (Suc left) skip all = ebind (ListDeployments H K c skip deploymentCollectionPageSize) (\<lambda>page.
     let count = length (dlDeployments page); pagination = dlPagination page in
     if int count > int maxDeploymentCollectionRecords - int (length all) then err (Plain (Deploying PaginationLimit))
     else
       let all = all @ dlDeployments page in
       if \<not> pgHasMore pagination then ok all
       else
         let step = (if pgLimit pagination \<le> 0 then int count else pgLimit pagination);
             next_skip = wrap_i64 (pgSkip pagination + step)
         in if step \<le> 0 \<or> next_skip \<le> skip then err (Plain (Deploying (PaginationStuck skip)))
            else list_pages H K c left next_skip all)"

definition listAllDeployments :: "'x http \<Rightarrow> codec \<Rightarrow> Client \<Rightarrow> ('x cw, cerr + DeploymentListItem list) state" where
  "listAllDeployments H K c = list_pages H K c maxDeploymentCollectionPages 0 []"

text \<open>
  The requested window of the filtered list; slicing with bounds out of order is a panic.
  \<open>strings.EqualFold\<close> with a word none of whose letters has a non-ASCII case form of its size.
\<close>

definition equal_fold :: "string \<Rightarrow> string \<Rightarrow> bool" where
  "equal_fold s t \<longleftrightarrow> to_lower s = to_lower t"

definition state_window :: "DeploymentListItem list \<Rightarrow> int \<Rightarrow> int \<Rightarrow> deployment_problem + DeploymentList" where
  "state_window filtered skip limit =
     (let total = int (length filtered);
          start = (if skip > total then total else skip);
          stop = wrap_i64 (start + limit);
          stop = (if stop > total then total else stop)
      in if stop < start then Inl IndexPanic
         else Inr \<lparr>dlDeployments = take (nat stop - nat start) (drop (nat start) filtered),
           dlPagination = \<lparr>pgTotal = total, pgSkip = skip, pgLimit = limit, pgHasMore = stop < total\<rparr>\<rparr>)"

definition ListDeploymentsByState :: "'x http \<Rightarrow> codec \<Rightarrow> Client \<Rightarrow> string \<Rightarrow> int \<Rightarrow> int \<Rightarrow> ('x cw, cerr + DeploymentList) state" where
  "ListDeploymentsByState H K c state skip limit =
     (if skip < 0 then err (Plain (Deploying (NegativeSkip skip)))
      else if limit < 1 then err (Plain (Deploying (LimitNotPositive limit)))
      else
        let state = to_lower (trim_space state) in
        if state \<noteq> ''active'' \<and> state \<noteq> ''closed'' then err (Plain (Deploying (BadState state)))
        else ebind (listAllDeployments H K c) (\<lambda>all.
          case state_window (filter (\<lambda>it. equal_fold (cdState (itDeployment it)) state) all) skip limit of
            Inl e \<Rightarrow> err (Plain (Deploying e))
          | Inr page \<Rightarrow> ok page))"

definition GetDeployment :: "'x http \<Rightarrow> codec \<Rightarrow> Client \<Rightarrow> string \<Rightarrow> ('x cw, cerr + DeploymentDetail) state" where
  "GetDeployment H K c dseq =
     (case validateDSeq dseq of
        Some e \<Rightarrow> err e
      | None \<Rightarrow> doData H c MethodGet (''/v1/deployments/'' @ PathEscape dseq) None (kDetail K))"

definition GetDeploymentDefinition :: "'x http \<Rightarrow> codec \<Rightarrow> Client \<Rightarrow> string \<Rightarrow> ('x cw, cerr + DeploymentDefinition) state" where
  "GetDeploymentDefinition H K c dseq =
     ebind (GetDeployment H K c dseq) (\<lambda>detail.
       case ddConsoleSettings detail of
         None \<Rightarrow> err (Plain (Leasing (NoSavedDefinition dseq)))
       | Some d \<Rightarrow> if deSDL d = [] \<or> deManifestVersion d = [] then err (Plain (Leasing (NoSavedDefinition dseq))) else ok d)"

definition FetchBids :: "'x http \<Rightarrow> codec \<Rightarrow> Client \<Rightarrow> string \<Rightarrow> ('x cw, cerr + Bid list) state" where
  "FetchBids H K c dseq =
     (case validateDSeq dseq of
        Some e \<Rightarrow> err e
      | None \<Rightarrow> doData H c MethodGet (''/v1/bids?dseq='' @ QueryEscape dseq) None (kBids K))"

section \<open>Creating\<close>

definition new_matches :: "string set \<Rightarrow> string \<Rightarrow> DeploymentListItem list \<Rightarrow> string list" where
  "new_matches known versionHash items =
     map item_dseq (filter (\<lambda>it. item_dseq it \<notin> known \<and> cdHash (itDeployment it) = versionHash \<and> validDeploymentDSeq (item_dseq it)) items)"

fun reconcile_create ::
  "'x http \<Rightarrow> codec \<Rightarrow> Client \<Rightarrow> nat \<Rightarrow> nat \<Rightarrow> string set \<Rightarrow> string \<Rightarrow> string \<Rightarrow> ('x cw, CreateDeploymentResult option) state" where
  "reconcile_create H K c 0 attempt_no known versionHash manifest = State_Monad.return None"
| "reconcile_create H K c (Suc left) attempt_no known versionHash manifest =
     State_Monad.bind (listAllDeployments H K c) (\<lambda>items.
       let matches = (case items of Inl _ \<Rightarrow> [] | Inr its \<Rightarrow> new_matches known versionHash its) in
       if length matches = 1 then State_Monad.return (Some \<lparr>crDSeq = hd matches, crManifest = manifest, crSignTx = None\<rparr>)
       else if length matches > 1 then State_Monad.return None
       else if left = 0 then State_Monad.return None
       else State_Monad.bind (waitForRetry H attempt_no) (\<lambda>stop.
         if stop \<noteq> None then State_Monad.return None
         else reconcile_create H K c left (Suc attempt_no) known versionHash manifest))"

definition reconcileCreatedDeployment ::
  "'x http \<Rightarrow> codec \<Rightarrow> Client \<Rightarrow> string set \<Rightarrow> string \<Rightarrow> string \<Rightarrow> ('x cw, CreateDeploymentResult option) state" where
  "reconcileCreatedDeployment H K c known versionHash manifest = reconcile_create H K c (maxRetries + 2) 0 known versionHash manifest"

text \<open>Record an outcome and return the error that goes with it.\<close>

definition fail_with ::
  "'x http \<Rightarrow> Client \<Rightarrow> string \<Rightarrow> string \<Rightarrow> string \<Rightarrow> cerr \<Rightarrow> (string \<times> string) list option \<Rightarrow> ('x cw, cerr + 'a) state" where
  "fail_with H c action dseq status e params = State_Monad.bind (recordOutcome H c action dseq status (Some e) params) (\<lambda>_. err e)"

definition createDeploymentWithSecrets ::
  "'x http \<Rightarrow> codec \<Rightarrow> Client \<Rightarrow> string \<Rightarrow> CreateDeploymentOptions \<Rightarrow> ('x cw, cerr + CreateDeploymentResult) state" where
  "createDeploymentWithSecrets H K c0 rawSDL options =
     (let c = sensitiveClient c0;
          failed = (\<lambda>e. fail_with H c ''create-deployment'' [] ''success'' e None);
          inherit_err = (if coInheritSecretsFrom options \<noteq> [] then validateDSeq (coInheritSecretsFrom options) else None)
      in case inherit_err of
        Some e \<Rightarrow> failed e
      | None \<Rightarrow>
        (case deploymentArtifacts K rawSDL of
          Inl _ \<Rightarrow> failed (Plain (Deploying InvalidSDLText))
        | Inr _ \<Rightarrow>
          attempt (sealSecrets H K c (coSecrets options) rawSDL) failed (\<lambda>sealed.
          State_Monad.bind (doData H c MethodPost ''/v1/deployments''
              (Some (envelope (SealedSDL rawSDL sealed (coInheritSecretsFrom options)))) (kCreated K)) (\<lambda>r.
          let r = (case r of Inl e \<Rightarrow> Inl e
                   | Inr result \<Rightarrow> (case validateCreateDeploymentResult result of
                       Some e \<Rightarrow> Inl (sanitizeSecretError H (Plain (Deploying e)))
                     | None \<Rightarrow> Inr result))
          in case r of
               Inr result \<Rightarrow>
                 State_Monad.bind (console_record H c ''create-deployment'' (crDSeq result) None) (\<lambda>_.
                   ok (result\<lparr>crSignTx := map_option (\<lambda>tx. tx\<lparr>stRawLog := []\<rparr>) (crSignTx result)\<rparr>))
             | Inl e \<Rightarrow>
                 if definitiveCreateFailure e then failed e
                 else fail_with H c ''create-deployment'' [] ''pending'' (Wrap (CreateUnknown []) e) None))))"

definition createDeploymentLegacy :: "'x http \<Rightarrow> codec \<Rightarrow> Client \<Rightarrow> string \<Rightarrow> ('x cw, cerr + CreateDeploymentResult) state" where
  "createDeploymentLegacy H K c sdl =
     (case deploymentArtifacts K sdl of
        Inl e \<Rightarrow> fail_with H c ''create-deployment'' [] ''failed'' (Wrap PrepareSDL (Plain (Deploying e))) None
      | Inr (versionHash, manifest) \<Rightarrow>
          (case rejectUnsealedReferences K sdl of
             Some e \<Rightarrow> fail_with H c ''create-deployment'' [] ''success'' (Plain (Deploying e)) None
           | None \<Rightarrow>
               let params = Some [(''versionHash'', versionHash)] in
               attempt (listAllDeployments H K c)
                 (\<lambda>e. fail_with H c ''create-deployment'' [] ''failed'' (Wrap SnapshotBefore e) params)
                 (\<lambda>before.
                   State_Monad.bind (doData H c MethodPost ''/v1/deployments'' (Some (envelope (SDLBody sdl))) (kCreated K)) (\<lambda>r.
                   let r = (case r of Inl e \<Rightarrow> Inl e
                            | Inr out \<Rightarrow> (case validateCreateDeploymentResult out of
                                Some e \<Rightarrow> Inl (Plain (Deploying e)) | None \<Rightarrow> Inr out))
                   in case r of
                        Inr out \<Rightarrow>
                          State_Monad.bind (recordOutcome H c ''create-deployment'' (crDSeq out) ''success'' None params) (\<lambda>_.
                            ok (if crManifest out = [] then out\<lparr>crManifest := manifest\<rparr> else out))
                      | Inl e \<Rightarrow>
                          if definitiveCreateFailure e then fail_with H c ''create-deployment'' [] ''failed'' e params
                          else State_Monad.bind (reconcileCreatedDeployment H K c (item_dseq ` set before) versionHash manifest) (\<lambda>found.
                            case found of
                              Some reconciled \<Rightarrow>
                                State_Monad.bind (recordOutcome H c ''create-deployment'' (crDSeq reconciled) ''success'' None params) (\<lambda>_.
                                  ok reconciled)
                            | None \<Rightarrow>
                                fail_with H c ''create-deployment'' [] ''pending'' (Wrap (CreateUnknown versionHash) e) params)))))"

definition CreateDeployment ::
  "'x http \<Rightarrow> codec \<Rightarrow> Client \<Rightarrow> string \<Rightarrow> CreateDeploymentOptions list \<Rightarrow> ('x cw, cerr + CreateDeploymentResult) state" where
  "CreateDeployment H K c sdl options =
     (case options of
        [] \<Rightarrow> createDeploymentLegacy H K c sdl
      | [o1] \<Rightarrow> createDeploymentWithSecrets H K c sdl o1
      | _ \<Rightarrow> err (Plain (Deploying ManyOptions)))"

end
