(* ===== verification/Console_Updates.thy ===== *)
theory Console_Updates
  imports Console_Deployments
begin

text \<open>
  Updating and closing deployments, leases and settings over the Console API
  (\<open>src/internal/console/deployments.go\<close>, \<open>deployment_secrets.go\<close>), and the account endpoints
  that change something (\<open>wallet.go\<close>, \<open>apikeys.go\<close>).
\<close>

section \<open>Preconditions\<close>

definition requireMutableState :: "DeploymentDetail \<Rightarrow> string \<Rightarrow> cerr option" where
  "requireMutableState detail dseq =
     (let state = to_lower (trim_space (cdState (ddDeployment detail)))
      in if state = ''closed'' then Some (Plain (Leasing (DeploymentIsClosed dseq))) else None)"

definition requireMutableDeployment :: "'x http \<Rightarrow> codec \<Rightarrow> Client \<Rightarrow> string \<Rightarrow> ('x cw, cerr + DeploymentDetail) state" where
  "requireMutableDeployment H K c dseq =
     ebind (GetDeployment H K c dseq) (\<lambda>detail.
       case requireMutableState detail dseq of Some e \<Rightarrow> err e | None \<Rightarrow> ok detail)"

definition detail_dseq :: "DeploymentDetail \<Rightarrow> string" where
  "detail_dseq d = diDSeq (cdID (ddDeployment d))"

section \<open>Updating\<close>

definition validateDeploymentUpdateResult :: "DeploymentDetail \<Rightarrow> string \<Rightarrow> string \<Rightarrow> cerr option" where
  "validateDeploymentUpdateResult r dseq expectedHash =
     (if detail_dseq r \<noteq> dseq then Some (Plain (Deploying (UpdateWrongDSeq (detail_dseq r) dseq)))
      else if cdHash (ddDeployment r) \<noteq> expectedHash then Some (Plain (Deploying (UpdateWrongHash (cdHash (ddDeployment r)) expectedHash)))
      else None)"

definition reconcileDeploymentUpdate ::
  "'x http \<Rightarrow> codec \<Rightarrow> Client \<Rightarrow> string \<Rightarrow> string \<Rightarrow> ('x cw, DeploymentDetail option) state" where
  "reconcileDeploymentUpdate H K c dseq expectedHash =
     attempt (GetDeployment H K c dseq) (\<lambda>_. State_Monad.return None) (\<lambda>detail.
       State_Monad.return (if detail_dseq detail = dseq \<and> cdHash (ddDeployment detail) = expectedHash then Some detail else None))"

definition isTransientManifestVersionError :: "cerr \<Rightarrow> bool" where
  "isTransientManifestVersionError e \<longleftrightarrow>
     (case http_error e of
        None \<Rightarrow> False
      | Some (status, body) \<Rightarrow> status = 422 \<and> contains (to_lower body) ''manifest version validation failed'')"

fun put_attempts ::
  "'x http \<Rightarrow> codec \<Rightarrow> Client \<Rightarrow> nat \<Rightarrow> nat \<Rightarrow> string \<Rightarrow> string \<Rightarrow> string \<Rightarrow> ('x cw, cerr + DeploymentDetail option) state" where
  "put_attempts H K c 0 attempt_no dseq rawSDL expectedHash = ok None"
| "put_attempts H K c (Suc left) attempt_no dseq rawSDL expectedHash =
     State_Monad.bind (doData H c MethodPut (''/v1/deployments/'' @ PathEscape dseq) (Some (envelope (SDLBody rawSDL))) (kDetail K)) (\<lambda>r.
       let r = (case r of Inl e \<Rightarrow> Inl e
                | Inr out \<Rightarrow> (case validateDeploymentUpdateResult out dseq expectedHash of Some e \<Rightarrow> Inl e | None \<Rightarrow> Inr out))
       in case r of
            Inr out \<Rightarrow> ok (Some out)
          | Inl lastErr \<Rightarrow>
              State_Monad.bind (reconcileDeploymentUpdate H K c dseq expectedHash) (\<lambda>found.
                case found of
                  Some detail \<Rightarrow> ok (Some detail)
                | None \<Rightarrow>
                    if \<not> isTransientManifestVersionError lastErr \<or> left = 0 then err lastErr
                    else State_Monad.bind (waitForRetry H attempt_no) (\<lambda>stop.
                      case stop of
                        Some e \<Rightarrow> err e
                      | None \<Rightarrow> put_attempts H K c left (Suc attempt_no) dseq rawSDL expectedHash)))"

text \<open>After no attempt at all the source records and returns a nil error and a nil detail.\<close>

definition updateDeploymentSDL ::
  "'x http \<Rightarrow> codec \<Rightarrow> Client \<Rightarrow> string \<Rightarrow> string \<Rightarrow> string \<Rightarrow> ('x cw, cerr + DeploymentDetail option) state" where
  "updateDeploymentSDL H K c dseq rawSDL expectedHash =
     attempt (put_attempts H K c maxRetries 0 dseq rawSDL expectedHash)
       (\<lambda>e. fail_with H c ''update-deployment'' dseq ''success'' e None)
       (\<lambda>detail. State_Monad.bind (console_record H c ''update-deployment'' dseq None) (\<lambda>_. ok detail))"

text \<open>
  \<open>patchDeploymentDefinition\<close> in three parts: the patch that will be sent, the request, and what
  the response has to confirm.
\<close>

definition rename_only :: "Patch \<Rightarrow> SecretValues \<Rightarrow> bool" where
  "rename_only patch secrets \<longleftrightarrow> \<not> HasChanges (patch\<lparr>paName := None\<rparr>) \<and> paName patch \<noteq> None \<and> \<not> Supplied secrets"

definition prepare_patch :: "codec \<Rightarrow> string \<Rightarrow> SecretValues \<Rightarrow> DeploymentDetail \<Rightarrow> Patch \<Rightarrow> cerr + Patch" where
  "prepare_patch K dseq secrets current patch =
     (if rename_only patch secrets then
        if paIfManifestVersion patch \<noteq> [] then Inl (Plain (Leasing RenameWithVersion))
        else Inr (patch\<lparr>paServices := []\<rparr>)
      else
        case ddConsoleSettings current of
          None \<Rightarrow> Inl (Plain (Leasing (NoSavedDefinition dseq)))
        | Some def \<Rightarrow>
            if deSDL def = [] \<or> deManifestVersion def = [] then Inl (Plain (Leasing (NoSavedDefinition dseq)))
            else
              let patch = (if paIfManifestVersion patch = [] then patch\<lparr>paIfManifestVersion := deManifestVersion def\<rparr> else patch)
              in case Apply (kYaml K) (deSDL def) patch of
                   Inl e \<Rightarrow> Inl (Plain (Deploying (ConfigError e)))
                 | Inr _ \<Rightarrow> Inr patch)"

definition check_patched :: "string \<Rightarrow> bool \<Rightarrow> Patch \<Rightarrow> cerr + DeploymentDetail \<Rightarrow> cerr + DeploymentDetail" where
  "check_patched dseq renameOnly patch r =
     (case r of
        Inl e \<Rightarrow> Inl e
      | Inr result \<Rightarrow>
          if detail_dseq result \<noteq> dseq then Inl (Plain (Leasing PatchWrongDSeq))
          else if renameOnly \<and> ddName result \<noteq> paName patch then Inl (Plain (Leasing PatchNameNotEchoed))
          else if \<not> renameOnly \<and> (ddManifestVersion result = [] \<or> cdHash (ddDeployment result) \<noteq> ddManifestVersion result)
          then Inl (Plain (Leasing PatchNotConfirmed))
          else Inr result)"

definition patchDeploymentDefinition ::
  "'x http \<Rightarrow> codec \<Rightarrow> Client \<Rightarrow> string \<Rightarrow> Patch \<Rightarrow> SecretValues \<Rightarrow> DeploymentDetail \<Rightarrow> ('x cw, cerr + DeploymentDetail option) state" where
  "patchDeploymentDefinition H K c dseq patch0 secrets current =
     (let failed = (\<lambda>e. fail_with H c ''update-deployment'' dseq ''success'' e None);
          patch1 = patch0\<lparr>paName := map_option trim_space (paName patch0)\<rparr>;
          renameOnly = rename_only patch1 secrets
      in case prepare_patch K dseq secrets current patch1 of
           Inl e \<Rightarrow> failed e
         | Inr patch \<Rightarrow>
             attempt (if renameOnly then ok [] else sealSecrets H K c secrets []) failed (\<lambda>sealed.
             State_Monad.bind (doData H c MethodPatch (''/v1/deployments/'' @ PathEscape dseq)
                 (Some (envelope (PatchBody patch sealed))) (kDetail K)) (\<lambda>r.
             case check_patched dseq renameOnly patch r of
               Inr result \<Rightarrow> State_Monad.bind (console_record H c ''update-deployment'' dseq None) (\<lambda>_. ok (Some result))
             | Inl e \<Rightarrow>
                 if definitiveCreateFailure e then failed e
                 else fail_with H c ''update-deployment'' dseq ''pending'' (Wrap UpdateUnknown e) None)))"

definition updateDeploymentDefinition ::
  "'x http \<Rightarrow> codec \<Rightarrow> Client \<Rightarrow> string \<Rightarrow> string \<Rightarrow> UpdateDeploymentOptions \<Rightarrow> ('x cw, cerr + DeploymentDetail option) state" where
  "updateDeploymentDefinition H K c0 dseq rawSDL options =
     (let c = sensitiveClient c0;
          failed = (\<lambda>e. fail_with H c ''update-deployment'' dseq ''success'' e None)
      in case validateDSeq dseq of
        Some e \<Rightarrow> failed e
      | None \<Rightarrow>
        (case deploymentArtifacts K rawSDL of
          Inl _ \<Rightarrow> failed (Plain (Deploying InvalidSDLText))
        | Inr (expectedHash, _) \<Rightarrow>
          attempt (requireMutableDeployment H K c dseq) failed (\<lambda>detail.
          case ddConsoleSettings detail of
            None \<Rightarrow>
              if HasReferences (kYaml K) rawSDL \<noteq> Inr False \<or> Supplied (uoSecrets options)
              then failed (Plain (Leasing LegacyWithSecrets))
              else updateDeploymentSDL H K c dseq rawSDL expectedHash
          | Some def \<Rightarrow>
              (case Diff (kYaml K) (deSDL def) rawSDL of
                 Inl e \<Rightarrow> failed (Plain (Deploying (ConfigError e)))
               | Inr patch \<Rightarrow> patchDeploymentDefinition H K c dseq patch (uoSecrets options) detail))))"

definition PatchDeployment ::
  "'x http \<Rightarrow> codec \<Rightarrow> Client \<Rightarrow> string \<Rightarrow> Patch \<Rightarrow> SecretValues \<Rightarrow> ('x cw, cerr + DeploymentDetail option) state" where
  "PatchDeployment H K c0 dseq patch secrets =
     (let c = sensitiveClient c0;
          failed = (\<lambda>e. fail_with H c ''update-deployment'' dseq ''success'' e None)
      in case Validate patch of
        Inl e \<Rightarrow> failed (Plain (Deploying (ConfigError e)))
      | Inr _ \<Rightarrow>
          if \<not> HasChanges patch \<and> \<not> Supplied secrets then failed (Plain (Leasing EmptyPatch))
          else attempt (requireMutableDeployment H K c dseq) failed (\<lambda>detail.
            patchDeploymentDefinition H K c dseq patch secrets detail))"

definition updateDeploymentLegacy ::
  "'x http \<Rightarrow> codec \<Rightarrow> Client \<Rightarrow> string \<Rightarrow> string \<Rightarrow> ('x cw, cerr + DeploymentDetail option) state" where
  "updateDeploymentLegacy H K c dseq sdl =
     (let failed = (\<lambda>e. fail_with H c ''update-deployment'' dseq ''success'' e None)
      in case validateDSeq dseq of
        Some e \<Rightarrow> failed e
      | None \<Rightarrow>
        (case deploymentArtifacts K sdl of
          Inl e \<Rightarrow> failed (Wrap PrepareSDL (Plain (Deploying e)))
        | Inr (expectedHash, _) \<Rightarrow>
          (case rejectUnsealedReferences K sdl of
            Some e \<Rightarrow> failed (Plain (Deploying e))
          | None \<Rightarrow>
              attempt (requireMutableDeployment H K c dseq) (\<lambda>e. failed (Wrap Preflight e)) (\<lambda>_.
                updateDeploymentSDL H K c dseq sdl expectedHash))))"

definition UpdateDeployment ::
  "'x http \<Rightarrow> codec \<Rightarrow> Client \<Rightarrow> string \<Rightarrow> string \<Rightarrow> UpdateDeploymentOptions list \<Rightarrow> ('x cw, cerr + DeploymentDetail option) state" where
  "UpdateDeployment H K c dseq sdl options =
     (case options of
        [] \<Rightarrow> updateDeploymentLegacy H K c dseq sdl
      | [o1] \<Rightarrow> updateDeploymentDefinition H K c dseq sdl o1
      | _ \<Rightarrow> err (Plain (Deploying ManyOptions)))"

section \<open>Closing\<close>

definition isAlreadyClosed :: "cerr \<Rightarrow> bool" where
  "isAlreadyClosed e \<longleftrightarrow>
     errors_Is e ErrNotFound \<or>
     (case http_error e of
        None \<Rightarrow> False
      | Some (status, body) \<Rightarrow> status = 400 \<and>
          (let body = to_lower body in contains body ''already closed'' \<or> contains body ''deployment closed'' \<or> contains body ''not found''))"

definition mutationReconciliationWindow :: int where "mutationReconciliationWindow = 30000"

definition mutationReconciliationPollInterval :: int where "mutationReconciliationPollInterval = 2000"

definition waitForMutationObservation :: "'x http \<Rightarrow> int \<Rightarrow> ('x cw, cerr option) state" where
  "waitForMutationObservation H interval = State (\<lambda>w. let (e, x) = hSleep H (net w) interval in (map_option cause e, w\<lparr>net := x\<rparr>))"

text \<open>The two nested contexts of a reconciliation: enter the timed one, and leave it again.\<close>

definition with_timeout :: "'x http \<Rightarrow> int \<Rightarrow> ('x cw, 'a) state \<Rightarrow> ('x cw, 'a) state" where
  "with_timeout H ms m = State_Monad.bind (State_Monad.update (\<lambda>w. w\<lparr>net := hWithTimeout H (net w) ms\<rparr>)) (\<lambda>_.
     State_Monad.bind m (\<lambda>r. State_Monad.bind (State_Monad.update (\<lambda>w. w\<lparr>net := hCancel H (net w)\<rparr>)) (\<lambda>_. State_Monad.return r)))"

fun close_polls ::
  "'x http \<Rightarrow> codec \<Rightarrow> Client \<Rightarrow> nat \<Rightarrow> string \<Rightarrow> int \<Rightarrow> ('x cw, (bool \<times> cerr option) option) state" where
  "close_polls H K c 0 dseq interval = State_Monad.return None"
| "close_polls H K c (Suc polls) dseq interval =
     State_Monad.bind (GetDeployment H K c dseq) (\<lambda>r.
       let seen = (case r of
             Inl e \<Rightarrow> if errors_Is e ErrNotFound then Inr () else Inl e
           | Inr detail \<Rightarrow>
               if detail_dseq detail \<noteq> dseq then Inl (Plain (Deploying (CloseWrongDSeq (detail_dseq detail) dseq)))
               else if equal_fold (trim_space (cdState (ddDeployment detail))) ''closed'' then Inr ()
               else Inl (Plain (Deploying (StillOpen dseq (cdState (ddDeployment detail))))))
       in case seen of
            Inr _ \<Rightarrow> State_Monad.return (Some (True, None))
          | Inl lastErr \<Rightarrow>
              State_Monad.bind (waitForMutationObservation H interval) (\<lambda>stop.
                case stop of
                  Some e \<Rightarrow> State_Monad.return (Some (False, Some (Join lastErr e)))
                | None \<Rightarrow> close_polls H K c polls dseq interval))"

definition reconcileClosedDeployment ::
  "'x http \<Rightarrow> codec \<Rightarrow> Client \<Rightarrow> nat \<Rightarrow> string \<Rightarrow> ('x cw, (bool \<times> cerr option) option) state" where
  "reconcileClosedDeployment H K c polls dseq =
     with_timeout H mutationReconciliationWindow (close_polls H K c polls dseq mutationReconciliationPollInterval)"

definition CloseDeployment :: "'x http \<Rightarrow> codec \<Rightarrow> Client \<Rightarrow> nat \<Rightarrow> string \<Rightarrow> ('x cw, (cerr + unit) option) state" where
  "CloseDeployment H K c polls dseq =
     (let failed = (\<lambda>status e. State_Monad.bind (fail_with H c ''close-deployment'' dseq status e None) (\<lambda>r. State_Monad.return (Some r)));
          closed = State_Monad.bind (console_record H c ''close-deployment'' dseq None) (\<lambda>_. State_Monad.return (Some (Inr ())))
      in case validateDSeq dseq of
        Some e \<Rightarrow> failed ''success'' e
      | None \<Rightarrow>
          attempt (GetDeployment H K c dseq)
            (\<lambda>e. failed ''success'' (if errors_Is e ErrNotFound then Wrap (CloseOf dseq) ErrAlreadyClosed else Wrap Preflight e))
            (\<lambda>detail.
              if equal_fold (trim_space (cdState (ddDeployment detail))) ''closed''
              then failed ''success'' (Wrap (CloseOf dseq) ErrAlreadyClosed)
              else State_Monad.bind (doData H c MethodDelete (''/v1/deployments/'' @ PathEscape dseq) None (kSuccess K)) (\<lambda>r.
                let r = (case r of Inl e \<Rightarrow> Inl e
                         | Inr acknowledged \<Rightarrow> if acknowledged \<noteq> Some True then Inl (Plain (Deploying NoSuccess)) else Inr ())
                in case r of
                     Inr _ \<Rightarrow> closed
                   | Inl postErr \<Rightarrow>
                       if isAlreadyClosed postErr then failed ''success'' (Wrap (CloseOf dseq) ErrAlreadyClosed)
                       else if definitiveCreateFailure postErr then failed ''success'' postErr
                       else State_Monad.bind (reconcileClosedDeployment H K c polls dseq) (\<lambda>outcome.
                         case outcome of
                           None \<Rightarrow> State_Monad.return None
                         | Some (True, _) \<Rightarrow> closed
                         | Some (False, reconcileErr) \<Rightarrow>
                             failed ''pending'' (Wrap CloseUnknown
                               (case reconcileErr of None \<Rightarrow> postErr | Some e \<Rightarrow> Join postErr e))))))"

end
