(* ===== verification/Console_Leases.thy ===== *)
theory Console_Leases
  imports Console_Updates
begin

text \<open>
  Leases and settings over the Console API (\<open>src/internal/console/deployments.go\<close>), and the
  account endpoints that change something (\<open>wallet.go\<close>, \<open>apikeys.go\<close>).
\<close>

section \<open>Leases\<close>

definition lease_matches :: "LeaseRequest \<Rightarrow> Lease \<Rightarrow> bool" where
  "lease_matches req l \<longleftrightarrow>
     clDSeq (leID l) = rqDSeq req \<and> clGSeq (leID l) = rqGSeq req \<and> clOSeq (leID l) = rqOSeq req \<and>
     clProvider (leID l) = rqProvider req \<and> equal_fold (leState l) ''active''"

definition requestedLeasesActive :: "Lease list \<Rightarrow> LeaseRequest list \<Rightarrow> bool" where
  "requestedLeasesActive actual requested \<longleftrightarrow>
     list_all (\<lambda>req. list_ex (lease_matches req) actual) requested \<and> requested \<noteq> []"

definition readCreatedLeases ::
  "'x http \<Rightarrow> codec \<Rightarrow> Client \<Rightarrow> LeaseRequest list \<Rightarrow> ('x cw, cerr + DeploymentDetail) state" where
  "readCreatedLeases H K c requested =
     (case requested of
        [] \<Rightarrow> err (Plain (Leasing LeaseNeedsDeployment))
      | first # rest \<Rightarrow>
          let dseq = rqDSeq first in
          if dseq = [] then err (Plain (Leasing LeaseNeedsDeployment))
          else if list_ex (\<lambda>req. rqDSeq req \<noteq> dseq) rest then err (Plain (Leasing LeaseNeedsOneDeployment))
          else ebind (GetDeployment H K c dseq) (\<lambda>detail.
            if requestedLeasesActive (ddLeases detail) requested then ok detail
            else err (Plain (Leasing (LeasesNotActive dseq)))))"

fun lease_polls ::
  "'x http \<Rightarrow> codec \<Rightarrow> Client \<Rightarrow> nat \<Rightarrow> LeaseRequest list \<Rightarrow> int \<Rightarrow> ('x cw, (cerr + DeploymentDetail) option) state" where
  "lease_polls H K c 0 requested interval = State_Monad.return None"
| "lease_polls H K c (Suc polls) requested interval =
     attempt (readCreatedLeases H K c requested)
       (\<lambda>lastErr. State_Monad.bind (waitForMutationObservation H interval) (\<lambda>stop.
          case stop of
            Some e \<Rightarrow> State_Monad.return (Some (Inl (Join lastErr e)))
          | None \<Rightarrow> lease_polls H K c polls requested interval))
       (\<lambda>detail. State_Monad.return (Some (Inr detail)))"

definition reconcileCreatedLeases ::
  "'x http \<Rightarrow> codec \<Rightarrow> Client \<Rightarrow> nat \<Rightarrow> LeaseRequest list \<Rightarrow> ('x cw, (cerr + DeploymentDetail) option) state" where
  "reconcileCreatedLeases H K c polls requested =
     with_timeout H mutationReconciliationWindow (lease_polls H K c polls requested mutationReconciliationPollInterval)"

definition lease_outcome :: "LeaseRequest list \<Rightarrow> cerr + DeploymentDetail \<Rightarrow> cerr + DeploymentDetail" where
  "lease_outcome leases r =
     (case r of
        Inl e \<Rightarrow> Inl e
      | Inr out \<Rightarrow> if requestedLeasesActive (ddLeases out) leases then Inr out else Inl (Plain (Leasing LeaseMissing)))"

text \<open>The rest of \<open>CreateLease\<close> after an error that carries no lease code.\<close>

definition lease_failure ::
  "'x http \<Rightarrow> codec \<Rightarrow> Client \<Rightarrow> nat \<Rightarrow> string \<Rightarrow> LeaseRequest list \<Rightarrow> string \<Rightarrow> cerr
    \<Rightarrow> (string \<Rightarrow> cerr \<Rightarrow> ('x cw, (cerr + DeploymentDetail) option) state)
    \<Rightarrow> (DeploymentDetail \<Rightarrow> ('x cw, (cerr + DeploymentDetail) option) state)
    \<Rightarrow> ('x cw, (cerr + DeploymentDetail) option) state" where
  "lease_failure H K c polls manifest leases leaseDSeq e failed created =
     (if manifest = [] then
        if definitiveCreateFailure e then failed ''success'' e
        else failed ''pending'' (Wrap (LeaseDeliveryUnknown leaseDSeq) e)
      else if definitiveCreateFailure e then
        attempt (readCreatedLeases H K c leases) (\<lambda>_. failed ''success'' e) created
      else State_Monad.bind (reconcileCreatedLeases H K c polls leases) (\<lambda>outcome.
        case outcome of
          None \<Rightarrow> State_Monad.return None
        | Some (Inr detail) \<Rightarrow> created detail
        | Some (Inl reconcileErr) \<Rightarrow> failed ''pending'' (Wrap (LeaseUnknown leaseDSeq) (Join e reconcileErr))))"

definition CreateLease ::
  "'x http \<Rightarrow> codec \<Rightarrow> Client \<Rightarrow> nat \<Rightarrow> string \<Rightarrow> LeaseRequest list \<Rightarrow> ('x cw, (cerr + DeploymentDetail) option) state" where
  "CreateLease H K c polls manifest leases =
     (let leaseDSeq = (case leases of [] \<Rightarrow> [] | l # _ \<Rightarrow> rqDSeq l);
          failed = (\<lambda>status e. State_Monad.bind (fail_with H c ''create-lease'' leaseDSeq status e None) (\<lambda>r. State_Monad.return (Some r)));
          created = (\<lambda>detail. State_Monad.bind (console_record H c ''create-lease'' leaseDSeq None) (\<lambda>_. State_Monad.return (Some (Inr detail))))
      in case List.find (\<lambda>l. validateDSeq (rqDSeq l) \<noteq> None) leases of
        Some l \<Rightarrow> State_Monad.return (Some (Inl (the (validateDSeq (rqDSeq l)))))
      | None \<Rightarrow>
        State_Monad.bind (doData H (if manifest = [] then sensitiveClient c else c) MethodPost ''/v1/leases''
            (Some (LeasesBody manifest leases)) (kDetail K)) (\<lambda>r.
        case lease_outcome leases r of
          Inr out \<Rightarrow> created out
        | Inl e \<Rightarrow>
          (case http_error e of
            Some (_, code) \<Rightarrow>
              if code = ''manifest_not_delivered'' then failed ''success'' (Wrap (ManifestNotDelivered leaseDSeq) e)
              else if code = ''provider_unreachable'' then failed ''success'' (Wrap ProviderUnreachable e)
              else lease_failure H K c polls manifest leases leaseDSeq e failed created
          | None \<Rightarrow> lease_failure H K c polls manifest leases leaseDSeq e failed created)))"

section \<open>Settings\<close>

definition GetDeploymentSettings :: "'x http \<Rightarrow> codec \<Rightarrow> Client \<Rightarrow> string \<Rightarrow> ('x cw, cerr + DeploymentSettings) state" where
  "GetDeploymentSettings H K c dseq =
     (case validateDSeq dseq of
        Some e \<Rightarrow> err e
      | None \<Rightarrow> doData H c MethodGet (''/v2/deployment-settings/'' @ PathEscape dseq) None (kSettings K))"

definition runtimeLimitEchoed :: "int option \<Rightarrow> int option \<Rightarrow> bool" where
  "runtimeLimitEchoed got want \<longleftrightarrow>
     (case want of None \<Rightarrow> got = None | Some w \<Rightarrow> (case got of None \<Rightarrow> False | Some g \<Rightarrow> g = w))"

definition SetDeploymentRuntimeLimit ::
  "'x http \<Rightarrow> codec \<Rightarrow> Client \<Rightarrow> string \<Rightarrow> int option \<Rightarrow> ('x cw, cerr + DeploymentSettings) state" where
  "SetDeploymentRuntimeLimit H K c dseq hours =
     (let failed = (\<lambda>e. fail_with H c ''update-deployment-settings'' dseq ''success'' e None)
      in case validateDSeq dseq of
        Some e \<Rightarrow> failed e
      | None \<Rightarrow>
          if (case hours of None \<Rightarrow> False | Some h \<Rightarrow> h < 1) then failed (Plain (Leasing (BadRuntimeLimit (the hours))))
          else attempt (requireMutableDeployment H K c dseq) (\<lambda>e. failed (Wrap Preflight e)) (\<lambda>_.
            State_Monad.bind (doData H c MethodPatch (''/v2/deployment-settings/'' @ PathEscape dseq)
                (Some (envelope (RuntimeLimit hours))) (kSettingsReply K)) (\<lambda>r.
            case r of
              Inl e \<Rightarrow> failed e
            | Inr out \<Rightarrow>
                if srDSeq out \<noteq> Some dseq \<or> \<not> runtimeLimitEchoed (srRuntimeLimitHours out) hours
                then failed (Plain (Leasing SettingsNotEchoed))
                else State_Monad.bind (console_record H c ''update-deployment-settings'' dseq None) (\<lambda>_.
                  ok \<lparr>dsDSeq = dseq, dsAutoTopUpEnabled = (srAutoTopUpEnabled out = Some True),
                    dsEstimatedTopUpAmount = srEstimatedTopUpAmount out, dsTopUpFrequencyMs = srTopUpFrequencyMs out,
                    dsRuntimeLimitHours = srRuntimeLimitHours out, dsRuntimeEndsAt = srRuntimeEndsAt out\<rparr>))))"

section \<open>The account\<close>

record User =
  usID :: string
  usUserID :: string
  usUsername :: string
  usEmail :: string
  usEmailVerified :: bool

record Wallet =
  waAddress :: string
  waCreditAmount :: float64
  waIsTrialing :: bool
  waDenom :: string

record APIKey =
  akID :: string
  akName :: string
  akExpiresAt :: string
  akCreatedAt :: string
  akLastUsedAt :: string
  akKeyFormat :: string

record CreatedAPIKey =
  ckID :: string
  ckName :: string
  ckAPIKey :: string

text \<open>The decoders of the account payloads and \<open>uuid.Parse\<close>, which gives the canonical text of an identifier.\<close>

record account_codec =
  aUser :: "string \<Rightarrow> User option"
  aWallets :: "string \<Rightarrow> Wallet list option"
  aAutoReload :: "string \<Rightarrow> bool option option"
  aKeys :: "string \<Rightarrow> APIKey list option"
  aCreatedKey :: "string \<Rightarrow> CreatedAPIKey option"
  aToken :: "string \<Rightarrow> string option"
  aUUID :: "string \<Rightarrow> string option"

definition MaxJWTTTLSeconds :: int where "MaxJWTTTLSeconds = 3600"

definition GetUser :: "'x http \<Rightarrow> account_codec \<Rightarrow> Client \<Rightarrow> ('x cw, cerr + User) state" where
  "GetUser H A c = doData H c MethodGet ''/v1/user/me'' None (aUser A)"

definition ListWallets :: "'x http \<Rightarrow> account_codec \<Rightarrow> Client \<Rightarrow> string \<Rightarrow> ('x cw, cerr + Wallet list) state" where
  "ListWallets H A c userID = doData H c MethodGet (''/v1/wallets?userId='' @ QueryEscape userID) None (aWallets A)"

definition ManagedWalletAddress :: "'x http \<Rightarrow> account_codec \<Rightarrow> Client \<Rightarrow> ('x cw, cerr + string) state" where
  "ManagedWalletAddress H A c =
     attempt (GetUser H A c) (\<lambda>e. err (Wrap ResolveUser e)) (\<lambda>user.
       if trim_space (usID user) = [] then err (Plain (Account NoUserID))
       else attempt (ListWallets H A c (usID user)) (\<lambda>e. err (Wrap ResolveWallets e)) (\<lambda>wallets.
         case List.find (\<lambda>a. a \<noteq> []) (map (\<lambda>wl. trim_space (waAddress wl)) wallets) of
           Some address \<Rightarrow> ok address
         | None \<Rightarrow> err (Plain (Account NoWalletAddress))))"

definition UpdateWalletSettings :: "'x http \<Rightarrow> account_codec \<Rightarrow> Client \<Rightarrow> bool \<Rightarrow> ('x cw, cerr + bool) state" where
  "UpdateWalletSettings H A c enabled =
     (let body = Some (envelope (AutoReload enabled));
          failed = (\<lambda>e. fail_with H c ''update-wallet-settings'' [] ''success'' e None);
          finish = (\<lambda>r. case r of
              Inl e \<Rightarrow> failed e
            | Inr out \<Rightarrow>
                if out \<noteq> Some enabled then failed (Plain (Account WalletNotEchoed))
                else State_Monad.bind (console_record H c ''update-wallet-settings'' [] None) (\<lambda>_. ok enabled))
      in State_Monad.bind (doData H c MethodPut ''/v1/wallet-settings'' body (aAutoReload A)) (\<lambda>r.
           case r of
             Inl e \<Rightarrow>
               if errors_Is e ErrNotFound
               then State_Monad.bind (doData H c MethodPost ''/v1/wallet-settings'' body (aAutoReload A)) finish
               else finish r
           | Inr _ \<Rightarrow> finish r))"

definition ListAPIKeys :: "'x http \<Rightarrow> account_codec \<Rightarrow> Client \<Rightarrow> ('x cw, cerr + APIKey list) state" where
  "ListAPIKeys H A c = doData H c MethodGet ''/v1/api-keys'' None (aKeys A)"

definition CreateAPIKey :: "'x http \<Rightarrow> account_codec \<Rightarrow> Client \<Rightarrow> string \<Rightarrow> string \<Rightarrow> ('x cw, cerr + CreatedAPIKey) state" where
  "CreateAPIKey H A c name expiresAt =
     (let failed = (\<lambda>e. fail_with H c ''create-api-key'' [] ''success'' e None) in
      if trim_space name = [] then failed (Plain (Account BlankKeyName))
      else State_Monad.bind (doData H c MethodPost ''/v1/api-keys'' (Some (envelope (KeyBody name expiresAt))) (aCreatedKey A)) (\<lambda>r.
        let r = (case r of Inl e \<Rightarrow> Inl e
                 | Inr out \<Rightarrow>
                     if trim_space (ckID out) = [] \<or> ckName out \<noteq> name \<or> trim_space (ckName out) = [] \<or> trim_space (ckAPIKey out) = []
                     then Inl (Plain (Account KeyIncomplete)) else Inr out)
        in case r of
             Inr out \<Rightarrow> State_Monad.bind (console_record H c ''create-api-key'' [] None) (\<lambda>_. ok out)
           | Inl e \<Rightarrow>
               if definitiveCreateFailure e then failed e
               else fail_with H c ''create-api-key'' [] ''pending'' (Wrap KeyUnknown e) (Some [(''name'', name)])))"

definition DeleteAPIKey :: "'x http \<Rightarrow> account_codec \<Rightarrow> Client \<Rightarrow> string \<Rightarrow> ('x cw, cerr + unit) state" where
  "DeleteAPIKey H A c keyID =
     (let failed = (\<lambda>e. fail_with H c ''delete-api-key'' [] ''success'' e None)
      in case aUUID A keyID of
        None \<Rightarrow> failed (Plain (Account (BadUUID keyID)))
      | Some parsedID \<Rightarrow>
          attempt (ListAPIKeys H A c) (\<lambda>e. failed (Wrap Preflight e)) (\<lambda>keys.
            if \<not> list_ex (\<lambda>key. aUUID A (akID key) = Some parsedID) keys
            then failed (Wrap (KeyMissing parsedID) ErrNotFound)
            else attempt (doJSON H c MethodDelete (''/v1/api-keys/'' @ PathEscape parsedID) None (None :: (string \<Rightarrow> unit option) option)) failed (\<lambda>_.
              State_Monad.bind (console_record H c ''delete-api-key'' [] None) (\<lambda>_. ok ()))))"

definition CreateJWTToken :: "'x http \<Rightarrow> account_codec \<Rightarrow> Client \<Rightarrow> int \<Rightarrow> string list \<Rightarrow> ('x cw, cerr + string) state" where
  "CreateJWTToken H A c ttl scope =
     (if ttl < 1 \<or> ttl > MaxJWTTTLSeconds then err (Plain (Account (BadTTL ttl)))
      else ebind (doData H c MethodPost ''/v1/create-jwt-token'' (Some (envelope (TokenBody ttl scope))) (aToken A)) (\<lambda>token.
        if trim_space token = [] then err (Plain (Account BlankToken)) else ok token))"

end
