(* ===== verification/Console_Frames.thy ===== *)
theory Console_Frames
  imports Console_Leases
begin

text \<open>
  What the calls of the Console client leave alone: a small calculus of state relations for
  computations, with the relations that the properties of \<open>Console_Props\<close> rest on (no
  log entry, no request that changes anything, at most so many such requests).
\<close>

section \<open>Relations between the states of a run\<close>

text \<open>
  A reflexive and transitive relation between states is kept by a computation whose parts keep
  it.
\<close>

locale frame =
  fixes R :: "'s \<Rightarrow> 's \<Rightarrow> bool"
  assumes reflexive: "R s s"
    and transitive: "R s t \<Longrightarrow> R t u \<Longrightarrow> R s u"
begin

lemma frame_return: "state_io_rel R (State_Monad.return x)"
  by (auto simp: reflexive)

lemma frame_bind: "state_io_rel R m \<Longrightarrow> (\<And>a. state_io_rel R (f a)) \<Longrightarrow> state_io_rel R (State_Monad.bind m f)"
  by (auto simp: state_io_rel_def split: prod.splits) (metis fst_conv snd_conv transitive)

lemma frame_attempt:
  "state_io_rel R m \<Longrightarrow> (\<And>e. state_io_rel R (h e)) \<Longrightarrow> (\<And>x. state_io_rel R (f x)) \<Longrightarrow> state_io_rel R (attempt m h f)"
  unfolding attempt_def by (rule frame_bind) (auto split: sum.split)

lemma frame_ebind: "state_io_rel R m \<Longrightarrow> (\<And>x. state_io_rel R (f x)) \<Longrightarrow> state_io_rel R (ebind m f)"
  unfolding ebind_def by (rule frame_attempt) (auto simp: frame_return)

lemma frame_sanitized: "state_io_rel R m \<Longrightarrow> state_io_rel R (sanitized H c m)"
  by (auto simp: sanitized_def intro: frame_attempt frame_return)

lemmas frame_rules = frame_return frame_bind frame_attempt frame_ebind frame_sanitized

end

definition same_log :: "'x cw \<Rightarrow> 'x cw \<Rightarrow> bool" where
  "same_log w w' \<longleftrightarrow> logged w' = logged w"

text \<open>A request that may change something on the server.\<close>

definition mutating :: "request \<Rightarrow> bool" where
  "mutating r \<longleftrightarrow> rMethod r \<notin> {MethodGet, MethodHead}"

definition no_mutation :: "'x cw \<Rightarrow> 'x cw \<Rightarrow> bool" where
  "no_mutation w w' \<longleftrightarrow> (\<exists>rs. sent w' = sent w @ rs \<and> list_all (\<lambda>r. \<not> mutating r) rs)"

interpretation log: frame same_log
  by unfold_locales (simp_all add: same_log_def)

interpretation reads: frame no_mutation
proof
  show "no_mutation s s" for s :: "'x cw" by (simp add: no_mutation_def)
next
  fix s t u :: "'x cw"
  assume "no_mutation s t" and "no_mutation t u"
  then obtain a b where "sent t = sent s @ a" "list_all (\<lambda>r. \<not> mutating r) a" "sent u = sent t @ b" "list_all (\<lambda>r. \<not> mutating r) b"
    unfolding no_mutation_def by (elim exE conjE)
  then have "sent u = sent s @ (a @ b) \<and> list_all (\<lambda>r. \<not> mutating r) (a @ b)" by simp
  then show "no_mutation s u" unfolding no_mutation_def by (rule exI)
qed

section \<open>A budget of requests\<close>

text \<open>The requests that a run sends, and that at most \<open>n\<close> of them are of a kind.\<close>

definition new_requests :: "('x cw, 'a) state \<Rightarrow> 'x cw \<Rightarrow> request list" where
  "new_requests m w = drop (length (sent w)) (sent (snd (run_state m w)))"

definition spends_of :: "(request \<Rightarrow> bool) \<Rightarrow> nat \<Rightarrow> ('x cw, 'a) state \<Rightarrow> bool" where
  "spends_of M n m \<longleftrightarrow> state_io_rel (\<lambda>w w'. \<exists>rs. sent w' = sent w @ rs \<and> length (filter M rs) \<le> n) m"

abbreviation spends :: "nat \<Rightarrow> ('x cw, 'a) state \<Rightarrow> bool" where
  "spends \<equiv> spends_of mutating"

lemma spendsD: "spends_of M n m \<Longrightarrow> length (filter M (new_requests m w)) \<le> n"
  unfolding spends_of_def state_io_rel_def new_requests_def by (metis append_eq_conv_conj)

lemma spends_mono: "spends_of M n m \<Longrightarrow> n \<le> k \<Longrightarrow> spends_of M k m"
  unfolding spends_of_def state_io_rel_def by (meson le_trans)

lemma spends_bind: "spends_of M n m \<Longrightarrow> (\<And>a. spends_of M k (f a)) \<Longrightarrow> spends_of M (n + k) (State_Monad.bind m f)"
  unfolding spends_of_def
proof (rule state_io_relI)
  fix a s s'
  assume m: "state_io_rel (\<lambda>w w'. \<exists>rs. sent w' = sent w @ rs \<and> length (filter M rs) \<le> n) m"
    and f: "\<And>a. state_io_rel (\<lambda>w w'. \<exists>rs. sent w' = sent w @ rs \<and> length (filter M rs) \<le> k) (f a)"
    and run: "run_state (State_Monad.bind m f) s = (a, s')"
  obtain b t where t: "run_state m s = (b, t)" by fastforce
  then have s': "run_state (f b) t = (a, s')" using run by simp
  obtain r1 where r1: "sent t = sent s @ r1" "length (filter M r1) \<le> n"
    using state_io_relD [OF m t] by blast
  obtain r2 where r2: "sent s' = sent t @ r2" "length (filter M r2) \<le> k"
    using state_io_relD [OF f s'] by blast
  have "sent s' = sent s @ (r1 @ r2) \<and> length (filter M (r1 @ r2)) \<le> n + k"
    using r1 r2 by simp
  then show "\<exists>rs. sent s' = sent s @ rs \<and> length (filter M rs) \<le> n + k" by (rule exI)
qed

lemma spends_reads: "state_io_rel no_mutation m \<Longrightarrow> spends n m"
  unfolding spends_of_def state_io_rel_def no_mutation_def
  by (metis (mono_tags, lifting) filter_False le0 list.size(3) list_all_iff)

lemma spends_then: "spends_of M 0 m \<Longrightarrow> (\<And>a. spends_of M k (f a)) \<Longrightarrow> spends_of M k (State_Monad.bind m f)"
  using spends_bind [of M 0 m k f] by simp

lemma spends_first: "spends_of M n m \<Longrightarrow> (\<And>a. spends_of M 0 (f a)) \<Longrightarrow> spends_of M n (State_Monad.bind m f)"
  using spends_bind [of M n m 0 f] by simp

lemma spends_return [intro, simp]: "spends_of M n (State_Monad.return x)"
  by (auto simp: spends_of_def)

lemma spends_attempt_then:
  "spends_of M 0 m \<Longrightarrow> (\<And>e. spends_of M k (h e)) \<Longrightarrow> (\<And>x. spends_of M k (f x)) \<Longrightarrow> spends_of M k (attempt m h f)"
  unfolding attempt_def by (rule spends_then) (auto split: sum.split)

lemma spends_attempt_first:
  "spends_of M n m \<Longrightarrow> (\<And>e. spends_of M 0 (h e)) \<Longrightarrow> (\<And>x. spends_of M 0 (f x)) \<Longrightarrow> spends_of M n (attempt m h f)"
  unfolding attempt_def by (rule spends_first) (auto split: sum.split)

lemma spends_ebind_first: "spends_of M n m \<Longrightarrow> (\<And>x. spends_of M 0 (f x)) \<Longrightarrow> spends_of M n (ebind m f)"
  unfolding ebind_def by (rule spends_attempt_first) auto

lemma spends_ebind_then: "spends_of M 0 m \<Longrightarrow> (\<And>x. spends_of M k (f x)) \<Longrightarrow> spends_of M k (ebind m f)"
  unfolding ebind_def by (rule spends_attempt_then) auto

lemma spends_sanitized: "spends_of M n m \<Longrightarrow> spends_of M n (sanitized H c m)"
  by (auto simp: sanitized_def intro: spends_attempt_first)

section \<open>The primitives\<close>

text \<open>What only waits or looks at the context changes neither trace.\<close>

definition untraced :: "('x cw, 'a) state \<Rightarrow> bool" where
  "untraced m \<longleftrightarrow> state_io_rel (\<lambda>w w'. sent w' = sent w \<and> logged w' = logged w) m"

lemma untraced_log: "untraced m \<Longrightarrow> state_io_rel same_log m"
  by (simp add: untraced_def state_io_rel_def same_log_def)

lemma untraced_reads: "untraced m \<Longrightarrow> state_io_rel no_mutation m"
  by (simp add: untraced_def state_io_rel_def no_mutation_def)

lemma untraced_primitives [simp]:
  "untraced (ctx_err H)" "untraced (waitForRetry H n)" "untraced (waitForMutationObservation H i)" "untraced State_Monad.get"
  by (auto simp: untraced_def state_io_rel_def ctx_err_def waitForRetry_def waitForMutationObservation_def State_Monad.get_def split: prod.splits)

lemmas log_primitives = untraced_primitives [THEN untraced_log]

lemmas reads_primitives = untraced_primitives [THEN untraced_reads]

lemma untraced_spends: "untraced m \<Longrightarrow> spends_of M n m"
  by (auto simp: untraced_def spends_of_def state_io_rel_def)

lemmas spends_primitives = untraced_primitives [THEN untraced_spends]

lemma log_http_do: "state_io_rel same_log (http_do H req)"
  by (auto simp: http_do_def same_log_def state_io_rel_def split: prod.splits)

lemma spends_http_do: "spends_of M (if M req then 1 else 0) (http_do H req)"
  unfolding spends_of_def state_io_rel_def http_do_def
  by (auto split: prod.splits intro!: exI [of _ "[req]"])

lemma reads_http_do: "\<not> mutating req \<Longrightarrow> state_io_rel no_mutation (http_do H req)"
  by (auto simp: http_do_def no_mutation_def state_io_rel_def split: prod.splits intro!: exI [of _ "[req]"])

lemma reads_recordOutcome: "state_io_rel no_mutation (recordOutcome H c action dseq status e p)"
  by (auto simp: recordOutcome_def Let_def no_mutation_def state_io_rel_def State_Monad.update_def
      State_Monad.return_def State_Monad.bind_def State_Monad.get_def State_Monad.set_def)

lemma spends_recordOutcome [simp]: "spends n (recordOutcome H c action dseq status e p)"
  by (rule spends_reads) (rule reads_recordOutcome)

lemma spends_console_record [simp]: "spends n (console_record H c action dseq e)"
  by (simp add: console_record_def)

lemma spends_fail_with [simp]: "spends n (fail_with H c action dseq status e p)"
  unfolding fail_with_def by (rule spends_then) simp_all

section \<open>Requests with retries\<close>

lemma log_json_attempts: "state_io_rel same_log (json_attempts H c left method path payload decode)"
  by (induction left)
    (auto intro!: log.frame_rules log_primitives log_http_do split: option.split reply.split sum.split)

lemma log_doJSON: "state_io_rel same_log (doJSON H c method path body decode)"
  unfolding doJSON_def
  by (rule log.frame_sanitized) (auto intro: log_json_attempts log.frame_return split: option.split)

lemma log_doData: "state_io_rel same_log (doData H c method path body decode)"
  unfolding doData_def
  by (intro log.frame_sanitized log.frame_ebind log_doJSON) (auto simp: Let_def intro: log.frame_return split: option.split)

lemma reads_json_attempts:
  "method = MethodGet \<Longrightarrow> state_io_rel no_mutation (json_attempts H c left method path payload decode)"
  by (induction left)
    (auto intro!: reads.frame_rules reads_primitives reads_http_do simp: mutating_def split: option.split reply.split sum.split)

lemma reads_doJSON: "state_io_rel no_mutation (doJSON H c MethodGet path body decode)"
  unfolding doJSON_def
  by (rule reads.frame_sanitized) (auto intro: reads_json_attempts reads.frame_return split: option.split)

lemma reads_doData: "state_io_rel no_mutation (doData H c MethodGet path body decode)"
  unfolding doData_def
  by (intro reads.frame_sanitized reads.frame_ebind reads_doJSON) (auto simp: Let_def intro: reads.frame_return split: option.split)

definition sends_at_most :: "string \<Rightarrow> nat" where
  "sends_at_most method =
     (if method \<in> {MethodGet, MethodHead} then 0 else if method \<in> {MethodPut, MethodDelete} then maxRetries else 1)"

lemma spends_json_attempts_once:
  assumes "method \<notin> {MethodGet, MethodHead, MethodPut, MethodDelete}"
  shows "spends 1 (json_attempts H c left method path payload decode)"
proof (cases left)
  case 0
  then show ?thesis by simp
next
  case (Suc n)
  have "\<not> retryableStatus method status" for status
    using assms by (simp add: retryableStatus_def)
  then show ?thesis
    unfolding Suc json_attempts.simps
    by (intro spends_then [OF spends_primitives(1)])
      (auto intro!: spends_first [OF spends_mono [OF spends_http_do]] spends_first [OF spends_primitives(1)]
        split: option.split reply.split sum.split)
qed

lemma spends_json_attempts: "spends_of M left (json_attempts H c left method path payload decode)"
proof (induction left)
  case 0
  show ?case by simp
next
  case (Suc n)
  have retry: "spends_of M n (State_Monad.bind (waitForRetry H k) (\<lambda>stop. case stop of Some e \<Rightarrow> err e
      | None \<Rightarrow> json_attempts H c n method path payload decode))" for k
    using Suc.IH by (intro spends_then [OF spends_primitives(2)]) (auto split: option.split)
  have "spends_of M (1 + n) (State_Monad.bind (http_do H req) f)" if "\<And>r. spends_of M n (f r)" for req and f :: "reply \<Rightarrow> ('a cw, cerr + 'b option) state"
    using that by (intro spends_bind spends_mono [OF spends_http_do]) auto
  note first = this [simplified]
  show ?case
    unfolding json_attempts.simps
    by (intro spends_then [OF spends_primitives(1)])
      (auto intro!: first retry spends_then [OF spends_primitives(1)] split: option.split reply.split sum.split)
qed

lemma spends_doJSON: "spends (sends_at_most method) (doJSON H c method path body decode)"
proof (cases "method \<in> {MethodGet, MethodHead}")
  case True
  have "method = MethodHead \<Longrightarrow> state_io_rel no_mutation (json_attempts H c left method path payload decode)" for left payload
    by (induction left)
      (auto intro!: reads.frame_rules reads_primitives reads_http_do simp: mutating_def split: option.split reply.split sum.split)
  with True have "spends 0 (json_attempts H c maxRetries method path payload decode)" for payload
    using reads_json_attempts by (intro spends_reads) blast
  with True show ?thesis
    unfolding doJSON_def sends_at_most_def by (intro spends_sanitized) (auto split: option.split)
next
  case False
  then have "spends (sends_at_most method) (json_attempts H c maxRetries method path payload decode)" for payload
    using spends_json_attempts_once [of "method"] spends_json_attempts [where left = maxRetries]
    by (auto simp: sends_at_most_def)
  then show ?thesis
    unfolding doJSON_def by (intro spends_sanitized) (auto split: option.split)
qed

lemma spends_doData: "spends (sends_at_most method) (doData H c method path body decode)"
  unfolding doData_def
  by (intro spends_sanitized spends_ebind_first spends_doJSON) (auto simp: Let_def split: option.split)

section \<open>Calls that only read\<close>

named_theorems reading "calls that send no request that changes anything"

named_theorems unlogged "calls that leave the action log alone"

lemmas [reading] = reads.frame_return reads.frame_bind reads.frame_attempt reads.frame_ebind reads_primitives reads_doData

lemmas [unlogged] = log.frame_return log.frame_bind log.frame_attempt log.frame_ebind log_primitives log_doData log_doJSON

lemma reads_GetSecretsContext [reading]: "state_io_rel no_mutation (GetSecretsContext H K c)"
  unfolding GetSecretsContext_def by (auto intro!: reading split: option.split)

lemma log_GetSecretsContext [unlogged]: "state_io_rel same_log (GetSecretsContext H K c)"
  unfolding GetSecretsContext_def by (auto intro!: unlogged split: option.split)

lemma reads_sealSecrets [reading]: "state_io_rel no_mutation (sealSecrets H K c secrets sdl)"
  unfolding sealSecrets_def by (auto intro!: reading split: sum.split)

lemma log_sealSecrets [unlogged]: "state_io_rel same_log (sealSecrets H K c secrets sdl)"
  unfolding sealSecrets_def by (auto intro!: unlogged split: sum.split)

lemma reads_GetDeployment [reading]: "state_io_rel no_mutation (GetDeployment H K c dseq)"
  unfolding GetDeployment_def by (auto intro!: reading split: option.split)

lemma log_GetDeployment [unlogged]: "state_io_rel same_log (GetDeployment H K c dseq)"
  unfolding GetDeployment_def by (auto intro!: unlogged split: option.split)

lemma reads_ListDeployments [reading]: "state_io_rel no_mutation (ListDeployments H K c skip limit)"
  unfolding ListDeployments_def by (auto intro!: reading)

lemma log_ListDeployments [unlogged]: "state_io_rel same_log (ListDeployments H K c skip limit)"
  unfolding ListDeployments_def by (auto intro!: unlogged)

lemma reads_list_pages [reading]: "state_io_rel no_mutation (list_pages H K c left skip all)"
  by (induction left arbitrary: skip all) (auto simp: Let_def intro!: reading)

lemma log_list_pages [unlogged]: "state_io_rel same_log (list_pages H K c left skip all)"
  by (induction left arbitrary: skip all) (auto simp: Let_def intro!: unlogged)

lemma reads_listAllDeployments [reading]: "state_io_rel no_mutation (listAllDeployments H K c)"
  unfolding listAllDeployments_def by (rule reads_list_pages)

lemma log_listAllDeployments [unlogged]: "state_io_rel same_log (listAllDeployments H K c)"
  unfolding listAllDeployments_def by (rule log_list_pages)

lemma reads_reconcile_create [reading]: "state_io_rel no_mutation (reconcile_create H K c left n known hash manifest)"
  by (induction left arbitrary: n) (auto simp: Let_def intro!: reading)

lemma log_reconcile_create [unlogged]: "state_io_rel same_log (reconcile_create H K c left n known hash manifest)"
  by (induction left arbitrary: n) (auto simp: Let_def intro!: unlogged)

lemma log_reconcileCreatedDeployment [unlogged]: "state_io_rel same_log (reconcileCreatedDeployment H K c known hash manifest)"
  unfolding reconcileCreatedDeployment_def by (rule log_reconcile_create)

lemma reads_requireMutableDeployment [reading]: "state_io_rel no_mutation (requireMutableDeployment H K c dseq)"
  unfolding requireMutableDeployment_def by (auto intro!: reading split: option.split)

lemma log_requireMutableDeployment [unlogged]: "state_io_rel same_log (requireMutableDeployment H K c dseq)"
  unfolding requireMutableDeployment_def by (auto intro!: unlogged split: option.split)

lemma reads_reconcileDeploymentUpdate [reading]: "state_io_rel no_mutation (reconcileDeploymentUpdate H K c dseq hash)"
  unfolding reconcileDeploymentUpdate_def by (auto intro!: reading)

lemma log_reconcileDeploymentUpdate [unlogged]: "state_io_rel same_log (reconcileDeploymentUpdate H K c dseq hash)"
  unfolding reconcileDeploymentUpdate_def by (auto intro!: unlogged)

lemma log_put_attempts [unlogged]: "state_io_rel same_log (put_attempts H K c left n dseq sdl hash)"
  by (induction left arbitrary: n) (auto simp: Let_def intro!: unlogged split: sum.split option.split)

lemma untraced_update_net [simp]: "untraced (State_Monad.update (\<lambda>w. w\<lparr>net := f (net w)\<rparr>))"
  by (simp add: untraced_def state_io_rel_def State_Monad.update_def State_Monad.bind_def State_Monad.get_def State_Monad.set_def)

lemma reads_with_timeout [reading]: "state_io_rel no_mutation m \<Longrightarrow> state_io_rel no_mutation (with_timeout H ms m)"
  unfolding with_timeout_def by (auto intro!: reading untraced_reads [OF untraced_update_net])

lemma log_with_timeout [unlogged]: "state_io_rel same_log m \<Longrightarrow> state_io_rel same_log (with_timeout H ms m)"
  unfolding with_timeout_def by (auto intro!: unlogged untraced_log [OF untraced_update_net])

lemma reads_close_polls [reading]: "state_io_rel no_mutation (close_polls H K c polls dseq interval)"
  by (induction polls) (auto simp: Let_def intro!: reading split: sum.split option.split)

lemma log_close_polls [unlogged]: "state_io_rel same_log (close_polls H K c polls dseq interval)"
  by (induction polls) (auto simp: Let_def intro!: unlogged split: sum.split option.split)

lemma reads_readCreatedLeases [reading]: "state_io_rel no_mutation (readCreatedLeases H K c requested)"
  unfolding readCreatedLeases_def by (auto simp: Let_def intro!: reading split: list.split)

lemma log_readCreatedLeases [unlogged]: "state_io_rel same_log (readCreatedLeases H K c requested)"
  unfolding readCreatedLeases_def by (auto simp: Let_def intro!: unlogged split: list.split)

lemma reads_lease_polls [reading]: "state_io_rel no_mutation (lease_polls H K c polls requested interval)"
  by (induction polls) (auto intro!: reading split: option.split)

lemma log_lease_polls [unlogged]: "state_io_rel same_log (lease_polls H K c polls requested interval)"
  by (induction polls) (auto intro!: unlogged split: option.split)

section \<open>Calls that change something\<close>

lemma spends_reading: "state_io_rel no_mutation m \<Longrightarrow> (\<And>a. spends k (f a)) \<Longrightarrow> spends k (State_Monad.bind m f)"
  by (rule spends_then [OF spends_reads])

lemma spends_attempt_reading:
  "state_io_rel no_mutation m \<Longrightarrow> (\<And>e. spends k (h e)) \<Longrightarrow> (\<And>x. spends k (f x)) \<Longrightarrow> spends k (attempt m h f)"
  by (rule spends_attempt_then [OF spends_reads])

lemma sends_at_most_once [simp]: "sends_at_most MethodPost = 1" "sends_at_most MethodPatch = 1" "sends_at_most MethodDelete = 3" "sends_at_most MethodPut = 3"
  by (simp_all add: sends_at_most_def methods maxRetries_def)

lemma reads_records [reading]:
  "state_io_rel no_mutation (recordOutcome H c action dseq status e p)"
  "state_io_rel no_mutation (console_record H c action dseq e)"
  "state_io_rel no_mutation (fail_with H c action dseq status e' p)"
  unfolding fail_with_def console_record_def by (auto intro!: reading reads_recordOutcome)

text \<open>The closed reading calls, as the first part of a longer computation.\<close>

lemmas reads_fallible = reads_sealSecrets reads_GetDeployment reads_listAllDeployments
  reads_requireMutableDeployment reads_readCreatedLeases reads_records(3)

lemmas reads_calls = reads_fallible reads_reconcile_create reads_reconcileDeploymentUpdate reads_records(1,2) reads_primitives(2)
  reads_with_timeout [OF reads_close_polls] reads_with_timeout [OF reads_lease_polls]

lemmas spends_calls = reads_calls [THEN spends_reading] reads_fallible [THEN spends_attempt_reading] reads_calls [THEN spends_reads]

text \<open>A call that sends one POST or PATCH and then only reads.\<close>

lemma spends_one:
  "(\<And>a. spends 0 (f a)) \<Longrightarrow> spends (Suc 0) (State_Monad.bind (doData H c MethodPost path body decode) f)"
  "(\<And>a. spends 0 (g a)) \<Longrightarrow> spends (Suc 0) (State_Monad.bind (doData H c MethodPatch path body decode) g)"
  using spends_first [OF spends_doData [of MethodPost H c path body decode], of f]
    spends_first [OF spends_doData [of MethodPatch H c path body decode], of g] by simp_all

lemma spends_CreateDeployment: "spends 1 (CreateDeployment H K c sdl options)"
  unfolding CreateDeployment_def createDeploymentLegacy_def createDeploymentWithSecrets_def reconcileCreatedDeployment_def
  by (auto simp: Let_def intro!: spends_calls spends_one split: list.split sum.split option.split prod.split)

lemma spends_patchDeploymentDefinition: "spends 1 (patchDeploymentDefinition H K c dseq patch secrets detail)"
  unfolding patchDeploymentDefinition_def Let_def
  by (auto intro!: spends_attempt_reading [OF reads.frame_return] spends_calls spends_one split: sum.split)

lemma spends_PatchDeployment: "spends 1 (PatchDeployment H K c dseq patch secrets)"
  using spends_patchDeploymentDefinition unfolding PatchDeployment_def Let_def
  by (auto intro!: spends_calls split: sum.split)

lemma spends_SetDeploymentRuntimeLimit: "spends 1 (SetDeploymentRuntimeLimit H K c dseq hours)"
  unfolding SetDeploymentRuntimeLimit_def Let_def
  by (auto intro!: spends_calls spends_one split: sum.split option.split)

lemma spends_CreateAPIKey: "spends 1 (CreateAPIKey H A c name expiresAt)"
  unfolding CreateAPIKey_def Let_def
  by (auto intro!: spends_calls spends_one split: sum.split)

lemma spends_CreateLease: "spends 1 (CreateLease H K c polls manifest leases)"
proof -
  have failure: "spends 0 (lease_failure H K c polls manifest leases dseq e failed created)"
    if "\<And>status e. spends 0 (failed status e)" and "\<And>d. spends 0 (created d)" for manifest leases dseq e failed created
    unfolding lease_failure_def reconcileCreatedLeases_def
    using that by (auto intro!: spends_calls split: option.split sum.split)
  show ?thesis
    unfolding CreateLease_def Let_def
    by (auto intro!: failure spends_calls spends_one split: sum.split option.split)
qed

lemma spends_put_attempts: "spends (3 * left) (put_attempts H K c left n dseq sdl hash)"
proof (induction left arbitrary: n)
  case 0
  show ?case by simp
next
  case (Suc left)
  have retry: "spends (3 * left) (State_Monad.bind (waitForRetry H k) (\<lambda>stop. case stop of Some e \<Rightarrow> err e
      | None \<Rightarrow> put_attempts H K c left m dseq sdl hash))" for k m
    using Suc.IH by (auto intro!: spends_calls split: option.split)
  have "spends (3 + 3 * left) (put_attempts H K c (Suc left) n dseq sdl hash)"
    unfolding put_attempts.simps
    by (rule spends_bind [OF spends_doData [of MethodPut, unfolded sends_at_most_once]])
      (auto simp: Let_def intro!: retry spends_calls split: sum.split option.split)
  then show ?case by simp
qed

lemma spends_close: "spends 3 (CloseDeployment H K c polls dseq)"
proof -
  have del: "spends 3 (State_Monad.bind (doData H c MethodDelete path body decode) f)" if "\<And>a. spends 0 (f a)" for c path body decode f
    using spends_first [OF spends_doData [of MethodDelete H c path body decode], of f] that by simp
  show ?thesis
    unfolding CloseDeployment_def Let_def reconcileClosedDeployment_def
    by (auto intro!: del spends_calls split: sum.split option.split prod.split bool.split)
qed

lemma spends_UpdateDeployment: "spends 9 (UpdateDeployment H K c dseq sdl options)"
proof -
  have put: "spends 9 (updateDeploymentSDL H K c dseq sdl hash)" for c hash
    unfolding updateDeploymentSDL_def
    using spends_put_attempts [of maxRetries H K c 0 dseq sdl hash]
    by (intro spends_attempt_first) (auto simp: maxRetries_def intro!: spends_calls)
  have patch: "spends 9 (patchDeploymentDefinition H K c dseq patch secrets detail)" for c patch secrets detail
    using spends_patchDeploymentDefinition by (rule spends_mono) simp
  show ?thesis
    unfolding UpdateDeployment_def updateDeploymentLegacy_def updateDeploymentDefinition_def Let_def
    by (auto intro!: put patch spends_calls split: list.split sum.split option.split prod.split)
qed

end
