(* ===== verification/Console_Audit.thy ===== *)
theory Console_Audit
  imports Console_Frames
begin

text \<open>
  The audit trail of the Console client: every call that changes something leaves one entry in
  the action log, whose status is the outcome that the caller gets.
\<close>

section \<open>Outcomes\<close>

fun is_unknown :: "wrapper \<Rightarrow> bool" where
  "is_unknown (CreateUnknown _) = True"
| "is_unknown UpdateUnknown = True"
| "is_unknown CloseUnknown = True"
| "is_unknown (LeaseUnknown _) = True"
| "is_unknown (LeaseDeliveryUnknown _) = True"
| "is_unknown KeyUnknown = True"
| "is_unknown _ = False"

text \<open>An error that says that the outcome of the one submission is not known.\<close>

fun unknown_outcome :: "cerr \<Rightarrow> bool" where
  "unknown_outcome (Wrap k e) = is_unknown k"
| "unknown_outcome _ = False"

text \<open>What a result says: nothing yet, an error, or success.\<close>

definition sum_view :: "cerr + 'a \<Rightarrow> cerr option option" where
  "sum_view r = Some (case r of Inl e \<Rightarrow> Some e | Inr _ \<Rightarrow> None)"

definition opt_view :: "(cerr + 'a) option \<Rightarrow> cerr option option" where
  "opt_view r = Option.bind r sum_view"

lemma views [simp]:
  "sum_view (Inl e) = Some (Some e)" "sum_view (Inr x) = Some None"
  "opt_view None = None" "opt_view (Some r) = sum_view r"
  by (simp_all add: sum_view_def opt_view_def)

definition entry_for_outcome :: "'x http \<Rightarrow> Client \<Rightarrow> string \<Rightarrow> cerr option \<Rightarrow> Entry \<Rightarrow> bool" where
  "entry_for_outcome H c action outcome e \<longleftrightarrow>
     eType e = TypeConsole \<and> eAction e = action \<and>
     (case outcome of
        None \<Rightarrow> eStatus e = ''success'' \<and> eError e = []
      | Some x \<Rightarrow> eStatus e = (if unknown_outcome x then ''pending'' else ''failed'') \<and>
          eError e = redactResponseSecret (hErrText H x) (apiKey c))"

text \<open>One entry that fits the result, when there is a logger and a result.\<close>

definition audits :: "'x http \<Rightarrow> Client \<Rightarrow> string \<Rightarrow> ('r \<Rightarrow> cerr option option) \<Rightarrow> ('x cw, 'r) state \<Rightarrow> bool" where
  "audits H c action view m \<longleftrightarrow>
     (\<forall>w r w'. run_state m w = (r, w') \<longrightarrow>
        (case view r of
           None \<Rightarrow> logged w' = logged w
         | Some outcome \<Rightarrow>
             if actionLog c then \<exists>e. logged w' = logged w @ [e] \<and> entry_for_outcome H c action outcome e
             else logged w' = logged w))"

lemma sensitive_simps [simp]: "actionLog (sensitiveClient c) = actionLog c" "apiKey (sensitiveClient c) = apiKey c"
  by (simp_all add: sensitiveClient_def)

lemma audits_sensitive [simp]: "audits H (sensitiveClient c) action view m = audits H c action view m"
  unfolding audits_def entry_for_outcome_def sensitive_simps by (rule refl)

section \<open>A calculus\<close>

lemma audits_bind:
  assumes "state_io_rel same_log m" and "\<And>a. a \<in> set_state m \<Longrightarrow> audits H c action view (f a)"
  shows "audits H c action view (State_Monad.bind m f)"
  unfolding audits_def
proof (intro allI impI)
  fix w r w'
  assume run: "run_state (State_Monad.bind m f) w = (r, w')"
  obtain a t where t: "run_state m w = (a, t)" by fastforce
  have "logged t = logged w" using state_io_relD [OF assms(1) t] by (simp add: same_log_def)
  moreover have "audits H c action view (f a)" using assms(2) t by (auto simp: set_state_iff)
  moreover have "run_state (f a) t = (r, w')" using run t by simp
  ultimately show "case view r of None \<Rightarrow> logged w' = logged w
      | Some outcome \<Rightarrow> if actionLog c then \<exists>e. logged w' = logged w @ [e] \<and> entry_for_outcome H c action outcome e
          else logged w' = logged w"
    unfolding audits_def by (elim allE [of _ t] allE [of _ r] allE [of _ w'] impE) (simp_all only:)
qed

lemma audits_attempt:
  assumes "state_io_rel same_log m" and "\<And>e. Inl e \<in> set_state m \<Longrightarrow> audits H c action view (h e)"
    and "\<And>x. audits H c action view (f x)"
  shows "audits H c action view (attempt m h f)"
  unfolding attempt_def by (rule audits_bind [OF assms(1)]) (auto split: sum.split intro: assms)

lemma recordOutcome_run:
  "run_state (recordOutcome H c action dseq status e p) w =
     ((), if actionLog c then w\<lparr>logged := logged (snd (run_state (recordOutcome H c action dseq status e p) w))\<rparr> else w)"
  by (simp add: recordOutcome_def Let_def State_Monad.update_def State_Monad.bind_def State_Monad.get_def State_Monad.set_def
      State_Monad.return_def)

lemma recordOutcome_entry:
  assumes "run_state (recordOutcome H c action dseq status oe p) w = (u, w')"
    and "case oe of None \<Rightarrow> status = ''success''
         | Some e \<Rightarrow> if unknown_outcome e then status = ''pending'' else status \<in> {''success'', ''failed''}"
  shows "if actionLog c then \<exists>e. logged w' = logged w @ [e] \<and> entry_for_outcome H c action oe e else logged w' = logged w"
  using assms
  by (auto simp: recordOutcome_def Let_def State_Monad.update_def State_Monad.bind_def State_Monad.get_def State_Monad.set_def
      State_Monad.return_def entry_for_outcome_def zero_entry_def split: option.splits sum.splits if_splits)

lemma audits_fail_with:
  assumes "if unknown_outcome e then status = ''pending'' else status \<in> {''success'', ''failed''}"
  shows "audits H c action sum_view (fail_with H c action dseq status e p :: ('x cw, cerr + 'a) state)"
  unfolding audits_def fail_with_def
proof (intro allI impI)
  fix w :: "'x cw" and r :: "cerr + 'a" and w'
  assume "run_state (State_Monad.bind (recordOutcome H c action dseq status (Some e) p) (\<lambda>_. err e)) w = (r, w')"
  then obtain u where "run_state (recordOutcome H c action dseq status (Some e) p) w = (u, w')" and r: "r = Inl e"
    by (auto split: prod.splits)
  from recordOutcome_entry [OF this(1)] assms
  show "case sum_view r of None \<Rightarrow> logged w' = logged w
      | Some outcome \<Rightarrow> if actionLog c then \<exists>e. logged w' = logged w @ [e] \<and> entry_for_outcome H c action outcome e
          else logged w' = logged w"
    using r by (auto split: if_splits)
qed

lemma audits_success:
  "view r = Some None \<Longrightarrow>
     audits H c action view (State_Monad.bind (recordOutcome H c action dseq ''success'' None p) (\<lambda>_. State_Monad.return r))"
  unfolding audits_def by (auto split: prod.splits dest!: recordOutcome_entry)

lemma audits_console_record:
  "view r = Some None \<Longrightarrow>
     audits H c action view (State_Monad.bind (console_record H c action dseq None) (\<lambda>_. State_Monad.return r))"
  unfolding console_record_def by (rule audits_success)

lemma audits_some:
  "audits H c action sum_view m \<Longrightarrow> audits H c action opt_view (State_Monad.bind m (\<lambda>r. State_Monad.return (Some r)))"
  unfolding audits_def
proof (intro allI impI)
  fix w r w'
  assume m: "\<forall>w r w'. run_state m w = (r, w') \<longrightarrow> (case sum_view r of None \<Rightarrow> logged w' = logged w
      | Some outcome \<Rightarrow> if actionLog c then \<exists>e. logged w' = logged w @ [e] \<and> entry_for_outcome H c action outcome e
          else logged w' = logged w)"
    and "run_state (State_Monad.bind m (\<lambda>r. State_Monad.return (Some r))) w = (r, w')"
  then obtain a where "run_state m w = (a, w')" and r: "r = Some a" by (auto split: prod.splits)
  with m show "case opt_view r of None \<Rightarrow> logged w' = logged w
      | Some outcome \<Rightarrow> if actionLog c then \<exists>e. logged w' = logged w @ [e] \<and> entry_for_outcome H c action outcome e
          else logged w' = logged w"
    unfolding r views by blast
qed

lemma audits_none: "view r = None \<Longrightarrow> audits H c action view (State_Monad.return r)"
  by (simp add: audits_def)

section \<open>Errors that are not unknown outcomes\<close>

text \<open>All the errors that a computation can return satisfy a predicate.\<close>

definition errs :: "(cerr \<Rightarrow> bool) \<Rightarrow> ('s, cerr + 'a) state \<Rightarrow> bool" where
  "errs P m \<longleftrightarrow> (\<forall>e. Inl e \<in> set_state m \<longrightarrow> P e)"

lemma errsD: "errs P m \<Longrightarrow> Inl e \<in> set_state m \<Longrightarrow> P e"
  by (simp add: errs_def)

lemma set_state_return [simp]: "set_state (State_Monad.return x) = {x}"
  by (auto simp: set_state_iff)

lemma set_state_bind: "x \<in> set_state (State_Monad.bind m f) \<Longrightarrow> \<exists>a \<in> set_state m. x \<in> set_state (f a)"
proof -
  assume "x \<in> set_state (State_Monad.bind m f)"
  then obtain s s' where run: "run_state (State_Monad.bind m f) s = (x, s')" by (auto simp: set_state_iff)
  obtain a t where t: "run_state m s = (a, t)" by fastforce
  then have "a \<in> set_state m" by (auto simp: set_state_iff)
  moreover have "x \<in> set_state (f a)" using run t by (auto simp: set_state_iff)
  ultimately show ?thesis by blast
qed

lemma errs_return [simp]: "errs P (ok x)" "errs P (err e) \<longleftrightarrow> P e"
  by (auto simp: errs_def)

lemma errs_bind: "(\<And>a. a \<in> set_state m \<Longrightarrow> errs P (f a)) \<Longrightarrow> errs P (State_Monad.bind m f)"
  unfolding errs_def by (intro allI impI) (drule set_state_bind, blast)

lemma errs_attempt:
  "(\<And>e. Inl e \<in> set_state m \<Longrightarrow> errs P (h e)) \<Longrightarrow> (\<And>x. errs P (f x)) \<Longrightarrow> errs P (attempt m h f)"
  unfolding attempt_def by (rule errs_bind) (auto split: sum.split)

lemma errs_ebind: "errs P m \<Longrightarrow> (\<And>x. errs P (f x)) \<Longrightarrow> errs P (ebind m f)"
  unfolding ebind_def by (rule errs_attempt) (auto dest: errsD)

abbreviation benign :: "('s, cerr + 'a) state \<Rightarrow> bool" where
  "benign \<equiv> errs (\<lambda>e. \<not> unknown_outcome e)"

lemma unknown_sanitize [simp]: "\<not> unknown_outcome (sanitizeSecretError H e)"
  by (auto simp: sanitizeSecretError_def Let_def split: option.split)

lemma benign_sanitized: "benign m \<Longrightarrow> benign (sanitized H c m)"
  by (auto simp: sanitized_def intro!: errs_attempt)

lemma unknown_cause [simp]: "\<not> unknown_outcome (cause x)"
  by (cases x) simp_all

lemma ctx_causes:
  "Some e \<in> set_state (ctx_err H) \<Longrightarrow> \<not> unknown_outcome e"
  "Some e \<in> set_state (waitForRetry H n) \<Longrightarrow> \<not> unknown_outcome e"
  by (auto simp: set_state_iff ctx_err_def waitForRetry_def split: prod.splits) (metis map_option_eq_Some unknown_cause surj_pair)+

lemma unknown_requestFailure [simp]: "\<not> unknown_outcome (requestFailure c ce t m p s)"
  by (auto simp: requestFailure_def split: option.split)

lemma judge_benign: "judge_response c m p s b d = Inl (Inl e) \<Longrightarrow> \<not> unknown_outcome e" "judge_response c m p s b d = Inr e \<Longrightarrow> \<not> unknown_outcome e"
  by (auto simp: judge_response_def split: if_splits option.splits)

lemma benign_judge: "judge_response c m p s b d = Inl r \<Longrightarrow> benign (State_Monad.return r)"
  by (cases r) (auto dest: judge_benign)

lemma unknown_readResponseBody: "readResponseBody bytes failure n = Inl e \<Longrightarrow> \<not> unknown_outcome e"
  by (auto simp: readResponseBody_def split: if_splits)

lemma benign_json_attempts: "benign (json_attempts H c left method path payload decode)"
proof (induction left)
  case 0
  show ?case by simp
next
  case (Suc left)
  have retry: "benign (State_Monad.bind (waitForRetry H k) (\<lambda>stop. case stop of Some e \<Rightarrow> err e
      | None \<Rightarrow> json_attempts H c left method path payload decode))" for k
    using Suc.IH by (intro errs_bind) (auto dest: ctx_causes split: option.split)
  show ?case
    unfolding json_attempts.simps
    by (intro errs_bind)
      (auto intro!: errs_bind retry intro: benign_judge dest: ctx_causes judge_benign(2) unknown_readResponseBody split: option.split reply.split sum.split)
qed

lemma benign_doJSON: "benign (doJSON H c method path body decode)"
  unfolding doJSON_def by (rule benign_sanitized) (auto intro: benign_json_attempts split: option.split)

lemma benign_doData: "benign (doData H c method path body decode)"
  unfolding doData_def
  by (intro benign_sanitized errs_ebind benign_doJSON) (auto simp: Let_def split: option.split)

lemma benign_validateDSeq: "validateDSeq d = Some e \<Longrightarrow> \<not> unknown_outcome e"
  by (auto simp: validateDSeq_def split: sum.splits if_splits)

lemma benign_reads:
  "benign (GetDeployment H K c dseq)" "benign (ListDeployments H K c skip limit)" "benign (GetSecretsContext H K c)"
  unfolding GetDeployment_def ListDeployments_def GetSecretsContext_def
  by (auto intro!: errs_ebind benign_doData dest: benign_validateDSeq split: option.split)

lemma benign_list_pages: "benign (list_pages H K c left skip all)"
  by (induction left arbitrary: skip all) (auto simp: Let_def intro!: errs_ebind benign_reads)

lemma benign_listAllDeployments: "benign (listAllDeployments H K c)"
  unfolding listAllDeployments_def by (rule benign_list_pages)

lemma benign_sealSecrets: "benign (sealSecrets H K c secrets sdl)"
  unfolding sealSecrets_def by (intro errs_ebind benign_reads errs_bind) (auto split: sum.split)

lemma benign_requireMutableDeployment: "benign (requireMutableDeployment H K c dseq)"
  unfolding requireMutableDeployment_def
  by (intro errs_ebind benign_reads) (auto simp: requireMutableState_def Let_def split: option.split if_splits)

lemma benign_update_result: "validateDeploymentUpdateResult r dseq hash = Some e \<Longrightarrow> \<not> unknown_outcome e"
  by (auto simp: validateDeploymentUpdateResult_def split: if_splits)

lemma benign_put_attempts: "benign (put_attempts H K c left n dseq sdl hash)"
proof (induction left arbitrary: n)
  case 0
  show ?case by simp
next
  case (Suc left)
  have retry: "benign (State_Monad.bind (waitForRetry H k) (\<lambda>stop. case stop of Some e \<Rightarrow> err e
      | None \<Rightarrow> put_attempts H K c left m dseq sdl hash))" for k m
    using Suc.IH by (intro errs_bind) (auto dest: ctx_causes split: option.split)
  show ?case
    unfolding put_attempts.simps Let_def
    by (auto intro!: errs_bind retry dest!: errsD [OF benign_doData] benign_update_result split: sum.split option.split)
qed

lemma benign_readCreatedLeases: "benign (readCreatedLeases H K c requested)"
  unfolding readCreatedLeases_def by (auto simp: Let_def intro!: errs_ebind benign_reads split: list.split)

lemma benign_lease_outcome:
  "lease_outcome leases r = Inl e \<Longrightarrow> r \<in> set_state (doData H c method path body decode) \<Longrightarrow> \<not> unknown_outcome e"
  by (auto simp: lease_outcome_def split: sum.splits if_splits dest: errsD [OF benign_doData])

end
