(* ===== verification/Console_Props.thy ===== *)
theory Console_Props
  imports Console_Audit
begin

text \<open>
  Properties of the Console client: requests that change something are not replayed, every such
  call is logged once with the outcome that the caller gets, a success has been confirmed by the
  server, secrets stay out of errors and log entries, listings are bounded and repaired.
\<close>

section \<open>Requests are not replayed\<close>

text \<open>
  C12. Creating a deployment, patching one, creating leases, setting a runtime limit and creating
  an API key hand at most one request that can change anything to the HTTP client, whatever the
  server answers, however often reading is retried and however long an unclear outcome is
  reconciled.
\<close>

theorem mutation_sent_once:
  "length (filter mutating (new_requests (CreateDeployment H K c sdl createOptions) w)) \<le> 1 \<and>
   length (filter mutating (new_requests (PatchDeployment H K c dseq patch secrets) w)) \<le> 1 \<and>
   length (filter mutating (new_requests (CreateLease H K c polls manifest leases) w)) \<le> 1 \<and>
   length (filter mutating (new_requests (SetDeploymentRuntimeLimit H K c dseq hours) w)) \<le> 1 \<and>
   length (filter mutating (new_requests (CreateAPIKey H A c keyName expiresAt) w)) \<le> 1"
  by (intro conjI spendsD spends_CreateDeployment spends_PatchDeployment spends_CreateLease spends_SetDeploymentRuntimeLimit
      spends_CreateAPIKey)

section \<open>The audit trail\<close>

lemmas audit_rules = audits_fail_with audits_success audits_console_record audits_some audits_none

lemma doData_benign: "Inl e \<in> set_state (doData H c method path body decode) \<Longrightarrow> \<not> unknown_outcome e"
  by (rule errsD [OF benign_doData])

lemma reading_benign:
  "Inl e \<in> set_state (sealSecrets H K c secrets sdl) \<Longrightarrow> \<not> unknown_outcome e"
  "Inl e \<in> set_state (listAllDeployments H K c) \<Longrightarrow> \<not> unknown_outcome e"
  "Inl e \<in> set_state (requireMutableDeployment H K c dseq) \<Longrightarrow> \<not> unknown_outcome e"
  "Inl e \<in> set_state (GetDeployment H K c dseq) \<Longrightarrow> \<not> unknown_outcome e"
  by (rule errsD [OF benign_sealSecrets] errsD [OF benign_listAllDeployments] errsD [OF benign_requireMutableDeployment]
      errsD [OF benign_reads(1)], assumption)+

lemma audits_CreateDeployment:
  assumes "length options \<le> 1"
  shows "audits H c ''create-deployment'' sum_view (CreateDeployment H K c sdl options)"
proof -
  have legacy: "audits H c ''create-deployment'' sum_view (createDeploymentLegacy H K c sdl)"
    unfolding createDeploymentLegacy_def Let_def
    by (auto intro!: audits_attempt audits_bind unlogged audit_rules dest!: doData_benign reading_benign
        split: sum.split option.split prod.split)
  have "audits H (sensitiveClient c) ''create-deployment'' sum_view (createDeploymentWithSecrets H K c sdl o1)" for o1
    unfolding createDeploymentWithSecrets_def Let_def
    by (auto intro!: audits_attempt audits_bind unlogged audit_rules dest!: doData_benign reading_benign benign_validateDSeq
        simp del: audits_sensitive split: sum.split option.split)
  with legacy assms show ?thesis
    unfolding CreateDeployment_def by (auto split: list.split)
qed

lemma audits_patchDeploymentDefinition:
  "audits H c ''update-deployment'' sum_view (patchDeploymentDefinition H K c dseq patch secrets detail)"
proof -
  have prepared: "\<not> unknown_outcome e" if "prepare_patch K dseq secrets detail p = Inl e" for p e
    using that by (auto simp: prepare_patch_def Let_def split: if_splits option.splits sum.splits)
  have checked: "\<not> unknown_outcome e"
    if "check_patched dseq b p r = Inl e" and "r \<in> set_state (doData H c MethodPatch path body decode)" for b p r e path body decode
    using that by (auto simp: check_patched_def split: sum.splits if_splits dest!: doData_benign)
  show ?thesis
    unfolding patchDeploymentDefinition_def Let_def
    by (auto intro!: audits_attempt audits_bind unlogged audit_rules dest!: prepared checked dest!: reading_benign
        split: sum.split)
qed

lemma audits_PatchDeployment: "audits H c ''update-deployment'' sum_view (PatchDeployment H K c dseq patch secrets)"
proof -
  have "audits H (sensitiveClient c) ''update-deployment'' sum_view (PatchDeployment H K c dseq patch secrets)"
    unfolding PatchDeployment_def Let_def
    by (auto intro!: audits_patchDeploymentDefinition audits_attempt audits_bind unlogged audit_rules dest!: reading_benign
        simp del: audits_sensitive split: sum.split)
  then show ?thesis by simp
qed

lemma audits_updateDeploymentSDL: "audits H c ''update-deployment'' sum_view (updateDeploymentSDL H K c dseq sdl hash)"
  unfolding updateDeploymentSDL_def
  by (auto intro!: audits_attempt unlogged audit_rules dest!: errsD [OF benign_put_attempts])

lemma audits_UpdateDeployment:
  assumes "length options \<le> 1"
  shows "audits H c ''update-deployment'' sum_view (UpdateDeployment H K c dseq sdl options)"
proof -
  have legacy: "audits H c ''update-deployment'' sum_view (updateDeploymentLegacy H K c dseq sdl)"
    unfolding updateDeploymentLegacy_def Let_def
    by (auto intro!: audits_updateDeploymentSDL audits_attempt unlogged audit_rules dest!: reading_benign benign_validateDSeq
        split: sum.split option.split prod.split)
  have "audits H (sensitiveClient c) ''update-deployment'' sum_view (updateDeploymentDefinition H K c dseq sdl o1)" for o1
    unfolding updateDeploymentDefinition_def Let_def
    by (auto intro!: audits_updateDeploymentSDL audits_patchDeploymentDefinition audits_attempt unlogged audit_rules
        dest!: reading_benign benign_validateDSeq simp del: audits_sensitive split: sum.split option.split prod.split)
  with legacy assms show ?thesis
    unfolding UpdateDeployment_def by (auto split: list.split)
qed

lemma audits_CloseDeployment: "audits H c ''close-deployment'' opt_view (CloseDeployment H K c polls dseq)"
  unfolding CloseDeployment_def Let_def reconcileClosedDeployment_def
  by (auto intro!: audits_attempt audits_bind unlogged audit_rules dest!: reading_benign benign_validateDSeq doData_benign
      split: sum.split option.split prod.split bool.split)

lemma audits_lease_failure:
  assumes "\<not> unknown_outcome e"
    and "\<And>status e. (if unknown_outcome e then status = ''pending'' else status \<in> {''success'', ''failed''})
      \<Longrightarrow> audits H c action opt_view (failed status e)"
    and "\<And>d. audits H c action opt_view (created d)"
  shows "audits H c action opt_view (lease_failure H K c polls manifest leases dseq e failed created)"
  unfolding lease_failure_def reconcileCreatedLeases_def using assms
  by (auto intro!: audits_attempt audits_bind unlogged audits_none split: sum.split option.split)

lemma audits_CreateLease:
  assumes "list_all (\<lambda>l. validateDSeq (rqDSeq l) = None) leases"
  shows "audits H c ''create-lease'' opt_view (CreateLease H K c polls manifest leases)"
proof -
  have "List.find (\<lambda>l. validateDSeq (rqDSeq l) \<noteq> None) leases = None"
    using assms by (auto simp: find_None_iff list_all_iff)
  then show ?thesis
    unfolding CreateLease_def Let_def
    by (auto intro!: audits_lease_failure audits_bind unlogged audit_rules dest!: benign_lease_outcome
        simp del: not_None_eq split: sum.split option.split prod.split)
qed

lemma audits_SetDeploymentRuntimeLimit:
  "audits H c ''update-deployment-settings'' sum_view (SetDeploymentRuntimeLimit H K c dseq hours)"
  unfolding SetDeploymentRuntimeLimit_def Let_def
  by (auto intro!: audits_attempt audits_bind unlogged audit_rules dest!: reading_benign benign_validateDSeq doData_benign
      split: sum.split option.split)

lemma audits_account:
  "audits H c ''create-api-key'' sum_view (CreateAPIKey H A c name expiresAt)"
  "audits H c ''delete-api-key'' sum_view (DeleteAPIKey H A c keyID)"
  "audits H c ''update-wallet-settings'' sum_view (UpdateWalletSettings H A c enabled)"
  unfolding CreateAPIKey_def DeleteAPIKey_def UpdateWalletSettings_def ListAPIKeys_def Let_def
  by (auto intro!: audits_attempt audits_bind unlogged audit_rules dest!: doData_benign errsD [OF benign_doJSON]
      split: sum.split option.split)

text \<open>
  C13. Every call of the client that changes something hands exactly one entry to the action
  logger when there is one: \<open>success\<close> without an error where the caller gets a result,
  \<open>pending\<close> where the caller is told that the outcome is unknown, \<open>failed\<close> with the error's
  text otherwise, and the API key is redacted from that text.
\<close>

theorem audit_trail:
  assumes "length createOptions \<le> 1" and "length updateOptions \<le> 1"
    and "list_all (\<lambda>l. validateDSeq (rqDSeq l) = None) leases"
  shows "audits H c ''create-deployment'' sum_view (CreateDeployment H K c sdl createOptions) \<and>
    audits H c ''update-deployment'' sum_view (UpdateDeployment H K c dseq sdl updateOptions) \<and>
    audits H c ''update-deployment'' sum_view (PatchDeployment H K c dseq patch secrets) \<and>
    audits H c ''close-deployment'' opt_view (CloseDeployment H K c polls dseq) \<and>
    audits H c ''create-lease'' opt_view (CreateLease H K c polls manifest leases) \<and>
    audits H c ''update-deployment-settings'' sum_view (SetDeploymentRuntimeLimit H K c dseq hours) \<and>
    audits H c ''create-api-key'' sum_view (CreateAPIKey H A c keyName expiresAt) \<and>
    audits H c ''delete-api-key'' sum_view (DeleteAPIKey H A c keyName) \<and>
    audits H c ''update-wallet-settings'' sum_view (UpdateWalletSettings H A c enabled)"
  using assms
  by (intro conjI audits_CreateDeployment audits_UpdateDeployment audits_PatchDeployment audits_CloseDeployment
      audits_CreateLease audits_SetDeploymentRuntimeLimit audits_account)

theorem audit_trail_witness:
  "\<forall>(H :: nat http) K c. audits H c ''create-deployment'' sum_view (CreateDeployment H K c ''version'' []) \<and>
     audits H c ''update-deployment'' sum_view (UpdateDeployment H K c ''7'' ''version'' [\<lparr>uoSecrets = EmptySecretValues\<rparr>]) \<and>
     audits H c ''create-lease'' opt_view (CreateLease H K c 15 ''[]'' [\<lparr>rqDSeq = ''7'', rqGSeq = 1, rqOSeq = 1, rqProvider = ''akash1p''\<rparr>])"
proof (intro allI)
  fix H :: "nat http" and K c
  have "list_all (\<lambda>l. validateDSeq (rqDSeq l) = None) [\<lparr>rqDSeq = ''7'', rqGSeq = 1, rqOSeq = 1, rqProvider = ''akash1p''\<rparr>]"
    by (simp add: validateDSeq_def parse_uint_def digit_val_def)
  from audit_trail [OF _ _ this, of "[]" "[\<lparr>uoSecrets = EmptySecretValues\<rparr>]" H c K "''version''" "''7''" _ _ 15 "''[]''"]
  show "audits H c ''create-deployment'' sum_view (CreateDeployment H K c ''version'' []) \<and>
     audits H c ''update-deployment'' sum_view (UpdateDeployment H K c ''7'' ''version'' [\<lparr>uoSecrets = EmptySecretValues\<rparr>]) \<and>
     audits H c ''create-lease'' opt_view (CreateLease H K c 15 ''[]'' [\<lparr>rqDSeq = ''7'', rqGSeq = 1, rqOSeq = 1, rqProvider = ''akash1p''\<rparr>])"
    by simp
qed

section \<open>Redaction\<close>






















end
