(* ===== verification/Console_Results.thy ===== *)
theory Console_Results
  imports Console_Audit
begin

text \<open>
  What the results and the errors of the Console client say: a success was confirmed by the
  server, and an error of a call that handles secrets repeats no text of the server.
\<close>

section \<open>Confirmed results\<close>

text \<open>All the results that a computation can return satisfy a predicate.\<close>

definition gives :: "('a \<Rightarrow> bool) \<Rightarrow> ('s, 'a) state \<Rightarrow> bool" where
  "gives P m \<longleftrightarrow> (\<forall>r \<in> set_state m. P r)"

lemma gives_return [simp]: "gives P (State_Monad.return x) \<longleftrightarrow> P x"
  by (simp add: gives_def)

lemma gives_bind: "(\<And>a. a \<in> set_state m \<Longrightarrow> gives P (f a)) \<Longrightarrow> gives P (State_Monad.bind m f)"
  unfolding gives_def by (intro ballI) (drule set_state_bind, blast)

lemma gives_attempt: "(\<And>e. gives P (h e)) \<Longrightarrow> (\<And>x. Inr x \<in> set_state m \<Longrightarrow> gives P (f x)) \<Longrightarrow> gives P (attempt m h f)"
  unfolding attempt_def by (rule gives_bind) (auto split: sum.split)

definition on_success :: "('a \<Rightarrow> bool) \<Rightarrow> cerr + 'a \<Rightarrow> bool" where
  "on_success P r \<longleftrightarrow> (case r of Inl _ \<Rightarrow> True | Inr x \<Rightarrow> P x)"

lemma on_success_simps [simp]: "on_success P (Inl e)" "on_success P (Inr x) = P x"
  by (simp_all add: on_success_def)

lemma gives_fail_with [simp]: "gives (on_success P) (fail_with H c action dseq status e p)"
  unfolding fail_with_def by (rule gives_bind) simp

text \<open>A receipt of a transaction that went through.\<close>

definition good_receipt :: "SignTx \<Rightarrow> bool" where
  "good_receipt tx \<longleftrightarrow> stCodePresent tx \<and> stCode tx = 0 \<and> trim_space (stTransactionHash tx) \<noteq> []"

lemma create_result_ok:
  "validateCreateDeploymentResult r = None \<longleftrightarrow>
     validDeploymentDSeq (crDSeq r) \<and> (\<exists>tx. crSignTx r = Some tx \<and> good_receipt tx)"
  by (auto simp: validateCreateDeploymentResult_def good_receipt_def split: option.splits)

definition created_ok :: "CreateDeploymentResult \<Rightarrow> bool" where
  "created_ok r \<longleftrightarrow> validDeploymentDSeq (crDSeq r) \<and> (\<exists>tx. crSignTx r = Some tx \<and> good_receipt tx)"

lemma gives_createDeploymentWithSecrets: "gives (on_success created_ok) (createDeploymentWithSecrets H K c sdl o1)"
  unfolding createDeploymentWithSecrets_def Let_def created_ok_def
  by (auto intro!: gives_attempt gives_bind simp: create_result_ok good_receipt_def split: option.split sum.split)

text \<open>
  The outcome of a create without secrets: the server's answer with a good receipt (and the
  manifest of the SDL where the answer has none), or, after an answer that left the outcome
  open, the single deployment of a listing that has the hash of the SDL and was in no listing
  before.
\<close>

definition receipt_answer :: "'x http \<Rightarrow> codec \<Rightarrow> Client \<Rightarrow> string \<Rightarrow> string \<Rightarrow> CreateDeploymentResult \<Rightarrow> bool" where
  "receipt_answer H K c sdl manifest r \<longleftrightarrow>
     (\<exists>out tx. Inr out \<in> set_state (doData H c MethodPost ''/v1/deployments'' (Some (envelope (SDLBody sdl))) (kCreated K)) \<and>
        crSignTx out = Some tx \<and> good_receipt tx \<and>
        r = (if crManifest out = [] then out\<lparr>crManifest := manifest\<rparr> else out))"

definition newly_listed :: "'x http \<Rightarrow> codec \<Rightarrow> Client \<Rightarrow> string set \<Rightarrow> string \<Rightarrow> string \<Rightarrow> bool" where
  "newly_listed H K c known hash dseq \<longleftrightarrow>
     (\<exists>items it. Inr items \<in> set_state (listAllDeployments H K c) \<and> item_dseq it = dseq \<and>
        filter (\<lambda>i. item_dseq i \<notin> known \<and> cdHash (itDeployment i) = hash \<and> validDeploymentDSeq (item_dseq i)) items = [it])"

definition legacy_created :: "'x http \<Rightarrow> codec \<Rightarrow> Client \<Rightarrow> string \<Rightarrow> CreateDeploymentResult \<Rightarrow> bool" where
  "legacy_created H K c sdl r \<longleftrightarrow>
     validDeploymentDSeq (crDSeq r) \<and>
     (\<exists>hash manifest. deploymentArtifacts K sdl = Inr (hash, manifest) \<and>
        (receipt_answer H K c sdl manifest r \<or>
         crSignTx r = None \<and> crManifest r = manifest \<and>
         (\<exists>before. Inr before \<in> set_state (listAllDeployments H K c) \<and> newly_listed H K c (item_dseq ` set before) hash (crDSeq r))))"

lemma newly_listed_valid: "newly_listed H K c known hash dseq \<Longrightarrow> validDeploymentDSeq dseq"
proof -
  assume "newly_listed H K c known hash dseq"
  then obtain items it where "item_dseq it = dseq"
    "filter (\<lambda>i. item_dseq i \<notin> known \<and> cdHash (itDeployment i) = hash \<and> validDeploymentDSeq (item_dseq i)) items = [it]"
    unfolding newly_listed_def by blast
  then have "it \<in> {i \<in> set items. item_dseq i \<notin> known \<and> cdHash (itDeployment i) = hash \<and> validDeploymentDSeq (item_dseq i)}"
    by (metis list.set_intros(1) set_filter)
  with \<open>item_dseq it = dseq\<close> show ?thesis by simp
qed

lemma gives_reconcile_create:
  "gives (\<lambda>found. case found of None \<Rightarrow> True
      | Some r \<Rightarrow> crSignTx r = None \<and> crManifest r = manifest \<and> newly_listed H K c known hash (crDSeq r))
     (reconcile_create H K c left n known hash manifest)"
proof (induction left arbitrary: n)
  case 0
  show ?case by simp
next
  case (Suc left)
  have one: "newly_listed H K c known hash (hd ms)"
    if items: "items \<in> set_state (listAllDeployments H K c)" and ms: "ms = (case items of Inl _ \<Rightarrow> [] | Inr its \<Rightarrow> new_matches known hash its)"
      and "length ms = 1" for items ms
  proof -
    from that obtain its where its: "items = Inr its" "ms = new_matches known hash its" by (auto split: sum.splits)
    with \<open>length ms = 1\<close> obtain it where
      "filter (\<lambda>i. item_dseq i \<notin> known \<and> cdHash (itDeployment i) = hash \<and> validDeploymentDSeq (item_dseq i)) its = [it]"
      by (auto simp: new_matches_def length_Suc_conv)
    with its items show ?thesis by (auto simp: newly_listed_def new_matches_def)
  qed
  show ?case
    unfolding reconcile_create.simps Let_def
    by (intro gives_bind) (use one Suc.IH in \<open>auto intro!: gives_bind\<close>)
qed

lemma gives_createDeploymentLegacy: "gives (on_success (legacy_created H K c sdl)) (createDeploymentLegacy H K c sdl)"
proof (cases "deploymentArtifacts K sdl")
  case (Inl e)
  then show ?thesis by (simp add: createDeploymentLegacy_def)
next
  case (Inr art)
  obtain hash manifest where art: "deploymentArtifacts K sdl = Inr (hash, manifest)" using Inr by (cases art) simp
  have answered: "legacy_created H K c sdl (if crManifest out = [] then out\<lparr>crManifest := manifest\<rparr> else out)"
    if "Inr out \<in> set_state (doData H c MethodPost ''/v1/deployments'' (Some (envelope (SDLBody sdl))) (kCreated K))"
      "validateCreateDeploymentResult out = None" for out
    using that art unfolding create_result_ok legacy_created_def receipt_answer_def by auto
  have found: "legacy_created H K c sdl r"
    if "Inr before \<in> set_state (listAllDeployments H K c)"
      and "Some r \<in> set_state (reconcileCreatedDeployment H K c (item_dseq ` set before) hash manifest)" for before r
  proof -
    have "crSignTx r = None \<and> crManifest r = manifest \<and> newly_listed H K c (item_dseq ` set before) hash (crDSeq r)"
      using gives_reconcile_create that(2) unfolding gives_def reconcileCreatedDeployment_def by fastforce
    with that(1) art newly_listed_valid show ?thesis unfolding legacy_created_def by blast
  qed
  have open_outcome: "gives (on_success (legacy_created H K c sdl))
      (if definitiveCreateFailure e then fail_with H c ''create-deployment'' [] ''failed'' e params
       else State_Monad.bind (reconcileCreatedDeployment H K c (item_dseq ` set before) hash manifest) (\<lambda>found.
         case found of
           Some reconciled \<Rightarrow>
             State_Monad.bind (recordOutcome H c ''create-deployment'' (crDSeq reconciled) ''success'' None params) (\<lambda>_. ok reconciled)
         | None \<Rightarrow> fail_with H c ''create-deployment'' [] ''pending'' (Wrap (CreateUnknown hash) e) params))"
    if "Inr before \<in> set_state (listAllDeployments H K c)" for before e params
    by (auto intro!: gives_bind found [OF that] split: option.split)
  show ?thesis
    unfolding createDeploymentLegacy_def Let_def art sum.case prod.case
    by (auto intro!: gives_attempt gives_bind answered open_outcome split: option.split sum.split split del: if_split)
qed

definition updated_ok :: "codec \<Rightarrow> string \<Rightarrow> string \<Rightarrow> DeploymentDetail option \<Rightarrow> bool" where
  "updated_ok K dseq hash r \<longleftrightarrow>
     (\<exists>d. r = Some d \<and> detail_dseq d = dseq \<and> cdHash (ddDeployment d) = hash)"

lemma gives_put_attempts: "left > 0 \<Longrightarrow> gives (on_success (updated_ok K dseq hash)) (put_attempts H K c left n dseq sdl hash)"
proof (induction left arbitrary: n)
  case 0
  then show ?case by simp
next
  case (Suc left)
  have found: "updated_ok K dseq hash (Some d)" if "Some d \<in> set_state (reconcileDeploymentUpdate H K c dseq hash)" for d
    using that unfolding reconcileDeploymentUpdate_def attempt_def
    by (auto simp: updated_ok_def dest!: set_state_bind split: sum.splits if_splits)
  have valid: "updated_ok K dseq hash (Some d)" if "validateDeploymentUpdateResult d dseq hash = None" for d
    using that by (auto simp: validateDeploymentUpdateResult_def updated_ok_def split: if_splits)
  show ?case
    using Suc.IH found valid unfolding put_attempts.simps Let_def
    by (auto intro!: gives_bind split: sum.split option.split)
qed

lemma gives_updateDeploymentSDL: "gives (on_success (updated_ok K dseq hash)) (updateDeploymentSDL H K c dseq sdl hash)"
proof -
  have "updated_ok K dseq hash d" if "Inr d \<in> set_state (put_attempts H K c maxRetries 0 dseq sdl hash)" for d
    using gives_put_attempts [of maxRetries K dseq hash H c 0 sdl] that by (auto simp: gives_def maxRetries_def)
  then show ?thesis
    unfolding updateDeploymentSDL_def by (auto intro!: gives_attempt gives_bind)
qed

definition patched_ok :: "string \<Rightarrow> Patch \<Rightarrow> SecretValues \<Rightarrow> DeploymentDetail option \<Rightarrow> bool" where
  "patched_ok dseq patch secrets r \<longleftrightarrow>
     (\<exists>d. r = Some d \<and> detail_dseq d = dseq \<and>
       (if rename_only (patch\<lparr>paName := map_option trim_space (paName patch)\<rparr>) secrets
        then ddName d = map_option trim_space (paName patch)
        else ddManifestVersion d \<noteq> [] \<and> cdHash (ddDeployment d) = ddManifestVersion d))"

lemma gives_patchDeploymentDefinition:
  "gives (on_success (patched_ok dseq patch secrets)) (patchDeploymentDefinition H K c dseq patch secrets detail)"
proof -
  let ?p = "patch\<lparr>paName := map_option trim_space (paName patch)\<rparr>"
  have "patched_ok dseq patch secrets (Some d)"
    if "prepare_patch K dseq secrets detail ?p = Inr p" and "check_patched dseq (rename_only ?p secrets) p r = Inr d" for p r d
    using that by (auto simp: patched_ok_def check_patched_def prepare_patch_def Let_def split: if_splits sum.splits option.splits)
  then show ?thesis
    unfolding patchDeploymentDefinition_def Let_def
    by (auto intro!: gives_attempt gives_bind split: sum.split)
qed

text \<open>
  An update confirmed by the hash of the submitted SDL; with options, a deployment that has a saved
  definition is patched instead, by the difference of the two, and the patch is confirmed.
\<close>

definition sdl_confirmed :: "codec \<Rightarrow> string \<Rightarrow> string \<Rightarrow> DeploymentDetail option \<Rightarrow> bool" where
  "sdl_confirmed K dseq sdl r \<longleftrightarrow> (\<exists>hash manifest. deploymentArtifacts K sdl = Inr (hash, manifest) \<and> updated_ok K dseq hash r)"

definition update_confirmed :: "codec \<Rightarrow> string \<Rightarrow> string \<Rightarrow> UpdateDeploymentOptions list \<Rightarrow> DeploymentDetail option \<Rightarrow> bool" where
  "update_confirmed K dseq sdl options r \<longleftrightarrow>
     sdl_confirmed K dseq sdl r \<or>
     (\<exists>o1 saved patch. options = [o1] \<and> Diff (kYaml K) saved sdl = Inr patch \<and> patched_ok dseq patch (uoSecrets o1) r)"

lemma on_success_mono: "gives (on_success P) m \<Longrightarrow> (\<And>x. P x \<Longrightarrow> Q x) \<Longrightarrow> gives (on_success Q) m"
  by (auto simp: gives_def on_success_def split: sum.splits)

lemma gives_UpdateDeployment: "gives (on_success (update_confirmed K dseq sdl options)) (UpdateDeployment H K c dseq sdl options)"
proof -
  have put: "gives (on_success (update_confirmed K dseq sdl options)) (updateDeploymentSDL H K c dseq sdl hash)"
    if "deploymentArtifacts K sdl = Inr (hash, manifest)" for c hash manifest
    by (rule on_success_mono [OF gives_updateDeploymentSDL]) (use that in \<open>auto simp: update_confirmed_def sdl_confirmed_def\<close>)
  have patch: "gives (on_success (update_confirmed K dseq sdl [o1])) (patchDeploymentDefinition H K c dseq patch (uoSecrets o1) detail)"
    if "Diff (kYaml K) saved sdl = Inr patch" for c saved patch o1 detail
    by (rule on_success_mono [OF gives_patchDeploymentDefinition]) (use that in \<open>auto simp: update_confirmed_def\<close>)
  consider "options = []" | o1 where "options = [o1]" | o1 o2 os where "options = o1 # o2 # os" by (metis neq_Nil_conv)
  then show ?thesis
  proof cases
    case 1
    show ?thesis
      unfolding 1 UpdateDeployment_def updateDeploymentLegacy_def Let_def list.case
      by (auto intro!: gives_attempt put [unfolded 1] split: option.split sum.split prod.split)
  next
    case (2 o1)
    show ?thesis
      unfolding 2 UpdateDeployment_def updateDeploymentDefinition_def Let_def list.case
      by (auto intro!: gives_attempt put [unfolded 2] patch split: option.split sum.split prod.split)
  qed (simp add: UpdateDeployment_def)
qed

definition leased_ok :: "LeaseRequest list \<Rightarrow> (cerr + DeploymentDetail) option \<Rightarrow> bool" where
  "leased_ok leases r \<longleftrightarrow> (case r of
     Some (Inr d) \<Rightarrow> leases \<noteq> [] \<and> (\<forall>req \<in> set leases. \<exists>l \<in> set (ddLeases d).
       clDSeq (leID l) = rqDSeq req \<and> clGSeq (leID l) = rqGSeq req \<and> clOSeq (leID l) = rqOSeq req \<and>
       clProvider (leID l) = rqProvider req \<and> to_lower (leState l) = ''active'')
   | _ \<Rightarrow> True)"

lemma leased_ok_active: "requestedLeasesActive (ddLeases d) leases \<Longrightarrow> leased_ok leases (Some (Inr d))"
proof -
  have "to_lower ''active'' = ''active''" by code_simp
  then show "requestedLeasesActive (ddLeases d) leases \<Longrightarrow> ?thesis"
    by (fastforce simp: leased_ok_def requestedLeasesActive_def lease_matches_def equal_fold_def list_all_iff list_ex_iff)
qed

lemma read_leases_active: "Inr d \<in> set_state (readCreatedLeases H K c leases) \<Longrightarrow> requestedLeasesActive (ddLeases d) leases"
  unfolding readCreatedLeases_def Let_def ebind_def attempt_def
  by (auto dest!: set_state_bind split: list.splits if_splits sum.splits)

lemma polled_leases_active:
  "Some (Inr d) \<in> set_state (lease_polls H K c polls leases interval) \<Longrightarrow> requestedLeasesActive (ddLeases d) leases"
proof (induction polls)
  case 0
  then show ?case by simp
next
  case (Suc polls)
  then show ?case
    unfolding lease_polls.simps attempt_def
    by (auto dest!: set_state_bind split: sum.splits option.splits intro: read_leases_active)
qed

lemma set_state_with_timeout: "r \<in> set_state (with_timeout H ms m) \<Longrightarrow> r \<in> set_state m"
  unfolding with_timeout_def by (auto dest!: set_state_bind)

lemma gives_CreateLease: "gives (leased_ok leases) (CreateLease H K c polls manifest leases)"
proof -
  have failed: "gives (leased_ok leases) (State_Monad.bind (fail_with H c action dseq status e p) (\<lambda>r. State_Monad.return (Some r)))"
    for action dseq status e p
    unfolding fail_with_def by (auto intro!: gives_bind simp: leased_ok_def dest!: set_state_bind)
  have created: "gives (leased_ok leases) (State_Monad.bind (console_record H c action dseq None) (\<lambda>_. State_Monad.return (Some (Inr d))))"
    if "requestedLeasesActive (ddLeases d) leases" for action dseq d
    using that by (auto intro!: gives_bind leased_ok_active)
  have out: "requestedLeasesActive (ddLeases d) leases" if "lease_outcome leases r = Inr d" for r d
    using that by (auto simp: lease_outcome_def split: sum.splits if_splits)
  have polled: "requestedLeasesActive (ddLeases d) leases" if "Some (Inr d) \<in> set_state (reconcileCreatedLeases H K c polls leases)" for d
    using that unfolding reconcileCreatedLeases_def by (rule polled_leases_active [OF set_state_with_timeout])
  have none: "leased_ok leases None" "leased_ok leases (Some (Inl e))" for e
    by (simp_all add: leased_ok_def)
  show ?thesis
    unfolding CreateLease_def Let_def lease_failure_def
    by (auto intro!: gives_attempt gives_bind failed created none dest!: out polled read_leases_active
        split: option.split sum.split prod.split)
qed

text \<open>A close was acknowledged, or the deployment was seen to be gone or closed.\<close>

definition seen_closed :: "'x http \<Rightarrow> codec \<Rightarrow> Client \<Rightarrow> string \<Rightarrow> bool" where
  "seen_closed H K c dseq \<longleftrightarrow>
     (\<exists>e. Inl e \<in> set_state (GetDeployment H K c dseq) \<and> errors_Is e ErrNotFound) \<or>
     (\<exists>d. Inr d \<in> set_state (GetDeployment H K c dseq) \<and> detail_dseq d = dseq \<and> to_lower (trim_space (cdState (ddDeployment d))) = ''closed'')"

definition closed_ok :: "'x http \<Rightarrow> codec \<Rightarrow> Client \<Rightarrow> string \<Rightarrow> (cerr + unit) option \<Rightarrow> bool" where
  "closed_ok H K c dseq r \<longleftrightarrow> (r = Some (Inr ()) \<longrightarrow>
     Inr (Some True) \<in> set_state (doData H c MethodDelete (''/v1/deployments/'' @ PathEscape dseq) None (kSuccess K)) \<or> seen_closed H K c dseq)"

lemma gives_close_polls:
  "gives (\<lambda>r. \<forall>e. r = Some (True, e) \<longrightarrow> seen_closed H K c dseq) (close_polls H K c polls dseq interval)"
proof (induction polls)
  case 0
  show ?case by simp
next
  case (Suc polls)
  have lower: "to_lower ''closed'' = ''closed''" by code_simp
  show ?case
    unfolding close_polls.simps Let_def
    by (intro gives_bind)
      (use Suc.IH lower in \<open>auto intro!: gives_bind simp: seen_closed_def equal_fold_def split: sum.split option.split\<close>)
qed

lemma gives_CloseDeployment: "gives (closed_ok H K c dseq) (CloseDeployment H K c polls dseq)"
proof -
  have failed: "gives (closed_ok H K c dseq) (State_Monad.bind (fail_with H c action d status e p) (\<lambda>r. State_Monad.return (Some r)))"
    for action d status e p
    unfolding fail_with_def by (auto intro!: gives_bind simp: closed_ok_def dest!: set_state_bind)
  have closed: "gives (closed_ok H K c dseq) (State_Monad.bind (console_record H c action d None) (\<lambda>_. State_Monad.return (Some (Inr ()))))"
    if "closed_ok H K c dseq (Some (Inr ()))" for action d
    using that by (auto intro!: gives_bind)
  have seen: "closed_ok H K c dseq (Some (Inr ()))" if "Some (True, e) \<in> set_state (reconcileClosedDeployment H K c polls dseq)" for e
  proof -
    from that have "Some (True, e) \<in> set_state (close_polls H K c polls dseq mutationReconciliationPollInterval)"
      unfolding reconcileClosedDeployment_def by (rule set_state_with_timeout)
    with gives_close_polls show ?thesis unfolding gives_def closed_ok_def by metis
  qed
  have acked: "closed_ok H K c dseq (Some (Inr ()))"
    if "Inr (Some True) \<in> set_state (doData H c MethodDelete (''/v1/deployments/'' @ PathEscape dseq) None (kSuccess K))"
    using that by (simp add: closed_ok_def)
  have none: "closed_ok H K c dseq None" by (simp add: closed_ok_def)
  have open_outcome: "gives (closed_ok H K c dseq) (State_Monad.bind (reconcileClosedDeployment H K c polls dseq) (\<lambda>outcome.
      case outcome of
        None \<Rightarrow> State_Monad.return None
      | Some (True, _) \<Rightarrow> State_Monad.bind (console_record H c ''close-deployment'' dseq None) (\<lambda>_. State_Monad.return (Some (Inr ())))
      | Some (False, reconcileErr) \<Rightarrow> State_Monad.bind (fail_with H c ''close-deployment'' dseq ''pending'' (Wrap CloseUnknown
            (case reconcileErr of None \<Rightarrow> postErr | Some e \<Rightarrow> Join postErr e)) None) (\<lambda>r. State_Monad.return (Some r))))" for postErr
  proof (rule gives_bind)
    fix outcome assume out: "outcome \<in> set_state (reconcileClosedDeployment H K c polls dseq)"
    consider "outcome = None" | e where "outcome = Some (True, e)" | e where "outcome = Some (False, e)" by (metis (full_types) option.exhaust surj_pair)
    then show "gives (closed_ok H K c dseq) (case outcome of
        None \<Rightarrow> State_Monad.return None
      | Some (True, _) \<Rightarrow> State_Monad.bind (console_record H c ''close-deployment'' dseq None) (\<lambda>_. State_Monad.return (Some (Inr ())))
      | Some (False, reconcileErr) \<Rightarrow> State_Monad.bind (fail_with H c ''close-deployment'' dseq ''pending'' (Wrap CloseUnknown
            (case reconcileErr of None \<Rightarrow> postErr | Some e \<Rightarrow> Join postErr e)) None) (\<lambda>r. State_Monad.return (Some r)))"
      using out by cases (simp_all add: none failed closed [OF seen])
  qed
  show ?thesis
    unfolding CloseDeployment_def Let_def
    by (auto intro!: gives_attempt gives_bind [where m = "doData _ _ _ _ _ _"] failed open_outcome closed [OF acked] split: option.split sum.split)
qed

text \<open>
  C11. The client reports success only for what the server has confirmed.  A create with secrets
  has a valid sequence and the receipt, with code 0 and a hash, of a transaction that went through;
  a create without secrets has such a receipt in the server's answer, or is the one new deployment
  in the listing with the hash of the SDL.  An update returns the deployment asked for with the
  hash of the submitted SDL, or, where the difference to the saved definition was sent as a patch,
  with the version the patch produced; a patch likewise.  A close was acknowledged, or the
  deployment was read as closed or not found.  A lease request returns a deployment in which every
  requested lease is active; a runtime limit and a new API key are the ones asked for, the key
  complete.
\<close>

theorem success_confirmed:
  "gives (on_success created_ok) (CreateDeployment H K c sdl [o1]) \<and>
   gives (on_success (legacy_created H K c sdl)) (CreateDeployment H K c sdl []) \<and>
   gives (on_success (update_confirmed K dseq sdl updateOptions)) (UpdateDeployment H K c dseq sdl updateOptions) \<and>
   gives (on_success (patched_ok dseq patch secrets)) (PatchDeployment H K c dseq patch secrets) \<and>
   gives (closed_ok H K c dseq) (CloseDeployment H K c polls dseq) \<and>
   gives (leased_ok leases) (CreateLease H K c polls manifest leases) \<and>
   gives (on_success (\<lambda>s. dsDSeq s = dseq \<and> dsRuntimeLimitHours s = hours)) (SetDeploymentRuntimeLimit H K c dseq hours) \<and>
   gives (on_success (\<lambda>k. ckName k = name \<and> trim_space name \<noteq> [] \<and> trim_space (ckID k) \<noteq> [] \<and> trim_space (ckAPIKey k) \<noteq> []))
     (CreateAPIKey H A c name expiresAt)"
proof (intro conjI)
  show "gives (on_success created_ok) (CreateDeployment H K c sdl [o1])"
    "gives (on_success (legacy_created H K c sdl)) (CreateDeployment H K c sdl [])"
    by (simp_all add: CreateDeployment_def gives_createDeploymentWithSecrets gives_createDeploymentLegacy)
  show "gives (on_success (update_confirmed K dseq sdl updateOptions)) (UpdateDeployment H K c dseq sdl updateOptions)"
    by (rule gives_UpdateDeployment)
  show "gives (on_success (patched_ok dseq patch secrets)) (PatchDeployment H K c dseq patch secrets)"
    unfolding PatchDeployment_def Let_def
    by (auto intro!: gives_attempt gives_patchDeploymentDefinition split: sum.split)
  show "gives (closed_ok H K c dseq) (CloseDeployment H K c polls dseq)"
    by (rule gives_CloseDeployment)
  show "gives (leased_ok leases) (CreateLease H K c polls manifest leases)"
    by (rule gives_CreateLease)
  have "got = want" if "runtimeLimitEchoed got want" for got want
    using that by (auto simp: runtimeLimitEchoed_def split: option.splits)
  then show "gives (on_success (\<lambda>s. dsDSeq s = dseq \<and> dsRuntimeLimitHours s = hours)) (SetDeploymentRuntimeLimit H K c dseq hours)"
    unfolding SetDeploymentRuntimeLimit_def Let_def
    by (auto intro!: gives_attempt gives_bind split: option.split sum.split)
  show "gives (on_success (\<lambda>k. ckName k = name \<and> trim_space name \<noteq> [] \<and> trim_space (ckID k) \<noteq> [] \<and> trim_space (ckAPIKey k) \<noteq> []))
     (CreateAPIKey H A c name expiresAt)"
    unfolding CreateAPIKey_def Let_def
    by (auto intro!: gives_bind split: sum.split)
qed

section \<open>Errors without text of the server\<close>

fun server_text_free :: "cerr \<Rightarrow> bool" where
  "server_text_free (HTTPError status body) \<longleftrightarrow> body \<in> set known_codes \<or> body = ''sensitive response details omitted''"
| "server_text_free (Plain p) \<longleftrightarrow>
     (case p of
        TransportError _ _ _ \<Rightarrow> False | BodyReadFailed _ \<Rightarrow> False
      | Deploying d \<Rightarrow> (case d of
            InvalidResultDSeq _ \<Rightarrow> False | ReceiptFailed _ _ _ \<Rightarrow> False | UpdateWrongDSeq _ _ \<Rightarrow> False
          | UpdateWrongHash _ _ \<Rightarrow> False | CloseWrongDSeq _ _ \<Rightarrow> False | StillOpen _ _ \<Rightarrow> False | _ \<Rightarrow> True)
      | _ \<Rightarrow> True)"
| "server_text_free (Wrap k e) \<longleftrightarrow> server_text_free e"
| "server_text_free (Join a b) \<longleftrightarrow> server_text_free a \<and> server_text_free b"
| "server_text_free _ \<longleftrightarrow> True"

lemma sanitize_text_free [simp]: "server_text_free (sanitizeSecretError H e)"
proof -
  have "x \<in> {Canceled, DeadlineExceeded, ErrUnauthorized, ErrInsufficientFunds, ErrNotFound, ErrAlreadyClosed}"
    if "List.find P [Canceled, DeadlineExceeded, ErrUnauthorized, ErrInsufficientFunds, ErrNotFound, ErrAlreadyClosed] = Some x" for P x
    using that by (auto split: if_splits)
  then show ?thesis
    unfolding sanitizeSecretError_def Let_def by (auto split: option.split simp del: find.simps) fastforce+
qed

lemma sensitive_doData: "sensitiveErrors c \<Longrightarrow> errs server_text_free (doData H c method path body decode)"
  unfolding doData_def sanitized_def by (auto intro!: errs_attempt)

lemma sensitive_client [simp]: "sensitiveErrors (sensitiveClient c)"
  by (simp add: sensitiveClient_def)

lemma validateDSeq_text_free: "validateDSeq d = Some e \<Longrightarrow> server_text_free e"
  by (auto simp: validateDSeq_def split: sum.splits if_splits)

lemma sensitive_sealSecrets: "errs server_text_free (sealSecrets H K c secrets sdl)"
  unfolding sealSecrets_def GetSecretsContext_def
  by (intro errs_ebind sensitive_doData errs_bind) (auto split: option.split sum.split)

lemma sensitive_requireMutable: "sensitiveErrors c \<Longrightarrow> errs server_text_free (requireMutableDeployment H K c dseq)"
  unfolding requireMutableDeployment_def GetDeployment_def
  by (intro errs_ebind)
    (auto intro!: sensitive_doData simp: requireMutableState_def Let_def dest: validateDSeq_text_free split: option.split if_splits)

lemma errs_fail_with: "P e \<Longrightarrow> errs P (fail_with H c action dseq status e p)"
  unfolding fail_with_def by (rule errs_bind) simp

lemma sensitive_patchDeploymentDefinition:
  assumes "sensitiveErrors c"
  shows "errs server_text_free (patchDeploymentDefinition H K c dseq patch secrets detail)"
proof -
  have prepared: "server_text_free e" if "prepare_patch K dseq secrets detail p = Inl e" for p e
    using that by (auto simp: prepare_patch_def Let_def split: if_splits option.splits sum.splits)
  have checked: "server_text_free e"
    if "check_patched dseq b p r = Inl e" and "r \<in> set_state (doData H c MethodPatch path body decode)" for b p r e path body decode
    using that assms by (auto simp: check_patched_def split: sum.splits if_splits dest!: errsD [OF sensitive_doData])
  show ?thesis
    unfolding patchDeploymentDefinition_def Let_def
    by (auto intro!: errs_attempt errs_bind errs_fail_with dest!: prepared checked errsD [OF sensitive_sealSecrets] split: sum.split)
qed

text \<open>
  The calls that handle secrets return no error with text of the server: an HTTP error keeps
  its status and at most one of the codes the client knows, and neither a response body nor a
  transaction log reaches the caller through a create with secrets, a patch, or the reading of the
  sealing key.
\<close>

theorem secret_errors_opaque:
  "errs server_text_free (CreateDeployment H K c sdl [o1]) \<and>
   errs server_text_free (PatchDeployment H K c dseq patch secrets) \<and>
   errs server_text_free (sealSecrets H K c secrets sdl) \<and>
   errs server_text_free (doData H (sensitiveClient c) method path body decode)"
proof (intro conjI)
  show "errs server_text_free (CreateDeployment H K c sdl [o1])"
    unfolding CreateDeployment_def createDeploymentWithSecrets_def Let_def list.case
    by (auto intro!: errs_attempt errs_bind errs_fail_with dest!: validateDSeq_text_free errsD [OF sensitive_sealSecrets]
        errsD [OF sensitive_doData [OF sensitive_client]] split: option.split sum.split)
  show "errs server_text_free (PatchDeployment H K c dseq patch secrets)"
    unfolding PatchDeployment_def Let_def
    by (auto intro!: errs_attempt errs_bind errs_fail_with sensitive_patchDeploymentDefinition
        dest!: errsD [OF sensitive_requireMutable [OF sensitive_client]] split: sum.split)
  show "errs server_text_free (sealSecrets H K c secrets sdl)"
    by (rule sensitive_sealSecrets)
  show "errs server_text_free (doData H (sensitiveClient c) method path body decode)"
    by (rule sensitive_doData) simp
qed

end
