(* ===== verification/Console_Catalog.thy ===== *)
theory Console_Catalog
  imports Console_Leases
begin

text \<open>
  The remaining reads of the Console client: balances and spending (\<open>src/internal/console/wallet.go\<close>)
  and the marketplace (\<open>marketplace.go\<close>).  Parameters, in the record \<open>catalog_codec\<close>: the
  decoders of the payloads.
\<close>

section \<open>Payloads\<close>

record Balances =
  blBalance :: int
  blDeployments :: int
  blTotal :: int

record UsagePoint =
  upDate :: string
  upActiveDeployments :: int
  upDailyUsdcSpent :: float64
  upTotalUsdcSpent :: float64

record Provider =
  pvOwner :: string
  pvName :: string
  pvHostURI :: string
  pvIsOnline :: bool
  pvIsAudited :: bool
  pvUptime1D :: float64
  pvUptime7D :: float64
  pvUptime30D :: float64
  pvGPUModels :: string
  pvIPRegion :: string

record ProviderDetail =
  pdProvider :: Provider
  pdRaw :: string

record ProviderRegion =
  rgKey :: string
  rgDescription :: string
  rgProviders :: "string list"

record Auditor =
  auID :: string
  auName :: string
  auAddress :: string
  auWebsite :: string

record GPUPriceRange =
  gpMin :: float64
  gpMax :: float64
  gpAvg :: float64

record GPUModel =
  gmVendor :: string
  gmModel :: string
  gmRAM :: string
  gmPrice :: GPUPriceRange

record GPUAvailability =
  gaTotal :: int
  gaAvailable :: int

record GPUPrices =
  gpAvailability :: GPUAvailability
  gpModels :: "GPUModel list"

record Template =
  tmID :: string
  tmName :: string
  tmSummary :: string
  tmDeploy :: string
  tmReadme :: string

record ScreenedProvider =
  spOwner :: string
  spHostURI :: string
  spIsAudited :: bool
  spLocation :: string
  spOrganization :: string

record catalog_codec =
  gBalances :: "string \<Rightarrow> Balances option"
  gAutoReload :: "string \<Rightarrow> bool option"
  gWeeklyCost :: "string \<Rightarrow> float64 option"
  gUsage :: "string \<Rightarrow> UsagePoint list option"
  gScreened :: "string \<Rightarrow> ScreenedProvider list option"
  gProviders :: "string \<Rightarrow> Provider list option"
  gRaw :: "string \<Rightarrow> string option"
  gProvider :: "string \<Rightarrow> Provider option"
  gRegions :: "string \<Rightarrow> ProviderRegion list option"
  gAuditors :: "string \<Rightarrow> Auditor list option"
  gPrices :: "string \<Rightarrow> GPUPrices option"
  gTemplate :: "string \<Rightarrow> Template option"

section \<open>The standard library\<close>

text \<open>\<open>url.Values.Encode\<close>: the pairs in the order of their keys.\<close>

definition values_Encode :: "(string \<times> string) list \<Rightarrow> string" where
  "values_Encode q = join_with ''&'' (map (\<lambda>(k, v). QueryEscape k @ ''='' @ QueryEscape v) (sort_key fst q))"

text \<open>\<open>time.Parse\<close> with the layout \<open>2006-01-02\<close>: four, two and two digits, a month of the year and a day of the month.\<close>

definition leap :: "nat \<Rightarrow> bool" where
  "leap y \<longleftrightarrow> 4 dvd y \<and> (\<not> 100 dvd y \<or> 400 dvd y)"

definition days_in :: "nat \<Rightarrow> nat \<Rightarrow> nat" where
  "days_in m y = (if m = 2 then (if leap y then 29 else 28) else if m \<in> {4, 6, 9, 11} then 30 else 31)"

definition digits_nat :: "string \<Rightarrow> nat option" where
  "digits_nat s = foldl (\<lambda>acc c. case (acc, digit_val c) of (Some n, Some d) \<Rightarrow> Some (10 * n + d) | _ \<Rightarrow> None) (Some 0) s"

definition valid_date :: "string \<Rightarrow> bool" where
  "valid_date s \<longleftrightarrow> length s = 10 \<and> s ! 4 = CHR ''-'' \<and> s ! 7 = CHR ''-'' \<and>
     (case (digits_nat (take 4 s), digits_nat (take 2 (drop 5 s)), digits_nat (drop 8 s)) of
        (Some y, Some m, Some d) \<Rightarrow> 1 \<le> m \<and> m \<le> 12 \<and> 1 \<le> d \<and> d \<le> days_in m y
      | _ \<Rightarrow> False)"

section \<open>Spending\<close>

text \<open>A result that the caller leaves as it was when nothing was decoded.\<close>

definition decoded :: "'a \<Rightarrow> ('s, 'e + 'a option) state \<Rightarrow> ('s, 'e + 'a) state" where
  "decoded zero m = ebind m (\<lambda>r. ok (case r of None \<Rightarrow> zero | Some x \<Rightarrow> x))"

definition GetBalances :: "'x http \<Rightarrow> catalog_codec \<Rightarrow> Client \<Rightarrow> ('x cw, cerr + Balances) state" where
  "GetBalances H G c = doData H c MethodGet ''/v1/balances'' None (gBalances G)"

definition GetWalletSettings :: "'x http \<Rightarrow> catalog_codec \<Rightarrow> Client \<Rightarrow> ('x cw, cerr + bool) state" where
  "GetWalletSettings H G c = doData H c MethodGet ''/v1/wallet-settings'' None (gAutoReload G)"

definition GetWeeklyCost :: "'x http \<Rightarrow> catalog_codec \<Rightarrow> Client \<Rightarrow> ('x cw, cerr + float64) state" where
  "GetWeeklyCost H G c = doData H c MethodGet ''/v1/weekly-cost'' None (gWeeklyCost G)"

definition GetUsageHistory ::
  "'x http \<Rightarrow> catalog_codec \<Rightarrow> Client \<Rightarrow> string \<Rightarrow> string \<Rightarrow> string \<Rightarrow> ('x cw, cerr + UsagePoint list) state" where
  "GetUsageHistory H G c address startDate endDate =
     (case List.find (\<lambda>d. d \<noteq> [] \<and> \<not> valid_date d) [startDate, endDate] of
        Some d \<Rightarrow> err (Plain (Account (BadDate d)))
      | None \<Rightarrow>
          let q = [(''address'', address)] @ (if startDate \<noteq> [] then [(''startDate'', startDate)] else []) @
                (if endDate \<noteq> [] then [(''endDate'', endDate)] else [])
          in decoded [] (doJSON H c MethodGet (''/v1/usage/history?'' @ values_Encode q) None (Some (gUsage G))))"

section \<open>The marketplace\<close>

definition ScreenBids ::
  "'x http \<Rightarrow> catalog_codec \<Rightarrow> Client \<Rightarrow> BidScreeningRequest option \<Rightarrow> ('x cw, cerr + ScreenedProvider list) state" where
  "ScreenBids H G c req =
     (case req of
        None \<Rightarrow> err (Plain (Account NilScreening))
      | Some r \<Rightarrow>
          if bsResources r = [] then err (Plain (Account NoResources))
          else if bsTimezone r = [] then err (Plain (Account NoTimezone))
          else decoded [] (doJSON H c MethodPost ''/v1/bid-screening'' (Some (ScreeningBody r)) (Some (gScreened G))))"

definition ListProviders ::
  "'x http \<Rightarrow> catalog_codec \<Rightarrow> Client \<Rightarrow> string \<Rightarrow> string list \<Rightarrow> ('x cw, cerr + Provider list) state" where
  "ListProviders H G c scope addresses =
     (let q = (if scope \<noteq> [] then [(''scope'', scope)] else []) @
            (if addresses \<noteq> [] then [(''addresses'', join_with '','' addresses)] else []);
          enc = values_Encode q;
          path = (if enc \<noteq> [] then ''/v1/providers?'' @ enc else ''/v1/providers'')
      in decoded [] (doJSON H c MethodGet path None (Some (gProviders G))))"

definition GetProvider :: "'x http \<Rightarrow> catalog_codec \<Rightarrow> Client \<Rightarrow> string \<Rightarrow> ('x cw, cerr + ProviderDetail) state" where
  "GetProvider H G c address =
     ebind (decoded [] (doJSON H c MethodGet (''/v1/providers/'' @ PathEscape address) None (Some (gRaw G)))) (\<lambda>raw.
       case gProvider G raw of
         None \<Rightarrow> err (Plain (Account BadProviderDetail))
       | Some p \<Rightarrow> ok \<lparr>pdProvider = p, pdRaw = raw\<rparr>)"

definition ListProviderRegions :: "'x http \<Rightarrow> catalog_codec \<Rightarrow> Client \<Rightarrow> ('x cw, cerr + ProviderRegion list) state" where
  "ListProviderRegions H G c = decoded [] (doJSON H c MethodGet ''/v1/provider-regions'' None (Some (gRegions G)))"

definition ListAuditors :: "'x http \<Rightarrow> catalog_codec \<Rightarrow> Client \<Rightarrow> ('x cw, cerr + Auditor list) state" where
  "ListAuditors H G c = decoded [] (doJSON H c MethodGet ''/v1/auditors'' None (Some (gAuditors G)))"

definition GetGPUPrices :: "'x http \<Rightarrow> catalog_codec \<Rightarrow> Client \<Rightarrow> ('x cw, cerr + GPUPrices) state" where
  "GetGPUPrices H G c = decoded \<lparr>gpAvailability = \<lparr>gaTotal = 0, gaAvailable = 0\<rparr>, gpModels = []\<rparr>
     (doJSON H c MethodGet ''/v1/gpu-prices'' None (Some (gPrices G)))"

definition ListTemplates :: "'x http \<Rightarrow> catalog_codec \<Rightarrow> Client \<Rightarrow> ('x cw, cerr + string) state" where
  "ListTemplates H G c = doData H c MethodGet ''/v1/templates-list'' None (gRaw G)"

definition GetTemplate :: "'x http \<Rightarrow> catalog_codec \<Rightarrow> Client \<Rightarrow> string \<Rightarrow> ('x cw, cerr + Template) state" where
  "GetTemplate H G c tid = doData H c MethodGet (''/v1/templates/'' @ PathEscape tid) None (gTemplate G)"

end
