(* ===== verification/Console_Listing.thy ===== *)
theory Console_Listing
  imports Console_Results Console_Catalog "HOL-Library.Multiset"
begin

text \<open>
  The listings of the Console client: how leases are filed under their deployments, how far a
  listing reads, the window of a filtered listing; and the limits on a secrets document.
\<close>

section \<open>Leases under their deployments\<close>

lemma fresh_image_nth: "i < length xs \<Longrightarrow> y \<notin> f ` set xs \<Longrightarrow> f (xs ! i) \<noteq> y"
  by (metis image_eqI nth_mem)

lemma home_of_snoc: "home_of (items @ [it]) dseq = (if item_dseq it = dseq then Some (length items) else home_of items dseq)"
proof -
  have "fold (\<lambda>i found. if item_dseq ((items @ [it]) ! i) = dseq then Some i else found) [0..<length items] acc =
      fold (\<lambda>i found. if item_dseq (items ! i) = dseq then Some i else found) [0..<length items] acc" for acc
    by (rule fold_cong) (auto simp: nth_append)
  then show ?thesis by (simp add: home_of_def)
qed

lemma home_of_iff:
  assumes "distinct (map item_dseq items)"
  shows "home_of items dseq = Some i \<longleftrightarrow> i < length items \<and> item_dseq (items ! i) = dseq"
  using assms
proof (induction items rule: rev_induct)
  case Nil
  show ?case by (simp add: home_of_def)
next
  case (snoc it items)
  then have "home_of items dseq = Some i \<longleftrightarrow> i < length items \<and> item_dseq (items ! i) = dseq" by simp
  moreover have "item_dseq (items ! i) \<noteq> item_dseq it" if "i < length items"
    using snoc.prems that by (intro fresh_image_nth) auto
  ultimately show ?case by (auto simp: home_of_snoc nth_append less_Suc_eq)
qed

lemma filter_own_part:
  assumes "distinct (map f xs)" and "\<forall>x \<in> set xs. \<forall>l \<in> set (g x). k l = f x" and "i < length xs"
  shows "filter (\<lambda>l. k l = f (xs ! i)) (concat (map g xs)) = g (xs ! i)"
  using assms
proof (induction xs arbitrary: i)
  case Nil
  then show ?case by simp
next
  case (Cons x xs)
  show ?case
  proof (cases i)
    case 0
    have "k l \<noteq> f x" if "y \<in> set xs" "l \<in> set (g y)" for y l
    proof -
      have "k l = f y" using Cons.prems(2) that by simp
      moreover have "f x \<notin> f ` set xs" using Cons.prems(1) by simp
      ultimately show ?thesis using that(1) by (metis imageI)
    qed
    then have "filter (\<lambda>l. k l = f x) (concat (map g xs)) = []"
      by (simp add: filter_empty_conv)
    moreover have "filter (\<lambda>l. k l = f x) (g x) = g x"
      using Cons.prems(2) by (simp add: filter_id_conv)
    ultimately show ?thesis using 0 by simp
  next
    case (Suc j)
    then have "f (xs ! j) \<noteq> f x" using Cons.prems(1,3) by (intro fresh_image_nth) auto
    then have "filter (\<lambda>l. k l = f (xs ! j)) (g x) = []"
      using Cons.prems(2) by (auto simp: filter_empty_conv)
    then show ?thesis using Suc Cons by simp
  qed
qed

text \<open>
  C15. Regrouping repairs a page of deployments whose leases the server has attached to the wrong
  entries, whatever the permutation: where every lease is under its own deployment in
  \<open>paired\<close> and the response holds the same deployments and the same leases, the result has the
  deployments in their order, each with its own leases and no other.
\<close>

theorem regroup_repairs:
  assumes "distinct (map item_dseq paired)"
    and "\<forall>it \<in> set paired. \<forall>l \<in> set (itLeases it). clDSeq (leID l) = item_dseq it"
    and "map itDeployment items = map itDeployment paired"
    and "mset (concat (map itLeases items)) = mset (concat (map itLeases paired))"
  shows "map itDeployment (regroupLeases items) = map itDeployment paired \<and>
    map (\<lambda>it. mset (itLeases it)) (regroupLeases items) = map (\<lambda>it. mset (itLeases it)) paired"
proof -
  have len: "length items = length paired" using assms(3) by (metis length_map)
  have "map item_dseq items = map item_dseq paired"
    using arg_cong [OF assms(3), of "map (\<lambda>d. diDSeq (cdID d))"] by (simp add: item_dseq_def [abs_def] comp_def)
  then have dseq: "item_dseq (items ! i) = item_dseq (paired ! i)" if "i < length paired" for i
    using that len by (metis nth_map)
  have dist: "distinct (map item_dseq items)" using assms(1) \<open>map item_dseq items = _\<close> by simp
  have "mset (filter (\<lambda>l. home_of items (clDSeq (leID l)) = Some i) (concat (map itLeases items))) = mset (itLeases (paired ! i))"
    if i: "i < length paired" for i
  proof -
    have home: "(\<lambda>l. home_of items (clDSeq (leID l)) = Some i) = (\<lambda>l. clDSeq (leID l) = item_dseq (paired ! i))"
      using home_of_iff [OF dist] i len dseq by (intro ext) auto
    have "mset (filter (\<lambda>l. home_of items (clDSeq (leID l)) = Some i) (concat (map itLeases items))) =
        filter_mset (\<lambda>l. clDSeq (leID l) = item_dseq (paired ! i)) (mset (concat (map itLeases items)))"
      unfolding home by simp
    also have "\<dots> = mset (filter (\<lambda>l. clDSeq (leID l) = item_dseq (paired ! i)) (concat (map itLeases paired)))"
      unfolding assms(4) by simp
    also have "\<dots> = mset (itLeases (paired ! i))"
      using filter_own_part [OF assms(1,2) i] by simp
    finally show ?thesis .
  qed
  then have "map (\<lambda>it. mset (itLeases it)) (regroupLeases items) = map (\<lambda>it. mset (itLeases it)) paired"
    using len by (intro nth_equalityI) (simp_all add: regroupLeases_def Let_def)
  moreover have "map itDeployment (regroupLeases items) = map itDeployment paired"
    using len assms(3) by (intro nth_equalityI) (simp_all add: regroupLeases_def Let_def, metis nth_map)
  ultimately show ?thesis by blast
qed

definition sample_item :: "string \<Rightarrow> string \<Rightarrow> DeploymentListItem" where
  "sample_item dseq leaseDSeq = \<lparr>itDeployment = \<lparr>cdID = \<lparr>diOwner = ''akash1o'', diDSeq = dseq\<rparr>, cdState = ''active'', cdHash = [], cdCreatedAt = []\<rparr>,
     itLeases = [\<lparr>leID = \<lparr>clOwner = ''akash1o'', clDSeq = leaseDSeq, clGSeq = 1, clOSeq = 1, clProvider = ''akash1p''\<rparr>,
       leState = ''active'', lePrice = None, leStatus = None\<rparr>]\<rparr>"

theorem regroup_repairs_witness:
  "map itDeployment (regroupLeases [sample_item ''7'' ''9'', sample_item ''9'' ''7'']) =
     map itDeployment [sample_item ''7'' ''7'', sample_item ''9'' ''9''] \<and>
   map (\<lambda>it. mset (itLeases it)) (regroupLeases [sample_item ''7'' ''9'', sample_item ''9'' ''7'']) =
     map (\<lambda>it. mset (itLeases it)) [sample_item ''7'' ''7'', sample_item ''9'' ''9'']"
  by (rule regroup_repairs) (simp_all add: sample_item_def item_dseq_def add_mset_commute)

section \<open>How far a listing reads\<close>

lemma requests_doData: "spends_of (\<lambda>_. True) maxRetries (doData H c method path body decode)"
  unfolding doData_def doJSON_def
  by (intro spends_sanitized spends_ebind_first)
    (auto simp: Let_def intro: spends_json_attempts split: option.split)

lemma requests_ListDeployments: "spends_of (\<lambda>_. True) maxRetries (ListDeployments H K c skip limit)"
  unfolding ListDeployments_def by (auto intro!: spends_ebind_first requests_doData)

lemma spends_ebind: "spends_of M n m \<Longrightarrow> (\<And>x. spends_of M k (f x)) \<Longrightarrow> spends_of M (n + k) (ebind m f)"
  unfolding ebind_def attempt_def by (rule spends_bind) (auto split: sum.split)

lemma requests_list_pages: "spends_of (\<lambda>_. True) (maxRetries * left) (list_pages H K c left skip all)"
proof (induction left arbitrary: skip all)
  case 0
  show ?case by simp
next
  case (Suc left)
  have "spends_of (\<lambda>_. True) (maxRetries + maxRetries * left) (list_pages H K c (Suc left) skip all)"
    unfolding list_pages.simps
    by (rule spends_ebind [OF requests_ListDeployments]) (use Suc.IH in \<open>auto simp: Let_def\<close>)
  then show ?case by simp
qed

lemma gives_list_pages:
  "length all \<le> maxDeploymentCollectionRecords \<Longrightarrow>
     gives (on_success (\<lambda>items. length items \<le> maxDeploymentCollectionRecords)) (list_pages H K c left skip all)"
proof (induction left arbitrary: skip all)
  case 0
  show ?case by simp
next
  case (Suc left)
  then show ?case
    unfolding list_pages.simps ebind_def Let_def
    by (intro gives_attempt) (auto intro!: Suc.IH)
qed

text \<open>
  Reading the whole collection of deployments ends: it sends at most three hundred requests (a
  hundred pages, each tried three times), none of which changes anything, and returns at most ten
  thousand records, whatever paging information the server sends.
\<close>

theorem listing_bounded:
  "length (new_requests (listAllDeployments H K c) w) \<le> 300 \<and>
   filter mutating (new_requests (listAllDeployments H K c) w) = [] \<and>
   gives (on_success (\<lambda>items. length items \<le> 10000)) (listAllDeployments H K c)"
proof (intro conjI)
  have "spends_of (\<lambda>_. True) 300 (listAllDeployments H K c)"
    using requests_list_pages [of maxDeploymentCollectionPages H K c 0 "[]"]
    by (simp add: listAllDeployments_def maxRetries_def maxDeploymentCollectionPages_def)
  from spendsD [OF this] show "length (new_requests (listAllDeployments H K c) w) \<le> 300" by simp
  have "spends 0 (listAllDeployments H K c)" by (rule spends_reads) (rule reads_listAllDeployments)
  from spendsD [OF this, of w] show "filter mutating (new_requests (listAllDeployments H K c) w) = []" by simp
  show "gives (on_success (\<lambda>items. length items \<le> 10000)) (listAllDeployments H K c)"
    using gives_list_pages [of "[]" H K c maxDeploymentCollectionPages 0]
    by (simp add: listAllDeployments_def maxDeploymentCollectionRecords_def)
qed

section \<open>Reading changes nothing\<close>

lemma reads_decoded [reading]: "state_io_rel no_mutation m \<Longrightarrow> state_io_rel no_mutation (decoded zero m)"
  unfolding decoded_def by (rule reads.frame_ebind) (auto intro: reading)

lemma log_decoded [unlogged]: "state_io_rel same_log m \<Longrightarrow> state_io_rel same_log (decoded zero m)"
  unfolding decoded_def by (rule log.frame_ebind) (auto intro: unlogged)

text \<open>A call that neither sends a request that can change anything nor logs an entry.\<close>

definition only_reads :: "('x cw, 'a) state \<Rightarrow> bool" where
  "only_reads m \<longleftrightarrow> state_io_rel no_mutation m \<and> state_io_rel same_log m"

lemma only_readsI: "state_io_rel no_mutation m \<Longrightarrow> state_io_rel same_log m \<Longrightarrow> only_reads m"
  by (simp add: only_reads_def)

lemma only_reads_doData: "only_reads (doData H c MethodGet path body decode)"
  by (intro only_readsI reads_doData log_doData)

lemma only_reads_decoded: "only_reads (decoded zero (doJSON H c MethodGet path body decode))"
  by (intro only_readsI reads_decoded log_decoded reads_doJSON log_doJSON)

lemma only_reads_ebind: "only_reads m \<Longrightarrow> (\<And>x. only_reads (f x)) \<Longrightarrow> only_reads (ebind m f)"
  unfolding only_reads_def by (auto intro: reads.frame_ebind log.frame_ebind)

lemma only_reads_attempt: "only_reads m \<Longrightarrow> (\<And>e. only_reads (f e)) \<Longrightarrow> (\<And>x. only_reads (g x)) \<Longrightarrow> only_reads (attempt m f g)"
  unfolding only_reads_def by (auto intro: reads.frame_attempt log.frame_attempt)

lemma only_reads_return [simp]: "only_reads (State_Monad.return x)"
  by (intro only_readsI reads.frame_return log.frame_return)

lemmas only_reads_rules = only_reads_ebind only_reads_attempt only_reads_doData only_reads_decoded

text \<open>
  The calls that read the account, the marketplace and the deployments send requests of
  method GET only and leave the action log alone.
\<close>

theorem reads_change_nothing:
  "only_reads (GetUser H A c) \<and> only_reads (ListWallets H A c userID) \<and> only_reads (ManagedWalletAddress H A c) \<and>
   only_reads (ListAPIKeys H A c) \<and> only_reads (GetBalances H G c) \<and> only_reads (GetWalletSettings H G c) \<and>
   only_reads (GetWeeklyCost H G c) \<and> only_reads (GetUsageHistory H G c address startDate endDate) \<and>
   only_reads (ListProviders H G c scope addresses) \<and> only_reads (GetProvider H G c address) \<and>
   only_reads (ListProviderRegions H G c) \<and> only_reads (ListAuditors H G c) \<and> only_reads (GetGPUPrices H G c) \<and>
   only_reads (ListTemplates H G c) \<and> only_reads (GetTemplate H G c tid) \<and>
   only_reads (GetDeployment H K c dseq) \<and> only_reads (GetDeploymentDefinition H K c dseq) \<and> only_reads (FetchBids H K c dseq) \<and>
   only_reads (GetDeploymentSettings H K c dseq) \<and> only_reads (ListDeployments H K c skip limit) \<and>
   only_reads (ListDeploymentsByState H K c state skip limit) \<and> only_reads (GetSecretsContext H K c)"
proof -
  have listing: "only_reads (listAllDeployments H K c)" by (intro only_readsI reads_listAllDeployments log_listAllDeployments)
  show ?thesis
    unfolding GetUser_def ListWallets_def ManagedWalletAddress_def ListAPIKeys_def GetBalances_def GetWalletSettings_def GetWeeklyCost_def
      GetUsageHistory_def ListProviders_def GetProvider_def ListProviderRegions_def ListAuditors_def GetGPUPrices_def ListTemplates_def
      GetTemplate_def GetDeployment_def GetDeploymentDefinition_def FetchBids_def GetDeploymentSettings_def ListDeployments_def
      ListDeploymentsByState_def GetSecretsContext_def Let_def
    by (intro conjI) (auto intro!: only_reads_rules listing split: option.split sum.split)
qed

section \<open>The window of a filtered listing\<close>

text \<open>
  The page of a filtered listing: from position \<open>skip\<close> on at most \<open>limit\<close> entries, with the number
  of all matching entries and whether more follow; but where the end of the page passes the
  largest \<open>int\<close> the slice bounds are out of order and the program panics.
\<close>

theorem state_window_spec:
  assumes "0 \<le> skip" and "1 \<le> limit" and "limit < 2 ^ 63" and "length filtered \<le> 10000"
  shows "state_window filtered skip limit =
    (if 2 ^ 63 \<le> min skip (int (length filtered)) + limit then Inl IndexPanic
     else Inr \<lparr>dlDeployments = take (nat limit) (drop (nat skip) filtered),
       dlPagination = \<lparr>pgTotal = int (length filtered), pgSkip = skip, pgLimit = limit,
         pgHasMore = (skip + limit < int (length filtered))\<rparr>\<rparr>)"
proof -
  define total where "total = int (length filtered)"
  define start where "start = min skip total"
  have start: "0 \<le> start" "start \<le> total" "total \<le> 10000" "total = int (length filtered)"
    using assms by (auto simp: start_def total_def)
  have eq: "(if skip > total then total else skip) = start" by (simp add: start_def)
  show ?thesis
  proof (cases "2 ^ 63 \<le> start + limit")
    case True
    have "wrap_i64 (start + limit) = start + limit - 2 ^ 64"
    proof -
      have "(start + limit + 2 ^ 63) mod 2 ^ 64 = start + limit + 2 ^ 63 - 2 ^ 64"
        using mod_pos_pos_trivial [of "start + limit + 2 ^ 63 - 2 ^ 64" "2 ^ 64"] True start assms(3)
        by (simp add: minus_mod_self2 [of "start + limit + 2 ^ 63" "2 ^ 64", simplified, symmetric] del: minus_mod_self2)
      then show ?thesis by (simp add: wrap_i64_def)
    qed
    with True start assms(3) show ?thesis
      unfolding state_window_def Let_def total_def [symmetric] eq by (auto simp: start_def min_def)
  next
    case False
    then have "is_i64 (start + limit)" using start assms by (simp add: is_i64_def)
    then have wrap: "wrap_i64 (start + limit) = start + limit" by simp
    have "take (nat (min total (start + limit)) - nat start) (drop (nat start) filtered) = take (nat limit) (drop (nat skip) filtered)"
    proof (cases "skip \<le> total")
      case True
      then have "start = skip" by (simp add: start_def)
      then show ?thesis
        using start assms by (cases "total \<le> start + limit") (auto simp: min_def nat_diff_distrib nat_add_distrib)
    next
      case out: False
      then have "start = total" by (simp add: start_def)
      with out start show ?thesis by simp
    qed
    moreover have "(min total (start + limit) < total) = (skip + limit < total)"
      using assms start by (auto simp: start_def min_def split: if_splits)
    ultimately show ?thesis
      using False start assms
      unfolding state_window_def Let_def total_def [symmetric] start_def [symmetric] eq wrap
      by (auto simp: min_def split: if_splits)
  qed
qed

theorem state_window_spec_witness:
  "state_window [sample_item ''7'' ''7'', sample_item ''9'' ''9''] 1 20 =
     Inr \<lparr>dlDeployments = [sample_item ''9'' ''9''],
       dlPagination = \<lparr>pgTotal = 2, pgSkip = 1, pgLimit = 20, pgHasMore = False\<rparr>\<rparr> \<and>
   state_window [sample_item ''7'' ''7''] 1 9223372036854775807 = Inl IndexPanic"
  using state_window_spec [of 1 20 "[sample_item ''7'' ''7'', sample_item ''9'' ''9'']"]
    state_window_spec [of 1 9223372036854775807 "[sample_item ''7'' ''7'']"]
  by simp

section \<open>A secrets document\<close>

definition secret_ok :: "codec \<Rightarrow> string \<times> string \<Rightarrow> bool" where
  "secret_ok K nv \<longleftrightarrow> secret_name (fst nv) \<and> length (fst nv) \<le> 64 \<and> length (kJSONString K (snd nv)) \<le> 16384"

definition secrets_inv :: "codec \<Rightarrow> (string \<times> string) list \<Rightarrow> bool" where
  "secrets_inv K values \<longleftrightarrow> distinct (map fst values) \<and> list_all (secret_ok K) values"

lemma add_secret_inv: "add_secret K values kv = Inr values' \<Longrightarrow> secrets_inv K values \<Longrightarrow> secrets_inv K values' \<and> length values' = Suc (length values)"
  by (auto simp: add_secret_def secrets_inv_def secret_ok_def secret_name_def map_of_eq_None_iff split: prod.splits if_splits list.splits)

lemma fold_secrets_inv:
  "foldM (add_secret K) vals kvs = Inr vals' \<Longrightarrow> secrets_inv K vals \<Longrightarrow> secrets_inv K vals' \<and> length vals' = length vals + length kvs"
proof (induction kvs arbitrary: vals)
  case Nil
  then show ?case by simp
next
  case (Cons kv kvs)
  then show ?case by (fastforce dest: add_secret_inv simp: rbind_Inr_iff)
qed

lemma length_pairs_of [simp]: "length (pairs_of xs) = length xs div 2"
  by (induction xs rule: pairs_of.induct) simp_all

text \<open>
  A secrets document that is accepted has at most two mebibytes and at most a hundred secrets
  under distinct names of at most 64 characters, each value at most 16 KiB in JSON; the result
  counts as supplied even when it is empty, and an input that cannot be read or is too long is
  refused before it is parsed.
\<close>

theorem ReadSecretValues_bounds:
  "(case ReadSecretValues K input of
      Inr s \<Rightarrow> Supplied s \<and> (\<exists>raw values. input = Inr raw \<and> length raw \<le> 2097152 \<and> svValues s = Some values \<and>
        length values \<le> 100 \<and> distinct (map fst values) \<and> list_all (secret_ok K) values)
    | Inl e \<Rightarrow> (e = SecretsRead) = (\<exists>u. input = Inl u) \<and> (e = SecretsTooLong) = (\<exists>raw. input = Inr raw \<and> 2097152 < length raw))"
proof (cases "ReadSecretValues K input")
  case (Inr s)
  then obtain raw nodes vals where r: "input = Inr raw" "length raw \<le> 2097152" "length nodes div 2 \<le> 100"
      "foldM (add_secret K) [] (pairs_of nodes) = Inr vals" "s = \<lparr>svValues = Some vals\<rparr>"
    by (auto simp: ReadSecretValues_def maxSecretInputBytes_def rbind_Inr_iff rbind_Inl_iff not_less split: sum.splits if_splits option.splits prod.splits list.splits ykind.splits)
  from fold_secrets_inv [OF r(4)] have "secrets_inv K vals" "length vals = length nodes div 2"
    by (simp_all add: secrets_inv_def)
  with r Inr show ?thesis by (simp add: Supplied_def secrets_inv_def)
next
  case (Inl e)
  have "e \<notin> {SecretsRead, SecretsTooLong}" if "foldM (add_secret K) vs kvs = Inl e" for vs kvs
    using that by (induction kvs arbitrary: vs) (auto simp: add_secret_def rbind_Inl_iff split: sum.splits prod.splits if_splits)
  with Inl show ?thesis
    by (auto simp: ReadSecretValues_def maxSecretInputBytes_def rbind_Inr_iff rbind_Inl_iff not_less split: sum.splits if_splits option.splits prod.splits list.splits ykind.splits)
qed

section \<open>How often a close is sent\<close>

text \<open>
  A server that shows an open deployment and answers every close with 503; the reconciliation
  runs into its deadline at its first wait.
\<close>

definition busy_server :: "bool http \<Rightarrow> bool http" where
  "busy_server H = H\<lparr>hDo := (\<lambda>x r. (if rMethod r = MethodDelete then Reply 503 [] None else Reply 200 ''{}'' None, x)),
     hValidURL := (\<lambda>_ _. True), hCtx := (\<lambda>_. None), hSleep := (\<lambda>timed _. (if timed then Some ContextDeadline else None, timed)),
     hWithTimeout := (\<lambda>_ _. True), hCancel := (\<lambda>_. False), hData := Some\<rparr>"

definition open_seven :: Deployment where
  "open_seven = \<lparr>cdID = \<lparr>diOwner = [], diDSeq = ''7''\<rparr>, cdState = ''active'', cdHash = [], cdCreatedAt = []\<rparr>"

definition open_detail :: "codec \<Rightarrow> DeploymentDetail \<Rightarrow> codec" where
  "open_detail K d = K\<lparr>kDetail := (\<lambda>_. Some (d\<lparr>ddDeployment := open_seven\<rparr>))\<rparr>"

definition close_on_busy :: "bool http \<Rightarrow> codec \<Rightarrow> DeploymentDetail \<Rightarrow> Client \<Rightarrow> (bool cw, (cerr + unit) option) state" where
  "close_on_busy H K d c = CloseDeployment (busy_server H) (open_detail K d) (c\<lparr>actionLog := False, sensitiveErrors := False\<rparr>) 1 ''7''"

definition idle :: "bool cw" where
  "idle = \<lparr>net = False, sent = [], logged = []\<rparr>"

lemmas run_simps = State_Monad.bind_def State_Monad.return_def State_Monad.get_def State_Monad.update_def State_Monad.set_def
  ebind_def attempt_def

lemma seven: "validateDSeq ''7'' = None"
  by (simp add: validateDSeq_def parse_uint_def digit_val_def)

lemma trim_braces: "trim_space ''{}'' = ''{}''"
  by code_simp

lemma busy_waits:
  "hSleep (busy_server H) timed ms = (if timed then Some ContextDeadline else None, timed)"
  "hWithTimeout (busy_server H) timed ms = True" "hCancel (busy_server H) timed = False"
  by (simp_all add: busy_server_def)

lemma busy_get:
  "run_state (GetDeployment (busy_server H) (open_detail K d) (c\<lparr>sensitiveErrors := False\<rparr>) ''7'') w =
     (Inr (d\<lparr>ddDeployment := open_seven\<rparr>), w\<lparr>sent := sent w @
       [\<lparr>rMethod = MethodGet, rURL = baseURL c @ ''/v1/deployments/7'', rKey = apiKey c, rBody = None\<rparr>]\<rparr>)"
  by (simp add: GetDeployment_def seven doData_def doJSON_def sanitized_def maxRetries_def run_simps ctx_err_def http_do_def
      busy_server_def open_detail_def readResponseBody_def judge_response_def methods PathEscape_def unreserved_def in_range_def
      trim_braces maxResponseBodyBytes_def numeral_3_eq_3)

lemma busy_delete:
  "\<not> net w \<Longrightarrow> run_state (doData (busy_server H) (c\<lparr>sensitiveErrors := False\<rparr>) MethodDelete path None decode) w =
     (Inl (Plain (ServerError 503)), w\<lparr>sent := sent w @
       replicate 3 \<lparr>rMethod = MethodDelete, rURL = baseURL c @ path, rKey = apiKey c, rBody = None\<rparr>\<rparr>)"
  by (simp add: doData_def doJSON_def sanitized_def maxRetries_def run_simps ctx_err_def http_do_def waitForRetry_def
      busy_server_def readResponseBody_def judge_response_def retryableStatus_def methods maxResponseBodyBytes_def numeral_3_eq_3)

lemma seven_fields: "diDSeq (cdID open_seven) = ''7''" "cdState open_seven = ''active''"
  by (simp_all add: open_seven_def)

lemma idle_sent: "sent idle = []"
  by (simp add: idle_def)

lemma active_state: "trim_space ''active'' = ''active''" "to_lower ''active'' = ''active''" "to_lower ''closed'' = ''closed''"
  by code_simp+

lemma busy_run:
  "run_state (close_on_busy H K d c) idle =
     (Some (Inl (Wrap CloseUnknown (Join (Plain (ServerError 503)) (Join (Plain (Deploying (StillOpen ''7'' ''active''))) DeadlineExceeded)))),
      idle\<lparr>sent := [\<lparr>rMethod = MethodGet, rURL = baseURL c @ ''/v1/deployments/7'', rKey = apiKey c, rBody = None\<rparr>] @
        replicate 3 \<lparr>rMethod = MethodDelete, rURL = baseURL c @ ''/v1/deployments/7'', rKey = apiKey c, rBody = None\<rparr> @
        [\<lparr>rMethod = MethodGet, rURL = baseURL c @ ''/v1/deployments/7'', rKey = apiKey c, rBody = None\<rparr>]\<rparr>)"
  using busy_get [of H K d "c\<lparr>actionLog := False\<rparr>"]
  by (simp add: busy_delete [of _ H "c\<lparr>actionLog := False\<rparr>", simplified] close_on_busy_def CloseDeployment_def seven run_simps equal_fold_def active_state PathEscape_def unreserved_def in_range_def
      isAlreadyClosed_def definitiveCreateFailure_def errors_Is_def http_error_def map_filter_simps reconcileClosedDeployment_def
      with_timeout_def waitForMutationObservation_def detail_dseq_def seven_fields fail_with_def recordOutcome_def idle_def
      busy_waits Let_def)

text \<open>
  A close is sent at most three times, and it can be sent three times although the error for an
  unknown outcome says that it was submitted once and not replayed: the request is retried on
  every 429 and 5xx answer.
\<close>

theorem close_replayed:
  "length (filter mutating (new_requests (CloseDeployment H K c polls dseq) w)) \<le> 3 \<and>
   map rMethod (filter mutating (new_requests (close_on_busy H' K d c) idle)) = [MethodDelete, MethodDelete, MethodDelete] \<and>
   fst (run_state (close_on_busy H' K d c) idle) =
     Some (Inl (Wrap CloseUnknown (Join (Plain (ServerError 503)) (Join (Plain (Deploying (StillOpen ''7'' ''active''))) DeadlineExceeded))))"
proof (intro conjI)
  show "length (filter mutating (new_requests (CloseDeployment H K c polls dseq) w)) \<le> 3"
    by (rule spendsD [OF spends_close])
  show "map rMethod (filter mutating (new_requests (close_on_busy H' K d c) idle)) = [MethodDelete, MethodDelete, MethodDelete]"
    by (simp add: new_requests_def busy_run idle_sent mutating_def methods numeral_3_eq_3)
  show "fst (run_state (close_on_busy H' K d c) idle) =
     Some (Inl (Wrap CloseUnknown (Join (Plain (ServerError 503)) (Join (Plain (Deploying (StillOpen ''7'' ''active''))) DeadlineExceeded))))"
    by (simp add: busy_run)
qed

end
