(* ===== verification/Console_Manifests.thy ===== *)
theory Console_Manifests
  imports Console_Types Context_Files
begin

text \<open>
  The files of the Console client: the cache of manifests (\<open>src/internal/console/manifests.go\<close>)
  and the file of secret values (\<open>secrets.go\<close>), on the file system of \<open>Go_Files\<close>.
\<close>

section \<open>The manifest cache\<close>

datatype manifest_err = ManifestDSeq cerr | CreateManifestsDir | WriteManifest | LoadManifestErr string os_err

definition ManifestPath :: "string \<Rightarrow> string \<Rightarrow> string \<Rightarrow> manifest_err + string" where
  "ManifestPath cfg ctxName dseq =
     (case validateDSeq dseq of
        Some e \<Rightarrow> Inl (ManifestDSeq e)
      | None \<Rightarrow> Inr (filepath_Join [cfg, ''contexts'', ctxName, ''manifests'', dseq @ ''.json'']))"

definition SaveManifest :: "os \<Rightarrow> fs \<Rightarrow> string \<Rightarrow> string \<Rightarrow> string \<Rightarrow> string \<Rightarrow> manifest_err option \<times> fs" where
  "SaveManifest os fs cfg ctxName dseq manifest =
     (case ManifestPath cfg ctxName dseq of
        Inl e \<Rightarrow> (Some e, fs)
      | Inr path \<Rightarrow>
          (case MkdirAll os fs (filepath_Dir path) 448 of
             (Some _, fs) \<Rightarrow> (Some CreateManifestsDir, fs)
           | (None, fs) \<Rightarrow>
               (case WriteFile os fs path manifest 384 of
                  (Some _, fs) \<Rightarrow> (Some WriteManifest, fs)
                | (None, fs) \<Rightarrow> (None, fs))))"

definition LoadManifest :: "os \<Rightarrow> fs \<Rightarrow> string \<Rightarrow> string \<Rightarrow> string \<Rightarrow> manifest_err + string" where
  "LoadManifest os fs cfg ctxName dseq =
     (case ManifestPath cfg ctxName dseq of
        Inl e \<Rightarrow> Inl e
      | Inr path \<Rightarrow>
          (case ReadFile os fs path of
             Inl e \<Rightarrow> Inl (LoadManifestErr dseq e)
           | Inr data \<Rightarrow> Inr data))"

section \<open>The file of secret values\<close>

text \<open>
  \<open>opened\<close> is the file system when the file is opened, \<open>fs\<close> when its path is inspected; a path may
  have been replaced in between.  The input stream is what \<open>ReadSecretValues\<close> gets from it, \<open>None\<close>
  for a nil reader.
\<close>

definition readSecretValuesFile :: "codec \<Rightarrow> node \<Rightarrow> secret_problem + SecretValues" where
  "readSecretValuesFile K opened =
     (case opened of
        Dir _ \<Rightarrow> Inl SecretsFileIrregular
      | File _ data \<Rightarrow> ReadSecretValues K (Inr (take (maxSecretInputBytes + 1) data)))"

definition ReadSecretValuesFile ::
  "codec \<Rightarrow> os \<Rightarrow> fs \<Rightarrow> fs \<Rightarrow> string \<Rightarrow> (unit + string) option \<Rightarrow> secret_problem + SecretValues" where
  "ReadSecretValuesFile K os fs opened path input =
     (if path = [] then Inr no_secrets
      else if path = ''-'' then
        (case input of None \<Rightarrow> Inl SecretInputUnavailable | Some i \<Rightarrow> ReadSecretValues K i)
      else if \<not> osStat os path \<or> (case fs path of Some (File _ _) \<Rightarrow> False | _ \<Rightarrow> True) then Inl SecretsFileIrregular
      else (case opened path of
          None \<Rightarrow> Inl SecretsFileOpen
        | Some node \<Rightarrow> if \<not> osRead os path then Inl SecretsFileOpen else readSecretValuesFile K node))"

section \<open>Where manifests are kept\<close>

definition manifests_dir :: "string \<Rightarrow> string \<Rightarrow> string" where
  "manifests_dir cfg ctxName = ContextDir cfg ctxName @ ''/manifests''"

lemma digits_no_slash: "parse_digits mx acc s = Inr n \<Longrightarrow> CHR ''/'' \<notin> set s"
  by (induction mx acc s rule: parse_digits.induct) (auto simp: digit_val_def Let_def split: option.splits if_splits)

lemma valid_dseq_plain: "validateDSeq dseq = None \<Longrightarrow> plain_name (dseq @ ''.json'')"
  by (auto simp: validateDSeq_def parse_uint_def plain_name_def append_eq_Cons_conv dest: digits_no_slash split: sum.splits if_splits)

lemma ManifestPath_eq:
  assumes "plain_name ctxName" and "validateDSeq dseq = None"
  shows "ManifestPath cfg ctxName dseq = Inr (manifests_dir cfg ctxName @ CHR ''/'' # dseq @ ''.json'')"
proof -
  let ?p = "if cfg = [] then ''contexts'' else cfg @ ''/contexts''"
  have ctx: "path_elems (?p @ CHR ''/'' # ctxName) \<noteq> []" "filepath_Clean (?p @ CHR ''/'' # ctxName) = ContextDir cfg ctxName"
    using assms(1) by (auto simp: path_elems_snoc ContextDir_def filepath_Join_def)
  have "plain_name ''manifests''" by (simp add: plain_name_def)
  from clean_below [OF this valid_dseq_plain [OF assms(2)] ctx(1)] ctx(2) show ?thesis
    using assms(2) by (cases "cfg = []") (simp_all add: ManifestPath_def manifests_dir_def filepath_Join_def)
qed

lemma clean_slash: "path_elems (p @ ''/'') = path_elems p \<and> filepath_Clean (p @ ''/'') = filepath_Clean p" if "p \<noteq> []"
proof -
  have "split_on CHR ''/'' (p @ ''/'') = split_on CHR ''/'' p @ [[]]" using split_on_snoc [of "CHR ''/''" "[]" p] by simp
  with that have "path_elems (p @ ''/'') = path_elems p" by (simp add: path_elems_def clean_elems_def clean_step_def)
  with that show ?thesis by (simp add: filepath_Clean_elems)
qed

lemma manifests_dir_clean:
  assumes "plain_name ctxName"
  shows "filepath_Clean (manifests_dir cfg ctxName) = manifests_dir cfg ctxName"
proof -
  have "plain_name ''manifests''" by (simp add: plain_name_def)
  from clean_append [OF this ContextDir_elems [OF assms]] show ?thesis by (simp add: manifests_dir_def ContextDir_clean)
qed

lemma manifest_Dir:
  assumes "plain_name ctxName" and "CHR ''/'' \<notin> set e"
  shows "filepath_Dir (manifests_dir cfg ctxName @ CHR ''/'' # e) = manifests_dir cfg ctxName"
proof -
  have "filepath_Dir (manifests_dir cfg ctxName @ CHR ''/'' # e) = filepath_Clean (manifests_dir cfg ctxName @ ''/'')"
    using assms(2) by (simp add: filepath_Dir_def dropWhile_append)
  with clean_slash [of "manifests_dir cfg ctxName"] manifests_dir_clean [OF assms(1)] show ?thesis
    by (simp add: manifests_dir_def)
qed

lemma not_under_parent: "\<not> under (d @ CHR ''/'' # e) d"
  by (auto simp: under_iff)

lemma SaveManifest_done:
  assumes "plain_name ctxName" and "SaveManifest os fs cfg ctxName dseq manifest = (None, fs')"
  shows "validateDSeq dseq = None" and "\<exists>mode. fs' = (\<lambda>q. if q = manifests_dir cfg ctxName @ CHR ''/'' # dseq @ ''.json'' then Some (File mode manifest)
      else if under q (manifests_dir cfg ctxName) \<and> fs q = None then Some (Dir (osMask os 448)) else fs q)"
proof -
  show v: "validateDSeq dseq = None"
    using assms(2) by (cases "validateDSeq dseq") (auto simp: SaveManifest_def ManifestPath_def)
  have "CHR ''/'' \<notin> set (dseq @ ''.json'')" using valid_dseq_plain [OF v] by (simp add: plain_name_def)
  with assms(2) show "\<exists>mode. fs' = (\<lambda>q. if q = manifests_dir cfg ctxName @ CHR ''/'' # dseq @ ''.json'' then Some (File mode manifest)
      else if under q (manifests_dir cfg ctxName) \<and> fs q = None then Some (Dir (osMask os 448)) else fs q)"
    using manifest_Dir [OF assms(1), of "dseq @ ''.json''" cfg]
    by (auto simp: SaveManifest_def ManifestPath_eq [OF assms(1) v] MkdirAll_def WriteFile_def Let_def
        intro!: exI ext split: if_splits option.splits node.splits write_outcome.splits)
qed

text \<open>
  The manifest cache: a sequence that is not a positive number touches no file; a successful
  save reads back, changes no file outside the \<open>manifests\<close> directory of its context and no
  manifest of another deployment.
\<close>

theorem manifest_cache:
  assumes "plain_name ctxName"
  shows "(validateDSeq dseq \<noteq> None \<longrightarrow> snd (SaveManifest os fs cfg ctxName dseq manifest) = fs \<and> (\<exists>e. LoadManifest os fs cfg ctxName dseq = Inl e)) \<and>
    (SaveManifest os fs cfg ctxName dseq manifest = (None, fs') \<longrightarrow>
       (osRead os (manifests_dir cfg ctxName @ CHR ''/'' # dseq @ ''.json'') \<longrightarrow> LoadManifest os fs' cfg ctxName dseq = Inr manifest) \<and>
       (\<forall>p. fs p \<noteq> None \<longrightarrow> fs' p = fs p \<or> under (manifests_dir cfg ctxName) p) \<and>
       (\<forall>dseq'. dseq' \<noteq> dseq \<longrightarrow> LoadManifest os fs' cfg ctxName dseq' = LoadManifest os fs cfg ctxName dseq'))"
proof (intro conjI impI)
  assume "validateDSeq dseq \<noteq> None"
  then show "snd (SaveManifest os fs cfg ctxName dseq manifest) = fs" "\<exists>e. LoadManifest os fs cfg ctxName dseq = Inl e"
    by (auto simp: SaveManifest_def LoadManifest_def ManifestPath_def)
next
  let ?dir = "manifests_dir cfg ctxName"
  assume save: "SaveManifest os fs cfg ctxName dseq manifest = (None, fs')"
  note v = SaveManifest_done(1) [OF assms save]
  from SaveManifest_done(2) [OF assms save] obtain mode where
    fs': "fs' = (\<lambda>q. if q = ?dir @ CHR ''/'' # dseq @ ''.json'' then Some (File mode manifest)
      else if under q ?dir \<and> fs q = None then Some (Dir (osMask os 448)) else fs q)" ..
  show "osRead os (?dir @ CHR ''/'' # dseq @ ''.json'') \<Longrightarrow> LoadManifest os fs' cfg ctxName dseq = Inr manifest"
    by (simp add: LoadManifest_def ManifestPath_eq [OF assms v] ReadFile_def fs')
  show "\<forall>p. fs p \<noteq> None \<longrightarrow> fs' p = fs p \<or> under ?dir p"
    by (auto simp: fs')
  show "\<forall>dseq'. dseq' \<noteq> dseq \<longrightarrow> LoadManifest os fs' cfg ctxName dseq' = LoadManifest os fs cfg ctxName dseq'"
  proof (intro allI impI)
    fix dseq'
    assume "dseq' \<noteq> dseq"
    then show "LoadManifest os fs' cfg ctxName dseq' = LoadManifest os fs cfg ctxName dseq'"
    proof (cases "validateDSeq dseq'")
      case None
      from ManifestPath_eq [OF assms None] \<open>dseq' \<noteq> dseq\<close> show ?thesis
        by (simp add: LoadManifest_def ReadFile_def fs' not_under_parent)
    next
      case (Some e)
      then show ?thesis by (simp add: LoadManifest_def ManifestPath_def)
    qed
  qed
qed

theorem manifest_cache_witness:
  "LoadManifest good_os (snd (SaveManifest good_os (\<lambda>_. None) ''/home'' ''main'' ''7'' ''[]'')) ''/home'' ''main'' ''7'' = Inr ''[]''"
proof -
  have main: "plain_name ''main''" by (simp add: plain_name_def)
  moreover have "fst (SaveManifest good_os (\<lambda>_. None) ''/home'' ''main'' ''7'' ''[]'') = None"
    using manifest_Dir [OF main, of "''7.json''" "''/home''"]
    by (simp add: SaveManifest_def ManifestPath_eq [OF main] validateDSeq_def parse_uint_def digit_val_def MkdirAll_def
        WriteFile_def good_os_def not_under_parent)
  ultimately show ?thesis
    using manifest_cache [of "''main''" "''7''" good_os "\<lambda>_. None" "''/home''" "''[]''"]
    by (simp add: prod_eq_iff) (simp add: good_os_def)
qed

end
