(* ===== verification/Run_Record.thy ===== *)
theory Run_Record
  imports Sync_Engine Workflow_Types Go_Files
begin

text \<open>
  What a finished run of a workflow leaves in the local store
  (\<open>src/internal/cli/workflow/persist.go\<close>, and the readers of step outputs in \<open>commands.go\<close>).

  The store is the record of operations of the sync engine, with the two operations of the
  interface that only these functions use in \<open>StoreRest\<close>.  Parameters, in \<open>run_env\<close>: the printing
  of values, the conversion of floats beyond the range of \<open>uint64\<close>, the address and coin
  functions of the Cosmos SDK, the hash.  A value of Go's \<open>any\<close> is a \<open>json\<close>; an \<open>int\<close> is a number.
\<close>

record ('s, 'e) StoreRest =
  opListDeployments :: "'s \<Rightarrow> DeploymentFilter \<Rightarrow> 'e + DeploymentRecord option list"
  opMarkDeploymentClosed :: "'s \<Rightarrow> string \<Rightarrow> u64 \<Rightarrow> int \<Rightarrow> 'e option \<times> 's"

definition bolt_rest :: "('b, 'v) ext \<Rightarrow> ('b db, store_err) StoreRest" where
  "bolt_rest E = \<lparr>opListDeployments = (\<lambda>db f. rbind (ListDeployments E db f) (\<lambda>ds. Inr (map Some ds))),
     opMarkDeploymentClosed = MarkDeploymentClosed E\<rparr>"

record run_env =
  rSprint :: "json \<Rightarrow> string"
  rFormatFloat :: "float64 \<Rightarrow> string"
  rUint64 :: "float64 \<Rightarrow> u64"
  rAccAddress :: "string \<Rightarrow> string option"
  rParseDecCoin :: "string \<Rightarrow> string option"
  rSHA256 :: "string \<Rightarrow> string"

datatype 'e persist_err =
    NoDSeq string | NoOwner | OwnerLookup "'e owner_err"
  | RecordDeployment u64 'e | RecordBid string 'e | NoLeaseProvider | RecordLease bytes 'e
  | ReadDeployment u64 'e | RecordClose u64 'e

definition wrap_err :: "('e \<Rightarrow> 'f) \<Rightarrow> 'e option \<times> 's \<Rightarrow> 'f option \<times> 's" where
  "wrap_err f r = map_prod (map_option f) id r"

section \<open>Values\<close>

definition sprint :: "run_env \<Rightarrow> json \<Rightarrow> string" where
  "sprint R v = (case v of JStr s \<Rightarrow> s | JBool b \<Rightarrow> (if b then ''true'' else ''false'') | _ \<Rightarrow> rSprint R v)"

definition scalarString :: "run_env \<Rightarrow> json \<Rightarrow> string" where
  "scalarString R v =
     (case v of
        JNull \<Rightarrow> []
      | JStr s \<Rightarrow> trim_space s
      | JNum n \<Rightarrow> rFormatFloat R n
      | _ \<Rightarrow> trim_space (sprint R v))"

definition float_uint64 :: "run_env \<Rightarrow> float64 \<Rightarrow> u64" where
  "float_uint64 R n = (case n of Fin x \<Rightarrow> if 0 \<le> x \<and> x < 2 ^ 64 then of_int \<lfloor>x\<rfloor> else rUint64 R n | _ \<Rightarrow> rUint64 R n)"

text \<open>\<open>None\<close> for the result \<open>(0, false)\<close>.\<close>

definition asUint64 :: "run_env \<Rightarrow> json \<Rightarrow> u64 option" where
  "asUint64 R v =
     (case v of
        JNull \<Rightarrow> None
      | JNum n \<Rightarrow> if float_less n (Fin 0) then None else Some (float_uint64 R n)
      | _ \<Rightarrow> (case parse_uint 64 (scalarString R v) of Inl _ \<Rightarrow> None | Inr n \<Rightarrow> Some (of_nat n)))"

definition uint64_or_zero :: "run_env \<Rightarrow> json \<Rightarrow> u64" where
  "uint64_or_zero R v = (case asUint64 R v of None \<Rightarrow> 0 | Some n \<Rightarrow> n)"

definition normalizeCoin :: "run_env \<Rightarrow> string \<Rightarrow> string" where
  "normalizeCoin R raw =
     (let raw = trim_space raw in
      if raw = [] then [] else case rParseDecCoin R raw of Some coin \<Rightarrow> coin | None \<Rightarrow> raw)"

definition coinString :: "run_env \<Rightarrow> json \<Rightarrow> string" where
  "coinString R v =
     (case v of
        JObj m \<Rightarrow>
          let denom = str_or_empty (oget m ''denom''); amount = scalarString R (oget m ''amount'')
          in if amount = [] \<or> denom = [] then [] else normalizeCoin R (amount @ denom)
      | _ \<Rightarrow> [])"

section \<open>What a run says\<close>

definition output_of :: "StepResult \<Rightarrow> string \<Rightarrow> json" where
  "output_of sr key = (case srOutput sr of None \<Rightarrow> JNull | Some out \<Rightarrow> (case out key of None \<Rightarrow> JNull | Some v \<Rightarrow> v))"

definition workflowOutputUint64 :: "run_env \<Rightarrow> StepResult \<Rightarrow> string \<Rightarrow> u64 option" where
  "workflowOutputUint64 R sr key =
     (if output_of sr key = JNull then None
      else case parse_uint 64 (trim_space (sprint R (output_of sr key))) of Inl _ \<Rightarrow> None | Inr n \<Rightarrow> Some (of_nat n))"

definition workflowOutputString :: "run_env \<Rightarrow> StepResult option \<Rightarrow> string \<Rightarrow> string" where
  "workflowOutputString R result key =
     (case result of
        None \<Rightarrow> []
      | Some sr \<Rightarrow> if output_of sr key = JNull then [] else trim_space (sprint R (output_of sr key)))"

definition successfulStep :: "RunState \<Rightarrow> string \<Rightarrow> StepResult option" where
  "successfulStep state name =
     (case rsSteps state name of None \<Rightarrow> None | Some sr \<Rightarrow> if srStatus sr \<noteq> ''success'' then None else Some sr)"

definition param :: "RunState \<Rightarrow> string \<Rightarrow> json" where
  "param state name = (case rsParams state name of None \<Rightarrow> JNull | Some v \<Rightarrow> v)"

definition paramString :: "RunState \<Rightarrow> string \<Rightarrow> string" where
  "paramString state name = trim_space (str_or_empty (param state name))"

definition step_string :: "run_env \<Rightarrow> RunState \<Rightarrow> string \<Rightarrow> string \<Rightarrow> string" where
  "step_string R state name key = workflowOutputString R (rsSteps state name) key"

definition runOwner :: "run_env \<Rightarrow> RunState \<Rightarrow> string" where
  "runOwner R state =
     (case List.find (\<lambda>v. v \<noteq> []) (map (\<lambda>name. step_string R state name ''owner'')
         [''create-deployment'', ''update-deployment'', ''close-deployment'', ''create-lease'', ''select-bid'']) of
        Some v \<Rightarrow> v
      | None \<Rightarrow> (case rAccAddress R (trim_space (rsAccount state)) of Some addr \<Rightarrow> addr | None \<Rightarrow> []))"

definition runDSeq :: "run_env \<Rightarrow> RunState \<Rightarrow> StepResult \<Rightarrow> u64" where
  "runDSeq R state sr =
     (case workflowOutputUint64 R sr ''dseq'' of
        Some n \<Rightarrow> if n \<noteq> 0 then n else uint64_or_zero R (param state ''dseq'')
      | None \<Rightarrow> uint64_or_zero R (param state ''dseq''))"

definition leaseProvider :: "run_env \<Rightarrow> RunState \<Rightarrow> string" where
  "leaseProvider R state =
     (let p = step_string R state ''create-lease'' ''provider''
      in if p \<noteq> [] then p else step_string R state ''select-bid'' ''provider'')"

definition leaseField :: "run_env \<Rightarrow> RunState \<Rightarrow> string \<Rightarrow> string" where
  "leaseField R state key =
     (let v = step_string R state ''create-lease'' key
      in if v \<noteq> [] then v else step_string R state ''select-bid'' key)"

section \<open>The bids a run saw\<close>

record observedBid =
  obID :: BidID
  obPrice :: string
  obAttributes :: "(string \<rightharpoonup> string) option"
  obAudited :: bool

text \<open>A provider without an entry has nil attributes and is not audited.\<close>

definition observedProviderMetadata :: "json \<Rightarrow> string \<Rightarrow> (string \<rightharpoonup> string) option \<times> bool" where
  "observedProviderMetadata v provider =
     (case v of
        JObj entries \<Rightarrow>
          (case oget entries provider of
             JObj entry \<Rightarrow>
               (case oget entry ''attributes'' of
                  JObj raw \<Rightarrow> (Some (\<lambda>key. case map_of raw key of Some (JStr s) \<Rightarrow> Some s | _ \<Rightarrow> None), oget entry ''audited'' = JBool True)
                | _ \<Rightarrow> (None, False))
           | _ \<Rightarrow> (None, False))
      | _ \<Rightarrow> (None, False))"

definition observed_bid :: "run_env \<Rightarrow> json \<Rightarrow> json \<Rightarrow> observedBid option" where
  "observed_bid R metadata item =
     (case item of
        JObj m \<Rightarrow>
          let inner = (case oget m ''bid'' of JObj b \<Rightarrow> b | _ \<Rightarrow> m);
              ident = (case oget inner ''id'' of JObj i \<Rightarrow> i | _ \<Rightarrow> inner);
              provider = str_or_empty (oget ident ''provider'');
              (attributes, audited) = observedProviderMetadata metadata provider
          in if provider = [] then None
             else Some \<lparr>obID = \<lparr>biOwner = str_or_empty (oget ident ''owner''), biDSeq = uint64_or_zero R (oget ident ''dseq''),
                 biGSeq = ucast (uint64_or_zero R (oget ident ''gseq'')), biOSeq = ucast (uint64_or_zero R (oget ident ''oseq'')),
                 biProvider = provider\<rparr>,
               obPrice = coinString R (oget inner ''price''), obAttributes = attributes, obAudited = audited\<rparr>
      | _ \<Rightarrow> None)"

definition observedBids :: "run_env \<Rightarrow> RunState \<Rightarrow> observedBid list" where
  "observedBids R state =
     (case successfulStep state ''wait-for-bids'' of
        None \<Rightarrow> []
      | Some sr \<Rightarrow>
          (case output_of sr ''bids'' of
             JArr items \<Rightarrow> List.map_filter (observed_bid R (output_of sr ''provider_metadata'')) items
           | _ \<Rightarrow> []))"

section \<open>The SDL of a run\<close>

definition sdlHash :: "run_env \<Rightarrow> os \<Rightarrow> fs \<Rightarrow> string \<Rightarrow> os_err + string" where
  "sdlHash R os fs path = rbind (ReadFile os fs path) (\<lambda>data. Inr (''sha256:'' @ rSHA256 R data))"

definition sdl_source :: "run_env \<Rightarrow> RunState \<Rightarrow> string" where
  "sdl_source R state =
     fold (\<lambda>name path. let source = step_string R state name ''sdl_path'' in if source \<noteq> [] then source else path)
       [''create-deployment'', ''update-deployment''] (paramString state ''sdl-file'')"

definition applySDL :: "run_env \<Rightarrow> os \<Rightarrow> fs \<Rightarrow> RunState \<Rightarrow> DeploymentRecord \<Rightarrow> DeploymentRecord" where
  "applySDL R os fs state rec =
     (if param state ''patch'' = JBool True then rec\<lparr>dSDLPath := [], dSDLHash := []\<rparr>
      else
        let path = sdl_source R state in
        if path = [] then rec
        else
          let rec = rec\<lparr>dSDLPath := path\<rparr> in
          (case sdlHash R os fs path of Inr hash \<Rightarrow> rec\<lparr>dSDLHash := hash\<rparr> | Inl _ \<Rightarrow> rec))"

definition createsDeployment :: "string \<Rightarrow> bool" where
  "createsDeployment name \<longleftrightarrow> name = ''deploy'' \<or> name = ''redeploy''"

section \<open>Recording\<close>

definition existingRunOwner :: "('s, 'e) StoreRest \<Rightarrow> run_env \<Rightarrow> 's \<Rightarrow> RunState \<Rightarrow> u64 \<Rightarrow> 'e persist_err + string" where
  "existingRunOwner C R s state dseq =
     (if runOwner R state \<noteq> [] then Inr (runOwner R state)
      else rbind (map_err OwnerLookup (UniqueDeploymentOwner
            (Some (opListDeployments C s \<lparr>dfOwner = [], dfState = [], dfTags = [], dfLabel = []\<rparr>)) dseq)) (\<lambda>owner.
        if owner = [] then Inl NoOwner else Inr owner))"

definition won_lease :: "run_env \<Rightarrow> RunState \<Rightarrow> string \<Rightarrow> u64 \<Rightarrow> int \<Rightarrow> LeaseRecord" where
  "won_lease R state owner dseq now =
     zero_lease\<lparr>lID := \<lparr>liOwner = owner, liDSeq = dseq,
         liGSeq = ucast (uint64_or_zero R (JStr (leaseField R state ''gseq''))),
         liOSeq = ucast (uint64_or_zero R (JStr (leaseField R state ''oseq''))), liProvider = leaseProvider R state\<rparr>,
       lState := ''active'', lPrice := normalizeCoin R (step_string R state ''select-bid'' ''price''), lCreatedAt := now\<rparr>"

definition persistWonLease ::
  "('s, 'e) Store \<Rightarrow> run_env \<Rightarrow> RunState \<Rightarrow> string \<Rightarrow> u64 \<Rightarrow> int \<Rightarrow> 's \<Rightarrow> 'e persist_err option \<times> 's" where
  "persistWonLease S R state owner dseq now s =
     (case successfulStep state ''create-lease'' of
        None \<Rightarrow> (None, s)
      | Some _ \<Rightarrow>
          if leaseProvider R state = [] then (Some NoLeaseProvider, s)
          else
            let lease = won_lease R state owner dseq now
            in wrap_err (RecordLease (LeaseKey (lID lease))) (opPutLease S s lease))"

definition run_bid :: "run_env \<Rightarrow> RunState \<Rightarrow> string \<Rightarrow> u64 \<Rightarrow> int \<Rightarrow> observedBid \<Rightarrow> BidRecord" where
  "run_bid R state owner dseq now b =
     (let winner = leaseProvider R state; i = obID b;
          i = (if biOwner i = [] then i\<lparr>biOwner := owner\<rparr> else i);
          i = (if biDSeq i = 0 then i\<lparr>biDSeq := dseq\<rparr> else i)
      in zero_bid\<lparr>bID := i, bState := (if winner \<noteq> [] \<and> biProvider i = winner then ''matched'' else ''lost''),
           bPrice := obPrice b, bProviderAttributes := obAttributes b, bProviderAudited := obAudited b, bCreatedAt := now\<rparr>)"

definition run_deployment :: "run_env \<Rightarrow> os \<Rightarrow> fs \<Rightarrow> RunState \<Rightarrow> StepResult \<Rightarrow> string \<Rightarrow> u64 \<Rightarrow> int \<Rightarrow> DeploymentRecord" where
  "run_deployment R os fs state created owner dseq now =
     (let rec = applySDL R os fs state (zero_deployment\<lparr>dOwner := owner, dDSeq := dseq, dState := ''active'',
              dCreatedHeight := srHeight created, dCreatedAt := now, dUpdatedAt := now\<rparr>);
          dep = paramString state ''deposit''
      in if dep \<noteq> [] \<and> dep \<noteq> ''auto'' then rec\<lparr>dDeposit := dep\<rparr> else rec)"

definition persistDeploy ::
  "('s, 'e) Store \<Rightarrow> run_env \<Rightarrow> os \<Rightarrow> fs \<Rightarrow> RunState \<Rightarrow> int \<Rightarrow> 's \<Rightarrow> 'e persist_err option \<times> 's" where
  "persistDeploy S R os fs state now s =
     (case successfulStep state ''create-deployment'' of
        None \<Rightarrow> (None, s)
      | Some created \<Rightarrow>
          (case workflowOutputUint64 R created ''dseq'' of
             None \<Rightarrow> (Some (NoDSeq ''deploy''), s)
           | Some dseq \<Rightarrow>
               if dseq = 0 then (Some (NoDSeq ''deploy''), s)
               else
                 let owner = runOwner R state in
                 if owner = [] then (Some NoOwner, s)
                 else seq (wrap_err (RecordDeployment dseq) (opPutDeployment S s (run_deployment R os fs state created owner dseq now))) (\<lambda>s.
                   seq (loop (\<lambda>s b. let bid = run_bid R state owner dseq now b
                         in wrap_err (RecordBid (biProvider (bID bid))) (opPutBid S s bid)) s (observedBids R state)) (\<lambda>s.
                     persistWonLease S R state owner dseq now s))))"

definition persistUpdate ::
  "('s, 'e) Store \<Rightarrow> ('s, 'e) StoreRest \<Rightarrow> run_env \<Rightarrow> os \<Rightarrow> fs \<Rightarrow> RunState \<Rightarrow> int \<Rightarrow> 's \<Rightarrow> 'e persist_err option \<times> 's" where
  "persistUpdate S C R os fs state now s =
     (case successfulStep state ''update-deployment'' of
        None \<Rightarrow> (None, s)
      | Some updated \<Rightarrow>
          let dseq = runDSeq R state updated in
          if dseq = 0 then (Some (NoDSeq ''update''), s)
          else guard s (existingRunOwner C R s state dseq) (\<lambda>owner.
            guard s (map_err (ReadDeployment dseq) (opGetDeployment S s owner dseq)) (\<lambda>found.
              let rec = (case found of
                      None \<Rightarrow> zero_deployment\<lparr>dOwner := owner, dDSeq := dseq, dState := ''active'', dCreatedAt := now\<rparr>
                    | Some rec \<Rightarrow> rec)
              in wrap_err (RecordDeployment dseq) (opPutDeployment S s ((applySDL R os fs state rec)\<lparr>dUpdatedAt := now\<rparr>)))))"

definition persistClose ::
  "('s, 'e) StoreRest \<Rightarrow> run_env \<Rightarrow> RunState \<Rightarrow> int \<Rightarrow> 's \<Rightarrow> 'e persist_err option \<times> 's" where
  "persistClose C R state now s =
     (case successfulStep state ''close-deployment'' of
        None \<Rightarrow> (None, s)
      | Some sr \<Rightarrow>
          let dseq = runDSeq R state sr in
          if dseq = 0 then (Some (NoDSeq ''close''), s)
          else guard s (existingRunOwner C R s state dseq) (\<lambda>owner.
            wrap_err (RecordClose dseq) (opMarkDeploymentClosed C s owner dseq now)))"

text \<open>A nil run or store is \<open>None\<close>.\<close>

definition persistWorkflowOutcome ::
  "(('s, 'e) Store \<times> ('s, 'e) StoreRest) option \<Rightarrow> run_env \<Rightarrow> os \<Rightarrow> fs \<Rightarrow> RunState option \<Rightarrow> int \<Rightarrow> 's \<Rightarrow> 'e persist_err option \<times> 's" where
  "persistWorkflowOutcome st R os fs run now s =
     (case (run, st) of
        (Some state, Some (S, C)) \<Rightarrow>
          if rsWorkflow state = ''deploy'' \<or> rsWorkflow state = ''redeploy'' then persistDeploy S R os fs state now s
          else if rsWorkflow state = ''update'' then persistUpdate S C R os fs state now s
          else if rsWorkflow state = ''close'' then persistClose C R state now s
          else (None, s)
      | _ \<Rightarrow> (None, s))"

section \<open>The command's part\<close>

text \<open>The warning that is printed, if any, and the database; the command's outcome is not changed.\<close>

datatype store_warning = OpenFailed store_err | PersistFailed "store_err persist_err"

definition recordWorkflowOutcome ::
  "('b, 'v) ext \<Rightarrow> run_env \<Rightarrow> os \<Rightarrow> fs \<Rightarrow> bool \<Rightarrow> bool \<Rightarrow> 'b Migration list \<Rightarrow> bool \<Rightarrow> (string \<times> string) option \<Rightarrow>
     RunState option \<Rightarrow> int \<Rightarrow> 'b db \<Rightarrow> store_warning option \<times> 'b db" where
  "recordWorkflowOutcome E R os fs mkdir_ok open_ok migrations quiet rc run now db =
     (let warn = (\<lambda>w. if quiet then None else Some w) in
      case rc of
        None \<Rightarrow> (None, db)
      | Some (rcRoot, rcName) \<Rightarrow>
          if run = None \<or> rcRoot = [] \<or> rcName = [] then (None, db)
          else (case OpenContext E mkdir_ok open_ok migrations db of
              (Some e, db) \<Rightarrow> (warn (OpenFailed e), db)
            | (None, db) \<Rightarrow>
                (case persistWorkflowOutcome (Some (bolt_ops E, bolt_rest E)) R os fs run now db of
                   (Some e, db) \<Rightarrow> (warn (PersistFailed e), db)
                 | (None, db) \<Rightarrow> (None, db))))"

end
