(* ===== verification/Run_Record_Props.thy ===== *)
theory Run_Record_Props
  imports Run_Record Sync_Props
begin

text \<open>
  What the record of a run leaves in the store.  The locale \<open>run_store\<close> extends the contract of
  the sync engine's store by closing and listing; the bbolt store meets it.
\<close>

section \<open>The contract\<close>

locale run_store = sync_store S ok dv lv bv ux
  for S :: "('s, 'e) Store" and ok :: "'s \<Rightarrow> bool" and dv lv bv ux +
  fixes C :: "('s, 'e) StoreRest"
  assumes list_dep: "ok s \<Longrightarrow> opListDeployments C s f = Inr xs \<Longrightarrow> Some d \<in> set xs \<Longrightarrow> dv s (dKey d) = Some d"
    and close_dep: "ok s \<Longrightarrow> ux owner \<Longrightarrow> opMarkDeploymentClosed C s owner dseq t = (None, s') \<Longrightarrow>
      ok s' \<and> bv s' = bv s \<and>
      (\<exists>v. dv s' (DeploymentKey owner dseq) = Some ((close_deployment t (case dv s (DeploymentKey owner dseq) of
           None \<Rightarrow> zero_deployment\<lparr>dOwner := owner, dDSeq := dseq, dCreatedAt := t\<rparr> | Some d \<Rightarrow> d))\<lparr>dRecordVersion := v\<rparr>)) \<and>
      (\<forall>k. k \<noteq> DeploymentKey owner dseq \<longrightarrow> dv s' k = dv s k) \<and>
      (\<forall>k l. lv s k = Some l \<longrightarrow>
         (if liOwner (lID l) = owner \<and> liDSeq (lID l) = dseq then \<exists>v. lv s' k = Some ((close_lease t l)\<lparr>lRecordVersion := v\<rparr>)
          else lv s' k = Some l)) \<and>
      (\<forall>k. lv s k = None \<longrightarrow> lv s' k = None)"
    and close_err: "opMarkDeploymentClosed C s owner dseq t = (Some e, s') \<Longrightarrow> s' = s"

sublocale json_store \<subseteq> run: run_store "bolt_ops E" "sok E ux" "dep_view E" "lease_view E" "bid_view E" ux "bolt_rest E"
proof (unfold_locales, goal_cases)
  case (1 s f xs d)
  then have "dep_ok E (dep_exact ux) s" by (simp add: store_ok_def)
  from ListDeployments_view [OF this, of f] obtain ds where
    ds: "ListDeployments E s f = Inr ds" "\<And>d. d \<in> set ds \<Longrightarrow> dep_view E s (dKey d) = Some d" by blast
  from 1(2,3) have "d \<in> set ds" by (auto simp: bolt_rest_def ds(1))
  then show ?case by (rule ds(2))
next
  case (2 s owner dseq t s')
  then have tx: "markClosedTx E owner dseq t s = Inr s'"
    using update_cases [of "markClosedTx E owner dseq t" s None s']
    by (auto simp: bolt_rest_def MarkDeploymentClosed_def split: if_splits)
  have new: "dep_exact ux (zero_deployment\<lparr>dOwner := owner, dDSeq := dseq, dCreatedAt := t\<rparr>)"
    using 2 ascii_exact [of "[]"] by (auto simp: exact_defs map_exact_def zero_deployment_def ascii_def)
  note eff = markClosedTx_effect [OF 2(1) tx new]
  from eff(2) have "\<exists>v. dep_view E s' (DeploymentKey owner dseq) = Some ((close_deployment t (case dep_view E s (DeploymentKey owner dseq) of
       None \<Rightarrow> zero_deployment\<lparr>dOwner := owner, dDSeq := dseq, dCreatedAt := t\<rparr> | Some d \<Rightarrow> d))\<lparr>dRecordVersion := v\<rparr>)"
    by (auto simp: dep_set_ver_def)
  moreover have "\<exists>v. lease_view E s' k = Some ((close_lease t l)\<lparr>lRecordVersion := v\<rparr>)"
    if "lease_view E s k = Some l" "liOwner (lID l) = owner" "liDSeq (lID l) = dseq" for k l
    using eff(4) [OF that] by (simp add: lease_set_ver_def)
  ultimately show ?case using eff(1,3,5-7) by auto
next
  case (3 s owner dseq t e s')
  then show ?case
    using update_cases [of "markClosedTx E owner dseq t" s "Some e" s']
    by (auto simp: bolt_rest_def MarkDeploymentClosed_def split: if_splits)
qed

lemma in_map_filterE:
  assumes "y \<in> set (List.map_filter f xs)"
  obtains x where "x \<in> set xs" "f x = Some y"
  using assms by (auto simp: map_filter_def)

lemma UniqueDeploymentOwner_found:
  assumes "UniqueDeploymentOwner (Some listing) dseq = Inr owner" and "owner \<noteq> []"
  shows "\<exists>records d. listing = Inr records \<and> Some d \<in> set records \<and> dOwner d = owner \<and> dDSeq d = dseq"
proof -
  let ?pick = "\<lambda>r. case r of None \<Rightarrow> None | Some d \<Rightarrow> if dDSeq d \<noteq> dseq \<or> dOwner d = [] then None else Some (dOwner d)"
  from assms obtain records where r: "listing = Inr records"
    by (cases listing) (auto simp: UniqueDeploymentOwner_def result_simps split: if_splits)
  define owners where "owners = sort (remdups (List.map_filter ?pick records))"
  have "(case owners of [] \<Rightarrow> Inr [] | [x] \<Rightarrow> Inr x | _ \<Rightarrow> Inl (MultipleOwners dseq owners)) = (Inr owner :: 'a owner_err + string)"
    using assms unfolding owners_def UniqueDeploymentOwner_def r Let_def by (simp split: if_splits)
  with assms(2) have "owners = [owner]" by (auto split: list.splits)
  then have "owner \<in> set owners" by simp
  then have "owner \<in> set (List.map_filter ?pick records)" unfolding owners_def set_sort set_remdups .
  then obtain y where "y \<in> set records" "?pick y = Some owner" by (rule in_map_filterE)
  then show ?thesis using r by (auto split: option.splits if_splits)
qed

section \<open>Deploying\<close>

lemma wrap_err_None_iff: "wrap_err f r = (None, s) \<longleftrightarrow> r = (None, s)"
  by (cases r) (auto simp: wrap_err_def)

lemma wrap_err_Some_iff: "wrap_err f r = (Some e, s) \<longleftrightarrow> (\<exists>e'. r = (Some e', s) \<and> e = f e')"
  by (cases r) (auto simp: wrap_err_def)

lemma seq_Some_iff: "seq r f = (Some e, s') \<longleftrightarrow> r = (Some e, s') \<or> (\<exists>s. r = (None, s) \<and> f s = (Some e, s'))"
  by (cases r; cases "fst r") (auto simp: seq_def)

text \<open>The strings that a run puts into the store.\<close>

definition run_exact :: "(string \<Rightarrow> bool) \<Rightarrow> run_env \<Rightarrow> os \<Rightarrow> fs \<Rightarrow> RunState \<Rightarrow> bool" where
  "run_exact ux R os fs state \<longleftrightarrow>
     ux (runOwner R state) \<and> ux (leaseProvider R state) \<and> ux (normalizeCoin R (step_string R state ''select-bid'' ''price'')) \<and>
     ux (sdl_source R state) \<and> (case sdlHash R os fs (sdl_source R state) of Inl _ \<Rightarrow> True | Inr h \<Rightarrow> ux h) \<and>
     ux (paramString state ''deposit'') \<and>
     (\<forall>b \<in> set (observedBids R state). ux (biOwner (obID b)) \<and> ux (biProvider (obID b)) \<and> ux (obPrice b) \<and> map_exact ux (obAttributes b))"

text \<open>The failures after the deployment was recorded.\<close>

definition recorded_late :: "'e persist_err option \<Rightarrow> bool" where
  "recorded_late r \<longleftrightarrow>
     (case r of None \<Rightarrow> True | Some (RecordBid _ _) \<Rightarrow> True | Some NoLeaseProvider \<Rightarrow> True | Some (RecordLease _ _) \<Rightarrow> True | _ \<Rightarrow> False)"

context run_store
begin

lemma applySDL_exact: "dep_exact ux rec \<Longrightarrow> run_exact ux R os fs state \<Longrightarrow> dep_exact ux (applySDL R os fs state rec)"
  by (auto simp: applySDL_def run_exact_def dep_exact_def Let_def split: sum.splits)

lemma run_deployment_exact:
  assumes "run_exact ux R os fs state"
  shows "dep_exact ux (run_deployment R os fs state created (runOwner R state) dseq now)"
proof -
  have "dep_exact ux (zero_deployment\<lparr>dOwner := runOwner R state, dDSeq := dseq, dState := ''active'',
      dCreatedHeight := srHeight created, dCreatedAt := now, dUpdatedAt := now\<rparr>)"
    using assms by (auto simp: run_exact_def dep_exact_def map_exact_def zero_deployment_def)
  from applySDL_exact [OF this assms] assms show ?thesis
    by (auto simp: run_deployment_def run_exact_def dep_exact_def Let_def)
qed

lemma ux_lost [simp]: "ux ''lost''"
  by (rule ascii_ux) (simp add: ascii_def)

lemma run_bid_exact:
  "run_exact ux R os fs state \<Longrightarrow> b \<in> set (observedBids R state) \<Longrightarrow> bid_exact ux (run_bid R state (runOwner R state) dseq now b)"
  by (auto simp: run_exact_def run_bid_def bid_exact_def zero_bid_def Let_def)

lemma won_lease_exact: "run_exact ux R os fs state \<Longrightarrow> lease_exact ux (won_lease R state (runOwner R state) dseq now)"
  by (auto simp: run_exact_def won_lease_def lease_exact_def zero_lease_def)

lemma bid_puts:
  assumes "ok s" and "\<forall>b \<in> set bs. bid_exact ux (f b)"
    and "loop (\<lambda>s b. let bid = f b in wrap_err (g bid) (opPutBid S s bid)) s bs = (r, s')"
  shows "ok s' \<and> dv s' = dv s \<and> lv s' = lv s \<and> (\<forall>k. k \<notin> (\<lambda>b. bKey (f b)) ` set bs \<longrightarrow> bv s' k = bv s k) \<and>
    (r = None \<longrightarrow> (\<forall>b \<in> set bs. \<exists>b' \<in> set bs. \<exists>v. bKey (f b') = bKey (f b) \<and> bv s' (bKey (f b)) = Some ((f b')\<lparr>bRecordVersion := v\<rparr>))) \<and>
    (\<forall>e. r = Some e \<longrightarrow> (\<exists>b e'. e = g (f b) e'))"
  using assms
proof (induction bs arbitrary: s)
  case Nil
  then show ?case by simp
next
  case (Cons b bs)
  obtain r1 s1 where put: "opPutBid S s (f b) = (r1, s1)" by fastforce
  show ?case
  proof (cases r1)
    case (Some e)
    with put put_bid_err have "s1 = s" by blast
    with Some put Cons.prems show ?thesis by (auto simp: wrap_err_def)
  next
    case None
    from put_bid [OF Cons.prems(1) _ put [unfolded None]] Cons.prems(2) obtain v where
      v: "ok s1" "dv s1 = dv s" "lv s1 = lv s" "bv s1 = (bv s)(bKey (f b) \<mapsto> (f b)\<lparr>bRecordVersion := v\<rparr>)" by auto
    have rest: "loop (\<lambda>s b. let bid = f b in wrap_err (g bid) (opPutBid S s bid)) s1 bs = (r, s')"
      using Cons.prems(3) put None by (simp add: wrap_err_def)
    note IH = Cons.IH [OF v(1) _ rest] 
    have IH': "ok s' \<and> dv s' = dv s \<and> lv s' = lv s \<and> (\<forall>k. k \<notin> (\<lambda>b. bKey (f b)) ` set bs \<longrightarrow> bv s' k = bv s1 k)"
      "r = None \<Longrightarrow> \<forall>b \<in> set bs. \<exists>b' \<in> set bs. \<exists>v. bKey (f b') = bKey (f b) \<and> bv s' (bKey (f b)) = Some ((f b')\<lparr>bRecordVersion := v\<rparr>)"
      "\<forall>e. r = Some e \<longrightarrow> (\<exists>b e'. e = g (f b) e')"
      using IH Cons.prems(2) v(2,3) by auto
    have "\<exists>b' \<in> set (b # bs). \<exists>v. bKey (f b') = bKey (f c) \<and> bv s' (bKey (f c)) = Some ((f b')\<lparr>bRecordVersion := v\<rparr>)"
      if "r = None" "c \<in> set (b # bs)" for c
    proof (cases "bKey (f c) \<in> (\<lambda>b. bKey (f b)) ` set bs")
      case True
      then obtain c' where "c' \<in> set bs" "bKey (f c) = bKey (f c')" by auto
      with IH'(2) [OF that(1)] show ?thesis by fastforce
    next
      case False
      with that(2) have "c = b" by auto
      with False IH'(1) v(4) show ?thesis by auto
    qed
    with IH' v(4) show ?thesis by auto
  qed
qed

lemma persistWonLease_effect:
  assumes "ok s" and "lease_exact ux (won_lease R state owner dseq now)" and "persistWonLease S R state owner dseq now s = (r, s')"
  shows "ok s' \<and> dv s' = dv s \<and> bv s' = bv s \<and> (r \<noteq> None \<longrightarrow> s' = s \<and> recorded_late r) \<and>
    (r = None \<longrightarrow> (case successfulStep state ''create-lease'' of
         None \<Rightarrow> lv s' = lv s
       | Some _ \<Rightarrow> leaseProvider R state \<noteq> [] \<and>
           (\<exists>v. lv s' = (lv s)(lKey (won_lease R state owner dseq now) \<mapsto> (won_lease R state owner dseq now)\<lparr>lRecordVersion := v\<rparr>))))"
proof (cases "successfulStep state ''create-lease'' = None \<or> leaseProvider R state = []")
  case True
  with assms show ?thesis by (auto simp: persistWonLease_def recorded_late_def split: option.splits if_splits)
next
  case False
  then obtain sr where sr: "successfulStep state ''create-lease'' = Some sr" "leaseProvider R state \<noteq> []" by auto
  obtain r1 s1 where put: "opPutLease S s (won_lease R state owner dseq now) = (r1, s1)" by fastforce
  show ?thesis
  proof (cases r1)
    case (Some e)
    with put put_lease_err have "s1 = s" by blast
    with Some put sr assms(1,3) show ?thesis by (auto simp: persistWonLease_def wrap_err_def recorded_late_def Let_def)
  next
    case None
    with put_lease [OF assms(1,2) put [unfolded None]] put sr assms(3) show ?thesis
      by (auto simp: persistWonLease_def wrap_err_def Let_def)
  qed
qed

text \<open>The store after the deployment, and possibly more, of a run was recorded.\<close>

definition deploy_recorded :: "run_env \<Rightarrow> os \<Rightarrow> fs \<Rightarrow> RunState \<Rightarrow> StepResult \<Rightarrow> u64 \<Rightarrow> int \<Rightarrow> 's \<Rightarrow> 's \<Rightarrow> bool" where
  "deploy_recorded R os fs state created dseq now s s' \<longleftrightarrow>
     (let owner = runOwner R state in ok s' \<and>
        (\<exists>v. dv s' = (dv s)(DeploymentKey owner dseq \<mapsto> (run_deployment R os fs state created owner dseq now)\<lparr>dRecordVersion := v\<rparr>)) \<and>
        (\<forall>k. k \<notin> (\<lambda>b. bKey (run_bid R state owner dseq now b)) ` set (observedBids R state) \<longrightarrow> bv s' k = bv s k) \<and>
        (\<forall>k. k \<noteq> lKey (won_lease R state owner dseq now) \<longrightarrow> lv s' k = lv s k))"

definition deploy_complete :: "run_env \<Rightarrow> RunState \<Rightarrow> u64 \<Rightarrow> int \<Rightarrow> 's \<Rightarrow> 's \<Rightarrow> bool" where
  "deploy_complete R state dseq now s s' \<longleftrightarrow>
     (let owner = runOwner R state; bid = run_bid R state owner dseq now; lease = won_lease R state owner dseq now in
        (\<forall>b \<in> set (observedBids R state). \<exists>b' \<in> set (observedBids R state). \<exists>v.
           bKey (bid b') = bKey (bid b) \<and> bv s' (bKey (bid b)) = Some ((bid b')\<lparr>bRecordVersion := v\<rparr>)) \<and>
        (case successfulStep state ''create-lease'' of
           None \<Rightarrow> lv s' = lv s
         | Some _ \<Rightarrow> leaseProvider R state \<noteq> [] \<and> (\<exists>v. lv s' = (lv s)(lKey lease \<mapsto> lease\<lparr>lRecordVersion := v\<rparr>))))"

lemma run_deployment_key [simp]: "dKey (run_deployment R os fs state created owner dseq now) = DeploymentKey owner dseq"
  by (simp add: run_deployment_def applySDL_def Let_def split: sum.split)

lemma persistDeploy_effect:
  assumes okS: "ok s" and x: "run_exact ux R os fs state" and c: "successfulStep state ''create-deployment'' = Some created"
    and run: "persistDeploy S R os fs state now s = (r, s')"
  shows "(\<not> recorded_late r \<longrightarrow> s' = s) \<and>
    (recorded_late r \<longrightarrow> (\<exists>dseq. workflowOutputUint64 R created ''dseq'' = Some dseq \<and> dseq \<noteq> 0 \<and> runOwner R state \<noteq> [] \<and>
       deploy_recorded R os fs state created dseq now s s' \<and> (r = None \<longrightarrow> deploy_complete R state dseq now s s')))"
proof (cases "workflowOutputUint64 R created ''dseq'' \<in> {None, Some 0} \<or> runOwner R state = []")
  case True
  with run c show ?thesis by (auto simp: persistDeploy_def recorded_late_def Let_def split: option.splits if_splits)
next
  case False
  let ?owner = "runOwner R state"
  from False obtain dseq where d: "workflowOutputUint64 R created ''dseq'' = Some dseq" "dseq \<noteq> 0" "?owner \<noteq> []" by auto
  let ?dep = "run_deployment R os fs state created ?owner dseq now" and ?bid = "run_bid R state ?owner dseq now"
  let ?bids = "\<lambda>s. loop (\<lambda>s b. let bid = ?bid b in wrap_err (RecordBid (biProvider (bID bid))) (opPutBid S s bid)) s (observedBids R state)"
  obtain r1 s1 where put: "opPutDeployment S s ?dep = (r1, s1)" by fastforce
  have steps: "seq (wrap_err (RecordDeployment dseq) (r1, s1)) (\<lambda>s. seq (?bids s) (\<lambda>s. persistWonLease S R state ?owner dseq now s)) = (r, s')"
    using run c d by (simp add: persistDeploy_def Let_def put)
  show ?thesis
  proof (cases r1)
    case (Some e)
    with put put_dep_err have "s1 = s" by blast
    with Some steps show ?thesis by (auto simp: wrap_err_def recorded_late_def)
  next
    case None
    from put_dep [OF okS run_deployment_exact [OF x] put [unfolded None]] obtain v where
      v: "ok s1" "lv s1 = lv s" "bv s1 = bv s" "dv s1 = (dv s)(DeploymentKey ?owner dseq \<mapsto> ?dep\<lparr>dRecordVersion := v\<rparr>)" by auto
    obtain r2 s2 where bids: "?bids s1 = (r2, s2)" by fastforce
    have bx: "\<forall>b \<in> set (observedBids R state). bid_exact ux (?bid b)" using run_bid_exact [OF x] by blast
    note eff = bid_puts [OF v(1) bx bids]
    show ?thesis
    proof (cases r2)
      case (Some e)
      with steps None bids have "r = Some e" "s' = s2" by (simp_all add: wrap_err_def)
      moreover from eff Some have "recorded_late (Some e)" by (auto simp: recorded_late_def)
      ultimately show ?thesis using eff v d by (auto simp: deploy_recorded_def Let_def)
    next
      case None2: None
      with steps None bids have won: "persistWonLease S R state ?owner dseq now s2 = (r, s')" by (simp add: wrap_err_def)
      from eff have "ok s2" by simp
      from persistWonLease_effect [OF this won_lease_exact [OF x] won]
      have won': "ok s'" "dv s' = dv s2" "bv s' = bv s2" "r \<noteq> None \<Longrightarrow> s' = s2 \<and> recorded_late r"
        "r = None \<Longrightarrow> case successfulStep state ''create-lease'' of
           None \<Rightarrow> lv s' = lv s2
         | Some _ \<Rightarrow> leaseProvider R state \<noteq> [] \<and>
             (\<exists>v. lv s' = (lv s2)(lKey (won_lease R state ?owner dseq now) \<mapsto> (won_lease R state ?owner dseq now)\<lparr>lRecordVersion := v\<rparr>))"
        by auto
      have lv2: "lv s2 = lv s" using eff v(2) by simp
      have leases: "lv s' k = lv s k" if "k \<noteq> lKey (won_lease R state ?owner dseq now)" for k
        using won'(4,5) lv2 that by (cases r) (auto split: option.splits)
      have late: "recorded_late r" using won'(4) by (cases r) (auto simp: recorded_late_def)
      have "deploy_recorded R os fs state created dseq now s s'"
        using eff v won'(1-3) leases by (simp add: deploy_recorded_def Let_def) blast
      moreover have "deploy_complete R state dseq now s s'" if "r = None"
        using eff won'(3) won'(5) [OF that, unfolded lv2] None2 unfolding deploy_complete_def Let_def by simp
      ultimately show ?thesis using late d by blast
    qed
  qed
qed

text \<open>The owner of an existing deployment is an account whose strings JSON represents exactly.\<close>

lemma existingRunOwner_exact:
  assumes okS: "ok s" and x: "run_exact ux R os fs state" and owner: "existingRunOwner C R s state dseq = Inr owner"
  shows "ux owner \<and> owner \<noteq> []"
proof (cases "runOwner R state = []")
  case False
  with owner x show ?thesis by (auto simp: existingRunOwner_def run_exact_def)
next
  case True
  with owner have "UniqueDeploymentOwner (Some (opListDeployments C s \<lparr>dfOwner = [], dfState = [], dfTags = [], dfLabel = []\<rparr>)) dseq = Inr owner"
    "owner \<noteq> []" by (auto simp: existingRunOwner_def result_simps split: if_splits)
  from UniqueDeploymentOwner_found [OF this] obtain records d where
    r: "opListDeployments C s \<lparr>dfOwner = [], dfState = [], dfTags = [], dfLabel = []\<rparr> = Inr records" and d: "Some d \<in> set records" "dOwner d = owner"
    by auto
  from dv_ok [OF okS list_dep [OF okS r d(1)]] d(2) \<open>owner \<noteq> []\<close> show ?thesis by (auto simp: dep_exact_def)
qed

definition update_base :: "string \<Rightarrow> u64 \<Rightarrow> int \<Rightarrow> DeploymentRecord option \<Rightarrow> DeploymentRecord" where
  "update_base owner dseq now found =
     (case found of None \<Rightarrow> zero_deployment\<lparr>dOwner := owner, dDSeq := dseq, dState := ''active'', dCreatedAt := now\<rparr> | Some rec \<Rightarrow> rec)"

lemma persistUpdate_effect:
  assumes okS: "ok s" and x: "run_exact ux R os fs state" and u: "successfulStep state ''update-deployment'' = Some updated"
    and run: "persistUpdate S C R os fs state now s = (r, s')"
  shows "(r \<noteq> None \<longrightarrow> s' = s) \<and>
    (r = None \<longrightarrow> (\<exists>owner v. let dseq = runDSeq R state updated; k = DeploymentKey owner dseq in
       dseq \<noteq> 0 \<and> existingRunOwner C R s state dseq = Inr owner \<and> ok s' \<and> lv s' = lv s \<and> bv s' = bv s \<and>
       dv s' = (dv s)(k \<mapsto> (applySDL R os fs state (update_base owner dseq now (dv s k)))\<lparr>dUpdatedAt := now, dRecordVersion := v\<rparr>)))"
proof (cases "runDSeq R state updated = 0 \<or> (\<exists>e. existingRunOwner C R s state (runDSeq R state updated) = Inl e)")
  case True
  with run u show ?thesis by (auto simp: persistUpdate_def Let_def split: if_splits)
next
  case False
  let ?dseq = "runDSeq R state updated"
  from False obtain owner where o: "?dseq \<noteq> 0" "existingRunOwner C R s state ?dseq = Inr owner"
    by (cases "existingRunOwner C R s state ?dseq") auto
  let ?k = "DeploymentKey owner ?dseq" and ?base = "update_base owner ?dseq now (dv s (DeploymentKey owner ?dseq))"
  let ?new = "(applySDL R os fs state ?base)\<lparr>dUpdatedAt := now\<rparr>"
  note ox = existingRunOwner_exact [OF okS x o(2)]
  have base: "dep_exact ux ?base" "dKey ?base = ?k"
    using ox dv_ok [OF okS, of ?k] dep_update_exact(4) by (auto simp: update_base_def split: option.split)
  have new: "dep_exact ux ?new" "dKey ?new = ?k"
    using applySDL_exact [OF base(1) x] base(2) by (auto simp: dep_exact_def applySDL_def Let_def split: sum.split)
  obtain r1 s1 where put: "opPutDeployment S s ?new = (r1, s1)" by fastforce
  have rs: "wrap_err (RecordDeployment ?dseq) (r1, s1) = (r, s')"
    using run u o by (simp add: persistUpdate_def get_dep [OF okS] update_base_def [symmetric] put Let_def)
  show ?thesis
  proof (cases r1)
    case (Some e)
    with put put_dep_err have "s1 = s" by blast
    with Some rs show ?thesis by (auto simp: wrap_err_def)
  next
    case None
    from put_dep [OF okS new(1) put [unfolded None]] new(2) None rs o show ?thesis
      by (auto simp: wrap_err_def Let_def)
  qed
qed

lemma persistClose_effect:
  assumes okS: "ok s" and x: "run_exact ux R os fs state" and c: "successfulStep state ''close-deployment'' = Some sr"
    and run: "persistClose C R state now s = (r, s')"
  shows "(r \<noteq> None \<longrightarrow> s' = s) \<and>
    (r = None \<longrightarrow> (\<exists>owner. let dseq = runDSeq R state sr in dseq \<noteq> 0 \<and> existingRunOwner C R s state dseq = Inr owner \<and> ux owner \<and>
       opMarkDeploymentClosed C s owner dseq now = (None, s')))"
proof (cases "existingRunOwner C R s state (runDSeq R state sr)")
  case (Inl e)
  with run c show ?thesis by (auto simp: persistClose_def Let_def split: if_splits)
next
  case (Inr owner)
  with run c close_err existingRunOwner_exact [OF okS x Inr] show ?thesis
    by (cases r) (auto simp: persistClose_def wrap_err_None_iff wrap_err_Some_iff Let_def split: if_splits)
qed

end

lemma sdl_fields:
  "dSDLPath (applySDL R os fs state rec) = (if param state ''patch'' = JBool True then []
     else if sdl_source R state = [] then dSDLPath rec else sdl_source R state)"
  "dSDLHash (applySDL R os fs state rec) = (if param state ''patch'' = JBool True then []
     else if sdl_source R state = [] then dSDLHash rec
     else case sdlHash R os fs (sdl_source R state) of Inr h \<Rightarrow> h | Inl _ \<Rightarrow> dSDLHash rec)"
  by (auto simp: applySDL_def Let_def split: sum.split)

section \<open>On the bbolt store\<close>

context json_store
begin

lemmas bolt_persistDeploy = run.persistDeploy_effect [unfolded run.deploy_recorded_def run.deploy_complete_def Let_def]

lemmas bolt_persistUpdate = run.persistUpdate_effect [unfolded run.update_base_def Let_def]

lemmas bolt_persistClose = run.persistClose_effect [unfolded Let_def]

lemmas bolt_close = run.close_dep

end

lemma persist_cases:
  "createsDeployment (rsWorkflow state) \<Longrightarrow>
     persistWorkflowOutcome (Some (S, C)) R os fs (Some state) now s = persistDeploy S R os fs state now s"
  "rsWorkflow state = ''update'' \<Longrightarrow>
     persistWorkflowOutcome (Some (S, C)) R os fs (Some state) now s = persistUpdate S C R os fs state now s"
  "rsWorkflow state = ''close'' \<Longrightarrow>
     persistWorkflowOutcome (Some (S, C)) R os fs (Some state) now s = persistClose C R state now s"
  by (auto simp: persistWorkflowOutcome_def createsDeployment_def)

text \<open>What the record of a deploy run says: the deployment, a bid the run saw, and the lease it won.\<close>

definition recorded_deployment :: "run_env \<Rightarrow> os \<Rightarrow> fs \<Rightarrow> RunState \<Rightarrow> StepResult \<Rightarrow> string \<Rightarrow> u64 \<Rightarrow> int \<Rightarrow> DeploymentRecord \<Rightarrow> bool" where
  "recorded_deployment R os fs state created owner dseq now d \<longleftrightarrow>
     (let path = (if param state ''patch'' = JBool True then [] else sdl_source R state); deposit = paramString state ''deposit'' in
      dOwner d = owner \<and> dDSeq d = dseq \<and> dState d = ''active'' \<and> dCreatedHeight d = srHeight created \<and>
      dCreatedAt d = now \<and> dUpdatedAt d = now \<and> dClosedAt d = 0 \<and> dSDLPath d = path \<and>
      dSDLHash d = (if path = [] then [] else case sdlHash R os fs path of Inr hash \<Rightarrow> hash | Inl _ \<Rightarrow> []) \<and>
      dDeposit d = (if deposit = ''auto'' then [] else deposit))"

definition recorded_bid :: "run_env \<Rightarrow> RunState \<Rightarrow> string \<Rightarrow> u64 \<Rightarrow> int \<Rightarrow> observedBid \<Rightarrow> BidRecord \<Rightarrow> bool" where
  "recorded_bid R state owner dseq now b r \<longleftrightarrow>
     (let i = obID b; winner = leaseProvider R state in
      biOwner (bID r) = (if biOwner i = [] then owner else biOwner i) \<and> biDSeq (bID r) = (if biDSeq i = 0 then dseq else biDSeq i) \<and>
      biGSeq (bID r) = biGSeq i \<and> biOSeq (bID r) = biOSeq i \<and> biProvider (bID r) = biProvider i \<and>
      (bState r = ''matched'' \<longleftrightarrow> winner \<noteq> [] \<and> biProvider i = winner) \<and> (bState r = ''lost'' \<longleftrightarrow> winner = [] \<or> biProvider i \<noteq> winner) \<and>
      bPrice r = obPrice b \<and> bProviderAttributes r = obAttributes b \<and> bProviderAudited r = obAudited b \<and> bCreatedAt r = now)"

definition recorded_lease :: "run_env \<Rightarrow> RunState \<Rightarrow> string \<Rightarrow> u64 \<Rightarrow> int \<Rightarrow> LeaseRecord \<Rightarrow> bool" where
  "recorded_lease R state owner dseq now l \<longleftrightarrow>
     lID l = \<lparr>liOwner = owner, liDSeq = dseq, liGSeq = ucast (uint64_or_zero R (JStr (leaseField R state ''gseq''))),
       liOSeq = ucast (uint64_or_zero R (JStr (leaseField R state ''oseq''))), liProvider = leaseProvider R state\<rparr> \<and>
     lState l = ''active'' \<and> lPrice l = normalizeCoin R (step_string R state ''select-bid'' ''price'') \<and> lCreatedAt l = now"

lemma run_records:
  "recorded_deployment R os fs state created owner dseq now ((run_deployment R os fs state created owner dseq now)\<lparr>dRecordVersion := v\<rparr>)"
  "recorded_bid R state owner dseq now b ((run_bid R state owner dseq now b)\<lparr>bRecordVersion := v\<rparr>)"
  "recorded_lease R state owner dseq now ((won_lease R state owner dseq now)\<lparr>lRecordVersion := v\<rparr>)"
proof -
  show "recorded_deployment R os fs state created owner dseq now ((run_deployment R os fs state created owner dseq now)\<lparr>dRecordVersion := v\<rparr>)"
    by (cases "sdlHash R os fs (sdl_source R state)")
      (auto simp: recorded_deployment_def run_deployment_def applySDL_def zero_deployment_def Let_def)
qed (auto simp: recorded_bid_def run_bid_def recorded_lease_def won_lease_def zero_lease_def zero_bid_def Let_def)

lemma recorded_bid_key: "recorded_bid R state owner dseq now b r \<Longrightarrow> bKey r = bKey (run_bid R state owner dseq now b)"
  by (auto simp: recorded_bid_def run_bid_def BidKey_def zero_bid_def Let_def)

text \<open>
  C28. What a deploy run leaves in the store.  A run whose create step did not succeed changes
  nothing.  Otherwise the record of the created deployment is stored, also when recording a bid
  or the lease fails later; every failure before that point leaves the store alone.  When all
  succeeds the bids the run saw are stored, under the owner and sequence they carry or those of
  the run where they carry none, the winner's as matched and the others as lost (the last one
  where two have the same key), and the lease that was created is stored active.  No other
  deployment, bid or lease is touched, whatever fails.
\<close>

theorem persist_deploy:
  assumes env: "json_store E ux" and ok: "sok E ux db" and x: "run_exact ux R os fs state"
    and wf: "createsDeployment (rsWorkflow state)"
    and run: "persistWorkflowOutcome (Some (bolt_ops E, bolt_rest E)) R os fs (Some state) now db = (r, db')"
  shows "case successfulStep state ''create-deployment'' of
      None \<Rightarrow> r = None \<and> db' = db
    | Some created \<Rightarrow> (\<not> recorded_late r \<longrightarrow> db' = db) \<and>
        (recorded_late r \<longrightarrow> (\<exists>dseq d lease. let owner = runOwner R state in
           workflowOutputUint64 R created ''dseq'' = Some dseq \<and> dseq \<noteq> 0 \<and> owner \<noteq> [] \<and>
           GetDeployment E db' owner dseq = Inr (Some d) \<and> recorded_deployment R os fs state created owner dseq now d \<and>
           recorded_lease R state owner dseq now lease \<and>
           (\<forall>o2 d2. (o2, d2) \<noteq> (owner, dseq) \<longrightarrow> GetDeployment E db' o2 d2 = GetDeployment E db o2 d2) \<and>
           (\<forall>i. LeaseKey i \<noteq> lKey lease \<longrightarrow> GetLease E db' i = GetLease E db i) \<and>
           (\<forall>i. (\<forall>b \<in> set (observedBids R state). \<forall>rec. recorded_bid R state owner dseq now b rec \<longrightarrow> BidKey i \<noteq> bKey rec) \<longrightarrow>
              GetBid E db' i = GetBid E db i) \<and>
           (r = None \<longrightarrow>
             (\<forall>b \<in> set (observedBids R state). \<exists>b' \<in> set (observedBids R state). \<exists>rec rec'. recorded_bid R state owner dseq now b rec \<and>
                recorded_bid R state owner dseq now b' rec' \<and> bKey rec' = bKey rec \<and> GetBid E db' (bID rec) = Inr (Some rec')) \<and>
             (if successfulStep state ''create-lease'' = None then (\<forall>i. GetLease E db' i = GetLease E db i)
              else GetLease E db' (lID lease) = Inr (Some lease)))))"
proof (cases "successfulStep state ''create-deployment''")
  case None
  with run show ?thesis by (simp add: persist_cases(1) [OF wf] persistDeploy_def)
next
  case (Some created)
  note run' = run [unfolded persist_cases(1) [OF wf]]
  note eff = json_store.bolt_persistDeploy [OF env ok x Some run']
  show ?thesis
  proof (cases "recorded_late r")
    case False
    with eff Some show ?thesis by simp
  next
    case True
    let ?o = "runOwner R state"
    from eff True obtain dseq v where e: "workflowOutputUint64 R created ''dseq'' = Some dseq" "dseq \<noteq> 0" "?o \<noteq> []" "sok E ux db'"
        "dep_view E db' = (dep_view E db)(DeploymentKey ?o dseq \<mapsto> (run_deployment R os fs state created ?o dseq now)\<lparr>dRecordVersion := v\<rparr>)"
      and fb: "\<forall>k. k \<notin> (\<lambda>b. bKey (run_bid R state ?o dseq now b)) ` set (observedBids R state) \<longrightarrow> bid_view E db' k = bid_view E db k"
      and fl: "\<forall>k. k \<noteq> lKey (won_lease R state ?o dseq now) \<longrightarrow> lease_view E db' k = lease_view E db k"
      and whole: "r = None \<longrightarrow> (\<forall>b \<in> set (observedBids R state). \<exists>b' \<in> set (observedBids R state). \<exists>v.
             bKey (run_bid R state ?o dseq now b') = bKey (run_bid R state ?o dseq now b) \<and>
             bid_view E db' (bKey (run_bid R state ?o dseq now b)) = Some ((run_bid R state ?o dseq now b')\<lparr>bRecordVersion := v\<rparr>)) \<and>
           (case successfulStep state ''create-lease'' of
              None \<Rightarrow> lease_view E db' = lease_view E db
            | Some _ \<Rightarrow> leaseProvider R state \<noteq> [] \<and> (\<exists>v. lease_view E db' =
                (lease_view E db)(lKey (won_lease R state ?o dseq now) \<mapsto> (won_lease R state ?o dseq now)\<lparr>lRecordVersion := v\<rparr>)))"
      by blast
    note gets = sok_gets [OF env ok] sok_gets [OF env e(4)]
    let ?bid = "run_bid R state ?o dseq now" and ?won = "won_lease R state ?o dseq now"
    have "\<exists>v. r = None \<longrightarrow> (if successfulStep state ''create-lease'' = None then (\<forall>i. GetLease E db' i = GetLease E db i)
        else GetLease E db' (lID (?won\<lparr>lRecordVersion := v\<rparr>)) = Inr (Some (?won\<lparr>lRecordVersion := v\<rparr>)))"
      using whole by (auto simp: gets split: option.splits)
    then obtain w where lease: "r = None \<longrightarrow> (if successfulStep state ''create-lease'' = None then (\<forall>i. GetLease E db' i = GetLease E db i)
        else GetLease E db' (lID (?won\<lparr>lRecordVersion := w\<rparr>)) = Inr (Some (?won\<lparr>lRecordVersion := w\<rparr>)))" by blast
    have bids: "r = None \<longrightarrow> (\<forall>b \<in> set (observedBids R state). \<exists>b' \<in> set (observedBids R state). \<exists>rec rec'. recorded_bid R state ?o dseq now b rec \<and>
        recorded_bid R state ?o dseq now b' rec' \<and> bKey rec' = bKey rec \<and> GetBid E db' (bID rec) = Inr (Some rec'))"
    proof (intro impI ballI)
      fix b assume "r = None" and b: "b \<in> set (observedBids R state)"
      with whole obtain b' u where b': "b' \<in> set (observedBids R state)" "bKey (?bid b') = bKey (?bid b)"
        "bid_view E db' (bKey (?bid b)) = Some ((?bid b')\<lparr>bRecordVersion := u\<rparr>)" by blast
      show "\<exists>b' \<in> set (observedBids R state). \<exists>rec rec'. recorded_bid R state ?o dseq now b rec \<and>
        recorded_bid R state ?o dseq now b' rec' \<and> bKey rec' = bKey rec \<and> GetBid E db' (bID rec) = Inr (Some rec')"
        using b' run_records(2)
        by (intro bexI [of _ b'] exI [of _ "(?bid b)\<lparr>bRecordVersion := u\<rparr>"] exI [of _ "(?bid b')\<lparr>bRecordVersion := u\<rparr>"]) (simp_all add: gets)
    qed
    have bid_frame: "GetBid E db' i = GetBid E db i"
      if "\<forall>b \<in> set (observedBids R state). \<forall>rec. recorded_bid R state ?o dseq now b rec \<longrightarrow> BidKey i \<noteq> bKey rec" for i
      using that fb run_records(2) [of R state ?o dseq now _ 0] by (fastforce simp: gets)
    show ?thesis
      unfolding Some option.case Let_def
      by (intro conjI impI exI [of _ dseq] exI [of _ "(run_deployment R os fs state created ?o dseq now)\<lparr>dRecordVersion := v\<rparr>"]
          exI [of _ "?won\<lparr>lRecordVersion := w\<rparr>"])
        (use True e(1-3) run_records bids lease bid_frame fl in \<open>auto simp: gets e(5)\<close>)
  qed
qed

definition sample_run_env :: run_env where
  "sample_run_env = \<lparr>rSprint = (\<lambda>_. []), rFormatFloat = (\<lambda>_. []), rUint64 = (\<lambda>_. 0), rAccAddress = Some, rParseDecCoin = (\<lambda>_. None),
     rSHA256 = (\<lambda>_. ''00'')\<rparr>"

definition sample_result :: "string \<Rightarrow> (string \<times> json) list \<Rightarrow> StepResult" where
  "sample_result name output = \<lparr>srName = name, srType = StepTx, srStatus = ''success'', srOutput = Some (map_of output), srRawResult = [],
     srError = None, srDuration = 0, srTxHash = [], srHeight = 12\<rparr>"

definition sample_deploy_run :: RunState where
  "sample_deploy_run = \<lparr>rsWorkflowID = ''w'', rsWorkflow = ''deploy'', rsAccount = ''o'', rsParams = map_of [(''deposit'', JStr ''auto'')],
     rsSteps = map_of [(''create-deployment'', sample_result ''create-deployment'' [(''dseq'', JStr ''7'')]),
       (''create-lease'', sample_result ''create-lease'' [(''provider'', JStr ''p'')])],
     rsStepOrder = [''create-deployment'', ''create-lease'']\<rparr>"

lemma run_exact_any: "run_exact any R os fs state"
  by (simp add: run_exact_def map_exact_def split: sum.split)

lemma sok_any: "sok ref_ext any db = store_ok ref_ext any any any any db"
  by (simp add: exact_any)

theorem persist_deploy_witness:
  "let run = persistWorkflowOutcome (Some (bolt_ops ref_ext, bolt_rest ref_ext)) sample_run_env good_os (\<lambda>_. None)
      (Some sample_deploy_run) 5 sample_store in
   fst run = None \<and> (\<exists>d. GetDeployment ref_ext (snd run) ''o'' 7 = Inr (Some d) \<and> dState d = ''active'' \<and> dCreatedHeight d = 12) \<and>
   (\<exists>l. GetLease ref_ext (snd run) (lID l) = Inr (Some l) \<and> liOwner (lID l) = ''o'' \<and> liDSeq (lID l) = 7 \<and> lState l = ''active'')"
proof -
  let ?run = "persistWorkflowOutcome (Some (bolt_ops ref_ext, bolt_rest ref_ext)) sample_run_env good_os (\<lambda>_. None)
    (Some sample_deploy_run) 5 sample_store"
  let ?created = "sample_result ''create-deployment'' [(''dseq'', JStr ''7'')]"
  have c: "successfulStep sample_deploy_run ''create-deployment'' = Some ?created"
    by (simp add: successfulStep_def sample_deploy_run_def sample_result_def)
  have "trim_space ''7'' = ''7''" by code_simp
  then have d: "workflowOutputUint64 sample_run_env ?created ''dseq'' = Some 7"
    by (simp add: workflowOutputUint64_def output_of_def sample_result_def sprint_def parse_uint_def digit_val_def)
  have leased: "successfulStep sample_deploy_run ''create-lease'' \<noteq> None"
    by (simp add: successfulStep_def sample_deploy_run_def sample_result_def)
  have o: "runOwner sample_run_env sample_deploy_run = ''o''" "createsDeployment (rsWorkflow sample_deploy_run)" by code_simp+
  have "fst (seq (wrap_err (RecordDeployment 7) (opPutDeployment (bolt_ops ref_ext) sample_store
          (run_deployment sample_run_env good_os (\<lambda>_. None) sample_deploy_run ?created ''o'' 7 5))) (\<lambda>s.
        seq (loop (\<lambda>s b. let bid = run_bid sample_run_env sample_deploy_run ''o'' 7 5 b
              in wrap_err (RecordBid (biProvider (bID bid))) (opPutBid (bolt_ops ref_ext) s bid)) s (observedBids sample_run_env sample_deploy_run)) (\<lambda>s.
          persistWonLease (bolt_ops ref_ext) sample_run_env sample_deploy_run ''o'' 7 5 s))) = None"
    by code_simp
  then have r: "fst ?run = None"
    unfolding persist_cases(1) [OF o(2)] by (simp add: persistDeploy_def c d o(1) Let_def)
  have "sok ref_ext any sample_store" by (simp add: sok_any sample_store_ok)
  from persist_deploy [OF refj.json_store_axioms this run_exact_any o(2) fst_pair [OF r]] c d o(1)
  obtain dp lease where "GetDeployment ref_ext (snd ?run) ''o'' 7 = Inr (Some dp)"
    and dp: "recorded_deployment sample_run_env good_os (\<lambda>_. None) sample_deploy_run ?created ''o'' 7 5 dp"
    and l: "recorded_lease sample_run_env sample_deploy_run ''o'' 7 5 lease" "GetLease ref_ext (snd ?run) (lID lease) = Inr (Some lease)"
    by (auto simp: Let_def recorded_late_def leased)
  moreover have "dState dp = ''active'' \<and> dCreatedHeight dp = 12"
    using dp by (simp add: recorded_deployment_def sample_result_def Let_def)
  moreover have "liOwner (lID lease) = ''o'' \<and> liDSeq (lID lease) = 7 \<and> lState lease = ''active''"
    using l(1) by (simp add: recorded_lease_def)
  ultimately show ?thesis using r unfolding Let_def by blast
qed

text \<open>
  C29. What an update and a close leave in the store; a failure leaves it alone.  An update keeps
  the record of the deployment but for the SDL's path and hash and the time; when the SDL file
  can no longer be read the record gets the new path and keeps the hash of the old file.  A
  close stores the deployment and each of its leases as closed.  Every other deployment and
  lease, and every bid, reads as before, and no lease is added.
\<close>

theorem persist_update_close:
  assumes env: "json_store E ux" and ok: "sok E ux db" and x: "run_exact ux R os fs state"
    and run: "persistWorkflowOutcome (Some (bolt_ops E, bolt_rest E)) R os fs (Some state) now db = (r, db')"
  shows "(rsWorkflow state = ''update'' \<longrightarrow> (case successfulStep state ''update-deployment'' of
       None \<Rightarrow> r = None \<and> db' = db
     | Some updated \<Rightarrow> (r \<noteq> None \<longrightarrow> db' = db) \<and>
         (r = None \<longrightarrow> (\<exists>owner v old. let dseq = runDSeq R state updated in
            existingRunOwner (bolt_rest E) R db state dseq = Inr owner \<and> GetDeployment E db owner dseq = Inr old \<and>
            GetDeployment E db' owner dseq = Inr (Some ((applySDL R os fs state (case old of
                None \<Rightarrow> zero_deployment\<lparr>dOwner := owner, dDSeq := dseq, dState := ''active'', dCreatedAt := now\<rparr>
              | Some rec \<Rightarrow> rec))\<lparr>dUpdatedAt := now, dRecordVersion := v\<rparr>)) \<and>
            (\<forall>o2 d2. (o2, d2) \<noteq> (owner, dseq) \<longrightarrow> GetDeployment E db' o2 d2 = GetDeployment E db o2 d2) \<and>
            (\<forall>i. GetLease E db' i = GetLease E db i) \<and> (\<forall>i. GetBid E db' i = GetBid E db i) \<and>
            (\<forall>rec. old = Some rec \<longrightarrow>
               map_sum id (map_option (\<lambda>d. (dSDLPath d, dSDLHash d))) (GetDeployment E db' owner dseq) =
                 Inr (Some (if param state ''patch'' = JBool True then ([], [])
                   else if sdl_source R state = [] then (dSDLPath rec, dSDLHash rec)
                   else (sdl_source R state, case sdlHash R os fs (sdl_source R state) of Inr h \<Rightarrow> h | Inl _ \<Rightarrow> dSDLHash rec)))))))) \<and>
    (rsWorkflow state = ''close'' \<longrightarrow> (case successfulStep state ''close-deployment'' of
       None \<Rightarrow> r = None \<and> db' = db
     | Some sr \<Rightarrow> (r \<noteq> None \<longrightarrow> db' = db) \<and>
         (r = None \<longrightarrow> (\<exists>owner d old. let dseq = runDSeq R state sr in
            existingRunOwner (bolt_rest E) R db state dseq = Inr owner \<and> GetDeployment E db owner dseq = Inr old \<and>
            GetDeployment E db' owner dseq = Inr (Some d) \<and> dState d = ''closed'' \<and> dUpdatedAt d = now \<and>
            (\<forall>rec. old = Some rec \<longrightarrow> d = (close_deployment now rec)\<lparr>dRecordVersion := dRecordVersion d\<rparr>) \<and>
            (\<forall>o2 d2. (o2, d2) \<noteq> (owner, dseq) \<longrightarrow> GetDeployment E db' o2 d2 = GetDeployment E db o2 d2) \<and>
            (\<forall>i l. GetLease E db i = Inr (Some l) \<and> liOwner (lID l) = owner \<and> liDSeq (lID l) = dseq \<longrightarrow>
               (\<exists>v. GetLease E db' i = Inr (Some ((close_lease now l)\<lparr>lRecordVersion := v\<rparr>)))) \<and>
            (\<forall>i l. GetLease E db i = Inr (Some l) \<and> (liOwner (lID l), liDSeq (lID l)) \<noteq> (owner, dseq) \<longrightarrow> GetLease E db' i = Inr (Some l)) \<and>
            (\<forall>i. GetLease E db i = Inr None \<longrightarrow> GetLease E db' i = Inr None) \<and>
            (\<forall>i. GetBid E db' i = GetBid E db i)))))"
proof (intro conjI impI, goal_cases)
  case 1
  note run' = run [unfolded persist_cases(2) [OF 1]]
  show ?case
  proof (cases "successfulStep state ''update-deployment''")
    case None
    with run' show ?thesis by (simp add: persistUpdate_def)
  next
    case (Some updated)
    note eff = json_store.bolt_persistUpdate [OF env ok x Some run']
    show ?thesis
    proof (cases r)
      case (Some e)
      with eff \<open>successfulStep state _ = _\<close> show ?thesis by simp
    next
      case None
      from eff None obtain owner v where o: "existingRunOwner (bolt_rest E) R db state (runDSeq R state updated) = Inr owner"
        and e: "sok E ux db'" "lease_view E db' = lease_view E db" "bid_view E db' = bid_view E db"
          "dep_view E db' = (dep_view E db)(DeploymentKey owner (runDSeq R state updated) \<mapsto>
          (applySDL R os fs state (case dep_view E db (DeploymentKey owner (runDSeq R state updated)) of
              None \<Rightarrow> zero_deployment\<lparr>dOwner := owner, dDSeq := runDSeq R state updated, dState := ''active'', dCreatedAt := now\<rparr>
            | Some rec \<Rightarrow> rec))\<lparr>dUpdatedAt := now, dRecordVersion := v\<rparr>)" by blast
      note gets = sok_gets [OF env ok] sok_gets [OF env e(1)]
      show ?thesis
        unfolding Some option.case Let_def
        by (intro conjI impI exI [of _ owner] exI [of _ v] exI [of _ "dep_view E db (DeploymentKey owner (runDSeq R state updated))"])
          (auto simp: None o gets e(2-4) sdl_fields)
    qed
  qed
next
  case 2
  note run' = run [unfolded persist_cases(3) [OF 2]]
  show ?case
  proof (cases "successfulStep state ''close-deployment''")
    case None
    with run' show ?thesis by (simp add: persistClose_def)
  next
    case (Some sr)
    note eff = json_store.bolt_persistClose [OF env ok x Some run']
    show ?thesis
    proof (cases r)
      case (Some e)
      with eff \<open>successfulStep state _ = _\<close> show ?thesis by simp
    next
      case None
      from eff None obtain owner where own: "existingRunOwner (bolt_rest E) R db state (runDSeq R state sr) = Inr owner"
        and o: "ux owner" "opMarkDeploymentClosed (bolt_rest E) db owner (runDSeq R state sr) now = (None, db')"
        by blast
      note closed = json_store.bolt_close [OF env ok o]
      then have ok': "sok E ux db'" by blast
      note gets = sok_gets [OF env ok] sok_gets [OF env ok']
      let ?k = "DeploymentKey owner (runDSeq R state sr)"
      from closed obtain d where d: "dep_view E db' ?k = Some d" "dState d = ''closed''" "dUpdatedAt d = now"
        "\<forall>rec. dep_view E db ?k = Some rec \<longrightarrow> d = (close_deployment now rec)\<lparr>dRecordVersion := dRecordVersion d\<rparr>"
        by (auto simp: close_deployment_def Let_def)
      have leases: "\<exists>v. lease_view E db' k = Some ((close_lease now l)\<lparr>lRecordVersion := v\<rparr>)"
        if "lease_view E db k = Some l" "liOwner (lID l) = owner" "liDSeq (lID l) = runDSeq R state sr" for k l
        using closed that by presburger
      have other: "lease_view E db' k = Some l"
        if "lease_view E db k = Some l" "(liOwner (lID l), liDSeq (lID l)) \<noteq> (owner, runDSeq R state sr)" for k l
        using closed that by (metis (no_types, lifting))
      show ?thesis
        unfolding Some option.case Let_def
        by (intro conjI impI exI [of _ owner] exI [of _ d] exI [of _ "dep_view E db ?k"])
          (use closed d leases other in \<open>auto simp: None own gets\<close>)
    qed
  qed
qed

definition sample_update_run :: RunState where
  "sample_update_run = \<lparr>rsWorkflowID = ''w'', rsWorkflow = ''update'', rsAccount = ''o'', rsParams = map_of [(''sdl-file'', JStr ''new.yaml'')],
     rsSteps = map_of [(''update-deployment'', sample_result ''update-deployment'' [(''dseq'', JStr ''7'')])],
     rsStepOrder = [''update-deployment'']\<rparr>"

definition sample_recorded :: "(bytes, ref_val) rbt db" where
  "sample_recorded = snd (PutDeployment ref_ext sample_store (Some (sample_deployment\<lparr>dSDLPath := ''old.yaml'', dSDLHash := ''sha256:00''\<rparr>)))"

lemma sample_recorded_ok: "sok ref_ext any sample_recorded"
  unfolding sample_recorded_def sok_any by (intro ref.Put_store_ok sample_store_ok) simp_all

theorem persist_update_close_witness:
  "\<exists>owner. map_sum id (map_option (\<lambda>d. (dSDLPath d, dSDLHash d))) (GetDeployment ref_ext
      (snd (persistWorkflowOutcome (Some (bolt_ops ref_ext, bolt_rest ref_ext)) sample_run_env good_os (\<lambda>_. None)
        (Some sample_update_run) 5 sample_recorded)) owner 7) = Inr (Some (''new.yaml'', ''sha256:00''))"
proof -
  let ?run = "persistWorkflowOutcome (Some (bolt_ops ref_ext, bolt_rest ref_ext)) sample_run_env good_os (\<lambda>_. None)
    (Some sample_update_run) 5 sample_recorded"
  let ?updated = "sample_result ''update-deployment'' [(''dseq'', JStr ''7'')]"
  have u: "successfulStep sample_update_run ''update-deployment'' = Some ?updated"
    by (simp add: successfulStep_def sample_update_run_def sample_result_def)
  have wf: "rsWorkflow sample_update_run = ''update''" by (simp add: sample_update_run_def)
  have "trim_space ''7'' = ''7''" by code_simp
  then have d: "runDSeq sample_run_env sample_update_run ?updated = 7"
    by (simp add: runDSeq_def workflowOutputUint64_def output_of_def sample_result_def sprint_def parse_uint_def digit_val_def)
  have o: "runOwner sample_run_env sample_update_run = ''o''" by code_simp
  have "fst (guard sample_recorded (map_err (ReadDeployment 7) (opGetDeployment (bolt_ops ref_ext) sample_recorded ''o'' 7)) (\<lambda>found.
      let rec = (case found of
              None \<Rightarrow> zero_deployment\<lparr>dOwner := ''o'', dDSeq := 7, dState := ''active'', dCreatedAt := 5\<rparr>
            | Some rec \<Rightarrow> rec)
      in wrap_err (RecordDeployment 7) (opPutDeployment (bolt_ops ref_ext) sample_recorded
          ((applySDL sample_run_env good_os (\<lambda>_. None) sample_update_run rec)\<lparr>dUpdatedAt := 5\<rparr>)))) = None"
    by code_simp
  then have r: "fst ?run = None"
    unfolding persist_cases(2) [OF wf] by (simp add: persistUpdate_def existingRunOwner_def u d o Let_def)
  have src: "sdl_source sample_run_env sample_update_run = ''new.yaml''" "param sample_update_run ''patch'' \<noteq> JBool True"
    "sdlHash sample_run_env good_os (\<lambda>_. None) ''new.yaml'' = Inl NotExist"
    by code_simp+
  from persist_update_close [OF refj.json_store_axioms sample_recorded_ok run_exact_any fst_pair [OF r]] u d wf
  obtain owner old where e: "existingRunOwner (bolt_rest ref_ext) sample_run_env sample_recorded sample_update_run 7 = Inr owner"
    "GetDeployment ref_ext sample_recorded owner 7 = Inr old"
    "\<forall>rec. old = Some rec \<longrightarrow> map_sum id (map_option (\<lambda>d. (dSDLPath d, dSDLHash d))) (GetDeployment ref_ext (snd ?run) owner 7) =
       Inr (Some (''new.yaml'', dSDLHash rec))"
    using src by (fastforce simp: Let_def)
  have "owner = ''o''" using e(1) o by (simp add: existingRunOwner_def)
  moreover have "map_sum id (map_option dSDLHash) (GetDeployment ref_ext sample_recorded ''o'' 7) = Inr (Some ''sha256:00'')" by code_simp
  ultimately obtain rec where "old = Some rec" "dSDLHash rec = ''sha256:00''" using e(2) by (cases old) auto
  with e(3) show ?thesis by auto
qed

end
