(* ===== verification/Command_Gating.thy ===== *)
theory Command_Gating
  imports Context_Manager
begin

text \<open>
  Which commands a configuration can run (\<open>src/internal/capability/capability.go\<close>,
  \<open>src/internal/cli/gating.go\<close>) and what a command needs at start-up (\<open>src/internal/cli/root.go\<close>).

  A Cobra command is a node of a tree; where the code walks from a command to its parents, the
  model has the list of the nodes from the command up to the root.
\<close>

section \<open>Capabilities\<close>

definition ChainQuery :: string where "ChainQuery = ''chain-query''"

definition ChainTx :: string where "ChainTx = ''chain-tx''"

definition ConsoleCap :: string where "ConsoleCap = ''console''"

definition ProviderCap :: string where "ProviderCap = ''provider''"

lemmas capabilities = ChainQuery_def ChainTx_def ConsoleCap_def ProviderCap_def

record Set =
  setChainQuery :: bool
  setChainTx :: bool
  setConsole :: bool
  setProvider :: bool

definition empty_set :: Set where
  "empty_set = \<lparr>setChainQuery = False, setChainTx = False, setConsole = False, setProvider = False\<rparr>"

definition capability_Resolve :: "Context option \<Rightarrow> Set" where
  "capability_Resolve rc =
     (case rc of
        None \<Rightarrow> empty_set
      | Some c \<Rightarrow>
          let hasRPC = 0 < length (enRPC (nEndpoints (cNetwork c)));
              hasKeyring = trim_space (kName (cKeyring c)) \<noteq> [];
              hasConsoleKey = cConsoleAPIKey c \<noteq> []
          in \<lparr>setChainQuery = hasRPC, setChainTx = hasRPC \<and> hasKeyring, setConsole = hasConsoleKey, setProvider = hasRPC\<rparr>)"

text \<open>Unknown requirements never gate.\<close>

definition Has :: "Set \<Rightarrow> string \<Rightarrow> bool" where
  "Has s c =
     (if c = ChainQuery then setChainQuery s
      else if c = ChainTx then setChainTx s
      else if c = ConsoleCap then setConsole s
      else if c = ProviderCap then setProvider s
      else True)"

definition Satisfies :: "Set \<Rightarrow> string \<Rightarrow> bool" where
  "Satisfies s requirement =
     (let requirement = trim_space requirement in
      if requirement = [] then True
      else list_ex (\<lambda>alt. Has s (trim_space alt)) (split_on CHR ''|'' requirement))"

definition capabilityRemedy :: "string \<Rightarrow> string option" where
  "capabilityRemedy c =
     (if c = ChainQuery \<or> c = ProviderCap then
        Some ''add an RPC endpoint to the context's network (akt context network edit <network> --rpc <url>)''
      else if c = ChainTx then
        Some ''configure a keyring and an RPC endpoint on the context (akt context edit <context> --keyring <keyring>)''
      else if c = ConsoleCap then
        Some ''configure a Console API key (akt console login, or akt context edit <context> --console-api-key <key>)''
      else None)"

text \<open>\<open>quoted\<close> is the verb \<open>%q\<close> of \<open>fmt\<close>.\<close>

definition Explain :: "(string \<Rightarrow> string) \<Rightarrow> string \<Rightarrow> string" where
  "Explain quoted requirement =
     (let wants = concat (map (\<lambda>alt. let c = trim_space alt in
              case capabilityRemedy c of None \<Rightarrow> [] | Some remedy \<Rightarrow> [c @ '' ('' @ remedy @ '')''])
            (split_on CHR ''|'' requirement))
      in if wants = [] then ''requires '' @ quoted requirement
         else ''requires '' @ join_with '', or '' wants)"

datatype Mode = ModeDim | ModeHide | ModeOff

definition ParseMode :: "string \<Rightarrow> Mode" where
  "ParseMode s =
     (let t = to_lower (trim_space s) in
      if t = ''hide'' then ModeHide else if t = ''off'' then ModeOff else ModeDim)"

section \<open>The command tree\<close>

record cmd_node =
  cmName :: string
  cmRequires :: string
  cmShort :: string
  cmHidden :: bool

datatype command = Command cmd_node "command list"

definition CommandPath :: "cmd_node list \<Rightarrow> string" where
  "CommandPath lineage = join_with '' '' (rev (map cmName lineage))"

definition unavailable :: string where "unavailable = ''[unavailable] ''"

definition mark :: "Set \<Rightarrow> Mode \<Rightarrow> cmd_node \<Rightarrow> cmd_node" where
  "mark s mode n =
     (if cmRequires n \<noteq> [] \<and> \<not> Satisfies s (cmRequires n) then
        (case mode of
           ModeHide \<Rightarrow> n\<lparr>cmHidden := True\<rparr>
         | _ \<Rightarrow> if \<not> has_prefix (cmShort n) unavailable then n\<lparr>cmShort := unavailable @ cmShort n\<rparr> else n)
      else n)"

fun walk :: "Set \<Rightarrow> Mode \<Rightarrow> command \<Rightarrow> command" where
  "walk s mode (Command n subs) = Command (mark s mode n) (map (walk s mode) subs)"

definition applyCapabilityGating :: "command \<Rightarrow> Set \<Rightarrow> Mode \<Rightarrow> command" where
  "applyCapabilityGating cmds s mode = (if mode = ModeOff then cmds else walk s mode cmds)"

definition grantChain :: "Set \<Rightarrow> Set" where
  "grantChain s = s\<lparr>setChainQuery := True, setProvider := True, setChainTx := True\<rparr>"

text \<open>The arguments up to the first terminator.\<close>

definition before_terminator :: "string list \<Rightarrow> string list" where
  "before_terminator argv = takeWhile (\<lambda>a. a \<noteq> ''--'') argv"

definition grant_arg :: "string \<Rightarrow> Set \<Rightarrow> Set" where
  "grant_arg a s =
     (if a = ''--node'' \<or> has_prefix a ''--node='' then grantChain s
      else if a = ''--console-api-key'' \<or> has_prefix a ''--console-api-key='' then s\<lparr>setConsole := True\<rparr>
      else s)"

text \<open>A nil command is the empty lineage.\<close>

definition invocationCapabilities :: "os \<Rightarrow> Set \<Rightarrow> cmd_node list \<Rightarrow> string list \<Rightarrow> string list \<Rightarrow> Set" where
  "invocationCapabilities os s cmd argv posArgs =
     (let s = fold grant_arg (before_terminator argv) s;
          s = (if osGetenv os EnvConsoleAPIKey \<noteq> [] then s\<lparr>setConsole := True\<rparr> else s)
      in if cmd \<noteq> [] \<and> has_prefix (CommandPath cmd) ''akt monitor'' \<and> posArgs \<noteq> [] then grantChain s else s)"

text \<open>The first node from the command upwards that is not satisfied, as its path and explanation.\<close>

fun requirementError :: "(string \<Rightarrow> string) \<Rightarrow> cmd_node list \<Rightarrow> Set \<Rightarrow> (string \<times> string) option" where
  "requirementError quoted [] s = None"
| "requirementError quoted (n # parents) s =
     (if cmRequires n = [] \<or> Satisfies s (cmRequires n) then requirementError quoted parents s
      else Some (CommandPath (n # parents), Explain quoted (cmRequires n)))"

section \<open>What a command needs at start-up\<close>

definition helpRequested :: "string list \<Rightarrow> bool" where
  "helpRequested args = list_ex (\<lambda>a. a = ''--help'' \<or> a = ''-h'' \<or> has_prefix a ''--help='') (before_terminator args)"

definition isHelpInvocation :: "cmd_node list \<Rightarrow> string list \<Rightarrow> bool" where
  "isHelpInvocation cmd args \<longleftrightarrow> (cmd \<noteq> [] \<and> cmName (hd cmd) = ''help'') \<or> helpRequested args"

definition activeContextName :: "Manager option \<Rightarrow> string \<Rightarrow> string" where
  "activeContextName mgr override = (case mgr of None \<Rightarrow> override | Some m \<Rightarrow> ActiveContext m override)"

definition gatingMode :: "string \<Rightarrow> Manager option \<Rightarrow> string" where
  "gatingMode setting mgr =
     (if setting \<noteq> [] then setting else case mgr of None \<Rightarrow> [] | Some m \<Rightarrow> dfCommandGating (cfgDefaults (mCfg m)))"

definition requiresConfig :: "string \<Rightarrow> bool" where
  "requiresConfig path \<longleftrightarrow> \<not> (has_prefix path ''akt version'' \<or> has_prefix path ''akt completion'' \<or> has_prefix path ''akt monitor'' \<or>
     has_prefix path ''akt mcp'' \<or> has_prefix path ''akt sdl'' \<or> path = ''akt context create'' \<or> path = ''akt context network create'')"

definition requiresContext :: "string \<Rightarrow> bool" where
  "requiresContext path \<longleftrightarrow> \<not> (path = ''akt'' \<or> has_prefix path ''akt context'' \<or> has_prefix path ''akt version'' \<or>
     has_prefix path ''akt monitor'' \<or> has_prefix path ''akt completion'' \<or> has_prefix path ''akt sdl'' \<or>
     has_prefix path ''akt console'' \<or> has_prefix path ''akt mcp'')"

datatype LocalIdentityMode = LocalIdentityNone | LocalIdentityOnDemand | LocalIdentityRequired

text \<open>\<open>flag\<close> is \<open>boolFlag\<close> of the command.\<close>

definition localIdentityMode :: "cmd_node list \<Rightarrow> (string \<Rightarrow> bool) \<Rightarrow> LocalIdentityMode" where
  "localIdentityMode cmd flag =
     (let path = CommandPath cmd; requires = (case cmd of [] \<Rightarrow> [] | n # _ \<Rightarrow> cmRequires n) in
      if path = ''akt'' then LocalIdentityNone
      else if has_prefix path ''akt sdl'' then LocalIdentityNone
      else if has_prefix path ''akt monitor'' then LocalIdentityNone
      else if has_prefix path ''akt version'' \<or> has_prefix path ''akt completion'' then LocalIdentityNone
      else if has_prefix path ''akt context'' then LocalIdentityNone
      else if path = ''akt store sync'' then LocalIdentityOnDemand
      else if has_prefix path ''akt store'' then LocalIdentityNone
      else if has_prefix path ''akt console'' then LocalIdentityNone
      else if has_prefix path ''akt query'' then LocalIdentityOnDemand
      else if requires = ChainTx @ ''|'' @ ConsoleCap then LocalIdentityOnDemand
      else if has_prefix path ''akt faucet'' then LocalIdentityOnDemand
      else if path = ''akt provider status'' then LocalIdentityNone
      else if has_prefix path ''akt provider'' then
        (if flag ''dry-run'' then LocalIdentityOnDemand else LocalIdentityRequired)
      else if has_prefix path ''akt mcp'' then LocalIdentityOnDemand
      else if has_prefix path ''akt tx'' then
        (if flag ''generate-only'' \<or> flag ''dry-run'' then LocalIdentityOnDemand else LocalIdentityRequired)
      else if flag ''dry-run'' then LocalIdentityNone
      else LocalIdentityRequired)"

text \<open>
  The gate of the start-up hook for a resolved context: the tree as help shows it, and the error
  that ends the run.
\<close>

definition capability_gate ::
  "os \<Rightarrow> (string \<Rightarrow> string) \<Rightarrow> Manager \<Rightarrow> string \<Rightarrow> string \<Rightarrow> command \<Rightarrow> cmd_node list \<Rightarrow> string list \<Rightarrow> string list \<Rightarrow>
     (string \<times> string) option \<times> command" where
  "capability_gate os quoted mgr contextFlag setting cmds cmd argv args =
     (case Resolve os mgr (activeContextName (Some mgr) contextFlag) of
        Inl _ \<Rightarrow> (None, cmds)
      | Inr rc \<Rightarrow>
          let mode = ParseMode (gatingMode setting (Some mgr));
              s = invocationCapabilities os (capability_Resolve (Some rc)) cmd argv args
          in (if mode \<noteq> ModeOff \<and> \<not> isHelpInvocation cmd argv then requirementError quoted cmd s else None,
              applyCapabilityGating cmds s mode))"

section \<open>Gating\<close>

definition set_le :: "Set \<Rightarrow> Set \<Rightarrow> bool" where
  "set_le s t \<longleftrightarrow> (setChainQuery s \<longrightarrow> setChainQuery t) \<and> (setChainTx s \<longrightarrow> setChainTx t) \<and> (setConsole s \<longrightarrow> setConsole t) \<and>
     (setProvider s \<longrightarrow> setProvider t)"

lemma set_le_refl [simp]: "set_le s s"
  by (simp add: set_le_def)

lemma set_le_trans: "set_le s t \<Longrightarrow> set_le t u \<Longrightarrow> set_le s u"
  by (simp add: set_le_def)

lemma Has_mono: "set_le s t \<Longrightarrow> Has s c \<Longrightarrow> Has t c"
  by (simp add: Has_def set_le_def split: if_splits)

lemma Satisfies_mono: "set_le s t \<Longrightarrow> Satisfies s req \<Longrightarrow> Satisfies t req"
  using Has_mono [of s t] unfolding Satisfies_def Let_def list_ex_iff by meson

lemma grant_arg_le: "set_le s (grant_arg a s)"
  by (simp add: grant_arg_def grantChain_def set_le_def)

lemma grants_le: "set_le s (fold grant_arg args s)"
proof (induction args arbitrary: s)
  case (Cons a args)
  show ?case using set_le_trans [OF grant_arg_le Cons.IH] by simp
qed simp

lemma invocationCapabilities_le: "set_le s (invocationCapabilities os s cmd argv posArgs)"
  using grants_le [of s "before_terminator argv"]
  by (auto simp: invocationCapabilities_def Let_def set_le_def grantChain_def)

lemma requirementError_None_iff:
  "requirementError quoted cmd s = None \<longleftrightarrow> (\<forall>n \<in> set cmd. Satisfies s (cmRequires n))"
proof (induction cmd)
  case (Cons n cmd)
  have "Satisfies s []" by (simp add: Satisfies_def trim_space_def)
  with Cons show ?case by auto
qed simp

text \<open>Every command of a tree, as the nodes from it up to the root.\<close>

fun lineages :: "cmd_node list \<Rightarrow> command \<Rightarrow> cmd_node list list" where
  "lineages up (Command n subs) = (n # up) # concat (map (lineages (n # up)) subs)"

lemma lineages_walk: "lineages (map (mark s mode) up) (walk s mode t) = map (map (mark s mode)) (lineages up t)"
proof (induction t arbitrary: up)
  case (Command n subs)
  have "concat (map (lineages (map (mark s mode) (n # up))) (map (walk s mode) subs)) =
      concat (map (\<lambda>t. map (map (mark s mode)) (lineages (n # up) t)) subs)"
    using Command.IH [of _ "n # up"] by (simp add: comp_def cong: map_cong)
  then show ?case by (simp add: map_concat comp_def)
qed

lemma mark_requires [simp]: "cmRequires (mark s mode n) = cmRequires n"
  by (simp add: mark_def split: Mode.split)

lemma mark_idem: "mark s mode (mark s mode n) = mark s mode n"
  by (auto simp: mark_def has_prefix_iff split: Mode.split)

lemma walk_idem: "walk s mode (walk s mode t) = walk s mode t"
  by (induction t) (simp add: mark_idem)

text \<open>A node shown as not available.\<close>

definition shown_off :: "cmd_node \<Rightarrow> bool" where
  "shown_off n \<longleftrightarrow> cmHidden n \<or> has_prefix (cmShort n) unavailable"

lemma shown_off_mark:
  "\<not> shown_off n \<Longrightarrow> mode \<noteq> ModeOff \<Longrightarrow> shown_off (mark s mode n) \<longleftrightarrow> \<not> Satisfies s (cmRequires n)"
proof -
  assume "\<not> shown_off n" "mode \<noteq> ModeOff"
  moreover have "Satisfies s []" by (simp add: Satisfies_def trim_space_def)
  moreover have "has_prefix (unavailable @ x) unavailable" for x by (simp add: has_prefix_iff)
  ultimately show ?thesis by (auto simp: mark_def shown_off_def split: Mode.split)
qed

text \<open>
  C30. Help and execution agree.  With gating on, a command of a tree whose commands were all shown
  as available is refused exactly when it or one of its parents is shown as hidden or
  unavailable after gating, which is when a requirement on that way is not met; gating twice
  is gating once; and options of the invocation only add capabilities, so they never make a
  command unavailable that the configuration can run.
\<close>

theorem gating_agrees:
  assumes "mode \<noteq> ModeOff" and "list_all (list_all (\<lambda>n. \<not> shown_off n)) (lineages [] cmds)"
  shows "list_all2 (\<lambda>cmd shown. (requirementError quoted cmd s \<noteq> None) = list_ex shown_off shown \<and>
      (requirementError quoted cmd s = None \<longrightarrow> requirementError quoted cmd (invocationCapabilities os s cmd argv args) = None))
      (lineages [] cmds) (lineages [] (applyCapabilityGating cmds s mode)) \<and>
    applyCapabilityGating (applyCapabilityGating cmds s mode) s mode = applyCapabilityGating cmds s mode"
proof -
  have shown: "lineages [] (applyCapabilityGating cmds s mode) = map (map (mark s mode)) (lineages [] cmds)"
    using lineages_walk [of s mode "[]"] assms(1) by (simp add: applyCapabilityGating_def)
  have "(requirementError quoted cmd s \<noteq> None) = list_ex shown_off (map (mark s mode) cmd)" if "cmd \<in> set (lineages [] cmds)" for cmd
  proof -
    have "\<forall>n \<in> set cmd. \<not> shown_off n" using assms(2) that by (auto simp: list_all_iff)
    then have "(\<exists>n \<in> set cmd. shown_off (mark s mode n)) = (\<exists>n \<in> set cmd. \<not> Satisfies s (cmRequires n))"
      using shown_off_mark [OF _ assms(1)] by blast
    then show ?thesis using requirementError_None_iff [of quoted cmd s] by (auto simp: list_ex_iff)
  qed
  moreover have "requirementError quoted cmd (invocationCapabilities os s cmd argv args) = None" if "requirementError quoted cmd s = None" for cmd
    using that Satisfies_mono [OF invocationCapabilities_le] unfolding requirementError_None_iff by blast
  ultimately show ?thesis
    unfolding shown by (auto simp: list_all2_conv_all_nth applyCapabilityGating_def walk_idem)
qed

definition sample_tree :: command where
  "sample_tree = Command \<lparr>cmName = ''akt'', cmRequires = [], cmShort = ''Akash'', cmHidden = False\<rparr>
     [Command \<lparr>cmName = ''deploy'', cmRequires = ''chain-tx|console'', cmShort = ''Deploy'', cmHidden = False\<rparr> [],
      Command \<lparr>cmName = ''query'', cmRequires = ''chain-query'', cmShort = ''Query'', cmHidden = False\<rparr> []]"

theorem gating_agrees_witness:
  "list_ex shown_off (lineages [] (applyCapabilityGating sample_tree (empty_set\<lparr>setConsole := True\<rparr>) ModeDim) ! 2)"
proof -
  let ?s = "empty_set\<lparr>setConsole := True\<rparr>"
  have "list_all (list_all (\<lambda>n. \<not> shown_off n)) (lineages [] sample_tree)" by code_simp
  then have l: "list_all2 (\<lambda>cmd shown. (requirementError id cmd ?s \<noteq> None) = list_ex shown_off shown \<and>
      (requirementError id cmd ?s = None \<longrightarrow> requirementError id cmd (invocationCapabilities good_os ?s cmd [] []) = None))
      (lineages [] sample_tree) (lineages [] (applyCapabilityGating sample_tree ?s ModeDim))"
    using gating_agrees [of ModeDim sample_tree id ?s good_os "[]" "[]"] by simp
  have n: "2 < length (lineages [] sample_tree)" by code_simp
  have e: "requirementError id (lineages [] sample_tree ! 2) ?s \<noteq> None" by code_simp
  from list_all2_nthD [OF l n] e show ?thesis by blast
qed

end
