(* ===== verification/Deployment_Inputs.thy ===== *)
theory Deployment_Inputs
  imports Transport Deployment_Apply Context_Files Bolt_Store
begin

text \<open>
  What a transaction step of a workflow deploys (\<open>src/internal/workflow/adapters/deployment_inputs.go\<close>,
  the readers of parameters in \<open>msgs.go\<close> and of SDL documents in \<open>console.go\<close> and \<open>provider.go\<close>).

  Parameters: the SDL library (\<open>sdl_lib\<close>), bbolt and JSON (\<open>ext\<close>), YAML, and the operating system with
  its files.  \<open>store_access\<close> says how the context's database opens.  The inputs of a run are never
  nil: \<open>selectDeploymentInputs\<close> makes new ones.
\<close>

section \<open>Errors and parameters\<close>

datatype ad_err =
    MissingParam string | ParseParam string num_err | InMsg string ad_err
  | SDLRequired | SDLUnreadable string os_err | SDLNotExist string | EmptySDL | SDLReadFile string string | SDLParse string
  | BadSourceSequence | NoLocalSDL string string | StoreUnreadable | StoreErr store_err | OwnerErr "store_err owner_err"
  | SecretsNeedConsole | PatchNeedsConsole | PatchWithoutChanges | ReferencesNeedConsole | ConfigErr dc_err
  | ZeroSequence string | ReadingSDL ad_err | Outside string | BadDeposit string string | NoMinimumDeposit | HeightCatchingUp
  | GroupsChanged | UnsupportedMsg string | UnexpectedResponse | TxFailed u32 string | MarshalFailed
  | QueryErr string string | UnsupportedQuery string | DenomMismatch string string string | ParseResolvedDeposit string

definition prm :: "(string \<times> string) list \<Rightarrow> string \<Rightarrow> string" where
  "prm params key = (case map_of params key of None \<Rightarrow> [] | Some v \<Rightarrow> v)"

definition requiredUint64Param :: "(string \<times> string) list \<Rightarrow> string \<Rightarrow> ad_err + u64" where
  "requiredUint64Param params key =
     (let v = prm params key in
      if v = [] then Inl (MissingParam key)
      else case parse_uint 64 v of Inl e \<Rightarrow> Inl (ParseParam key e) | Inr n \<Rightarrow> Inr (of_nat n))"

definition optionalUint64Param :: "(string \<times> string) list \<Rightarrow> string \<Rightarrow> ad_err + u64" where
  "optionalUint64Param params key = (if prm params key = [] then Inr 0 else requiredUint64Param params key)"

definition uint32ParamWithDefault :: "(string \<times> string) list \<Rightarrow> string \<Rightarrow> u32 \<Rightarrow> ad_err + u32" where
  "uint32ParamWithDefault params key dflt =
     (let v = prm params key in
      if v = [] then Inr dflt
      else case parse_uint 32 v of Inl e \<Rightarrow> Inl (ParseParam key e) | Inr n \<Rightarrow> Inr (of_nat n))"

definition optionalUint32Param :: "(string \<times> string) list \<Rightarrow> string \<Rightarrow> ad_err + u32" where
  "optionalUint32Param params key = uint32ParamWithDefault params key 0"

definition requiredDSeqParam :: "(string \<times> string) list \<Rightarrow> string \<Rightarrow> ad_err + string" where
  "requiredDSeqParam params msgType =
     (case requiredUint64Param params ''dseq'' of Inl e \<Rightarrow> Inl (InMsg msgType e) | Inr _ \<Rightarrow> Inr (prm params ''dseq''))"

section \<open>SDL documents\<close>

definition is_regular :: "os \<Rightarrow> fs \<Rightarrow> string \<Rightarrow> bool" where
  "is_regular os fs s \<longleftrightarrow> osStat os s \<and> (case fs s of Some (File _ _) \<Rightarrow> True | _ \<Rightarrow> False)"

definition has_suffix :: "string \<Rightarrow> string \<Rightarrow> bool" where
  "has_suffix s t \<longleftrightarrow> has_prefix (rev s) (rev t)"

definition looksLikeSDLPath :: "string \<Rightarrow> bool" where
  "looksLikeSDLPath s =
     (if CHR 0x0A \<in> set s then False
      else if has_suffix s ''.yaml'' \<or> has_suffix s ''.yml'' then True
      else CHR ''/'' \<in> set s)"

definition sdlContent :: "os \<Rightarrow> fs \<Rightarrow> string \<Rightarrow> ad_err + string" where
  "sdlContent os fs input =
     (let s = trim_space input in
      if s = [] then Inl SDLRequired
      else if is_regular os fs s then map_err (SDLUnreadable s) (ReadFile os fs s)
      else if looksLikeSDLPath s then Inl (SDLNotExist s)
      else Inr input)"

text \<open>
  The SDL library: parsing of a text and of a file, and what is made of a document.  A group
  is of the abstract type \<open>'g\<close>, with its name and the denomination of its price.
\<close>

record ('d, 'g, 'm) sdl_lib =
  sdRead :: "string \<Rightarrow> string + 'd"
  sdReadFile :: "fs \<Rightarrow> string \<Rightarrow> string + 'd"
  sdGroups :: "'d \<Rightarrow> string + 'g list"
  sdVersion :: "'d \<Rightarrow> string + string"
  sdManifest :: "'d \<Rightarrow> string + 'm"
  sdGroupName :: "'g \<Rightarrow> string"
  sdGroupDenom :: "'g \<Rightarrow> string"
  sdGroupEqual :: "'g \<Rightarrow> 'g \<Rightarrow> bool"

definition readSDL :: "('d, 'g, 'm) sdl_lib \<Rightarrow> os \<Rightarrow> fs \<Rightarrow> string \<Rightarrow> ad_err + 'd" where
  "readSDL L os fs data =
     (let s = trim_space data in
      if s = [] then Inl EmptySDL
      else if is_regular os fs s then map_err (SDLReadFile s) (sdReadFile L fs s)
      else map_err SDLParse (sdRead L data))"

section \<open>The inputs of a run\<close>

record DeploymentInputs =
  diRoot :: string
  diContext :: string
  diInput :: "(unit + string) option"
  diSdls :: "u64 \<rightharpoonup> string"

text \<open>The reader for a secrets file of \<open>-\<close> is what reading it to its end gives, \<open>None\<close> for nil.\<close>

definition NewDeploymentInputs :: "string \<Rightarrow> string \<Rightarrow> (unit + string) option \<Rightarrow> DeploymentInputs" where
  "NewDeploymentInputs cfg contextName input = \<lparr>diRoot = cfg, diContext = contextName, diInput = input, diSdls = Map.empty\<rparr>"

definition selectDeploymentInputs :: "DeploymentInputs option list \<Rightarrow> string \<Rightarrow> string \<Rightarrow> DeploymentInputs" where
  "selectDeploymentInputs inputs cfg contextName =
     (case inputs of Some d # _ \<Rightarrow> d | _ \<Rightarrow> NewDeploymentInputs cfg contextName None)"

definition remember :: "u64 \<Rightarrow> string \<Rightarrow> DeploymentInputs \<Rightarrow> DeploymentInputs" where
  "remember dseq raw d = d\<lparr>diSdls := (diSdls d)(dseq \<mapsto> raw)\<rparr>"

definition providerSDL :: "DeploymentInputs \<Rightarrow> u64 \<Rightarrow> string \<Rightarrow> string" where
  "providerSDL d dseq fallback = (case diSdls d dseq of Some raw \<Rightarrow> raw | None \<Rightarrow> fallback)"

record ('b, 'v) store_access =
  saExt :: "('b, 'v) ext"
  saMkdir :: bool
  saOpen :: bool
  saMigrations :: "'b Migration list"

definition sourcePath ::
  "('b, 'v) store_access \<Rightarrow> os \<Rightarrow> fs \<Rightarrow> DeploymentInputs \<Rightarrow> string \<Rightarrow> string \<Rightarrow> string \<Rightarrow> string \<Rightarrow> 'b db \<Rightarrow>
     (ad_err + string) \<times> 'b db" where
  "sourcePath A os fs d owner dseq override flag db =
     (case parse_uint 64 dseq of
        Inl _ \<Rightarrow> (Inl BadSourceSequence, db)
      | Inr n \<Rightarrow>
          if n = 0 then (Inl BadSourceSequence, db)
          else if override \<noteq> [] then (Inr override, db)
          else let missing = NoLocalSDL dseq flag; dbPath = StoreDBPath (diRoot d) (diContext d) in
          if diRoot d = [] \<or> diContext d = [] then (Inl missing, db)
          else if fs dbPath = None then (Inl missing, db)
          else if \<not> osStat os dbPath then (Inl StoreUnreadable, db)
          else case OpenContext (saExt A) (saMkdir A) (saOpen A) (saMigrations A) db of
            (Some e, db) \<Rightarrow> (Inl (StoreErr e), db)
          | (None, db) \<Rightarrow>
              (rbind (if owner \<noteq> [] then Inr owner
                      else map_err OwnerErr (UniqueDeploymentOwner
                        (Some (rbind (ListDeployments (saExt A) db \<lparr>dfOwner = [], dfState = [], dfTags = [], dfLabel = []\<rparr>) (\<lambda>ds. Inr (map Some ds))))
                        (of_nat n))) (\<lambda>owner.
               rbind (map_err StoreErr (Bolt_Store.GetDeployment (saExt A) db owner (of_nat n))) (\<lambda>found.
               case found of
                 None \<Rightarrow> Inl missing
               | Some record \<Rightarrow> if dSDLPath record = [] then Inl missing else Inr (dSDLPath record))), db))"

text \<open>The patch of a patched update, and the document it is applied to.\<close>

definition chain_patch :: "yaml \<Rightarrow> string \<Rightarrow> ad_err + Patch" where
  "chain_patch Y raw =
     rbind (map_err ConfigErr (ParsePatch Y raw)) (\<lambda>patch.
     if paName patch \<noteq> None \<or> paIfManifestVersion patch \<noteq> [] then Inl PatchNeedsConsole
     else if \<not> HasChanges patch then Inl PatchWithoutChanges
     else Inr patch)"

definition prepareChain ::
  "yaml \<Rightarrow> ('b, 'v) store_access \<Rightarrow> os \<Rightarrow> fs \<Rightarrow> DeploymentInputs \<Rightarrow> string \<Rightarrow> (string \<times> string) list \<Rightarrow> 'b db \<Rightarrow>
     (ad_err + string \<times> string) \<times> 'b db" where
  "prepareChain Y A os fs d owner params db =
     (if prm params ''secrets-file'' \<noteq> [] then (Inl SecretsNeedConsole, db)
      else
        case (if prm params ''source-dseq'' \<noteq> [] then sourcePath A os fs d owner (prm params ''source-dseq'') (prm params ''sdl'') ''sdl-file'' db
              else (Inr (prm params ''sdl''), db)) of
          (Inl e, db) \<Rightarrow> (Inl e, db)
        | (Inr path, db) \<Rightarrow>
            case sdlContent os fs path of
              Inl e \<Rightarrow> (Inl e, db)
            | Inr raw \<Rightarrow>
                case (if prm params ''patch'' \<noteq> ''true'' then (Inr (raw, path), db)
                      else case chain_patch Y raw of
                        Inl e \<Rightarrow> (Inl e, db)
                      | Inr patch \<Rightarrow>
                          (case sourcePath A os fs d owner (prm params ''dseq'') (prm params ''base-sdl'') ''base-sdl'' db of
                             (Inl e, db) \<Rightarrow> (Inl e, db)
                           | (Inr path, db) \<Rightarrow>
                               (rbind (sdlContent os fs path) (\<lambda>base.
                                rbind (map_err ConfigErr (Apply Y base patch)) (\<lambda>raw. Inr (raw, path))), db))) of
                  (Inl e, db) \<Rightarrow> (Inl e, db)
                | (Inr (raw, path), db) \<Rightarrow>
                    (rbind (map_err ConfigErr (HasReferences Y raw)) (\<lambda>references.
                     if references then Inl ReferencesNeedConsole
                     else Inr (raw, if is_regular os fs path then path else [])), db))"

definition ValidateChain ::
  "yaml \<Rightarrow> ('d, 'g, 'm) sdl_lib \<Rightarrow> sdk \<Rightarrow> ('b, 'v) store_access \<Rightarrow> os \<Rightarrow> fs \<Rightarrow> DeploymentInputs \<Rightarrow> string \<Rightarrow> (string \<times> string) list \<Rightarrow> 'b db \<Rightarrow>
     ad_err option \<times> 'b db" where
  "ValidateChain Y L K A os fs d owner params db =
     (case prepareChain Y A os fs d owner params db of
        (Inl e, db) \<Rightarrow> (Some e, db)
      | (Inr (raw, _), db) \<Rightarrow>
          ((case readSDL L os fs raw of
              Inl e \<Rightarrow> Some e
            | Inr document \<Rightarrow>
                let deposit = prm params ''deposit'' in
                if deposit = [] \<or> deposit = depositAuto then None
                else case ParseDecCoin K deposit of
                  None \<Rightarrow> Some (ParseResolvedDeposit deposit)
                | Some (denom, _) \<Rightarrow>
                    (case List.find (\<lambda>g. sdGroupDenom L g \<noteq> denom) (case sdGroups L document of Inl _ \<Rightarrow> [] | Inr gs \<Rightarrow> gs) of
                       None \<Rightarrow> None
                     | Some g \<Rightarrow> Some (DenomMismatch (sdGroupDenom L g) denom (sdGroupName L g)))), db))"

end
