(* ===== verification/Chain_Adapter.thy ===== *)
theory Chain_Adapter
  imports Deployment_Inputs
begin

text \<open>
  The workflow's client of the chain (\<open>src/internal/workflow/adapters/msgs.go\<close>, \<open>chain.go\<close>, and
  \<open>src/internal/provider/metadata.go\<close>): how a transaction step becomes a message, and a query step a
  query with filters.

  The messages are the fields that the code fills in.  The node is a parameter, in \<open>chain_api\<close>: what
  it answers to each query and to a broadcast, the basic validation of messages, and the codecs.
  \<open>chain_world\<close> has the context's database, the inputs of the run and the messages that were broadcast.
\<close>

section \<open>Messages\<close>

record DeploymentMsgID =
  dmOwner :: string
  dmDSeq :: u64

datatype deposit_source = SourceGrant | SourceBalance

record 'c ChainDeposit =
  cdepAmount :: 'c
  cdepSources :: "deposit_source list"

datatype ('g, 'c) chain_msg =
    MsgCreateDeployment DeploymentMsgID string "'g list" "'c ChainDeposit"
  | MsgUpdateDeployment DeploymentMsgID string
  | MsgCloseDeployment DeploymentMsgID
  | MsgCreateLease BidID

record TxResponse =
  trTxHash :: string
  trHeight :: int
  trCode :: u32
  trRawLog :: string

record chain_filters =
  cfOwner :: string
  cfProvider :: string
  cfState :: string
  cfDSeq :: u64
  cfGSeq :: u32
  cfOSeq :: u32

record ('g, 'c, 'r) chain_api =
  caFrom :: string
  caSyncInfo :: "string + bool \<times> int"
  caMinDeposits :: "string + (string \<times> string) list"
  caExistingGroups :: "DeploymentMsgID \<Rightarrow> string + 'g list"
  caParseCoin :: "string \<Rightarrow> string + 'c"
  caValidate :: "('g, 'c) chain_msg \<Rightarrow> string option"
  caBroadcast :: "('g, 'c) chain_msg \<Rightarrow> string + TxResponse option"
  caMarshalData :: "(string \<times> string) list \<Rightarrow> string option"
  caBids :: "chain_filters \<Rightarrow> string + 'r"
  caBidProviders :: "'r \<Rightarrow> string list"
  caLeases :: "chain_filters \<Rightarrow> string + 'r"
  caDeployments :: "chain_filters \<Rightarrow> string + 'r"
  caCodecJSON :: "('r \<Rightarrow> string option) option"
  caJSON :: "'r \<Rightarrow> string option"
  caProviderAttributes :: "string \<Rightarrow> (string \<times> string) list option"
  caAudits :: "string \<Rightarrow> nat option"
  caAttach :: "string \<Rightarrow> (string \<times> (string \<rightharpoonup> string) \<times> bool) list \<Rightarrow> string option"

definition msgCreateDeployment :: string where "msgCreateDeployment = ''deployment.MsgCreateDeployment''"

definition msgUpdateDeployment :: string where "msgUpdateDeployment = ''deployment.MsgUpdateDeployment''"

definition msgCloseDeployment :: string where "msgCloseDeployment = ''deployment.MsgCloseDeployment''"

definition msgCreateLease :: string where "msgCreateLease = ''market.MsgCreateLease''"

lemmas msg_names = msgCreateDeployment_def msgUpdateDeployment_def msgCloseDeployment_def msgCreateLease_def

definition outside :: "string + 'a \<Rightarrow> ad_err + 'a" where
  "outside r = map_err Outside r"

definition validated :: "('g, 'c, 'r) chain_api \<Rightarrow> ('g, 'c) chain_msg \<Rightarrow> ad_err + ('g, 'c) chain_msg" where
  "validated N m = (case caValidate N m of Some e \<Rightarrow> Inl (Outside e) | None \<Rightarrow> Inr m)"

definition buildCreateDeploymentMsg ::
  "('d, 'g, 'm) sdl_lib \<Rightarrow> os \<Rightarrow> fs \<Rightarrow> ('g, 'c, 'r) chain_api \<Rightarrow> string \<Rightarrow> string \<Rightarrow> u64 \<Rightarrow> 'c ChainDeposit \<Rightarrow> ad_err + ('g, 'c) chain_msg" where
  "buildCreateDeploymentMsg L os fs N owner sdlPath dseq dep =
     (if sdlPath = [] then Inl (InMsg msgCreateDeployment (MissingParam ''sdl''))
      else if dseq = 0 then Inl (ZeroSequence msgCreateDeployment)
      else rbind (map_err ReadingSDL (readSDL L os fs sdlPath)) (\<lambda>document.
           rbind (outside (sdGroups L document)) (\<lambda>groups.
           rbind (outside (sdVersion L document)) (\<lambda>version.
           validated N (MsgCreateDeployment \<lparr>dmOwner = owner, dmDSeq = dseq\<rparr> version groups dep)))))"

text \<open>\<open>prepared\<close> is the optional last argument.\<close>

definition buildUpdateDeploymentMsg ::
  "('d, 'g, 'm) sdl_lib \<Rightarrow> os \<Rightarrow> fs \<Rightarrow> string \<Rightarrow> (string \<times> string) list \<Rightarrow> string option \<Rightarrow> ad_err + (DeploymentMsgID \<times> string) \<times> 'g list" where
  "buildUpdateDeploymentMsg L os fs owner params prepared =
     (let sdlPath = (case prepared of Some s \<Rightarrow> s | None \<Rightarrow> prm params ''sdl'') in
      if sdlPath = [] then Inl (InMsg msgUpdateDeployment (MissingParam ''sdl''))
      else rbind (map_err (InMsg msgUpdateDeployment) (requiredUint64Param params ''dseq'')) (\<lambda>dseq.
           rbind (map_err ReadingSDL (readSDL L os fs sdlPath)) (\<lambda>document.
           rbind (outside (sdVersion L document)) (\<lambda>hash.
           rbind (outside (sdGroups L document)) (\<lambda>groups.
           Inr ((\<lparr>dmOwner = owner, dmDSeq = dseq\<rparr>, hash), groups))))))"

definition buildCloseDeploymentMsg :: "string \<Rightarrow> (string \<times> string) list \<Rightarrow> ad_err + DeploymentMsgID" where
  "buildCloseDeploymentMsg owner params =
     rbind (map_err (InMsg msgCloseDeployment) (requiredUint64Param params ''dseq'')) (\<lambda>dseq. Inr \<lparr>dmOwner = owner, dmDSeq = dseq\<rparr>)"

definition buildCreateLeaseMsg ::
  "('g, 'c, 'r) chain_api \<Rightarrow> string \<Rightarrow> (string \<times> string) list \<Rightarrow> ad_err + BidID" where
  "buildCreateLeaseMsg N owner params =
     rbind (map_err (InMsg msgCreateLease) (requiredUint64Param params ''dseq'')) (\<lambda>dseq.
     let provider = prm params ''provider'' in
     if provider = [] then Inl (InMsg msgCreateLease (MissingParam ''provider''))
     else rbind (map_err (InMsg msgCreateLease) (uint32ParamWithDefault params ''gseq'' 1)) (\<lambda>gseq.
          rbind (map_err (InMsg msgCreateLease) (uint32ParamWithDefault params ''oseq'' 1)) (\<lambda>oseq.
          let bid = \<lparr>biOwner = owner, biDSeq = dseq, biGSeq = gseq, biOSeq = oseq, biProvider = provider\<rparr>
          in rbind (validated N (MsgCreateLease bid)) (\<lambda>_. Inr bid))))"

definition defaultDepositSources :: "deposit_source list" where
  "defaultDepositSources = [SourceGrant, SourceBalance]"

definition depositFromString :: "('g, 'c, 'r) chain_api \<Rightarrow> string \<Rightarrow> ad_err + 'c ChainDeposit" where
  "depositFromString N s =
     rbind (map_err (BadDeposit s) (caParseCoin N s)) (\<lambda>coin. Inr \<lparr>cdepAmount = coin, cdepSources = defaultDepositSources\<rparr>)"

section \<open>Broadcasting\<close>

record ('b, 'g, 'c) chain_world =
  cwDB :: "'b db"
  cwInputs :: DeploymentInputs
  cwSent :: "('g, 'c) chain_msg list"

definition deriveDSeq :: "('g, 'c, 'r) chain_api \<Rightarrow> (string \<times> string) list \<Rightarrow> ad_err + u64" where
  "deriveDSeq N params =
     (let v = prm params ''dseq'' in
      if v \<noteq> [] then (case parse_uint 64 v of Inl e \<Rightarrow> Inl (ParseParam ''dseq'' e) | Inr n \<Rightarrow> Inr (of_nat n))
      else rbind (outside (caSyncInfo N)) (\<lambda>(catchingUp, height).
           if catchingUp then Inl HeightCatchingUp else Inr (word_of_int height)))"

definition ResolveChainDepositValue :: "('g, 'c, 'r) chain_api \<Rightarrow> string \<Rightarrow> ad_err + string" where
  "ResolveChainDepositValue N depositStr =
     (if depositStr \<noteq> [] \<and> depositStr \<noteq> depositAuto then Inr depositStr
      else rbind (outside (caMinDeposits N)) (\<lambda>coins.
           case List.find (\<lambda>(denom, _). denom = ''uact'') coins of
             None \<Rightarrow> Inl NoMinimumDeposit
           | Some (denom, amount) \<Rightarrow> Inr (amount @ denom)))"

definition resolveDeposit :: "('g, 'c, 'r) chain_api \<Rightarrow> string \<Rightarrow> ad_err + 'c ChainDeposit" where
  "resolveDeposit N depositStr = rbind (ResolveChainDepositValue N depositStr) (depositFromString N)"

definition verifyGroupsUnchanged ::
  "('d, 'g, 'm) sdl_lib \<Rightarrow> ('g, 'c, 'r) chain_api \<Rightarrow> DeploymentMsgID \<Rightarrow> 'g list \<Rightarrow> ad_err option" where
  "verifyGroupsUnchanged L N ident groups =
     (case caExistingGroups N ident of
        Inl e \<Rightarrow> Some (Outside e)
      | Inr existing \<Rightarrow>
          if length existing \<noteq> length groups \<or> \<not> list_all2 (sdGroupEqual L) existing groups then Some GroupsChanged else None)"

definition broadcast ::
  "('g, 'c, 'r) chain_api \<Rightarrow> ('g, 'c) chain_msg \<Rightarrow> (string \<times> string) list \<Rightarrow> ('b, 'g, 'c) chain_world \<Rightarrow> (ad_err + TxResult) \<times> ('b, 'g, 'c) chain_world" where
  "broadcast N msg payload w =
     (let w = w\<lparr>cwSent := cwSent w @ [msg]\<rparr> in
      (case caBroadcast N msg of
         Inl e \<Rightarrow> Inl (Outside e)
       | Inr None \<Rightarrow> Inl UnexpectedResponse
       | Inr (Some resp) \<Rightarrow>
           if trCode resp \<noteq> 0 then Inl (TxFailed (trCode resp) (trRawLog resp))
           else case caMarshalData N payload of
             None \<Rightarrow> Inl MarshalFailed
           | Some raw \<Rightarrow> Inr \<lparr>txHash = trTxHash resp, txHeight = trHeight resp, txCode = trCode resp, txData = raw\<rparr>, w))"

definition with_path :: "string \<Rightarrow> (string \<times> string) list \<Rightarrow> (string \<times> string) list" where
  "with_path path payload = (if path \<noteq> [] then payload @ [(''sdl_path'', path)] else payload)"

definition identity_data :: "u64 \<Rightarrow> string \<Rightarrow> (string \<times> string) list" where
  "identity_data dseq owner = [(''dseq'', format_uint dseq), (''owner'', owner)]"

definition create_message ::
  "('d, 'g, 'm) sdl_lib \<Rightarrow> os \<Rightarrow> fs \<Rightarrow> ('g, 'c, 'r) chain_api \<Rightarrow> (string \<times> string) list \<Rightarrow> string \<Rightarrow> ad_err + u64 \<times> ('g, 'c) chain_msg" where
  "create_message L os fs N params rawSDL =
     rbind (deriveDSeq N params) (\<lambda>dseq.
     rbind (resolveDeposit N (prm params ''deposit'')) (\<lambda>dep.
     rbind (buildCreateDeploymentMsg L os fs N (caFrom N) rawSDL dseq dep) (\<lambda>m. Inr (dseq, m))))"

definition update_message ::
  "('d, 'g, 'm) sdl_lib \<Rightarrow> os \<Rightarrow> fs \<Rightarrow> ('g, 'c, 'r) chain_api \<Rightarrow> (string \<times> string) list \<Rightarrow> string \<Rightarrow> ad_err + u64 \<times> ('g, 'c) chain_msg" where
  "update_message L os fs N params rawSDL =
     rbind (buildUpdateDeploymentMsg L os fs (caFrom N) params (Some rawSDL)) (\<lambda>((ident, hash), groups).
     case verifyGroupsUnchanged L N ident groups of
       Some e \<Rightarrow> Inl e
     | None \<Rightarrow> Inr (dmDSeq ident, MsgUpdateDeployment ident hash))"

text \<open>A create and an update: prepare the SDL, build the message from it, remember the SDL, broadcast.\<close>

definition deploy_tx ::
  "yaml \<Rightarrow> ('b, 'v) store_access \<Rightarrow> os \<Rightarrow> fs \<Rightarrow> ('g, 'c, 'r) chain_api \<Rightarrow> (string \<times> string) list \<Rightarrow> (string \<Rightarrow> ad_err + u64 \<times> ('g, 'c) chain_msg) \<Rightarrow>
     (string \<Rightarrow> string) \<Rightarrow> ('b, 'g, 'c) chain_world \<Rightarrow> (ad_err + TxResult) \<times> ('b, 'g, 'c) chain_world" where
  "deploy_tx Y A os fs N params message shown w =
     (case prepareChain Y A os fs (cwInputs w) (caFrom N) params (cwDB w) of
        (Inl e, db) \<Rightarrow> (Inl e, w\<lparr>cwDB := db\<rparr>)
      | (Inr (rawSDL, path), db) \<Rightarrow>
          (case message rawSDL of
             Inl e \<Rightarrow> (Inl e, w\<lparr>cwDB := db\<rparr>)
           | Inr (dseq, m) \<Rightarrow>
               broadcast N m (with_path (shown path) (identity_data dseq (caFrom N)))
                 (w\<lparr>cwDB := db, cwInputs := remember dseq rawSDL (cwInputs w)\<rparr>)))"

definition chain_BroadcastTx ::
  "yaml \<Rightarrow> ('d, 'g, 'm) sdl_lib \<Rightarrow> ('b, 'v) store_access \<Rightarrow> os \<Rightarrow> fs \<Rightarrow> ('g, 'c, 'r) chain_api \<Rightarrow> string \<Rightarrow> (string \<times> string) list \<Rightarrow>
     ('b, 'g, 'c) chain_world \<Rightarrow> (ad_err + TxResult) \<times> ('b, 'g, 'c) chain_world" where
  "chain_BroadcastTx Y L A os fs N msgType params w =
     (let owner = caFrom N in
      if msgType = msgCreateDeployment then
        deploy_tx Y A os fs N params (create_message L os fs N params) (\<lambda>path. path) w
      else if msgType = msgUpdateDeployment then
        deploy_tx Y A os fs N params (update_message L os fs N params) (\<lambda>path. if prm params ''patch'' \<noteq> ''true'' then path else []) w
      else if msgType = msgCloseDeployment then
        (case buildCloseDeploymentMsg owner params of
           Inl e \<Rightarrow> (Inl e, w)
         | Inr ident \<Rightarrow> broadcast N (MsgCloseDeployment ident) (identity_data (dmDSeq ident) owner) w)
      else if msgType = msgCreateLease then
        (case buildCreateLeaseMsg N owner params of
           Inl e \<Rightarrow> (Inl e, w)
         | Inr bid \<Rightarrow>
             broadcast N (MsgCreateLease bid)
               [(''dseq'', format_uint (biDSeq bid)), (''gseq'', format_uint (biGSeq bid)), (''oseq'', format_uint (biOSeq bid)),
                (''provider'', biProvider bid), (''owner'', owner)] w)
      else (Inl (UnsupportedMsg msgType), w))"

section \<open>Queries\<close>

definition attributeMap :: "(string \<times> string) list \<Rightarrow> string \<rightharpoonup> string" where
  "attributeMap attributes = fold (\<lambda>(k, v) m. m(k \<mapsto> v)) attributes Map.empty"

text \<open>The providers that both queries answered for, in the order of their addresses.\<close>

definition FetchChainMetadata :: "('g, 'c, 'r) chain_api \<Rightarrow> string list \<Rightarrow> (string \<times> (string \<rightharpoonup> string) \<times> bool) list" where
  "FetchChainMetadata N owners =
     List.map_filter (\<lambda>owner.
       case caProviderAttributes N owner of
         None \<Rightarrow> None
       | Some attributes \<Rightarrow>
           (case caAudits N owner of None \<Rightarrow> None | Some n \<Rightarrow> Some (owner, attributeMap attributes, 0 < n)))
       (sort (remdups (filter (\<lambda>owner. owner \<noteq> []) owners)))"

text \<open>\<open>caAttach\<close> decodes the response, sets the member and encodes it again.\<close>

definition attachProviderMetadata :: "('g, 'c, 'r) chain_api \<Rightarrow> string \<Rightarrow> (string \<times> (string \<rightharpoonup> string) \<times> bool) list \<Rightarrow> ad_err + string" where
  "attachProviderMetadata N raw metadata = (if metadata = [] then Inr raw else of_opt MarshalFailed (caAttach N raw metadata))"

definition marshalJSON :: "('g, 'c, 'r) chain_api \<Rightarrow> 'r \<Rightarrow> ad_err + string" where
  "marshalJSON N msg =
     (case caCodecJSON N of
        Some cdc \<Rightarrow> (case cdc msg of Some bz \<Rightarrow> Inr bz | None \<Rightarrow> of_opt MarshalFailed (caJSON N msg))
      | None \<Rightarrow> of_opt MarshalFailed (caJSON N msg))"

definition market_filters :: "(string \<times> string) list \<Rightarrow> ad_err + chain_filters" where
  "market_filters params =
     rbind (optionalUint64Param params ''dseq'') (\<lambda>dseq.
     rbind (optionalUint32Param params ''gseq'') (\<lambda>gseq.
     rbind (optionalUint32Param params ''oseq'') (\<lambda>oseq.
     Inr \<lparr>cfOwner = prm params ''owner'', cfProvider = prm params ''provider'', cfState = prm params ''state'',
          cfDSeq = dseq, cfGSeq = gseq, cfOSeq = oseq\<rparr>)))"

definition chain_Query :: "('g, 'c, 'r) chain_api \<Rightarrow> string \<Rightarrow> (string \<times> string) list \<Rightarrow> ad_err + string" where
  "chain_Query N path params =
     (if path = ''market.bids'' then
        rbind (market_filters params) (\<lambda>filters.
        rbind (map_err (QueryErr path) (caBids N filters)) (\<lambda>res.
        rbind (marshalJSON N res) (\<lambda>raw.
        attachProviderMetadata N raw (FetchChainMetadata N (caBidProviders N res)))))
      else if path = ''market.leases'' then
        rbind (market_filters params) (\<lambda>filters.
        rbind (map_err (QueryErr path) (caLeases N filters)) (marshalJSON N))
      else if path = ''deployment.deployments'' then
        rbind (optionalUint64Param params ''dseq'') (\<lambda>dseq.
        rbind (map_err (QueryErr path) (caDeployments N
          \<lparr>cfOwner = prm params ''owner'', cfProvider = [], cfState = prm params ''state'', cfDSeq = dseq, cfGSeq = 0, cfOSeq = 0\<rparr>)) (marshalJSON N))
      else Inl (UnsupportedQuery path))"

end
