(* ===== verification/Provider_Adapter.thy ===== *)
theory Provider_Adapter
  imports Chain_Adapter
begin

text \<open>
  The workflow's client of the provider gateways (\<open>src/internal/workflow/adapters/provider.go\<close>): sending of
  manifests to one provider or to all providers with an active lease, and the status of a lease.

  Parameters, in \<open>prov_api\<close>: the address codec, the provider's record on chain, the gateway of the REST
  client and the pages of leases.  The trace of a call is the list of manifests handed to gateways, each
  with the gateway's address.
\<close>

record lease_page =
  lpProviders :: "string list"
  lpNextKey :: "string option"

record ('m, 's) prov_api =
  pvFrom :: string
  pvAddress :: "string \<Rightarrow> bool"
  pvHostURI :: "string \<Rightarrow> string + string"
  pvGateway :: "string \<Rightarrow> string option"
  pvSubmit :: "string \<Rightarrow> u64 \<Rightarrow> 'm \<Rightarrow> string option"
  pvLeaseStatus :: "string \<Rightarrow> LeaseID \<Rightarrow> string + 's"
  pvMarshal :: "'s \<Rightarrow> string option"
  pvLeases :: "string \<Rightarrow> u64 \<Rightarrow> string \<Rightarrow> string + lease_page option"
  pvCancelled :: "nat \<Rightarrow> bool"

datatype prov_err =
    SequenceRequired string | OwnerRequired | InputErr ad_err | BuildManifest string
  | InvalidProvider string | QueryProvider string string | NoHostURI string | GatewayErr string | SubmitErr string
  | LeaseQuery u64 string | EmptyLeasePage u64 | RepeatedPageKey u64 | ContextEnded | ForProvider string prov_err
  | StatusErr string | MarshalStatus

definition defaultGSeq :: u32 where "defaultGSeq = 1"

definition defaultOSeq :: u32 where "defaultOSeq = 1"

section \<open>Gateways\<close>

definition providerHostURI :: "('m, 's) prov_api \<Rightarrow> string \<Rightarrow> prov_err + string" where
  "providerHostURI P provider =
     rbind (map_err (QueryProvider provider) (pvHostURI P provider)) (\<lambda>hostURI.
     if hostURI = [] then Inl (NoHostURI provider) else Inr hostURI)"

text \<open>A gateway client is the address it was made for.\<close>

definition gatewayClient :: "('m, 's) prov_api \<Rightarrow> string \<Rightarrow> prov_err + string" where
  "gatewayClient P provider =
     (if \<not> pvAddress P provider then Inl (InvalidProvider provider)
      else rbind (providerHostURI P provider) (\<lambda>hostURI.
        case pvGateway P hostURI of Some e \<Rightarrow> Inl (GatewayErr e) | None \<Rightarrow> Inr hostURI))"

definition manifestFromSDL :: "('d, 'g, 'm) sdl_lib \<Rightarrow> os \<Rightarrow> fs \<Rightarrow> string \<Rightarrow> prov_err + 'm" where
  "manifestFromSDL L os fs sdlData =
     rbind (map_err InputErr (readSDL L os fs sdlData)) (\<lambda>document. map_err BuildManifest (sdManifest L document))"

definition submitManifest ::
  "('m, 's) prov_api \<Rightarrow> string \<Rightarrow> u64 \<Rightarrow> 'm \<Rightarrow> (string \<times> u64 \<times> 'm) list \<Rightarrow> prov_err option \<times> (string \<times> u64 \<times> 'm) list" where
  "submitManifest P provider dseq mani sent =
     (case gatewayClient P provider of
        Inl e \<Rightarrow> (Some e, sent)
      | Inr gateway \<Rightarrow> (map_option SubmitErr (pvSubmit P gateway dseq mani), sent @ [(gateway, dseq, mani)]))"

definition SendManifest ::
  "('d, 'g, 'm) sdl_lib \<Rightarrow> os \<Rightarrow> fs \<Rightarrow> ('m, 's) prov_api \<Rightarrow> DeploymentInputs \<Rightarrow> string \<Rightarrow> u64 \<Rightarrow> string \<Rightarrow> (string \<times> u64 \<times> 'm) list \<Rightarrow>
     prov_err option \<times> (string \<times> u64 \<times> 'm) list" where
  "SendManifest L os fs P d provider dseq sdlData sent =
     (if dseq = 0 then (Some (SequenceRequired ''send manifest''), sent)
      else case manifestFromSDL L os fs (providerSDL d dseq sdlData) of
        Inl e \<Rightarrow> (Some e, sent)
      | Inr mani \<Rightarrow> submitManifest P provider dseq mani sent)"

section \<open>Active leases\<close>

text \<open>
  The loop over the pages of active leases, with the keys seen so far; \<open>None\<close> when the fuel
  is used up.
\<close>

fun lease_pages ::
  "nat \<Rightarrow> (string \<Rightarrow> string + lease_page option) \<Rightarrow> u64 \<Rightarrow> string list \<Rightarrow> string list \<Rightarrow> string \<Rightarrow> (prov_err + string list) option" where
  "lease_pages 0 fetch dseq providers seen pageKey = None"
| "lease_pages (Suc fuel) fetch dseq providers seen pageKey =
     (case fetch pageKey of
        Inl e \<Rightarrow> Some (Inl (LeaseQuery dseq e))
      | Inr None \<Rightarrow> Some (Inl (EmptyLeasePage dseq))
      | Inr (Some response) \<Rightarrow>
          let providers = providers @ filter (\<lambda>p. p \<noteq> []) (lpProviders response);
              nextKey = (case lpNextKey response of None \<Rightarrow> [] | Some k \<Rightarrow> k)
          in if length nextKey = 0 then Some (Inr providers)
             else if nextKey \<in> set seen then Some (Inl (RepeatedPageKey dseq))
             else lease_pages fuel fetch dseq providers (nextKey # seen) nextKey)"

definition activeLeaseProviders ::
  "nat \<Rightarrow> string \<Rightarrow> u64 \<Rightarrow> (string \<Rightarrow> u64 \<Rightarrow> string \<Rightarrow> string + lease_page option) \<Rightarrow> (prov_err + string list) option" where
  "activeLeaseProviders fuel owner dseq fetch =
     map_option (map_sum id (\<lambda>ps. sort (remdups ps))) (lease_pages fuel (fetch owner dseq) dseq [] [] [])"

text \<open>Every provider is tried; the context is looked at before each one.\<close>

fun sendManifestToProviders ::
  "(nat \<Rightarrow> bool) \<Rightarrow> (string \<Rightarrow> 'w \<Rightarrow> prov_err option \<times> 'w) \<Rightarrow> nat \<Rightarrow> string list \<Rightarrow> 'w \<Rightarrow> (string list \<times> prov_err list) \<times> 'w" where
  "sendManifestToProviders cancelled submit i [] w = (([], []), w)"
| "sendManifestToProviders cancelled submit i (provider # rest) w =
     (if cancelled i then (([], [ContextEnded]), w)
      else case submit provider w of
        (r, w) \<Rightarrow>
          (case sendManifestToProviders cancelled submit (Suc i) rest w of
             ((sent, failures), w) \<Rightarrow>
               (case r of
                  Some e \<Rightarrow> ((sent, ForProvider provider e # failures), w)
                | None \<Rightarrow> ((provider # sent, failures), w))))"

text \<open>\<open>errors.Join\<close> of no errors is nil; the error list stands for the joined error.\<close>

definition SendManifestToActiveLeases ::
  "('d, 'g, 'm) sdl_lib \<Rightarrow> os \<Rightarrow> fs \<Rightarrow> ('m, 's) prov_api \<Rightarrow> nat \<Rightarrow> DeploymentInputs \<Rightarrow> u64 \<Rightarrow> string \<Rightarrow> (string \<times> u64 \<times> 'm) list \<Rightarrow>
     (string list \<times> prov_err list) option \<times> (string \<times> u64 \<times> 'm) list" where
  "SendManifestToActiveLeases L os fs P fuel d dseq sdlData trace =
     (if dseq = 0 then (Some ([], [SequenceRequired ''send manifest to active leases'']), trace)
      else if pvFrom P = [] then (Some ([], [OwnerRequired]), trace)
      else case manifestFromSDL L os fs (providerSDL d dseq sdlData) of
        Inl e \<Rightarrow> (Some ([], [e]), trace)
      | Inr mani \<Rightarrow>
          (case activeLeaseProviders fuel (pvFrom P) dseq (pvLeases P) of
             None \<Rightarrow> (None, trace)
           | Some (Inl e) \<Rightarrow> (Some ([], [e]), trace)
           | Some (Inr providers) \<Rightarrow>
               (case sendManifestToProviders (pvCancelled P) (\<lambda>provider. submitManifest P provider dseq mani) 0 providers trace of
                  (r, trace) \<Rightarrow> (Some r, trace))))"

definition adapter_LeaseStatus :: "('m, 's) prov_api \<Rightarrow> string \<Rightarrow> u64 \<Rightarrow> prov_err + string" where
  "adapter_LeaseStatus P provider dseq =
     (if dseq = 0 then Inl (SequenceRequired ''lease status'')
      else rbind (gatewayClient P provider) (\<lambda>gateway.
           rbind (map_err StatusErr (pvLeaseStatus P gateway
             \<lparr>liOwner = pvFrom P, liDSeq = dseq, liGSeq = defaultGSeq, liOSeq = defaultOSeq, liProvider = provider\<rparr>)) (\<lambda>status.
           of_opt MarshalStatus (pvMarshal P status))))"

end
