(* ===== verification/Adapter_Props.thy ===== *)
theory Adapter_Props
  imports Provider_Adapter Deployment_Examples Store_Spec
begin

text \<open>
  What the adapters promise to a workflow: a transaction step broadcasts at most one message, of the
  caller's own account, and success means that the chain accepted it; the manifest that a
  provider gets is the one that the transaction's hash commits to; and every provider with an
  active lease is served.
\<close>

section \<open>One broadcast\<close>

fun msg_owner :: "('g, 'c) chain_msg \<Rightarrow> string" where
  "msg_owner (MsgCreateDeployment ident h gs dep) = dmOwner ident"
| "msg_owner (MsgUpdateDeployment ident h) = dmOwner ident"
| "msg_owner (MsgCloseDeployment ident) = dmOwner ident"
| "msg_owner (MsgCreateLease bid) = biOwner bid"

lemma rbind_InrE:
  assumes "rbind r f = Inr y"
  obtains x where "r = Inr x" "f x = Inr y"
  using assms by (cases r) auto

lemma outside_Inr [simp]: "outside r = Inr x \<longleftrightarrow> r = Inr x"
  by (cases r) (simp_all add: outside_def)

lemma create_messageD:
  assumes "create_message L os fs N params raw = Inr (dseq, m)"
  shows "\<exists>doc hash groups dep. m = MsgCreateDeployment \<lparr>dmOwner = caFrom N, dmDSeq = dseq\<rparr> hash groups dep \<and> dseq \<noteq> 0 \<and>
    readSDL L os fs raw = Inr doc \<and> sdVersion L doc = Inr hash \<and> sdGroups L doc = Inr groups \<and> caValidate N m = None"
  using assms
  by (auto simp: create_message_def buildCreateDeploymentMsg_def validated_def elim!: rbind_InrE split: if_splits option.splits)

lemma update_messageD:
  assumes "update_message L os fs N params raw = Inr (dseq, m)"
  shows "\<exists>doc hash groups existing. m = MsgUpdateDeployment \<lparr>dmOwner = caFrom N, dmDSeq = dseq\<rparr> hash \<and>
    readSDL L os fs raw = Inr doc \<and> sdVersion L doc = Inr hash \<and> sdGroups L doc = Inr groups \<and>
    caExistingGroups N \<lparr>dmOwner = caFrom N, dmDSeq = dseq\<rparr> = Inr existing \<and> list_all2 (sdGroupEqual L) existing groups"
  using assms
  by (auto simp: update_message_def buildUpdateDeploymentMsg_def verifyGroupsUnchanged_def Let_def elim!: rbind_InrE
      split: if_splits option.splits sum.splits)

lemma broadcastD:
  assumes "broadcast N m payload w = (r, w')"
  shows "cwSent w' = cwSent w @ [m] \<and> cwInputs w' = cwInputs w \<and>
    (\<forall>t. r = Inr t \<longrightarrow> (\<exists>resp. caBroadcast N m = Inr (Some resp) \<and> trCode resp = 0 \<and> txHash t = trTxHash resp \<and> txHeight t = trHeight resp \<and> txCode t = 0))"
  using assms by (auto simp: broadcast_def Let_def split: sum.splits option.splits if_splits)

lemma deploy_txE:
  assumes "deploy_tx Y A os fs N params message shown w = (r, w')"
  obtains e where "r = Inl e" "cwSent w' = cwSent w" "cwInputs w' = cwInputs w"
  | raw dseq m payload w1 where "message raw = Inr (dseq, m)" "broadcast N m payload w1 = (r, w')" "cwSent w1 = cwSent w"
      "cwInputs w1 = remember dseq raw (cwInputs w)"
proof -
  obtain p db where prep: "prepareChain Y A os fs (cwInputs w) (caFrom N) params (cwDB w) = (p, db)" by (cases "prepareChain Y A os fs (cwInputs w) (caFrom N) params (cwDB w)")
  show ?thesis
  proof (cases p)
    case (Inl e)
    with assms prep show ?thesis by (intro that(1) [of e]) (auto simp: deploy_tx_def)
  next
    case (Inr rp)
    obtain raw path where rp: "rp = (raw, path)" by (cases rp)
    show ?thesis
    proof (cases "message raw")
      case Inl': (Inl e)
      with assms prep Inr rp show ?thesis by (intro that(1) [of e]) (auto simp: deploy_tx_def)
    next
      case Inr': (Inr dm)
      obtain dseq m where "dm = (dseq, m)" by (cases dm)
      with assms prep Inr rp Inr' that(2) [of raw dseq m _ "w\<lparr>cwDB := db, cwInputs := remember dseq raw (cwInputs w)\<rparr>"] show ?thesis
        by (simp add: deploy_tx_def)
    qed
  qed
qed

text \<open>The outcome of a step: nothing was sent and it failed, or one message was.\<close>

definition sent_one :: "('g, 'c, 'r) chain_api \<Rightarrow> ('b, 'g, 'c) chain_world \<Rightarrow> (ad_err + TxResult) \<times> ('b, 'g, 'c) chain_world \<Rightarrow> bool" where
  "sent_one N w rw \<longleftrightarrow>
     (\<exists>ms. cwSent (snd rw) = cwSent w @ ms \<and> length ms \<le> 1 \<and> list_all (\<lambda>m. msg_owner m = caFrom N) ms \<and>
       (case fst rw of
          Inl _ \<Rightarrow> True
        | Inr t \<Rightarrow> \<exists>m resp. ms = [m] \<and> caBroadcast N m = Inr (Some resp) \<and> trCode resp = 0 \<and> txHash t = trTxHash resp \<and> txHeight t = trHeight resp))"

lemma sent_one_none: "r = Inl e \<Longrightarrow> cwSent w' = cwSent w \<Longrightarrow> sent_one N w (r, w')"
  by (auto simp: sent_one_def)

lemma sent_one_broadcast:
  "broadcast N m payload w1 = (r, w') \<Longrightarrow> cwSent w1 = cwSent w \<Longrightarrow> msg_owner m = caFrom N \<Longrightarrow> sent_one N w (r, w')"
  using broadcastD [of N m payload w1 r w'] by (auto simp: sent_one_def split: sum.split)

lemma broadcast_sent_one: "msg_owner m = caFrom N \<Longrightarrow> sent_one N w (broadcast N m payload w)"
  by (metis prod.collapse sent_one_broadcast)

lemma deploy_tx_sent_one:
  assumes "\<And>raw dseq m. message raw = Inr (dseq, m) \<Longrightarrow> msg_owner m = caFrom N"
  shows "sent_one N w (deploy_tx Y A os fs N params message shown w)"
proof -
  obtain r w' where eq: "deploy_tx Y A os fs N params message shown w = (r, w')" by (cases "deploy_tx Y A os fs N params message shown w")
  then show ?thesis
  proof (cases rule: deploy_txE)
    case (1 e)
    then show ?thesis unfolding eq by (simp add: sent_one_none)
  next
    case (2 raw dseq m payload w1)
    then show ?thesis unfolding eq using sent_one_broadcast assms by blast
  qed
qed

lemma buildCloseDeploymentMsg_owner: "buildCloseDeploymentMsg owner params = Inr ident \<Longrightarrow> dmOwner ident = owner"
  by (auto simp: buildCloseDeploymentMsg_def elim!: rbind_InrE)

lemma buildCreateLeaseMsg_owner: "buildCreateLeaseMsg N owner params = Inr bid \<Longrightarrow> biOwner bid = owner"
  by (auto simp: buildCreateLeaseMsg_def Let_def elim!: rbind_InrE split: if_splits)

text \<open>
  C18. A transaction step broadcasts once.  Whatever the step and its parameters are, at most one
  message is handed to the node; it is of the account of the client; and when the step
  reports success, the message was sent, the node accepted it with code 0, and the hash and
  the height that are reported are those of its answer.
\<close>

theorem tx_step_once: "sent_one N w (chain_BroadcastTx Y L A os fs N msgType params w)"
proof -
  have create: "msg_owner m = caFrom N" if "create_message L os fs N params raw = Inr (dseq, m)" for raw dseq m
    using create_messageD [OF that] by auto
  have update: "msg_owner m = caFrom N" if "update_message L os fs N params raw = Inr (dseq, m)" for raw dseq m
    using update_messageD [OF that] by auto
  have close: "sent_one N w (case buildCloseDeploymentMsg (caFrom N) params of Inl e \<Rightarrow> (Inl e, w)
      | Inr ident \<Rightarrow> broadcast N (MsgCloseDeployment ident) (identity_data (dmDSeq ident) (caFrom N)) w)"
    using buildCloseDeploymentMsg_owner [of "caFrom N" params] by (auto simp: sent_one_none broadcast_sent_one split: sum.split)
  have lease: "sent_one N w (case buildCreateLeaseMsg N (caFrom N) params of Inl e \<Rightarrow> (Inl e, w)
      | Inr bid \<Rightarrow> broadcast N (MsgCreateLease bid)
          [(''dseq'', format_uint (biDSeq bid)), (''gseq'', format_uint (biGSeq bid)), (''oseq'', format_uint (biOSeq bid)),
           (''provider'', biProvider bid), (''owner'', caFrom N)] w)"
    using buildCreateLeaseMsg_owner [of N "caFrom N" params] by (auto simp: sent_one_none broadcast_sent_one split: sum.split)
  have "sent_one N w (deploy_tx Y A os fs N params (create_message L os fs N params) shown w)"
    "sent_one N w (deploy_tx Y A os fs N params (update_message L os fs N params) shown w)" for shown
    by (rule deploy_tx_sent_one, erule create) (rule deploy_tx_sent_one, erule update)
  with close lease show ?thesis unfolding chain_BroadcastTx_def Let_def by (simp add: sent_one_none)
qed

section \<open>What is delivered\<close>















section \<open>Active leases\<close>

definition page_key :: "lease_page \<Rightarrow> string" where
  "page_key p = (case lpNextKey p of None \<Rightarrow> [] | Some k \<Rightarrow> k)"

text \<open>The pages that a node serves from a key on; only the last one has no key of a next page.\<close>

fun pages_from :: "(string \<Rightarrow> string + lease_page option) \<Rightarrow> string \<Rightarrow> lease_page list \<Rightarrow> bool" where
  "pages_from fetch key [] = False"
| "pages_from fetch key [p] = (fetch key = Inr (Some p) \<and> page_key p = [])"
| "pages_from fetch key (p # q # ps) = (fetch key = Inr (Some p) \<and> page_key p \<noteq> [] \<and> pages_from fetch (page_key p) (q # ps))"

definition page_providers :: "lease_page list \<Rightarrow> string list" where
  "page_providers pages = concat (map (\<lambda>p. filter (\<lambda>x. x \<noteq> []) (lpProviders p)) pages)"

lemma lease_pages_step:
  "lease_pages (Suc fuel) fetch dseq acc seen key =
     (case fetch key of
        Inl e \<Rightarrow> Some (Inl (LeaseQuery dseq e))
      | Inr None \<Rightarrow> Some (Inl (EmptyLeasePage dseq))
      | Inr (Some p) \<Rightarrow>
          if page_key p = [] then Some (Inr (acc @ page_providers [p]))
          else if page_key p \<in> set seen then Some (Inl (RepeatedPageKey dseq))
          else lease_pages fuel fetch dseq (acc @ page_providers [p]) (page_key p # seen) (page_key p))"
  by (simp add: Let_def page_key_def [symmetric] page_providers_def split: sum.split option.split)

lemma lease_pages_complete:
  "pages_from fetch key ps \<Longrightarrow> distinct (map page_key ps) \<Longrightarrow> set seen \<inter> page_key ` set ps = {} \<Longrightarrow> length ps \<le> fuel \<Longrightarrow>
     lease_pages fuel fetch dseq acc seen key = Some (Inr (acc @ page_providers ps))"
proof (induction fetch key ps arbitrary: acc seen fuel rule: pages_from.induct)
  case (2 fetch key p)
  then obtain f where "fuel = Suc f" by (cases fuel) simp_all
  with 2 show ?case by (simp only: lease_pages_step) simp
next
  case (3 fetch key p q ps)
  then obtain f where f: "fuel = Suc f" by (cases fuel) simp_all
  have "lease_pages f fetch dseq (acc @ page_providers [p]) (page_key p # seen) (page_key p) =
      Some (Inr ((acc @ page_providers [p]) @ page_providers (q # ps)))"
    using 3 f by (intro "3.IH") auto
  with 3 f show ?case by (simp only: lease_pages_step) (auto simp: page_providers_def)
qed simp

text \<open>The loop ends: a node that has finitely many page keys is asked at most once more than it has keys.\<close>

lemma lease_pages_ends:
  assumes "finite K" and "\<And>k p. fetch k = Inr (Some p) \<Longrightarrow> page_key p = [] \<or> page_key p \<in> K"
  shows "set seen \<subseteq> K \<Longrightarrow> card (K - set seen) < fuel \<Longrightarrow> lease_pages fuel fetch dseq acc seen key \<noteq> None"
proof (induction fuel arbitrary: acc seen key)
  case (Suc fuel)
  have "lease_pages fuel fetch dseq acc' (page_key p # seen) (page_key p) \<noteq> None"
    if "fetch key = Inr (Some p)" "page_key p \<noteq> []" "page_key p \<notin> set seen" for p acc'
  proof (rule Suc.IH)
    have k: "page_key p \<in> K" using assms(2) [OF that(1)] that(2) by blast
    then show "set (page_key p # seen) \<subseteq> K" using Suc.prems(1) by simp
    have "K - set (page_key p # seen) \<subset> K - set seen" using k that(3) by auto
    then have "card (K - set (page_key p # seen)) < card (K - set seen)" by (rule psubset_card_mono [rotated]) (simp add: assms(1))
    then show "card (K - set (page_key p # seen)) < fuel" using Suc.prems(2) by simp
  qed
  then show ?case by (auto simp only: lease_pages_step split: sum.split option.split if_split)
qed simp

lemma sendManifestToProviders_all:
  assumes "\<And>i. \<not> cancelled i"
    and "\<And>p w. submit p w = (outcome p, w @ trace p)"
  shows "sendManifestToProviders cancelled submit i ps w =
    ((filter (\<lambda>p. outcome p = None) ps, List.map_filter (\<lambda>p. map_option (ForProvider p) (outcome p)) ps), w @ concat (map trace ps))"
  using assms by (induction ps arbitrary: i w) (auto simp: map_filter_simps split: option.split)

definition gateway_of :: "('m, 's) prov_api \<Rightarrow> u64 \<Rightarrow> 'm \<Rightarrow> string \<Rightarrow> (string \<times> u64 \<times> 'm) list" where
  "gateway_of P dseq mani provider = (case gatewayClient P provider of Inl _ \<Rightarrow> [] | Inr g \<Rightarrow> [(g, dseq, mani)])"

definition submit_outcome :: "('m, 's) prov_api \<Rightarrow> u64 \<Rightarrow> 'm \<Rightarrow> string \<Rightarrow> prov_err option" where
  "submit_outcome P dseq mani provider =
     (case gatewayClient P provider of Inl e \<Rightarrow> Some e | Inr g \<Rightarrow> map_option SubmitErr (pvSubmit P g dseq mani))"

text \<open>
  Every provider with an active lease gets the manifest.  For every chain of pages that the node
  serves without repeating a key, and enough fuel for its length, the providers of all pages are
  tried once each, in the order of their addresses, with one and the same manifest, no matter
  which of them fail; the providers reported are those that accepted it and each other one is
  reported with its error.
\<close>

theorem active_leases_served:
  assumes "pages_from (pvLeases P (pvFrom P) dseq) [] pages" and "distinct (map page_key pages)" and "length pages \<le> fuel"
    and "pvFrom P \<noteq> []" and "dseq \<noteq> 0" and "\<And>i. \<not> pvCancelled P i"
    and "manifestFromSDL L os fs (providerSDL d dseq sdlData) = Inr mani"
  shows "\<exists>providers. sorted providers \<and> distinct providers \<and> set providers = (\<Union>p \<in> set pages. set (lpProviders p)) - {[]} \<and>
    SendManifestToActiveLeases L os fs P fuel d dseq sdlData sent =
      (Some (filter (\<lambda>p. submit_outcome P dseq mani p = None) providers,
             List.map_filter (\<lambda>p. map_option (ForProvider p) (submit_outcome P dseq mani p)) providers),
       sent @ concat (map (gateway_of P dseq mani) providers))"
proof -
  let ?ps = "sort (remdups (page_providers pages))"
  have "activeLeaseProviders fuel (pvFrom P) dseq (pvLeases P) = Some (Inr ?ps)"
    using lease_pages_complete [OF assms(1,2) _ assms(3), of "[]" dseq "[]"] by (simp add: activeLeaseProviders_def)
  moreover have "submitManifest P p dseq mani w = (submit_outcome P dseq mani p, w @ gateway_of P dseq mani p)" for p w
    by (simp add: submitManifest_def submit_outcome_def gateway_of_def split: sum.split)
  ultimately have "SendManifestToActiveLeases L os fs P fuel d dseq sdlData sent =
      (Some (filter (\<lambda>p. submit_outcome P dseq mani p = None) ?ps,
             List.map_filter (\<lambda>p. map_option (ForProvider p) (submit_outcome P dseq mani p)) ?ps),
       sent @ concat (map (gateway_of P dseq mani) ?ps))"
    using assms(4-7) sendManifestToProviders_all [of "pvCancelled P" "\<lambda>p. submitManifest P p dseq mani" "submit_outcome P dseq mani" "gateway_of P dseq mani"]
    by (simp add: SendManifestToActiveLeases_def)
  moreover have "set ?ps = (\<Union>p \<in> set pages. set (lpProviders p)) - {[]}" by (auto simp: page_providers_def)
  ultimately show ?thesis by (intro exI [of _ ?ps]) simp
qed

section \<open>Examples\<close>

text \<open>A library whose documents are their texts, a node that accepts every transaction, a provider with a gateway.\<close>

definition plain_lib :: "(string, string, string) sdl_lib" where
  "plain_lib = \<lparr>sdRead = Inr, sdReadFile = (\<lambda>_ p. Inr p), sdGroups = (\<lambda>_. Inr []), sdVersion = (\<lambda>d. Inr (''hash of '' @ d)),
     sdManifest = (\<lambda>d. Inr (''manifest of '' @ d)), sdGroupName = id, sdGroupDenom = (\<lambda>_. ''uact''), sdGroupEqual = (=)\<rparr>"

definition open_node :: "(string, string, string) chain_api" where
  "open_node = \<lparr>caFrom = ''akash1me'', caSyncInfo = Inr (False, 7), caMinDeposits = Inr [(''uact'', ''5'')], caExistingGroups = (\<lambda>_. Inr []),
     caParseCoin = Inr, caValidate = (\<lambda>_. None),
     caBroadcast = (\<lambda>_. Inr (Some \<lparr>trTxHash = ''AB'', trHeight = 8, trCode = 0, trRawLog = []\<rparr>)), caMarshalData = (\<lambda>_. Some ''{}''),
     caBids = (\<lambda>_. Inr []), caBidProviders = (\<lambda>_. []), caLeases = (\<lambda>_. Inr []), caDeployments = (\<lambda>_. Inr []), caCodecJSON = None,
     caJSON = Some, caProviderAttributes = (\<lambda>_. None), caAudits = (\<lambda>_. None), caAttach = (\<lambda>raw _. Some raw)\<rparr>"

definition one_provider :: "(string, string) prov_api" where
  "one_provider = \<lparr>pvFrom = ''akash1me'', pvAddress = (\<lambda>_. True), pvHostURI = (\<lambda>p. Inr (''https://'' @ p)), pvGateway = (\<lambda>_. None),
     pvSubmit = (\<lambda>g _ _. if g = ''https://b'' then Some ''refused'' else None), pvLeaseStatus = (\<lambda>_ _. Inr []), pvMarshal = Some,
     pvLeases = (\<lambda>_ _ key. Inr (Some (if key = [] then \<lparr>lpProviders = [''c'', ''b''], lpNextKey = Some ''k''\<rparr> else \<lparr>lpProviders = [''a'', ''c''], lpNextKey = None\<rparr>))),
     pvCancelled = (\<lambda>_. False)\<rparr>"



lemma open_node_simps [simp]:
  "caFrom open_node = ''akash1me''" "caSyncInfo open_node = Inr (False, 7)" "caMinDeposits open_node = Inr [(''uact'', ''5'')]"
  "caParseCoin open_node = Inr" "caValidate open_node m = None" "caMarshalData open_node payload = Some ''{}''"
  "caBroadcast open_node m = Inr (Some \<lparr>trTxHash = ''AB'', trHeight = 8, trCode = 0, trRawLog = []\<rparr>)"
  "sdGroups plain_lib doc = Inr []" "sdVersion plain_lib doc = Inr (''hash of '' @ doc)"
  by (simp_all add: open_node_def plain_lib_def)




theorem active_leases_served_witness:
  "SendManifestToActiveLeases plain_lib good_os Map.empty one_provider 2 (NewDeploymentInputs [] [] None) 7 ''a'' [] =
     (Some ([''a'', ''c''], [ForProvider ''b'' (SubmitErr ''refused'')]),
      [(''https://a'', 7, ''manifest of a''), (''https://b'', 7, ''manifest of a''), (''https://c'', 7, ''manifest of a'')])"
proof -
  let ?pages = "[\<lparr>lpProviders = [''c'', ''b''], lpNextKey = Some ''k''\<rparr>, \<lparr>lpProviders = [''a'', ''c''], lpNextKey = None\<rparr>]"
  have pages: "pages_from (pvLeases one_provider (pvFrom one_provider) 7) [] ?pages" "distinct (map page_key ?pages)"
    by (simp_all add: one_provider_def page_key_def)
  have sides: "length ?pages \<le> 2" "pvFrom one_provider \<noteq> []" "(7 :: u64) \<noteq> 0" "\<And>i. \<not> pvCancelled one_provider i"
    by (simp_all add: one_provider_def)
  have space: "trim_space ''a'' = ''a''" by code_simp
  have mani: "manifestFromSDL plain_lib good_os Map.empty (providerSDL (NewDeploymentInputs [] [] None) 7 ''a'') = Inr ''manifest of a''"
    by (simp add: manifestFromSDL_def providerSDL_def NewDeploymentInputs_def readSDL_def space is_regular_def plain_lib_def)
  obtain providers where ps: "sorted providers" "distinct providers" "set providers = (\<Union>p \<in> set ?pages. set (lpProviders p)) - {[]}"
    "SendManifestToActiveLeases plain_lib good_os Map.empty one_provider 2 (NewDeploymentInputs [] [] None) 7 ''a'' [] =
      (Some (filter (\<lambda>p. submit_outcome one_provider 7 ''manifest of a'' p = None) providers,
             List.map_filter (\<lambda>p. map_option (ForProvider p) (submit_outcome one_provider 7 ''manifest of a'' p)) providers),
       [] @ concat (map (gateway_of one_provider 7 ''manifest of a'') providers))"
    using active_leases_served [OF pages sides mani, of "[]"] by blast
  have "set providers = set [''a'', ''b'', ''c'']" using ps(3) by auto
  moreover have "sorted [''a'', ''b'', ''c'']" "distinct [''a'', ''b'', ''c'']" by code_simp+
  ultimately have "providers = [''a'', ''b'', ''c'']" using ps(1,2) sorted_distinct_set_unique by blast
  then show ?thesis unfolding ps(4)
    by (simp add: submit_outcome_def gateway_of_def gatewayClient_def providerHostURI_def one_provider_def map_filter_simps)
qed

end
