(* ===== verification/Keyring_Manager.thy ===== *)
theory Keyring_Manager
  imports Context_Manager
begin

text \<open>
  Named keyrings (\<open>src/internal/keyring\<close>): which credential store serves a backend, the manager that
  opens keyrings on first use and keeps them, and the keyring that is opened only when a key is
  needed.

  Parameters, in \<open>kr_host\<close>: the operating system's name, the stores that the keyring library has
  and whether a store can be opened alone, and \<open>keyring.New\<close> of the Cosmos SDK.  The names of
  backends and stores are the documented ones (\<open>SPEC.md\<close>, section 1.5).  \<open>kr_world\<close> has the files and
  the calls of \<open>keyring.New\<close> so far, since opening can prompt; the outcome of a call may depend on
  the calls before it.
\<close>

record ('e, 'kr) kr_host =
  hGOOS :: string
  hAvailable :: "string list"
  hPinnedOpen :: "string \<Rightarrow> string \<Rightarrow> string \<Rightarrow> bool"
  hNew :: "nat \<Rightarrow> string \<Rightarrow> string \<Rightarrow> string \<Rightarrow> 'e + 'kr"
  hOS :: os

record kr_world =
  wFiles :: fs
  wOpened :: "(string \<times> string) list"

section \<open>Backends\<close>

definition BackendOS :: string where "BackendOS = ''os''"

definition BackendFile :: string where "BackendFile = ''file''"

definition BackendTest :: string where "BackendTest = ''test''"

definition Backends :: "string list" where
  "Backends = [BackendOS, BackendFile, BackendTest, ''kwallet'', ''pass'', ''memory'']"

lemmas backend_names = BackendOS_def BackendFile_def BackendTest_def Backends_def

datatype 'e kr_err =
    UnknownBackend string | UnavailableBackendError string string "string list" | CreateKeyringDir string os_err
  | SdkRefused 'e | KeyringNotFound string | OpenKeyring string "'e kr_err" | NoKeyringLoaded

definition ValidateBackend :: "string \<Rightarrow> 'e kr_err option" where
  "ValidateBackend backend =
     (if backend = [] then None else if backend \<in> set Backends then None else Some (UnknownBackend backend))"

text \<open>The text of an \<open>UnavailableBackendError\<close>; \<open>quoted\<close> is the verb \<open>%q\<close>.\<close>

definition UnavailableBackendError_Error :: "(string \<Rightarrow> string) \<Rightarrow> string \<Rightarrow> string \<Rightarrow> string list \<Rightarrow> string" where
  "UnavailableBackendError_Error quoted keyring backend expected =
     (let stores = (if 0 < length expected then join_with '' or '' expected else ''none on this platform'') in
      ''keyring '' @ quoted keyring @ '' is configured with backend '' @ quoted backend @
      '', but this host provides no system credential store (looked for '' @ stores @ '')'' @ [CHR 0x0A] @
      ''akt will not silently store keys somewhere else; select a backend this host has:'' @ [CHR 0x0A] @
      ''  akt --keyring-backend file ...            (this invocation only)'' @ [CHR 0x0A] @
      ''  akt context keyring set '' @ keyring @ '' file           (persist the change)'')"

definition systemBackends :: "('e, 'kr) kr_host \<Rightarrow> string list" where
  "systemBackends H =
     (if hGOOS H = ''darwin'' then [''keychain'']
      else if hGOOS H = ''windows'' then [''wincred'']
      else if hGOOS H = ''linux'' then [''secret-service'', ''kwallet'']
      else [])"

definition SystemBackendNames :: "('e, 'kr) kr_host \<Rightarrow> string list" where
  "SystemBackendNames H = systemBackends H"

definition appName :: string where "appName = ''akt''"

text \<open>The first candidate that is registered and opens alone; the empty string when there is none.\<close>

definition resolveSystemBackend :: "('e, 'kr) kr_host \<Rightarrow> string \<Rightarrow> string \<Rightarrow> string" where
  "resolveSystemBackend H serviceName dir =
     (case List.find (\<lambda>backend. backend \<in> set (hAvailable H) \<and> hPinnedOpen H serviceName dir backend) (systemBackends H) of
        Some backend \<Rightarrow> backend | None \<Rightarrow> [])"

definition configured_backend :: "Keyring \<Rightarrow> string" where
  "configured_backend kr = (if kBackend kr = [] then BackendOS else kBackend kr)"

definition EffectiveBackend :: "('e, 'kr) kr_host \<Rightarrow> string \<Rightarrow> Keyring \<Rightarrow> string option" where
  "EffectiveBackend H root kr =
     (let backend = configured_backend kr in
      if backend \<noteq> BackendOS then Some backend
      else let effective = resolveSystemBackend H appName (KeyringDir root kr) in
           if effective = [] then None else Some effective)"

definition SystemKeyringAvailable :: "('e, 'kr) kr_host \<Rightarrow> bool" where
  "SystemKeyringAvailable H \<longleftrightarrow> resolveSystemBackend H appName [] \<noteq> []"

definition ApplyOverrides :: "Keyring list \<Rightarrow> string \<Rightarrow> string \<Rightarrow> Keyring list" where
  "ApplyOverrides keyrings backend dir =
     (if backend = [] \<and> dir = [] then keyrings
      else map (\<lambda>kr. let kr = (if backend \<noteq> [] then kr\<lparr>kBackend := backend\<rparr> else kr)
                     in if dir \<noteq> [] then kr\<lparr>kDir := dir\<rparr> else kr) keyrings)"

section \<open>The manager\<close>

record 'kr KeyringManager =
  kmRoot :: string
  kmCache :: "string \<rightharpoonup> 'kr"
  kmConfigs :: "string \<rightharpoonup> Keyring"

definition configs_of :: "Keyring list \<Rightarrow> string \<rightharpoonup> Keyring" where
  "configs_of keyrings = fold (\<lambda>kr m. m(kName kr \<mapsto> kr)) keyrings Map.empty"

definition NewKeyringManager :: "string \<Rightarrow> Keyring list \<Rightarrow> 'kr KeyringManager" where
  "NewKeyringManager root keyrings = \<lparr>kmRoot = root, kmCache = Map.empty, kmConfigs = configs_of keyrings\<rparr>"

definition manager_open ::
  "('e, 'kr) kr_host \<Rightarrow> 'kr KeyringManager \<Rightarrow> Keyring \<Rightarrow> kr_world \<Rightarrow> ('e kr_err + 'kr) \<times> kr_world" where
  "manager_open H m cfg w =
     (let backend = configured_backend cfg in
      case ValidateBackend backend of
        Some e \<Rightarrow> (Inl e, w)
      | None \<Rightarrow>
          let dir = KeyringDir (kmRoot m) cfg in
          if backend = BackendOS \<and> EffectiveBackend H (kmRoot m) cfg = None then
            (Inl (UnavailableBackendError (if kName cfg = [] then ''default'' else kName cfg) backend (SystemBackendNames H)), w)
          else case (if backend = BackendFile \<or> backend = BackendTest then MkdirAll (hOS H) (wFiles w) dir 448 else (None, wFiles w)) of
            (Some e, files) \<Rightarrow> (Inl (CreateKeyringDir dir e), w\<lparr>wFiles := files\<rparr>)
          | (None, files) \<Rightarrow>
              (map_sum SdkRefused id (hNew H (length (wOpened w)) appName backend dir),
               w\<lparr>wFiles := files, wOpened := wOpened w @ [(backend, dir)]\<rparr>))"

definition open_error :: "string \<Rightarrow> 'e kr_err \<Rightarrow> 'e kr_err" where
  "open_error name e = (case e of UnavailableBackendError k b x \<Rightarrow> e | _ \<Rightarrow> OpenKeyring name e)"

definition manager_Get ::
  "('e, 'kr) kr_host \<Rightarrow> string \<Rightarrow> 'kr KeyringManager \<times> kr_world \<Rightarrow> ('e kr_err + 'kr) \<times> 'kr KeyringManager \<times> kr_world" where
  "manager_Get H name mw =
     (case mw of (m, w) \<Rightarrow>
        case kmCache m name of
          Some kr \<Rightarrow> (Inr kr, m, w)
        | None \<Rightarrow>
            case kmConfigs m name of
              None \<Rightarrow> (Inl (KeyringNotFound name), m, w)
            | Some cfg \<Rightarrow>
                case manager_open H m cfg w of
                  (Inl e, w) \<Rightarrow> (Inl (open_error name e), m, w)
                | (Inr kr, w) \<Rightarrow> (Inr kr, m\<lparr>kmCache := (kmCache m)(name \<mapsto> kr)\<rparr>, w))"

definition evict :: "(string \<rightharpoonup> Keyring) \<Rightarrow> (string \<rightharpoonup> Keyring) \<Rightarrow> (string \<rightharpoonup> 'kr) \<Rightarrow> string \<rightharpoonup> 'kr" where
  "evict configs newConfigs cache = (\<lambda>name.
     case configs name of
       None \<Rightarrow> cache name
     | Some cached \<Rightarrow>
         case newConfigs name of
           None \<Rightarrow> None
         | Some newCfg \<Rightarrow> if kBackend newCfg \<noteq> kBackend cached \<or> kDir newCfg \<noteq> kDir cached then None else cache name)"

definition manager_Reload :: "Keyring list \<Rightarrow> 'kr KeyringManager \<Rightarrow> 'kr KeyringManager" where
  "manager_Reload keyrings m =
     (let newConfigs = configs_of keyrings
      in m\<lparr>kmCache := evict (kmConfigs m) newConfigs (kmCache m), kmConfigs := newConfigs\<rparr>)"

definition manager_Names :: "'kr KeyringManager \<Rightarrow> string set" where
  "manager_Names m = dom (kmConfigs m)"

definition manager_EffectiveBackend :: "('e, 'kr) kr_host \<Rightarrow> 'kr KeyringManager \<Rightarrow> string \<Rightarrow> string option" where
  "manager_EffectiveBackend H m name =
     (case kmConfigs m name of None \<Rightarrow> None | Some cfg \<Rightarrow> EffectiveBackend H (kmRoot m) cfg)"

section \<open>The deferred keyring\<close>

text \<open>
  The loader runs in a world \<open>'w\<close>; a nil keyring without an error is \<open>Inr None\<close>.  \<open>dfOnce\<close> is what
  \<open>sync.Once\<close> and the two fields keep.
\<close>

record ('e, 'kr, 'w) deferredKeyring =
  dfBackend :: string
  dfLoader :: "'w \<Rightarrow> ('e kr_err + 'kr option) \<times> 'w"
  dfOnce :: "('e kr_err + 'kr) option"

definition NewDeferred :: "string \<Rightarrow> ('w \<Rightarrow> ('e kr_err + 'kr option) \<times> 'w) \<Rightarrow> ('e, 'kr, 'w) deferredKeyring" where
  "NewDeferred backend loader = \<lparr>dfBackend = backend, dfLoader = loader, dfOnce = None\<rparr>"

definition deferred_resolve ::
  "('e, 'kr, 'w) deferredKeyring \<Rightarrow> 'w \<Rightarrow> ('e kr_err + 'kr) \<times> ('e, 'kr, 'w) deferredKeyring \<times> 'w" where
  "deferred_resolve d w =
     (case dfOnce d of
        Some r \<Rightarrow> (r, d, w)
      | None \<Rightarrow>
          case dfLoader d w of
            (r, w) \<Rightarrow>
              let r = (case r of Inl e \<Rightarrow> Inl e | Inr None \<Rightarrow> Inl NoKeyringLoaded | Inr (Some kr) \<Rightarrow> Inr kr)
              in (r, d\<lparr>dfOnce := Some r\<rparr>, w))"

definition deferred_Backend :: "('e, 'kr, 'w) deferredKeyring \<Rightarrow> string" where
  "deferred_Backend d = dfBackend d"

text \<open>
  The SDK keyring that is wrapped, one field per method of its interface that needs the store;
  \<open>'k\<close> is the SDK's key record, and addresses, public keys, algorithms and modes are their texts.
\<close>

type_synonym ('e, 'w, 'a) key_act = "'w \<Rightarrow> ('e kr_err + 'a) \<times> 'w"

record ('e, 'kr, 'k, 'w) sdk_keyring =
  iList :: "'kr \<Rightarrow> ('e, 'w, 'k list) key_act"
  iKey :: "'kr \<Rightarrow> string \<Rightarrow> ('e, 'w, 'k) key_act"
  iKeyByAddress :: "'kr \<Rightarrow> string \<Rightarrow> ('e, 'w, 'k) key_act"
  iDelete :: "'kr \<Rightarrow> string \<Rightarrow> ('e, 'w, unit) key_act"
  iDeleteByAddress :: "'kr \<Rightarrow> string \<Rightarrow> ('e, 'w, unit) key_act"
  iRename :: "'kr \<Rightarrow> string \<Rightarrow> string \<Rightarrow> ('e, 'w, unit) key_act"
  iNewMnemonic :: "'kr \<Rightarrow> string \<Rightarrow> string \<Rightarrow> string \<Rightarrow> string \<Rightarrow> string \<Rightarrow> ('e, 'w, 'k \<times> string) key_act"
  iNewAccount :: "'kr \<Rightarrow> string \<Rightarrow> string \<Rightarrow> string \<Rightarrow> string \<Rightarrow> string \<Rightarrow> ('e, 'w, 'k) key_act"
  iSaveLedgerKey :: "'kr \<Rightarrow> string \<Rightarrow> string \<Rightarrow> string \<Rightarrow> 32 word \<Rightarrow> 32 word \<Rightarrow> 32 word \<Rightarrow> ('e, 'w, 'k) key_act"
  iSaveOfflineKey :: "'kr \<Rightarrow> string \<Rightarrow> string \<Rightarrow> ('e, 'w, 'k) key_act"
  iSaveMultisig :: "'kr \<Rightarrow> string \<Rightarrow> string \<Rightarrow> ('e, 'w, 'k) key_act"
  iSign :: "'kr \<Rightarrow> string \<Rightarrow> string \<Rightarrow> string \<Rightarrow> ('e, 'w, string \<times> string) key_act"
  iSignByAddress :: "'kr \<Rightarrow> string \<Rightarrow> string \<Rightarrow> string \<Rightarrow> ('e, 'w, string \<times> string) key_act"
  iImportPrivKey :: "'kr \<Rightarrow> string \<Rightarrow> string \<Rightarrow> string \<Rightarrow> ('e, 'w, unit) key_act"
  iImportPrivKeyHex :: "'kr \<Rightarrow> string \<Rightarrow> string \<Rightarrow> string \<Rightarrow> ('e, 'w, unit) key_act"
  iImportPubKey :: "'kr \<Rightarrow> string \<Rightarrow> string \<Rightarrow> ('e, 'w, unit) key_act"
  iExportPubKeyArmor :: "'kr \<Rightarrow> string \<Rightarrow> ('e, 'w, string) key_act"
  iExportPubKeyArmorByAddress :: "'kr \<Rightarrow> string \<Rightarrow> ('e, 'w, string) key_act"
  iExportPrivKeyArmor :: "'kr \<Rightarrow> string \<Rightarrow> string \<Rightarrow> ('e, 'w, string) key_act"
  iExportPrivKeyArmorByAddress :: "'kr \<Rightarrow> string \<Rightarrow> string \<Rightarrow> ('e, 'w, string) key_act"
  iMigrateAll :: "'kr \<Rightarrow> ('e, 'w, 'k list) key_act"

text \<open>The methods resolve the keyring and hand their arguments to the same method of it.\<close>

definition through ::
  "('e, 'kr, 'w) deferredKeyring \<Rightarrow> ('kr \<Rightarrow> ('e, 'w, 'a) key_act) \<Rightarrow> 'w \<Rightarrow> ('e kr_err + 'a) \<times> ('e, 'kr, 'w) deferredKeyring \<times> 'w" where
  "through d f w =
     (case deferred_resolve d w of
        (Inl e, d, w) \<Rightarrow> (Inl e, d, w)
      | (Inr kr, d, w) \<Rightarrow> (case f kr w of (r, w) \<Rightarrow> (r, d, w)))"

definition deferred_SupportedAlgorithms :: "('e, 'kr, 'w) deferredKeyring \<Rightarrow> string list \<times> string list" where
  "deferred_SupportedAlgorithms d = (let algorithms = [''secp256k1''] in (algorithms, algorithms))"

definition deferred_List where
  "deferred_List I d = through d (iList I)"

definition deferred_Key where
  "deferred_Key I d uid = through d (\<lambda>kr. iKey I kr uid)"

definition deferred_KeyByAddress where
  "deferred_KeyByAddress I d address = through d (\<lambda>kr. iKeyByAddress I kr address)"

definition deferred_Delete where
  "deferred_Delete I d uid = through d (\<lambda>kr. iDelete I kr uid)"

definition deferred_DeleteByAddress where
  "deferred_DeleteByAddress I d address = through d (\<lambda>kr. iDeleteByAddress I kr address)"

definition deferred_Rename where
  "deferred_Rename I d old new = through d (\<lambda>kr. iRename I kr old new)"

definition deferred_NewMnemonic where
  "deferred_NewMnemonic I d uid language hdPath bip39Passphrase algo = through d (\<lambda>kr. iNewMnemonic I kr uid language hdPath bip39Passphrase algo)"

definition deferred_NewAccount where
  "deferred_NewAccount I d uid mnemonic bip39Passphrase hdPath algo = through d (\<lambda>kr. iNewAccount I kr uid mnemonic bip39Passphrase hdPath algo)"

definition deferred_SaveLedgerKey where
  "deferred_SaveLedgerKey I d uid algo hrp coinType account idx = through d (\<lambda>kr. iSaveLedgerKey I kr uid algo hrp coinType account idx)"

definition deferred_SaveOfflineKey where
  "deferred_SaveOfflineKey I d uid pubkey = through d (\<lambda>kr. iSaveOfflineKey I kr uid pubkey)"

definition deferred_SaveMultisig where
  "deferred_SaveMultisig I d uid pubkey = through d (\<lambda>kr. iSaveMultisig I kr uid pubkey)"

definition deferred_Sign where
  "deferred_Sign I d uid msg signMode = through d (\<lambda>kr. iSign I kr uid msg signMode)"

definition deferred_SignByAddress where
  "deferred_SignByAddress I d address msg signMode = through d (\<lambda>kr. iSignByAddress I kr address msg signMode)"

definition deferred_ImportPrivKey where
  "deferred_ImportPrivKey I d uid armor passphrase = through d (\<lambda>kr. iImportPrivKey I kr uid armor passphrase)"

definition deferred_ImportPrivKeyHex where
  "deferred_ImportPrivKeyHex I d uid privKey algo = through d (\<lambda>kr. iImportPrivKeyHex I kr uid privKey algo)"

definition deferred_ImportPubKey where
  "deferred_ImportPubKey I d uid armor = through d (\<lambda>kr. iImportPubKey I kr uid armor)"

definition deferred_ExportPubKeyArmor where
  "deferred_ExportPubKeyArmor I d uid = through d (\<lambda>kr. iExportPubKeyArmor I kr uid)"

definition deferred_ExportPubKeyArmorByAddress where
  "deferred_ExportPubKeyArmorByAddress I d address = through d (\<lambda>kr. iExportPubKeyArmorByAddress I kr address)"

definition deferred_ExportPrivKeyArmor where
  "deferred_ExportPrivKeyArmor I d uid passphrase = through d (\<lambda>kr. iExportPrivKeyArmor I kr uid passphrase)"

definition deferred_ExportPrivKeyArmorByAddress where
  "deferred_ExportPrivKeyArmorByAddress I d address passphrase = through d (\<lambda>kr. iExportPrivKeyArmorByAddress I kr address passphrase)"

definition deferred_MigrateAll where
  "deferred_MigrateAll I d = through d (iMigrateAll I)"

definition manager_Deferred ::
  "('e, 'kr) kr_host \<Rightarrow> 'kr KeyringManager \<Rightarrow> string \<Rightarrow> ('e, 'kr, 'kr KeyringManager \<times> kr_world) deferredKeyring" where
  "manager_Deferred H m name =
     (let backend = (case kmConfigs m name of None \<Rightarrow> BackendOS | Some cfg \<Rightarrow> configured_backend cfg)
      in NewDeferred backend (\<lambda>mw. case manager_Get H name mw of (r, mw) \<Rightarrow> (map_sum id Some r, mw)))"

end
