(* ===== verification/Keyring_Props.thy ===== *)
theory Keyring_Props
  imports Keyring_Manager
begin

text \<open>
  What the keyring manager promises: a keyring it hands out was opened with the backend and the
  directory that are configured now, the backend \<open>os\<close> is never served by anything but a system
  store, and a deferred keyring opens its store once, on the first use of a key.
\<close>

section \<open>Effective backends\<close>

lemma find_SomeD: "List.find P xs = Some x \<Longrightarrow> x \<in> set xs \<and> P x"
  by (auto simp: find_Some_iff)

lemma resolveSystemBackend_cases:
  "resolveSystemBackend H service dir \<noteq> [] \<Longrightarrow>
     resolveSystemBackend H service dir \<in> set (systemBackends H) \<and>
     resolveSystemBackend H service dir \<in> set (hAvailable H) \<and>
     hPinnedOpen H service dir (resolveSystemBackend H service dir)"
  unfolding resolveSystemBackend_def by (auto split: option.splits dest: find_SomeD)

lemma EffectiveBackend_os:
  assumes "configured_backend kr = BackendOS" and "EffectiveBackend H root kr = Some b"
  shows "b \<in> set (systemBackends H) \<and> b \<in> set (hAvailable H) \<and> hPinnedOpen H appName (KeyringDir root kr) b"
  using assms resolveSystemBackend_cases [of H appName "KeyringDir root kr"]
  by (auto simp: EffectiveBackend_def Let_def split: if_splits)

section \<open>The invariant of the manager\<close>

text \<open>A keyring that a call of \<open>keyring.New\<close> gave for a configuration that may be opened.\<close>

definition served :: "('e, 'kr) kr_host \<Rightarrow> string \<Rightarrow> Keyring \<Rightarrow> 'kr \<Rightarrow> bool" where
  "served H root cfg kr \<longleftrightarrow> configured_backend cfg \<in> set Backends \<and>
     (configured_backend cfg = BackendOS \<longrightarrow>
        (\<exists>store \<in> set (systemBackends H). store \<in> set (hAvailable H) \<and> hPinnedOpen H appName (KeyringDir root cfg) store)) \<and>
     (\<exists>n. hNew H n appName (configured_backend cfg) (KeyringDir root cfg) = Inr kr)"

definition km_ok :: "('e, 'kr) kr_host \<Rightarrow> 'kr KeyringManager \<Rightarrow> bool" where
  "km_ok H m \<longleftrightarrow> (\<forall>name cfg. kmConfigs m name = Some cfg \<longrightarrow> kName cfg = name) \<and>
     (\<forall>name kr. kmCache m name = Some kr \<longrightarrow> (\<exists>cfg. kmConfigs m name = Some cfg \<and> served H (kmRoot m) cfg kr))"

lemma km_okD:
  assumes "km_ok H m" and "kmCache m name = Some kr"
  obtains cfg where "kmConfigs m name = Some cfg" "served H (kmRoot m) cfg kr"
  using assms unfolding km_ok_def by metis

lemma configs_of_name: "configs_of keyrings name = Some cfg \<Longrightarrow> kName cfg = name"
proof -
  have "fold (\<lambda>kr m. m(kName kr \<mapsto> kr)) ks m name = Some cfg \<Longrightarrow> (\<forall>n c. m n = Some c \<longrightarrow> kName c = n) \<Longrightarrow> kName cfg = name"
    for ks and m :: "string \<rightharpoonup> Keyring"
  proof (induction ks arbitrary: m)
    case (Cons k ks)
    from Cons.prems show ?case by (intro Cons.IH [of "m(kName k \<mapsto> k)"]) (auto split: if_splits)
  qed simp
  then show "configs_of keyrings name = Some cfg \<Longrightarrow> kName cfg = name" by (simp add: configs_of_def)
qed

lemma configured_backend_nonempty [simp]: "configured_backend cfg \<noteq> []"
  by (simp add: configured_backend_def BackendOS_def)

lemma manager_open_served: "manager_open H m cfg w = (Inr kr, w') \<Longrightarrow> served H (kmRoot m) cfg kr"
  using EffectiveBackend_os [of cfg H "kmRoot m"]
  by (auto simp: manager_open_def served_def ValidateBackend_def Let_def split: if_splits option.splits sum.splits prod.splits)
    (auto simp: map_sum_def split: sum.splits)

lemma manager_Get_ok:
  assumes "km_ok H m" and "manager_Get H name (m, w) = (r, m', w')"
  shows "km_ok H m'"
proof (cases "kmCache m name")
  case None
  note fresh = this
  show ?thesis
  proof (cases "kmConfigs m name")
    case (Some cfg)
    obtain res w1 where open_eq: "manager_open H m cfg w = (res, w1)" by (cases "manager_open H m cfg w")
    show ?thesis
    proof (cases res)
      case (Inr kr)
      then have "m' = m\<lparr>kmCache := (kmCache m)(name \<mapsto> kr)\<rparr>" using assms(2) fresh Some open_eq by (simp add: manager_Get_def)
      moreover have "served H (kmRoot m) cfg kr" using manager_open_served open_eq Inr by metis
      ultimately show ?thesis using assms(1) Some by (simp add: km_ok_def)
    qed (use assms fresh Some open_eq in \<open>simp add: manager_Get_def\<close>)
  qed (use assms fresh in \<open>simp add: manager_Get_def\<close>)
qed (use assms in \<open>simp add: manager_Get_def\<close>)

lemma manager_Get_cached:
  "manager_Get H name (m, w) = (Inr kr, m', w') \<Longrightarrow>
     kmCache m' name = Some kr \<and> kmConfigs m' = kmConfigs m \<and> kmRoot m' = kmRoot m"
  by (auto simp: manager_Get_def split: option.splits sum.splits prod.splits)

lemma evict_same:
  assumes "evict old new cache name = Some kr" and "old name = Some cfg"
    and "\<And>n c. old n = Some c \<Longrightarrow> kName c = n" and "\<And>n c. new n = Some c \<Longrightarrow> kName c = n"
  shows "cache name = Some kr \<and> new name = Some cfg"
  using assms(1,2) assms(3) [OF assms(2)] assms(4) [of name]
  by (auto simp: evict_def split: option.splits if_splits intro: Keyring.equality)

lemma manager_Reload_ok:
  assumes "km_ok H m"
  shows "km_ok H (manager_Reload keyrings m)"
proof -
  let ?new = "configs_of keyrings"
  have names: "kmConfigs m n = Some c \<Longrightarrow> kName c = n" for n c using assms by (simp add: km_ok_def)
  have "\<exists>cfg. ?new name = Some cfg \<and> served H (kmRoot m) cfg kr" if kept: "evict (kmConfigs m) ?new (kmCache m) name = Some kr" for name kr
  proof -
    have "kmCache m name = Some kr" using kept by (auto simp: evict_def split: option.splits if_splits)
    then obtain cfg where cfg: "kmConfigs m name = Some cfg" "served H (kmRoot m) cfg kr" using km_okD [OF assms] by metis
    have "?new name = Some cfg" using evict_same [OF kept cfg(1) names] configs_of_name [of keyrings] by blast
    with cfg show ?thesis by blast
  qed
  then show ?thesis using configs_of_name by (auto simp: km_ok_def manager_Reload_def Let_def)
qed

inductive km_reachable :: "('e, 'kr) kr_host \<Rightarrow> 'kr KeyringManager \<Rightarrow> kr_world \<Rightarrow> bool" for H where
  km_new: "km_reachable H (NewKeyringManager root keyrings) w"
| km_get: "km_reachable H m w \<Longrightarrow> manager_Get H name (m, w) = (r, m', w') \<Longrightarrow> km_reachable H m' w'"
| km_reload: "km_reachable H m w \<Longrightarrow> km_reachable H (manager_Reload keyrings m) w"

lemma km_reachable_ok: "km_reachable H m w \<Longrightarrow> km_ok H m"
proof (induction rule: km_reachable.induct)
  case (km_new root keyrings w)
  then show ?case using configs_of_name by (auto simp: km_ok_def NewKeyringManager_def)
qed (blast intro: manager_Get_ok manager_Reload_ok)+

text \<open>
  C27. A keyring is what the configuration says.  After any sequence of opens and reloads of the
  configuration, a keyring that \<open>Get\<close> returns for a name was opened by the SDK with the backend and
  in the directory that are configured for the name now, the backend is one of the six, and if it
  is \<open>os\<close> then a system store of this platform is registered and opens, so that keys never move to
  another store behind the user's back.  Asking again gives the same keyring and opens nothing.
\<close>

theorem keyring_as_configured:
  assumes "km_reachable H m w" and "manager_Get H name (m, w) = (Inr kr, m', w')"
  shows "(\<exists>cfg. kmConfigs m name = Some cfg \<and> configured_backend cfg \<in> set Backends \<and>
      (configured_backend cfg = BackendOS \<longrightarrow>
        (\<exists>store \<in> set (systemBackends H). store \<in> set (hAvailable H) \<and> hPinnedOpen H appName (KeyringDir (kmRoot m) cfg) store)) \<and>
      (\<exists>n. hNew H n appName (configured_backend cfg) (KeyringDir (kmRoot m) cfg) = Inr kr)) \<and>
    manager_Get H name (m', w') = (Inr kr, m', w')"
proof -
  note cached = manager_Get_cached [OF assms(2)]
  have "km_ok H m'" using manager_Get_ok [OF km_reachable_ok [OF assms(1)] assms(2)] .
  then obtain cfg where "kmConfigs m' name = Some cfg" "served H (kmRoot m') cfg kr" using km_okD cached by metis
  then show ?thesis using cached by (auto simp: served_def manager_Get_def)
qed

text \<open>A Linux host without a system store; keyrings of the SDK are named by their directory.\<close>

definition bare_host :: "(string, string) kr_host" where
  "bare_host = \<lparr>hGOOS = ''linux'', hAvailable = [''keyctl'', ''file''], hPinnedOpen = (\<lambda>_ _ _. False),
     hNew = (\<lambda>n service backend dir. Inr (backend @ '':'' @ dir)), hOS = good_os\<rparr>"

definition two_keyrings :: "Keyring list" where
  "two_keyrings = [\<lparr>kName = ''default'', kBackend = [], kDir = []\<rparr>, \<lparr>kName = ''work'', kBackend = ''file'', kDir = ''/k''\<rparr>]"

definition bare_manager :: "string KeyringManager" where
  "bare_manager = NewKeyringManager ''/akt'' two_keyrings"

definition no_files :: kr_world where
  "no_files = \<lparr>wFiles = Map.empty, wOpened = []\<rparr>"

lemma bare_host_runs:
  "fst (manager_Get bare_host ''work'' (bare_manager, no_files)) = Inr ''file:/k''"
  "fst (manager_Get bare_host ''default'' (bare_manager, no_files)) =
     Inl (UnavailableBackendError ''default'' ''os'' [''secret-service'', ''kwallet''])"
  by code_simp+

theorem keyring_as_configured_witness:
  "\<exists>cfg. kmConfigs bare_manager ''work'' = Some cfg \<and> configured_backend cfg \<in> set Backends \<and>
     (\<exists>n. hNew bare_host n appName (configured_backend cfg) (KeyringDir (kmRoot bare_manager) cfg) = Inr ''file:/k'')"
proof -
  obtain m' w' where "manager_Get bare_host ''work'' (bare_manager, no_files) = (Inr ''file:/k'', m', w')"
    using bare_host_runs(1) by (metis prod.collapse)
  from keyring_as_configured [OF km_new [of bare_host "''/akt''" two_keyrings no_files, folded bare_manager_def] this] show ?thesis by blast
qed

section \<open>Deferred keyrings\<close>

text \<open>The operations of the interface as values, and their results.\<close>

datatype key_op =
    ListKeys
  | Key string | KeyByAddress string | Delete string | DeleteByAddress string | RenameKey string string
  | NewMnemonic string string string string string | NewAccount string string string string string
  | SaveLedgerKey string string string "32 word" "32 word" "32 word" | SaveOfflineKey string string | SaveMultisig string string
  | Sign string string string | SignByAddress string string string
  | ImportPrivKey string string string | ImportPrivKeyHex string string string | ImportPubKey string string
  | ExportPubKeyArmor string | ExportPubKeyArmorByAddress string
  | ExportPrivKeyArmor string string | ExportPrivKeyArmorByAddress string string
  | MigrateAll

datatype 'k key_result =
  Records "'k list" | Record 'k | Done unit | WithMnemonic "'k \<times> string" | Signature "string \<times> string" | Text string

definition tagged :: "('a \<Rightarrow> 'b) \<Rightarrow> ('e kr_err + 'a) \<times> 'x \<Rightarrow> ('e kr_err + 'b) \<times> 'x" where
  "tagged f r = (map_sum id f (fst r), snd r)"

fun direct_op :: "('e, 'kr, 'k, 'w) sdk_keyring \<Rightarrow> 'kr \<Rightarrow> key_op \<Rightarrow> 'w \<Rightarrow> ('e kr_err + 'k key_result) \<times> 'w" where
  "direct_op I kr ListKeys w = tagged Records (iList I kr w)"
| "direct_op I kr (Key a) w = tagged Record (iKey I kr a w)"
| "direct_op I kr (KeyByAddress a) w = tagged Record (iKeyByAddress I kr a w)"
| "direct_op I kr (Delete a) w = tagged Done (iDelete I kr a w)"
| "direct_op I kr (DeleteByAddress a) w = tagged Done (iDeleteByAddress I kr a w)"
| "direct_op I kr (RenameKey a b) w = tagged Done (iRename I kr a b w)"
| "direct_op I kr (NewMnemonic a b c d e) w = tagged WithMnemonic (iNewMnemonic I kr a b c d e w)"
| "direct_op I kr (NewAccount a b c d e) w = tagged Record (iNewAccount I kr a b c d e w)"
| "direct_op I kr (SaveLedgerKey a b c d e f) w = tagged Record (iSaveLedgerKey I kr a b c d e f w)"
| "direct_op I kr (SaveOfflineKey a b) w = tagged Record (iSaveOfflineKey I kr a b w)"
| "direct_op I kr (SaveMultisig a b) w = tagged Record (iSaveMultisig I kr a b w)"
| "direct_op I kr (Sign a b c) w = tagged Signature (iSign I kr a b c w)"
| "direct_op I kr (SignByAddress a b c) w = tagged Signature (iSignByAddress I kr a b c w)"
| "direct_op I kr (ImportPrivKey a b c) w = tagged Done (iImportPrivKey I kr a b c w)"
| "direct_op I kr (ImportPrivKeyHex a b c) w = tagged Done (iImportPrivKeyHex I kr a b c w)"
| "direct_op I kr (ImportPubKey a b) w = tagged Done (iImportPubKey I kr a b w)"
| "direct_op I kr (ExportPubKeyArmor a) w = tagged Text (iExportPubKeyArmor I kr a w)"
| "direct_op I kr (ExportPubKeyArmorByAddress a) w = tagged Text (iExportPubKeyArmorByAddress I kr a w)"
| "direct_op I kr (ExportPrivKeyArmor a b) w = tagged Text (iExportPrivKeyArmor I kr a b w)"
| "direct_op I kr (ExportPrivKeyArmorByAddress a b) w = tagged Text (iExportPrivKeyArmorByAddress I kr a b w)"
| "direct_op I kr MigrateAll w = tagged Records (iMigrateAll I kr w)"

fun deferred_op :: "('e, 'kr, 'k, 'w) sdk_keyring \<Rightarrow> ('e, 'kr, 'w) deferredKeyring \<Rightarrow> key_op \<Rightarrow> 'w \<Rightarrow>
    ('e kr_err + 'k key_result) \<times> ('e, 'kr, 'w) deferredKeyring \<times> 'w" where
  "deferred_op I dk ListKeys w = tagged Records (deferred_List I dk w)"
| "deferred_op I dk (Key a) w = tagged Record (deferred_Key I dk a w)"
| "deferred_op I dk (KeyByAddress a) w = tagged Record (deferred_KeyByAddress I dk a w)"
| "deferred_op I dk (Delete a) w = tagged Done (deferred_Delete I dk a w)"
| "deferred_op I dk (DeleteByAddress a) w = tagged Done (deferred_DeleteByAddress I dk a w)"
| "deferred_op I dk (RenameKey a b) w = tagged Done (deferred_Rename I dk a b w)"
| "deferred_op I dk (NewMnemonic a b c d e) w = tagged WithMnemonic (deferred_NewMnemonic I dk a b c d e w)"
| "deferred_op I dk (NewAccount a b c d e) w = tagged Record (deferred_NewAccount I dk a b c d e w)"
| "deferred_op I dk (SaveLedgerKey a b c d e f) w = tagged Record (deferred_SaveLedgerKey I dk a b c d e f w)"
| "deferred_op I dk (SaveOfflineKey a b) w = tagged Record (deferred_SaveOfflineKey I dk a b w)"
| "deferred_op I dk (SaveMultisig a b) w = tagged Record (deferred_SaveMultisig I dk a b w)"
| "deferred_op I dk (Sign a b c) w = tagged Signature (deferred_Sign I dk a b c w)"
| "deferred_op I dk (SignByAddress a b c) w = tagged Signature (deferred_SignByAddress I dk a b c w)"
| "deferred_op I dk (ImportPrivKey a b c) w = tagged Done (deferred_ImportPrivKey I dk a b c w)"
| "deferred_op I dk (ImportPrivKeyHex a b c) w = tagged Done (deferred_ImportPrivKeyHex I dk a b c w)"
| "deferred_op I dk (ImportPubKey a b) w = tagged Done (deferred_ImportPubKey I dk a b w)"
| "deferred_op I dk (ExportPubKeyArmor a) w = tagged Text (deferred_ExportPubKeyArmor I dk a w)"
| "deferred_op I dk (ExportPubKeyArmorByAddress a) w = tagged Text (deferred_ExportPubKeyArmorByAddress I dk a w)"
| "deferred_op I dk (ExportPrivKeyArmor a b) w = tagged Text (deferred_ExportPrivKeyArmor I dk a b w)"
| "deferred_op I dk (ExportPrivKeyArmorByAddress a b) w = tagged Text (deferred_ExportPrivKeyArmorByAddress I dk a b w)"
| "deferred_op I dk MigrateAll w = tagged Records (deferred_MigrateAll I dk w)"

lemma through_cong: "(\<And>kr w. f kr w = g kr w) \<Longrightarrow> through d f w = through d g w"
  by (simp add: through_def split: sum.split prod.split)

lemma tagged_through:
  "tagged f (through d g w) = through d (\<lambda>kr w. tagged f (g kr w)) w"
  by (auto simp: tagged_def through_def split: prod.splits sum.splits)

lemmas deferred_methods =
  deferred_List_def deferred_Key_def deferred_KeyByAddress_def deferred_Delete_def
  deferred_DeleteByAddress_def deferred_Rename_def deferred_NewMnemonic_def deferred_NewAccount_def
  deferred_SaveLedgerKey_def deferred_SaveOfflineKey_def deferred_SaveMultisig_def deferred_Sign_def
  deferred_SignByAddress_def deferred_ImportPrivKey_def deferred_ImportPrivKeyHex_def deferred_ImportPubKey_def
  deferred_ExportPubKeyArmor_def deferred_ExportPubKeyArmorByAddress_def deferred_ExportPrivKeyArmor_def deferred_ExportPrivKeyArmorByAddress_def
  deferred_MigrateAll_def

text \<open>Each method hands its arguments on in their order.\<close>

lemma deferred_op_through: "deferred_op I d op w = through d (\<lambda>kr. direct_op I kr op) w"
  by (cases op) (auto simp: deferred_methods tagged_through intro!: through_cong)

text \<open>A sequence of key operations on a deferred keyring, and the same on an open one.\<close>

fun deferred_calls where
  "deferred_calls I d [] w = ([], d, w)"
| "deferred_calls I d (op # ops) w =
     (case deferred_op I d op w of
        (r, d, w) \<Rightarrow> (case deferred_calls I d ops w of (rs, d, w) \<Rightarrow> (r # rs, d, w)))"

fun direct_calls where
  "direct_calls I kr [] w = ([], w)"
| "direct_calls I kr (op # ops) w =
     (case direct_op I kr op w of (r, w) \<Rightarrow> (case direct_calls I kr ops w of (rs, w) \<Rightarrow> (r # rs, w)))"

lemma deferred_calls_open:
  "dfOnce d = Some (Inr kr) \<Longrightarrow>
     deferred_calls I d ops w = (case direct_calls I kr ops w of (rs, w) \<Rightarrow> (rs, d, w))"
  by (induction ops arbitrary: w) (simp_all add: deferred_op_through through_def deferred_resolve_def split: prod.splits)

lemma deferred_calls_failed:
  "dfOnce d = Some (Inl e) \<Longrightarrow> deferred_calls I d ops w = (map (\<lambda>_. Inl e) ops, d, w)"
  by (induction ops arbitrary: w) (simp_all add: deferred_op_through through_def deferred_resolve_def split: prod.splits)

lemma deferred_calls_first:
  assumes "dfOnce d = None" and "ops \<noteq> []" and "deferred_resolve d w = (r, d', w')"
  shows "deferred_calls I d ops w = deferred_calls I d' ops w'"
proof -
  have "dfOnce d' = Some r" using assms by (auto simp: deferred_resolve_def Let_def split: prod.splits)
  then have "deferred_resolve d' w' = (r, d', w')" by (simp add: deferred_resolve_def)
  with assms(3) have "deferred_op I d op w = deferred_op I d' op w'" for op by (simp add: deferred_op_through through_def)
  with assms(2) show ?thesis by (cases ops) simp_all
qed

text \<open>
  A deferred keyring is its keyring, opened once.  For any sequence of key operations the
  results and the effects of a deferred keyring of the manager are those of opening the keyring
  once with \<open>Get\<close> and then calling it directly; when the opening fails every operation
  reports that failure and nothing is tried again; and with no operation nothing is opened.
\<close>

theorem deferred_keyring_equiv:
  "(case deferred_calls I (manager_Deferred H m0 name) ops (m, w) of (rs, d, mw) \<Rightarrow> (rs, mw)) =
     (if ops = [] then ([], m, w)
      else case manager_Get H name (m, w) of
             (Inl e, mw) \<Rightarrow> (map (\<lambda>_. Inl e) ops, mw)
           | (Inr kr, mw) \<Rightarrow> direct_calls I kr ops mw)"
proof (cases "ops = []")
  case False
  let ?d = "manager_Deferred H m0 name"
  obtain r mw where get: "manager_Get H name (m, w) = (r, mw)" by (cases "manager_Get H name (m, w)")
  have once: "dfOnce ?d = None" by (simp add: manager_Deferred_def NewDeferred_def Let_def)
  have res: "deferred_resolve ?d (m, w) = (r, ?d\<lparr>dfOnce := Some r\<rparr>, mw)"
    using get once by (cases r) (simp_all add: deferred_resolve_def manager_Deferred_def NewDeferred_def Let_def)
  show ?thesis
  proof (cases r)
    case (Inl e)
    with False get show ?thesis
      using deferred_calls_first [OF once False res, of I] deferred_calls_failed [of "?d\<lparr>dfOnce := Some (Inl e)\<rparr>" e I] by simp
  next
    case (Inr kr)
    with False get show ?thesis
      using deferred_calls_first [OF once False res, of I] deferred_calls_open [of "?d\<lparr>dfOnce := Some (Inr kr)\<rparr>" kr I]
      by (simp split: prod.splits)
  qed
qed simp

text \<open>Overrides of one run apply to every keyring and an empty one leaves the configuration alone.\<close>

lemma ApplyOverrides_spec:
  "map kName (ApplyOverrides keyrings backend dir) = map kName keyrings \<and>
   list_all (\<lambda>kr. (backend \<noteq> [] \<longrightarrow> kBackend kr = backend) \<and> (dir \<noteq> [] \<longrightarrow> kDir kr = dir)) (ApplyOverrides keyrings backend dir) \<and>
   (backend = [] \<longrightarrow> map kBackend (ApplyOverrides keyrings backend dir) = map kBackend keyrings) \<and>
   (dir = [] \<longrightarrow> map kDir (ApplyOverrides keyrings backend dir) = map kDir keyrings)"
  by (auto simp: ApplyOverrides_def Let_def list_all_iff)

end
