(* ===== verification/Monitor_Cache.thy ===== *)
theory Monitor_Cache
  imports Go_Strings "HOL-Library.Multiset" "HOL-Library.Word"
begin

text \<open>
  The provider and moniker caches of the node monitor (\<open>src/internal/monitor/cache\<close>).

  bbolt and \<open>encoding/json\<close> are parameters, in \<open>cache_ext\<close>; a failed put leaves the bucket as it is,
  and \<open>cache_update\<close> is \<open>db.Update\<close>, which takes over the database of a transaction that ended without an
  error and may fail to commit.  A point in time is its nanoseconds since the zero time of Go, and \<open>clock i\<close>
  what \<open>time.Now\<close> gives when the call reads it for the \<open>i\<close>-th time.
\<close>

section \<open>Data\<close>

type_synonym go_time = int

type_synonym duration = int

definition OnlineCheckInterval :: duration where "OnlineCheckInterval = 60 * 10 ^ 9"

definition RecentOfflineInterval :: duration where "RecentOfflineInterval = 5 * 60 * 10 ^ 9"

definition LongTermOfflineInterval :: duration where "LongTermOfflineInterval = 6 * 60 * 60 * 10 ^ 9"

definition LongTermOfflineThreshold :: int where "LongTermOfflineThreshold = 5"

text \<open>\<open>Time.Sub\<close> saturates at the bounds of \<open>int64\<close>.\<close>

definition time_Sub :: "go_time \<Rightarrow> go_time \<Rightarrow> duration" where
  "time_Sub t u = max (- (2 ^ 63)) (min (2 ^ 63 - 1) (t - u))"

record CachedProvider =
  cpHostURI :: string
  cpName :: string
  cpCountry :: string
  cpAttributes :: "string \<rightharpoonup> string"
  cpIsOnline :: bool
  cpVersion :: string
  cpCPUAvailable :: "64 word"
  cpCPUTotal :: "64 word"
  cpMemAvailable :: "64 word"
  cpMemTotal :: "64 word"
  cpGPUAvailable :: "64 word"
  cpGPUTotal :: "64 word"
  cpGPUModels :: "string list"
  cpLastSeenOnline :: go_time
  cpLastChecked :: go_time
  cpConsecutiveFailures :: int

record OnChainProvider =
  ocOwner :: string
  ocHostURI :: string
  ocAttributes :: "string \<rightharpoonup> string"
  ocIsOnline :: bool

definition attribute :: "(string \<rightharpoonup> string) \<Rightarrow> string \<Rightarrow> string" where
  "attribute attrs key = (case attrs key of None \<Rightarrow> [] | Some v \<Rightarrow> v)"

datatype cache_bucket = Providers | CacheMeta | Monikers

type_synonym 'b cache_db = "cache_bucket \<rightharpoonup> 'b"

record ('b, 'v) cache_ext =
  cx_new :: 'b
  cx_get :: "'b \<Rightarrow> string \<Rightarrow> 'v option"
  cx_put :: "'b \<Rightarrow> string \<Rightarrow> 'v \<Rightarrow> 'b option"
  cx_entries :: "'b \<Rightarrow> (string \<times> 'v) list"
  cx_create :: "cache_bucket \<Rightarrow> bool"
  cx_delete :: "cache_bucket \<Rightarrow> bool"
  cx_commit :: "'b cache_db \<Rightarrow> bool"
  cx_marshal :: "CachedProvider \<Rightarrow> 'v option"
  cx_unmarshal :: "'v \<Rightarrow> CachedProvider option"
  cx_moniker :: "string \<Rightarrow> 'v"
  cx_moniker_of :: "'v \<Rightarrow> string"
  cx_time :: "go_time \<Rightarrow> 'v"

text \<open>The result of \<open>db.Update\<close>: whether it succeeded, and the database.\<close>

definition cache_update :: "('b, 'v) cache_ext \<Rightarrow> ('b cache_db \<Rightarrow> 'b cache_db option) \<Rightarrow> 'b cache_db \<Rightarrow> bool \<times> 'b cache_db" where
  "cache_update X f db = (case f db of None \<Rightarrow> (False, db) | Some db' \<Rightarrow> if cx_commit X db' then (True, db') else (False, db))"

definition lastSyncKey :: string where "lastSyncKey = ''last_chain_sync''"

section \<open>Opening\<close>

definition create_if_missing :: "('b, 'v) cache_ext \<Rightarrow> cache_bucket \<Rightarrow> 'b cache_db \<Rightarrow> bool \<times> 'b cache_db" where
  "create_if_missing X n db =
     (case db n of Some _ \<Rightarrow> (True, db) | None \<Rightarrow> if cx_create X n then (True, db(n \<mapsto> cx_new X)) else (False, db))"

definition ensureProviderBuckets :: "('b, 'v) cache_ext \<Rightarrow> 'b cache_db \<Rightarrow> bool \<times> 'b cache_db" where
  "ensureProviderBuckets X db =
     (case create_if_missing X Providers db of (ok1, db) \<Rightarrow>
      case create_if_missing X CacheMeta db of (ok2, db) \<Rightarrow> (ok1 \<and> ok2, db))"

definition ensureMonikerBucket :: "('b, 'v) cache_ext \<Rightarrow> 'b cache_db \<Rightarrow> bool \<times> 'b cache_db" where
  "ensureMonikerBucket X db = create_if_missing X Monikers db"

definition joined :: "bool \<times> 'b cache_db \<Rightarrow> 'b cache_db option" where
  "joined r = (case r of (ok, db) \<Rightarrow> if ok then Some db else None)"

definition cache_Open :: "('b, 'v) cache_ext \<Rightarrow> 'b cache_db \<Rightarrow> bool \<times> 'b cache_db" where
  "cache_Open X db = cache_update X (\<lambda>tx. joined (ensureProviderBuckets X tx)) db"

definition OpenMonikerCache :: "('b, 'v) cache_ext \<Rightarrow> 'b cache_db \<Rightarrow> bool \<times> 'b cache_db" where
  "OpenMonikerCache X db = cache_update X (\<lambda>tx. joined (ensureMonikerBucket X tx)) db"

definition OpenStores :: "('b, 'v) cache_ext \<Rightarrow> 'b cache_db \<Rightarrow> bool \<times> 'b cache_db" where
  "OpenStores X db = cache_update X (\<lambda>tx.
     case ensureProviderBuckets X tx of (ok1, tx) \<Rightarrow>
     case ensureMonikerBucket X tx of (ok2, tx) \<Rightarrow> joined (ok1 \<and> ok2, tx)) db"

section \<open>Reading\<close>

definition HasProviders :: "('b, 'v) cache_ext \<Rightarrow> 'b cache_db \<Rightarrow> bool" where
  "HasProviders X db = (case db Providers of None \<Rightarrow> False | Some b \<Rightarrow> 0 < length (cx_entries X b))"

definition GetProvider :: "('b, 'v) cache_ext \<Rightarrow> 'b cache_db \<Rightarrow> string \<Rightarrow> CachedProvider option" where
  "GetProvider X db owner =
     (case db Providers of None \<Rightarrow> None | Some b \<Rightarrow> (case cx_get X b owner of None \<Rightarrow> None | Some data \<Rightarrow> cx_unmarshal X data))"

text \<open>The rows that decode, in key order.\<close>

definition readable :: "('b, 'v) cache_ext \<Rightarrow> 'b cache_db \<Rightarrow> (string \<times> CachedProvider) list" where
  "readable X db =
     (case db Providers of
        None \<Rightarrow> []
      | Some b \<Rightarrow> List.map_filter (\<lambda>(k, v). map_option (\<lambda>p. (k, p)) (cx_unmarshal X v)) (cx_entries X b))"

definition GetAllProviders :: "('b, 'v) cache_ext \<Rightarrow> 'b cache_db \<Rightarrow> string \<rightharpoonup> CachedProvider" where
  "GetAllProviders X db = fold (\<lambda>(k, p) m. m(k \<mapsto> p)) (readable X db) Map.empty"

definition GetOnlineProviders :: "('b, 'v) cache_ext \<Rightarrow> 'b cache_db \<Rightarrow> CachedProvider list" where
  "GetOnlineProviders X db = filter cpIsOnline (map snd (readable X db))"

definition ProviderCount :: "('b, 'v) cache_ext \<Rightarrow> 'b cache_db \<Rightarrow> nat" where
  "ProviderCount X db = (case db Providers of None \<Rightarrow> 0 | Some b \<Rightarrow> length (cx_entries X b))"

definition OnlineCount :: "('b, 'v) cache_ext \<Rightarrow> 'b cache_db \<Rightarrow> nat" where
  "OnlineCount X db = length (filter (\<lambda>(k, p). cpIsOnline p) (readable X db))"

section \<open>Writing\<close>

definition putProvider :: "('b, 'v) cache_ext \<Rightarrow> 'b \<Rightarrow> string \<Rightarrow> CachedProvider \<Rightarrow> 'b option" where
  "putProvider X b owner p = (case cx_marshal X p of None \<Rightarrow> None | Some data \<Rightarrow> cx_put X b owner data)"

text \<open>The common shape of the two marks: a known and readable provider is changed and put back.\<close>

definition mark_provider :: "('b, 'v) cache_ext \<Rightarrow> (CachedProvider \<Rightarrow> CachedProvider) \<Rightarrow> string \<Rightarrow> 'b cache_db \<Rightarrow> 'b cache_db" where
  "mark_provider X change owner db =
     snd (cache_update X (\<lambda>tx.
       case tx Providers of
         None \<Rightarrow> Some tx
       | Some b \<Rightarrow>
           (case cx_get X b owner of
              None \<Rightarrow> Some tx
            | Some data \<Rightarrow>
                (case cx_unmarshal X data of
                   None \<Rightarrow> Some tx
                 | Some p \<Rightarrow> map_option (\<lambda>b'. tx(Providers \<mapsto> b')) (putProvider X b owner (change p))))) db)"

record capacity =
  cyVersion :: string
  cyCPU :: "64 word \<times> 64 word"
  cyMem :: "64 word \<times> 64 word"
  cyGPU :: "64 word \<times> 64 word"
  cyModels :: "string list"

definition set_online :: "capacity \<Rightarrow> (nat \<Rightarrow> go_time) \<Rightarrow> CachedProvider \<Rightarrow> CachedProvider" where
  "set_online c clock p =
     p\<lparr>cpIsOnline := True, cpVersion := cyVersion c, cpCPUAvailable := fst (cyCPU c), cpCPUTotal := snd (cyCPU c),
       cpMemAvailable := fst (cyMem c), cpMemTotal := snd (cyMem c), cpGPUAvailable := fst (cyGPU c), cpGPUTotal := snd (cyGPU c),
       cpGPUModels := cyModels c, cpLastSeenOnline := clock 0, cpLastChecked := clock 1, cpConsecutiveFailures := 0\<rparr>"

definition MarkProviderOnline :: "('b, 'v) cache_ext \<Rightarrow> string \<Rightarrow> capacity \<Rightarrow> (nat \<Rightarrow> go_time) \<Rightarrow> 'b cache_db \<Rightarrow> 'b cache_db" where
  "MarkProviderOnline X owner c clock db = mark_provider X (set_online c clock) owner db"

text \<open>The counter is an \<open>int\<close> of 64 bits.\<close>

definition set_offline :: "(nat \<Rightarrow> go_time) \<Rightarrow> CachedProvider \<Rightarrow> CachedProvider" where
  "set_offline clock p =
     p\<lparr>cpIsOnline := False, cpLastChecked := clock 0,
       cpConsecutiveFailures := sint (word_of_int (cpConsecutiveFailures p + 1) :: 64 word)\<rparr>"

definition MarkProviderOffline :: "('b, 'v) cache_ext \<Rightarrow> string \<Rightarrow> (nat \<Rightarrow> go_time) \<Rightarrow> 'b cache_db \<Rightarrow> 'b cache_db" where
  "MarkProviderOffline X owner clock db = mark_provider X (set_offline clock) owner db"

definition trim_prefix :: "string \<Rightarrow> string \<Rightarrow> string" where
  "trim_prefix s prefix = (if has_prefix s prefix then drop (length prefix) s else s)"

definition extractHostname :: "string \<Rightarrow> string" where
  "extractHostname hostURI =
     takeWhile (\<lambda>c. c \<noteq> CHR '':'' \<and> c \<noteq> CHR ''/'') (trim_prefix (trim_prefix hostURI ''https://'') ''http://'')"

definition new_provider :: "OnChainProvider \<Rightarrow> go_time \<Rightarrow> CachedProvider" where
  "new_provider ocp now =
     (let name = attribute (ocAttributes ocp) ''organization'' in
      \<lparr>cpHostURI = ocHostURI ocp, cpName = (if name = [] then extractHostname (ocHostURI ocp) else name),
       cpCountry = attribute (ocAttributes ocp) ''country'', cpAttributes = ocAttributes ocp, cpIsOnline = ocIsOnline ocp,
       cpVersion = [], cpCPUAvailable = 0, cpCPUTotal = 0, cpMemAvailable = 0, cpMemTotal = 0, cpGPUAvailable = 0, cpGPUTotal = 0,
       cpGPUModels = [], cpLastSeenOnline = (if ocIsOnline ocp then now else 0), cpLastChecked = 0, cpConsecutiveFailures = 0\<rparr>)"

definition refresh_provider :: "OnChainProvider \<Rightarrow> CachedProvider \<Rightarrow> CachedProvider" where
  "refresh_provider ocp p =
     (let p = p\<lparr>cpHostURI := ocHostURI ocp, cpAttributes := ocAttributes ocp\<rparr>;
          name = attribute (ocAttributes ocp) ''organization'';
          p = (if name \<noteq> [] then p\<lparr>cpName := name\<rparr> else p);
          country = attribute (ocAttributes ocp) ''country''
      in if country \<noteq> [] then p\<lparr>cpCountry := country\<rparr> else p)"

text \<open>A put that fails is ignored.\<close>

definition put_or_keep :: "('b, 'v) cache_ext \<Rightarrow> 'b \<Rightarrow> string \<Rightarrow> CachedProvider \<Rightarrow> 'b" where
  "put_or_keep X b owner p = (case putProvider X b owner p of None \<Rightarrow> b | Some b' \<Rightarrow> b')"

definition sync_one :: "('b, 'v) cache_ext \<Rightarrow> (nat \<Rightarrow> go_time) \<Rightarrow> OnChainProvider \<Rightarrow> nat \<times> 'b \<times> string list \<Rightarrow> nat \<times> 'b \<times> string list" where
  "sync_one X clock ocp s =
     (case s of (i, b, newProviders) \<Rightarrow>
        case cx_get X b (ocOwner ocp) of
          None \<Rightarrow> (Suc i, put_or_keep X b (ocOwner ocp) (new_provider ocp (clock i)), newProviders @ [ocOwner ocp])
        | Some existing \<Rightarrow>
            (case cx_unmarshal X existing of
               None \<Rightarrow> (Suc i, b, newProviders)
             | Some p \<Rightarrow> (Suc i, put_or_keep X b (ocOwner ocp) (refresh_provider ocp p), newProviders)))"

definition SyncWithChain ::
  "('b, 'v) cache_ext \<Rightarrow> (nat \<Rightarrow> go_time) \<Rightarrow> OnChainProvider list \<Rightarrow> 'b cache_db \<Rightarrow> string list \<times> 'b cache_db" where
  "SyncWithChain X clock onChainProviders db =
     (case db Providers of
        None \<Rightarrow> ([], snd (cache_update X Some db))
      | Some b \<Rightarrow>
          (case fold (sync_one X clock) onChainProviders (0, b, []) of
             (i, b', newProviders) \<Rightarrow>
               (newProviders,
                snd (cache_update X (\<lambda>tx.
                  let tx = tx(Providers \<mapsto> b') in
                  Some (case tx CacheMeta of
                    None \<Rightarrow> tx
                  | Some m \<Rightarrow> (case cx_put X m lastSyncKey (cx_time X (clock i)) of None \<Rightarrow> tx | Some m' \<Rightarrow> tx(CacheMeta \<mapsto> m')))) db))))"

section \<open>Scheduling\<close>

definition check_interval :: "CachedProvider \<Rightarrow> duration" where
  "check_interval p =
     (if cpIsOnline p then OnlineCheckInterval
      else if cpConsecutiveFailures p \<ge> LongTermOfflineThreshold then LongTermOfflineInterval
      else RecentOfflineInterval)"

definition GetProvidersDueForCheck :: "('b, 'v) cache_ext \<Rightarrow> go_time \<Rightarrow> 'b cache_db \<Rightarrow> string list" where
  "GetProvidersDueForCheck X now db =
     map fst (filter (\<lambda>(k, p). time_Sub now (cpLastChecked p) \<ge> check_interval p) (readable X db))"

definition calculatePriority :: "CachedProvider \<Rightarrow> nat" where
  "calculatePriority p =
     (if cpLastChecked p = 0 then 0
      else if cpIsOnline p then 1
      else if cpConsecutiveFailures p < LongTermOfflineThreshold then 2
      else 3)"

definition check_before :: "string \<times> nat \<times> go_time \<Rightarrow> string \<times> nat \<times> go_time \<Rightarrow> bool" where
  "check_before x y =
     (case (x, y) of ((_, px, tx), (_, py, ty)) \<Rightarrow> if px \<noteq> py then px < py else tx < ty)"

text \<open>\<open>sortSlice\<close> is \<open>sort.Slice\<close>, which is not stable.\<close>

definition GetProvidersByPriority ::
  "('b, 'v) cache_ext \<Rightarrow> ((string \<times> nat \<times> go_time \<Rightarrow> string \<times> nat \<times> go_time \<Rightarrow> bool) \<Rightarrow> (string \<times> nat \<times> go_time) list \<Rightarrow> (string \<times> nat \<times> go_time) list)
    \<Rightarrow> 'b cache_db \<Rightarrow> string list" where
  "GetProvidersByPriority X sortSlice db =
     map fst (sortSlice check_before (map (\<lambda>(k, p). (k, calculatePriority p, cpLastChecked p)) (readable X db)))"

section \<open>Monikers\<close>

definition moniker_Get :: "('b, 'v) cache_ext \<Rightarrow> 'b cache_db \<Rightarrow> string \<rightharpoonup> string" where
  "moniker_Get X db =
     (case db Monikers of
        None \<Rightarrow> Map.empty
      | Some b \<Rightarrow> fold (\<lambda>(k, v) m. m(k \<mapsto> cx_moniker_of X v)) (cx_entries X b) Map.empty)"

fun put_monikers :: "('b, 'v) cache_ext \<Rightarrow> (string \<times> string) list \<Rightarrow> 'b \<Rightarrow> 'b option" where
  "put_monikers X [] b = Some b"
| "put_monikers X ((k, v) # rest) b = (case cx_put X b k (cx_moniker X v) of None \<Rightarrow> None | Some b' \<Rightarrow> put_monikers X rest b')"

text \<open>A bucket that could not be deleted is still there when it is to be created, which fails.\<close>

definition moniker_Set :: "('b, 'v) cache_ext \<Rightarrow> (string \<times> string) list \<Rightarrow> 'b cache_db \<Rightarrow> 'b cache_db" where
  "moniker_Set X monikers db =
     snd (cache_update X (\<lambda>tx.
       let tx = (if cx_delete X Monikers then tx(Monikers := None) else tx) in
       if tx Monikers \<noteq> None \<or> \<not> cx_create X Monikers then None
       else map_option (\<lambda>b. tx(Monikers \<mapsto> b)) (put_monikers X monikers (cx_new X))) db)"

definition HasMonikers :: "('b, 'v) cache_ext \<Rightarrow> 'b cache_db \<Rightarrow> bool" where
  "HasMonikers X db = (case db Monikers of None \<Rightarrow> False | Some b \<Rightarrow> 0 < length (cx_entries X b))"

end
