(* ===== verification/Monitor_Props.thy ===== *)
theory Monitor_Props
  imports Monitor_Cache "HOL-Library.AList"
begin

text \<open>
  What the provider cache promises to the monitor: the status of a provider is the outcome of its
  checks so far, whatever the chain reports in between, and the next check follows from it; the
  moniker cache holds what was last set.
\<close>

section \<open>What the cache needs of its database\<close>

text \<open>
  Buckets are maps with entries in key order and take every row under a non-empty key; JSON
  represents a provider exactly when its texts are valid and its times are in range.
\<close>

definition exact_provider :: "(string \<Rightarrow> bool) \<Rightarrow> (go_time \<Rightarrow> bool) \<Rightarrow> CachedProvider \<Rightarrow> bool" where
  "exact_provider okt okm p \<longleftrightarrow> okt (cpHostURI p) \<and> okt (cpName p) \<and> okt (cpCountry p) \<and> okt (cpVersion p) \<and> list_all okt (cpGPUModels p) \<and>
     (\<forall>k v. cpAttributes p k = Some v \<longrightarrow> okt k \<and> okt v) \<and> okm (cpLastSeenOnline p) \<and> okm (cpLastChecked p)"

definition cache_env :: "('b, 'v) cache_ext \<Rightarrow> (string \<Rightarrow> bool) \<Rightarrow> (go_time \<Rightarrow> bool) \<Rightarrow> bool" where
  "cache_env X okt okm \<longleftrightarrow>
     (\<forall>k. cx_get X (cx_new X) k = None) \<and>
     (\<forall>b k v. k \<noteq> [] \<longrightarrow> (\<exists>b'. cx_put X b k v = Some b' \<and> (\<forall>k'. cx_get X b' k' = (if k' = k then Some v else cx_get X b k')))) \<and>
     (\<forall>b. map_of (cx_entries X b) = cx_get X b \<and> distinct (map fst (cx_entries X b))) \<and>
     (\<forall>n. cx_create X n \<and> cx_delete X n) \<and> (\<forall>db. cx_commit X db) \<and>
     (\<forall>p. exact_provider okt okm p \<longrightarrow> (\<exists>v. cx_marshal X p = Some v \<and> cx_unmarshal X v = Some p)) \<and>
     (\<forall>s. cx_moniker_of X (cx_moniker X s) = s) \<and>
     okt [] \<and> okm 0 \<and> (\<forall>s. okt s \<longrightarrow> okt (extractHostname s))"

lemma cache_env_new: "cache_env X okt okm \<Longrightarrow> cx_get X (cx_new X) k = None"
  by (simp add: cache_env_def)

lemma cache_env_put:
  assumes "cache_env X okt okm" and "k \<noteq> []"
  obtains b' where "cx_put X b k v = Some b'" "\<And>k'. cx_get X b' k' = (if k' = k then Some v else cx_get X b k')"
  using assms unfolding cache_env_def by meson

lemma cache_env_entries: "cache_env X okt okm \<Longrightarrow> map_of (cx_entries X b) = cx_get X b" "cache_env X okt okm \<Longrightarrow> distinct (map fst (cx_entries X b))"
  by (simp_all add: cache_env_def)

lemma cache_env_flags: "cache_env X okt okm \<Longrightarrow> cx_create X n" "cache_env X okt okm \<Longrightarrow> cx_delete X n" "cache_env X okt okm \<Longrightarrow> cx_commit X db"
  by (simp_all add: cache_env_def)

lemma cache_env_json:
  assumes "cache_env X okt okm" and "exact_provider okt okm p"
  obtains v where "cx_marshal X p = Some v" "cx_unmarshal X v = Some p"
  using assms unfolding cache_env_def by meson

lemma cache_env_text: "cache_env X okt okm \<Longrightarrow> okt []" "cache_env X okt okm \<Longrightarrow> okm 0" "cache_env X okt okm \<Longrightarrow> okt s \<Longrightarrow> okt (extractHostname s)"
  by (simp_all add: cache_env_def)

lemma cache_env_moniker: "cache_env X okt okm \<Longrightarrow> cx_moniker_of X (cx_moniker X s) = s"
  by (simp add: cache_env_def)

lemma cache_update_some [simp]: "cache_env X okt okm \<Longrightarrow> f db = Some db' \<Longrightarrow> cache_update X f db = (True, db')"
  by (simp add: cache_update_def cache_env_flags)

section \<open>The view of the provider bucket\<close>

definition row_view :: "('b, 'v) cache_ext \<Rightarrow> 'b \<Rightarrow> string \<rightharpoonup> CachedProvider" where
  "row_view X b k = Option.bind (cx_get X b k) (cx_unmarshal X)"

definition rows_ok :: "('b, 'v) cache_ext \<Rightarrow> (CachedProvider \<Rightarrow> bool) \<Rightarrow> 'b \<Rightarrow> bool" where
  "rows_ok X exact b \<longleftrightarrow> (\<forall>k v. cx_get X b k = Some v \<longrightarrow> k \<noteq> [] \<and> (\<exists>p. cx_unmarshal X v = Some p \<and> exact p))"

lemma row_view_none: "rows_ok X exact b \<Longrightarrow> row_view X b k = None \<longleftrightarrow> cx_get X b k = None"
  by (cases "cx_get X b k") (auto simp: row_view_def rows_ok_def)

lemma row_view_some: "rows_ok X exact b \<Longrightarrow> row_view X b k = Some p \<Longrightarrow> k \<noteq> [] \<and> exact p \<and> (\<exists>v. cx_get X b k = Some v \<and> cx_unmarshal X v = Some p)"
  by (cases "cx_get X b k") (fastforce simp: row_view_def rows_ok_def)+

lemma putProvider_view:
  assumes env: "cache_env X okt okm" and ok: "rows_ok X (exact_provider okt okm) b" and p: "exact_provider okt okm p" and "k \<noteq> []"
  obtains b' where "putProvider X b k p = Some b'" "row_view X b' = (row_view X b)(k \<mapsto> p)" "rows_ok X (exact_provider okt okm) b'"
proof -
  obtain v where v: "cx_marshal X p = Some v" "cx_unmarshal X v = Some p" using cache_env_json [OF env p] .
  obtain b' where b': "cx_put X b k v = Some b'" "\<And>k'. cx_get X b' k' = (if k' = k then Some v else cx_get X b k')"
    using cache_env_put [OF env \<open>k \<noteq> []\<close>, of b v] by metis
  have "row_view X b' = (row_view X b)(k \<mapsto> p)" using v b'(2) by (auto simp: row_view_def fun_eq_iff)
  moreover have "rows_ok X (exact_provider okt okm) b'" using ok v p \<open>k \<noteq> []\<close> by (simp add: rows_ok_def b'(2))
  ultimately show ?thesis using that [of b'] v b'(1) by (simp add: putProvider_def)
qed

lemma mark_provider_view:
  assumes env: "cache_env X okt okm" and db: "db Providers = Some b" and ok: "rows_ok X (exact_provider okt okm) b"
    and change: "\<And>p. exact_provider okt okm p \<Longrightarrow> exact_provider okt okm (change p)"
  obtains b' where "mark_provider X change owner db = db(Providers \<mapsto> b')" "rows_ok X (exact_provider okt okm) b'"
    "row_view X b' = (case row_view X b owner of None \<Rightarrow> row_view X b | Some p \<Rightarrow> (row_view X b)(owner \<mapsto> change p))"
proof (cases "row_view X b owner")
  case None
  then have "cx_get X b owner = None" using row_view_none [OF ok] by blast
  then have "mark_provider X change owner db = db" using db env by (simp add: mark_provider_def cache_update_def cache_env_flags)
  with that [of b] None db ok show ?thesis by (simp add: fun_upd_idem)
next
  case (Some p)
  then obtain v where p: "exact_provider okt okm p" "owner \<noteq> []" "cx_get X b owner = Some v" "cx_unmarshal X v = Some p"
    using row_view_some [OF ok] by blast
  obtain b' where b': "putProvider X b owner (change p) = Some b'" "row_view X b' = (row_view X b)(owner \<mapsto> change p)"
      "rows_ok X (exact_provider okt okm) b'"
    using putProvider_view [OF env ok change [OF p(1)] p(2)] by metis
  have "mark_provider X change owner db = db(Providers \<mapsto> b')"
    using db env p b'(1) by (simp add: mark_provider_def cache_update_def cache_env_flags)
  with that [of b'] Some b' show ?thesis by simp
qed

section \<open>The status of a provider\<close>

text \<open>Whether it was online, its failures in a row and when it was checked.\<close>

type_synonym status = "bool \<times> int \<times> go_time"

definition status_of :: "CachedProvider \<Rightarrow> status" where
  "status_of p = (cpIsOnline p, cpConsecutiveFailures p, cpLastChecked p)"

lemma status_refresh [simp]: "status_of (refresh_provider ocp p) = status_of p"
  by (simp add: status_of_def refresh_provider_def Let_def)

lemma status_new [simp]: "status_of (new_provider ocp now) = (ocIsOnline ocp, 0, 0)"
  by (simp add: status_of_def new_provider_def Let_def)

lemma status_marks [simp]:
  "status_of (set_online c clock p) = (True, 0, clock 1)"
  "status_of (set_offline clock p) = (False, sint (word_of_int (fst (snd (status_of p)) + 1) :: 64 word), clock 0)"
  by (simp_all add: status_of_def set_online_def set_offline_def)

datatype cache_event =
    Online string capacity "nat \<Rightarrow> go_time"
  | Offline string "nat \<Rightarrow> go_time"
  | Synced "nat \<Rightarrow> go_time" "OnChainProvider list"

fun cache_step :: "('b, 'v) cache_ext \<Rightarrow> cache_event \<Rightarrow> 'b cache_db \<Rightarrow> 'b cache_db" where
  "cache_step X (Online owner c clock) db = MarkProviderOnline X owner c clock db"
| "cache_step X (Offline owner clock) db = MarkProviderOffline X owner clock db"
| "cache_step X (Synced clock ps) db = snd (SyncWithChain X clock ps db)"

text \<open>
  The status by the events alone: the first report of the chain makes a provider known, a later one
  does not change its status; a check sets it.
\<close>

fun status_step :: "string \<Rightarrow> cache_event \<Rightarrow> status option \<Rightarrow> status option" where
  "status_step owner (Online o' c clock) st = (if o' = owner then map_option (\<lambda>_. (True, 0, clock 1)) st else st)"
| "status_step owner (Offline o' clock) st =
     (if o' = owner then map_option (\<lambda>(_, f, _). (False, sint (word_of_int (f + 1) :: 64 word), clock 0)) st else st)"
| "status_step owner (Synced clock ps) st =
     (case st of Some s \<Rightarrow> Some s | None \<Rightarrow> map_option (\<lambda>p. (ocIsOnline p, 0, 0)) (List.find (\<lambda>p. ocOwner p = owner) ps))"

definition exact_chain :: "(string \<Rightarrow> bool) \<Rightarrow> (go_time \<Rightarrow> bool) \<Rightarrow> (nat \<Rightarrow> go_time) \<Rightarrow> OnChainProvider \<Rightarrow> bool" where
  "exact_chain okt okm clock ocp \<longleftrightarrow> ocOwner ocp \<noteq> [] \<and> okt (ocHostURI ocp) \<and> (\<forall>k v. ocAttributes ocp k = Some v \<longrightarrow> okt k \<and> okt v) \<and>
     (\<forall>i. okm (clock i))"

fun exact_event :: "(string \<Rightarrow> bool) \<Rightarrow> (go_time \<Rightarrow> bool) \<Rightarrow> cache_event \<Rightarrow> bool" where
  "exact_event okt okm (Online owner c clock) \<longleftrightarrow> okt (cyVersion c) \<and> list_all okt (cyModels c) \<and> (\<forall>i. okm (clock i))"
| "exact_event okt okm (Offline owner clock) \<longleftrightarrow> (\<forall>i. okm (clock i))"
| "exact_event okt okm (Synced clock ps) \<longleftrightarrow> (\<forall>p \<in> set ps. exact_chain okt okm clock p)"

lemma exact_attribute: "okt [] \<Longrightarrow> (\<forall>k v. m k = Some v \<longrightarrow> okt k \<and> okt v) \<Longrightarrow> okt (attribute m k)"
  by (cases "m k") (auto simp: attribute_def)

lemma exact_refresh:
  "okt [] \<Longrightarrow> exact_chain okt okm clock ocp \<Longrightarrow> exact_provider okt okm p \<Longrightarrow> exact_provider okt okm (refresh_provider ocp p)"
  using exact_attribute [of okt "ocAttributes ocp"]
  by (simp add: exact_provider_def exact_chain_def refresh_provider_def Let_def)

lemma exact_new:
  "cache_env X okt okm \<Longrightarrow> exact_chain okt okm clock ocp \<Longrightarrow> exact_provider okt okm (new_provider ocp (clock i))"
  using exact_attribute [of okt "ocAttributes ocp"]
  by (simp add: exact_provider_def exact_chain_def new_provider_def Let_def cache_env_text)

lemma sync_one_view:
  assumes env: "cache_env X okt okm" and ok: "rows_ok X (exact_provider okt okm) b" and ocp: "exact_chain okt okm clock ocp"
  obtains b' news where "sync_one X clock ocp (i, b, ns) = (Suc i, b', news)" "rows_ok X (exact_provider okt okm) b'"
    "row_view X b' = (row_view X b)(ocOwner ocp \<mapsto>
       (case row_view X b (ocOwner ocp) of None \<Rightarrow> new_provider ocp (clock i) | Some p \<Rightarrow> refresh_provider ocp p))"
proof -
  have k: "ocOwner ocp \<noteq> []" using ocp by (simp add: exact_chain_def)
  show ?thesis
  proof (cases "row_view X b (ocOwner ocp)")
    case None
    then have "cx_get X b (ocOwner ocp) = None" using row_view_none [OF ok] by blast
    moreover obtain b' where "putProvider X b (ocOwner ocp) (new_provider ocp (clock i)) = Some b'"
        "row_view X b' = (row_view X b)(ocOwner ocp \<mapsto> new_provider ocp (clock i))" "rows_ok X (exact_provider okt okm) b'"
      using putProvider_view [OF env ok exact_new [OF env ocp] k] by metis
    ultimately show ?thesis using that [of b' "ns @ [ocOwner ocp]"] None by (simp add: sync_one_def put_or_keep_def)
  next
    case (Some p)
    then obtain v where p: "exact_provider okt okm p" "cx_get X b (ocOwner ocp) = Some v" "cx_unmarshal X v = Some p"
      using row_view_some [OF ok] by blast
    moreover obtain b' where "putProvider X b (ocOwner ocp) (refresh_provider ocp p) = Some b'"
        "row_view X b' = (row_view X b)(ocOwner ocp \<mapsto> refresh_provider ocp p)" "rows_ok X (exact_provider okt okm) b'"
      using putProvider_view [OF env ok exact_refresh [OF cache_env_text(1) [OF env] ocp p(1)] k] by metis
    ultimately show ?thesis using that [of b' ns] Some by (simp add: sync_one_def put_or_keep_def)
  qed
qed

lemma sync_all_view:
  assumes env: "cache_env X okt okm" and "rows_ok X (exact_provider okt okm) b" and "\<forall>p \<in> set ps. exact_chain okt okm clock p"
  shows "\<exists>b' j news. fold (sync_one X clock) ps (i, b, ns) = (j, b', news) \<and> rows_ok X (exact_provider okt okm) b' \<and>
    (\<forall>k. map_option status_of (row_view X b' k) = status_step k (Synced clock ps) (map_option status_of (row_view X b k)))"
  using assms(2,3)
proof (induction ps arbitrary: i b ns)
  case Nil
  then show ?case by (simp split: option.split)
next
  case (Cons ocp ps)
  obtain b1 news where b1: "sync_one X clock ocp (i, b, ns) = (Suc i, b1, news)" "rows_ok X (exact_provider okt okm) b1"
    "row_view X b1 = (row_view X b)(ocOwner ocp \<mapsto>
       (case row_view X b (ocOwner ocp) of None \<Rightarrow> new_provider ocp (clock i) | Some p \<Rightarrow> refresh_provider ocp p))"
    using sync_one_view [OF env Cons.prems(1), of clock ocp i ns] Cons.prems(2) by (metis list.set_intros(1))
  from Cons.IH [OF b1(2), of "Suc i" news] Cons.prems(2)
  obtain b' j ns' where b': "fold (sync_one X clock) ps (Suc i, b1, news) = (j, b', ns')" "rows_ok X (exact_provider okt okm) b'"
    "\<And>k. map_option status_of (row_view X b' k) = status_step k (Synced clock ps) (map_option status_of (row_view X b1 k))" by auto
  have "status_step k (Synced clock ps) (map_option status_of (row_view X b1 k)) =
      status_step k (Synced clock (ocp # ps)) (map_option status_of (row_view X b k))" for k
    by (auto simp: b1(3) split: option.split)
  with b1(1) b' show ?case by auto
qed

lemma cache_step_view:
  assumes env: "cache_env X okt okm" and db: "db Providers = Some b" and ok: "rows_ok X (exact_provider okt okm) b" and ev: "exact_event okt okm e"
  shows "\<exists>b'. cache_step X e db Providers = Some b' \<and> rows_ok X (exact_provider okt okm) b' \<and>
    (\<forall>k. map_option status_of (row_view X b' k) = status_step k e (map_option status_of (row_view X b k)))"
proof (cases e)
  case (Online owner c clock)
  then have "exact_provider okt okm p \<Longrightarrow> exact_provider okt okm (set_online c clock p)" for p
    using ev by (simp add: exact_provider_def set_online_def)
  then obtain b' where "cache_step X e db = db(Providers \<mapsto> b')" "rows_ok X (exact_provider okt okm) b'"
    "row_view X b' = (case row_view X b owner of None \<Rightarrow> row_view X b | Some p \<Rightarrow> (row_view X b)(owner \<mapsto> set_online c clock p))"
    using mark_provider_view [of X okt okm db b "set_online c clock" owner, OF env db ok] unfolding Online cache_step.simps MarkProviderOnline_def by metis
  then show ?thesis using Online by (auto split: option.splits)
next
  case (Offline owner clock)
  then have "exact_provider okt okm p \<Longrightarrow> exact_provider okt okm (set_offline clock p)" for p
    using ev by (simp add: exact_provider_def set_offline_def)
  then obtain b' where "cache_step X e db = db(Providers \<mapsto> b')" "rows_ok X (exact_provider okt okm) b'"
    "row_view X b' = (case row_view X b owner of None \<Rightarrow> row_view X b | Some p \<Rightarrow> (row_view X b)(owner \<mapsto> set_offline clock p))"
    using mark_provider_view [of X okt okm db b "set_offline clock" owner, OF env db ok] unfolding Offline cache_step.simps MarkProviderOffline_def by metis
  then show ?thesis using Offline by (auto split: option.splits prod.splits)
next
  case (Synced clock ps)
  obtain b' j news where b': "fold (sync_one X clock) ps (0, b, []) = (j, b', news)" "rows_ok X (exact_provider okt okm) b'"
    "\<forall>k. map_option status_of (row_view X b' k) = status_step k e (map_option status_of (row_view X b k))"
    using sync_all_view [OF env ok, of ps clock 0 "[]"] ev Synced by auto
  have "cache_step X e db Providers = Some b'"
    using b'(1) db env by (simp add: Synced SyncWithChain_def cache_update_def cache_env_flags Let_def split: option.split)
  with b' show ?thesis by blast
qed

lemma cache_steps_view:
  assumes env: "cache_env X okt okm" and "db Providers = Some b" and "rows_ok X (exact_provider okt okm) b" and "list_all (exact_event okt okm) es"
  shows "\<exists>b'. fold (cache_step X) es db Providers = Some b' \<and> rows_ok X (exact_provider okt okm) b' \<and>
    (\<forall>k. map_option status_of (row_view X b' k) = fold (status_step k) es (map_option status_of (row_view X b k)))"
  using assms(2-)
proof (induction es arbitrary: db b)
  case (Cons e es)
  from cache_step_view [of X okt okm db b e, OF env Cons.prems(1,2)] Cons.prems(3)
  obtain b1 where b1: "cache_step X e db Providers = Some b1" "rows_ok X (exact_provider okt okm) b1"
    "\<forall>k. map_option status_of (row_view X b1 k) = status_step k e (map_option status_of (row_view X b k))" by auto
  from Cons.IH [of "cache_step X e db" b1, OF b1(1,2)] Cons.prems(3) b1(3) show ?case by simp
qed simp

section \<open>Scheduling\<close>

lemma readable_iff:
  assumes "cache_env X okt okm" and "db Providers = Some b"
  shows "(k, p) \<in> set (readable X db) \<longleftrightarrow> row_view X b k = Some p"
proof -
  have "(k, p) \<in> set (readable X db) \<longleftrightarrow> (\<exists>v. (k, v) \<in> set (cx_entries X b) \<and> cx_unmarshal X v = Some p)"
    using assms(2) by (auto simp: readable_def map_filter_def) force
  also have "\<dots> \<longleftrightarrow> row_view X b k = Some p"
    using map_of_eq_Some_iff [OF cache_env_entries(2) [OF assms(1)], of b k] cache_env_entries(1) [OF assms(1)]
    by (auto simp: row_view_def bind_eq_Some_conv)
  finally show ?thesis .
qed

lemma readable_keys:
  assumes "cache_env X okt okm" and "db Providers = Some b" and "rows_ok X exact b"
  shows "map fst (readable X db) = map fst (cx_entries X b)"
proof -
  have decodes: "cx_unmarshal X v \<noteq> None" if "(k, v) \<in> set (cx_entries X b)" for k v
  proof -
    have "cx_get X b k = Some v"
      using that map_of_eq_Some_iff [OF cache_env_entries(2) [OF assms(1)], of b k v] cache_env_entries(1) [OF assms(1)] by simp
    with assms(3) show ?thesis unfolding rows_ok_def by blast
  qed
  have "map fst (List.map_filter (\<lambda>(k, v). map_option (\<lambda>p. (k, p)) (cx_unmarshal X v)) xs) = map fst xs"
    if "set xs \<subseteq> set (cx_entries X b)" for xs
    using that
  proof (induction xs)
    case (Cons x xs)
    obtain k v where x: "x = (k, v)" by (cases x)
    with Cons.prems obtain p where "cx_unmarshal X v = Some p" using decodes [of k v] by auto
    with Cons x show ?case by (simp add: map_filter_simps)
  qed (simp add: map_filter_simps)
  then show ?thesis using assms(2) by (simp add: readable_def)
qed

text \<open>A cache opened on an empty database.\<close>

lemma cache_Open_empty:
  assumes "cache_env X okt okm"
  shows "snd (cache_Open X Map.empty) Providers = Some (cx_new X)" "rows_ok X exact (cx_new X)" "row_view X (cx_new X) k = None"
  using assms
  by (simp_all add: cache_Open_def cache_update_def joined_def ensureProviderBuckets_def create_if_missing_def cache_env_flags
      rows_ok_def row_view_def cache_env_new)

text \<open>
  When a provider is checked next.  For any sequence of successful and failed checks and of
  reports of the chain, in any order, a provider is due exactly when it is known and its last check
  is as long ago as its own checks ask for: a minute after a success, five minutes after one to
  four failures in a row and six hours from the fifth on.  Reports of the chain never delay or
  hasten a check, no provider is listed twice, and the counter wraps at 64 bits.
\<close>

theorem check_schedule:
  assumes "cache_env X okt okm" and "list_all (exact_event okt okm) es"
  shows "distinct (GetProvidersDueForCheck X now (fold (cache_step X) es (snd (cache_Open X Map.empty)))) \<and>
    (owner \<in> set (GetProvidersDueForCheck X now (fold (cache_step X) es (snd (cache_Open X Map.empty)))) \<longleftrightarrow>
     (case fold (status_step owner) es None of
        None \<Rightarrow> False
      | Some (online, failures, checked) \<Rightarrow>
          time_Sub now checked \<ge> (if online then 60 * 10 ^ 9 else if failures \<ge> 5 then 21600 * 10 ^ 9 else 300 * 10 ^ 9)))"
proof -
  let ?db = "fold (cache_step X) es (snd (cache_Open X Map.empty))"
  obtain b where b: "?db Providers = Some b" "rows_ok X (exact_provider okt okm) b"
    "map_option status_of (row_view X b owner) = fold (status_step owner) es None"
    using cache_steps_view [of X okt okm "snd (cache_Open X Map.empty)" "cx_new X" es, OF assms(1) cache_Open_empty(1,2) [OF assms(1)] assms(2)] cache_Open_empty(3) [OF assms(1)] by auto
  note mem = readable_iff [of X okt okm ?db b, OF assms(1) b(1)]
  have "distinct (map fst (readable X ?db))"
    using readable_keys [of X okt okm ?db b, OF assms(1) b(1,2)] cache_env_entries(2) [OF assms(1)] by simp
  then have "distinct (GetProvidersDueForCheck X now ?db)" by (simp add: GetProvidersDueForCheck_def distinct_map_filter)
  moreover have "owner \<in> set (GetProvidersDueForCheck X now ?db) \<longleftrightarrow>
      (\<exists>p. row_view X b owner = Some p \<and> time_Sub now (cpLastChecked p) \<ge> check_interval p)"
    using mem by (force simp: GetProvidersDueForCheck_def)
  ultimately show ?thesis
    unfolding b(3) [symmetric]
    by (cases "row_view X b owner")
      (simp_all add: status_of_def check_interval_def OnlineCheckInterval_def RecentOfflineInterval_def LongTermOfflineInterval_def
        LongTermOfflineThreshold_def)
qed

section \<open>A reference database\<close>

datatype ref_row = RowProvider CachedProvider | RowText string | RowTime int

definition ref_cache :: "((string \<times> ref_row) list, ref_row) cache_ext" where
  "ref_cache = \<lparr>cx_new = [], cx_get = map_of, cx_put = (\<lambda>b k v. if k = [] then None else Some ((k, v) # b)),
     cx_entries = AList.clearjunk, cx_create = (\<lambda>_. True), cx_delete = (\<lambda>_. True), cx_commit = (\<lambda>_. True),
     cx_marshal = (\<lambda>p. Some (RowProvider p)), cx_unmarshal = (\<lambda>v. case v of RowProvider p \<Rightarrow> Some p | _ \<Rightarrow> None),
     cx_moniker = RowText, cx_moniker_of = (\<lambda>v. case v of RowText s \<Rightarrow> s | _ \<Rightarrow> []), cx_time = RowTime\<rparr>"

lemma ref_cache_env: "cache_env ref_cache (\<lambda>_. True) (\<lambda>_. True)"
  by (simp add: cache_env_def ref_cache_def map_of_clearjunk distinct_clearjunk)

definition some_provider :: OnChainProvider where
  "some_provider = \<lparr>ocOwner = ''akash1p'', ocHostURI = ''https://p.example:8443'', ocAttributes = Map.empty, ocIsOnline = True\<rparr>"

definition some_capacity :: capacity where
  "some_capacity = \<lparr>cyVersion = ''0.6'', cyCPU = (1, 2), cyMem = (1, 2), cyGPU = (0, 0), cyModels = []\<rparr>"

definition failing_history :: "cache_event list" where
  "failing_history = [Synced (\<lambda>_. 1) [some_provider], Online ''akash1p'' some_capacity (\<lambda>_. 2), Offline ''akash1p'' (\<lambda>_. 3),
     Synced (\<lambda>_. 4) [some_provider], Offline ''akash1p'' (\<lambda>_. 5)]"

theorem check_schedule_witness:
  "''akash1p'' \<notin> set (GetProvidersDueForCheck ref_cache (5 + 299 * 10 ^ 9) (fold (cache_step ref_cache) failing_history (snd (cache_Open ref_cache Map.empty)))) \<and>
   ''akash1p'' \<in> set (GetProvidersDueForCheck ref_cache (5 + 300 * 10 ^ 9) (fold (cache_step ref_cache) failing_history (snd (cache_Open ref_cache Map.empty))))"
proof -
  have ev: "list_all (exact_event (\<lambda>_. True) (\<lambda>_. True)) failing_history"
    by (simp add: failing_history_def exact_chain_def some_provider_def some_capacity_def)
  have st: "fold (status_step ''akash1p'') failing_history None = Some (False, 2, 5)"
    by (simp add: failing_history_def some_provider_def)
  show ?thesis
    using check_schedule [OF ref_cache_env ev, of "5 + 299 * 10 ^ 9" "''akash1p''"] check_schedule [OF ref_cache_env ev, of "5 + 300 * 10 ^ 9" "''akash1p''"]
    by (simp add: st time_Sub_def)
qed

section \<open>Priorities and monikers\<close>

lemma mset_map_split: "mset ys = mset (map f xs) \<Longrightarrow> \<exists>ps. mset ps = mset xs \<and> map f ps = ys"
proof (induction ys arbitrary: xs)
  case (Cons y ys)
  then have "image_mset f (mset xs) = add_mset y (mset ys)" by simp
  then obtain M a where a: "mset xs = add_mset a M" "f a = y" "image_mset f M = mset ys" using msed_map_invR by metis
  obtain xs' where xs': "mset xs' = M" using ex_mset by blast
  with a(3) Cons.IH [of xs'] obtain ps where "mset ps = M" "map f ps = ys" by auto
  with a show ?case by (intro exI [of _ "a # ps"]) simp
qed simp

text \<open>
  The order of the checks: every provider once, those never checked first, then the online ones,
  then those that failed less than five times, within a group the longest unchecked first,
  whatever the sorting does with equal elements.
\<close>

theorem priority_order:
  assumes "\<And>xs. mset (sortSlice check_before xs) = mset xs" and "\<And>xs. sorted_wrt (\<lambda>x y. \<not> check_before y x) (sortSlice check_before xs)"
  shows "\<exists>ps. mset ps = mset (readable X db) \<and> GetProvidersByPriority X sortSlice db = map fst ps \<and>
    sorted_wrt (\<lambda>p q. calculatePriority p < calculatePriority q \<or>
      calculatePriority p = calculatePriority q \<and> cpLastChecked p \<le> cpLastChecked q) (map snd ps)"
proof -
  let ?f = "\<lambda>(k, p). (k, calculatePriority p, cpLastChecked p)"
  let ?ys = "sortSlice check_before (map ?f (readable X db))"
  have "mset ?ys = mset (map ?f (readable X db))" by (rule assms(1))
  then obtain ps where ps: "mset ps = mset (readable X db)" "map ?f ps = ?ys"
    using mset_map_split [of ?ys ?f] by blast
  have "sorted_wrt (\<lambda>x y. \<not> check_before (?f y) (?f x)) ps" using assms(2) [of "map ?f (readable X db)"] by (simp add: ps(2) [symmetric] sorted_wrt_map)
  then have "sorted_wrt (\<lambda>p q. calculatePriority p < calculatePriority q \<or>
      calculatePriority p = calculatePriority q \<and> cpLastChecked p \<le> cpLastChecked q) (map snd ps)"
    unfolding sorted_wrt_map by (rule sorted_wrt_mono_rel [rotated]) (auto simp: check_before_def split: if_splits)
  moreover have "GetProvidersByPriority X sortSlice db = map fst ps"
    unfolding GetProvidersByPriority_def ps(2) [symmetric] by (simp add: case_prod_beta)
  ultimately show ?thesis using ps(1) by blast
qed

text \<open>What was set is what is read, and nothing else changes.\<close>

lemma put_monikers_get:
  assumes "cache_env X okt okm" and "[] \<notin> fst ` set ms"
  shows "\<exists>b'. put_monikers X ms b = Some b' \<and> (\<forall>k. cx_get X b' k = fold (\<lambda>(k, v) m. m(k \<mapsto> cx_moniker X v)) ms (cx_get X b) k)"
  using assms(2)
proof (induction ms arbitrary: b)
  case (Cons kv ms)
  obtain k v where kv: "kv = (k, v)" by (cases kv)
  with Cons.prems have "k \<noteq> []" by force
  obtain b1 where b1: "cx_put X b k (cx_moniker X v) = Some b1" "\<And>k'. cx_get X b1 k' = (if k' = k then Some (cx_moniker X v) else cx_get X b k')"
    using cache_env_put [OF assms(1) \<open>k \<noteq> []\<close>, of b "cx_moniker X v"] by metis
  have "cx_get X b1 = (cx_get X b)(k \<mapsto> cx_moniker X v)" using b1(2) by (auto simp: fun_eq_iff)
  with Cons.IH [of b1] Cons.prems b1(1) kv show ?case by auto
qed simp

lemma fold_upd_map_of:
  "distinct (map fst xs) \<Longrightarrow> fold (\<lambda>(k, v) m. m(k \<mapsto> f v)) xs m = (\<lambda>k. case map_of xs k of None \<Rightarrow> m k | Some v \<Rightarrow> Some (f v))"
proof (induction xs arbitrary: m)
  case (Cons x xs)
  obtain k v where x: "x = (k, v)" by (cases x)
  with Cons.prems have "map_of xs k = None" by (simp add: map_of_eq_None_iff)
  with Cons x show ?case by (auto simp: fun_eq_iff split: option.split)
qed simp

theorem moniker_roundtrip:
  assumes "cache_env X okt okm" and "distinct (map fst ms)" and "[] \<notin> fst ` set ms"
  shows "moniker_Get X (moniker_Set X ms db) = map_of ms \<and> (\<forall>n. n \<noteq> Monikers \<longrightarrow> moniker_Set X ms db n = db n)"
proof -
  obtain b where b: "put_monikers X ms (cx_new X) = Some b"
    "\<And>k. cx_get X b k = fold (\<lambda>(k, v) m. m(k \<mapsto> cx_moniker X v)) ms (cx_get X (cx_new X)) k"
    using put_monikers_get [OF assms(1,3)] by metis
  have db: "moniker_Set X ms db = db(Monikers \<mapsto> b)"
    using assms(1) b(1) by (simp add: moniker_Set_def cache_update_def cache_env_flags Let_def)
  have "map_of (cx_entries X b) k = map_option (cx_moniker X) (map_of ms k)" for k
    unfolding cache_env_entries(1) [OF assms(1)] b(2) fold_upd_map_of [OF assms(2)] cache_env_new [OF assms(1)] by (simp split: option.split)
  then have "moniker_Get X (moniker_Set X ms db) = map_of ms"
    using fold_upd_map_of [OF cache_env_entries(2) [OF assms(1)], of "cx_moniker_of X" b Map.empty] cache_env_moniker [OF assms(1)]
    by (auto simp: db moniker_Get_def fun_eq_iff split: option.splits)
  then show ?thesis by (simp add: db)
qed

end
