(* ===== verification/Monitor_Consensus.thy ===== *)
theory Monitor_Consensus
  imports Go_Json "HOL-Library.Sublist"
begin

text \<open>
  The consensus state of the node monitor (\<open>src/internal/monitor/consensus/consensus.go\<close>): parsing of
  the height, round and step, of bit arrays with their voting power, and the status of each
  validator in the current round.  \<open>strconv.ParseFloat\<close> is a parameter, as its value
  whether or not there was an error.
\<close>

section \<open>Numbers and patterns\<close>

text \<open>\<open>strconv.ParseInt (s, 10, 64)\<close>: the value and the error; a value out of range is the nearest bound.\<close>

definition clamp_int64 :: "bool \<Rightarrow> nat \<Rightarrow> int \<times> num_err option" where
  "clamp_int64 neg un =
     (if \<not> neg \<and> un \<ge> 2 ^ 63 then (2 ^ 63 - 1, Some ErrRange)
      else if neg \<and> un > 2 ^ 63 then (- (2 ^ 63), Some ErrRange)
      else (if neg then - int un else int un, None))"

definition parse_int64 :: "string \<Rightarrow> int \<times> num_err option" where
  "parse_int64 s =
     (if s = [] then (0, Some ErrSyntax)
      else let neg = (hd s = CHR ''-''); digits = (if hd s = CHR ''+'' \<or> hd s = CHR ''-'' then tl s else s) in
           case parse_uint 64 digits of
             Inl ErrSyntax \<Rightarrow> (0, Some ErrSyntax)
           | Inl ErrRange \<Rightarrow> clamp_int64 neg (2 ^ 64 - 1)
           | Inr un \<Rightarrow> clamp_int64 neg un)"

text \<open>The classes of the two regular expressions; each run is followed by a character outside of its class.\<close>

definition is_digit :: "char \<Rightarrow> bool" where "is_digit c \<longleftrightarrow> digit_val c \<noteq> None"

definition is_bit :: "char \<Rightarrow> bool" where "is_bit c \<longleftrightarrow> c = CHR ''x'' \<or> c = CHR ''_''"

definition re_space :: "char \<Rightarrow> bool" where
  "re_space c \<longleftrightarrow> c \<in> {CHR '' '', CHR 0x09, CHR 0x0A, CHR 0x0C, CHR 0x0D}"

definition run_of :: "(char \<Rightarrow> bool) \<Rightarrow> string \<Rightarrow> (string \<times> string) option" where
  "run_of P s = (if takeWhile P s = [] then None else Some (takeWhile P s, dropWhile P s))"

definition pattern_at :: "string \<Rightarrow> string option" where
  "pattern_at s =
     Option.bind (cut_prefix ''BA{'' s) (\<lambda>s.
     Option.bind (run_of is_digit s) (\<lambda>(_, s).
     Option.bind (cut_prefix '':'' s) (\<lambda>s.
     Option.bind (run_of is_bit s) (\<lambda>(bits, s).
     Option.bind (cut_prefix ''}'' s) (\<lambda>_. Some bits)))))"

definition stats_at :: "string \<Rightarrow> (string \<times> string \<times> string) option" where
  "stats_at s =
     Option.bind (run_of is_digit s) (\<lambda>(voted, s).
     Option.bind (cut_prefix ''/'' s) (\<lambda>s.
     Option.bind (run_of is_digit s) (\<lambda>(whole, s).
     Option.bind (cut_prefix ''='' (dropWhile re_space s)) (\<lambda>s.
     Option.bind (run_of (\<lambda>c. is_digit c \<or> c = CHR ''.'') (dropWhile re_space s)) (\<lambda>(percent, _). Some (voted, whole, percent))))))"

text \<open>The leftmost match.\<close>

fun first_match :: "(string \<Rightarrow> 'a option) \<Rightarrow> string \<Rightarrow> 'a option" where
  "first_match f [] = f []"
| "first_match f (c # cs) = (case f (c # cs) of Some m \<Rightarrow> Some m | None \<Rightarrow> first_match f cs)"

section \<open>Data\<close>

record HeightVote =
  hvRound :: int
  hvPrevotes :: "string list"
  hvPrevotesBitArray :: string
  hvPrecommits :: "string list"
  hvPrecommitsBitArray :: string

record ProposerInfo =
  piAddress :: string
  piIndex :: int

record RoundState =
  rdHeightRoundStep :: string
  rdStartTime :: int
  rdProposalBlockHash :: string
  rdLockedBlockHash :: string
  rdValidBlockHash :: string
  rdHeightVoteSet :: "HeightVote list"
  rdProposer :: ProposerInfo

record Validator =
  vaAddress :: string
  vaPubKey :: "string \<times> string"
  vaVotingPower :: string
  vaProposerPriority :: string

record ValidatorStatus =
  vsIndex :: nat
  vsAddress :: string
  vsPubKey :: string
  vsVotingPower :: int
  vsPrevoted :: bool
  vsPrecommited :: bool
  vsIsProposer :: bool

record ConsensusState =
  csHeight :: int
  csRound :: int
  csStep :: int
  csStartTime :: int
  csElapsed :: int
  csProposerAddress :: string
  csProposerIndex :: int
  csTotalValidators :: nat
  csTotalVotingPower :: int
  csPrevoteCount :: nat
  csPrevotePower :: int
  csPrevotePercent :: float64
  csPrevoteBitArray :: string
  csPrecommitCount :: nat
  csPrecommitPower :: int
  csPrecommitPercent :: float64
  csPrecommitBitArray :: string
  csValidators :: "ValidatorStatus list"

section \<open>Parsing\<close>

datatype consensus_err =
    ResponseNil | BadFormat string | BadHeight num_err | NegativeHeight int | BadRound num_err | NegativeRound int | BadStep num_err | NegativeStep int

definition nonnegative :: "(num_err \<Rightarrow> consensus_err) \<Rightarrow> (int \<Rightarrow> consensus_err) \<Rightarrow> string \<Rightarrow> consensus_err + int" where
  "nonnegative bad negative s =
     (case parse_int64 s of (n, Some e) \<Rightarrow> Inl (bad e) | (n, None) \<Rightarrow> if n < 0 then Inl (negative n) else Inr n)"

definition ParseHeightRoundStep :: "string \<Rightarrow> consensus_err + int \<times> int \<times> int" where
  "ParseHeightRoundStep hrs =
     (case split_on CHR ''/'' hrs of
        [h, r, s] \<Rightarrow>
          rbind (nonnegative BadHeight NegativeHeight h) (\<lambda>height.
          rbind (nonnegative BadRound NegativeRound r) (\<lambda>round.
          rbind (nonnegative BadStep NegativeStep s) (\<lambda>step. Inr (height, round, step))))
      | _ \<Rightarrow> Inl (BadFormat hrs))"

text \<open>The pattern, the power that voted, the total power and the share; what is missing is empty or zero.\<close>

definition ParseBitArray :: "(string \<Rightarrow> float64) \<Rightarrow> string \<Rightarrow> string \<times> int \<times> int \<times> float64" where
  "ParseBitArray parseFloat bitArray =
     ((case first_match pattern_at bitArray of None \<Rightarrow> [] | Some bits \<Rightarrow> bits),
      (case first_match stats_at bitArray of
         None \<Rightarrow> (0, 0, Fin 0)
       | Some (voted, whole, percent) \<Rightarrow> (fst (parse_int64 voted), fst (parse_int64 whole), parseFloat percent)))"

definition nilVote :: string where "nilVote = ''nil-Vote''"

definition CountVotes :: "string list \<Rightarrow> nat" where
  "CountVotes votes = length (filter (\<lambda>v. v \<noteq> nilVote) votes)"

definition voted_at :: "string list \<Rightarrow> nat \<Rightarrow> bool" where
  "voted_at votes i \<longleftrightarrow> i < length votes \<and> votes ! i \<noteq> nilVote"

definition validator_status :: "int \<Rightarrow> (nat \<Rightarrow> bool) \<Rightarrow> (nat \<Rightarrow> bool) \<Rightarrow> nat \<Rightarrow> Validator \<Rightarrow> ValidatorStatus" where
  "validator_status proposerIndex prevoted precommitted i v =
     \<lparr>vsIndex = i, vsAddress = vaAddress v, vsPubKey = snd (vaPubKey v), vsVotingPower = fst (parse_int64 (vaVotingPower v)),
      vsPrevoted = prevoted i, vsPrecommited = precommitted i, vsIsProposer = (int i = proposerIndex)\<rparr>"

definition buildValidatorStatusNoVotes :: "Validator list \<Rightarrow> int \<Rightarrow> ValidatorStatus list" where
  "buildValidatorStatusNoVotes validators proposerIndex =
     map2 (validator_status proposerIndex (\<lambda>_. False) (\<lambda>_. False)) [0..<length validators] validators"

definition buildValidatorStatus :: "Validator list \<Rightarrow> HeightVote \<Rightarrow> int \<Rightarrow> ValidatorStatus list" where
  "buildValidatorStatus validators voteSet proposerIndex =
     map2 (validator_status proposerIndex (voted_at (hvPrevotes voteSet)) (voted_at (hvPrecommits voteSet))) [0..<length validators] validators"

text \<open>\<open>now\<close> is the clock for \<open>time.Since\<close>.\<close>

definition ParseConsensusState ::
  "(string \<Rightarrow> float64) \<Rightarrow> int \<Rightarrow> RoundState option \<Rightarrow> Validator list \<Rightarrow> consensus_err + ConsensusState" where
  "ParseConsensusState parseFloat now resp validators =
     (case resp of
        None \<Rightarrow> Inl ResponseNil
      | Some rs \<Rightarrow>
          rbind (ParseHeightRoundStep (rdHeightRoundStep rs)) (\<lambda>(height, round, step).
          let state = \<lparr>csHeight = height, csRound = round, csStep = step, csStartTime = rdStartTime rs, csElapsed = now - rdStartTime rs,
                csProposerAddress = piAddress (rdProposer rs), csProposerIndex = piIndex (rdProposer rs), csTotalValidators = length validators,
                csTotalVotingPower = 0, csPrevoteCount = 0, csPrevotePower = 0, csPrevotePercent = Fin 0, csPrevoteBitArray = [],
                csPrecommitCount = 0, csPrecommitPower = 0, csPrecommitPercent = Fin 0, csPrecommitBitArray = [], csValidators = []\<rparr>
          in case List.find (\<lambda>vs. hvRound vs = round) (rdHeightVoteSet rs) of
               None \<Rightarrow> Inr (state\<lparr>csValidators := buildValidatorStatusNoVotes validators (piIndex (rdProposer rs))\<rparr>)
             | Some voteSet \<Rightarrow>
                 (case (ParseBitArray parseFloat (hvPrevotesBitArray voteSet), ParseBitArray parseFloat (hvPrecommitsBitArray voteSet)) of
                    ((preBits, prePower, whole, prePercent), (comBits, comPower, _, comPercent)) \<Rightarrow>
                      Inr (state\<lparr>csPrevoteCount := CountVotes (hvPrevotes voteSet), csPrevoteBitArray := preBits, csPrevotePower := prePower,
                        csTotalVotingPower := whole, csPrevotePercent := prePercent, csPrecommitCount := CountVotes (hvPrecommits voteSet),
                        csPrecommitBitArray := comBits, csPrecommitPower := comPower, csPrecommitPercent := comPercent,
                        csTotalValidators := (if 0 < length (hvPrevotes voteSet) then length (hvPrevotes voteSet) else length validators),
                        csValidators := buildValidatorStatus validators voteSet (piIndex (rdProposer rs))\<rparr>))))"

section \<open>Properties\<close>

lemma run_of_append:
  assumes "u \<noteq> []" and "\<forall>c \<in> set u. P c" and "t = [] \<or> \<not> P (hd t)"
  shows "run_of P (u @ t) = Some (u, t)"
proof -
  have "takeWhile P (u @ t) = u" "dropWhile P (u @ t) = t" using assms(2,3) by (cases t; simp add: takeWhile_append dropWhile_append3)+
  with assms(1) show ?thesis by (simp add: run_of_def)
qed

lemma parse_int64_format: "n < 2 ^ 63 \<Longrightarrow> parse_int64 (format_nat n) = (int n, None)"
proof -
  assume n: "n < 2 ^ 63"
  obtain c cs where f: "format_nat n = c # cs" by (metis format_nat_not_Nil neq_Nil_conv)
  have "c \<noteq> CHR ''+''" "c \<noteq> CHR ''-''" using format_nat_digits [of c n] f by (auto simp: digit_val_def)
  moreover have "parse_uint 64 (format_nat n) = Inr n" using n by (intro parse_format_nat) simp
  ultimately show ?thesis using n f by (simp add: parse_int64_def clamp_int64_def Let_def)
qed

lemma parse_int64_range: "- (2 ^ 63) \<le> fst (parse_int64 s) \<and> fst (parse_int64 s) < 2 ^ 63"
  by (auto simp: parse_int64_def clamp_int64_def Let_def split: sum.split num_err.split)

lemma format_nat_is_digit: "\<forall>c \<in> set (format_nat n). is_digit c"
  using format_nat_digits by (auto simp: is_digit_def)

lemma not_digits: "\<not> is_digit CHR ''/''" "\<not> is_digit CHR '':''" "\<not> is_digit CHR '' ''" "\<not> is_digit CHR ''{''" "\<not> is_digit CHR ''}''"
    "\<not> is_digit CHR ''B''" "\<not> is_digit CHR ''A''" "\<not> is_digit CHR ''x''" "\<not> is_digit CHR ''_''"
  by (simp_all add: is_digit_def digit_val_def)

lemma is_bit_cases: "is_bit c \<Longrightarrow> (c = CHR ''x'' \<Longrightarrow> Q) \<Longrightarrow> (c = CHR ''_'' \<Longrightarrow> Q) \<Longrightarrow> Q"
  by (auto simp: is_bit_def)

text \<open>A match of \<open>stats_at\<close> starts at a digit that a slash follows.\<close>

lemma stats_at_none: "s = [] \<or> \<not> is_digit (hd s) \<Longrightarrow> stats_at s = None"
  by (cases s) (simp_all add: stats_at_def run_of_def)

lemma first_match_skip: "\<forall>u. u \<noteq> [] \<longrightarrow> suffix u pre \<longrightarrow> f (u @ s) = None \<Longrightarrow> first_match f (pre @ s) = first_match f s"
proof (induction pre)
  case (Cons c cs)
  have "f ((c # cs) @ s) = None" using Cons.prems by (metis list.distinct(1) suffix_order.order_refl)
  moreover have "first_match f (cs @ s) = first_match f s" using Cons.prems by (intro Cons.IH) (simp add: suffix_Cons)
  ultimately show ?case by simp
qed simp

lemma first_match_here: "f s = Some m \<Longrightarrow> first_match f s = Some m"
  by (cases s) simp_all

text \<open>How CometBFT prints a bit array with its voting power.\<close>

definition print_bit_array :: "string \<Rightarrow> nat \<Rightarrow> nat \<Rightarrow> string \<Rightarrow> string" where
  "print_bit_array bits voted whole percent =
     ''BA{'' @ format_nat (length bits) @ '':'' @ bits @ ''} '' @ format_nat voted @ ''/'' @ format_nat whole @ '' = '' @ percent"

lemma pattern_at_print:
  assumes "bits \<noteq> []" and "\<forall>c \<in> set bits. is_bit c"
  shows "pattern_at (print_bit_array bits voted whole percent) = Some bits"
proof -
  have "run_of is_digit (format_nat (length bits) @ CHR '':'' # t) = Some (format_nat (length bits), CHR '':'' # t)" for t
    using format_nat_is_digit by (intro run_of_append) (simp_all add: not_digits)
  moreover have "run_of is_bit (bits @ CHR ''}'' # t) = Some (bits, CHR ''}'' # t)" for t
    using assms by (intro run_of_append) (simp_all add: is_bit_def)
  ultimately show ?thesis by (simp add: pattern_at_def print_bit_array_def)
qed

lemma stats_at_print:
  assumes "percent \<noteq> []" and "\<forall>c \<in> set percent. is_digit c \<or> c = CHR ''.''"
  shows "stats_at (format_nat voted @ ''/'' @ format_nat whole @ '' = '' @ percent) = Some (format_nat voted, format_nat whole, percent)"
proof -
  have d: "run_of is_digit (format_nat n @ c # t) = Some (format_nat n, c # t)" if "\<not> is_digit c" for n c t
    using that format_nat_is_digit by (intro run_of_append) simp_all
  have "\<not> re_space c" if "is_digit c \<or> c = CHR ''.''" for c using that by (auto simp: re_space_def is_digit_def digit_val_def)
  then have "dropWhile re_space percent = percent" using assms by (cases percent) simp_all
  moreover have "run_of (\<lambda>c. is_digit c \<or> c = CHR ''.'') (percent @ []) = Some (percent, [])"
    using assms by (intro run_of_append) simp_all
  ultimately show ?thesis
    using d [OF not_digits(1), of voted] d [OF not_digits(3), of whole] by (simp add: stats_at_def re_space_def)
qed

text \<open>Nothing before the power is taken for it: the digits of the length are followed by a colon.\<close>

lemma stats_at_length:
  assumes "suffix u (format_nat n)"
  shows "stats_at (u @ CHR '':'' # t) = None"
proof (cases "u = []")
  case False
  have "\<forall>c \<in> set u. is_digit c" using assms format_nat_is_digit [of n] set_mono_suffix by blast
  then have "run_of is_digit (u @ CHR '':'' # t) = Some (u, CHR '':'' # t)" using False by (intro run_of_append) (simp_all add: not_digits)
  then show ?thesis by (simp add: stats_at_def)
qed (simp add: stats_at_none not_digits)

lemma stats_skip_plain: "\<forall>c \<in> set pre. \<not> is_digit c \<Longrightarrow> first_match stats_at (pre @ s) = first_match stats_at s"
  by (induction pre) (simp_all add: stats_at_none)

lemma stats_skip_length: "first_match stats_at (format_nat n @ CHR '':'' # s) = first_match stats_at (CHR '':'' # s)"
  using stats_at_length [of _ n s] by (intro first_match_skip) blast

text \<open>
  A printed bit array is read back: the pattern of votes, the power that voted, the total power
  and the share, for every non-empty pattern and for powers below two to the 63; and the three
  numbers of a consensus step are read back as they are printed.
\<close>

theorem bit_array_roundtrip:
  assumes "bits \<noteq> []" and "\<forall>c \<in> set bits. is_bit c" and "percent \<noteq> []" and "\<forall>c \<in> set percent. is_digit c \<or> c = CHR ''.''"
    and "voted < 2 ^ 63" and "whole < 2 ^ 63"
  shows "ParseBitArray parseFloat (print_bit_array bits voted whole percent) = (bits, int voted, int whole, parseFloat percent)"
proof -
  have "\<not> is_digit c" if "is_bit c" for c using that by (elim is_bit_cases) (simp_all add: not_digits)
  then have "\<forall>c \<in> set (CHR '':'' # bits @ ''} ''). \<not> is_digit c" using assms(2) not_digits by simp
  from stats_skip_plain [OF this]
  have tail: "first_match stats_at (CHR '':'' # bits @ ''} '' @ s) = first_match stats_at s" for s
    by (simp only: append_Cons append_assoc)
  have start: "first_match stats_at (''BA{'' @ s) = first_match stats_at s" for s
    using not_digits by (intro stats_skip_plain) simp
  let ?power = "format_nat voted @ ''/'' @ format_nat whole @ '' = '' @ percent"
  have "print_bit_array bits voted whole percent = ''BA{'' @ format_nat (length bits) @ CHR '':'' # bits @ ''} '' @ ?power"
    by (simp add: print_bit_array_def)
  then have "first_match stats_at (print_bit_array bits voted whole percent) = first_match stats_at ?power"
    by (simp only: start stats_skip_length tail)
  also have "\<dots> = Some (format_nat voted, format_nat whole, percent)"
    by (rule first_match_here) (rule stats_at_print [OF assms(3,4)])
  finally have "first_match stats_at (print_bit_array bits voted whole percent) = Some (format_nat voted, format_nat whole, percent)" .
  then show ?thesis
    using first_match_here [of pattern_at, OF pattern_at_print [OF assms(1,2)]] assms(5,6)
    by (simp add: ParseBitArray_def parse_int64_format)
qed

lemma height_round_step_roundtrip:
  assumes "h < 2 ^ 63" and "r < 2 ^ 63" and "s < 2 ^ 63"
  shows "ParseHeightRoundStep (format_nat h @ ''/'' @ format_nat r @ ''/'' @ format_nat s) = Inr (int h, int r, int s)"
proof -
  have no: "CHR ''/'' \<notin> set (format_nat n)" for n by (simp add: format_nat_no_char digit_val_def)
  have "split_on CHR ''/'' (join_with ''/'' [format_nat h, format_nat r, format_nat s]) = [format_nat h, format_nat r, format_nat s]"
    using no by (intro split_join) auto
  then show ?thesis using assms by (simp add: ParseHeightRoundStep_def nonnegative_def parse_int64_format)
qed

lemma length_filter_index: "length (filter (\<lambda>i. i < length xs \<and> P (xs ! i)) [0..<n]) = length (filter P xs)" if "length xs \<le> n"
proof -
  have "[0..<n] = [0..<length xs] @ [length xs..<n]" using that upt_add_eq_append [of 0 "length xs" "n - length xs"] by simp
  moreover have "filter (\<lambda>i. i < length xs \<and> P (xs ! i)) [length xs..<n] = []" by (simp add: filter_empty_conv)
  moreover have "filter (\<lambda>i. i < length xs \<and> P (xs ! i)) [0..<length xs] = filter (\<lambda>i. P (xs ! i)) [0..<length xs]" by (rule filter_cong) simp_all
  moreover have "filter P xs = map ((!) xs) (filter (\<lambda>i. P (xs ! i)) [0..<length xs])"
    using filter_map [of P "(!) xs" "[0..<length xs]"] by (simp add: map_nth comp_def)
  ultimately show ?thesis by simp
qed

lemma filter_rows:
  "length (filter Q (map2 (validator_status p pre com) [0..<length vs] vs)) =
     length (filter (\<lambda>i. Q (validator_status p pre com i (vs ! i))) [0..<length vs])"
proof -
  have "map2 (validator_status p pre com) [0..<length vs] vs = map (\<lambda>i. validator_status p pre com i (vs ! i)) [0..<length vs]"
    by (rule nth_equalityI) simp_all
  then show ?thesis by (simp add: filter_map comp_def)
qed

text \<open>
  The table of validators agrees with the counters.  Row \<open>i\<close> of the state is validator \<open>i\<close>; it is
  shown as having voted exactly when the vote set of the current round, found by its number and
  not by its place, has a vote of it that is not nil; so that with no more votes than
  validators the number of rows shown as voted is the counter; and at most one row is the proposer.
\<close>

theorem votes_shown:
  assumes "ParseConsensusState parseFloat now (Some rs) validators = Inr st"
  shows "(case List.find (\<lambda>vs. hvRound vs = csRound st) (rdHeightVoteSet rs) of
      None \<Rightarrow> csPrevoteCount st = 0 \<and> list_all (\<lambda>v. \<not> vsPrevoted v \<and> \<not> vsPrecommited v) (csValidators st)
    | Some voteSet \<Rightarrow>
        list_all2 (\<lambda>i v. vsIndex v = i \<and> vsPrevoted v = voted_at (hvPrevotes voteSet) i \<and> vsPrecommited v = voted_at (hvPrecommits voteSet) i)
          [0..<length validators] (csValidators st) \<and>
        (length (hvPrevotes voteSet) \<le> length validators \<longrightarrow> length (filter vsPrevoted (csValidators st)) = csPrevoteCount st) \<and>
        (length (hvPrecommits voteSet) \<le> length validators \<longrightarrow> length (filter vsPrecommited (csValidators st)) = csPrecommitCount st)) \<and>
    map vsAddress (csValidators st) = map vaAddress validators \<and> length (filter vsIsProposer (csValidators st)) \<le> 1"
proof -
  from assms obtain h r s where hrs: "ParseHeightRoundStep (rdHeightRoundStep rs) = Inr (h, r, s)"
    by (cases "ParseHeightRoundStep (rdHeightRoundStep rs)") (auto simp: ParseConsensusState_def)
  have one: "length (filter vsIsProposer (map2 (validator_status p pre com) [0..<length validators] validators)) \<le> 1" for p pre com
  proof -
    have "filter (\<lambda>i. int i = p) [0..<n] = (if 0 \<le> p \<and> nat p < n then [nat p] else [])" for n
      by (induction n) auto
    then show ?thesis unfolding filter_rows by (simp add: validator_status_def)
  qed
  show ?thesis
  proof (cases "List.find (\<lambda>vs. hvRound vs = r) (rdHeightVoteSet rs)")
    case None
    then have st: "csRound st = r" "csPrevoteCount st = 0" "csValidators st = buildValidatorStatusNoVotes validators (piIndex (rdProposer rs))"
      using assms hrs by (auto simp: ParseConsensusState_def Let_def)
    have "length (filter vsIsProposer (csValidators st)) \<le> 1" unfolding st buildValidatorStatusNoVotes_def by (rule one)
    moreover have "map vsAddress (csValidators st) = map vaAddress validators"
      by (auto simp: st buildValidatorStatusNoVotes_def validator_status_def intro!: nth_equalityI)
    ultimately show ?thesis using st None by (auto simp: list_all_length buildValidatorStatusNoVotes_def validator_status_def)
  next
    case (Some vs)
    then have st: "csRound st = r" "csPrevoteCount st = CountVotes (hvPrevotes vs)" "csPrecommitCount st = CountVotes (hvPrecommits vs)"
      "csValidators st = buildValidatorStatus validators vs (piIndex (rdProposer rs))"
      using assms hrs by (auto simp: ParseConsensusState_def Let_def split: prod.splits)
    have "length (filter (voted_at votes) [0..<length validators]) = CountVotes votes" if "length votes \<le> length validators" for votes
      using length_filter_index [OF that, of "\<lambda>v. v \<noteq> nilVote"] by (simp add: voted_at_def [abs_def] CountVotes_def)
    then have "length (hvPrevotes vs) \<le> length validators \<Longrightarrow> length (filter vsPrevoted (csValidators st)) = csPrevoteCount st"
      "length (hvPrecommits vs) \<le> length validators \<Longrightarrow> length (filter vsPrecommited (csValidators st)) = csPrecommitCount st"
      unfolding st buildValidatorStatus_def filter_rows by (simp_all add: validator_status_def)
    moreover have "length (filter vsIsProposer (csValidators st)) \<le> 1" unfolding st buildValidatorStatus_def by (rule one)
    moreover have "map vsAddress (csValidators st) = map vaAddress validators"
      by (auto simp: st buildValidatorStatus_def validator_status_def intro!: nth_equalityI)
    ultimately show ?thesis using Some
      by (simp add: st(1) list_all2_conv_all_nth) (simp add: st(4) buildValidatorStatus_def validator_status_def)
  qed
qed

definition two_validators :: "Validator list" where
  "two_validators = [\<lparr>vaAddress = ''A'', vaPubKey = (''ed25519'', ''a''), vaVotingPower = ''10'', vaProposerPriority = ''0''\<rparr>,
     \<lparr>vaAddress = ''B'', vaPubKey = (''ed25519'', ''b''), vaVotingPower = ''20'', vaProposerPriority = ''0''\<rparr>]"

definition second_round :: RoundState where
  "second_round = \<lparr>rdHeightRoundStep = ''7/1/2'', rdStartTime = 0, rdProposalBlockHash = [], rdLockedBlockHash = [], rdValidBlockHash = [],
     rdHeightVoteSet = [\<lparr>hvRound = 1, hvPrevotes = [''nil-Vote'', ''Vote{1}''], hvPrevotesBitArray = ''BA{2:_x} 20/30 = 0.67'',
       hvPrecommits = [''nil-Vote'', ''nil-Vote''], hvPrecommitsBitArray = ''BA{2:__} 0/30 = 0.00''\<rparr>],
     rdProposer = \<lparr>piAddress = ''A'', piIndex = 0\<rparr>\<rparr>"

lemma second_round_parses:
  "ParseHeightRoundStep (rdHeightRoundStep second_round) = Inr (7, 1, 2)"
  by (simp add: second_round_def ParseHeightRoundStep_def nonnegative_def parse_int64_def clamp_int64_def parse_uint_def digit_val_def)

theorem votes_shown_witness:
  "case ParseConsensusState (\<lambda>_. Fin 0) 5 (Some second_round) two_validators of
     Inl e \<Rightarrow> False
   | Inr st \<Rightarrow> length (filter vsPrevoted (csValidators st)) = csPrevoteCount st \<and> csPrevoteCount st = 1"
proof -
  obtain a b c d a' b' c' d' where bits: "ParseBitArray (\<lambda>_. Fin 0) ''BA{2:_x} 20/30 = 0.67'' = (a, b, c, d)"
      "ParseBitArray (\<lambda>_. Fin 0) ''BA{2:__} 0/30 = 0.00'' = (a', b', c', d')"
    by (metis prod_cases4)
  obtain st where st: "ParseConsensusState (\<lambda>_. Fin 0) 5 (Some second_round) two_validators = Inr st"
      "csRound st = 1" "csPrevoteCount st = 1"
    using second_round_parses by (auto simp: ParseConsensusState_def Let_def second_round_def CountVotes_def nilVote_def bits)
  from votes_shown [OF st(1)] st show ?thesis by (simp add: second_round_def two_validators_def)
qed

theorem bit_array_roundtrip_witness:
  "ParseBitArray (\<lambda>_. Fin 0) (print_bit_array ''x_x'' 20 30 ''0.67'') = (''x_x'', 20, 30, Fin 0)"
  using bit_array_roundtrip [of "''x_x''" "''0.67''" 20 30 "\<lambda>_. Fin 0"] by (simp add: is_bit_def is_digit_def digit_val_def)

end
