(* ===== verification/Console_Adapter.thy ===== *)
theory Console_Adapter
  imports Provider_Adapter Console_Manifests Console_Leases Console_Catalog
begin

text \<open>
  The workflow's client of the Console service (\<open>src/internal/workflow/adapters/console.go\<close>, \<open>metadata.go\<close>):
  transaction steps as calls of the Console client, and bids in the shape of the chain's answer.

  A call is a computation of the Console client's state monad.  \<open>ca_env\<close> has the codecs, the files and
  the bound on polls; \<open>None\<close> is a reconciliation that used up its polls.
\<close>

datatype ca_err =
    InputError ad_err | ConsoleError cerr | SecretError secret_problem | ReadSource cerr | PatchError dc_err
  | ReceiptFailure string int string | NotOnConsole string | QueryNotOnConsole string | DSeqFilter string | FetchBidsError string cerr
  | EncodeResult | DelegatedError ad_err

record ca_codec =
  ccMarshalData :: "(string \<times> string) list \<Rightarrow> string option"
  ccBids :: "Bid list \<Rightarrow> (string \<times> (string \<rightharpoonup> string) \<times> bool) list \<Rightarrow> string option"
  ccAttributes :: "string \<Rightarrow> string option"
  ccAttributeList :: "string \<Rightarrow> (string \<times> string) list option"
  ccAttributeObject :: "string \<Rightarrow> (string \<rightharpoonup> string) option option"

record ca_env =
  ceCodec :: codec
  ceCatalog :: catalog_codec
  ceJSON :: ca_codec
  ceOS :: os
  ceFiles :: fs
  cePolls :: nat
  ceInputs :: DeploymentInputs
  ceChainQuery :: "(string \<Rightarrow> (string \<times> string) list \<Rightarrow> ad_err + string) option"

type_synonym 'x ca_run = "('x cw, (ca_err + TxResult) option) state"

definition ca_done :: "ca_err + TxResult \<Rightarrow> 'x ca_run" where
  "ca_done r = State_Monad.return (Some r)"

text \<open>A receipt with a code other than 0 is a failure; the data always has the deployment sequence.\<close>

definition consoleTxResult :: "ca_env \<Rightarrow> SignTx option \<Rightarrow> (string \<times> string) list \<Rightarrow> ca_err + TxResult" where
  "consoleTxResult E signTx payload =
     (case signTx of
        Some tx \<Rightarrow>
          if stCode tx \<noteq> 0 then Inl (ReceiptFailure (stTransactionHash tx) (stCode tx) (stRawLog tx))
          else rbind (of_opt EncodeResult (ccMarshalData (ceJSON E) payload)) (\<lambda>raw.
               Inr \<lparr>txHash = stTransactionHash tx, txHeight = 0, txCode = word_of_int (stCode tx), txData = raw\<rparr>)
      | None \<Rightarrow>
          rbind (of_opt EncodeResult (ccMarshalData (ceJSON E) payload)) (\<lambda>raw.
            Inr \<lparr>txHash = [], txHeight = 0, txCode = 0, txData = raw\<rparr>))"

definition read_secrets :: "ca_env \<Rightarrow> (string \<times> string) list \<Rightarrow> ca_err + SecretValues" where
  "read_secrets E params =
     map_err SecretError (ReadSecretValuesFile (ceCodec E) (ceOS E) (ceFiles E) (ceFiles E) (prm params ''secrets-file'') (diInput (ceInputs E)))"

section \<open>Transactions\<close>

definition source_sdl :: "'x http \<Rightarrow> ca_env \<Rightarrow> Client \<Rightarrow> (string \<times> string) list \<Rightarrow> ('x cw, ca_err + string) state" where
  "source_sdl H E c params =
     (let sdlInput = prm params ''sdl''; source = prm params ''source-dseq'' in
      if source \<noteq> [] \<and> sdlInput = [] then
        State_Monad.bind (GetDeploymentDefinition H (ceCodec E) c source) (\<lambda>r.
          State_Monad.return (case r of Inl e \<Rightarrow> Inl (ReadSource e) | Inr d \<Rightarrow> Inr (deSDL d)))
      else State_Monad.return (Inr sdlInput))"

definition adapter_createDeployment :: "'x http \<Rightarrow> ca_env \<Rightarrow> Client \<Rightarrow> (string \<times> string) list \<Rightarrow> 'x ca_run" where
  "adapter_createDeployment H E c params =
     State_Monad.bind (source_sdl H E c params) (\<lambda>r.
       case r of
         Inl e \<Rightarrow> ca_done (Inl e)
       | Inr sdlInput \<Rightarrow>
           (case sdlContent (ceOS E) (ceFiles E) sdlInput of
              Inl e \<Rightarrow> ca_done (Inl (InputError (InMsg msgCreateDeployment e)))
            | Inr sdlStr \<Rightarrow>
                (case read_secrets E params of
                   Inl e \<Rightarrow> ca_done (Inl e)
                 | Inr secrets \<Rightarrow>
                     State_Monad.bind (CreateDeployment H (ceCodec E) c sdlStr
                         [\<lparr>coSecrets = secrets, coInheritSecretsFrom = prm params ''source-dseq''\<rparr>]) (\<lambda>res.
                       ca_done (case res of
                         Inl e \<Rightarrow> Inl (ConsoleError e)
                       | Inr res \<Rightarrow> consoleTxResult E (crSignTx res)
                           [(''dseq'', crDSeq res), (''rail'', ''console''), (''auto_top_up'', ''daily'')])))))"

definition adapter_updateDeployment :: "'x http \<Rightarrow> ca_env \<Rightarrow> Client \<Rightarrow> (string \<times> string) list \<Rightarrow> 'x ca_run" where
  "adapter_updateDeployment H E c params =
     (case requiredDSeqParam params msgUpdateDeployment of
        Inl e \<Rightarrow> ca_done (Inl (InputError e))
      | Inr dseq \<Rightarrow>
          (case sdlContent (ceOS E) (ceFiles E) (prm params ''sdl'') of
             Inl e \<Rightarrow> ca_done (Inl (InputError (InMsg msgUpdateDeployment e)))
           | Inr sdlStr \<Rightarrow>
               (case read_secrets E params of
                  Inl e \<Rightarrow> ca_done (Inl e)
                | Inr secrets \<Rightarrow>
                    let finish = (\<lambda>res. ca_done (case res of Inl e \<Rightarrow> Inl (ConsoleError e) | Inr _ \<Rightarrow> consoleTxResult E None [(''dseq'', dseq)])) in
                    if prm params ''patch'' = ''true'' then
                      (case ParsePatch (kYaml (ceCodec E)) sdlStr of
                         Inl e \<Rightarrow> ca_done (Inl (PatchError e))
                       | Inr patch \<Rightarrow> State_Monad.bind (PatchDeployment H (ceCodec E) c dseq patch secrets) finish)
                    else State_Monad.bind (UpdateDeployment H (ceCodec E) c dseq sdlStr [\<lparr>uoSecrets = secrets\<rparr>]) finish)))"

definition ca_finish :: "ca_env \<Rightarrow> (string \<times> string) list \<Rightarrow> (cerr + 'a) option \<Rightarrow> 'x ca_run" where
  "ca_finish E payload res =
     State_Monad.return (map_option (\<lambda>r. case r of Inl e \<Rightarrow> Inl (ConsoleError e) | Inr _ \<Rightarrow> consoleTxResult E None payload) res)"

definition adapter_closeDeployment :: "'x http \<Rightarrow> ca_env \<Rightarrow> Client \<Rightarrow> (string \<times> string) list \<Rightarrow> 'x ca_run" where
  "adapter_closeDeployment H E c params =
     (case requiredDSeqParam params msgCloseDeployment of
        Inl e \<Rightarrow> ca_done (Inl (InputError e))
      | Inr dseq \<Rightarrow> State_Monad.bind (CloseDeployment H (ceCodec E) c (cePolls E) dseq) (ca_finish E [(''dseq'', dseq)]))"

text \<open>The parameters of a lease.\<close>

definition lease_params :: "(string \<times> string) list \<Rightarrow> ad_err + LeaseRequest" where
  "lease_params params =
     rbind (requiredDSeqParam params msgCreateLease) (\<lambda>dseq.
     let provider = prm params ''provider'' in
     if provider = [] then Inl (InMsg msgCreateLease (MissingParam ''provider''))
     else rbind (map_err (InMsg msgCreateLease) (uint32ParamWithDefault params ''gseq'' 1)) (\<lambda>gseq.
          rbind (map_err (InMsg msgCreateLease) (uint32ParamWithDefault params ''oseq'' 1)) (\<lambda>oseq.
          Inr \<lparr>rqDSeq = dseq, rqGSeq = gseq, rqOSeq = oseq, rqProvider = provider\<rparr>)))"

definition adapter_createLease :: "'x http \<Rightarrow> ca_env \<Rightarrow> Client \<Rightarrow> (string \<times> string) list \<Rightarrow> 'x ca_run" where
  "adapter_createLease H E c params =
     (case lease_params params of
        Inl e \<Rightarrow> ca_done (Inl (InputError e))
      | Inr lease \<Rightarrow>
          State_Monad.bind (CreateLease H (ceCodec E) c (cePolls E) [] [lease])
            (ca_finish E [(''dseq'', rqDSeq lease), (''gseq'', format_uint (rqGSeq lease)), (''oseq'', format_uint (rqOSeq lease)),
               (''provider'', rqProvider lease)]))"

definition console_BroadcastTx :: "'x http \<Rightarrow> ca_env \<Rightarrow> Client \<Rightarrow> string \<Rightarrow> (string \<times> string) list \<Rightarrow> 'x ca_run" where
  "console_BroadcastTx H E c msgType params =
     (if msgType = msgCreateDeployment then adapter_createDeployment H E c params
      else if msgType = msgUpdateDeployment then adapter_updateDeployment H E c params
      else if msgType = msgCloseDeployment then adapter_closeDeployment H E c params
      else if msgType = msgCreateLease then adapter_createLease H E c params
      else ca_done (Inl (NotOnConsole msgType)))"

section \<open>Queries\<close>

text \<open>
  \<open>AttributesFromProviderJSON\<close> tries a list of pairs and then an object; the three decodings are
  parameters.  \<open>None\<close> is the nil map, and a decoded null is \<open>Some None\<close>.
\<close>

definition AttributesFromProviderJSON :: "ca_codec \<Rightarrow> string \<Rightarrow> (string \<rightharpoonup> string) option" where
  "AttributesFromProviderJSON J raw =
     (case ccAttributes J raw of
        None \<Rightarrow> None
      | Some attributes \<Rightarrow>
          if length attributes = 0 then None
          else (case ccAttributeList J attributes of
                  Some list \<Rightarrow> Some (attributeMap list)
                | None \<Rightarrow>
                    (case ccAttributeObject J attributes of
                       None \<Rightarrow> None
                     | Some None \<Rightarrow> Some Map.empty
                     | Some (Some m) \<Rightarrow> Some m)))"

fun provider_details ::
  "'x http \<Rightarrow> ca_env \<Rightarrow> Client \<Rightarrow> string list \<Rightarrow> ('x cw, (string \<times> (string \<rightharpoonup> string) \<times> bool) list) state" where
  "provider_details H E c [] = State_Monad.return []"
| "provider_details H E c (owner # owners) =
     State_Monad.bind (Console_Catalog.GetProvider H (ceCatalog E) c owner) (\<lambda>r.
     State_Monad.bind (provider_details H E c owners) (\<lambda>rest.
       State_Monad.return (case r of
         Inl _ \<Rightarrow> rest
       | Inr detail \<Rightarrow>
           (owner, (case AttributesFromProviderJSON (ceJSON E) (pdRaw detail) of None \<Rightarrow> Map.empty | Some m \<Rightarrow> m), pvIsAudited (pdProvider detail)) # rest)))"

definition fetchConsoleProviderMetadata ::
  "'x http \<Rightarrow> ca_env \<Rightarrow> Client \<Rightarrow> Bid list \<Rightarrow> ('x cw, (string \<times> (string \<rightharpoonup> string) \<times> bool) list) state" where
  "fetchConsoleProviderMetadata H E c bids =
     provider_details H E c (sort (remdups (filter (\<lambda>p. p \<noteq> []) (map (\<lambda>b. clProvider (cbID b)) bids))))"

definition console_Query :: "'x http \<Rightarrow> ca_env \<Rightarrow> Client \<Rightarrow> string \<Rightarrow> (string \<times> string) list \<Rightarrow> ('x cw, ca_err + string) state" where
  "console_Query H E c path params =
     (case ceChainQuery E of
        Some query \<Rightarrow> State_Monad.return (map_err DelegatedError (query path params))
      | None \<Rightarrow>
          if path \<noteq> ''market.bids'' then State_Monad.return (Inl (QueryNotOnConsole path))
          else let dseq = prm params ''dseq'' in
            if dseq = [] then State_Monad.return (Inl (DSeqFilter path))
            else State_Monad.bind (FetchBids H (ceCodec E) c dseq) (\<lambda>r.
              case r of
                Inl e \<Rightarrow> State_Monad.return (Inl (FetchBidsError dseq e))
              | Inr bids \<Rightarrow>
                  State_Monad.bind (fetchConsoleProviderMetadata H E c bids) (\<lambda>metadata.
                    State_Monad.return (of_opt EncodeResult (ccBids (ceJSON E) bids metadata)))))"

section \<open>The two rails\<close>

definition lease_bid :: "string \<Rightarrow> u64 \<Rightarrow> LeaseRequest \<Rightarrow> BidID" where
  "lease_bid owner dseq l =
     \<lparr>biOwner = owner, biDSeq = dseq, biGSeq = rqGSeq l, biOSeq = rqOSeq l, biProvider = rqProvider l\<rparr>"

lemma requiredDSeqParam_cases:
  "(\<exists>e. requiredUint64Param params ''dseq'' = Inl e \<and> requiredDSeqParam params m = Inl (InMsg m e)) \<or>
   (\<exists>d. requiredUint64Param params ''dseq'' = Inr d \<and> requiredDSeqParam params m = Inr (prm params ''dseq'') \<and>
        parse_uint 64 (prm params ''dseq'') = Inr (unat d))"
proof (cases "parse_uint 64 (prm params ''dseq'')")
  case (Inl e)
  then show ?thesis by (auto simp: requiredDSeqParam_def requiredUint64Param_def Let_def)
next
  case (Inr n)
  then have "unat (of_nat n :: u64) = n" using parse_uint_bound [OF Inr] by (simp add: unat_of_nat)
  with Inr show ?thesis by (auto simp: requiredDSeqParam_def requiredUint64Param_def Let_def)
qed

lemma lease_rails:
  "case lease_params params of
     Inl e \<Rightarrow> buildCreateLeaseMsg N owner params = Inl e
   | Inr l \<Rightarrow> \<exists>d. parse_uint 64 (rqDSeq l) = Inr (unat d) \<and>
       buildCreateLeaseMsg N owner params =
         rbind (validated N (MsgCreateLease (lease_bid owner d l))) (\<lambda>_. Inr (lease_bid owner d l))"
  using requiredDSeqParam_cases [of params msgCreateLease]
  by (cases "uint32ParamWithDefault params ''gseq'' 1"; cases "uint32ParamWithDefault params ''oseq'' 1")
     (auto simp: lease_params_def buildCreateLeaseMsg_def lease_bid_def Let_def)

lemma close_rails:
  "case requiredDSeqParam params msgCloseDeployment of
     Inl e \<Rightarrow> buildCloseDeploymentMsg owner params = Inl e
   | Inr s \<Rightarrow> \<exists>d. parse_uint 64 s = Inr (unat d) \<and> buildCloseDeploymentMsg owner params = Inr \<lparr>dmOwner = owner, dmDSeq = d\<rparr>"
  using requiredDSeqParam_cases [of params msgCloseDeployment] by (auto simp: buildCloseDeploymentMsg_def)

text \<open>
  The two rails of a workflow read a step's parameters in the same way.  The lease parameters the
  Console rail refuses are the ones the chain rail refuses, with the same error, and then nothing
  is sent to the Console; otherwise both rails name the same deployment, group, order and provider, and
  the chain rail adds only the account's address and the message's own validation.  The same holds of
  the deployment a close names.
\<close>

theorem rails_agree:
  "(case lease_params params of
      Inl e \<Rightarrow> buildCreateLeaseMsg N owner params = Inl e \<and>
        run_state (console_BroadcastTx H E c msgCreateLease params) w = (Some (Inl (InputError e)), w)
    | Inr l \<Rightarrow> \<exists>d. parse_uint 64 (rqDSeq l) = Inr (unat d) \<and>
        buildCreateLeaseMsg N owner params =
          rbind (validated N (MsgCreateLease (lease_bid owner d l))) (\<lambda>_. Inr (lease_bid owner d l))) \<and>
   (case requiredDSeqParam params msgCloseDeployment of
      Inl e \<Rightarrow> buildCloseDeploymentMsg owner params = Inl e \<and>
        run_state (console_BroadcastTx H E c msgCloseDeployment params) w = (Some (Inl (InputError e)), w)
    | Inr s \<Rightarrow> \<exists>d. parse_uint 64 s = Inr (unat d) \<and> buildCloseDeploymentMsg owner params = Inr \<lparr>dmOwner = owner, dmDSeq = d\<rparr>)"
  using lease_rails [where params = params and N = N and owner = owner] close_rails [where params = params and owner = owner]
  by (auto simp: console_BroadcastTx_def adapter_createLease_def adapter_closeDeployment_def ca_done_def msg_names
           split: sum.splits)

text \<open>A Console receipt with a failure code is never a result: the code of every result is 0.\<close>

lemma consoleTxResult_code: "consoleTxResult E tx payload = Inr r \<Longrightarrow> txCode r = 0"
  by (auto simp: consoleTxResult_def rbind_Inr_iff split: option.splits if_splits)

end
