(* ===== verification/Chain_Args.thy ===== *)
theory Chain_Args
  imports Go_Strings "HOL-Library.Word" "HOL-Library.Multiset"
begin

text \<open>
  The positional arguments of the chain commands (\<open>src/internal/cli/chain/flags/\<close>: \<open>seq.go\<close>, \<open>args.go\<close>,
  \<open>deployment.go\<close>, \<open>market.go\<close>): paths such as \<open>owner/dseq/gseq/oseq/provider\<close>, state keywords, and the
  identifiers built from flags.

  \<open>chain_lib\<close> has what the code takes from the chain's SDK: \<open>bech32\<close> is \<open>sdk.AccAddressFromBech32\<close>
  followed by \<open>String\<close>, and the vocabularies are the protobuf \<open>State_value\<close> tables, whose value 0 is the
  placeholder for an invalid state, \<open>providerReason\<close> is \<open>LeaseClosedReason.IsRange\<close> for the provider's range.  An \<open>sdk.AccAddress\<close> is its text, empty for the empty address.
\<close>

type_synonym vocab = "(string \<times> int) list"

record chain_lib =
  bech32 :: "string \<Rightarrow> string option"
  deploymentStates :: vocab
  orderStates :: vocab
  bidStates :: vocab
  leaseStates :: vocab
  certStates :: vocab
  providerReason :: "int \<Rightarrow> bool"

datatype seq_err = SeqNumber num_err | SeqZero

datatype arg_err =
    ArgRequired string
  | StateInPath string string string
  | NoDefaultAccount string
  | BadSeq string string string seq_err
  | BadAddress string string
  | TooManyParts string string
  | NotAddressOrDSeq string string
  | NotOwnerDSeq string
  | ProviderNeeded string
  | NotAState string string string
  | StateNotID string
  | NoSuchFlag string
  | FlagAddress string
  | ReasonRange int

record DeploymentFilters =
  depfOwner :: string
  depfState :: string
  depfDSeq :: "64 word"

record OrderFilters =
  ofOwner :: string
  ofDSeq :: "64 word"
  ofGSeq :: "32 word"
  ofOSeq :: "32 word"
  ofState :: string

record BidFilters =
  bifOwner :: string
  bifDSeq :: "64 word"
  bifGSeq :: "32 word"
  bifOSeq :: "32 word"
  bifProvider :: string
  bifState :: string

record ChainDeploymentID =
  depOwner :: string
  depDSeq :: "64 word"

record GroupID =
  giOwner :: string
  giDSeq :: "64 word"
  giGSeq :: "32 word"

record OrderID =
  oiOwner :: string
  oiDSeq :: "64 word"
  oiGSeq :: "32 word"
  oiOSeq :: "32 word"

record MarketBidID = OrderID +
  oiProvider :: string

definition no_dep_filters :: DeploymentFilters where
  "no_dep_filters = \<lparr>depfOwner = [], depfState = [], depfDSeq = 0\<rparr>"

definition no_order_filters :: OrderFilters where
  "no_order_filters = \<lparr>ofOwner = [], ofDSeq = 0, ofGSeq = 0, ofOSeq = 0, ofState = []\<rparr>"

definition no_bid_filters :: BidFilters where
  "no_bid_filters = \<lparr>bifOwner = [], bifDSeq = 0, bifGSeq = 0, bifOSeq = 0, bifProvider = [], bifState = []\<rparr>"

section \<open>Sequences and states\<close>

definition parseSeq :: "nat \<Rightarrow> string \<Rightarrow> seq_err + 64 word" where
  "parseSeq bits s =
     (case parse_uint bits s of
        Inl e \<Rightarrow> Inl (SeqNumber e)
      | Inr v \<Rightarrow> if v = 0 then Inl SeqZero else Inr (of_nat v))"

definition state_keyword :: "vocab \<Rightarrow> string \<Rightarrow> bool" where
  "state_keyword vs s = (case map_of vs s of None \<Rightarrow> False | Some v \<Rightarrow> v \<noteq> 0)"

text \<open>The keywords of a vocabulary in the order of their values, for the messages.\<close>

definition stateKeywords :: "vocab \<Rightarrow> string" where
  "stateKeywords vs =
     join_with ''|'' (map fst (sort_key snd (filter (\<lambda>(_, v). v \<noteq> 0) vs)))"

definition stateFromArg :: "string \<Rightarrow> string \<Rightarrow> vocab \<Rightarrow> arg_err + string" where
  "stateFromArg resource arg vs =
     (if state_keyword vs arg then Inr arg else Inl (NotAState resource arg (stateKeywords vs)))"

definition DeploymentStateFromArg :: "chain_lib \<Rightarrow> string \<Rightarrow> arg_err + string" where
  "DeploymentStateFromArg L arg = stateFromArg ''deployment'' arg (deploymentStates L)"

definition OrderStateFromArg :: "chain_lib \<Rightarrow> string \<Rightarrow> arg_err + string" where
  "OrderStateFromArg L arg = stateFromArg ''order'' arg (orderStates L)"

definition BidStateFromArg :: "chain_lib \<Rightarrow> string \<Rightarrow> arg_err + string" where
  "BidStateFromArg L arg = stateFromArg ''bid'' arg (bidStates L)"

definition LeaseStateFromArg :: "chain_lib \<Rightarrow> string \<Rightarrow> arg_err + string" where
  "LeaseStateFromArg L arg = stateFromArg ''lease'' arg (leaseStates L)"

section \<open>Positional sequences\<close>

definition DSeqFromArgs :: "string list \<Rightarrow> 64 word \<Rightarrow> arg_err + 64 word" where
  "DSeqFromArgs args fallback =
     (case args of
        [] \<Rightarrow> Inr fallback
      | a # _ \<Rightarrow> map_err (\<lambda>e. BadSeq [] ''dseq'' a (SeqNumber e)) (map_sum id of_nat (parse_uint 64 a)))"

definition GroupSeqsFromArgs :: "string list \<Rightarrow> 64 word \<Rightarrow> 32 word \<Rightarrow> arg_err + 64 word \<times> 32 word" where
  "GroupSeqsFromArgs args dseq gseq =
     rbind (DSeqFromArgs args dseq) (\<lambda>d.
       case args of
         _ # g # _ \<Rightarrow>
           rbind (map_err (\<lambda>e. BadSeq [] ''gseq'' g (SeqNumber e)) (parse_uint 32 g)) (\<lambda>v. Inr (d, of_nat v))
       | _ \<Rightarrow> Inr (d, gseq))"

definition LeaseSeqsFromArgs :: "chain_lib \<Rightarrow> string list \<Rightarrow> 64 word \<Rightarrow> string \<Rightarrow> arg_err + 64 word \<times> string" where
  "LeaseSeqsFromArgs L args dseq provider =
     rbind (DSeqFromArgs args dseq) (\<lambda>d.
       case args of
         _ # p # _ \<Rightarrow> if bech32 L p = None then Inl (BadAddress [] p) else Inr (d, p)
       | _ \<Rightarrow> Inr (d, provider))"

definition ExprFromArgs :: "string list \<Rightarrow> string \<Rightarrow> string" where
  "ExprFromArgs args fallback = (case args of [] \<Rightarrow> fallback | a # _ \<Rightarrow> a)"

section \<open>Deployment paths\<close>

definition DepFiltersIsID :: "DeploymentFilters \<Rightarrow> bool" where
  "DepFiltersIsID f \<longleftrightarrow> depfOwner f \<noteq> [] \<and> depfDSeq f \<noteq> 0"

definition DepFiltersFromArg :: "chain_lib \<Rightarrow> string \<Rightarrow> string \<Rightarrow> arg_err + DeploymentFilters" where
  "DepFiltersFromArg L arg defaultOwner =
     (let res = ''deployment filter''; parts = split_on CHR ''/'' arg; p = hd parts in
      if p = [] then Inl (ArgRequired res)
      else if state_keyword (deploymentStates L) p then
        (if length parts > 1 then Inl (StateInPath res p arg) else Inr (no_dep_filters\<lparr>depfState := p\<rparr>))
      else if bech32 L p \<noteq> None then
        (case tl parts of
           [] \<Rightarrow> Inr (no_dep_filters\<lparr>depfOwner := p\<rparr>)
         | d # rest \<Rightarrow>
             rbind (map_err (BadSeq res ''dseq'' d) (parseSeq 64 d)) (\<lambda>dseq.
               if rest \<noteq> [] then Inl (TooManyParts res arg)
               else Inr (no_dep_filters\<lparr>depfOwner := p, depfDSeq := dseq\<rparr>)))
      else case parse_uint 64 p of
        Inr v \<Rightarrow>
          if defaultOwner = [] then Inl (NoDefaultAccount res)
          else if length parts > 1 then Inl (TooManyParts res arg)
          else Inr (no_dep_filters\<lparr>depfOwner := defaultOwner, depfDSeq := of_nat v\<rparr>)
      | Inl _ \<Rightarrow> Inl (NotAddressOrDSeq res p))"

definition DeploymentIDFromArgs :: "chain_lib \<Rightarrow> string list \<Rightarrow> ChainDeploymentID \<Rightarrow> string \<Rightarrow> arg_err + ChainDeploymentID" where
  "DeploymentIDFromArgs L args fallback defaultOwner =
     rbind
       (case args of
          [] \<Rightarrow> Inr fallback
        | a # _ \<Rightarrow> rbind (DepFiltersFromArg L a defaultOwner) (\<lambda>f.
            if depfState f \<noteq> [] then Inl (StateNotID a)
            else Inr \<lparr>depOwner = (if depfOwner f \<noteq> [] then depfOwner f else depOwner fallback),
                      depDSeq = (if depfDSeq f \<noteq> 0 then depfDSeq f else depDSeq fallback)\<rparr>))
       (\<lambda>id. Inr (if depOwner id = [] then id\<lparr>depOwner := defaultOwner\<rparr> else id))"

text \<open>\<open>GroupIDFromArg\<close>: the group's identifier and whether it has a group sequence.\<close>

definition GroupIDFromArg :: "chain_lib \<Rightarrow> string \<Rightarrow> string \<Rightarrow> arg_err + GroupID \<times> bool" where
  "GroupIDFromArg L arg defaultOwner =
     (let res = ''group ID''; parts = split_on CHR ''/'' arg; p = hd parts in
      if p = [] then Inl (ArgRequired res)
      else rbind
        (if bech32 L p \<noteq> None then (if length parts < 2 then Inl (NotOwnerDSeq arg) else Inr (p, tl parts))
         else if defaultOwner = [] then Inl (NoDefaultAccount res)
         else Inr (defaultOwner, parts))
        (\<lambda>(owner, ps).
          rbind (map_err (BadSeq res ''dseq'' (hd ps)) (parseSeq 64 (hd ps))) (\<lambda>dseq.
            case tl ps of
              [] \<Rightarrow> Inr (\<lparr>giOwner = owner, giDSeq = dseq, giGSeq = 0\<rparr>, False)
            | g # rest \<Rightarrow>
                rbind (map_err (BadSeq res ''gseq'' g) (parseSeq 32 g)) (\<lambda>gseq.
                  if rest \<noteq> [] then Inl (TooManyParts res arg)
                  else Inr (\<lparr>giOwner = owner, giDSeq = dseq, giGSeq = ucast gseq\<rparr>, True)))))"

section \<open>Order, bid and lease paths\<close>

definition OrderFiltersIsID :: "OrderFilters \<Rightarrow> bool" where
  "OrderFiltersIsID f \<longleftrightarrow> ofOwner f \<noteq> [] \<and> ofDSeq f \<noteq> 0 \<and> ofGSeq f \<noteq> 0 \<and> ofOSeq f \<noteq> 0"

definition BidFiltersIsID :: "BidFilters \<Rightarrow> bool" where
  "BidFiltersIsID f \<longleftrightarrow>
     bifOwner f \<noteq> [] \<and> bifDSeq f \<noteq> 0 \<and> bifGSeq f \<noteq> 0 \<and> bifOSeq f \<noteq> 0 \<and> bifProvider f \<noteq> []"

definition LeaseFiltersIsID :: "BidFilters \<Rightarrow> bool" where
  "LeaseFiltersIsID f = BidFiltersIsID f"

text \<open>The three sequences of a path, each read only when the path goes on; the parts behind them are left over.\<close>

definition next_seq :: "string \<Rightarrow> string \<Rightarrow> nat \<Rightarrow> string list \<Rightarrow> arg_err + 64 word \<times> string list" where
  "next_seq res name bits parts =
     (case parts of
        [] \<Rightarrow> Inr (0, [])
      | p # rest \<Rightarrow> rbind (map_err (BadSeq res name p) (parseSeq bits p)) (\<lambda>v. Inr (v, rest)))"

definition path_seqs ::
  "string \<Rightarrow> string list \<Rightarrow> arg_err + (64 word \<times> 32 word \<times> 32 word) \<times> string list" where
  "path_seqs res parts =
     rbind (next_seq res ''dseq'' 64 parts) (\<lambda>(d, r1).
       rbind (next_seq res ''gseq'' 32 r1) (\<lambda>(g, r2).
         rbind (next_seq res ''oseq'' 32 r2) (\<lambda>(s, r3). Inr ((d, ucast g, ucast s), r3))))"

definition OrderFiltersFromArg :: "chain_lib \<Rightarrow> string \<Rightarrow> string \<Rightarrow> arg_err + OrderFilters" where
  "OrderFiltersFromArg L arg defaultOwner =
     (let res = ''order filter''; parts = split_on CHR ''/'' arg; p = hd parts in
      if p = [] then Inl (ArgRequired res)
      else if state_keyword (orderStates L) p then
        (if length parts > 1 then Inl (StateInPath res p arg) else Inr (no_order_filters\<lparr>ofState := p\<rparr>))
      else rbind
        (if bech32 L p \<noteq> None then Inr (p, tl parts)
         else if defaultOwner = [] then Inl (NoDefaultAccount res)
         else Inr (defaultOwner, parts))
        (\<lambda>(owner, ps). rbind (path_seqs res ps) (\<lambda>((d, g, s), rest).
          if rest \<noteq> [] then Inl (TooManyParts res arg)
          else Inr \<lparr>ofOwner = owner, ofDSeq = d, ofGSeq = g, ofOSeq = s, ofState = []\<rparr>)))"

definition trailing_address ::
  "chain_lib \<Rightarrow> string \<Rightarrow> bool \<Rightarrow> string \<Rightarrow> BidFilters \<Rightarrow> string list \<Rightarrow> arg_err + BidFilters" where
  "trailing_address L arg byProvider res f rest =
     (case rest of
        [] \<Rightarrow> Inr f
      | a # more_parts \<Rightarrow>
          if bech32 L a = None then Inl (BadAddress res a)
          else if more_parts \<noteq> [] then Inl (TooManyParts res arg)
          else Inr (if byProvider then f\<lparr>bifOwner := a\<rparr> else f\<lparr>bifProvider := a\<rparr>))"

definition path_filters ::
  "chain_lib \<Rightarrow> string \<Rightarrow> bool \<Rightarrow> string \<Rightarrow> BidFilters \<times> string list \<Rightarrow> arg_err + BidFilters" where
  "path_filters L arg byProvider res lead =
     (case lead of (f, ps) \<Rightarrow>
        rbind (path_seqs res ps) (\<lambda>((d, g, s), rest).
          trailing_address L arg byProvider res (f\<lparr>bifDSeq := d, bifGSeq := g, bifOSeq := s\<rparr>) rest))"

definition bidShapedFiltersFromArg ::
  "chain_lib \<Rightarrow> string \<Rightarrow> string \<Rightarrow> bool \<Rightarrow> string \<Rightarrow> arg_err + BidFilters" where
  "bidShapedFiltersFromArg L arg defaultOwner byProvider res =
     (let parts = split_on CHR ''/'' arg; p = hd parts in
      if p = [] then Inl (ArgRequired res)
      else if state_keyword (bidStates L) p then
        (if length parts > 1 then Inl (StateInPath res p arg) else Inr (no_bid_filters\<lparr>bifState := p\<rparr>))
      else rbind
        (if bech32 L p \<noteq> None then
           Inr (if byProvider then no_bid_filters\<lparr>bifProvider := p\<rparr> else no_bid_filters\<lparr>bifOwner := p\<rparr>, tl parts)
         else case parse_uint 64 p of
           Inr _ \<Rightarrow>
             if byProvider then Inl (ProviderNeeded res)
             else if defaultOwner = [] then Inl (NoDefaultAccount res)
             else Inr (no_bid_filters\<lparr>bifOwner := defaultOwner\<rparr>, parts)
         | Inl _ \<Rightarrow> Inl (NotAddressOrDSeq res p))
        (path_filters L arg byProvider res))"

definition BidFiltersFromArg :: "chain_lib \<Rightarrow> string \<Rightarrow> string \<Rightarrow> bool \<Rightarrow> arg_err + BidFilters" where
  "BidFiltersFromArg L arg defaultOwner byProvider =
     bidShapedFiltersFromArg L arg defaultOwner byProvider ''bid filter''"

definition LeaseFiltersFromArg :: "chain_lib \<Rightarrow> string \<Rightarrow> string \<Rightarrow> bool \<Rightarrow> arg_err + BidFilters" where
  "LeaseFiltersFromArg L arg defaultOwner byProvider =
     (let parts = split_on CHR ''/'' arg; p = hd parts in
      if state_keyword (leaseStates L) p then
        (if length parts > 1 then Inl (StateInPath ''lease filter'' p arg) else Inr (no_bid_filters\<lparr>bifState := p\<rparr>))
      else rbind (bidShapedFiltersFromArg L arg defaultOwner byProvider ''lease filter'') (\<lambda>bf.
        if bifState bf \<noteq> [] \<and> map_of (leaseStates L) (bifState bf) = None
        then Inl (NotAState ''lease'' (bifState bf) (stateKeywords (leaseStates L)))
        else Inr bf))"

section \<open>Identifiers from flags\<close>

text \<open>A flag set: the value of each flag the command registered.\<close>

record id_flags =
  fOwner :: "string option"
  fDSeq :: "64 word option"
  fGSeq :: "32 word option"
  fOSeq :: "32 word option"
  fProvider :: "string option"
  fReason :: "32 word option"

record MarketOptions =
  moOwner :: string
  moProvider :: string

definition DeploymentIDFromFlags :: "chain_lib \<Rightarrow> id_flags \<Rightarrow> MarketOptions \<Rightarrow> arg_err + ChainDeploymentID" where
  "DeploymentIDFromFlags L fl opt =
     rbind
       (case fOwner fl of
          None \<Rightarrow> Inr (moOwner opt)
        | Some ow \<Rightarrow> if ow \<noteq> [] then of_opt (FlagAddress ow) (bech32 L ow) else Inr (moOwner opt))
       (\<lambda>owner. Inr \<lparr>depOwner = owner, depDSeq = (case fDSeq fl of None \<Rightarrow> 0 | Some d \<Rightarrow> d)\<rparr>)"

definition DeploymentIDFromFlagsForOwner :: "id_flags \<Rightarrow> string \<Rightarrow> arg_err + ChainDeploymentID" where
  "DeploymentIDFromFlagsForOwner fl owner =
     map_sum id (\<lambda>d. \<lparr>depOwner = owner, depDSeq = d\<rparr>) (of_opt (NoSuchFlag ''dseq'') (fDSeq fl))"

definition GroupIDFromFlags :: "chain_lib \<Rightarrow> id_flags \<Rightarrow> MarketOptions \<Rightarrow> arg_err + GroupID" where
  "GroupIDFromFlags L fl opt =
     rbind (DeploymentIDFromFlags L fl opt) (\<lambda>prev.
       Inr \<lparr>giOwner = depOwner prev, giDSeq = depDSeq prev, giGSeq = (case fGSeq fl of None \<Rightarrow> 0 | Some g \<Rightarrow> g)\<rparr>)"

definition OrderIDFromFlags :: "chain_lib \<Rightarrow> id_flags \<Rightarrow> MarketOptions \<Rightarrow> arg_err + OrderID" where
  "OrderIDFromFlags L fl opt =
     rbind (GroupIDFromFlags L fl opt) (\<lambda>prev.
       rbind (of_opt (NoSuchFlag ''oseq'') (fOSeq fl)) (\<lambda>v.
         Inr \<lparr>oiOwner = giOwner prev, oiDSeq = giDSeq prev, oiGSeq = giGSeq prev, oiOSeq = v\<rparr>))"

definition MakeBidID :: "OrderID \<Rightarrow> string \<Rightarrow> MarketBidID" where
  "MakeBidID oid provider = OrderID.extend oid \<lparr>oiProvider = provider\<rparr>"

definition BidIDFromFlags :: "chain_lib \<Rightarrow> id_flags \<Rightarrow> MarketOptions \<Rightarrow> arg_err + MarketBidID" where
  "BidIDFromFlags L fl opt =
     rbind (OrderIDFromFlags L fl opt) (\<lambda>prev.
       rbind
         (if moProvider opt = []
          then rbind (of_opt (NoSuchFlag ''provider'') (fProvider fl)) (\<lambda>p. of_opt (FlagAddress p) (bech32 L p))
          else Inr (moProvider opt))
         (\<lambda>provider. Inr (MakeBidID prev provider)))"

text \<open>A bid and the lease that follows from it have the same identifier.\<close>

definition LeaseIDFromFlags :: "chain_lib \<Rightarrow> id_flags \<Rightarrow> MarketOptions \<Rightarrow> arg_err + MarketBidID" where
  "LeaseIDFromFlags L fl opt = BidIDFromFlags L fl opt"

definition BidClosedReasonFromFlags :: "chain_lib \<Rightarrow> id_flags \<Rightarrow> arg_err + int" where
  "BidClosedReasonFromFlags L fl =
     rbind (of_opt (NoSuchFlag ''reason'') (fReason fl)) (\<lambda>v.
       if providerReason L (sint v) then Inr (sint v) else Inl (ReasonRange (sint v)))"

section \<open>Numbers in arguments\<close>

lemma parse_uint_word:
  assumes "parse_uint bits s = Inr n" and "bits \<le> LENGTH('a::len)"
  shows "unat (of_nat n :: 'a word) = n"
proof -
  have "(2::nat) ^ bits \<le> 2 ^ LENGTH('a)" using assms(2) by (intro power_increasing) simp_all
  with parse_uint_bound [OF assms(1)] have "n < 2 ^ LENGTH('a)" by (rule order_less_le_trans)
  then show ?thesis by (simp add: unat_of_nat)
qed

lemma DSeqFromArgs_positional:
  assumes "DSeqFromArgs args 0 = Inr d" and "d \<noteq> 0"
  shows "args \<noteq> [] \<and> parse_uint 64 (hd args) = Inr (unat d)"
proof (cases args)
  case (Cons a rest)
  then obtain n where n: "parse_uint 64 a = Inr n" "d = of_nat n"
    using assms(1) by (cases "parse_uint 64 a") (auto simp: DSeqFromArgs_def)
  then have "unat d = n" by (simp add: parse_uint_word)
  with n Cons show ?thesis by simp
qed (use assms in \<open>simp add: DSeqFromArgs_def\<close>)

end
