(* ===== verification/Chain_Queries.thy ===== *)
theory Chain_Queries
  imports Chain_Args Console_Deployments
begin

text \<open>
  The chain's query commands (\<open>src/internal/cli/chain/\<close>: \<open>deployment_query.go\<close>, \<open>market_query.go\<close>,
  \<open>cert_query.go\<close>, \<open>escrow_query.go\<close>, \<open>query_scope.go\<close>, \<open>query_state.go\<close>, and the account and paging
  helpers of \<open>cctx.go\<close> and \<open>utils.go\<close>).

  A command gives the one request it sends to the node, if it sends any, and what it prints or the
  error it fails with.  The node is a function from requests to answers.  \<open>query_ctx\<close> is what the
  commands read of the SDK's client context: the signer's address, the account named with
  \<open>--from\<close>, the keyring, and the transport's resolver of the default owner.
\<close>

datatype q_err =
    ArgErr arg_err
  | StateAndSecond string string string
  | OwnerScope string
  | ProviderScope string
  | BadPerspective string
  | NoKeyring string
  | KeyringAccount string string
  | ResolverFailed string
  | InvalidWallet string
  | PageAndOffset
  | InvalidPageKey
  | UnsupportedPaging string string
  | StateMismatch string string string string
  | NodeFailed string
  | ArgCount nat
  | GroupNeedsOwnerDSeq
  | EscrowStates
  | XIDScopes
  | CertFilter string
  | CertState string
  | SerialNeedsOwner
  | InvalidSerial

record query_ctx =
  qcFromAddress :: string
  qcFrom :: string
  qcKeyring :: "(string \<Rightarrow> string + string) option"
  qcResolver :: "(string + string) option"

section \<open>The default account\<close>

definition resolveTransportDefaultOwner :: "chain_lib \<Rightarrow> query_ctx \<Rightarrow> q_err + string" where
  "resolveTransportDefaultOwner L C =
     (case qcResolver C of
        None \<Rightarrow> Inr []
      | Some r \<Rightarrow> rbind (map_err ResolverFailed r) (\<lambda>address. of_opt (InvalidWallet address) (bech32 L (trim_space address))))"

definition resolveDefaultAccountAddress :: "chain_lib \<Rightarrow> query_ctx \<Rightarrow> q_err + string" where
  "resolveDefaultAccountAddress L C =
     (if qcFromAddress C \<noteq> [] then Inr (qcFromAddress C)
      else let from = trim_space (qcFrom C) in
        if from = [] then resolveTransportDefaultOwner L C
        else case bech32 L from of
          Some addr \<Rightarrow> Inr addr
        | None \<Rightarrow>
            (case qcKeyring C of
               None \<Rightarrow> Inl (NoKeyring from)
             | Some account \<Rightarrow> map_err (KeyringAccount from) (account from)))"

text \<open>Only numeric shorthand needs the default account before the argument is parsed.\<close>

definition defaultOwnerForQueryArg :: "chain_lib \<Rightarrow> query_ctx \<Rightarrow> string list \<Rightarrow> q_err + string" where
  "defaultOwnerForQueryArg L C args =
     (case args of
        [] \<Rightarrow> Inr []
      | a # _ \<Rightarrow>
          (case parse_uint 64 (hd (split_on CHR ''/'' a)) of
             Inr _ \<Rightarrow> resolveDefaultAccountAddress L C
           | Inl _ \<Rightarrow> Inr []))"

section \<open>Paging\<close>

text \<open>\<open>base64.StdEncoding.DecodeString\<close>: line ends are skipped, padding only at the end, trailing bits are dropped.\<close>

definition base64_val :: "char \<Rightarrow> nat option" where
  "base64_val c =
     (let i = length (takeWhile (\<lambda>x. x \<noteq> c) base64_alphabet) in if i < 64 then Some i else None)"

fun base64_quads :: "string \<Rightarrow> string option" where
  "base64_quads [] = Some []"
| "base64_quads (a # b # c # d # rest) =
     (case (base64_val a, base64_val b) of
        (Some x, Some y) \<Rightarrow>
          if c = CHR ''='' \<and> d = CHR ''='' then
            (if rest = [] then Some [char_of ((x * 64 + y) div 16)] else None)
          else (case base64_val c of
             None \<Rightarrow> None
           | Some z \<Rightarrow>
               if d = CHR ''='' then
                 (if rest = [] then let n = (x * 4096 + y * 64 + z) div 4 in Some [char_of (n div 256), char_of (n mod 256)] else None)
               else (case (base64_val d, base64_quads rest) of
                  (Some v, Some bytes) \<Rightarrow>
                    let n = x * 262144 + y * 4096 + z * 64 + v in
                    Some (char_of (n div 65536) # char_of (n div 256 mod 256) # char_of (n mod 256) # bytes)
                | _ \<Rightarrow> None))
      | _ \<Rightarrow> None)"
| "base64_quads _ = None"

definition base64_decode :: "string \<Rightarrow> string option" where
  "base64_decode s = base64_quads (filter (\<lambda>c. c \<noteq> CHR 0x0A \<and> c \<noteq> CHR 0x0D) s)"

record page_flags =
  pfPageKey :: string
  pfOffset :: "64 word"
  pfLimit :: "64 word"
  pfCountTotal :: bool
  pfPage :: "64 word"
  pfReverse :: bool
  pfChanged :: "string list"

record PageRequest =
  prKey :: string
  prOffset :: "64 word"
  prLimit :: "64 word"
  prCountTotal :: bool
  prReverse :: bool

text \<open>The offset of a page is computed in 64 bits.\<close>

definition ReadPageRequest :: "page_flags \<Rightarrow> q_err + PageRequest" where
  "ReadPageRequest fl =
     (if pfPage fl > 1 \<and> pfOffset fl > 0 then Inl PageAndOffset
      else let offset = (if pfPage fl > 1 then (pfPage fl - 1) * pfLimit fl else pfOffset fl) in
        rbind (if pfPageKey fl \<noteq> [] then of_opt InvalidPageKey (base64_decode (pfPageKey fl)) else Inr [])
          (\<lambda>pageKey. Inr \<lparr>prKey = pageKey, prOffset = offset, prLimit = pfLimit fl,
                          prCountTotal = pfCountTotal fl, prReverse = pfReverse fl\<rparr>))"

definition rejectUnsupportedPaging :: "page_flags \<Rightarrow> string \<Rightarrow> q_err option" where
  "rejectUnsupportedPaging fl resource =
     map_option (UnsupportedPaging resource) (List.find (\<lambda>n. n \<in> set (pfChanged fl)) [''offset'', ''page'', ''reverse''])"

section \<open>Requests and answers\<close>

record CertFilters =
  cfOwner :: string
  cfSerial :: string
  cfState :: string

datatype q_request =
    QDeployment ChainDeploymentID
  | QDeployments DeploymentFilters PageRequest
  | QGroup GroupID
  | QOrder OrderID
  | QOrders OrderFilters PageRequest
  | QBid MarketBidID
  | QBids BidFilters PageRequest
  | QLease MarketBidID
  | QLeases BidFilters PageRequest
  | QCertificates CertFilters PageRequest
  | QEscrowAccounts string string PageRequest
  | QEscrowPayments string string PageRequest

record answer =
  anState :: string
  anBody :: string

type_synonym node = "q_request \<Rightarrow> string + answer"

datatype shown = Printed answer | PrintedGroups answer

type_synonym q_run = "q_request option \<times> (q_err + shown)"

definition refuse :: "q_err \<Rightarrow> q_run" where
  "refuse e = (None, Inl e)"

definition ask :: "node \<Rightarrow> q_request \<Rightarrow> (answer \<Rightarrow> q_err + shown) \<Rightarrow> q_run" where
  "ask N r k = (Some r, rbind (map_err NodeFailed (N r)) k)"

definition requireStateMatch :: "string \<Rightarrow> string \<Rightarrow> string \<Rightarrow> string \<Rightarrow> q_err option" where
  "requireStateMatch resource ident requested actual =
     (if requested = [] \<or> requested = actual then None
      else Some (StateMismatch resource ident actual requested))"

text \<open>The get path: a requested state is a check of the record, not a filter.\<close>

definition print_matching :: "string \<Rightarrow> string \<Rightarrow> string \<Rightarrow> answer \<Rightarrow> q_err + shown" where
  "print_matching resource ident requested res =
     (case requireStateMatch resource ident requested (anState res) of Some e \<Rightarrow> Inl e | None \<Rightarrow> Inr (Printed res))"

text \<open>The list path.\<close>

definition list_page :: "node \<Rightarrow> page_flags \<Rightarrow> (PageRequest \<Rightarrow> q_request) \<Rightarrow> q_run" where
  "list_page N fl request =
     (case ReadPageRequest fl of Inl e \<Rightarrow> refuse e | Inr pageReq \<Rightarrow> ask N (request pageReq) (\<lambda>res. Inr (Printed res)))"

definition slash_path :: "string list \<Rightarrow> string" where
  "slash_path parts = join_with ''/'' parts"

text \<open>The owner of the filters, or the default account when they have none.\<close>

definition owner_fallback :: "chain_lib \<Rightarrow> query_ctx \<Rightarrow> string \<Rightarrow> string \<Rightarrow> string \<Rightarrow> q_err + string" where
  "owner_fallback L C resource defaultOwner owner =
     (if owner = [] then
        rbind (if defaultOwner = [] then resolveDefaultAccountAddress L C else Inr defaultOwner)
          (\<lambda>owner. if owner = [] then Inl (OwnerScope resource) else Inr owner)
      else Inr owner)"

text \<open>The optional second argument, a state keyword that replaces the state of the filters.\<close>

definition second_state :: "(string \<Rightarrow> arg_err + string) \<Rightarrow> string list \<Rightarrow> string \<Rightarrow> q_err + string" where
  "second_state parse args st = (case args of _ # s # _ \<Rightarrow> map_err ArgErr (parse s) | _ \<Rightarrow> Inr st)"

section \<open>Deployments and groups\<close>

definition deployment_scope :: "chain_lib \<Rightarrow> query_ctx \<Rightarrow> string list \<Rightarrow> q_err + DeploymentFilters" where
  "deployment_scope L C args =
     rbind (defaultOwnerForQueryArg L C args) (\<lambda>defaultOwner.
     rbind (case args of
              [] \<Rightarrow> Inr no_dep_filters
            | a # rest \<Rightarrow> rbind (map_err ArgErr (DepFiltersFromArg L a defaultOwner)) (\<lambda>af.
                if depfState af \<noteq> [] \<and> rest \<noteq> [] then Inl (StateAndSecond ''deployment filter'' a (hd rest))
                else Inr af)) (\<lambda>f.
     rbind (second_state (DeploymentStateFromArg L) args (depfState f)) (\<lambda>st.
     rbind (owner_fallback L C ''deployment filter'' defaultOwner (depfOwner f)) (\<lambda>owner.
     Inr (f\<lparr>depfState := st, depfOwner := owner\<rparr>)))))"

definition GetQueryDeploymentCmd :: "chain_lib \<Rightarrow> node \<Rightarrow> query_ctx \<Rightarrow> page_flags \<Rightarrow> string list \<Rightarrow> q_run" where
  "GetQueryDeploymentCmd L N C fl args =
     (if length args > 2 then refuse (ArgCount 2)
      else case deployment_scope L C args of
        Inl e \<Rightarrow> refuse e
      | Inr f \<Rightarrow>
          if DepFiltersIsID f then
            ask N (QDeployment \<lparr>depOwner = depfOwner f, depDSeq = depfDSeq f\<rparr>)
              (print_matching ''deployment'' (slash_path [depfOwner f, format_uint (depfDSeq f)]) (depfState f))
          else list_page N fl (QDeployments f))"

definition GetQueryDeploymentGroupCmd :: "chain_lib \<Rightarrow> node \<Rightarrow> query_ctx \<Rightarrow> string list \<Rightarrow> q_run" where
  "GetQueryDeploymentGroupCmd L N C args =
     (if length args > 1 then refuse (ArgCount 1)
      else case rbind (defaultOwnerForQueryArg L C args) (\<lambda>defaultOwner.
             case args of
               [] \<Rightarrow> Inr \<lparr>giOwner = [], giDSeq = 0, giGSeq = 0\<rparr>
             | a # _ \<Rightarrow> rbind (map_err ArgErr (GroupIDFromArg L a defaultOwner)) (\<lambda>(parsed, fullySpecified).
                 Inr (if fullySpecified then parsed else parsed\<lparr>giGSeq := 0\<rparr>))) of
        Inl e \<Rightarrow> refuse e
      | Inr g \<Rightarrow>
          if giOwner g = [] \<or> giDSeq g = 0 then refuse GroupNeedsOwnerDSeq
          else if giGSeq g \<noteq> 0 then ask N (QGroup g) (\<lambda>res. Inr (Printed res))
          else ask N (QDeployment \<lparr>depOwner = giOwner g, depDSeq = giDSeq g\<rparr>) (\<lambda>res. Inr (PrintedGroups res)))"

section \<open>Orders, bids and leases\<close>

definition order_scope :: "chain_lib \<Rightarrow> query_ctx \<Rightarrow> string list \<Rightarrow> q_err + OrderFilters" where
  "order_scope L C args =
     rbind (defaultOwnerForQueryArg L C args) (\<lambda>defaultOwner.
     rbind (case args of
              [] \<Rightarrow> Inr no_order_filters
            | a # rest \<Rightarrow> rbind (map_err ArgErr (OrderFiltersFromArg L a defaultOwner)) (\<lambda>af.
                if ofState af \<noteq> [] \<and> rest \<noteq> [] then Inl (StateAndSecond ''order filter'' a (hd rest))
                else Inr af)) (\<lambda>f.
     rbind (second_state (OrderStateFromArg L) args (ofState f)) (\<lambda>st.
     rbind (owner_fallback L C ''order filter'' defaultOwner (ofOwner f)) (\<lambda>owner.
     Inr (f\<lparr>ofState := st, ofOwner := owner\<rparr>)))))"

definition GetQueryMarketOrderCmd :: "chain_lib \<Rightarrow> node \<Rightarrow> query_ctx \<Rightarrow> page_flags \<Rightarrow> string list \<Rightarrow> q_run" where
  "GetQueryMarketOrderCmd L N C fl args =
     (if length args > 2 then refuse (ArgCount 2)
      else case order_scope L C args of
        Inl e \<Rightarrow> refuse e
      | Inr f \<Rightarrow>
          if OrderFiltersIsID f then
            ask N (QOrder \<lparr>oiOwner = ofOwner f, oiDSeq = ofDSeq f, oiGSeq = ofGSeq f, oiOSeq = ofOSeq f\<rparr>)
              (print_matching ''order''
                (slash_path [ofOwner f, format_uint (ofDSeq f), format_uint (ofGSeq f), format_uint (ofOSeq f)]) (ofState f))
          else list_page N fl (QOrders f))"

definition parseByPerspective :: "string \<Rightarrow> q_err + bool" where
  "parseByPerspective v =
     (if v = ''owner'' then Inr False else if v = ''provider'' then Inr True else Inl (BadPerspective v))"

text \<open>The filters of \<open>bid\<close> and \<open>lease\<close>, which differ in the parsers of the two arguments and in the name.\<close>

definition bid_scope ::
  "(string \<Rightarrow> string \<Rightarrow> bool \<Rightarrow> arg_err + BidFilters) \<Rightarrow> (string \<Rightarrow> arg_err + string) \<Rightarrow> string \<Rightarrow>
     chain_lib \<Rightarrow> query_ctx \<Rightarrow> string \<Rightarrow> string list \<Rightarrow> q_err + BidFilters" where
  "bid_scope parse parse_state resource L C by args =
     rbind (parseByPerspective by) (\<lambda>isByProvider.
     rbind (if isByProvider then Inr [] else defaultOwnerForQueryArg L C args) (\<lambda>defaultOwner.
     rbind (case args of
              [] \<Rightarrow> Inr no_bid_filters
            | a # rest \<Rightarrow> rbind (map_err ArgErr (parse a defaultOwner isByProvider)) (\<lambda>af.
                if bifState af \<noteq> [] \<and> rest \<noteq> [] then Inl (StateAndSecond resource a (hd rest))
                else Inr af)) (\<lambda>f.
     rbind (second_state parse_state args (bifState f)) (\<lambda>st.
     rbind (if isByProvider then (if bifProvider f = [] then Inl (ProviderScope resource) else Inr (bifOwner f))
            else owner_fallback L C resource defaultOwner (bifOwner f)) (\<lambda>owner.
     Inr (f\<lparr>bifState := st, bifOwner := owner\<rparr>))))))"

definition bid_ident :: "BidFilters \<Rightarrow> MarketBidID" where
  "bid_ident f =
     \<lparr>oiOwner = bifOwner f, oiDSeq = bifDSeq f, oiGSeq = bifGSeq f, oiOSeq = bifOSeq f, oiProvider = bifProvider f\<rparr>"

definition bid_text :: "BidFilters \<Rightarrow> string" where
  "bid_text f =
     slash_path [bifOwner f, format_uint (bifDSeq f), format_uint (bifGSeq f), format_uint (bifOSeq f), bifProvider f]"

definition GetQueryMarketBidCmd ::
  "chain_lib \<Rightarrow> node \<Rightarrow> query_ctx \<Rightarrow> page_flags \<Rightarrow> string \<Rightarrow> string list \<Rightarrow> q_run" where
  "GetQueryMarketBidCmd L N C fl by args =
     (if length args > 2 then refuse (ArgCount 2)
      else case bid_scope (BidFiltersFromArg L) (BidStateFromArg L) ''bid filter'' L C by args of
        Inl e \<Rightarrow> refuse e
      | Inr f \<Rightarrow>
          if BidFiltersIsID f then ask N (QBid (bid_ident f)) (print_matching ''bid'' (bid_text f) (bifState f))
          else list_page N fl (QBids f))"

definition GetQueryMarketLeaseCmd ::
  "chain_lib \<Rightarrow> node \<Rightarrow> query_ctx \<Rightarrow> page_flags \<Rightarrow> string \<Rightarrow> string list \<Rightarrow> q_run" where
  "GetQueryMarketLeaseCmd L N C fl by args =
     (if length args > 2 then refuse (ArgCount 2)
      else case bid_scope (LeaseFiltersFromArg L) (LeaseStateFromArg L) ''lease filter'' L C by args of
        Inl e \<Rightarrow> refuse e
      | Inr f \<Rightarrow>
          if LeaseFiltersIsID f then ask N (QLease (bid_ident f)) (print_matching ''lease'' (bid_text f) (bifState f))
          else list_page N fl (QLeases f))"

section \<open>Certificates and escrow\<close>

text \<open>\<open>big.Int.SetString (value, 10)\<close> and \<open>String\<close>: an optional sign and digits, printed without leading zeros.\<close>

definition parse_big :: "string \<Rightarrow> int option" where
  "parse_big s =
     (let neg = (s \<noteq> [] \<and> hd s = CHR ''-'');
          ds = (if s \<noteq> [] \<and> (hd s = CHR ''-'' \<or> hd s = CHR ''+'') then tl s else s) in
      if ds = [] \<or> list_ex (\<lambda>c. digit_val c = None) ds then None
      else let n = foldl (\<lambda>acc c. acc * 10 + int (the (digit_val c))) 0 ds in Some (if neg then - n else n))"

definition show_big :: "int \<Rightarrow> string" where
  "show_big n = (if n < 0 then CHR ''-'' # format_nat (nat (- n)) else format_nat (nat n))"

definition cert_filters :: "chain_lib \<Rightarrow> query_ctx \<Rightarrow> string \<Rightarrow> string list \<Rightarrow> q_err + CertFilters" where
  "cert_filters L C serial args =
     rbind (case args of
              [] \<Rightarrow> Inr ([], [])
            | a # rest \<Rightarrow>
                (case bech32 L a of
                   Some owner \<Rightarrow> Inr (owner, [])
                 | None \<Rightarrow>
                     if state_keyword (certStates L) a then
                       (if rest \<noteq> [] then Inl (StateAndSecond ''certificate filter'' a (hd rest)) else Inr ([], a))
                     else Inl (CertFilter a))) (\<lambda>(owner, st).
     rbind (case args of
              _ # s # _ \<Rightarrow> if state_keyword (certStates L) s then Inr s else Inl (CertState s)
            | _ \<Rightarrow> Inr st) (\<lambda>st.
     rbind (owner_fallback L C ''certificate filter'' [] owner) (\<lambda>owner.
     rbind (if serial = [] then Inr []
            else if owner = [] then Inl SerialNeedsOwner
            else (case parse_big serial of None \<Rightarrow> Inl InvalidSerial | Some n \<Rightarrow> Inr (show_big n))) (\<lambda>number.
     Inr \<lparr>cfOwner = owner, cfSerial = number, cfState = st\<rparr>))))"

definition GetQueryCertificatesCmd ::
  "chain_lib \<Rightarrow> node \<Rightarrow> query_ctx \<Rightarrow> page_flags \<Rightarrow> string \<Rightarrow> string list \<Rightarrow> q_run" where
  "GetQueryCertificatesCmd L N C fl serial args =
     (if length args > 2 then refuse (ArgCount 2)
      else case ReadPageRequest fl of
        Inl e \<Rightarrow> refuse e
      | Inr pageReq \<Rightarrow>
          (case cert_filters L C serial args of
             Inl e \<Rightarrow> refuse e
           | Inr f \<Rightarrow> ask N (QCertificates f pageReq) (\<lambda>res. Inr (Printed res))))"

definition without_slash :: "string \<Rightarrow> string" where
  "without_slash s = (case cut_prefix ''/'' s of Some t \<Rightarrow> t | None \<Rightarrow> s)"

definition parseXID :: "string \<Rightarrow> q_err + string list" where
  "parseXID xid =
     (let xid = rev (without_slash (rev (without_slash xid))); parts = split_on CHR ''/'' xid in
      if hd parts = ''deployment'' \<or> hd parts = ''bid'' then Inr parts else Inl XIDScopes)"

definition validateEscrowState :: "string \<Rightarrow> q_err + string" where
  "validateEscrowState st = (if st \<in> {''open'', ''closed'', ''overdrawn''} then Inr st else Inl EscrowStates)"

text \<open>\<open>GetQueryEscrowAccountsCmd\<close> and \<open>GetQueryEscrowPaymentsCmd\<close> differ in the request only.\<close>

definition escrow_query ::
  "(string \<Rightarrow> string \<Rightarrow> PageRequest \<Rightarrow> q_request) \<Rightarrow> node \<Rightarrow> page_flags \<Rightarrow> string list \<Rightarrow> q_run" where
  "escrow_query request N fl args =
     (if length args > 2 then refuse (ArgCount 2)
      else case rejectUnsupportedPaging fl ''escrow'' of
        Some e \<Rightarrow> refuse e
      | None \<Rightarrow>
          (case rbind (ReadPageRequest fl) (\<lambda>pageReq.
                rbind (case args of [] \<Rightarrow> Inr [] | s # _ \<Rightarrow> validateEscrowState s) (\<lambda>st.
                rbind (case args of _ # x # _ \<Rightarrow> rbind (parseXID x) (\<lambda>_. Inr x) | _ \<Rightarrow> Inr []) (\<lambda>xid.
                Inr (request st xid pageReq)))) of
             Inl e \<Rightarrow> refuse e
           | Inr r \<Rightarrow> ask N r (\<lambda>res. Inr (Printed res))))"

definition GetQueryEscrowAccountsCmd :: "node \<Rightarrow> page_flags \<Rightarrow> string list \<Rightarrow> q_run" where
  "GetQueryEscrowAccountsCmd = escrow_query QEscrowAccounts"

definition GetQueryEscrowPaymentsCmd :: "node \<Rightarrow> page_flags \<Rightarrow> string list \<Rightarrow> q_run" where
  "GetQueryEscrowPaymentsCmd = escrow_query QEscrowPayments"

end
