(* ===== verification/Chain_Query_Props.thy ===== *)
theory Chain_Query_Props
  imports Chain_Queries
begin

text \<open>
  Properties of the chain's argument parsers and query commands: the paths that are accepted are those
  of a grammar, every component of a path is in the request, every list is scoped to an account, a state
  argument on a single record is checked, and identifiers printed by the commands are accepted again.
\<close>

section \<open>Sequences\<close>

text \<open>A sequence is accepted as exactly the number written; zero is refused.\<close>

lemma parseSeq_Inr:
  assumes "bits \<le> 64"
  shows "parseSeq bits p = Inr v \<longleftrightarrow> v \<noteq> 0 \<and> parse_uint bits p = Inr (unat v)"
proof (cases "parse_uint bits p")
  case (Inr n)
  define w :: "64 word" where "w = of_nat n"
  have n: "unat w = n" unfolding w_def using Inr assms by (intro parse_uint_word) simp_all
  have "n = unat v \<longleftrightarrow> w = v" unfolding n [symmetric] by (simp add: word_unat_eq_iff)
  moreover have "n = 0 \<longleftrightarrow> w = 0" unfolding n [symmetric] by (metis unat_0 word_unat_eq_iff)
  ultimately show ?thesis by (auto simp: parseSeq_def Inr w_def [symmetric])
qed (simp add: parseSeq_def)

lemma unat_ucast_narrow: "unat v < 2 ^ 32 \<Longrightarrow> unat (ucast (v :: 64 word) :: 32 word) = unat v"
  by (simp add: unsigned_ucast_eq take_bit_nat_eq_self)

lemma unat_ucast_wide: "unat (ucast (g :: 32 word) :: 64 word) = unat g"
proof -
  have "unat g < 2 ^ 32" using unsigned_less [of g] by simp
  then have "unat g < 2 ^ 64" by simp
  then show ?thesis by (simp add: unsigned_ucast_eq take_bit_nat_eq_self)
qed

lemma parseSeq_32:
  "(\<exists>v. parseSeq 32 p = Inr v \<and> g = ucast v) \<longleftrightarrow> g \<noteq> (0 :: 32 word) \<and> parse_uint 32 p = Inr (unat g)"
proof
  assume "\<exists>v. parseSeq 32 p = Inr v \<and> g = ucast v"
  then obtain v :: "64 word" where v: "v \<noteq> 0" "parse_uint 32 p = Inr (unat v)" "g = ucast v"
    using parseSeq_Inr [of 32 p] by auto
  have "unat g = unat v" unfolding v(3) using parse_uint_bound [OF v(2)] by (rule unat_ucast_narrow)
  moreover from this have "g \<noteq> 0" using v(1) by (metis unat_0 word_unat_eq_iff)
  ultimately show "g \<noteq> 0 \<and> parse_uint 32 p = Inr (unat g)" using v(2) by simp
next
  assume g: "g \<noteq> 0 \<and> parse_uint 32 p = Inr (unat g)"
  define v :: "64 word" where "v = ucast g"
  have u: "unat v = unat g" unfolding v_def by (rule unat_ucast_wide)
  then have "v \<noteq> 0" using g by (metis unat_0 word_unat_eq_iff)
  then have "parseSeq 32 p = Inr v" using parseSeq_Inr [of 32 p v] g u by simp
  moreover have "unat (ucast v :: 32 word) = unat g" using u unsigned_less [of g] by (subst unat_ucast_narrow) simp_all
  then have "g = ucast v" by (simp add: word_unat_eq_iff)
  ultimately show "\<exists>v. parseSeq 32 p = Inr v \<and> g = ucast v" by blast
qed

text \<open>The sequences that a path names, one for each part; a sequence the path does not reach is 0.\<close>

definition seqs_named :: "string list \<Rightarrow> 64 word \<Rightarrow> 32 word \<Rightarrow> 32 word \<Rightarrow> bool" where
  "seqs_named ps d g s \<longleftrightarrow>
     (if 0 < length ps then d \<noteq> 0 \<and> parse_uint 64 (ps ! 0) = Inr (unat d) else d = 0) \<and>
     (if 1 < length ps then g \<noteq> 0 \<and> parse_uint 32 (ps ! 1) = Inr (unat g) else g = 0) \<and>
     (if 2 < length ps then s \<noteq> 0 \<and> parse_uint 32 (ps ! 2) = Inr (unat s) else s = 0)"

lemma next_seq_Inr:
  "next_seq res name bits ps = Inr (v, rest) \<longleftrightarrow>
     ps = [] \<and> v = 0 \<and> rest = [] \<or> (\<exists>p. ps = p # rest \<and> parseSeq bits p = Inr v)"
  by (cases ps) (auto simp: next_seq_def rbind_Inr_iff map_err_Inr_iff)

lemma next_seq_32:
  "(\<exists>v. next_seq res name 32 ps = Inr (v, rest) \<and> g = ucast v) \<longleftrightarrow>
     ps = [] \<and> g = (0 :: 32 word) \<and> rest = [] \<or> (\<exists>p. ps = p # rest \<and> g \<noteq> 0 \<and> parse_uint 32 p = Inr (unat g))"
  using parseSeq_32 [where g = g] by (auto simp: next_seq_Inr)

lemma path_seqs_Inr: "path_seqs res ps = Inr ((d, g, s), rest) \<longleftrightarrow> seqs_named ps d g s \<and> rest = drop 3 ps"
proof -
  have "path_seqs res ps = Inr ((d, g, s), rest) \<longleftrightarrow>
    (\<exists>r1 r2. next_seq res ''dseq'' 64 ps = Inr (d, r1) \<and>
       (\<exists>v. next_seq res ''gseq'' 32 r1 = Inr (v, r2) \<and> g = ucast v) \<and>
       (\<exists>v. next_seq res ''oseq'' 32 r2 = Inr (v, rest) \<and> s = ucast v))"
    by (auto simp: path_seqs_def rbind_Inr_iff)
  also have "\<dots> \<longleftrightarrow> seqs_named ps d g s \<and> rest = drop 3 ps"
    unfolding next_seq_32 unfolding next_seq_Inr parseSeq_Inr [of 64, simplified]
    by (cases ps rule: remdups_adj.cases; cases "tl (tl ps)") (auto simp: seqs_named_def)
  finally show ?thesis .
qed

section \<open>The grammar of paths\<close>

text \<open>The leading and the trailing address of a bid or lease path, in the two perspectives.\<close>

definition leading :: "bool \<Rightarrow> BidFilters \<Rightarrow> string" where
  "leading byProvider f = (if byProvider then bifProvider f else bifOwner f)"

definition trailing :: "bool \<Rightarrow> BidFilters \<Rightarrow> string" where
  "trailing byProvider f = (if byProvider then bifOwner f else bifProvider f)"

lemma order_path_grammar:
  assumes "\<not> state_keyword (orderStates L) (hd (split_on CHR ''/'' arg))"
  shows "OrderFiltersFromArg L arg defaultOwner = Inr f \<longleftrightarrow>
    (let parts = split_on CHR ''/'' arg; p = hd parts; addressed = (bech32 L p \<noteq> None);
         ps = (if addressed then tl parts else parts) in
     p \<noteq> [] \<and> ofState f = [] \<and>
     (if addressed then ofOwner f = p else defaultOwner \<noteq> [] \<and> ofOwner f = defaultOwner) \<and>
     length ps \<le> 3 \<and> seqs_named ps (ofDSeq f) (ofGSeq f) (ofOSeq f))"
  using assms
  by (cases f) (auto simp: OrderFiltersFromArg_def Let_def rbind_Inr_iff path_seqs_Inr)

text \<open>What a path that starts with filters \<open>f0\<close> and goes on with \<open>ps\<close> gives.\<close>

lemma path_filters_Inr:
  "path_filters L arg byProvider res (f0, ps) = Inr f \<longleftrightarrow>
   (\<exists>d g s. seqs_named ps d g s \<and> length ps \<le> 4 \<and>
     (let f' = f0\<lparr>bifDSeq := d, bifGSeq := g, bifOSeq := s\<rparr> in
      if length ps = 4
      then bech32 L (ps ! 3) \<noteq> None \<and> f = (if byProvider then f'\<lparr>bifOwner := ps ! 3\<rparr> else f'\<lparr>bifProvider := ps ! 3\<rparr>)
      else f = f'))"
proof -
  have len: "drop 3 ps = [] \<longleftrightarrow> length ps \<le> 3" "drop 3 ps = [a] \<longleftrightarrow> length ps = 4 \<and> a = ps ! 3" for a
    by (auto simp: list_eq_iff_nth_eq)
  have "trailing_address L arg byProvider res f' (drop 3 ps) = Inr f \<longleftrightarrow> length ps \<le> 4 \<and>
      (if length ps = 4
       then bech32 L (ps ! 3) \<noteq> None \<and> f = (if byProvider then f'\<lparr>bifOwner := ps ! 3\<rparr> else f'\<lparr>bifProvider := ps ! 3\<rparr>)
       else f = f')" for f'
  proof (cases "drop 3 ps")
    case Nil
    then show ?thesis using len(1) by (auto simp: trailing_address_def)
  next
    case (Cons a more_parts)
    have "length ps - 3 = Suc (length more_parts)" using arg_cong [OF Cons, of length] by simp
    then have "ps ! 3 = a" "length ps = 4 + length more_parts" using nth_via_drop [OF Cons] by simp_all
    with Cons show ?thesis by (auto simp: trailing_address_def)
  qed
  then show ?thesis by (auto simp: path_filters_def rbind_Inr_iff path_seqs_Inr Let_def)
qed

text \<open>The grammar: the filters that a path stands for.\<close>

definition names_path :: "chain_lib \<Rightarrow> string \<Rightarrow> string \<Rightarrow> bool \<Rightarrow> BidFilters \<Rightarrow> bool" where
  "names_path L arg defaultOwner byProvider f \<longleftrightarrow>
    (let parts = split_on CHR ''/'' arg; p = hd parts; addressed = (bech32 L p \<noteq> None);
         ps = (if addressed then tl parts else parts) in
     p \<noteq> [] \<and> bifState f = [] \<and>
     (if addressed then leading byProvider f = p
      else \<not> byProvider \<and> defaultOwner \<noteq> [] \<and> leading byProvider f = defaultOwner) \<and>
     length ps \<le> 4 \<and> seqs_named ps (bifDSeq f) (bifGSeq f) (bifOSeq f) \<and>
     (if length ps = 4 then bech32 L (ps ! 3) \<noteq> None \<and> trailing byProvider f = ps ! 3
      else trailing byProvider f = []))"

lemma bidShaped_names_path:
  assumes "\<not> state_keyword (bidStates L) (hd (split_on CHR ''/'' arg))"
  shows "bidShapedFiltersFromArg L arg defaultOwner byProvider res = Inr f \<longleftrightarrow> names_path L arg defaultOwner byProvider f"
proof -
  define parts where "parts = split_on CHR ''/'' arg"
  have ne: "parts \<noteq> []" by (simp add: parts_def)
  have num: "parse_uint 64 (hd parts) = Inr (unat d)" if "seqs_named parts d g s" for d g s
    using that ne by (cases parts) (auto simp: seqs_named_def)
  have nokey: "\<not> state_keyword (bidStates L) (hd parts)" using assms by (simp add: parts_def)
  show ?thesis
  proof (cases "bech32 L (hd parts)")
    case (Some a)
    then show ?thesis
      using nokey
      by (cases f; cases byProvider)
         (auto simp: bidShapedFiltersFromArg_def names_path_def parts_def [symmetric] path_filters_Inr leading_def trailing_def
            no_bid_filters_def Let_def)
  next
    case None
    then show ?thesis
      using nokey num
      by (cases f; cases byProvider; cases "parse_uint 64 (hd parts)")
         (auto simp: bidShapedFiltersFromArg_def names_path_def parts_def [symmetric] path_filters_Inr leading_def trailing_def
            no_bid_filters_def Let_def)
  qed
qed

text \<open>
  C21. The bid and the lease command accept exactly the paths of one grammar.  A path starts with the
  leading address, or, from the owner's perspective, with the default account implied; then come at
  most three sequences and the trailing address.  Every part of the path is in the filters, in the
  order given and with exactly the number written, and a filter is left open only where the path ends:
  no part, not even a zero, is dropped, which would list more than was asked for.
\<close>

theorem bid_path_grammar:
  assumes "\<not> state_keyword (bidStates L) (hd (split_on CHR ''/'' arg))"
    and "\<not> state_keyword (leaseStates L) (hd (split_on CHR ''/'' arg))"
  shows "(BidFiltersFromArg L arg defaultOwner byProvider = Inr f \<longleftrightarrow> names_path L arg defaultOwner byProvider f) \<and>
    (LeaseFiltersFromArg L arg defaultOwner byProvider = Inr f \<longleftrightarrow> names_path L arg defaultOwner byProvider f)"
proof -
  have "bifState f = []" if "names_path L arg defaultOwner byProvider f" for f
    using that by (simp add: names_path_def Let_def)
  then show ?thesis
    using bidShaped_names_path [OF assms(1)] assms(2)
    by (auto simp: BidFiltersFromArg_def LeaseFiltersFromArg_def rbind_Inr_iff Let_def)
qed

section \<open>Printed identifiers\<close>

lemma parse_printed: "parse_uint 64 (format_uint (d :: 64 word)) = Inr (unat d)" "parse_uint 32 (format_uint (g :: 32 word)) = Inr (unat g)"
  by (simp_all add: parse_format_uint)

lemma split_slash_path:
  "ps \<noteq> [] \<Longrightarrow> \<forall>p \<in> set ps. CHR ''/'' \<notin> set p \<Longrightarrow> split_on CHR ''/'' (slash_path ps) = ps"
  unfolding slash_path_def by (rule split_join)

text \<open>
  The identifier that a command prints for a bid or a lease is accepted by both commands as an
  argument: it gives back the same filters, and they name the one record.
\<close>

theorem bid_text_roundtrip:
  assumes "\<forall>a \<in> {bifOwner f, bifProvider f}. bech32 L a \<noteq> None \<and> a \<noteq> [] \<and> CHR ''/'' \<notin> set a"
    and "\<not> state_keyword (bidStates L) (bifOwner f)" and "\<not> state_keyword (leaseStates L) (bifOwner f)"
    and "bifDSeq f \<noteq> 0" and "bifGSeq f \<noteq> 0" and "bifOSeq f \<noteq> 0" and "bifState f = []"
  shows "BidFiltersFromArg L (bid_text f) defaultOwner False = Inr f \<and>
    LeaseFiltersFromArg L (bid_text f) defaultOwner False = Inr f \<and> BidFiltersIsID f"
proof -
  have parts: "split_on CHR ''/'' (bid_text f) =
    [bifOwner f, format_uint (bifDSeq f), format_uint (bifGSeq f), format_uint (bifOSeq f), bifProvider f]"
    unfolding bid_text_def using assms(1) by (intro split_slash_path) auto
  have "bidShapedFiltersFromArg L (bid_text f) defaultOwner False res = Inr f" for res
    using assms
    by (subst bidShaped_names_path) (auto simp: names_path_def parts leading_def trailing_def seqs_named_def parse_printed)
  then show ?thesis
    using assms by (auto simp: BidFiltersFromArg_def LeaseFiltersFromArg_def parts BidFiltersIsID_def)
qed

section \<open>Scope\<close>

lemma owner_fallback_set: "owner_fallback L C res d given = Inr ow \<Longrightarrow> ow \<noteq> []"
  by (auto simp: owner_fallback_def rbind_Inr_iff split: if_splits)

text \<open>A request is about one record in full, or is narrowed to one account.\<close>

fun scoped :: "bool \<Rightarrow> q_request \<Rightarrow> bool" where
  "scoped byProvider (QDeployment i) \<longleftrightarrow> depOwner i \<noteq> [] \<and> depDSeq i \<noteq> 0"
| "scoped byProvider (QDeployments f _) \<longleftrightarrow> depfOwner f \<noteq> []"
| "scoped byProvider (QGroup i) \<longleftrightarrow> giOwner i \<noteq> [] \<and> giDSeq i \<noteq> 0 \<and> giGSeq i \<noteq> 0"
| "scoped byProvider (QOrder i) \<longleftrightarrow> oiOwner i \<noteq> [] \<and> oiDSeq i \<noteq> 0 \<and> oiGSeq i \<noteq> 0 \<and> oiOSeq i \<noteq> 0"
| "scoped byProvider (QOrders f _) \<longleftrightarrow> ofOwner f \<noteq> []"
| "scoped byProvider (QBid i) \<longleftrightarrow> oiOwner i \<noteq> [] \<and> oiDSeq i \<noteq> 0 \<and> oiGSeq i \<noteq> 0 \<and> oiOSeq i \<noteq> 0 \<and> oiProvider i \<noteq> []"
| "scoped byProvider (QBids f _) \<longleftrightarrow> leading byProvider f \<noteq> []"
| "scoped byProvider (QLease i) \<longleftrightarrow> oiOwner i \<noteq> [] \<and> oiDSeq i \<noteq> 0 \<and> oiGSeq i \<noteq> 0 \<and> oiOSeq i \<noteq> 0 \<and> oiProvider i \<noteq> []"
| "scoped byProvider (QLeases f _) \<longleftrightarrow> leading byProvider f \<noteq> []"
| "scoped byProvider (QCertificates f _) \<longleftrightarrow> cfOwner f \<noteq> []"
| "scoped byProvider _ \<longleftrightarrow> False"

lemma deployment_scope_owner: "deployment_scope L C args = Inr f \<Longrightarrow> depfOwner f \<noteq> []"
  by (auto simp: deployment_scope_def rbind_Inr_iff Let_def dest: owner_fallback_set split: if_splits)

lemma order_scope_owner: "order_scope L C args = Inr f \<Longrightarrow> ofOwner f \<noteq> []"
  by (auto simp: order_scope_def rbind_Inr_iff Let_def dest: owner_fallback_set split: if_splits)

lemma bid_scope_leading: "bid_scope parse ps res L C by args = Inr f \<Longrightarrow> leading (by = ''provider'') f \<noteq> []"
  by (auto simp: bid_scope_def parseByPerspective_def leading_def rbind_Inr_iff Let_def dest: owner_fallback_set split: if_splits)

lemma cert_filters_owner: "cert_filters L C serial args = Inr f \<Longrightarrow> cfOwner f \<noteq> []"
  by (auto simp: cert_filters_def rbind_Inr_iff dest: owner_fallback_set split: if_splits)

lemma fst_refuse [simp]: "fst (refuse e) = None"
  by (simp add: refuse_def)

lemma fst_ask [simp]: "fst (ask N r k) = Some r"
  by (simp add: ask_def)

lemma fst_list_page: "pred_option P (fst (list_page N fl request)) \<longleftrightarrow> (\<forall>pg. ReadPageRequest fl = Inr pg \<longrightarrow> P (request pg))"
  by (auto simp: list_page_def split: sum.splits)

text \<open>
  C22. No query lists the whole network in the user's name.  Every request of the deployment, group, order,
  bid, lease and certificate commands names one record in full, or is narrowed to an owner, and with
  \<open>--by provider\<close> to a provider; without an account to narrow it to, nothing is sent.
\<close>

theorem queries_scoped:
  "pred_option (scoped False) (fst (GetQueryDeploymentCmd L N C fl args)) \<and>
   pred_option (scoped False) (fst (GetQueryDeploymentGroupCmd L N C args)) \<and>
   pred_option (scoped False) (fst (GetQueryMarketOrderCmd L N C fl args)) \<and>
   pred_option (scoped (by = ''provider'')) (fst (GetQueryMarketBidCmd L N C fl by args)) \<and>
   pred_option (scoped (by = ''provider'')) (fst (GetQueryMarketLeaseCmd L N C fl by args)) \<and>
   pred_option (scoped False) (fst (GetQueryCertificatesCmd L N C fl serial args))"
proof (intro conjI)
  show "pred_option (scoped False) (fst (GetQueryDeploymentCmd L N C fl args))"
    using deployment_scope_owner
    by (auto simp: GetQueryDeploymentCmd_def fst_list_page DepFiltersIsID_def split: sum.splits)
  show "pred_option (scoped False) (fst (GetQueryDeploymentGroupCmd L N C args))"
    by (auto simp: GetQueryDeploymentGroupCmd_def split: sum.splits)
  show "pred_option (scoped False) (fst (GetQueryMarketOrderCmd L N C fl args))"
    using order_scope_owner
    by (auto simp: GetQueryMarketOrderCmd_def fst_list_page OrderFiltersIsID_def split: sum.splits)
  show "pred_option (scoped (by = ''provider'')) (fst (GetQueryMarketBidCmd L N C fl by args))"
    using bid_scope_leading
    by (auto simp: GetQueryMarketBidCmd_def fst_list_page BidFiltersIsID_def bid_ident_def split: sum.splits)
  show "pred_option (scoped (by = ''provider'')) (fst (GetQueryMarketLeaseCmd L N C fl by args))"
    using bid_scope_leading
    by (auto simp: GetQueryMarketLeaseCmd_def fst_list_page LeaseFiltersIsID_def BidFiltersIsID_def bid_ident_def split: sum.splits)
  show "pred_option (scoped False) (fst (GetQueryCertificatesCmd L N C fl serial args))"
    using cert_filters_owner by (auto simp: GetQueryCertificatesCmd_def split: sum.splits)
qed

section \<open>The state argument\<close>

text \<open>How a state reaches the answer: a list is filtered by it, a single record is checked against it.\<close>

fun state_used :: "string \<Rightarrow> q_request \<Rightarrow> answer \<Rightarrow> bool" where
  "state_used s (QDeployments f _) res \<longleftrightarrow> depfState f = s"
| "state_used s (QOrders f _) res \<longleftrightarrow> ofState f = s"
| "state_used s (QBids f _) res \<longleftrightarrow> bifState f = s"
| "state_used s (QLeases f _) res \<longleftrightarrow> bifState f = s"
| "state_used s (QCertificates f _) res \<longleftrightarrow> cfState f = s"
| "state_used s _ res \<longleftrightarrow> anState res = s"

definition honours :: "string \<Rightarrow> q_run \<Rightarrow> bool" where
  "honours s run \<longleftrightarrow> (\<forall>res. snd run = Inr (Printed res) \<longrightarrow> (\<exists>r. fst run = Some r \<and> state_used s r res))"

lemma honours_refuse [simp]: "honours s (refuse e)"
  by (simp add: honours_def refuse_def)

lemma honours_ask: "honours s (ask N r (print_matching k i st)) \<longleftrightarrow> (\<forall>res. N r = Inr res \<and> (st = [] \<or> st = anState res) \<longrightarrow> state_used s r res)"
  by (auto simp: honours_def ask_def print_matching_def requireStateMatch_def rbind_Inr_iff map_err_Inr_iff split: if_splits option.splits)

lemma honours_list: "(\<And>pg res. state_used s (request pg) res) \<Longrightarrow> honours s (list_page N fl request)"
  by (auto simp: honours_def list_page_def ask_def refuse_def split: sum.splits)

lemma state_keyword_nonempty: "stateFromArg k s vs = Inr t \<Longrightarrow> t = s"
  by (simp add: stateFromArg_def split: if_splits)

lemmas state_args = DeploymentStateFromArg_def OrderStateFromArg_def BidStateFromArg_def LeaseStateFromArg_def

lemma deployment_scope_state: "deployment_scope L C [a, s] = Inr f \<Longrightarrow> depfState f = s"
  by (auto simp: deployment_scope_def second_state_def state_args rbind_Inr_iff map_err_Inr_iff Let_def
       dest!: state_keyword_nonempty split: if_splits)

lemma order_scope_state: "order_scope L C [a, s] = Inr f \<Longrightarrow> ofState f = s"
  by (auto simp: order_scope_def second_state_def state_args rbind_Inr_iff map_err_Inr_iff Let_def
       dest!: state_keyword_nonempty split: if_splits)

lemma bid_scope_state:
  assumes "\<And>t. pstate s = Inr t \<Longrightarrow> t = s"
  shows "bid_scope parse pstate res L C by [a, s] = Inr f \<Longrightarrow> bifState f = s"
  by (auto simp: bid_scope_def second_state_def rbind_Inr_iff map_err_Inr_iff Let_def dest!: assms split: if_splits)

lemma cert_filters_state: "cert_filters L C serial [a, s] = Inr f \<Longrightarrow> cfState f = s"
  by (auto simp: cert_filters_def rbind_Inr_iff Let_def split: if_splits option.splits)

text \<open>
  C23. A state given as the second argument is never ignored by any of the five commands that take
  one, those for deployments, orders, bids, leases and certificates: when something is printed, the
  request was filtered by that state, or the single record it fetched is in that state.
\<close>

theorem state_never_ignored:
  assumes "s \<noteq> []"
  shows "honours s (GetQueryDeploymentCmd L N C fl [a, s]) \<and> honours s (GetQueryMarketOrderCmd L N C fl [a, s]) \<and>
    honours s (GetQueryMarketBidCmd L N C fl by [a, s]) \<and> honours s (GetQueryMarketLeaseCmd L N C fl by [a, s]) \<and>
    honours s (GetQueryCertificatesCmd L N C fl serial [a, s])"
proof (intro conjI)
  show "honours s (GetQueryDeploymentCmd L N C fl [a, s])"
    using assms deployment_scope_state [of L C a s]
    by (auto simp: GetQueryDeploymentCmd_def honours_ask intro!: honours_list split: sum.splits)
  show "honours s (GetQueryMarketOrderCmd L N C fl [a, s])"
    using assms order_scope_state [of L C a s]
    by (auto simp: GetQueryMarketOrderCmd_def honours_ask intro!: honours_list split: sum.splits)
  have bid: "bifState f = s" if "bid_scope (BidFiltersFromArg L) (BidStateFromArg L) res L C by [a, s] = Inr f" for res f
    using that by (rule bid_scope_state [rotated]) (simp add: BidStateFromArg_def state_keyword_nonempty)
  have lease: "bifState f = s" if "bid_scope (LeaseFiltersFromArg L) (LeaseStateFromArg L) res L C by [a, s] = Inr f" for res f
    using that by (rule bid_scope_state [rotated]) (simp add: LeaseStateFromArg_def state_keyword_nonempty)
  show "honours s (GetQueryMarketBidCmd L N C fl by [a, s])"
    using assms by (auto simp: GetQueryMarketBidCmd_def honours_ask bid intro!: honours_list split: sum.splits)
  show "honours s (GetQueryMarketLeaseCmd L N C fl by [a, s])"
    using assms by (auto simp: GetQueryMarketLeaseCmd_def honours_ask lease intro!: honours_list split: sum.splits)
  show "honours s (GetQueryCertificatesCmd L N C fl serial [a, s])"
    using cert_filters_state [of L C serial a s]
    by (auto simp: GetQueryCertificatesCmd_def honours_def ask_def refuse_def split: sum.splits)
qed

section \<open>The shorthand for a deployment\<close>

lemma parse_zero: "parse_uint 64 ''0'' = Inr 0"
  by (simp add: parse_uint_def digit_val_def)

lemma parse_digits_chars: "parse_digits mx acc s = Inr n \<Longrightarrow> c \<in> set s \<Longrightarrow> digit_val c \<noteq> None"
  by (induction s arbitrary: acc) (auto split: option.splits if_splits)

lemma parse_uint_no_slash: "parse_uint bits s = Inr n \<Longrightarrow> CHR ''/'' \<notin> set s"
  using parse_digits_chars by (fastforce simp: parse_uint_def digit_val_def split: if_splits)

lemma parse_uint_word_zero: "parse_uint 64 s = Inr n \<Longrightarrow> (of_nat n :: 64 word) = 0 \<longleftrightarrow> n = 0"
  using parse_uint_bound [of 64 s n] by (auto simp: word_of_nat_eq_0_iff dvd_imp_le dest: nat_dvd_not_less)

text \<open>
  C26. A bare number as the first argument names a deployment of the default account: the command
  fetches that one deployment.  The shorthand also accepts the sequence 0, which the filters read as
  no sequence: \<open>query deployment 0\<close> sends a list request for every deployment of the default account (in
  the state given as the second argument, if there is one), the request of \<open>query deployment\<close> without an
  argument.  The order command refuses the sequence 0.
\<close>

theorem deployment_zero_lists_all:
  assumes owner: "resolveDefaultAccountAddress L C = Inr owner" "owner \<noteq> []"
    and number: "parse_uint 64 a = Inr v" "bech32 L a = None" "\<not> state_keyword (deploymentStates L) a" "\<not> state_keyword (orderStates L) a"
    and page: "ReadPageRequest fl = Inr pg"
    and args: "args = [a] \<and> st = [] \<or> args = [a, st] \<and> state_keyword (deploymentStates L) st"
  shows "fst (GetQueryDeploymentCmd L N C fl args) = Some
      (if v = 0 then QDeployments \<lparr>depfOwner = owner, depfState = st, depfDSeq = 0\<rparr> pg
       else QDeployment \<lparr>depOwner = owner, depDSeq = of_nat v\<rparr>) \<and>
    fst (GetQueryDeploymentCmd L N C fl []) = Some (QDeployments \<lparr>depfOwner = owner, depfState = [], depfDSeq = 0\<rparr> pg) \<and>
    (v = 0 \<longrightarrow> GetQueryDeploymentCmd L N C fl [a] = GetQueryDeploymentCmd L N C fl [] \<and>
      GetQueryMarketOrderCmd L N C fl [a] = refuse (ArgErr (BadSeq ''order filter'' ''dseq'' a SeqZero)))"
proof -
  have parts: "split_on CHR ''/'' a = [a]" using number(1) by (intro split_on_no_sep parse_uint_no_slash)
  have nonempty: "a \<noteq> []" using number(1) by (auto simp: parse_uint_def)
  have filters: "DepFiltersFromArg L a owner = Inr (no_dep_filters\<lparr>depfOwner := owner, depfDSeq := of_nat v\<rparr>)"
    using number owner(2) nonempty by (simp add: DepFiltersFromArg_def parts)
  have scope: "deployment_scope L C as = Inr \<lparr>depfOwner = owner, depfState = t, depfDSeq = of_nat v\<rparr>"
    if "as = [a] \<and> t = [] \<or> as = [a, t] \<and> state_keyword (deploymentStates L) t" for as t
    using that owner number(1) filters
    by (auto simp: deployment_scope_def defaultOwnerForQueryArg_def parts owner_fallback_def second_state_def no_dep_filters_def
        DeploymentStateFromArg_def stateFromArg_def)
  have bare: "deployment_scope L C [] = Inr \<lparr>depfOwner = owner, depfState = [], depfDSeq = 0\<rparr>"
    using owner by (simp add: deployment_scope_def defaultOwnerForQueryArg_def owner_fallback_def second_state_def no_dep_filters_def)
  have "fst (GetQueryDeploymentCmd L N C fl args) = Some
      (if v = 0 then QDeployments \<lparr>depfOwner = owner, depfState = st, depfDSeq = 0\<rparr> pg
       else QDeployment \<lparr>depOwner = owner, depDSeq = of_nat v\<rparr>)"
    using scope [OF args] args page owner(2) parse_uint_word_zero [OF number(1)]
    by (auto simp: GetQueryDeploymentCmd_def DepFiltersIsID_def list_page_def)
  moreover have "fst (GetQueryDeploymentCmd L N C fl []) = Some (QDeployments \<lparr>depfOwner = owner, depfState = [], depfDSeq = 0\<rparr> pg)"
    using bare page by (simp add: GetQueryDeploymentCmd_def DepFiltersIsID_def list_page_def)
  moreover have "GetQueryDeploymentCmd L N C fl [a] = GetQueryDeploymentCmd L N C fl []" if "v = 0"
    using scope [of "[a]" "[]"] bare that by (simp add: GetQueryDeploymentCmd_def)
  moreover have "GetQueryMarketOrderCmd L N C fl [a] = refuse (ArgErr (BadSeq ''order filter'' ''dseq'' a SeqZero))" if "v = 0"
    using number owner nonempty that
    by (simp add: GetQueryMarketOrderCmd_def order_scope_def defaultOwnerForQueryArg_def parts OrderFiltersFromArg_def path_seqs_def
        next_seq_def parseSeq_def)
  ultimately show ?thesis by blast
qed

section \<open>Witnesses\<close>

definition sample_lib :: chain_lib where
  "sample_lib =
     \<lparr>bech32 = (\<lambda>s. if s = ''akash1a'' \<or> s = ''akash1p'' then Some s else None),
      deploymentStates = [(''invalid'', 0), (''active'', 1), (''closed'', 2)],
      orderStates = [(''invalid'', 0), (''open'', 1), (''active'', 2), (''closed'', 3)],
      bidStates = [(''invalid'', 0), (''open'', 1), (''active'', 2), (''lost'', 3), (''closed'', 4)],
      leaseStates = [(''invalid'', 0), (''active'', 1), (''insufficient_funds'', 2), (''closed'', 3)],
      certStates = [(''invalid'', 0), (''valid'', 1), (''revoked'', 2)],
      providerReason = (\<lambda>v. 10000 \<le> v \<and> v \<le> 19999)\<rparr>"

definition sample_ctx :: query_ctx where
  "sample_ctx = \<lparr>qcFromAddress = [], qcFrom = ''akash1a'', qcKeyring = None, qcResolver = None\<rparr>"

definition sample_page :: page_flags where
  "sample_page = \<lparr>pfPageKey = [], pfOffset = 0, pfLimit = 100, pfCountTotal = False, pfPage = 1, pfReverse = False, pfChanged = []\<rparr>"

definition sample_node :: node where
  "sample_node r = Inr \<lparr>anState = ''active'', anBody = ''body''\<rparr>"

lemmas sample_defs = sample_lib_def sample_ctx_def sample_page_def sample_node_def

text \<open>The path \<open>akash1a/7/1\<close>: a partial path, from the owner's perspective.\<close>

theorem bid_path_grammar_witness:
  "BidFiltersFromArg sample_lib ''akash1a/7/1'' [] False =
     Inr \<lparr>bifOwner = ''akash1a'', bifDSeq = 7, bifGSeq = 1, bifOSeq = 0, bifProvider = [], bifState = []\<rparr>"
proof -
  have p: "split_on CHR ''/'' ''akash1a/7/1'' = [''akash1a'', ''7'', ''1'']" by simp
  have n: "parse_uint 64 ''7'' = Inr 7" "parse_uint 32 ''1'' = Inr 1" by (simp_all add: parse_uint_def digit_val_def)
  show ?thesis
    by (subst bid_path_grammar [THEN conjunct1])
       (simp_all add: p n names_path_def seqs_named_def leading_def trailing_def sample_lib_def state_keyword_def)
qed

text \<open>A single bid, fetched and in the state asked for.\<close>

lemma sample_numbers: "parse_uint 64 ''7'' = Inr 7" "parse_uint 32 ''1'' = Inr 1"
  by (simp_all add: parse_uint_def digit_val_def)

lemma sample_bid:
  "snd (GetQueryMarketBidCmd sample_lib sample_node sample_ctx sample_page ''owner'' [''akash1a/7/1/1/akash1p'', ''active'']) =
     Inr (Printed \<lparr>anState = ''active'', anBody = ''body''\<rparr>)"
proof -
  have "split_on CHR ''/'' ''akash1a/7/1/1/akash1p'' = [''akash1a'', ''7'', ''1'', ''1'', ''akash1p'']" by simp
  moreover have "parse_uint 64 ''akash1a'' = Inl ErrSyntax" by (simp add: parse_uint_def digit_val_def)
  ultimately show ?thesis
    by (simp add: GetQueryMarketBidCmd_def bid_scope_def parseByPerspective_def defaultOwnerForQueryArg_def BidFiltersFromArg_def
        bidShapedFiltersFromArg_def path_filters_def path_seqs_def next_seq_def parseSeq_def trailing_address_def sample_numbers
        sample_lib_def state_keyword_def no_bid_filters_def second_state_def BidStateFromArg_def stateFromArg_def owner_fallback_def
        BidFiltersIsID_def ask_def sample_node_def print_matching_def requireStateMatch_def)
qed

theorem state_never_ignored_witness:
  "snd (GetQueryMarketBidCmd sample_lib sample_node sample_ctx sample_page ''owner'' [''akash1a/7/1/1/akash1p'', ''active'']) =
     Inr (Printed \<lparr>anState = ''active'', anBody = ''body''\<rparr>) \<and>
   honours ''active'' (GetQueryMarketBidCmd sample_lib sample_node sample_ctx sample_page ''owner'' [''akash1a/7/1/1/akash1p'', ''active''])"
  using sample_bid state_never_ignored [of "''active''" sample_lib sample_node sample_ctx sample_page "''akash1a/7/1/1/akash1p''" "''owner''"]
  by simp

theorem deployment_zero_lists_all_witness:
  "fst (GetQueryDeploymentCmd sample_lib sample_node sample_ctx sample_page [''0'', ''active'']) =
     Some (QDeployments \<lparr>depfOwner = ''akash1a'', depfState = ''active'', depfDSeq = 0\<rparr>
        \<lparr>prKey = [], prOffset = 0, prLimit = 100, prCountTotal = False, prReverse = False\<rparr>)"
proof -
  have owner: "resolveDefaultAccountAddress sample_lib sample_ctx = Inr ''akash1a''"
    by (simp add: resolveDefaultAccountAddress_def sample_defs) code_simp
  have page: "ReadPageRequest sample_page = Inr \<lparr>prKey = [], prOffset = 0, prLimit = 100, prCountTotal = False, prReverse = False\<rparr>"
    by (simp add: ReadPageRequest_def sample_page_def)
  show ?thesis
    using deployment_zero_lists_all [OF owner _ parse_zero _ _ _ page, of "[''0'', ''active'']" "''active''" sample_node]
    by (simp add: sample_lib_def state_keyword_def)
qed

end
