(* ===== verification/Chain_Tx.thy ===== *)
theory Chain_Tx
  imports Chain_Args Deployment_Inputs
begin

text \<open>
  The chain's transaction commands on deployments, groups, bids and leases
  (\<open>src/internal/cli/chain/deployment_tx.go\<close>, \<open>market_tx.go\<close>) and the deposits of \<open>utils.go\<close>.

  A command gives the message it broadcasts, if it broadcasts any, and the node's response or the error
  it fails with.  Parameters, in \<open>tx_api\<close>: the signer, the messages' own \<open>ValidateBasic\<close>, the
  broadcast, the node's height and parameters, and the coin parsers; the SDL library is \<open>sdl_lib\<close>.
  Warnings printed about storage volumes are left out.
\<close>

datatype tx_err =
    TxArg arg_err
  | TxArgCount nat nat
  | DSeqRequired
  | LeaseDSeqRequired
  | LeaseProviderRequired
  | Invalid string
  | BroadcastFailed string
  | SDLUnreadable
  | SDLReferences
  | SDLReferenceCheck
  | SDLFailed string
  | CertificateMissing string
  | NodeError string
  | CatchingUp
  | UpdateGroupsChanged
  | NoDefaultDeposit
  | CoinError string
  | BadDepositSource string
  | DuplicateDepositSource string

record 'c tx_deposit =
  tdAmount :: 'c
  tdSources :: "int list"

datatype ('g, 'c, 'p) tx_msg =
    TxCreateDeployment ChainDeploymentID string "'g list" "'c tx_deposit"
  | TxUpdateDeployment ChainDeploymentID string
  | TxCloseDeployment ChainDeploymentID
  | TxCloseGroup GroupID
  | TxPauseGroup GroupID
  | TxStartGroup GroupID
  | TxCreateBid MarketBidID 'p "'c tx_deposit"
  | TxCloseBid MarketBidID int
  | TxCreateLease MarketBidID
  | TxWithdrawLease MarketBidID
  | TxCloseLease MarketBidID int

record ('g, 'c, 'p, 'r) tx_api =
  txFrom :: string
  txValidate :: "('g, 'c, 'p) tx_msg \<Rightarrow> string option"
  txBroadcast :: "('g, 'c, 'p) tx_msg \<Rightarrow> string + 'r"
  txCertificate :: "string option"
  txNoCertFile :: bool
  txSyncInfo :: "string + bool \<times> int"
  txGroups :: "ChainDeploymentID \<Rightarrow> string + 'g list"
  txMinDeposits :: "string + (string \<times> string) list"
  txBidMinDeposit :: "string + string"
  txParseCoin :: "string \<Rightarrow> string + 'c"
  txParseDecCoin :: "string \<Rightarrow> string + 'p"
  txSourceValue :: "string \<rightharpoonup> int"
  txReasonOwner :: int

record deposit_flags =
  dpDeposit :: "string option"
  dpSources :: "string list"

type_synonym ('g, 'c, 'p, 'r) tx_run = "('g, 'c, 'p) tx_msg option \<times> (tx_err + 'r)"

definition broadcast_msg :: "('g, 'c, 'p, 'r) tx_api \<Rightarrow> ('g, 'c, 'p) tx_msg \<Rightarrow> ('g, 'c, 'p, 'r) tx_run" where
  "broadcast_msg A m = (Some m, map_err BroadcastFailed (txBroadcast A m))"

definition broadcast_valid :: "('g, 'c, 'p, 'r) tx_api \<Rightarrow> ('g, 'c, 'p) tx_msg \<Rightarrow> ('g, 'c, 'p, 'r) tx_run" where
  "broadcast_valid A m = (case txValidate A m of Some e \<Rightarrow> (None, Inl (Invalid e)) | None \<Rightarrow> broadcast_msg A m)"

definition or_fail :: "tx_err + 'x \<Rightarrow> ('x \<Rightarrow> ('g, 'c, 'p, 'r) tx_run) \<Rightarrow> ('g, 'c, 'p, 'r) tx_run" where
  "or_fail r k = (case r of Inl e \<Rightarrow> (None, Inl e) | Inr x \<Rightarrow> k x)"

section \<open>Deposits\<close>

definition DetectDeploymentDeposit :: "('g, 'c, 'p, 'r) tx_api \<Rightarrow> deposit_flags \<Rightarrow> tx_err + 'c" where
  "DetectDeploymentDeposit A fl =
     rbind (case dpDeposit fl of
              Some s \<Rightarrow> Inr s
            | None \<Rightarrow> rbind (map_err NodeError (txMinDeposits A)) (\<lambda>coins.
                case List.find (\<lambda>(denom, _). denom = ''uact'') coins of
                  None \<Rightarrow> Inl NoDefaultDeposit
                | Some (denom, amount) \<Rightarrow> Inr (amount @ denom)))
       (\<lambda>depositStr. map_err CoinError (txParseCoin A depositStr))"

definition DetectBidDeposit :: "('g, 'c, 'p, 'r) tx_api \<Rightarrow> deposit_flags \<Rightarrow> tx_err + 'c" where
  "DetectBidDeposit A fl =
     rbind (case dpDeposit fl of Some s \<Rightarrow> Inr s | None \<Rightarrow> map_err NodeError (txBidMinDeposit A))
       (\<lambda>depositStr. map_err CoinError (txParseCoin A depositStr))"

fun deposit_sources :: "(string \<rightharpoonup> int) \<Rightarrow> string list \<Rightarrow> string list \<Rightarrow> tx_err + int list" where
  "deposit_sources sv dup [] = Inr []"
| "deposit_sources sv dup (s # ss) =
     (case sv s of
        None \<Rightarrow> Inl (BadDepositSource s)
      | Some v \<Rightarrow>
          if s \<in> set dup then Inl (DuplicateDepositSource s)
          else rbind (deposit_sources sv (s # dup) ss) (\<lambda>vs. Inr (v # vs)))"

definition DepositSources :: "('g, 'c, 'p, 'r) tx_api \<Rightarrow> deposit_flags \<Rightarrow> tx_err + int list" where
  "DepositSources A fl = deposit_sources (txSourceValue A) [] (dpSources fl)"

definition DetectDeposit ::
  "('g, 'c, 'p, 'r) tx_api \<Rightarrow> deposit_flags \<Rightarrow> (('g, 'c, 'p, 'r) tx_api \<Rightarrow> deposit_flags \<Rightarrow> tx_err + 'c) \<Rightarrow> tx_err + 'c tx_deposit" where
  "DetectDeposit A fl querier =
     rbind (querier A fl) (\<lambda>amount. rbind (DepositSources A fl) (\<lambda>sources. Inr \<lparr>tdAmount = amount, tdSources = sources\<rparr>))"

section \<open>Deployments\<close>

definition readChainDeploymentSDL :: "yaml \<Rightarrow> ('d, 'g, 'm) sdl_lib \<Rightarrow> (string \<Rightarrow> string option) \<Rightarrow> string \<Rightarrow> tx_err + 'd" where
  "readChainDeploymentSDL Y S read path =
     (case read path of
        None \<Rightarrow> Inl SDLUnreadable
      | Some data \<Rightarrow>
          (case HasReferences Y data of
             Inl _ \<Rightarrow> Inl SDLReferenceCheck
           | Inr True \<Rightarrow> Inl SDLReferences
           | Inr False \<Rightarrow> map_err SDLFailed (sdRead S data)))"

definition dseq_arg :: "string list \<Rightarrow> tx_err + 64 word" where
  "dseq_arg args =
     rbind (map_err TxArg (DSeqFromArgs args 0)) (\<lambda>dseq. if dseq = 0 then Inl DSeqRequired else Inr dseq)"

definition signer :: "('g, 'c, 'p, 'r) tx_api \<Rightarrow> MarketOptions" where
  "signer A = \<lparr>moOwner = txFrom A, moProvider = []\<rparr>"

definition GetTxDeploymentCreateCmd ::
  "chain_lib \<Rightarrow> yaml \<Rightarrow> ('d, 'g, 'm) sdl_lib \<Rightarrow> (string \<Rightarrow> string option) \<Rightarrow> ('g, 'c, 'p, 'r) tx_api \<Rightarrow> id_flags \<Rightarrow> deposit_flags \<Rightarrow> string list \<Rightarrow>
     ('g, 'c, 'p, 'r) tx_run" where
  "GetTxDeploymentCreateCmd L Y S read A fl dep args =
     (if length args \<noteq> 1 then (None, Inl (TxArgCount 1 1))
      else or_fail
        (rbind (readChainDeploymentSDL Y S read (hd args)) (\<lambda>sdlManifest.
         rbind (case txCertificate A of
                  Some e \<Rightarrow> Inl (if txNoCertFile A then CertificateMissing (txFrom A) else NodeError e)
                | None \<Rightarrow> Inr ()) (\<lambda>_.
         rbind (map_err SDLFailed (sdGroups S sdlManifest)) (\<lambda>groups.
         rbind (map_err TxArg (DeploymentIDFromFlags L fl (signer A))) (\<lambda>id.
         rbind (if depDSeq id \<noteq> 0 then Inr id
                else rbind (map_err NodeError (txSyncInfo A)) (\<lambda>(catchingUp, height).
                  if catchingUp then Inl CatchingUp else Inr (id\<lparr>depDSeq := word_of_int height\<rparr>))) (\<lambda>id.
         rbind (map_err SDLFailed (sdVersion S sdlManifest)) (\<lambda>version.
         rbind (DetectDeposit A dep DetectDeploymentDeposit) (\<lambda>dep.
         Inr (TxCreateDeployment id version groups dep)))))))))
        (broadcast_valid A))"

definition GetTxDeploymentCloseCmd ::
  "chain_lib \<Rightarrow> ('g, 'c, 'p, 'r) tx_api \<Rightarrow> id_flags \<Rightarrow> string list \<Rightarrow> ('g, 'c, 'p, 'r) tx_run" where
  "GetTxDeploymentCloseCmd L A fl args =
     (if length args > 1 then (None, Inl (TxArgCount 0 1))
      else or_fail (dseq_arg args) (\<lambda>_.
        or_fail (map_err TxArg (DeploymentIDFromFlags L fl (signer A))) (\<lambda>id.
        or_fail (dseq_arg args) (\<lambda>dseq.
        broadcast_msg A (TxCloseDeployment (id\<lparr>depDSeq := dseq\<rparr>))))))"

definition GetTxDeploymentUpdateCmd ::
  "chain_lib \<Rightarrow> yaml \<Rightarrow> ('d, 'g, 'm) sdl_lib \<Rightarrow> (string \<Rightarrow> string option) \<Rightarrow> ('g, 'c, 'p, 'r) tx_api \<Rightarrow> id_flags \<Rightarrow> string list \<Rightarrow>
     ('g, 'c, 'p, 'r) tx_run" where
  "GetTxDeploymentUpdateCmd L Y S read A fl args =
     (if length args < 1 \<or> length args > 2 then (None, Inl (TxArgCount 1 2))
      else or_fail (dseq_arg (tl args)) (\<lambda>_.
        or_fail (readChainDeploymentSDL Y S read (hd args)) (\<lambda>sdlManifest.
        or_fail (map_err TxArg (DeploymentIDFromFlags L fl (signer A))) (\<lambda>id.
        or_fail (dseq_arg (tl args)) (\<lambda>dseq.
        let id = id\<lparr>depDSeq := dseq\<rparr> in
        or_fail (map_err SDLFailed (sdVersion S sdlManifest)) (\<lambda>hash.
        or_fail (map_err SDLFailed (sdGroups S sdlManifest)) (\<lambda>groups.
        or_fail (map_err NodeError (txGroups A id)) (\<lambda>existing.
        if length existing \<noteq> length groups \<or> \<not> list_all2 (sdGroupEqual S) existing groups
        then (None, Inl UpdateGroupsChanged)
        else broadcast_msg A (TxUpdateDeployment id hash)))))))))"

section \<open>Groups\<close>

definition groupIDFromFlagsAndArgs :: "chain_lib \<Rightarrow> id_flags \<Rightarrow> string list \<Rightarrow> string \<Rightarrow> tx_err + GroupID" where
  "groupIDFromFlagsAndArgs L fl args owner =
     rbind (map_err TxArg (GroupIDFromFlags L fl \<lparr>moOwner = owner, moProvider = []\<rparr>)) (\<lambda>id.
     rbind (map_err TxArg (GroupSeqsFromArgs args 0 1)) (\<lambda>(dseq, gseq).
     if dseq = 0 then Inl DSeqRequired else Inr (id\<lparr>giDSeq := dseq, giGSeq := gseq\<rparr>)))"

text \<open>The close, pause and start commands differ in the message only.\<close>

definition group_cmd ::
  "(GroupID \<Rightarrow> ('g, 'c, 'p) tx_msg) \<Rightarrow> chain_lib \<Rightarrow> ('g, 'c, 'p, 'r) tx_api \<Rightarrow> id_flags \<Rightarrow> string list \<Rightarrow> ('g, 'c, 'p, 'r) tx_run" where
  "group_cmd msg L A fl args =
     (if length args > 2 then (None, Inl (TxArgCount 0 2))
      else or_fail (groupIDFromFlagsAndArgs L fl args (txFrom A)) (\<lambda>id. broadcast_valid A (msg id)))"

definition GetTxDeploymentGroupCloseCmd ::
  "chain_lib \<Rightarrow> ('g, 'c, 'p, 'r) tx_api \<Rightarrow> id_flags \<Rightarrow> string list \<Rightarrow> ('g, 'c, 'p, 'r) tx_run" where
  "GetTxDeploymentGroupCloseCmd = group_cmd TxCloseGroup"

definition GetDeploymentGroupPauseCmd ::
  "chain_lib \<Rightarrow> ('g, 'c, 'p, 'r) tx_api \<Rightarrow> id_flags \<Rightarrow> string list \<Rightarrow> ('g, 'c, 'p, 'r) tx_run" where
  "GetDeploymentGroupPauseCmd = group_cmd TxPauseGroup"

definition GetDeploymentGroupStartCmd ::
  "chain_lib \<Rightarrow> ('g, 'c, 'p, 'r) tx_api \<Rightarrow> id_flags \<Rightarrow> string list \<Rightarrow> ('g, 'c, 'p, 'r) tx_run" where
  "GetDeploymentGroupStartCmd = group_cmd TxStartGroup"

section \<open>Bids and leases\<close>

definition GetTxMarketBidCreateCmd ::
  "chain_lib \<Rightarrow> ('g, 'c, 'p, 'r) tx_api \<Rightarrow> id_flags \<Rightarrow> deposit_flags \<Rightarrow> string \<Rightarrow> string list \<Rightarrow> ('g, 'c, 'p, 'r) tx_run" where
  "GetTxMarketBidCreateCmd L A fl dep price args =
     (if args \<noteq> [] then (None, Inl (TxArgCount 0 0))
      else or_fail (map_err CoinError (txParseDecCoin A price)) (\<lambda>coin.
        or_fail (map_err TxArg (OrderIDFromFlags L fl \<lparr>moOwner = [], moProvider = txFrom A\<rparr>)) (\<lambda>id.
        or_fail (DetectDeposit A dep DetectBidDeposit) (\<lambda>d.
        broadcast_valid A (TxCreateBid (MakeBidID id (txFrom A)) coin d)))))"

definition GetTxMarketBidCloseCmd ::
  "chain_lib \<Rightarrow> ('g, 'c, 'p, 'r) tx_api \<Rightarrow> id_flags \<Rightarrow> string list \<Rightarrow> ('g, 'c, 'p, 'r) tx_run" where
  "GetTxMarketBidCloseCmd L A fl args =
     (if args \<noteq> [] then (None, Inl (TxArgCount 0 0))
      else or_fail (map_err TxArg (BidIDFromFlags L fl \<lparr>moOwner = [], moProvider = txFrom A\<rparr>)) (\<lambda>id.
        or_fail (map_err TxArg (BidClosedReasonFromFlags L fl)) (\<lambda>reason.
        broadcast_valid A (TxCloseBid id reason))))"

definition leaseIDFromFlagsAndArgs :: "chain_lib \<Rightarrow> id_flags \<Rightarrow> string list \<Rightarrow> string \<Rightarrow> tx_err + MarketBidID" where
  "leaseIDFromFlagsAndArgs L fl args owner =
     rbind (map_err TxArg (OrderIDFromFlags L fl \<lparr>moOwner = owner, moProvider = []\<rparr>)) (\<lambda>oid.
     rbind (map_err TxArg (LeaseSeqsFromArgs L args 0 [])) (\<lambda>(dseq, provider).
     if dseq = 0 then Inl LeaseDSeqRequired
     else if provider = [] then Inl LeaseProviderRequired
     else rbind (of_opt (TxArg (FlagAddress provider)) (bech32 L provider)) (\<lambda>paddr.
       Inr (MakeBidID (oid\<lparr>oiDSeq := dseq\<rparr>) paddr))))"

text \<open>The create, withdraw and close commands differ in the message only.\<close>

definition lease_cmd ::
  "(MarketBidID \<Rightarrow> ('g, 'c, 'p) tx_msg) \<Rightarrow> chain_lib \<Rightarrow> ('g, 'c, 'p, 'r) tx_api \<Rightarrow> id_flags \<Rightarrow> string list \<Rightarrow> ('g, 'c, 'p, 'r) tx_run" where
  "lease_cmd msg L A fl args =
     (if length args > 2 then (None, Inl (TxArgCount 0 2))
      else or_fail (leaseIDFromFlagsAndArgs L fl args (txFrom A)) (\<lambda>id. broadcast_valid A (msg id)))"

definition GetTxMarketLeaseCreateCmd ::
  "chain_lib \<Rightarrow> ('g, 'c, 'p, 'r) tx_api \<Rightarrow> id_flags \<Rightarrow> string list \<Rightarrow> ('g, 'c, 'p, 'r) tx_run" where
  "GetTxMarketLeaseCreateCmd = lease_cmd TxCreateLease"

definition GetTxMarketLeaseWithdrawCmd ::
  "chain_lib \<Rightarrow> ('g, 'c, 'p, 'r) tx_api \<Rightarrow> id_flags \<Rightarrow> string list \<Rightarrow> ('g, 'c, 'p, 'r) tx_run" where
  "GetTxMarketLeaseWithdrawCmd = lease_cmd TxWithdrawLease"

definition GetTxMarketLeaseCloseCmd ::
  "chain_lib \<Rightarrow> ('g, 'c, 'p, 'r) tx_api \<Rightarrow> id_flags \<Rightarrow> string list \<Rightarrow> ('g, 'c, 'p, 'r) tx_run" where
  "GetTxMarketLeaseCloseCmd L A = lease_cmd (\<lambda>id. TxCloseLease id (txReasonOwner A)) L A"

section \<open>Properties\<close>

text \<open>The deployment that a message acts on.\<close>

fun msg_deployment :: "('g, 'c, 'p) tx_msg \<Rightarrow> string \<times> 64 word" where
  "msg_deployment (TxCreateDeployment i _ _ _) = (depOwner i, depDSeq i)"
| "msg_deployment (TxUpdateDeployment i _) = (depOwner i, depDSeq i)"
| "msg_deployment (TxCloseDeployment i) = (depOwner i, depDSeq i)"
| "msg_deployment (TxCloseGroup i) = (giOwner i, giDSeq i)"
| "msg_deployment (TxPauseGroup i) = (giOwner i, giDSeq i)"
| "msg_deployment (TxStartGroup i) = (giOwner i, giDSeq i)"
| "msg_deployment (TxCreateBid i _ _) = (oiOwner i, oiDSeq i)"
| "msg_deployment (TxCloseBid i _) = (oiOwner i, oiDSeq i)"
| "msg_deployment (TxCreateLease i) = (oiOwner i, oiDSeq i)"
| "msg_deployment (TxWithdrawLease i) = (oiOwner i, oiDSeq i)"
| "msg_deployment (TxCloseLease i _) = (oiOwner i, oiDSeq i)"

definition flag_owner :: "chain_lib \<Rightarrow> ('g, 'c, 'p, 'r) tx_api \<Rightarrow> id_flags \<Rightarrow> string option" where
  "flag_owner L A fl =
     (case fOwner fl of Some ow \<Rightarrow> if ow \<noteq> [] then bech32 L ow else Some (txFrom A) | None \<Rightarrow> Some (txFrom A))"

definition acts_on :: "chain_lib \<Rightarrow> ('g, 'c, 'p, 'r) tx_api \<Rightarrow> id_flags \<Rightarrow> string list \<Rightarrow> ('g, 'c, 'p) tx_msg \<Rightarrow> bool" where
  "acts_on L A fl args m \<longleftrightarrow>
     (case msg_deployment m of (owner, dseq) \<Rightarrow>
        flag_owner L A fl = Some owner \<and> dseq \<noteq> 0 \<and> args \<noteq> [] \<and> parse_uint 64 (hd args) = Inr (unat dseq))"

lemma fst_or_fail: "pred_option P (fst (or_fail r k)) \<longleftrightarrow> (\<forall>x. r = Inr x \<longrightarrow> pred_option P (fst (k x)))"
  by (cases r) (simp_all add: or_fail_def)

lemma fst_broadcast [simp]: "fst (broadcast_msg A m) = Some m"
  by (simp add: broadcast_msg_def)

lemma fst_broadcast_valid: "P m \<Longrightarrow> pred_option P (fst (broadcast_valid A m))"
  by (simp add: broadcast_valid_def split: option.split)

lemma DeploymentIDFromFlags_owner:
  "DeploymentIDFromFlags L fl \<lparr>moOwner = txFrom A, moProvider = []\<rparr> = Inr i \<Longrightarrow> flag_owner L A fl = Some (depOwner i)"
  by (auto simp: DeploymentIDFromFlags_def flag_owner_def of_opt_def rbind_Inr_iff split: option.splits if_splits)

lemma dseq_arg_positional:
  "dseq_arg args = Inr d \<Longrightarrow> d \<noteq> 0 \<and> args \<noteq> [] \<and> parse_uint 64 (hd args) = Inr (unat d)"
  using DSeqFromArgs_positional [of args d] by (auto simp: dseq_arg_def rbind_Inr_iff map_err_Inr_iff split: if_splits)

lemma seqs_dseq:
  "GroupSeqsFromArgs args d0 g0 = Inr (d, g) \<Longrightarrow> DSeqFromArgs args d0 = Inr d"
  "LeaseSeqsFromArgs L args d0 p0 = Inr (d, p) \<Longrightarrow> DSeqFromArgs args d0 = Inr d"
  by (cases args rule: remdups_adj.cases; auto simp: GroupSeqsFromArgs_def LeaseSeqsFromArgs_def rbind_Inr_iff split: if_splits)+

lemmas positional_simps = rbind_Inr_iff map_err_Inr_iff
lemmas positional_dests = DeploymentIDFromFlags_owner seqs_dseq [THEN DSeqFromArgs_positional]

lemma group_id_acts_on:
  assumes "groupIDFromFlagsAndArgs L fl args (txFrom A) = Inr i"
  shows "flag_owner L A fl = Some (giOwner i) \<and> giDSeq i \<noteq> 0 \<and> args \<noteq> [] \<and> parse_uint 64 (hd args) = Inr (unat (giDSeq i))"
  using assms
  by (auto simp: groupIDFromFlagsAndArgs_def GroupIDFromFlags_def positional_simps dest: positional_dests split: if_splits)

lemma lease_id_acts_on:
  assumes "leaseIDFromFlagsAndArgs L fl args (txFrom A) = Inr i"
  shows "flag_owner L A fl = Some (oiOwner i) \<and> oiDSeq i \<noteq> 0 \<and> args \<noteq> [] \<and> parse_uint 64 (hd args) = Inr (unat (oiDSeq i))"
  using assms
  by (auto simp: leaseIDFromFlagsAndArgs_def OrderIDFromFlags_def GroupIDFromFlags_def MakeBidID_def OrderID.extend_def positional_simps
      dest: positional_dests split: if_splits)

lemma group_cmd_acts_on: "(\<And>i. msg_deployment (msg i) = (giOwner i, giDSeq i)) \<Longrightarrow> pred_option (acts_on L A fl args) (fst (group_cmd msg L A fl args))"
  using group_id_acts_on [of L fl args A]
  by (auto simp: group_cmd_def fst_or_fail acts_on_def intro!: fst_broadcast_valid)

lemma lease_cmd_acts_on: "(\<And>i. msg_deployment (msg i) = (oiOwner i, oiDSeq i)) \<Longrightarrow> pred_option (acts_on L A fl args) (fst (lease_cmd msg L A fl args))"
  using lease_id_acts_on [of L fl args A]
  by (auto simp: lease_cmd_def fst_or_fail acts_on_def intro!: fst_broadcast_valid)

text \<open>
  C24. A transaction acts on the deployment that was named: the message that a close, update, group or lease
  command broadcasts has the owner given with \<open>--owner\<close> or else the signer, and a deployment sequence
  that is not 0 and is the number of the positional argument; otherwise nothing is broadcast.
\<close>

theorem tx_acts_on_named:
  "pred_option (acts_on L A fl args) (fst (GetTxDeploymentCloseCmd L A fl args)) \<and>
   pred_option (acts_on L A fl (tl args)) (fst (GetTxDeploymentUpdateCmd L Y S read A fl args)) \<and>
   pred_option (acts_on L A fl args) (fst (GetTxDeploymentGroupCloseCmd L A fl args)) \<and>
   pred_option (acts_on L A fl args) (fst (GetDeploymentGroupPauseCmd L A fl args)) \<and>
   pred_option (acts_on L A fl args) (fst (GetDeploymentGroupStartCmd L A fl args)) \<and>
   pred_option (acts_on L A fl args) (fst (GetTxMarketLeaseCreateCmd L A fl args)) \<and>
   pred_option (acts_on L A fl args) (fst (GetTxMarketLeaseWithdrawCmd L A fl args)) \<and>
   pred_option (acts_on L A fl args) (fst (GetTxMarketLeaseCloseCmd L A fl args))"
proof (intro conjI)
  show "pred_option (acts_on L A fl args) (fst (GetTxDeploymentCloseCmd L A fl args))"
    by (auto simp: GetTxDeploymentCloseCmd_def fst_or_fail acts_on_def signer_def map_err_Inr_iff
        dest: DeploymentIDFromFlags_owner dseq_arg_positional)
  show "pred_option (acts_on L A fl (tl args)) (fst (GetTxDeploymentUpdateCmd L Y S read A fl args))"
    by (auto simp: GetTxDeploymentUpdateCmd_def fst_or_fail acts_on_def signer_def map_err_Inr_iff Let_def
        dest: DeploymentIDFromFlags_owner dseq_arg_positional)
qed (auto simp: GetTxDeploymentGroupCloseCmd_def GetDeploymentGroupPauseCmd_def GetDeploymentGroupStartCmd_def
      GetTxMarketLeaseCreateCmd_def GetTxMarketLeaseWithdrawCmd_def GetTxMarketLeaseCloseCmd_def
      intro!: group_cmd_acts_on lease_cmd_acts_on)

end
