(* ===== verification/Lease_Scope.thy ===== *)
theory Lease_Scope
  imports Chain_Args
begin

text \<open>
  How a provider command finds the lease and the gateway it talks to
  (\<open>src/internal/cli/provider/lease.go\<close>): the deployment sequence comes from the argument, the provider from
  \<open>--provider\<close> or from the one active lease of the deployment, the gateway from \<open>--provider-url\<close> or the
  provider's record on chain.

  Parameters: the pages of the node's lease query, the lookup of a host URI, and the preflight check of
  the signing identity.  The result of the page loop is \<open>None\<close> when its fuel is used up.
\<close>

record leaseScope =
  lsOwner :: string
  lsDSeq :: "64 word"
  lsGSeq :: "32 word"
  lsOSeq :: "32 word"
  lsGSeqSet :: bool
  lsOSeqSet :: bool

record ChainLease =
  clID :: MarketBidID
  clActive :: bool
  clState :: string

datatype lease_err =
    LeaseArg arg_err
  | MissingDSeq bool
  | PreflightFailed string
  | ProviderAddress string
  | NoDefaultOwner "64 word"
  | LeaseQueryFailed "64 word" string
  | LeaseQueryEmpty "64 word"
  | LeaseQueryRepeated "64 word"
  | NoLeases string "64 word"
  | NoActiveLease string "string list" "64 word"
  | AmbiguousLease string nat "string list"
  | HostURIFailed string
  | NoHostURI string

text \<open>The flags: \<open>fGSeq\<close> and \<open>fOSeq\<close> give the values, and the booleans whether they were set.\<close>

record lease_flags = id_flags +
  fGSeqChanged :: bool
  fOSeqChanged :: bool
  fProviderURL :: string

definition flag_or :: "'a \<Rightarrow> 'a option \<Rightarrow> 'a" where
  "flag_or d v = (case v of None \<Rightarrow> d | Some x \<Rightarrow> x)"

definition missingDSeqError :: "lease_flags \<Rightarrow> lease_err" where
  "missingDSeqError fl = MissingDSeq (fDSeq fl \<noteq> None)"

definition leaseScopeFromCmd :: "lease_flags \<Rightarrow> string \<Rightarrow> string list \<Rightarrow> lease_err + leaseScope" where
  "leaseScopeFromCmd fl from args =
     rbind (map_err LeaseArg (DSeqFromArgs args (flag_or 0 (fDSeq fl)))) (\<lambda>dseq.
     if dseq = 0 then Inl (missingDSeqError fl)
     else Inr \<lparr>lsOwner = from, lsDSeq = dseq, lsGSeq = flag_or 0 (fGSeq fl), lsOSeq = flag_or 0 (fOSeq fl),
               lsGSeqSet = fGSeqChanged fl, lsOSeqSet = fOSeqChanged fl\<rparr>)"

definition leaseID :: "leaseScope \<Rightarrow> string \<Rightarrow> MarketBidID" where
  "leaseID s provider =
     \<lparr>oiOwner = lsOwner s, oiDSeq = lsDSeq s, oiGSeq = lsGSeq s, oiOSeq = lsOSeq s, oiProvider = provider\<rparr>"

definition leasesMatchingScope :: "leaseScope \<Rightarrow> ChainLease list \<Rightarrow> ChainLease list" where
  "leasesMatchingScope s leases =
     (if \<not> lsGSeqSet s \<and> \<not> lsOSeqSet s then leases
      else filter (\<lambda>l. \<not> (lsGSeqSet s \<and> oiGSeq (clID l) \<noteq> lsGSeq s) \<and> \<not> (lsOSeqSet s \<and> oiOSeq (clID l) \<noteq> lsOSeq s)) leases)"

definition deploymentLabel :: "leaseScope \<Rightarrow> string" where
  "deploymentLabel s =
     (let label = ''deployment '' @ format_uint (lsDSeq s) in
      if lsGSeqSet s \<and> lsOSeqSet s then label @ '' (gseq '' @ format_uint (lsGSeq s) @ '', oseq '' @ format_uint (lsOSeq s) @ '')''
      else if lsGSeqSet s then label @ '' (gseq '' @ format_uint (lsGSeq s) @ '')''
      else if lsOSeqSet s then label @ '' (oseq '' @ format_uint (lsOSeq s) @ '')''
      else label)"

section \<open>The leases of a deployment\<close>

record leases_page =
  pgLeases :: "ChainLease list"
  pgNextKey :: "string option"

fun chain_lease_pages ::
  "nat \<Rightarrow> (string \<Rightarrow> string + leases_page option) \<Rightarrow> 64 word \<Rightarrow> ChainLease list \<Rightarrow> string list \<Rightarrow> string \<Rightarrow>
     (lease_err + ChainLease list) option" where
  "chain_lease_pages 0 fetch dseq leases seenKeys pageKey = None"
| "chain_lease_pages (Suc fuel) fetch dseq leases seenKeys pageKey =
     (case fetch pageKey of
        Inl e \<Rightarrow> Some (Inl (LeaseQueryFailed dseq e))
      | Inr None \<Rightarrow> Some (Inl (LeaseQueryEmpty dseq))
      | Inr (Some res) \<Rightarrow>
          let leases = leases @ pgLeases res; nextKey = flag_or [] (pgNextKey res) in
          if nextKey = [] then Some (Inr leases)
          else if nextKey \<in> set seenKeys then Some (Inl (LeaseQueryRepeated dseq))
          else chain_lease_pages fuel fetch dseq leases (nextKey # seenKeys) nextKey)"

definition chainLeaseQuery ::
  "nat \<Rightarrow> (string \<Rightarrow> 64 word \<Rightarrow> string \<Rightarrow> string + leases_page option) \<Rightarrow> string \<Rightarrow> 64 word \<Rightarrow> (lease_err + ChainLease list) option" where
  "chainLeaseQuery fuel fetch owner dseq = chain_lease_pages fuel (fetch owner dseq) dseq [] [] []"

section \<open>Resolution\<close>

type_synonym lease_query = "string \<Rightarrow> 64 word \<Rightarrow> lease_err + ChainLease list"

definition activeLeaseForScope :: "lease_query \<Rightarrow> leaseScope \<Rightarrow> lease_err + ChainLease" where
  "activeLeaseForScope leases s =
     (if lsOwner s = [] then Inl (NoDefaultOwner (lsDSeq s))
      else rbind (leases (lsOwner s) (lsDSeq s)) (\<lambda>found.
        let found = leasesMatchingScope s found in
        if found = [] then Inl (NoLeases (deploymentLabel s) (lsDSeq s))
        else let active = filter clActive found; states = map clState (filter (\<lambda>l. \<not> clActive l) found) in
          (case active of
             [l] \<Rightarrow> Inr l
           | [] \<Rightarrow> Inl (NoActiveLease (deploymentLabel s) (sort states) (lsDSeq s))
           | _ \<Rightarrow> Inl (AmbiguousLease (deploymentLabel s) (length active) (sort (map (\<lambda>l. ''  '' @ oiProvider (clID l)) active))))))"

definition lease_ident :: "leaseScope \<Rightarrow> ChainLease \<Rightarrow> MarketBidID" where
  "lease_ident s lease =
     (let lid = leaseID s (oiProvider (clID lease));
          lid = (if lsGSeqSet s then lid else lid\<lparr>oiGSeq := oiGSeq (clID lease)\<rparr>)
      in if lsOSeqSet s then lid else lid\<lparr>oiOSeq := oiOSeq (clID lease)\<rparr>)"

definition resolveLeaseProvider :: "chain_lib \<Rightarrow> lease_query \<Rightarrow> lease_flags \<Rightarrow> leaseScope \<Rightarrow> lease_err + MarketBidID" where
  "resolveLeaseProvider L leases fl s =
     (let addrStr = flag_or [] (fProvider fl) in
      if addrStr \<noteq> [] then rbind (of_opt (ProviderAddress addrStr) (bech32 L addrStr)) (\<lambda>addr. Inr (leaseID s addr))
      else rbind (activeLeaseForScope leases s) (\<lambda>lease. Inr (lease_ident s lease)))"

definition gatewayURL :: "(string \<Rightarrow> string + string) \<Rightarrow> lease_flags \<Rightarrow> string \<Rightarrow> lease_err + string" where
  "gatewayURL hostURI fl provider =
     (if fProviderURL fl \<noteq> [] then Inr (fProviderURL fl)
      else rbind (map_err HostURIFailed (hostURI provider)) (\<lambda>url. if url = [] then Inl (NoHostURI provider) else Inr url))"

definition resolveLeaseWith ::
  "chain_lib \<Rightarrow> lease_query \<Rightarrow> (string \<Rightarrow> string + string) \<Rightarrow> string option \<Rightarrow> lease_flags \<Rightarrow> string \<Rightarrow> string list \<Rightarrow>
     lease_err + MarketBidID \<times> string" where
  "resolveLeaseWith L leases hostURI preflight fl from args =
     rbind (leaseScopeFromCmd fl from args) (\<lambda>scope.
     rbind (case preflight of Some e \<Rightarrow> Inl (PreflightFailed e) | None \<Rightarrow> Inr ()) (\<lambda>_.
     rbind (resolveLeaseProvider L leases fl scope) (\<lambda>lid.
     rbind (gatewayURL hostURI fl (oiProvider lid)) (\<lambda>providerURL. Inr (lid, providerURL)))))"

text \<open>The providers a manifest is sent to when none is named.\<close>

definition cli_activeLeaseProviders :: "lease_query \<Rightarrow> leaseScope \<Rightarrow> lease_err + string list" where
  "cli_activeLeaseProviders leases s =
     (if lsOwner s = [] then Inl (NoDefaultOwner (lsDSeq s))
      else rbind (leases (lsOwner s) (lsDSeq s)) (\<lambda>found.
        let seen = remdups (map (\<lambda>l. oiProvider (clID l)) (filter (\<lambda>l. clActive l \<and> oiProvider (clID l) \<noteq> []) found)) in
        if seen = [] then Inl (NoActiveLease (deploymentLabel s) [] (lsDSeq s)) else Inr (sort seen)))"

section \<open>Properties\<close>

text \<open>The lease in scope: of the deployment's leases, those of the group and the order the command names.\<close>

definition in_scope :: "leaseScope \<Rightarrow> ChainLease \<Rightarrow> bool" where
  "in_scope s l \<longleftrightarrow>
     (lsGSeqSet s \<longrightarrow> oiGSeq (clID l) = lsGSeq s) \<and> (lsOSeqSet s \<longrightarrow> oiOSeq (clID l) = lsOSeq s)"

lemma leasesMatchingScope_filter: "leasesMatchingScope s ls = filter (in_scope s) ls"
  by (cases "lsGSeqSet s"; cases "lsOSeqSet s") (simp_all add: leasesMatchingScope_def in_scope_def [abs_def])

lemma activeLeaseForScope_iff:
  assumes "leases (lsOwner s) (lsDSeq s) = Inr found" and "lsOwner s \<noteq> []"
  shows "activeLeaseForScope leases s = Inr l \<longleftrightarrow> filter (\<lambda>l. in_scope s l \<and> clActive l) found = [l]"
proof -
  have f: "filter clActive (filter (in_scope s) found) = filter (\<lambda>l. in_scope s l \<and> clActive l) found"
    by (simp add: conj_commute)
  show ?thesis
    using assms
    by (cases "filter (\<lambda>l. in_scope s l \<and> clActive l) found" rule: list.exhaust)
       (auto simp: activeLeaseForScope_def leasesMatchingScope_filter Let_def f filter_empty_conv split: list.splits if_splits)
qed

text \<open>
  C25. A lease-scoped provider command without \<open>--provider\<close> never guesses: it talks to a lease exactly when the leases
  of the deployment that are active and have the group and order sequences it names, if any, are one single
  lease; then it uses the provider and the sequences of that lease, and the account's address and the deployment sequence it was given.
\<close>

theorem single_active_lease:
  assumes "leases (lsOwner s) (lsDSeq s) = Inr found" and "lsOwner s \<noteq> []" and "flag_or [] (fProvider fl) = []"
  shows "resolveLeaseProvider L leases fl s = Inr lid \<longleftrightarrow>
    (\<exists>l. filter (\<lambda>l. in_scope s l \<and> clActive l) found = [l] \<and>
         lid = \<lparr>oiOwner = lsOwner s, oiDSeq = lsDSeq s, oiGSeq = oiGSeq (clID l), oiOSeq = oiOSeq (clID l), oiProvider = oiProvider (clID l)\<rparr>)"
proof -
  have scoped: "in_scope s l" if "filter (\<lambda>l. in_scope s l \<and> clActive l) found = [l]" for l
    using arg_cong [OF that, of set] by auto
  have active: "activeLeaseForScope leases s = Inr l \<longleftrightarrow> filter (\<lambda>l. in_scope s l \<and> clActive l) found = [l]" for l
    using assms(1,2) by (rule activeLeaseForScope_iff)
  have ident: "lease_ident s l = \<lparr>oiOwner = lsOwner s, oiDSeq = lsDSeq s, oiGSeq = oiGSeq (clID l), oiOSeq = oiOSeq (clID l), oiProvider = oiProvider (clID l)\<rparr>"
    if "in_scope s l" for l using that by (auto simp: lease_ident_def leaseID_def in_scope_def Let_def)
  have "resolveLeaseProvider L leases fl s = Inr lid \<longleftrightarrow>
    (\<exists>l. filter (\<lambda>l. in_scope s l \<and> clActive l) found = [l] \<and> lid = lease_ident s l)"
    by (auto simp: resolveLeaseProvider_def assms(3) rbind_Inr_iff active)
  then show ?thesis using ident [OF scoped] by metis
qed

text \<open>
  The loop over the pages ends: a node with finitely many page keys is asked at most once more than it has keys.
\<close>

lemma chain_lease_pages_ends:
  assumes "finite K" and "\<And>k p. fetch k = Inr (Some p) \<Longrightarrow> flag_or [] (pgNextKey p) \<in> insert [] K"
  shows "set seen \<subseteq> K \<Longrightarrow> card (K - set seen) < fuel \<Longrightarrow> chain_lease_pages fuel fetch dseq acc seen key \<noteq> None"
proof (induction fuel arbitrary: acc seen key)
  case (Suc fuel)
  have next_page: "chain_lease_pages fuel fetch dseq acc' (k # seen) k \<noteq> None" if "k \<in> K" "k \<notin> set seen" for k acc'
  proof (rule Suc.IH)
    have "K - set (k # seen) \<subset> K - set seen" using that by auto
    then have "card (K - set (k # seen)) < card (K - set seen)" by (rule psubset_card_mono [rotated]) (simp add: assms(1))
    then show "card (K - set (k # seen)) < fuel" using Suc.prems(2) by simp
  qed (use that Suc.prems(1) in simp)
  show ?case
  proof (cases "fetch key")
    case (Inr r)
    then show ?thesis using assms(2) [of key] next_page by (cases r) (auto simp: Let_def)
  qed simp
qed simp

definition sample_lease :: "string \<Rightarrow> 32 word \<Rightarrow> bool \<Rightarrow> ChainLease" where
  "sample_lease p n active =
     \<lparr>clID = \<lparr>oiOwner = ''a'', oiDSeq = 7, oiGSeq = 1, oiOSeq = n, oiProvider = p\<rparr>, clActive = active,
      clState = (if active then ''active'' else ''closed'')\<rparr>"

definition sample_scope :: "32 word option \<Rightarrow> leaseScope" where
  "sample_scope n =
     \<lparr>lsOwner = ''a'', lsDSeq = 7, lsGSeq = 1, lsOSeq = flag_or 1 n, lsGSeqSet = False, lsOSeqSet = (n \<noteq> None)\<rparr>"

definition sample_flags :: lease_flags where
  "sample_flags = \<lparr>fOwner = None, fDSeq = None, fGSeq = None, fOSeq = None, fProvider = None, fReason = None,
     fGSeqChanged = False, fOSeqChanged = True, fProviderURL = []\<rparr>"

definition sample_leases :: lease_query where
  "sample_leases owner dseq = Inr [sample_lease ''p'' 1 False, sample_lease ''q'' 2 True, sample_lease ''r'' 3 True]"

definition sample_addresses :: chain_lib where
  "sample_addresses = \<lparr>bech32 = Some, deploymentStates = [], orderStates = [], bidStates = [], leaseStates = [], certStates = [],
     providerReason = (\<lambda>_. True)\<rparr>"

text \<open>Of three leases, two of them active, the one of the order that the command names.\<close>

theorem single_active_lease_witness:
  "resolveLeaseProvider sample_addresses sample_leases sample_flags (sample_scope (Some 2)) =
     Inr \<lparr>oiOwner = ''a'', oiDSeq = 7, oiGSeq = 1, oiOSeq = 2, oiProvider = ''q''\<rparr>"
  by (subst single_active_lease [where found = "[sample_lease ''p'' 1 False, sample_lease ''q'' 2 True, sample_lease ''r'' 3 True]"])
     (simp_all add: sample_leases_def sample_scope_def sample_flags_def sample_lease_def flag_or_def in_scope_def)

end
