(* ===== verification/Tx_Fees.thy ===== *)
theory Tx_Fees
  imports Go_Strings "HOL-Library.Word"
begin

text \<open>
  What a transaction pays: the defaults of gas and fees (\<open>applyTransactionDefaults\<close> and
  \<open>applyGasPriceFloor\<close> of \<open>src/internal/cli/root.go\<close>) and the options made of them
  (\<open>src/internal/cli/chain/flags/client.go\<close>).

  A flag is \<open>None\<close> when the command does not register it.  Parameters, in \<open>fee_lib\<close>: the SDK's parsers of
  coins and the printer of decimal coins, whose amounts are integers in units of the smallest decimal, and
  what setting the numeric flag of the gas adjustment leaves in it.
\<close>

record flag_value =
  fvValue :: string
  fvChanged :: bool

record fee_flags =
  ffGas :: "flag_value option"
  ffGasAdjustment :: "flag_value option"
  ffFees :: "flag_value option"
  ffGasPrices :: "flag_value option"
  ffDryRun :: bool

record fee_context =
  fcGas :: string
  fcGasAdjustment :: string
  fcFees :: string
  fcGasPrices :: string

type_synonym dec_coin = "string \<times> int"

record fee_lib =
  parseDecCoins :: "string \<Rightarrow> string + dec_coin list"
  showDecCoins :: "dec_coin list \<Rightarrow> string"
  parseCoins :: "string \<Rightarrow> string option"
  setFloat :: "string \<Rightarrow> string \<Rightarrow> string"

datatype fee_err = GasPricesFlag string | NetworkGasPrices string string | NoSharedDenom "dec_coin list" "dec_coin list" | FeesFlag string | BadGas

definition flag_text :: "flag_value option \<Rightarrow> string" where
  "flag_text f = (case f of None \<Rightarrow> [] | Some v \<Rightarrow> fvValue v)"

definition set_value :: "string \<Rightarrow> flag_value option \<Rightarrow> flag_value option" where
  "set_value s f = map_option (\<lambda>v. v\<lparr>fvValue := s\<rparr>) f"

section \<open>The floor\<close>

definition floor_of :: "dec_coin list \<Rightarrow> string \<Rightarrow> int option" where
  "floor_of floor denom = map_option snd (List.find (\<lambda>(d, _). d = denom) floor)"

definition raise_coin :: "dec_coin list \<Rightarrow> dec_coin \<Rightarrow> dec_coin" where
  "raise_coin floor c =
     (case c of (denom, amount) \<Rightarrow>
        (case floor_of floor denom of
           None \<Rightarrow> (denom, amount)
         | Some minimum \<Rightarrow> (denom, if minimum > amount then minimum else amount)))"

definition applyGasPriceFloor :: "fee_lib \<Rightarrow> string \<Rightarrow> string \<Rightarrow> fee_err + string" where
  "applyGasPriceFloor K candidateRaw floorRaw =
     rbind (map_err GasPricesFlag (parseDecCoins K candidateRaw)) (\<lambda>candidate.
     rbind (map_err (NetworkGasPrices floorRaw) (parseDecCoins K floorRaw)) (\<lambda>floor.
     let effective = map (raise_coin floor) candidate in
     if \<not> list_ex (\<lambda>(d, _). floor_of floor d \<noteq> None) candidate then Inl (NoSharedDenom candidate floor)
     else if effective = candidate then Inr candidateRaw
     else Inr (showDecCoins K effective)))"

section \<open>Defaults\<close>

text \<open>\<open>setDefault\<close>: an explicit flag stays, then the environment, even when empty, then the context.\<close>

definition default_value :: "(string \<Rightarrow> string option) \<Rightarrow> string \<Rightarrow> string \<Rightarrow> string" where
  "default_value env envName contextValue = (case env envName of Some v \<Rightarrow> v | None \<Rightarrow> contextValue)"

definition set_default ::
  "(string \<Rightarrow> string \<Rightarrow> string) \<Rightarrow> (string \<Rightarrow> string option) \<Rightarrow> string \<Rightarrow> string \<Rightarrow> flag_value option \<Rightarrow> flag_value option" where
  "set_default put env envName contextValue f =
     map_option (\<lambda>v.
       let new = default_value env envName contextValue in
       if fvChanged v \<or> new = [] then v else v\<lparr>fvValue := put (fvValue v) new\<rparr>) f"

text \<open>Fees and gas prices are two ways to state one fee: the source that is first gives both.\<close>

definition fee_source :: "(string \<Rightarrow> string option) \<Rightarrow> fee_context \<Rightarrow> string \<times> string \<Rightarrow> string \<times> string" where
  "fee_source env rc given =
     (case (env ''AKT_FEES'', env ''AKT_GAS_PRICES'') of
        (fees, prices) \<Rightarrow>
          if fees \<noteq> None \<and> fees \<noteq> Some [] then (the fees, [])
          else if prices \<noteq> None then ([], the prices)
          else if fees \<noteq> None then ([], fcGasPrices rc)
          else if fcFees rc \<noteq> [] then (fcFees rc, [])
          else if fcGasPrices rc \<noteq> [] then (fst given, fcGasPrices rc)
          else given)"

definition fee_defaults :: "(string \<Rightarrow> string option) \<Rightarrow> fee_context \<Rightarrow> flag_value \<Rightarrow> flag_value \<Rightarrow> flag_value \<times> flag_value" where
  "fee_defaults env rc fees prices =
     (if \<not> fvChanged fees \<and> \<not> fvChanged prices then
        (case fee_source env rc (fvValue fees, fvValue prices) of
           (f, p) \<Rightarrow> (fees\<lparr>fvValue := f\<rparr>, prices\<lparr>fvValue := p\<rparr>))
      else (fees, prices))"

definition applyTransactionDefaults ::
  "fee_lib \<Rightarrow> (string \<Rightarrow> string option) \<Rightarrow> fee_context \<Rightarrow> fee_flags \<Rightarrow> fee_err + fee_flags" where
  "applyTransactionDefaults K env rc fl =
     (if ffGas fl = None then Inr fl
      else let gas = set_default (\<lambda>_ v. v) env ''AKT_GAS'' (fcGas rc) (ffGas fl);
               fl = fl\<lparr>ffGas := (if ffDryRun fl then set_value ''0'' gas else gas),
                       ffGasAdjustment := set_default (setFloat K) env ''AKT_GAS_ADJUSTMENT'' (fcGasAdjustment rc) (ffGasAdjustment fl)\<rparr> in
        (case (ffFees fl, ffGasPrices fl) of
           (Some fees, Some prices) \<Rightarrow>
             (case fee_defaults env rc fees prices of
                (fees, prices) \<Rightarrow>
                  if fvValue fees \<noteq> [] \<or> fvValue prices = [] \<or> fcGasPrices rc = []
                  then Inr (fl\<lparr>ffFees := Some fees, ffGasPrices := Some prices\<rparr>)
                  else rbind (applyGasPriceFloor K (fvValue prices) (fcGasPrices rc)) (\<lambda>effective.
                    Inr (fl\<lparr>ffFees := Some fees, ffGasPrices := Some (prices\<lparr>fvValue := effective\<rparr>)\<rparr>)))
         | _ \<Rightarrow> Inr fl))"

section \<open>Options\<close>

datatype gas_setting = GasSetting bool "64 word"

definition DefaultGasLimit :: "64 word" where "DefaultGasLimit = 200000"

definition ParseGasSetting :: "string \<Rightarrow> fee_err + gas_setting" where
  "ParseGasSetting gasStr =
     (if gasStr = [] then Inr (GasSetting False DefaultGasLimit)
      else if gasStr = ''auto'' then Inr (GasSetting True 0)
      else case parse_uint 64 gasStr of Inl _ \<Rightarrow> Inl BadGas | Inr n \<Rightarrow> Inr (GasSetting False (of_nat n)))"

datatype fee_option = WithFees string | WithGasPrices string

text \<open>The part of the client's options that determines the fee.\<close>

definition fee_options :: "fee_lib \<Rightarrow> fee_flags \<Rightarrow> fee_err + fee_option option" where
  "fee_options K fl =
     (let fees = flag_text (ffFees fl); gasPrices = flag_text (ffGasPrices fl) in
      if fees \<noteq> [] then (case parseCoins K fees of Some e \<Rightarrow> Inl (FeesFlag e) | None \<Rightarrow> Inr (Some (WithFees fees)))
      else if gasPrices \<noteq> [] then map_err GasPricesFlag (map_sum id (\<lambda>_. Some (WithGasPrices gasPrices)) (parseDecCoins K gasPrices))
      else Inr None)"

definition gas_option :: "fee_flags \<Rightarrow> fee_err + gas_setting option" where
  "gas_option fl =
     (case ffGas fl of None \<Rightarrow> Inr None | Some v \<Rightarrow> map_sum id Some (ParseGasSetting (fvValue v)))"

section \<open>Properties\<close>

lemma raise_coin_fst [simp]: "fst (raise_coin floor c) = fst c"
  by (auto simp: raise_coin_def split: prod.split option.split)

lemma raise_coin_floor: "floor_of floor (fst c) = Some m \<Longrightarrow> m \<le> snd (raise_coin floor c) \<and> snd c \<le> snd (raise_coin floor c)"
  by (auto simp: raise_coin_def split: prod.splits)

definition at_least :: "dec_coin list \<Rightarrow> dec_coin list \<Rightarrow> bool" where
  "at_least floor coins \<longleftrightarrow>
     list_all (\<lambda>(d, a). case floor_of floor d of None \<Rightarrow> True | Some m \<Rightarrow> m \<le> a) coins \<and>
     list_ex (\<lambda>(d, _). floor_of floor d \<noteq> None) coins"

lemma at_least_raised:
  assumes "list_ex (\<lambda>(d, _). floor_of floor d \<noteq> None) candidate"
  shows "at_least floor (map (raise_coin floor) candidate)"
proof -
  have "case raise_coin floor c of (d, a) \<Rightarrow> (case floor_of floor d of None \<Rightarrow> True | Some m \<Rightarrow> m \<le> a)" for c
    using raise_coin_floor [of floor c] by (cases "raise_coin floor c"; cases "floor_of floor (fst c)") (metis fst_conv raise_coin_fst snd_conv option.simps(4,5) case_prod_conv)+
  moreover have "list_ex (\<lambda>(d, _). floor_of floor d \<noteq> None) (map (raise_coin floor) candidate)"
    using assms by (auto simp: list_ex_iff case_prod_unfold)
  ultimately show ?thesis by (simp add: at_least_def list_all_iff)
qed

lemma floor_at_least:
  assumes "applyGasPriceFloor K candidate floorRaw = Inr p"
    and "\<And>c f. parseDecCoins K candidate = Inr c \<Longrightarrow> parseDecCoins K floorRaw = Inr f \<Longrightarrow>
      parseDecCoins K (showDecCoins K (map (raise_coin f) c)) = Inr (map (raise_coin f) c)"
  shows "\<exists>floor coins. parseDecCoins K floorRaw = Inr floor \<and> parseDecCoins K p = Inr coins \<and> at_least floor coins"
proof -
  from assms(1) obtain c f where cf: "parseDecCoins K candidate = Inr c" "parseDecCoins K floorRaw = Inr f"
    "list_ex (\<lambda>(d, _). floor_of f d \<noteq> None) c"
    "p = (if map (raise_coin f) c = c then candidate else showDecCoins K (map (raise_coin f) c))"
    by (auto simp: applyGasPriceFloor_def rbind_Inr_iff map_err_Inr_iff Let_def split: if_splits)
  have "parseDecCoins K p = Inr (map (raise_coin f) c)" using cf(1,4) assms(2) [OF cf(1,2)] by simp
  with cf(2) at_least_raised [OF cf(3)] show ?thesis by blast
qed

lemma fee_source_one: "fst given = [] \<Longrightarrow> fst (fee_source env rc given) = [] \<or> snd (fee_source env rc given) = []"
  by (auto simp: fee_source_def)

lemma fee_defaults_one:
  "fee_defaults env rc fees prices = (f, p) \<Longrightarrow> \<not> fvChanged fees \<Longrightarrow> \<not> fvChanged prices \<Longrightarrow> fvValue fees = [] \<Longrightarrow> fvValue f = [] \<or> fvValue p = []"
  using fee_source_one [of "(fvValue fees, fvValue prices)" env rc] by (auto simp: fee_defaults_def split: prod.splits)

text \<open>The two flags after the defaults: the resolved ones, with the floor applied to prices that decide.\<close>

lemma defaults_resolved:
  assumes "applyTransactionDefaults K env rc fl = Inr fl'" and "ffGas fl \<noteq> None"
    and "ffFees fl = Some fees" and "ffGasPrices fl = Some prices" and "fcGasPrices rc \<noteq> []"
  obtains f p where "fee_defaults env rc fees prices = (f, p)" "ffFees fl' = Some f"
    "flag_text (ffGasPrices fl') = fvValue p \<and> (fvValue f \<noteq> [] \<or> fvValue p = []) \<or>
     fvValue f = [] \<and> applyGasPriceFloor K (fvValue p) (fcGasPrices rc) = Inr (flag_text (ffGasPrices fl'))"
  using assms
  by (cases "fee_defaults env rc fees prices")
     (auto simp: applyTransactionDefaults_def Let_def flag_text_def rbind_Inr_iff split: if_splits)

text \<open>
  C19. What a transaction pays.  When neither \<open>--fees\<close> nor \<open>--gas-prices\<close> was given, at most one of the two is
  set from the environment or the context; and when gas prices decide on a network with prices of its
  own, they share a denomination with the network and are not below its price in any denomination they share.
\<close>

theorem fee_decided:
  assumes "applyTransactionDefaults K env rc fl = Inr fl'" and "ffGas fl \<noteq> None"
    and "ffFees fl = Some fees" and "ffGasPrices fl = Some prices" and "fcGasPrices rc \<noteq> []"
    and "\<And>s c f. parseDecCoins K s = Inr c \<Longrightarrow> parseDecCoins K (fcGasPrices rc) = Inr f \<Longrightarrow>
      parseDecCoins K (showDecCoins K (map (raise_coin f) c)) = Inr (map (raise_coin f) c)"
  shows "(fvChanged fees \<or> fvChanged prices \<or> fvValue fees \<noteq> [] \<or> flag_text (ffFees fl') = [] \<or> flag_text (ffGasPrices fl') = []) \<and>
    (case fee_options K fl' of
       Inr (Some (WithGasPrices p)) \<Rightarrow>
         \<exists>floor coins. parseDecCoins K (fcGasPrices rc) = Inr floor \<and> parseDecCoins K p = Inr coins \<and> at_least floor coins
     | _ \<Rightarrow> True)"
proof -
  obtain f p where fp: "fee_defaults env rc fees prices = (f, p)" "ffFees fl' = Some f"
    "flag_text (ffGasPrices fl') = fvValue p \<and> (fvValue f \<noteq> [] \<or> fvValue p = []) \<or>
     fvValue f = [] \<and> applyGasPriceFloor K (fvValue p) (fcGasPrices rc) = Inr (flag_text (ffGasPrices fl'))"
    using assms(1-5) by (rule defaults_resolved)
  have "fvChanged fees \<or> fvChanged prices \<or> fvValue fees \<noteq> [] \<or> flag_text (ffFees fl') = [] \<or> flag_text (ffGasPrices fl') = []"
    using fee_defaults_one [OF fp(1)] fp(2,3) by (auto simp: flag_text_def)
  moreover have "\<exists>floor coins. parseDecCoins K (fcGasPrices rc) = Inr floor \<and> parseDecCoins K q = Inr coins \<and> at_least floor coins"
    if "fee_options K fl' = Inr (Some (WithGasPrices q))" for q
  proof -
    have "fvValue f = []" "q = flag_text (ffGasPrices fl')" "q \<noteq> []"
      using that fp(2) by (auto simp: fee_options_def flag_text_def [of "Some f"] Let_def map_err_Inr_iff split: if_splits option.splits; cases "parseDecCoins K (flag_text (ffGasPrices fl'))"; simp)+
    with fp(3) have "applyGasPriceFloor K (fvValue p) (fcGasPrices rc) = Inr q" by auto
    then show ?thesis by (rule floor_at_least) (rule assms(6))
  qed
  ultimately show ?thesis by (auto split: sum.splits option.splits fee_option.splits)
qed

text \<open>Gas prices of the environment below the network's price are raised to it.\<close>

definition fee_sample_lib :: fee_lib where
  "fee_sample_lib = \<lparr>parseDecCoins = (\<lambda>s. if s = ''1uakt'' then Inr [(''uakt'', 1)] else if s = ''2uakt'' then Inr [(''uakt'', 2)] else Inl s),
     showDecCoins = (\<lambda>cs. if cs = [(''uakt'', 2)] then ''2uakt'' else ''1uakt''), parseCoins = Some, setFloat = (\<lambda>_ v. v)\<rparr>"

definition fee_sample :: "string \<Rightarrow> fee_flags" where
  "fee_sample prices =
     (let flag = (\<lambda>s. Some \<lparr>fvValue = s, fvChanged = False\<rparr>) in
      \<lparr>ffGas = flag ''auto'', ffGasAdjustment = None, ffFees = flag [], ffGasPrices = flag prices, ffDryRun = False\<rparr>)"

definition fee_env :: "string \<Rightarrow> string option" where
  "fee_env = [''AKT_GAS_PRICES'' \<mapsto> ''1uakt'']"

definition fee_network :: fee_context where
  "fee_network = \<lparr>fcGas = [], fcGasAdjustment = [], fcFees = [], fcGasPrices = ''2uakt''\<rparr>"

lemma fee_sample_raised: "applyTransactionDefaults fee_sample_lib fee_env fee_network (fee_sample []) = Inr (fee_sample ''2uakt'')"
  by (simp add: applyTransactionDefaults_def applyGasPriceFloor_def raise_coin_def floor_of_def set_default_def default_value_def fee_defaults_def
      fee_source_def fee_sample_lib_def fee_env_def fee_network_def fee_sample_def Let_def)

theorem fee_decided_witness:
  "applyTransactionDefaults fee_sample_lib fee_env fee_network (fee_sample []) = Inr (fee_sample ''2uakt'') \<and>
   (\<exists>floor coins. parseDecCoins fee_sample_lib ''2uakt'' = Inr floor \<and> parseDecCoins fee_sample_lib ''2uakt'' = Inr coins \<and> at_least floor coins)"
proof -
  have "parseDecCoins fee_sample_lib (showDecCoins fee_sample_lib (map (raise_coin f) c)) = Inr (map (raise_coin f) c)"
    if "parseDecCoins fee_sample_lib s = Inr c" "parseDecCoins fee_sample_lib (fcGasPrices fee_network) = Inr f" for s c f
    using that by (auto simp: fee_sample_lib_def fee_network_def raise_coin_def floor_of_def split: if_splits)
  moreover have "fee_options fee_sample_lib (fee_sample ''2uakt'') = Inr (Some (WithGasPrices ''2uakt''))"
    by (simp add: fee_options_def fee_sample_def flag_text_def fee_sample_lib_def Let_def)
  ultimately show ?thesis
    using fee_decided [OF fee_sample_raised, of "\<lparr>fvValue = [], fvChanged = False\<rparr>" "\<lparr>fvValue = [], fvChanged = False\<rparr>"] fee_sample_raised
    by (simp add: fee_sample_def [of "[]"] fee_network_def Let_def)
qed

end
