(* ===== verification/Workflow_Params.thy ===== *)
theory Workflow_Params
  imports Chain_Adapter Workflow_Types Context_Manager "HOL-Library.Multiset"
begin

text \<open>
  The inputs and the rail of a workflow command (\<open>src/internal/cli/workflow/params.go\<close>, \<open>commands.go\<close>):
  validation of the parameters against their declared types, resolution of the deposit on the rail of the
  context, the check of denominations, the steps that a rail leaves out, and the wait for a deployment to
  be ready.

  A parameter's value is a string, an integer, a boolean or something else.  The environment
  \<open>wp_env\<close> has the files, the YAML and SDL libraries, the SDK's parsers and the number functions.
\<close>

datatype param_value = PText string | PNum int | PFlag bool | POther

type_synonym params = "string \<rightharpoonup> param_value"

datatype wp_problem =
    MustBeString | MustBeInteger | MustBePositive | MustBeBoolean | MustBeDuration | InvalidDuration string | DurationNotPositive
  | MustBePath | FileStat string | NotRegularFile string | FileOpen string | PatchRead | PatchInvalid dc_err
  | SDLInvalid string | SDLManifestInvalid string | SDLGroupsInvalid string | SDLVersionInvalid string
  | MustBeDeposit | DepositInvalid deposit_err | MustBeBidSelection | BidSelectionInvalid wf_err | UnsupportedType string

datatype wp_err =
    ParamRequired string | InvalidParam string wp_problem
  | SecretsNeedConsoleContext string | SDLRead os_err | SDLReferencesErr dc_err | ReferencesNeedConsoleContext string
  | DepositErr deposit_err | AutoDeposit ad_err | DepositDenom string | DenomSDL string
  | DenomDiffers string string string bool
  | BaseNeedsPatch | BaseOnConsole | Prepared ad_err | NoteUnwritten

record ('d, 'g, 'm, 'w) wp_env =
  wpYaml :: yaml
  wpSDL :: "('d, 'g, 'm) sdl_lib"
  wpSdk :: sdk
  wpDeps :: "'w deps"
  wpOS :: os
  wpOpen :: "string \<Rightarrow> bool"
  wpFiles :: fs

section \<open>Declared types\<close>

definition workflowParamEmpty :: "param_value \<Rightarrow> bool" where
  "workflowParamEmpty v = (case v of PText s \<Rightarrow> trim_space s = [] | _ \<Rightarrow> False)"

definition isSequenceParam :: "string \<Rightarrow> bool" where
  "isSequenceParam name \<longleftrightarrow> name = ''dseq'' \<or> name = ''gseq'' \<or> name = ''oseq''"

text \<open>The validators give \<open>None\<close> for a valid value.\<close>

definition validateReadableFile :: "('d, 'g, 'm, 'w) wp_env \<Rightarrow> param_value \<Rightarrow> wp_problem option" where
  "validateReadableFile E v =
     (case v of
        PText path \<Rightarrow>
          if \<not> osStat (wpOS E) path \<or> wpFiles E path = None then Some (FileStat path)
          else if \<not> is_regular (wpOS E) (wpFiles E) path then Some (NotRegularFile path)
          else if \<not> wpOpen E path then Some (FileOpen path)
          else None
      | _ \<Rightarrow> Some MustBePath)"

definition path_of :: "param_value \<Rightarrow> string" where
  "path_of v = (case v of PText s \<Rightarrow> s | _ \<Rightarrow> [])"

definition validatePatchFile :: "('d, 'g, 'm, 'w) wp_env \<Rightarrow> param_value \<Rightarrow> wp_problem option" where
  "validatePatchFile E v =
     (case validateReadableFile E v of
        Some e \<Rightarrow> Some e
      | None \<Rightarrow>
          (case ReadFile (wpOS E) (wpFiles E) (path_of v) of
             Inl _ \<Rightarrow> Some PatchRead
           | Inr data \<Rightarrow> (case ParsePatch (wpYaml E) data of Inl e \<Rightarrow> Some (PatchInvalid e) | Inr _ \<Rightarrow> None)))"

definition validateSDLFile :: "('d, 'g, 'm, 'w) wp_env \<Rightarrow> param_value \<Rightarrow> wp_problem option" where
  "validateSDLFile E v =
     (case validateReadableFile E v of
        Some e \<Rightarrow> Some e
      | None \<Rightarrow>
          (let path = path_of v in
           case sdReadFile (wpSDL E) (wpFiles E) path of
             Inl _ \<Rightarrow> Some (SDLInvalid path)
           | Inr doc \<Rightarrow>
               (case sdManifest (wpSDL E) doc of
                  Inl _ \<Rightarrow> Some (SDLManifestInvalid path)
                | Inr _ \<Rightarrow>
                    (case sdGroups (wpSDL E) doc of
                       Inl _ \<Rightarrow> Some (SDLGroupsInvalid path)
                     | Inr _ \<Rightarrow> (case sdVersion (wpSDL E) doc of Inl _ \<Rightarrow> Some (SDLVersionInvalid path) | Inr _ \<Rightarrow> None)))))"

definition param_problem :: "('d, 'g, 'm, 'w) wp_env \<Rightarrow> params \<Rightarrow> string \<Rightarrow> string \<Rightarrow> param_value \<Rightarrow> wp_problem option" where
  "param_problem E params name ty v =
     (if ty = ''string'' then (case v of PText _ \<Rightarrow> None | _ \<Rightarrow> Some MustBeString)
      else if ty = ''int'' then
        (case v of PNum n \<Rightarrow> if isSequenceParam name \<and> n \<le> 0 then Some MustBePositive else None | _ \<Rightarrow> Some MustBeInteger)
      else if ty = ''bool'' then (case v of PFlag _ \<Rightarrow> None | _ \<Rightarrow> Some MustBeBoolean)
      else if ty = ''duration'' then
        (case v of
           PText s \<Rightarrow>
             (case dDuration (wpDeps E) s of
                None \<Rightarrow> Some (InvalidDuration s)
              | Some d \<Rightarrow> if d \<le> 0 then Some DurationNotPositive else None)
         | _ \<Rightarrow> Some MustBeDuration)
      else if ty = ''file'' then
        (if name \<noteq> ''secrets-file'' \<or> v \<noteq> PText ''-'' then validateReadableFile E v else None)
      else if ty = ''sdl'' then
        (if params ''patch'' = Some (PFlag True) \<and> name = ''sdl-file'' then validatePatchFile E v else validateSDLFile E v)
      else if ty = ''deposit'' then
        (case v of
           PText s \<Rightarrow>
             (case ParseDeposit (wpSdk E) (dParseFloat (wpDeps E)) s of Inl e \<Rightarrow> Some (DepositInvalid e) | Inr _ \<Rightarrow> None)
         | _ \<Rightarrow> Some MustBeDeposit)
      else if ty = ''bid-selection'' then
        (case v of
           PText s \<Rightarrow> map_option BidSelectionInvalid (ValidateBidSelection (wpDeps E) s)
         | _ \<Rightarrow> Some MustBeBidSelection)
      else Some (UnsupportedType ty))"

definition sortedParamNames :: "(string \<times> ParamDef) list \<Rightarrow> string list" where
  "sortedParamNames ps = sort (map fst ps)"

text \<open>One iteration of the loop over the declared parameters.\<close>

definition validate_param :: "('d, 'g, 'm, 'w) wp_env \<Rightarrow> params \<Rightarrow> string \<times> ParamDef \<Rightarrow> wp_err option" where
  "validate_param E params p =
     (case p of (name, def) \<Rightarrow>
        (case params name of
           None \<Rightarrow> if pRequired def then Some (ParamRequired name) else None
         | Some v \<Rightarrow>
             if workflowParamEmpty v then (if pRequired def then Some (ParamRequired name) else None)
             else map_option (InvalidParam name) (param_problem E params name (pType def) v)))"

fun first_problem :: "('a \<Rightarrow> 'e option) \<Rightarrow> 'a list \<Rightarrow> 'e option" where
  "first_problem check [] = None"
| "first_problem check (x # xs) = (case check x of Some e \<Rightarrow> Some e | None \<Rightarrow> first_problem check xs)"

definition validateWorkflowParams :: "('d, 'g, 'm, 'w) wp_env \<Rightarrow> WorkflowDef \<Rightarrow> params \<Rightarrow> wp_err option" where
  "validateWorkflowParams E def params =
     first_problem (\<lambda>name. validate_param E params (name, the (map_of (wfParams def) name))) (sortedParamNames (wfParams def))"

section \<open>The rail\<close>

definition resolveContext :: "os \<Rightarrow> Manager option \<Rightarrow> string \<Rightarrow> Context option" where
  "resolveContext os mgr name =
     (case mgr of None \<Rightarrow> None | Some m \<Rightarrow> (case Resolve os m name of Inl _ \<Rightarrow> None | Inr rc \<Rightarrow> Some rc))"

definition on_console :: "Context \<Rightarrow> bool" where
  "on_console rc \<longleftrightarrow> cAuthMethod rc = AuthMethodConsoleAPI"

definition workflowRail :: "os \<Rightarrow> Manager option \<Rightarrow> string \<Rightarrow> string" where
  "workflowRail os mgr name =
     (case resolveContext os mgr name of None \<Rightarrow> [] | Some rc \<Rightarrow> if on_console rc then KindConsole else KindChain)"

text \<open>\<open>written\<close>: whether the note about a skipped step could be printed.\<close>

definition filterProviderSteps :: "(string \<Rightarrow> bool) \<Rightarrow> WorkflowDef \<Rightarrow> wp_err + WorkflowDef" where
  "filterProviderSteps written def =
     (let skipped = filter (\<lambda>s. sdType s = StepProvider) (wfSteps def) in
      if list_ex (\<lambda>s. \<not> written (sdName s)) skipped then Inl NoteUnwritten
      else if skipped = [] then Inr def
      else Inr (def\<lparr>wfSteps := filter (\<lambda>s. sdType s \<noteq> StepProvider) (wfSteps def)\<rparr>))"

definition consolePlanAction :: "string \<Rightarrow> string" where
  "consolePlanAction msg =
     (if msg = ''deployment.MsgCreateDeployment'' then ''Console API create deployment''
      else if msg = ''deployment.MsgUpdateDeployment'' then ''Console API update deployment''
      else if msg = ''deployment.MsgCloseDeployment'' then ''Console API close deployment''
      else if msg = ''market.MsgCreateLease'' then ''Console API create lease''
      else ''unsupported Console action '' @ msg)"

definition text_param :: "params \<Rightarrow> string \<Rightarrow> string option" where
  "text_param params name = (case params name of Some (PText s) \<Rightarrow> Some s | _ \<Rightarrow> None)"

definition flag_param :: "params \<Rightarrow> string \<Rightarrow> bool" where
  "flag_param params name \<longleftrightarrow> params name = Some (PFlag True)"

definition text_or_empty :: "string option \<Rightarrow> string" where
  "text_or_empty s = (case s of None \<Rightarrow> [] | Some t \<Rightarrow> t)"

section \<open>Denominations\<close>

definition validateDeploymentDenominations :: "('d, 'g, 'm, 'w) wp_env \<Rightarrow> params \<Rightarrow> Context \<Rightarrow> wp_err option" where
  "validateDeploymentDenominations E params rc =
     (let sdlPath = text_or_empty (text_param params ''sdl-file'') in
      if trim_space sdlPath = [] then None
      else case (if on_console rc then Inr (Some ''uact'')
                 else let resolved = text_or_empty (text_param params ''deposit'') in
                   if trim_space resolved = [] then Inr None
                   else (case ParseDecCoin (wpSdk E) resolved of
                           None \<Rightarrow> Inl (DepositDenom resolved)
                         | Some (denom, _) \<Rightarrow> Inr (Some denom))) of
        Inl e \<Rightarrow> Some e
      | Inr None \<Rightarrow> None
      | Inr (Some depositDenom) \<Rightarrow>
          (case sdReadFile (wpSDL E) (wpFiles E) sdlPath of
             Inl _ \<Rightarrow> Some (DenomSDL sdlPath)
           | Inr doc \<Rightarrow>
               let groups = (case sdGroups (wpSDL E) doc of Inl _ \<Rightarrow> [] | Inr gs \<Rightarrow> gs) in
               map_option (\<lambda>g. DenomDiffers (sdGroupDenom (wpSDL E) g) depositDenom (sdGroupName (wpSDL E) g) (on_console rc))
                 (List.find (\<lambda>g. sdGroupDenom (wpSDL E) g \<noteq> depositDenom) groups)))"

definition chainDryRunNeedsDepositQuery :: "('d, 'g, 'm, 'w) wp_env \<Rightarrow> string \<Rightarrow> bool" where
  "chainDryRunNeedsDepositQuery E raw =
     (case ParseDeposit (wpSdk E) (dParseFloat (wpDeps E)) raw of Inl _ \<Rightarrow> False | Inr d \<Rightarrow> Auto d)"

text \<open>Secrets and references to them need the Console.\<close>

definition chain_inputs_problem :: "('d, 'g, 'm, 'w) wp_env \<Rightarrow> params \<Rightarrow> Context \<Rightarrow> wp_err option" where
  "chain_inputs_problem E params rc =
     (if text_or_empty (text_param params ''secrets-file'') \<noteq> [] then Some (SecretsNeedConsoleContext (cName rc))
      else let path = text_or_empty (text_param params ''sdl-file'') in
        if path = [] \<or> flag_param params ''patch'' then None
        else case ReadFile (wpOS E) (wpFiles E) path of
          Inl e \<Rightarrow> Some (SDLRead e)
        | Inr data \<Rightarrow>
            (case HasReferences (wpYaml E) data of
               Inl e \<Rightarrow> Some (SDLReferencesErr e)
             | Inr refs \<Rightarrow> if refs then Some (ReferencesNeedConsoleContext (cName rc)) else None))"

text \<open>\<open>light\<close> is the query client of the command, or the error of making it.\<close>

definition resolved_deposit ::
  "('d, 'g, 'm, 'w) wp_env \<Rightarrow> (ad_err + ('g, 'c, 'r) chain_api) \<Rightarrow> Context \<Rightarrow> string \<Rightarrow> wp_err + string" where
  "resolved_deposit E light rc raw =
     rbind (map_err DepositErr (ParseDeposit (wpSdk E) (dParseFloat (wpDeps E)) raw)) (\<lambda>parsed.
     if on_console rc then map_err DepositErr (RailValue parsed KindConsole)
     else rbind (map_err DepositErr (RailValue parsed KindChain)) (\<lambda>resolved.
       if Auto parsed
       then rbind (map_err AutoDeposit light) (\<lambda>N. map_err AutoDeposit (ResolveChainDepositValue N resolved))
       else Inr resolved))"

definition resolveWorkflowParams ::
  "('d, 'g, 'm, 'w) wp_env \<Rightarrow> (ad_err + ('g, 'c, 'r) chain_api) \<Rightarrow> Context option \<Rightarrow> params \<Rightarrow> wp_err + params" where
  "resolveWorkflowParams E light rc params =
     (case (case rc of None \<Rightarrow> None | Some c \<Rightarrow> if on_console c then None else chain_inputs_problem E params c) of
        Some e \<Rightarrow> Inl e
      | None \<Rightarrow>
          (case (text_param params ''deposit'', rc) of
             (Some raw, Some c) \<Rightarrow>
               rbind (resolved_deposit E light c raw) (\<lambda>resolved.
               let copyParams = params(''deposit'' \<mapsto> PText resolved) in
               case validateDeploymentDenominations E copyParams c of Some e \<Rightarrow> Inl e | None \<Rightarrow> Inr copyParams)
           | _ \<Rightarrow> Inr params))"

section \<open>Prepared deployments\<close>

text \<open>\<open>fmt.Sprint\<close> of a parameter; \<open>other\<close> is the text of a value of another type.\<close>

definition sprint_int :: "int \<Rightarrow> string" where
  "sprint_int n = (if n < 0 then CHR ''-'' # format_nat (nat (- n)) else format_nat (nat n))"

definition sprint_param :: "string \<Rightarrow> param_value \<Rightarrow> string" where
  "sprint_param other v =
     (case v of PText s \<Rightarrow> s | PNum n \<Rightarrow> sprint_int n | PFlag b \<Rightarrow> (if b then ''true'' else ''false'') | POther \<Rightarrow> other)"

definition prepared_values :: "string \<Rightarrow> string \<Rightarrow> params \<Rightarrow> (string \<times> string) list" where
  "prepared_values other name params =
     (let given = List.map_filter (\<lambda>k. map_option (\<lambda>v. (k, sprint_param other v)) (params k))
            [''dseq'', ''patch'', ''base-sdl'', ''secrets-file'', ''deposit''];
          vals = given @ [(''sdl'', text_or_empty (text_param params ''sdl-file''))]
      in if name = ''redeploy'' then vals @ [(''source-dseq'', prm vals ''dseq'')] else vals)"

definition validatePreparedDeployment ::
  "('d, 'g, 'm, 'w) wp_env \<Rightarrow> ('b, 'v) store_access \<Rightarrow> (unit + string) option \<Rightarrow> string \<Rightarrow> string \<Rightarrow> params \<Rightarrow> Context option \<Rightarrow> 'b db \<Rightarrow>
     wp_err option \<times> 'b db" where
  "validatePreparedDeployment E A input other name params rc db =
     (let patch = flag_param params ''patch''; base = text_or_empty (text_param params ''base-sdl'') in
      if base \<noteq> [] \<and> \<not> patch then (Some BaseNeedsPatch, db)
      else if base \<noteq> [] \<and> (case rc of None \<Rightarrow> False | Some c \<Rightarrow> on_console c) then (Some BaseOnConsole, db)
      else case rc of
        None \<Rightarrow> (None, db)
      | Some c \<Rightarrow>
          if on_console c \<or> (name \<noteq> ''redeploy'' \<and> \<not> patch) then (None, db)
          else (case ValidateChain (wpYaml E) (wpSDL E) (wpSdk E) A (wpOS E) (wpFiles E)
                       (NewDeploymentInputs (cRoot c) (cName c) input) [] (prepared_values other name params) db of
                  (e, db) \<Rightarrow> (map_option Prepared e, db)))"

section \<open>Readiness\<close>

record service_status =
  svTotal :: int
  svAvailable :: int
  svURIs :: "string list"

text \<open>\<open>None\<close> when not ready, otherwise the addresses of the services that have any; \<open>decode\<close> is the JSON decoder.\<close>

definition deploymentReady :: "(string \<Rightarrow> (string \<times> service_status) list option) \<Rightarrow> string \<Rightarrow> string + (string \<times> string list) list option" where
  "deploymentReady decode raw =
     (case decode raw of
        None \<Rightarrow> Inl ''decode deployment service status''
      | Some services \<Rightarrow>
          if services = [] \<or> list_ex (\<lambda>(_, s). svTotal s \<le> 0 \<or> svAvailable s < svTotal s) services then Inr None
          else Inr (Some (map (\<lambda>(n, s). (n, svURIs s)) (filter (\<lambda>(_, s). svURIs s \<noteq> []) services))))"

datatype ready_result = Ready "(string \<times> string list) list" string | NotReady string "string option"

text \<open>The answer to attempt \<open>i\<close> is \<open>fetch i\<close>; \<open>expired i\<close>: the deadline fires in the pause after it.  \<open>None\<close>: out of fuel.\<close>

fun wait_ready ::
  "nat \<Rightarrow> (string \<Rightarrow> (string \<times> service_status) list option) \<Rightarrow> (nat \<Rightarrow> string + string) \<Rightarrow> (nat \<Rightarrow> bool) \<Rightarrow> nat \<Rightarrow> string \<Rightarrow> ready_result option" where
  "wait_ready 0 decode fetch expired i lastRaw = None"
| "wait_ready (Suc fuel) decode fetch expired i lastRaw =
     (let (lastRaw, lastErr, ready) =
        (case fetch i of
           Inl e \<Rightarrow> (lastRaw, Some e, None)
         | Inr raw \<Rightarrow> (case deploymentReady decode raw of Inl e \<Rightarrow> (raw, Some e, None) | Inr r \<Rightarrow> (raw, None, r)))
      in case ready of
           Some uris \<Rightarrow> Some (Ready uris lastRaw)
         | None \<Rightarrow> if expired i then Some (NotReady lastRaw lastErr) else wait_ready fuel decode fetch expired (Suc i) lastRaw)"

definition waitForDeploymentReadiness ::
  "nat \<Rightarrow> (string \<Rightarrow> (string \<times> service_status) list option) \<Rightarrow> (nat \<Rightarrow> string + string) \<Rightarrow> (nat \<Rightarrow> bool) \<Rightarrow> ready_result option" where
  "waitForDeploymentReadiness fuel decode fetch expired = wait_ready fuel decode fetch expired 0 []"

section \<open>Properties\<close>

lemma first_problem_None: "first_problem check xs = None \<longleftrightarrow> (\<forall>x \<in> set xs. check x = None)"
  by (induction xs) (auto split: option.splits)

lemma first_problem_Some: "first_problem check xs = Some e \<Longrightarrow> \<exists>x \<in> set xs. check x = Some e"
  by (induction xs) (auto split: option.splits)

text \<open>
  The order in which Go iterates over the declared parameters does not matter, and parameters are
  accepted exactly when each of them is: a required one is there and not blank, and every one that
  is there and not blank has its declared type.
\<close>

theorem validateWorkflowParams_each:
  assumes "distinct (map fst (wfParams def))"
  shows "validateWorkflowParams E def params = None \<longleftrightarrow> (\<forall>p \<in> set (wfParams def). validate_param E params p = None)"
    and "mset (wfParams def') = mset (wfParams def) \<Longrightarrow> validateWorkflowParams E def' params = validateWorkflowParams E def params"
proof -
  show "validateWorkflowParams E def params = None \<longleftrightarrow> (\<forall>p \<in> set (wfParams def). validate_param E params p = None)"
    using assms by (auto simp: validateWorkflowParams_def first_problem_None sortedParamNames_def)
  assume m: "mset (wfParams def') = mset (wfParams def)"
  then have "mset (map fst (wfParams def')) = mset (map fst (wfParams def))" by simp
  then have names: "sort (map fst (wfParams def')) = sort (map fst (wfParams def))" and d: "distinct (map fst (wfParams def'))"
    using assms by (metis sorted_list_of_multiset_mset, metis mset_eq_imp_distinct_iff)
  have "map_of (wfParams def') = map_of (wfParams def)"
    by (rule map_of_inject_set [THEN iffD2]) (use m assms d mset_eq_setD [OF m] in simp_all)
  then show "validateWorkflowParams E def' params = validateWorkflowParams E def params"
    by (simp add: validateWorkflowParams_def sortedParamNames_def names)
qed

lemma denominations_checked:
  assumes "validateDeploymentDenominations E ps rc = None"
    and "text_param ps ''sdl-file'' = Some path" and "trim_space path \<noteq> []"
    and "sdReadFile (wpSDL E) (wpFiles E) path = Inr doc" and "sdGroups (wpSDL E) doc = Inr groups"
  shows "if on_console rc then list_all (\<lambda>g. sdGroupDenom (wpSDL E) g = ''uact'') groups
    else (case text_param ps ''deposit'' of
            Some d \<Rightarrow> trim_space d = [] \<or>
              (\<exists>denom amount. ParseDecCoin (wpSdk E) d = Some (denom, amount) \<and> list_all (\<lambda>g. sdGroupDenom (wpSDL E) g = denom) groups)
          | None \<Rightarrow> True)"
  using assms
  by (auto simp: validateDeploymentDenominations_def text_or_empty_def find_None_iff list_all_iff Let_def split: if_splits option.splits)

text \<open>Trimming is idempotent, and does not remove a character that occurs in no space.\<close>

lemma drop_space_prefix: "drop_space ws (t @ u) = None \<Longrightarrow> drop_space ws t = None"
  by (cases t) (auto simp: drop_space_def find_None_iff has_prefix_iff split: if_splits option.splits, metis append.assoc append_Cons)

lemma trim_fuel_suffix: "\<exists>p. s = p @ trim_fuel n ws s"
proof (induction n arbitrary: s)
  case (Suc n)
  show ?case
  proof (cases "drop_space ws s")
    case (Some t)
    then obtain k where "t = drop k s"
      by (auto simp: drop_space_def drop_Suc split: list.splits if_splits option.splits) (metis drop0 drop_Suc_Cons)
    moreover obtain p where "t = p @ trim_fuel n ws t" using Suc by blast
    ultimately have "s = (take k s @ p) @ trim_fuel n ws t" by (metis append.assoc append_take_drop_id)
    with Some show ?thesis by (metis option.simps(5) trim_fuel.simps(2))
  qed simp
qed simp

lemma trim_space_idem: "trim_space (trim_space s) = trim_space s"
proof -
  define l where "l = trim_fuel (length s) utf8_spaces s"
  define t where "t = rev (trim_fuel (length l) (map rev utf8_spaces) (rev l))"
  obtain p where "rev l = p @ trim_fuel (length l) (map rev utf8_spaces) (rev l)" using trim_fuel_suffix by blast
  then have "l = t @ rev p" unfolding t_def by (metis rev_append rev_rev_ident)
  moreover have "drop_space utf8_spaces l = None" unfolding l_def by (rule trim_fuel_done [OF utf8_spaces_nonempty(1)]) simp
  ultimately have left: "drop_space utf8_spaces t = None" using drop_space_prefix by metis
  have right: "drop_space (map rev utf8_spaces) (rev t) = None"
    unfolding t_def rev_rev_ident by (rule trim_fuel_done [OF utf8_spaces_nonempty(2)]) simp
  have "trim_space t = t" using left right by (simp add: trim_space_def trim_fuel_no_space)
  moreover have "trim_space s = t" by (simp add: trim_space_def t_def l_def Let_def)
  ultimately show ?thesis by simp
qed

lemma trim_space_last: "printable c \<Longrightarrow> trim_space (s @ [c]) \<noteq> []"
proof -
  assume c: "printable c"
  define l where "l = trim_fuel (length (s @ [c])) utf8_spaces (s @ [c])"
  obtain p where p: "s @ [c] = p @ l" unfolding l_def using trim_fuel_suffix by blast
  have "l \<noteq> []"
  proof
    have ne: "trim_fuel n utf8_spaces (t @ [c]) \<noteq> []" for n t
    proof (induction n arbitrary: t)
      case (Suc n)
      show ?case
      proof (cases "drop_space utf8_spaces (t @ [c])")
        case (Some r)
        have w: "c \<notin> set w" if "w \<in> set utf8_spaces" for w
          using that c by (auto simp: utf8_spaces_def printable_def)
        obtain r' where "r = r' @ [c]"
        proof (cases t)
          case Nil
          with Some c show ?thesis by (simp add: drop_space_printable)
        next
          case (Cons x xs)
          show ?thesis
          proof (cases "ascii_space x")
            case True
            with Some Cons that show ?thesis by (auto simp: drop_space_def)
          next
            case False
            with Some Cons obtain v where v: "List.find (\<lambda>w. has_prefix (t @ [c]) w) utf8_spaces = Some v" "r = drop (length v) (t @ [c])"
              by (auto simp: drop_space_def split: if_splits option.splits)
            then have "c \<notin> set v" "has_prefix (t @ [c]) v" using w by (auto simp: find_Some_iff)
            moreover from this(2) v(2) have "t @ [c] = v @ r" unfolding has_prefix_iff by (metis append_eq_conv_conj)
            ultimately show ?thesis using that by (cases r rule: rev_cases) (auto dest: arg_cong [where f = set])
          qed
        qed
        with Suc.IH Some show ?thesis by simp
      qed simp
    qed simp
    assume "l = []"
    with ne [of "length (s @ [c])" s] show False by (simp add: l_def)
  qed
  with p have "last l = c" by (metis last_appendR last_snoc)
  then have rev: "rev l = c # rev (butlast l)" using \<open>l \<noteq> []\<close> by (metis append_butlast_last_id rev_eq_Cons_iff rev_rev_ident)
  have "drop_space (map rev utf8_spaces) (rev l) = None" unfolding rev using c by (rule drop_space_printable)
  then have "trim_space (s @ [c]) = l" by (simp add: trim_space_def l_def [symmetric] trim_fuel_no_space del: length_append)
  with \<open>l \<noteq> []\<close> show ?thesis by simp
qed

text \<open>The deposit that the chain rail passes on: the network's minimum in \<open>uact\<close> for an automatic one, else the coin that was given.\<close>

definition chain_deposit :: "sdk \<Rightarrow> (ad_err + ('g, 'c, 'r) chain_api) \<Rightarrow> string \<Rightarrow> string \<Rightarrow> bool" where
  "chain_deposit K light raw d \<longleftrightarrow>
     (if trim_space raw \<in> {[], depositAuto}
      then (\<exists>N coins amount. light = Inr N \<and> caMinDeposits N = Inr coins \<and>
              List.find (\<lambda>(denom, _). denom = ''uact'') coins = Some (''uact'', amount) \<and> d = amount @ ''uact'')
      else chain_coin K (trim_space raw) \<and> d = trim_space raw)"

lemma resolved_deposit_chain:
  assumes "resolved_deposit E light rc raw = Inr d" and "\<not> on_console rc"
  shows "chain_deposit (wpSdk E) light raw d \<and> trim_space d \<noteq> []"
proof -
  from assms obtain parsed resolved where parsed: "ParseDeposit (wpSdk E) (dParseFloat (wpDeps E)) raw = Inr parsed"
    "RailValue parsed KindChain = Inr resolved"
    "(if Auto parsed then rbind (map_err AutoDeposit light) (\<lambda>N. map_err AutoDeposit (ResolveChainDepositValue N resolved)) else Inr resolved) = Inr d"
    by (auto simp: resolved_deposit_def rbind_Inr_iff map_err_Inr_iff)
  then have "rbind (ParseDeposit (wpSdk E) (dParseFloat (wpDeps E)) raw) (\<lambda>d. RailValue d KindChain) = Inr resolved" by simp
  then have rail: "rail_accepts (wpSdk E) KindChain (trim_space raw)" "resolved = trim_space raw" by (simp_all add: rail_of_deposit)
  show ?thesis
  proof (cases "trim_space raw \<in> {[], depositAuto}")
    case True
    with parsed(1) have "Auto parsed" by (auto simp: ParseDeposit_auto)
    with parsed(3) obtain N where N: "light = Inr N" "ResolveChainDepositValue N resolved = Inr d"
      by (auto simp: rbind_Inr_iff map_err_Inr_iff)
    with True rail(2) obtain coins denom amount where coins: "caMinDeposits N = Inr coins"
      "List.find (\<lambda>(denom, _). denom = ''uact'') coins = Some (denom, amount)" "d = amount @ denom"
      by (auto simp: ResolveChainDepositValue_def outside_def rbind_Inr_iff map_err_Inr_iff split: option.splits sum.splits)
    then have "denom = ''uact''" by (auto simp: find_Some_iff)
    note found = coins [unfolded this]
    have "trim_space ((amount @ ''uac'') @ [CHR ''t'']) \<noteq> []" by (rule trim_space_last) (simp add: printable_def)
    with found(3) have "trim_space d \<noteq> []" by simp
    with True N(1) found show ?thesis by (auto simp: chain_deposit_def)
  next
    case False
    with rail(1) have coin: "chain_coin (wpSdk E) (trim_space raw)" by (simp add: rail_accepts_def)
    with parsed(1) False have "\<not> Auto parsed" by (auto simp: ParseDeposit_coin zero_deposit_def)
    with parsed(3) rail(2) have "d = trim_space raw" by simp
    with False coin show ?thesis by (simp add: chain_deposit_def trim_space_idem)
  qed
qed

text \<open>
  C20. A workflow whose parameters were resolved does not reach the chain with prices in another
  denomination than its deposit.  On the Console rail only a deposit left to the rail is accepted, none is
  passed on, and every group of the SDL is priced in \<open>uact\<close>.  On the chain rail a deposit left to the rail
  has been replaced by the network's minimum in \<open>uact\<close>, a coin is passed on as given, and in both cases the
  deposit passed on is a coin and every group has its denomination.
\<close>

theorem denominations_match:
  assumes "resolveWorkflowParams E light (Some rc) params = Inr ps"
    and "text_param params ''deposit'' = Some raw" and "text_param params ''sdl-file'' = Some path" and "trim_space path \<noteq> []"
    and "sdReadFile (wpSDL E) (wpFiles E) path = Inr doc" and "sdGroups (wpSDL E) doc = Inr groups"
  shows "\<exists>d. text_param ps ''deposit'' = Some d \<and>
    (if on_console rc
     then trim_space raw \<in> {[], depositAuto} \<and> d = [] \<and> list_all (\<lambda>g. sdGroupDenom (wpSDL E) g = ''uact'') groups
     else chain_deposit (wpSdk E) light raw d \<and>
       (\<exists>denom amount. ParseDecCoin (wpSdk E) d = Some (denom, amount) \<and> list_all (\<lambda>g. sdGroupDenom (wpSDL E) g = denom) groups))"
proof -
  from assms(1,2) obtain d where d: "resolved_deposit E light rc raw = Inr d" "ps = params(''deposit'' \<mapsto> PText d)"
    "validateDeploymentDenominations E ps rc = None"
    by (auto simp: resolveWorkflowParams_def rbind_Inr_iff Let_def split: option.splits if_splits)
  have dep: "text_param ps ''deposit'' = Some d" and path: "text_param ps ''sdl-file'' = Some path"
    using assms(3) by (simp_all add: d(2) text_param_def)
  note checked = denominations_checked [OF d(3) path assms(4,5,6)]
  show ?thesis
  proof (cases "on_console rc")
    case True
    with d(1) have "rbind (ParseDeposit (wpSdk E) (dParseFloat (wpDeps E)) raw) (\<lambda>d. RailValue d KindConsole) = Inr d"
      by (auto simp: resolved_deposit_def rbind_Inr_iff map_err_Inr_iff)
    then have "trim_space raw \<in> {[], depositAuto}" "d = []" by (auto simp: rail_of_deposit rail_accepts_def)
    with True checked dep show ?thesis by simp
  next
    case False
    with resolved_deposit_chain [OF d(1)] checked dep show ?thesis by auto
  qed
qed

text \<open>
  The wait ends when the deadline fires, with success exactly when an answer up to then was ready, and
  with the first such answer.
\<close>

definition ready_at :: "(string \<Rightarrow> (string \<times> service_status) list option) \<Rightarrow> (nat \<Rightarrow> string + string) \<Rightarrow> nat \<Rightarrow> (string \<times> string list) list option" where
  "ready_at decode fetch i = (case fetch i of Inr raw \<Rightarrow> (case deploymentReady decode raw of Inr r \<Rightarrow> r | Inl _ \<Rightarrow> None) | Inl _ \<Rightarrow> None)"

lemma wait_ready_result:
  assumes "expired n" and "\<And>j. j < n \<Longrightarrow> \<not> expired j"
  shows "i \<le> n \<Longrightarrow> n < i + fuel \<Longrightarrow> \<exists>r. wait_ready fuel decode fetch expired i lastRaw = Some r \<and>
    (case r of
       Ready uris raw \<Rightarrow> \<exists>k. i \<le> k \<and> k \<le> n \<and> fetch k = Inr raw \<and> ready_at decode fetch k = Some uris \<and> (\<forall>j. i \<le> j \<and> j < k \<longrightarrow> ready_at decode fetch j = None)
     | NotReady _ _ \<Rightarrow> \<forall>j. i \<le> j \<and> j \<le> n \<longrightarrow> ready_at decode fetch j = None)"
proof (induction fuel arbitrary: i lastRaw)
  case (Suc fuel)
  show ?case
  proof (cases "ready_at decode fetch i")
    case (Some uris)
    then obtain raw where "fetch i = Inr raw" "deploymentReady decode raw = Inr (Some uris)"
      by (auto simp: ready_at_def split: sum.splits)
    then show ?thesis using Some Suc.prems by (auto intro!: exI [of _ i])
  next
    case None
    have step: "\<exists>e raw. wait_ready (Suc fuel) decode fetch expired i lastRaw =
        (if expired i then Some (NotReady raw e) else wait_ready fuel decode fetch expired (Suc i) raw)"
    proof (cases "fetch i")
      case (Inr raw)
      then show ?thesis using None by (cases "deploymentReady decode raw") (auto simp: ready_at_def intro!: exI [of _ raw])
    qed (auto intro!: exI [of _ lastRaw])
    show ?thesis
    proof (cases "i = n")
      case True
      with step assms(1) None show ?thesis by force
    next
      case False
      with Suc.prems have i: "i < n" by simp
      with step assms(2) obtain raw where w: "wait_ready (Suc fuel) decode fetch expired i lastRaw = wait_ready fuel decode fetch expired (Suc i) raw"
        by auto
      have earlier: "i \<le> j \<longleftrightarrow> j = i \<or> Suc i \<le> j" for j by auto
      from i Suc.prems obtain r where r: "wait_ready fuel decode fetch expired (Suc i) raw = Some r"
        "case r of
           Ready uris raw \<Rightarrow> \<exists>k. Suc i \<le> k \<and> k \<le> n \<and> fetch k = Inr raw \<and> ready_at decode fetch k = Some uris \<and> (\<forall>j. Suc i \<le> j \<and> j < k \<longrightarrow> ready_at decode fetch j = None)
         | NotReady _ _ \<Rightarrow> \<forall>j. Suc i \<le> j \<and> j \<le> n \<longrightarrow> ready_at decode fetch j = None"
        using Suc.IH [of "Suc i" raw] by auto
      then show ?thesis unfolding w using None by (cases r) (auto simp: earlier)
    qed
  qed
qed simp

theorem readiness_decided:
  assumes "expired n" and "\<And>j. j < n \<Longrightarrow> \<not> expired j" and "n < fuel"
  shows "\<exists>r. waitForDeploymentReadiness fuel decode fetch expired = Some r \<and>
    ((\<exists>uris raw. r = Ready uris raw) \<longleftrightarrow> (\<exists>k \<le> n. ready_at decode fetch k \<noteq> None))"
proof -
  obtain r where r: "waitForDeploymentReadiness fuel decode fetch expired = Some r"
    "case r of
       Ready uris raw \<Rightarrow> \<exists>k. 0 \<le> k \<and> k \<le> n \<and> fetch k = Inr raw \<and> ready_at decode fetch k = Some uris \<and> (\<forall>j. 0 \<le> j \<and> j < k \<longrightarrow> ready_at decode fetch j = None)
     | NotReady _ _ \<Rightarrow> \<forall>j. 0 \<le> j \<and> j \<le> n \<longrightarrow> ready_at decode fetch j = None"
    using wait_ready_result [of expired n 0 fuel decode fetch "[]"] assms by (auto simp: waitForDeploymentReadiness_def)
  then show ?thesis by (cases r) auto
qed

end
