(* ===== verification/Workflow_Examples.thy ===== *)
theory Workflow_Examples
  imports Workflow_Params Workflow_Props Adapter_Props
begin

text \<open>A Console context, an SDL with one group priced in \<open>uact\<close>, and the automatic deposit.\<close>

definition one_group_lib :: "(string, string, string) sdl_lib" where
  "one_group_lib = plain_lib\<lparr>sdGroups := (\<lambda>_. Inr [''web''])\<rparr>"

definition plain_sdk :: sdk where
  "plain_sdk = \<lparr>ParseDecCoin = (\<lambda>s. if s = ''5uact'' then Some (''uact'', ''5'') else None), ParseCoinNormalized = Some, AccAddressFromBech32 = Some\<rparr>"

definition plain_env :: "(string, string, string, nat) wp_env" where
  "plain_env = \<lparr>wpYaml = sample_yaml, wpSDL = one_group_lib, wpSdk = plain_sdk, wpDeps = sample_deps, wpOS = good_os,
     wpOpen = (\<lambda>_. True), wpFiles = Map.empty\<rparr>"

definition console_context :: Context where
  "console_context = zero_context\<lparr>cAuthMethod := AuthMethodConsoleAPI\<rparr>"

definition auto_params :: params where
  "auto_params = [''deposit'' \<mapsto> PText [], ''sdl-file'' \<mapsto> PText ''a.yaml'']"

lemma auto_params_resolve:
  "resolveWorkflowParams plain_env (Inr open_node) (Some console_context) auto_params = Inr auto_params"
proof -
  have "trim_space [] = []" "trim_space ''a.yaml'' = ''a.yaml''" by code_simp+
  then show ?thesis
    by (simp add: resolveWorkflowParams_def resolved_deposit_def on_console_def console_context_def text_param_def auto_params_def
        ParseDeposit_def RailValue_def KindChain_def KindConsole_def zero_deposit_def plain_env_def validateDeploymentDenominations_def
        text_or_empty_def one_group_lib_def plain_lib_def fun_upd_twist)
qed

text \<open>The same on the chain rail, with the SDL in a file: the automatic deposit becomes the minimum of the network.\<close>

definition chain_env :: "(string, string, string, nat) wp_env" where
  "chain_env = plain_env\<lparr>wpFiles := [''a.yaml'' \<mapsto> File 420 ''a'']\<rparr>"

lemma chain_params_resolve:
  "resolveWorkflowParams chain_env (Inr open_node) (Some zero_context) auto_params = Inr (auto_params(''deposit'' \<mapsto> PText ''5uact''))"
proof -
  have trim: "trim_space [] = []" "trim_space ''a.yaml'' = ''a.yaml''" "trim_space ''5uact'' = ''5uact''" by code_simp+
  have "\<not> hasReference (JObj (sample_doc ''a''))" by code_simp
  then have "HasReferences sample_yaml ''a'' = Inr False" using sample_parse [of "''a''"] by (simp add: HasReferences_def)
  then have "chain_inputs_problem chain_env auto_params zero_context = None"
    by (simp add: chain_inputs_problem_def text_param_def flag_param_def auto_params_def text_or_empty_def chain_env_def plain_env_def
        ReadFile_def good_os_def)
  with trim show ?thesis
    by (simp add: resolveWorkflowParams_def resolved_deposit_def on_console_def zero_context_def text_param_def auto_params_def
        ParseDeposit_def RailValue_def KindChain_def KindConsole_def zero_deposit_def chain_env_def plain_env_def validateDeploymentDenominations_def
        text_or_empty_def one_group_lib_def plain_lib_def ResolveChainDepositValue_def outside_def plain_sdk_def depositAuto_def AuthMethodConsoleAPI_def)
qed

theorem denominations_match_witness:
  "(\<exists>d. text_param auto_params ''deposit'' = Some d \<and> d = [] \<and> list_all (\<lambda>g. sdGroupDenom (wpSDL plain_env) g = ''uact'') [''web'']) \<and>
   (\<exists>d. text_param (auto_params(''deposit'' \<mapsto> PText ''5uact'')) ''deposit'' = Some d \<and> chain_deposit plain_sdk (Inr open_node) [] d \<and>
     (\<exists>denom amount. ParseDecCoin plain_sdk d = Some (denom, amount) \<and> list_all (\<lambda>g. sdGroupDenom (wpSDL chain_env) g = denom) [''web'']))"
proof
  have path: "trim_space ''a.yaml'' \<noteq> []" by code_simp
  then show "\<exists>d. text_param auto_params ''deposit'' = Some d \<and> d = [] \<and> list_all (\<lambda>g. sdGroupDenom (wpSDL plain_env) g = ''uact'') [''web'']"
    using denominations_match [OF auto_params_resolve, of "[]" "''a.yaml''" "''a.yaml''" "[''web'']"]
    by (simp add: text_param_def auto_params_def plain_env_def one_group_lib_def plain_lib_def on_console_def console_context_def)
  show "\<exists>d. text_param (auto_params(''deposit'' \<mapsto> PText ''5uact'')) ''deposit'' = Some d \<and> chain_deposit plain_sdk (Inr open_node) [] d \<and>
     (\<exists>denom amount. ParseDecCoin plain_sdk d = Some (denom, amount) \<and> list_all (\<lambda>g. sdGroupDenom (wpSDL chain_env) g = denom) [''web''])"
    using denominations_match [OF chain_params_resolve, of "[]" "''a.yaml''" "''a.yaml''" "[''web'']"] path
    by (simp add: text_param_def auto_params_def chain_env_def plain_env_def one_group_lib_def plain_lib_def on_console_def zero_context_def AuthMethodConsoleAPI_def)
qed

end
