(* ===== verification/Spec2Isabelle.thy ===== *)
theory Spec2Isabelle
  imports Store_Transfer Store_Refinement Sync_Props Chain_Querier Context_Data Action_Log_Props Workflow_Props Deployment_Examples
    Transport Console_Props Console_Listing Console_Manifests Run_Record_Props Command_Gating
    Adapter_Props Keyring_Props Monitor_Props Monitor_Consensus
    Console_Adapter Chain_Query_Props Chain_Tx Lease_Scope Tx_Fees Workflow_Examples
begin

text \<open>
  A verification of the core of \<open>akt\<close>, the command line client of the Akash network.

  \<^bold>\<open>The program.\<close>  \<open>akt\<close> keeps, per context (a network, a keyring, an account), a local database
  of deployments, leases and bids, a log of the actions it performed and the configuration
  that names the contexts.  A sync engine copies chain state into the database, from events
  and by reconciliation; workflows drive transactions, queries and provider calls step by
  step and record each step in the action log.  Transactions go to the chain or, for accounts
  managed by the Console service, through its HTTP API; a deployment's manifest is edited
  by patches.  Commands, terminal interface and chain client sit on top of these packages.

  \<^bold>\<open>Theories and the code they model.\<close>
  \<^item> \<open>Akt_Prelude\<close>: results (\<open>rbind\<close>, \<open>foldM\<close>: Go's early return), folds, sorted rows.
    \<open>Go_Strings\<close>: the functions of \<open>strings\<close> and \<open>strconv\<close> that the code calls, on bytes.
    \<open>Go_Files\<close>: \<open>path/filepath\<close> and a file system with modes, and which calls of the operating
    system fail as a parameter.  \<open>Go_Json\<close>: the values of \<open>encoding/json\<close>.
  \<^item> \<open>Store_Types\<close> (\<open>src/internal/store/store.go\<close>): records, keys, filters, \<open>UniqueDeploymentOwner\<close>.
    \<open>Bolt_Store\<close> (\<open>bbolt/store.go\<close>, \<open>migrate.go\<close>, \<open>open.go\<close>): a database is a map from buckets to
    sorted rows, a transaction a function that returns the new database or an error, and
    every method of \<open>BoltStore\<close> a definition.  \<open>Store_Export\<close> (\<open>bbolt/export.go\<close>): envelope,
    export, import, validation, dry run.
  \<^item> \<open>Store_Laws\<close>, \<open>Store_Env\<close>, \<open>Store_Props\<close>: the locale \<open>record_table\<close>, the contract of a table of
    versioned records, and \<open>store_env\<close>, what the store needs of its JSON codec; three
    sublocales show that deployments, leases and bids meet the contract.  \<open>Store_Spec\<close> and
    \<open>Store_Transfer\<close> state the properties: put and get, listing, atomic closing, revisions,
    migrations, export and import, reachable databases.  \<open>Store_Refinement\<close> has an abstract store
    of three maps and shows that every run of the bbolt store is a run of it.
  \<^item> \<open>Sync_Engine\<close> (\<open>src/internal/sync/engine.go\<close>, \<open>reconcile.go\<close>): the event handlers and the
    reconciliation over any store, a record of operations as the Go interface is.
    \<open>Sync_Laws\<close> has the contract as the locale \<open>sync_store\<close>; \<open>Sync_Props\<close> shows that the bbolt store
    meets it and derives the properties.  \<open>Chain_Querier\<close> (\<open>querier.go\<close>): pagination and
    conversion of chain responses.
  \<^item> \<open>Context_Files\<close> (\<open>src/internal/context/config.go\<close>, \<open>credentials.go\<close>), \<open>Context_Manager\<close>
    (\<open>types.go\<close>, \<open>defaults.go\<close>, \<open>manager.go\<close>): the configuration, its file and the data
    directories; \<open>Context_Props\<close> and \<open>Context_Data\<close> show the invariant of the manager, the guards,
    atomic edits, and where data and credentials go.
  \<^item> \<open>Action_Log\<close> (\<open>src/internal/actionlog/log.go\<close>): append, rotation, reading, collapsing of
    transaction revisions; \<open>Action_Log_Props\<close> relates them to the history of the log.
  \<^item> \<open>Workflow_Types\<close>, \<open>Workflow_Engine\<close>, \<open>Workflow_Steps\<close> (\<open>src/internal/workflow\<close> and its \<open>steps\<close>):
    definitions, templates, the run loop with retries, the loader and the eight executors.
    \<open>Workflow_Props\<close> has the contract of a registry as the locale \<open>step_registry\<close>, interpreted on
    \<open>NewRegistry\<close>, and the properties of runs, waits, prompts and the loader.
  \<^item> \<open>Deployment_Patch\<close>, \<open>Deployment_Apply\<close> (\<open>src/internal/deploymentconfig\<close>): the reading of a manifest
    through its YAML tree, patches, their application and their derivation from two
    manifests.  \<open>Deployment_Props\<close> and \<open>Deployment_Diff\<close> show that a patch changes what it names and
    nothing else and that a derived patch gives the requested manifest; the witnesses are in
    \<open>Deployment_Examples\<close>.
  \<^item> \<open>Transport\<close> (\<open>src/internal/transport\<close>): deposits and what each rail makes of them.
  \<^item> \<open>Console_Client\<close>, \<open>Console_Types\<close>, \<open>Console_Deployments\<close>, \<open>Console_Updates\<close>, \<open>Console_Leases\<close>,
    \<open>Console_Catalog\<close>, \<open>Console_Manifests\<close> (\<open>src/internal/console\<close>): the HTTP client of the Console API
    in the state monad, over a network that is a parameter, with the requests sent and the
    entries logged as traces.  \<open>Console_Frames\<close> has the locale \<open>frame\<close> for calls that respect a
    relation of states, interpreted for the log and for the requests, and counts the requests
    of a call; \<open>Console_Audit\<close> has the rules for what a call logs; \<open>Console_Props\<close>, \<open>Console_Results\<close> and
    \<open>Console_Listing\<close> state the properties: no replay, the audit trail, redaction, confirmed
    results, opaque errors, listings.
  \<^item> \<open>Run_Record\<close> (\<open>src/internal/cli/workflow/persist.go\<close>): what a finished run writes into the store.
    \<open>Run_Record_Props\<close> has the locale \<open>run_store\<close>, an extension of \<open>sync_store\<close>, and what deploy, update and
    close runs leave in the store.
  \<^item> \<open>Command_Gating\<close> (\<open>src/internal/capability\<close>, \<open>src/internal/cli/gating.go\<close>, start-up of \<open>root.go\<close>): which
    commands a configuration can run; help and execution agree.
  \<^item> \<open>Deployment_Inputs\<close>, \<open>Chain_Adapter\<close>, \<open>Provider_Adapter\<close> (\<open>src/internal/workflow/adapters\<close>): how a
    transaction step becomes a message and a provider step a delivery.  \<open>Adapter_Props\<close> shows that a step
    broadcasts once, that what is delivered is what was committed to, and that all active
    leases are served.  \<open>Console_Adapter\<close> routes the same steps to the Console client and shows that the
    two rails read their parameters in the same way.
  \<^item> \<open>Chain_Args\<close> (\<open>src/internal/cli/chain/flags\<close>): paths, sequences, states and identifiers in arguments.
    \<open>Chain_Queries\<close>, \<open>Chain_Tx\<close> (\<open>src/internal/cli/chain\<close>): the query and transaction commands on deployments,
    groups, orders, bids, leases, certificates and escrow, each with the request or message it sends.
    \<open>Chain_Query_Props\<close> has the grammar of the paths, the scope of the requests and the meaning of a
    state argument; \<open>Chain_Tx\<close> shows that a message acts on the deployment that was named.
  \<^item> \<open>Tx_Fees\<close> (\<open>root.go\<close>, \<open>flags/client.go\<close>): the source of the fee and the floor of the network's gas prices.
  \<^item> \<open>Workflow_Params\<close> (\<open>src/internal/cli/workflow/params.go\<close>, \<open>commands.go\<close>): validation and resolution of a workflow's
    parameters on the rail of its context, and the wait for a deployment to be ready; witness in \<open>Workflow_Examples\<close>.
  \<^item> \<open>Lease_Scope\<close> (\<open>src/internal/cli/provider/lease.go\<close>): the lease and the gateway a provider command talks to.
  \<^item> \<open>Keyring_Manager\<close> (\<open>src/internal/keyring\<close>): backends, the cache of opened keyrings, deferred keyrings;
    \<open>Keyring_Props\<close> shows that a keyring is always what the configuration says.
  \<^item> \<open>Monitor_Cache\<close>, \<open>Monitor_Consensus\<close> (\<open>src/internal/monitor/cache\<close>, \<open>consensus\<close>): the provider and moniker
    caches and the parsing of the consensus state; \<open>Monitor_Props\<close> shows the schedule of checks.

  \<^bold>\<open>Conventions.\<close>  Errors are values; a method that mutates returns the new state.  A Go
  string is a list of bytes, \<open>uint64\<close> and \<open>uint32\<close> are words, an \<open>int64\<close> that can overflow is written out.
  A Go map that is iterated over is a list of pairs in the order of the iteration.  Code
  outside the repository (bbolt, JSON and YAML codecs, bech32, gRPC, text templates, clock,
  operating system) is a parameter; the hypotheses on it are named, and each property that
  has one has a witness with a concrete instance.

  \<^bold>\<open>Loops.\<close>  Trimming of spaces has the length of the string as fuel, which is enough by
  \<open>trim_fuel_done\<close>.  The paginated queries have a fuel, shown to be enough for every finite
  chain of pages; the loop over the pages of leases also ends on any node with finitely many page
  keys (\<open>lease_pages_ends\<close>, \<open>chain_lease_pages_ends\<close>).  The loop of a wait step takes a number of rounds, shown to be enough
  when it exceeds the ticks the deadline lets through; the wait for readiness likewise (\<open>readiness_decided\<close>).  The reconciliation of a close and of a
  lease takes a number of polls, and gives \<open>None\<close> when they are used up; the properties hold
  for every number.  The reader of YAML trees stops at depth 64, as the code does.  All other
  loops are structural.

  \<^bold>\<open>Not modelled.\<close>  The other Cobra commands, the terminal interface, the dashboard and the RPC clients of the
  node monitor, the MCP server and the provider gateway are input and output around the packages
  above, or rest on message types that are not in the sources; loading of the configuration goes through viper and a YAML
  decoder.
\<close>

end
